(* ===== verification/Prelude.thy ===== *)
theory Prelude
  imports Main
begin

text \<open>
  Shared vocabulary of the development: JavaScript errors and values, objects as ordered
  association lists, the effects of the scripts (transactions, contract deployments, view calls,
  the JSON database, the Etherscan task runner) as a failing state monad over a history of
  requests, loops in that monad, and generic lemmas on lists.

  Everything outside the repository (the node, ethers, hardhat, lowdb, the Etherscan plugin) is a
  field of the record \<open>runtime\<close>: a function from the history so far to an answer. Nothing is
  assumed of these functions here; a theorem that relies on documented behaviour of one of them
  states it as a hypothesis.
\<close>

named_theorems io_simps "evaluation of the effect combinators on a history"
named_theorems trace_simps "which events an operation appends"
named_theorems succ_elims "successful runs taken apart"

section \<open>JavaScript values and errors\<close>

text \<open>\<open>JsExit\<close> is \<open>process.exit(n)\<close>: it ends the run and no \<open>catch\<close> sees it.\<close>

datatype js_error =
    JsError string
  | JsTypeError string
  | JsThrown string
  | JsRejected string
  | JsExit int

text \<open>
  \<open>error.message\<close> of the value a \<open>catch\<close> clause receives: a thrown string has no \<open>message\<close>.
\<close>

fun err_message :: "js_error \<Rightarrow> string option" where
  "err_message (JsError m) = Some m"
| "err_message (JsTypeError m) = Some m"
| "err_message (JsThrown m) = None"
| "err_message (JsRejected m) = Some m"
| "err_message (JsExit n) = None"

text \<open>Arguments of transactions and constructors, and results of view calls.\<close>

datatype js_val =
    VUndef
  | VNull
  | VStr string
  | VNum int
  | VBool bool
  | VList "js_val list"
  | VObj "(string \<times> js_val) list"

text \<open>Truthiness, and the field \<open>v.f\<close> of a result.\<close>

fun js_truthy :: "js_val \<Rightarrow> bool" where
  "js_truthy VUndef = False"
| "js_truthy VNull = False"
| "js_truthy (VStr s) = (s \<noteq> '''')"
| "js_truthy (VNum n) = (n \<noteq> 0)"
| "js_truthy (VBool b) = b"
| "js_truthy (VList vs) = True"
| "js_truthy (VObj fs) = True"

fun val_field :: "js_val \<Rightarrow> string \<Rightarrow> js_error + js_val" where
  "val_field VUndef f = Inl (JsTypeError (''Cannot read property '' @ f @ '' of undefined''))"
| "val_field VNull f = Inl (JsTypeError (''Cannot read property '' @ f @ '' of null''))"
| "val_field (VObj fs) f = Inr (case map_of fs f of None \<Rightarrow> VUndef | Some v \<Rightarrow> v)"
| "val_field _ f = Inr VUndef"

text \<open>An optional string parameter (\<open>undefined\<close> or a string) and the test \<open>if (s)\<close>.\<close>

definition truthy :: "string option \<Rightarrow> bool" where
  "truthy s \<longleftrightarrow> s \<noteq> None \<and> s \<noteq> Some ''''"

definition opt_val :: "string option \<Rightarrow> js_val" where
  "opt_val s = (case s of None \<Rightarrow> VUndef | Some x \<Rightarrow> VStr x)"

lemma truthy_simps [simp]:
  "\<not> truthy None" "truthy (Some s) \<longleftrightarrow> s \<noteq> ''''"
  by (simp_all add: truthy_def)

lemma truthy_Some: "truthy s \<Longrightarrow> \<exists>x. s = Some x \<and> x \<noteq> ''''"
  by (cases s) simp_all

lemma opt_val_simps [simp]: "opt_val None = VUndef" "opt_val (Some x) = VStr x"
  by (simp_all add: opt_val_def)

text \<open>\<open>s.includes(t)\<close>\<close>

fun str_includes :: "string \<Rightarrow> string \<Rightarrow> bool" where
  "str_includes [] t \<longleftrightarrow> t = []"
| "str_includes (c # s) t \<longleftrightarrow> take (length t) (c # s) = t \<or> str_includes s t"

lemma str_includes_iff: "str_includes s t \<longleftrightarrow> (\<exists>a b. s = a @ t @ b)"
proof (induction s)
  case Nil
  then show ?case by auto
next
  case (Cons c s)
  have "take (length t) (c # s) = t \<longleftrightarrow> (\<exists>b. c # s = t @ b)"
    by (metis append_eq_conv_conj)
  moreover have "(\<exists>a b. c # s = a @ t @ b) \<longleftrightarrow> (\<exists>b. c # s = t @ b) \<or> (\<exists>a b. s = a @ t @ b)"
    by (metis append_Cons append_Nil neq_Nil_conv list.inject)
  ultimately show ?case using Cons.IH by simp
qed

text \<open>\<open>s.toUpperCase()\<close> on ASCII\<close>

definition upper_char :: "char \<Rightarrow> char" where
  "upper_char c = (let n = of_char c :: nat in if 97 \<le> n \<and> n \<le> 122 then char_of (n - 32) else c)"

definition to_upper :: "string \<Rightarrow> string" where
  "to_upper s = map upper_char s"

section \<open>Objects as ordered association lists\<close>

text \<open>
  A JavaScript object with string keys: \<open>Object.entries\<close> is the list itself and
  \<open>Object.keys\<close> its first components, in insertion order (the keys of this program are
  symbols and contract names, never integer-like, so insertion order is the enumeration order).
\<close>

type_synonym 'v js_obj = "(string \<times> 'v) list"

definition obj_keys :: "'v js_obj \<Rightarrow> string list" where
  "obj_keys ob = map fst ob"

definition obj_get :: "'v js_obj \<Rightarrow> string \<Rightarrow> 'v option" where
  "obj_get ob k = map_of ob k"

text \<open>\<open>ob[k] = v\<close>: overwrite in place, or append a new key.\<close>

fun obj_set :: "'v js_obj \<Rightarrow> string \<Rightarrow> 'v \<Rightarrow> 'v js_obj" where
  "obj_set [] k v = [(k, v)]"
| "obj_set ((k', v') # ob) k v = (if k' = k then (k', v) # ob else (k', v') # obj_set ob k v)"

text \<open>\<open>{ ...ob, ...other }\<close> and the rest pattern \<open>const { a, b, ...rest } = ob\<close>.\<close>

definition obj_spread :: "'v js_obj \<Rightarrow> 'v js_obj \<Rightarrow> 'v js_obj" where
  "obj_spread ob other = foldl (\<lambda>acc (k, v). obj_set acc k v) ob other"

text \<open>An object literal whose keys may repeat: the later value wins, in the earlier place.\<close>

definition obj_lit :: "'v js_obj \<Rightarrow> 'v js_obj" where
  "obj_lit ps = obj_spread [] ps"

definition obj_omit :: "string list \<Rightarrow> 'v js_obj \<Rightarrow> 'v js_obj" where
  "obj_omit ks ob = filter (\<lambda>(k, v). k \<notin> set ks) ob"

text \<open>\<open>findIndex\<close>: \<open>None\<close> stands for the result \<open>-1\<close>.\<close>

fun find_index :: "('a \<Rightarrow> bool) \<Rightarrow> 'a list \<Rightarrow> nat option" where
  "find_index p [] = None"
| "find_index p (x # xs) = (if p x then Some 0 else map_option Suc (find_index p xs))"

text \<open>
  The idiom \<open>const i = Object.keys(o).findIndex((x) => x === k);
  const [, v] = Object.entries(o)[i]\<close>: with \<open>i = -1\<close> the destructuring of \<open>undefined\<close>
  throws a TypeError.
\<close>

definition entry_at :: "'v js_obj \<Rightarrow> string \<Rightarrow> js_error + 'v" where
  "entry_at ob k =
     (case find_index (\<lambda>x. x = k) (obj_keys ob) of
        None \<Rightarrow> Inl (JsTypeError ''undefined is not iterable'')
      | Some i \<Rightarrow> if i < length ob then Inr (snd (ob ! i))
                  else Inl (JsTypeError ''undefined is not iterable''))"

lemma obj_keys_simps [simp]:
  "obj_keys [] = []" "obj_keys (p # ob) = fst p # obj_keys ob"
  "obj_keys (a @ b) = obj_keys a @ obj_keys b" "length (obj_keys ob) = length ob"
  by (simp_all add: obj_keys_def)

lemma obj_get_set: "obj_get (obj_set ob k v) = (obj_get ob)(k \<mapsto> v)"
  by (induction ob k v rule: obj_set.induct) (auto simp: obj_get_def fun_eq_iff)

lemma obj_get_set_same [simp]: "obj_get (obj_set ob k v) k = Some v"
  by (simp add: obj_get_set)

lemma obj_get_set_other [simp]: "k' \<noteq> k \<Longrightarrow> obj_get (obj_set ob k v) k' = obj_get ob k'"
  by (simp add: obj_get_set)

lemma obj_keys_set: "obj_keys (obj_set ob k v) =
    (if k \<in> set (obj_keys ob) then obj_keys ob else obj_keys ob @ [k])"
  by (induction ob k v rule: obj_set.induct) auto

lemma obj_set_fresh: "k \<notin> set (obj_keys ob) \<Longrightarrow> obj_set ob k v = ob @ [(k, v)]"
  by (induction ob k v rule: obj_set.induct) auto

lemma distinct_obj_set: "distinct (obj_keys ob) \<Longrightarrow> distinct (obj_keys (obj_set ob k v))"
  by (simp add: obj_keys_set)

lemma obj_get_None_iff: "obj_get ob k = None \<longleftrightarrow> k \<notin> set (obj_keys ob)"
  by (simp add: obj_get_def obj_keys_def map_of_eq_None_iff)

lemma obj_get_omit: "obj_get (obj_omit ks ob) k = (if k \<in> set ks then None else obj_get ob k)"
  by (induction ob) (auto simp: obj_get_def obj_omit_def)

lemma obj_keys_omit: "obj_keys (obj_omit ks ob) = filter (\<lambda>k. k \<notin> set ks) (obj_keys ob)"
  by (induction ob) (auto simp: obj_omit_def)

lemma find_index_keys:
  "find_index (\<lambda>x. x = k) (obj_keys ob) = Some i \<Longrightarrow> i < length ob \<and> obj_get ob k = Some (snd (ob ! i))"
proof (induction ob arbitrary: i)
  case Nil
  then show ?case by simp
next
  case (Cons p ob)
  then show ?case by (cases p) (auto simp: obj_get_def split: if_splits)
qed

lemma find_index_keys_None:
  "find_index (\<lambda>x. x = k) (obj_keys ob) = None \<longleftrightarrow> obj_get ob k = None"
  by (induction ob) (auto simp: obj_get_def)

text \<open>The index idiom is a lookup by key that throws on a missing key.\<close>

lemma entry_at_eq:
  "entry_at ob k = (case obj_get ob k of
      None \<Rightarrow> Inl (JsTypeError ''undefined is not iterable'') | Some v \<Rightarrow> Inr v)"
proof (cases "find_index (\<lambda>x. x = k) (obj_keys ob)")
  case None
  then show ?thesis using find_index_keys_None [of k ob] by (simp add: entry_at_def)
next
  case (Some i)
  then show ?thesis using find_index_keys [OF Some] by (simp add: entry_at_def)
qed

section \<open>Sum-typed results without effects\<close>

text \<open>\<open>Array.map\<close> with a callback that may throw: left to right, the first error wins.\<close>

fun map_try :: "('a \<Rightarrow> js_error + 'b) \<Rightarrow> 'a list \<Rightarrow> js_error + 'b list" where
  "map_try f [] = Inr []"
| "map_try f (x # xs) =
     (case f x of Inl e \<Rightarrow> Inl e
      | Inr y \<Rightarrow> (case map_try f xs of Inl e \<Rightarrow> Inl e | Inr ys \<Rightarrow> Inr (y # ys)))"

lemma map_try_Inr: "map_try f xs = Inr ys \<longleftrightarrow> map f xs = map Inr ys"
proof (induction xs arbitrary: ys)
  case Nil
  then show ?case by auto
next
  case (Cons x xs)
  show ?case
  proof (cases "map_try f xs")
    case (Inl e)
    have "\<not> map f xs = map Inr zs" for zs using Cons.IH [of zs] Inl by simp
    then show ?thesis using Inl by (cases ys) (auto split: sum.splits)
  next
    case (Inr zs)
    then have eq: "map f xs = map Inr zs" using Cons.IH by blast
    have "map Inr zs = map Inr us \<longleftrightarrow> zs = us" for us
      by (simp add: inj_map_eq_map inj_def)
    then show ?thesis using Inr eq by (cases ys) (auto split: sum.splits)
  qed
qed

lemma map_try_total: "(\<And>x. x \<in> set xs \<Longrightarrow> f x = Inr (g x)) \<Longrightarrow> map_try f xs = Inr (map g xs)"
  by (induction xs) auto

lemma map_try_Inl: "x \<in> set xs \<Longrightarrow> f x = Inl e \<Longrightarrow> \<exists>e'. map_try f xs = Inl e'"
  by (induction xs) (auto split: sum.splits)

end
