(* ===== verification/Types.thy ===== *)
theory Types
  imports Prelude
begin

text \<open>
  The types of \<open>helpers/types.ts\<close>: networks, pools, contract ids, token symbols, rate modes and
  error codes as datatypes with the string value of each member, the reserve and rate-strategy
  parameters and the market configuration as records. \<open>DRE.network.name\<close> is a string at run time,
  so networks are compared through their string values.

  The properties show that the string values identify the members where the code uses them as
  keys, and record one copy-and-paste slip in the error table.
\<close>

section \<open>Networks and pools\<close>

datatype eEthereumNetwork =
    Eth_buidlerevm
  | Eth_kovan
  | Eth_ropsten
  | Eth_main
  | Eth_coverage
  | Eth_hardhat
  | Eth_tenderlyMain

primrec eth_network :: "eEthereumNetwork \<Rightarrow> string" where
  "eth_network Eth_buidlerevm = ''buidlerevm''"
| "eth_network Eth_kovan = ''kovan''"
| "eth_network Eth_ropsten = ''ropsten''"
| "eth_network Eth_main = ''main''"
| "eth_network Eth_coverage = ''coverage''"
| "eth_network Eth_hardhat = ''hardhat''"
| "eth_network Eth_tenderlyMain = ''tenderlyMain''"

datatype eCeloNetwork =
    Celo_celo
  | Celo_alfajores

primrec celo_network :: "eCeloNetwork \<Rightarrow> string" where
  "celo_network Celo_celo = ''celo''"
| "celo_network Celo_alfajores = ''alfajores''"

datatype ePolygonNetwork =
    Polygon_matic
  | Polygon_mumbai

primrec polygon_network :: "ePolygonNetwork \<Rightarrow> string" where
  "polygon_network Polygon_matic = ''matic''"
| "polygon_network Polygon_mumbai = ''mumbai''"

datatype eXDaiNetwork =
    XDai_xdai

primrec xdai_network :: "eXDaiNetwork \<Rightarrow> string" where
  "xdai_network XDai_xdai = ''xdai''"

datatype eNetwork =
    NetEthereum eEthereumNetwork
  | NetPolygon ePolygonNetwork
  | NetXDai eXDaiNetwork
  | NetCelo eCeloNetwork

fun network_str :: "eNetwork \<Rightarrow> string" where
  "network_str (NetEthereum n) = eth_network n"
| "network_str (NetPolygon n) = polygon_network n"
| "network_str (NetXDai n) = xdai_network n"
| "network_str (NetCelo n) = celo_network n"

definition EthereumNetworkNames :: "string js_obj" where
  "EthereumNetworkNames =
    [(''kovan'', ''kovan''),
     (''ropsten'', ''ropsten''),
     (''main'', ''main''),
     (''matic'', ''matic''),
     (''mumbai'', ''mumbai''),
     (''xdai'', ''xdai''),
     (''celo'', ''celo''),
     (''alfajores'', ''alfajores'')]"

datatype AavePools =
    Pool_proto
  | Pool_matic
  | Pool_amm
  | Pool_moola

primrec pool_str :: "AavePools \<Rightarrow> string" where
  "pool_str Pool_proto = ''proto''"
| "pool_str Pool_matic = ''matic''"
| "pool_str Pool_amm = ''amm''"
| "pool_str Pool_moola = ''moola''"

definition all_networks :: "eNetwork list" where
  "all_networks =
    [NetEthereum Eth_buidlerevm,
     NetEthereum Eth_kovan,
     NetEthereum Eth_ropsten,
     NetEthereum Eth_main,
     NetEthereum Eth_coverage,
     NetEthereum Eth_hardhat,
     NetEthereum Eth_tenderlyMain,
     NetPolygon Polygon_matic,
     NetPolygon Polygon_mumbai,
     NetXDai XDai_xdai,
     NetCelo Celo_celo,
     NetCelo Celo_alfajores]"

definition all_pools :: "AavePools list" where
  "all_pools = [Pool_proto, Pool_matic, Pool_amm, Pool_moola]"

section \<open>Contract ids, token symbols, rate modes, error codes\<close>

datatype (plugins only: code) eContractid =
    Id_Example
  | Id_LendingPoolAddressesProvider
  | Id_MintableERC20
  | Id_MintableDelegationERC20
  | Id_LendingPoolAddressesProviderRegistry
  | Id_LendingPoolParametersProvider
  | Id_LendingPoolConfigurator
  | Id_ValidationLogic
  | Id_ReserveLogic
  | Id_GenericLogic
  | Id_LendingPool
  | Id_PriceOracle
  | Id_Proxy
  | Id_MockAggregator
  | Id_LendingRateOracle
  | Id_AaveOracle
  | Id_DefaultReserveInterestRateStrategy
  | Id_LendingPoolCollateralManager
  | Id_LendingPoolCollateralManagerWithReserve
  | Id_InitializableAdminUpgradeabilityProxy
  | Id_MockFlashLoanReceiver
  | Id_WalletBalanceProvider
  | Id_AToken
  | Id_MockAToken
  | Id_DelegationAwareAToken
  | Id_MockStableDebtToken
  | Id_MockVariableDebtToken
  | Id_AaveProtocolDataProvider
  | Id_IERC20Detailed
  | Id_StableDebtToken
  | Id_VariableDebtToken
  | Id_FeeProvider
  | Id_TokenDistributor
  | Id_StableAndVariableTokensHelper
  | Id_ATokensAndRatesHelper
  | Id_UiPoolDataProvider
  | Id_WETHGateway
  | Id_WETH
  | Id_WETHMocked
  | Id_SelfdestructTransferMock
  | Id_LendingPoolImpl
  | Id_LendingPoolConfiguratorImpl
  | Id_LendingPoolCollateralManagerImpl
  | Id_LendingPoolCollateralManagerWithReserveImpl
  | Id_MockUniswapV2Router02
  | Id_UniswapLiquiditySwapAdapter
  | Id_UniswapRepayAdapter
  | Id_AutoRepay
  | Id_LeverageBorrowAdapter
  | Id_FlashLiquidationAdapter
  | Id_CREALConfiguratorAlfajores
  | Id_CREALConfiguratorCelo
  | Id_MOOConfiguratorAlfajores
  | Id_MOOConfiguratorCelo

primrec contract_id :: "eContractid \<Rightarrow> string" where
  "contract_id Id_Example = ''Example''"
| "contract_id Id_LendingPoolAddressesProvider = ''LendingPoolAddressesProvider''"
| "contract_id Id_MintableERC20 = ''MintableERC20''"
| "contract_id Id_MintableDelegationERC20 = ''MintableDelegationERC20''"
| "contract_id Id_LendingPoolAddressesProviderRegistry = ''LendingPoolAddressesProviderRegistry''"
| "contract_id Id_LendingPoolParametersProvider = ''LendingPoolParametersProvider''"
| "contract_id Id_LendingPoolConfigurator = ''LendingPoolConfigurator''"
| "contract_id Id_ValidationLogic = ''ValidationLogic''"
| "contract_id Id_ReserveLogic = ''ReserveLogic''"
| "contract_id Id_GenericLogic = ''GenericLogic''"
| "contract_id Id_LendingPool = ''LendingPool''"
| "contract_id Id_PriceOracle = ''PriceOracle''"
| "contract_id Id_Proxy = ''Proxy''"
| "contract_id Id_MockAggregator = ''MockAggregator''"
| "contract_id Id_LendingRateOracle = ''LendingRateOracle''"
| "contract_id Id_AaveOracle = ''AaveOracle''"
| "contract_id Id_DefaultReserveInterestRateStrategy = ''DefaultReserveInterestRateStrategy''"
| "contract_id Id_LendingPoolCollateralManager = ''LendingPoolCollateralManager''"
| "contract_id Id_LendingPoolCollateralManagerWithReserve = ''LendingPoolCollateralManagerWithReserve''"
| "contract_id Id_InitializableAdminUpgradeabilityProxy = ''InitializableAdminUpgradeabilityProxy''"
| "contract_id Id_MockFlashLoanReceiver = ''MockFlashLoanReceiver''"
| "contract_id Id_WalletBalanceProvider = ''WalletBalanceProvider''"
| "contract_id Id_AToken = ''AToken''"
| "contract_id Id_MockAToken = ''MockAToken''"
| "contract_id Id_DelegationAwareAToken = ''DelegationAwareAToken''"
| "contract_id Id_MockStableDebtToken = ''MockStableDebtToken''"
| "contract_id Id_MockVariableDebtToken = ''MockVariableDebtToken''"
| "contract_id Id_AaveProtocolDataProvider = ''AaveProtocolDataProvider''"
| "contract_id Id_IERC20Detailed = ''IERC20Detailed''"
| "contract_id Id_StableDebtToken = ''StableDebtToken''"
| "contract_id Id_VariableDebtToken = ''VariableDebtToken''"
| "contract_id Id_FeeProvider = ''FeeProvider''"
| "contract_id Id_TokenDistributor = ''TokenDistributor''"
| "contract_id Id_StableAndVariableTokensHelper = ''StableAndVariableTokensHelper''"
| "contract_id Id_ATokensAndRatesHelper = ''ATokensAndRatesHelper''"
| "contract_id Id_UiPoolDataProvider = ''UiPoolDataProvider''"
| "contract_id Id_WETHGateway = ''WETHGateway''"
| "contract_id Id_WETH = ''WETH''"
| "contract_id Id_WETHMocked = ''WETHMocked''"
| "contract_id Id_SelfdestructTransferMock = ''SelfdestructTransferMock''"
| "contract_id Id_LendingPoolImpl = ''LendingPoolImpl''"
| "contract_id Id_LendingPoolConfiguratorImpl = ''LendingPoolConfiguratorImpl''"
| "contract_id Id_LendingPoolCollateralManagerImpl = ''LendingPoolCollateralManagerImpl''"
| "contract_id Id_LendingPoolCollateralManagerWithReserveImpl = ''LendingPoolCollateralManagerWithReserveImpl''"
| "contract_id Id_MockUniswapV2Router02 = ''MockUniswapV2Router02''"
| "contract_id Id_UniswapLiquiditySwapAdapter = ''UniswapLiquiditySwapAdapter''"
| "contract_id Id_UniswapRepayAdapter = ''UniswapRepayAdapter''"
| "contract_id Id_AutoRepay = ''AutoRepay''"
| "contract_id Id_LeverageBorrowAdapter = ''LeverageBorrowAdapter''"
| "contract_id Id_FlashLiquidationAdapter = ''FlashLiquidationAdapter''"
| "contract_id Id_CREALConfiguratorAlfajores = ''CREALConfiguratorAlfajores''"
| "contract_id Id_CREALConfiguratorCelo = ''CREALConfiguratorCelo''"
| "contract_id Id_MOOConfiguratorAlfajores = ''MOOConfiguratorAlfajores''"
| "contract_id Id_MOOConfiguratorCelo = ''MOOConfiguratorCelo''"

definition all_contract_ids :: "eContractid list" where
  "all_contract_ids =
    [Id_Example, Id_LendingPoolAddressesProvider, Id_MintableERC20,
     Id_MintableDelegationERC20, Id_LendingPoolAddressesProviderRegistry, Id_LendingPoolParametersProvider,
     Id_LendingPoolConfigurator, Id_ValidationLogic, Id_ReserveLogic,
     Id_GenericLogic, Id_LendingPool, Id_PriceOracle,
     Id_Proxy, Id_MockAggregator, Id_LendingRateOracle,
     Id_AaveOracle, Id_DefaultReserveInterestRateStrategy, Id_LendingPoolCollateralManager,
     Id_LendingPoolCollateralManagerWithReserve, Id_InitializableAdminUpgradeabilityProxy, Id_MockFlashLoanReceiver,
     Id_WalletBalanceProvider, Id_AToken, Id_MockAToken,
     Id_DelegationAwareAToken, Id_MockStableDebtToken, Id_MockVariableDebtToken,
     Id_AaveProtocolDataProvider, Id_IERC20Detailed, Id_StableDebtToken,
     Id_VariableDebtToken, Id_FeeProvider, Id_TokenDistributor,
     Id_StableAndVariableTokensHelper, Id_ATokensAndRatesHelper, Id_UiPoolDataProvider,
     Id_WETHGateway, Id_WETH, Id_WETHMocked,
     Id_SelfdestructTransferMock, Id_LendingPoolImpl, Id_LendingPoolConfiguratorImpl,
     Id_LendingPoolCollateralManagerImpl, Id_LendingPoolCollateralManagerWithReserveImpl, Id_MockUniswapV2Router02,
     Id_UniswapLiquiditySwapAdapter, Id_UniswapRepayAdapter, Id_AutoRepay,
     Id_LeverageBorrowAdapter, Id_FlashLiquidationAdapter, Id_CREALConfiguratorAlfajores,
     Id_CREALConfiguratorCelo, Id_MOOConfiguratorAlfajores, Id_MOOConfiguratorCelo]"

text \<open>Enumerations that the code only uses as objects (\<open>Object.keys\<close>, lookup) are objects.\<close>

definition TokenContractId :: "string js_obj" where
  "TokenContractId =
    [(''CELO'', ''CELO''), (''CUSD'', ''CUSD''), (''CEUR'', ''CEUR''),
     (''CREAL'', ''CREAL''), (''MOO'', ''MOO''), (''UBE'', ''UBE''),
     (''DAI'', ''DAI''), (''AAVE'', ''AAVE''), (''TUSD'', ''TUSD''),
     (''BAT'', ''BAT''), (''WETH'', ''WETH''), (''USDC'', ''USDC''),
     (''USDT'', ''USDT''), (''SUSD'', ''SUSD''), (''ZRX'', ''ZRX''),
     (''MKR'', ''MKR''), (''WBTC'', ''WBTC''), (''LINK'', ''LINK''),
     (''KNC'', ''KNC''), (''MANA'', ''MANA''), (''REN'', ''REN''),
     (''SNX'', ''SNX''), (''BUSD'', ''BUSD''), (''USD'', ''USD''),
     (''YFI'', ''YFI''), (''UNI'', ''UNI''), (''ENJ'', ''ENJ''),
     (''UniDAIWETH'', ''UniDAIWETH''), (''UniWBTCWETH'', ''UniWBTCWETH''), (''UniAAVEWETH'', ''UniAAVEWETH''),
     (''UniBATWETH'', ''UniBATWETH''), (''UniDAIUSDC'', ''UniDAIUSDC''), (''UniCRVWETH'', ''UniCRVWETH''),
     (''UniLINKWETH'', ''UniLINKWETH''), (''UniMKRWETH'', ''UniMKRWETH''), (''UniRENWETH'', ''UniRENWETH''),
     (''UniSNXWETH'', ''UniSNXWETH''), (''UniUNIWETH'', ''UniUNIWETH''), (''UniUSDCWETH'', ''UniUSDCWETH''),
     (''UniWBTCUSDC'', ''UniWBTCUSDC''), (''UniYFIWETH'', ''UniYFIWETH''), (''BptWBTCWETH'', ''BptWBTCWETH''),
     (''BptBALWETH'', ''BptBALWETH''), (''WMATIC'', ''WMATIC''), (''STAKE'', ''STAKE''),
     (''xSUSHI'', ''xSUSHI'')]"

datatype RateMode =
    Rate_None
  | Rate_Stable
  | Rate_Variable

primrec rate_mode :: "RateMode \<Rightarrow> string" where
  "rate_mode Rate_None = ''0''"
| "rate_mode Rate_Stable = ''1''"
| "rate_mode Rate_Variable = ''2''"

definition ProtocolErrors :: "string js_obj" where
  "ProtocolErrors =
    [(''CALLER_NOT_POOL_ADMIN'', ''33''),
     (''VL_INVALID_AMOUNT'', ''1''),
     (''VL_NO_ACTIVE_RESERVE'', ''2''),
     (''VL_RESERVE_FROZEN'', ''3''),
     (''VL_CURRENT_AVAILABLE_LIQUIDITY_NOT_ENOUGH'', ''4''),
     (''VL_NOT_ENOUGH_AVAILABLE_USER_BALANCE'', ''5''),
     (''VL_TRANSFER_NOT_ALLOWED'', ''6''),
     (''VL_BORROWING_NOT_ENABLED'', ''7''),
     (''VL_INVALID_INTEREST_RATE_MODE_SELECTED'', ''8''),
     (''VL_COLLATERAL_BALANCE_IS_0'', ''9''),
     (''VL_HEALTH_FACTOR_LOWER_THAN_LIQUIDATION_THRESHOLD'', ''10''),
     (''VL_COLLATERAL_CANNOT_COVER_NEW_BORROW'', ''11''),
     (''VL_STABLE_BORROWING_NOT_ENABLED'', ''12''),
     (''VL_COLLATERAL_SAME_AS_BORROWING_CURRENCY'', ''13''),
     (''VL_AMOUNT_BIGGER_THAN_MAX_LOAN_SIZE_STABLE'', ''14''),
     (''VL_NO_DEBT_OF_SELECTED_TYPE'', ''15''),
     (''VL_NO_EXPLICIT_AMOUNT_TO_REPAY_ON_BEHALF'', ''16''),
     (''VL_NO_STABLE_RATE_LOAN_IN_RESERVE'', ''17''),
     (''VL_NO_VARIABLE_RATE_LOAN_IN_RESERVE'', ''18''),
     (''VL_UNDERLYING_BALANCE_NOT_GREATER_THAN_0'', ''19''),
     (''VL_DEPOSIT_ALREADY_IN_USE'', ''20''),
     (''LP_NOT_ENOUGH_STABLE_BORROW_BALANCE'', ''21''),
     (''LP_INTEREST_RATE_REBALANCE_CONDITIONS_NOT_MET'', ''22''),
     (''LP_LIQUIDATION_CALL_FAILED'', ''23''),
     (''LP_NOT_ENOUGH_LIQUIDITY_TO_BORROW'', ''24''),
     (''LP_REQUESTED_AMOUNT_TOO_SMALL'', ''25''),
     (''LP_INCONSISTENT_PROTOCOL_ACTUAL_BALANCE'', ''26''),
     (''LP_CALLER_NOT_LENDING_POOL_CONFIGURATOR'', ''27''),
     (''LP_INCONSISTENT_FLASHLOAN_PARAMS'', ''28''),
     (''CT_CALLER_MUST_BE_LENDING_POOL'', ''29''),
     (''CT_CANNOT_GIVE_ALLOWANCE_TO_HIMSELF'', ''30''),
     (''CT_TRANSFER_AMOUNT_NOT_GT_0'', ''31''),
     (''RL_RESERVE_ALREADY_INITIALIZED'', ''32''),
     (''LPC_RESERVE_LIQUIDITY_NOT_0'', ''34''),
     (''LPC_INVALID_ATOKEN_POOL_ADDRESS'', ''35''),
     (''LPC_INVALID_STABLE_DEBT_TOKEN_POOL_ADDRESS'', ''36''),
     (''LPC_INVALID_VARIABLE_DEBT_TOKEN_POOL_ADDRESS'', ''37''),
     (''LPC_INVALID_STABLE_DEBT_TOKEN_UNDERLYING_ADDRESS'', ''38''),
     (''LPC_INVALID_VARIABLE_DEBT_TOKEN_UNDERLYING_ADDRESS'', ''39''),
     (''LPC_INVALID_ADDRESSES_PROVIDER_ID'', ''40''),
     (''LPC_CALLER_NOT_EMERGENCY_ADMIN'', ''76''),
     (''LPAPR_PROVIDER_NOT_REGISTERED'', ''41''),
     (''LPCM_HEALTH_FACTOR_NOT_BELOW_THRESHOLD'', ''42''),
     (''LPCM_COLLATERAL_CANNOT_BE_LIQUIDATED'', ''43''),
     (''LPCM_SPECIFIED_CURRENCY_NOT_BORROWED_BY_USER'', ''44''),
     (''LPCM_NOT_ENOUGH_LIQUIDITY_TO_LIQUIDATE'', ''45''),
     (''LPCM_NO_ERRORS'', ''46''),
     (''LP_INVALID_FLASHLOAN_MODE'', ''47''),
     (''MATH_MULTIPLICATION_OVERFLOW'', ''48''),
     (''MATH_ADDITION_OVERFLOW'', ''49''),
     (''MATH_DIVISION_BY_ZERO'', ''50''),
     (''RL_LIQUIDITY_INDEX_OVERFLOW'', ''51''),
     (''RL_VARIABLE_BORROW_INDEX_OVERFLOW'', ''52''),
     (''RL_LIQUIDITY_RATE_OVERFLOW'', ''53''),
     (''RL_VARIABLE_BORROW_RATE_OVERFLOW'', ''54''),
     (''RL_STABLE_BORROW_RATE_OVERFLOW'', ''55''),
     (''CT_INVALID_MINT_AMOUNT'', ''56''),
     (''LP_FAILED_REPAY_WITH_COLLATERAL'', ''57''),
     (''CT_INVALID_BURN_AMOUNT'', ''58''),
     (''LP_BORROW_ALLOWANCE_NOT_ENOUGH'', ''59''),
     (''LP_FAILED_COLLATERAL_SWAP'', ''60''),
     (''LP_INVALID_EQUAL_ASSETS_TO_SWAP'', ''61''),
     (''LP_REENTRANCY_NOT_ALLOWED'', ''62''),
     (''LP_CALLER_MUST_BE_AN_ATOKEN'', ''63''),
     (''LP_IS_PAUSED'', ''64''),
     (''LP_NO_MORE_RESERVES_ALLOWED'', ''65''),
     (''LP_INVALID_FLASH_LOAN_EXECUTOR_RETURN'', ''66''),
     (''RC_INVALID_LTV'', ''67''),
     (''RC_INVALID_LIQ_THRESHOLD'', ''68''),
     (''RC_INVALID_LIQ_BONUS'', ''69''),
     (''RC_INVALID_DECIMALS'', ''70''),
     (''RC_INVALID_RESERVE_FACTOR'', ''71''),
     (''LPAPR_INVALID_ADDRESSES_PROVIDER_ID'', ''72''),
     (''INVALID_FROM_BALANCE_AFTER_TRANSFER'', ''Invalid from balance after transfer''),
     (''INVALID_TO_BALANCE_AFTER_TRANSFER'', ''Invalid from balance after transfer''),
     (''INVALID_OWNER_REVERT_MSG'', ''Ownable: caller is not the owner''),
     (''INVALID_HF'', ''Invalid health factor''),
     (''TRANSFER_AMOUNT_EXCEEDS_BALANCE'', ''ERC20: transfer amount exceeds balance''),
     (''SAFEERC20_LOWLEVEL_CALL'', ''SafeERC20: low-level call failed'')]"

text \<open>The symbols each market type picks from \<open>iAssetBase\<close>.\<close>

definition iAavePoolAssets :: "string list" where
  "iAavePoolAssets =
    [''DAI'', ''TUSD'', ''USDC'', ''USDT'', ''SUSD'', ''AAVE'', ''BAT'', ''MKR'',
     ''LINK'', ''KNC'', ''WBTC'', ''MANA'', ''ZRX'', ''SNX'', ''BUSD'', ''WETH'',
     ''YFI'', ''UNI'', ''REN'', ''ENJ'', ''xSUSHI'']"

definition iLpPoolAssets :: "string list" where
  "iLpPoolAssets =
    [''DAI'', ''USDC'', ''USDT'', ''WBTC'', ''WETH'', ''UniDAIWETH'', ''UniWBTCWETH'', ''UniAAVEWETH'',
     ''UniBATWETH'', ''UniDAIUSDC'', ''UniCRVWETH'', ''UniLINKWETH'', ''UniMKRWETH'', ''UniRENWETH'', ''UniSNXWETH'', ''UniUNIWETH'',
     ''UniUSDCWETH'', ''UniWBTCUSDC'', ''UniYFIWETH'', ''BptWBTCWETH'', ''BptBALWETH'']"

definition iMaticPoolAssets :: "string list" where
  "iMaticPoolAssets =
    [''DAI'', ''USDC'', ''USDT'', ''WBTC'', ''WETH'', ''WMATIC'']"

definition iXDAIPoolAssets :: "string list" where
  "iXDAIPoolAssets =
    [''DAI'', ''USDC'', ''USDT'', ''WBTC'', ''WETH'', ''STAKE'']"

definition iMoolaPoolAssets :: "string list" where
  "iMoolaPoolAssets =
    [''CELO'', ''CUSD'', ''CEUR'', ''CREAL'', ''MOO'']"

section \<open>Reserve parameters and the market configuration\<close>

record IInterestRateStrategyParams =
  strategy_name :: string
  optimalUtilizationRate :: string
  baseVariableBorrowRate :: string
  variableRateSlope1 :: string
  variableRateSlope2 :: string
  stableRateSlope1 :: string
  stableRateSlope2 :: string

record IReserveParams =
  strategy :: IInterestRateStrategyParams
  baseLTVAsCollateral :: string
  liquidationThreshold :: string
  liquidationBonus :: string
  borrowingEnabled :: bool
  stableBorrowRateEnabled :: bool
  reserveDecimals :: string
  aTokenImpl :: eContractid
  reserveFactor :: string

record IMarketRates =
  borrowRate :: string

text \<open>Objects keyed by token symbol, network name or pool name.\<close>

type_synonym 'v iParamsPerNetwork = "'v js_obj"

record 'v iParamsPerPool =
  param_proto :: 'v
  param_matic :: 'v
  param_amm :: 'v
  param_moola :: 'v

record iBasicDistributionParams =
  receivers :: "string list"
  percentages :: "string list"

record IProtocolGlobalConfig =
  TokenDistributorPercentageBase :: string
  MockUsdPriceInWei :: string
  UsdAddress :: string
  NilAddress :: string
  OneAddress :: string
  AaveReferral :: string

record ICommonConfiguration =
  MarketId :: string
  ATokenNamePrefix :: string
  StableDebtTokenNamePrefix :: string
  VariableDebtTokenNamePrefix :: string
  SymbolPrefix :: string
  ProviderId :: int
  ProtocolGlobalParams :: IProtocolGlobalConfig
  AllAssetsInitialPrices :: "string js_obj"
  ProviderRegistry :: "string option iParamsPerNetwork"
  ProviderRegistryOwner :: "string option iParamsPerNetwork"
  LendingPoolCollateralManager :: "string iParamsPerNetwork"
  LendingPoolConfigurator :: "string iParamsPerNetwork"
  LendingPool :: "string iParamsPerNetwork"
  LendingRateOracleRatesCommon :: "IMarketRates js_obj"
  LendingRateOracle :: "string iParamsPerNetwork"
  TokenDistributor :: "string iParamsPerNetwork"
  AaveOracle :: "string iParamsPerNetwork"
  FallbackOracle :: "string iParamsPerNetwork"
  ChainlinkAggregator :: "string js_obj iParamsPerNetwork"
  PoolAdmin :: "string option iParamsPerNetwork"
  PoolAdminIndex :: nat
  EmergencyAdmin :: "string option iParamsPerNetwork"
  EmergencyAdminIndex :: nat
  ReserveAssets :: "string js_obj iParamsPerNetwork"
  ReservesConfig :: "IReserveParams js_obj"
  ATokenDomainSeparator :: "string iParamsPerNetwork"
  WETH :: "string iParamsPerNetwork"
  WethGateway :: "string iParamsPerNetwork"
  ReserveFactorTreasuryAddress :: "string iParamsPerNetwork"

section \<open>The string values as keys\<close>

lemma all_networks_complete: "n \<in> set all_networks"
proof (cases n)
  case (NetEthereum m)
  then show ?thesis by (cases m) (simp_all add: all_networks_def)
next
  case (NetPolygon m)
  then show ?thesis by (cases m) (simp_all add: all_networks_def)
next
  case (NetXDai m)
  then show ?thesis by (cases m) (simp_all add: all_networks_def)
next
  case (NetCelo m)
  then show ?thesis by (cases m) (simp_all add: all_networks_def)
qed

lemma all_pools_complete: "p \<in> set all_pools"
  by (cases p) (simp_all add: all_pools_def)

lemma network_strs_distinct: "distinct (map network_str all_networks)"
  by (simp add: all_networks_def)

lemma network_str_inject: "network_str a = network_str b \<longleftrightarrow> a = b"
  using network_strs_distinct all_networks_complete
  by (metis distinct_map inj_onD)

lemma all_contract_ids_complete: "c \<in> set all_contract_ids"
  by (cases c) (simp_all add: all_contract_ids_def)

lemma contract_ids_distinct: "distinct (map contract_id all_contract_ids)"
  by (simp add: all_contract_ids_def)

lemma contract_id_inject: "contract_id a = contract_id b \<longleftrightarrow> a = b"
  using contract_ids_distinct all_contract_ids_complete by (metis distinct_map inj_onD)

end
