(* ===== verification/BigNum.thy ===== *)
theory BigNum
  imports Prelude Complex_Main
begin

text \<open>
  Decimal strings, and the interface of bignumber.js, which is not in the repository: the record
  \<open>bn_api\<close> holds its operations, the locale \<open>bignumber\<close> states what its documentation promises of
  them, relative to the exact value \<open>val\<close> of a BigNumber, and the lemmas on rays used by every
  market are proved once inside it. A property of a market takes \<open>bignumber B val\<close> as its
  hypothesis; \<open>exact_bn\<close>, rational arithmetic, is an instance.
\<close>

section \<open>Decimal strings\<close>

definition digit_char :: "nat \<Rightarrow> char" where
  "digit_char n = char_of (48 + n)"

definition char_digit :: "char \<Rightarrow> nat option" where
  "char_digit c = (let n = of_char c :: nat in if 48 \<le> n \<and> n \<le> 57 then Some (n - 48) else None)"

fun dec_of_nat :: "nat \<Rightarrow> string" where
  "dec_of_nat n = (if n < 10 then [digit_char n] else dec_of_nat (n div 10) @ [digit_char (n mod 10)])"

declare dec_of_nat.simps [simp del]

text \<open>Reading a string of digits; a non-digit or an empty string is no number.\<close>

fun read_digits :: "nat \<Rightarrow> string \<Rightarrow> nat option" where
  "read_digits acc [] = Some acc"
| "read_digits acc (c # cs) =
     (case char_digit c of None \<Rightarrow> None | Some d \<Rightarrow> read_digits (10 * acc + d) cs)"

definition nat_of_dec :: "string \<Rightarrow> nat option" where
  "nat_of_dec s = (if s = [] then None else read_digits 0 s)"

lemma char_digit_digit_char [simp]: "d < 10 \<Longrightarrow> char_digit (digit_char d) = Some d"
  by (simp add: char_digit_def digit_char_def Let_def of_char_of)

lemma read_digits_append: "read_digits acc (s @ t) =
    (case read_digits acc s of None \<Rightarrow> None | Some m \<Rightarrow> read_digits m t)"
  by (induction s arbitrary: acc) (auto split: option.splits)

lemma dec_of_nat_not_Nil [simp]: "dec_of_nat n \<noteq> []"
  by (subst dec_of_nat.simps) simp

lemma read_dec_of_nat: "read_digits 0 (dec_of_nat n) = Some n"
proof (induction n rule: dec_of_nat.induct)
  case (1 n)
  show ?case
  proof (cases "n < 10")
    case True
    then show ?thesis by (subst dec_of_nat.simps) simp
  next
    case False
    have "read_digits 0 (dec_of_nat n) = read_digits (n div 10) [digit_char (n mod 10)]"
      using False 1 by (subst dec_of_nat.simps) (simp add: read_digits_append)
    then show ?thesis by simp
  qed
qed

lemma nat_of_dec_of_nat [simp]: "nat_of_dec (dec_of_nat n) = Some n"
  by (simp add: nat_of_dec_def read_dec_of_nat)

lemma dec_of_nat_inject [simp]: "dec_of_nat m = dec_of_nat n \<longleftrightarrow> m = n"
  using nat_of_dec_of_nat by (metis option.inject)

section \<open>The operations of bignumber.js the code uses\<close>

text \<open>
  \<open>bn_num B m d\<close> is \<open>new BigNumber(x)\<close> for the JavaScript number literal \<open>x = m / 10 ^ d\<close>
  (BigNumber reads the shortest decimal form of the number), \<open>bn_str B s\<close> is \<open>new BigNumber(s)\<close>.
\<close>

record 'b bn_api =
  bn_num :: "int \<Rightarrow> nat \<Rightarrow> 'b"
  bn_str :: "string \<Rightarrow> 'b"
  bn_times :: "'b \<Rightarrow> 'b \<Rightarrow> 'b"
  bn_pow :: "'b \<Rightarrow> nat \<Rightarrow> 'b"
  bn_div :: "'b \<Rightarrow> 'b \<Rightarrow> 'b"
  bn_toFixed :: "'b \<Rightarrow> string"
  bn_toString :: "'b \<Rightarrow> string"

text \<open>The value of a decimal numeral such as \<open>0.00369\<close> (no sign, no exponent).\<close>

definition decimal_value :: "string \<Rightarrow> rat option" where
  "decimal_value s =
     (let w = takeWhile (\<lambda>c. c \<noteq> CHR ''.'') s; f = drop (Suc (length w)) s in
      if length s = length w then map_option of_nat (nat_of_dec s)
      else case (nat_of_dec w, nat_of_dec f) of
             (Some a, Some b) \<Rightarrow> Some (of_nat a + of_nat b / 10 ^ length f)
           | _ \<Rightarrow> None)"

lemma dec_of_nat_digits: "c \<in> set (dec_of_nat n) \<Longrightarrow> char_digit c \<noteq> None"
proof (induction n rule: dec_of_nat.induct)
  case (1 n)
  show ?case
  proof (cases "n < 10")
    case True
    then have "c = digit_char n" using 1(2) by (subst (asm) dec_of_nat.simps) simp
    then show ?thesis using True by simp
  next
    case False
    then have "c \<in> set (dec_of_nat (n div 10)) \<or> c = digit_char (n mod 10)"
      using 1(2) by (subst (asm) dec_of_nat.simps) auto
    then show ?thesis using 1(1) False by auto
  qed
qed

lemma decimal_value_of_nat [simp]: "decimal_value (dec_of_nat n) = Some (of_nat n)"
proof -
  have "CHR ''.'' \<notin> set (dec_of_nat n)"
    using dec_of_nat_digits [of "CHR ''.''" n] by (auto simp: char_digit_def)
  then have tw: "takeWhile (\<lambda>c. c \<noteq> CHR ''.'') (dec_of_nat n) = dec_of_nat n"
    unfolding takeWhile_eq_all_conv by blast
  show ?thesis unfolding decimal_value_def tw Let_def by simp
qed

text \<open>
  What the documentation states of them: construction and multiplication are exact,
  \<open>toFixed\<close> never uses exponent notation, \<open>toString\<close> uses it only from 1e21 on, and a quotient that
  is an integer is not rounded.
\<close>

locale bignumber =
  fixes B :: "'b bn_api" and val :: "'b \<Rightarrow> rat"
  assumes val_num: "val (bn_num B m d) = of_int m / 10 ^ d"
    and val_str: "decimal_value s = Some r \<Longrightarrow> val (bn_str B s) = r"
    and val_times: "val (bn_times B a b) = val a * val b"
    and val_pow: "val (bn_pow B a n) = val a ^ n"
    and val_div: "val b \<noteq> 0 \<Longrightarrow> val a / val b = of_nat n \<Longrightarrow> val (bn_div B a b) = of_nat n"
    and toFixed_nat: "val a = of_nat n \<Longrightarrow> bn_toFixed B a = dec_of_nat n"
    and toString_nat: "val a = of_nat n \<Longrightarrow> n < 10 ^ 21 \<Longrightarrow> bn_toString B a = dec_of_nat n"
begin

lemma toFixed_times:
  assumes "val a * val b = of_nat n"
  shows "bn_toFixed B (bn_times B a b) = dec_of_nat n"
  by (rule toFixed_nat) (simp add: val_times assms)

text \<open>A literal multiple of an integral unit.\<close>

lemma toFixed_scaled:
  assumes "val u = of_nat k" and "m * k = n * 10 ^ d"
  shows "bn_toFixed B (bn_times B (bn_num B (int m) d) u) = dec_of_nat n"
    and "bn_toFixed B (bn_times B u (bn_num B (int m) d)) = dec_of_nat n"
proof -
  have "(of_nat (m * k) :: rat) = of_nat (n * 10 ^ d)" using assms(2) by simp
  then have eq: "(of_nat m * of_nat k :: rat) = of_nat n * 10 ^ d" by simp
  then have 1: "of_nat m / 10 ^ d * of_nat k = (of_nat n :: rat)" by (simp add: field_simps)
  show "bn_toFixed B (bn_times B (bn_num B (int m) d) u) = dec_of_nat n"
    by (rule toFixed_times) (use 1 in \<open>simp add: val_num assms(1)\<close>)
  show "bn_toFixed B (bn_times B u (bn_num B (int m) d)) = dec_of_nat n"
    by (rule toFixed_times) (use 1 in \<open>simp add: val_num assms(1) mult.commute\<close>)
qed

end

section \<open>An instance: exact rational arithmetic\<close>

definition trunc_nat :: "rat \<Rightarrow> nat" where
  "trunc_nat r = nat \<lfloor>r\<rfloor>"

definition exact_bn :: "rat bn_api" where
  "exact_bn = \<lparr> bn_num = (\<lambda>m d. of_int m / 10 ^ d),
     bn_str = (\<lambda>s. case decimal_value s of Some r \<Rightarrow> r | None \<Rightarrow> 0),
     bn_times = (*), bn_pow = (\<lambda>a n. a ^ n), bn_div = (/),
     bn_toFixed = (\<lambda>r. dec_of_nat (trunc_nat r)), bn_toString = (\<lambda>r. dec_of_nat (trunc_nat r)) \<rparr>"

interpretation exact: bignumber exact_bn "\<lambda>r. r"
  by unfold_locales (simp_all add: exact_bn_def trunc_nat_def)

lemma exact_bignumber: "bignumber exact_bn (\<lambda>r. r)"
  by (rule exact.bignumber_axioms)

end
