(* ===== verification/Constants.thy ===== *)
theory Constants
  imports BigNum
begin

text \<open>
  \<open>helpers/constants.ts\<close>: units, addresses and the mock prices. The constants computed with
  bignumber.js are functions of its operations \<open>B\<close>; \<open>Math.pow(10, n).toString()\<close> is the decimal
  numeral (JavaScript writes numbers below 1e21 in full).
\<close>

section \<open>Units\<close>

definition PERCENTAGE_FACTOR :: string where "PERCENTAGE_FACTOR = ''10000''"

definition HALF_PERCENTAGE :: string where "HALF_PERCENTAGE = ''5000''"

definition WAD :: string where "WAD = ''1000000000000000000''"

definition HALF_WAD :: "'b bn_api \<Rightarrow> string" where
  "HALF_WAD B = bn_toString B (bn_times B (bn_str B WAD) (bn_num B 5 1))"

definition RAY :: "'b bn_api \<Rightarrow> string" where
  "RAY B = bn_toFixed B (bn_pow B (bn_num B 10 0) 27)"

definition HALF_RAY :: "'b bn_api \<Rightarrow> string" where
  "HALF_RAY B = bn_toFixed B (bn_times B (bn_str B (RAY B)) (bn_num B 5 1))"

definition WAD_RAY_RATIO :: string where "WAD_RAY_RATIO = ''1000000000''"

definition oneEther :: "'b bn_api \<Rightarrow> 'b" where "oneEther B = bn_num B (10 ^ 18) 0"

definition oneRay :: "'b bn_api \<Rightarrow> 'b" where "oneRay B = bn_num B (10 ^ 27) 0"

definition MAX_UINT_AMOUNT :: string where
  "MAX_UINT_AMOUNT =
     ''115792089237316195423570985008687907853269984665640564039457584007913129639935''"

definition ONE_YEAR :: string where "ONE_YEAR = ''31536000''"

definition ZERO_ADDRESS :: string where
  "ZERO_ADDRESS = ''0x0000000000000000000000000000000000000000''"

definition ONE_ADDRESS :: string where
  "ONE_ADDRESS = ''0x0000000000000000000000000000000000000001''"

section \<open>Protocol parameters\<close>

definition OPTIMAL_UTILIZATION_RATE :: "'b bn_api \<Rightarrow> 'b" where
  "OPTIMAL_UTILIZATION_RATE B = bn_times B (bn_num B 8 1) (bn_str B (RAY B))"

definition EXCESS_UTILIZATION_RATE :: "'b bn_api \<Rightarrow> 'b" where
  "EXCESS_UTILIZATION_RATE B = bn_times B (bn_num B 2 1) (bn_str B (RAY B))"

definition APPROVAL_AMOUNT_LENDING_POOL :: string where
  "APPROVAL_AMOUNT_LENDING_POOL = ''1000000000000000000000000000''"

definition TOKEN_DISTRIBUTOR_PERCENTAGE_BASE :: string where
  "TOKEN_DISTRIBUTOR_PERCENTAGE_BASE = ''10000''"

definition MOCK_USD_PRICE_IN_WEI :: string where "MOCK_USD_PRICE_IN_WEI = ''5848466240000000''"

definition USD_ADDRESS :: string where
  "USD_ADDRESS = ''0x10F7Fc1F91Ba351f9C629c5947AD69bD03C05b96''"

definition AAVE_REFERRAL :: string where "AAVE_REFERRAL = ''0''"

definition MOCK_CHAINLINK_AGGREGATORS_PRICES :: "'b bn_api \<Rightarrow> string js_obj" where
  "MOCK_CHAINLINK_AGGREGATORS_PRICES B =
    [(''CELO'', bn_toFixed B (oneEther B)),
     (''CUSD'', bn_toFixed B (bn_times B (oneEther B) (bn_str B ''0.223359''))),
     (''CEUR'', bn_toFixed B (bn_times B (oneEther B) (bn_str B ''0.262277''))),
     (''CREAL'', bn_toFixed B (bn_times B (oneEther B) (bn_str B ''0.040204''))),
     (''MOO'', bn_toFixed B (bn_times B (oneEther B) (bn_str B ''0.312155''))),
     (''UBE'', bn_toFixed B (bn_times B (oneEther B) (bn_str B ''0.161059''))),
     (''AAVE'', bn_toFixed B (bn_times B (oneEther B) (bn_str B ''0.003620948469''))),
     (''BAT'', bn_toFixed B (bn_times B (oneEther B) (bn_str B ''0.00137893825230''))),
     (''BUSD'', bn_toFixed B (bn_times B (oneEther B) (bn_str B ''0.00736484''))),
     (''DAI'', bn_toFixed B (bn_times B (oneEther B) (bn_str B ''0.00369068412860''))),
     (''ENJ'', bn_toFixed B (bn_times B (oneEther B) (bn_str B ''0.00029560''))),
     (''KNC'', bn_toFixed B (bn_times B (oneEther B) (bn_str B ''0.001072''))),
     (''LINK'', bn_toFixed B (bn_times B (oneEther B) (bn_str B ''0.009955''))),
     (''MANA'', bn_toFixed B (bn_times B (oneEther B) (bn_str B ''0.000158''))),
     (''MKR'', bn_toFixed B (bn_times B (oneEther B) (bn_str B ''2.508581''))),
     (''REN'', bn_toFixed B (bn_times B (oneEther B) (bn_str B ''0.00065133''))),
     (''SNX'', bn_toFixed B (bn_times B (oneEther B) (bn_str B ''0.00442616''))),
     (''SUSD'', bn_toFixed B (bn_times B (oneEther B) (bn_str B ''0.00364714136416''))),
     (''TUSD'', bn_toFixed B (bn_times B (oneEther B) (bn_str B ''0.00364714136416''))),
     (''UNI'', bn_toFixed B (bn_times B (oneEther B) (bn_str B ''0.00536479''))),
     (''USDC'', bn_toFixed B (bn_times B (oneEther B) (bn_str B ''0.00367714136416''))),
     (''USDT'', bn_toFixed B (bn_times B (oneEther B) (bn_str B ''0.00369068412860''))),
     (''WETH'', bn_toFixed B (oneEther B)),
     (''WBTC'', bn_toFixed B (bn_times B (oneEther B) (bn_str B ''47.332685''))),
     (''YFI'', bn_toFixed B (bn_times B (oneEther B) (bn_str B ''22.407436''))),
     (''ZRX'', bn_toFixed B (bn_times B (oneEther B) (bn_str B ''0.001151''))),
     (''UniDAIWETH'', bn_toFixed B (bn_times B (oneEther B) (bn_str B ''22.407436''))),
     (''UniWBTCWETH'', bn_toFixed B (bn_times B (oneEther B) (bn_str B ''22.407436''))),
     (''UniAAVEWETH'', bn_toFixed B (bn_times B (oneEther B) (bn_str B ''0.003620948469''))),
     (''UniBATWETH'', bn_toFixed B (bn_times B (oneEther B) (bn_str B ''22.407436''))),
     (''UniDAIUSDC'', bn_toFixed B (bn_times B (oneEther B) (bn_str B ''22.407436''))),
     (''UniCRVWETH'', bn_toFixed B (bn_times B (oneEther B) (bn_str B ''22.407436''))),
     (''UniLINKWETH'', bn_toFixed B (bn_times B (oneEther B) (bn_str B ''0.009955''))),
     (''UniMKRWETH'', bn_toFixed B (bn_times B (oneEther B) (bn_str B ''22.407436''))),
     (''UniRENWETH'', bn_toFixed B (bn_times B (oneEther B) (bn_str B ''22.407436''))),
     (''UniSNXWETH'', bn_toFixed B (bn_times B (oneEther B) (bn_str B ''22.407436''))),
     (''UniUNIWETH'', bn_toFixed B (bn_times B (oneEther B) (bn_str B ''22.407436''))),
     (''UniUSDCWETH'', bn_toFixed B (bn_times B (oneEther B) (bn_str B ''22.407436''))),
     (''UniWBTCUSDC'', bn_toFixed B (bn_times B (oneEther B) (bn_str B ''22.407436''))),
     (''UniYFIWETH'', bn_toFixed B (bn_times B (oneEther B) (bn_str B ''22.407436''))),
     (''BptWBTCWETH'', bn_toFixed B (bn_times B (oneEther B) (bn_str B ''22.407436''))),
     (''BptBALWETH'', bn_toFixed B (bn_times B (oneEther B) (bn_str B ''22.407436''))),
     (''WMATIC'', bn_toFixed B (bn_times B (oneEther B) (bn_str B ''0.003620948469''))),
     (''STAKE'', bn_toFixed B (bn_times B (oneEther B) (bn_str B ''0.003620948469''))),
     (''xSUSHI'', bn_toFixed B (bn_times B (oneEther B) (bn_str B ''0.00913428586''))),
     (''USD'', bn_toFixed B (bn_times B (oneEther B) (bn_str B ''0.223359'')))]"

section \<open>Their values\<close>

context bignumber
begin

lemma val_oneRay: "val (oneRay B) = of_nat (10 ^ 27)"
  by (simp add: oneRay_def val_num)

lemma val_oneEther: "val (oneEther B) = of_nat (10 ^ 18)"
  by (simp add: oneEther_def val_num)

text \<open>A rate written as a literal fraction of a ray, in either order of the factors.\<close>

lemma ray_times:
  "m * 10 ^ 27 = n * 10 ^ d \<Longrightarrow> bn_toFixed B (bn_times B (bn_num B (int m) d) (oneRay B)) = dec_of_nat n"
  "m * 10 ^ 27 = n * 10 ^ d \<Longrightarrow> bn_toFixed B (bn_times B (oneRay B) (bn_num B (int m) d)) = dec_of_nat n"
  by (rule toFixed_scaled [OF val_oneRay], assumption)+

text \<open>The same for literals as the source writes them.\<close>

lemma ray_literals:
  "(numeral m * 10 ^ 27) mod 10 ^ d = (0::nat) \<Longrightarrow>
    bn_toFixed B (bn_times B (bn_num B (numeral m) d) (oneRay B)) = dec_of_nat (numeral m * 10 ^ 27 div 10 ^ d)"
  "(numeral m * 10 ^ 27) mod 10 ^ d = (0::nat) \<Longrightarrow>
    bn_toFixed B (bn_times B (oneRay B) (bn_num B (numeral m) d)) = dec_of_nat (numeral m * 10 ^ 27 div 10 ^ d)"
  "bn_toFixed B (bn_times B (bn_num B 0 d) (oneRay B)) = dec_of_nat 0"
  "bn_toFixed B (bn_times B (bn_num B 1 0) (oneRay B)) = dec_of_nat (10 ^ 27)"
  "(10 ^ 27) mod 10 ^ d = (0::nat) \<Longrightarrow>
    bn_toFixed B (bn_times B (bn_num B 1 d) (oneRay B)) = dec_of_nat (10 ^ 27 div 10 ^ d)"
proof -
  have eq: "m * 10 ^ 27 = (m * 10 ^ 27 div 10 ^ d) * 10 ^ d" if "(m * 10 ^ 27) mod 10 ^ d = 0" for m d :: nat
    using that by (simp add: mod_eq_0_iff_dvd)
  show "bn_toFixed B (bn_times B (bn_num B (numeral m) d) (oneRay B)) = dec_of_nat (numeral m * 10 ^ 27 div 10 ^ d)"
    if "(numeral m * 10 ^ 27) mod 10 ^ d = (0::nat)"
    using ray_times(1) [OF eq [OF that]] by (simp only: of_nat_numeral)
  show "bn_toFixed B (bn_times B (oneRay B) (bn_num B (numeral m) d)) = dec_of_nat (numeral m * 10 ^ 27 div 10 ^ d)"
    if "(numeral m * 10 ^ 27) mod 10 ^ d = (0::nat)"
    using ray_times(2) [OF eq [OF that]] by (simp only: of_nat_numeral)
  show "bn_toFixed B (bn_times B (bn_num B 0 d) (oneRay B)) = dec_of_nat 0"
    using ray_times(1) [of 0 0 d] by simp
  show "bn_toFixed B (bn_times B (bn_num B 1 0) (oneRay B)) = dec_of_nat (10 ^ 27)"
    using ray_times(1) [of 1 "10 ^ 27" 0] by simp
  show "bn_toFixed B (bn_times B (bn_num B 1 d) (oneRay B)) = dec_of_nat (10 ^ 27 div 10 ^ d)"
    if "(10 ^ 27) mod 10 ^ d = (0::nat)"
    using ray_times(1) [of 1 "10 ^ 27 div 10 ^ d" d] eq [of 1 d] that by simp
qed

lemma RAY_eq: "RAY B = dec_of_nat (10 ^ 27)"
  unfolding RAY_def by (rule toFixed_nat) (simp add: val_pow val_num)

lemma val_RAY: "val (bn_str B (RAY B)) = of_nat (10 ^ 27)"
  unfolding RAY_eq by (rule val_str) simp

lemma HALF_WAD_eq: "HALF_WAD B = dec_of_nat (5 * 10 ^ 17)"
proof -
  have "val (bn_str B WAD) = 10 ^ 18"
    by (rule val_str) (simp add: WAD_def decimal_value_def nat_of_dec_def char_digit_def)
  then show ?thesis unfolding HALF_WAD_def by (intro toString_nat) (simp_all add: val_times val_num)
qed

lemma HALF_RAY_eq: "HALF_RAY B = dec_of_nat (5 * 10 ^ 26)"
  unfolding HALF_RAY_def by (rule toFixed_nat) (simp add: val_times val_num val_RAY)

lemma val_utilization_rates:
  "val (OPTIMAL_UTILIZATION_RATE B) = of_nat (8 * 10 ^ 26)"
  "val (EXCESS_UTILIZATION_RATE B) = of_nat (2 * 10 ^ 26)"
  by (simp_all add: OPTIMAL_UTILIZATION_RATE_def EXCESS_UTILIZATION_RATE_def val_times val_num val_RAY)

end

end
