(* ===== verification/MoolaMarket.thy ===== *)
theory MoolaMarket
  imports Types Constants
begin

text \<open>
  The Moola market: the files of \<open>src/markets/moola\<close>. Rates are ray-scaled decimal strings computed
  with bignumber.js, so the strategies are functions of its operations \<open>B\<close>. A field of more than
  a few lines is a definition of its own, named after the market and the field.
\<close>

section \<open>Rate strategies (\<open>rateStrategies.ts\<close>)\<close>

definition moola_rateStrategyStableTwo :: "'b bn_api \<Rightarrow> IInterestRateStrategyParams" where
  "moola_rateStrategyStableTwo B = \<lparr>
     strategy_name = ''rateStrategyStableTwo'',
     optimalUtilizationRate = bn_toFixed B (bn_times B (bn_num B 8 1) (oneRay B)),
     baseVariableBorrowRate = bn_toFixed B (bn_times B (bn_num B 0 0) (oneRay B)),
     variableRateSlope1 = bn_toFixed B (bn_times B (bn_num B 4 2) (oneRay B)),
     variableRateSlope2 = bn_toFixed B (bn_times B (bn_num B 75 2) (oneRay B)),
     stableRateSlope1 = bn_toFixed B (bn_times B (bn_num B 2 2) (oneRay B)),
     stableRateSlope2 = bn_toFixed B (bn_times B (bn_num B 75 2) (oneRay B)) \<rparr>"

definition moola_rateStrategyWETH :: "'b bn_api \<Rightarrow> IInterestRateStrategyParams" where
  "moola_rateStrategyWETH B = \<lparr>
     strategy_name = ''rateStrategyWETH'',
     optimalUtilizationRate = bn_toFixed B (bn_times B (bn_num B 65 2) (oneRay B)),
     baseVariableBorrowRate = bn_toFixed B (bn_times B (bn_num B 0 0) (oneRay B)),
     variableRateSlope1 = bn_toFixed B (bn_times B (bn_num B 8 2) (oneRay B)),
     variableRateSlope2 = bn_toFixed B (bn_times B (bn_num B 1 0) (oneRay B)),
     stableRateSlope1 = bn_toFixed B (bn_times B (bn_num B 1 1) (oneRay B)),
     stableRateSlope2 = bn_toFixed B (bn_times B (bn_num B 1 0) (oneRay B)) \<rparr>"

definition moola_rateStrategyCELO :: "'b bn_api \<Rightarrow> IInterestRateStrategyParams" where
  "moola_rateStrategyCELO B = moola_rateStrategyWETH B"

section \<open>Reserve parameters (\<open>reservesConfigs.ts\<close>)\<close>

definition moola_strategyCUSD :: "'b bn_api \<Rightarrow> IReserveParams" where
  "moola_strategyCUSD B = \<lparr>
     strategy = moola_rateStrategyStableTwo B,
     baseLTVAsCollateral = ''7500'',
     liquidationThreshold = ''8000'',
     liquidationBonus = ''10500'',
     borrowingEnabled = True,
     stableBorrowRateEnabled = True,
     reserveDecimals = ''18'',
     aTokenImpl = Id_AToken,
     reserveFactor = ''1000'' \<rparr>"

definition moola_strategyCEUR :: "'b bn_api \<Rightarrow> IReserveParams" where
  "moola_strategyCEUR B = \<lparr>
     strategy = moola_rateStrategyStableTwo B,
     baseLTVAsCollateral = ''7500'',
     liquidationThreshold = ''8000'',
     liquidationBonus = ''10500'',
     borrowingEnabled = True,
     stableBorrowRateEnabled = True,
     reserveDecimals = ''18'',
     aTokenImpl = Id_AToken,
     reserveFactor = ''1000'' \<rparr>"

definition moola_strategyCREAL :: "'b bn_api \<Rightarrow> IReserveParams" where
  "moola_strategyCREAL B = \<lparr>
     strategy = moola_rateStrategyStableTwo B,
     baseLTVAsCollateral = ''7500'',
     liquidationThreshold = ''8000'',
     liquidationBonus = ''10500'',
     borrowingEnabled = True,
     stableBorrowRateEnabled = True,
     reserveDecimals = ''18'',
     aTokenImpl = Id_AToken,
     reserveFactor = ''1000'' \<rparr>"

definition moola_strategyMOO :: "'b bn_api \<Rightarrow> IReserveParams" where
  "moola_strategyMOO B = \<lparr>
     strategy = moola_rateStrategyCELO B,
     baseLTVAsCollateral = ''5000'',
     liquidationThreshold = ''6500'',
     liquidationBonus = ''11000'',
     borrowingEnabled = True,
     stableBorrowRateEnabled = True,
     reserveDecimals = ''18'',
     aTokenImpl = Id_AToken,
     reserveFactor = ''1000'' \<rparr>"

definition moola_strategyCELO :: "'b bn_api \<Rightarrow> IReserveParams" where
  "moola_strategyCELO B = \<lparr>
     strategy = moola_rateStrategyCELO B,
     baseLTVAsCollateral = ''8000'',
     liquidationThreshold = ''8250'',
     liquidationBonus = ''10500'',
     borrowingEnabled = True,
     stableBorrowRateEnabled = True,
     reserveDecimals = ''18'',
     aTokenImpl = Id_AToken,
     reserveFactor = ''1000'' \<rparr>"

section \<open>The common configuration (\<open>commons.ts\<close>)\<close>

definition moola_LendingRateOracleRatesCommon :: "'b bn_api \<Rightarrow> IMarketRates js_obj" where
  "moola_LendingRateOracleRatesCommon B =
    [(''CELO'', \<lparr> borrowRate = bn_toFixed B (bn_times B (oneRay B) (bn_num B 3 2)) \<rparr>),
     (''CUSD'', \<lparr> borrowRate = bn_toFixed B (bn_times B (oneRay B) (bn_num B 39 3)) \<rparr>),
     (''CEUR'', \<lparr> borrowRate = bn_toFixed B (bn_times B (oneRay B) (bn_num B 39 3)) \<rparr>),
     (''CREAL'', \<lparr> borrowRate = bn_toFixed B (bn_times B (oneRay B) (bn_num B 39 3)) \<rparr>),
     (''MOO'', \<lparr> borrowRate = bn_toFixed B (bn_times B (oneRay B) (bn_num B 3 2)) \<rparr>),
     (''UBE'', \<lparr> borrowRate = bn_toFixed B (bn_times B (oneRay B) (bn_num B 3 2)) \<rparr>)]"

definition moola_CommonsConfig :: "'b bn_api \<Rightarrow> ICommonConfiguration" where
  "moola_CommonsConfig B = \<lparr>
     MarketId = ''Commons'',
     ATokenNamePrefix = ''Moola interest bearing'',
     StableDebtTokenNamePrefix = ''Moola stable debt bearing'',
     VariableDebtTokenNamePrefix = ''Moola variable debt bearing'',
     SymbolPrefix = ''m'',
     ProviderId = 0,
     ProtocolGlobalParams = \<lparr>
       TokenDistributorPercentageBase = ''10000'',
       MockUsdPriceInWei = ''223522000000000000'',
       UsdAddress = ''0x10F7Fc1F91Ba351f9C629c5947AD69bD03C05b96'',
       NilAddress = ''0x0000000000000000000000000000000000000000'',
       OneAddress = ''0x0000000000000000000000000000000000000001'',
       AaveReferral = ''0'' \<rparr>,
     AllAssetsInitialPrices = MOCK_CHAINLINK_AGGREGATORS_PRICES B,
     ProviderRegistry = [(celo_network Celo_celo, Some ''''),
       (celo_network Celo_alfajores, Some '''')],
     ProviderRegistryOwner = [(celo_network Celo_celo, Some ''0x643C574128c7C56A1835e021Ad0EcC2592E72624''),
       (celo_network Celo_alfajores, Some ''0x643C574128c7C56A1835e021Ad0EcC2592E72624'')],
     LendingPoolCollateralManager = [(celo_network Celo_celo, ''''),
       (celo_network Celo_alfajores, '''')],
     LendingPoolConfigurator = [(celo_network Celo_celo, ''''),
       (celo_network Celo_alfajores, '''')],
     LendingPool = [(celo_network Celo_celo, ''''),
       (celo_network Celo_alfajores, '''')],
     LendingRateOracleRatesCommon = moola_LendingRateOracleRatesCommon B,
     LendingRateOracle = [(celo_network Celo_celo, ''''),
       (celo_network Celo_alfajores, '''')],
     TokenDistributor = [(celo_network Celo_celo, ''0x313bc86D3D6e86ba164B2B451cB0D9CfA7943e5c''),
       (celo_network Celo_alfajores, ''0x643C574128c7C56A1835e021Ad0EcC2592E72624'')],
     AaveOracle = [(celo_network Celo_celo, ''0x568547688121AA69bDEB8aEB662C321c5D7B98D0''),
       (celo_network Celo_alfajores, ''0x005df00133e6201F8ef4D9B620084AB725CD469c'')],
     FallbackOracle = [(celo_network Celo_celo, ZERO_ADDRESS),
       (celo_network Celo_alfajores, ZERO_ADDRESS)],
     ChainlinkAggregator = [(celo_network Celo_celo, []),
       (celo_network Celo_alfajores, [])],
     PoolAdmin = [(celo_network Celo_celo, None),
       (celo_network Celo_alfajores, None)],
     PoolAdminIndex = 0,
     EmergencyAdmin = [(celo_network Celo_celo, None),
       (celo_network Celo_alfajores, None)],
     EmergencyAdminIndex = 1,
     ReserveAssets = [(celo_network Celo_celo, []),
       (celo_network Celo_alfajores, [])],
     ReservesConfig = [],
     ATokenDomainSeparator = [(celo_network Celo_celo, ''''),
       (celo_network Celo_alfajores, '''')],
     WETH = [(celo_network Celo_celo, ''''),
       (celo_network Celo_alfajores, '''')],
     WethGateway = [(celo_network Celo_celo, ''''),
       (celo_network Celo_alfajores, '''')],
     ReserveFactorTreasuryAddress = [(celo_network Celo_celo, ''0x313bc86D3D6e86ba164B2B451cB0D9CfA7943e5c''),
       (celo_network Celo_alfajores, ''0x643C574128c7C56A1835e021Ad0EcC2592E72624'')] \<rparr>"

section \<open>The market (\<open>index.ts\<close>)\<close>

definition moola_ReservesConfig :: "'b bn_api \<Rightarrow> IReserveParams js_obj" where
  "moola_ReservesConfig B =
    [(''CELO'', moola_strategyCELO B),
     (''CUSD'', moola_strategyCUSD B),
     (''CEUR'', moola_strategyCEUR B),
     (''CREAL'', moola_strategyCREAL B),
     (''MOO'', moola_strategyMOO B)]"

definition moola_MarketReserveAssets :: "string js_obj js_obj" where
  "moola_MarketReserveAssets =
    [(celo_network Celo_celo, [(''CELO'', ''0x471EcE3750Da237f93B8E339c536989b8978a438''),
         (''CUSD'', ''0x765DE816845861e75A25fCA122bb6898B8B1282a''),
         (''CEUR'', ''0xD8763CBa276a3738E6DE85b4b3bF5FDed6D6cA73''),
         (''CREAL'', ''0xe8537a3d056DA446677B9E9d6c5dB704EaAb4787''),
         (''MOO'', ''0x17700282592D6917F6A73D0bF8AcCf4D578c131e'')]),
     (celo_network Celo_alfajores, [(''CELO'', ''0xF194afDf50B03e69Bd7D057c1Aa9e10c9954E4C9''),
         (''CUSD'', ''0x874069Fa1Eb16D44d622F2e0Ca25eeA172369bC1''),
         (''CEUR'', ''0x10c892A6EC43a53E45D0B916B4b7D383B1b78C0F''),
         (''CREAL'', ''0xE4D517785D091D3c54818832dB6094bcc2744545''),
         (''MOO'', ''0x17700282592D6917F6A73D0bF8AcCf4D578c131e'')])]"

definition MoolaConfig :: "'b bn_api \<Rightarrow> ICommonConfiguration" where
  "MoolaConfig B = (moola_CommonsConfig B)\<lparr>
     MarketId := ''Moola genesis market'',
     ProviderId := 1,
     ReservesConfig := moola_ReservesConfig B,
     ReserveAssets := moola_MarketReserveAssets \<rparr>"


end
