(* ===== verification/AaveMarket.thy ===== *)
theory AaveMarket
  imports Types Constants
begin

text \<open>
  The Aave market: the files of \<open>src/markets/aave\<close>. Rates are ray-scaled decimal strings computed
  with bignumber.js, so the strategies are functions of its operations \<open>B\<close>. A field of more than
  a few lines is a definition of its own, named after the market and the field.
\<close>

section \<open>Rate strategies (\<open>rateStrategies.ts\<close>)\<close>

definition aave_rateStrategyStableOne :: "'b bn_api \<Rightarrow> IInterestRateStrategyParams" where
  "aave_rateStrategyStableOne B = \<lparr>
     strategy_name = ''rateStrategyStableOne'',
     optimalUtilizationRate = bn_toFixed B (bn_times B (bn_num B 8 1) (oneRay B)),
     baseVariableBorrowRate = bn_toFixed B (bn_times B (bn_num B 0 0) (oneRay B)),
     variableRateSlope1 = bn_toFixed B (bn_times B (bn_num B 4 2) (oneRay B)),
     variableRateSlope2 = bn_toFixed B (bn_times B (bn_num B 1 0) (oneRay B)),
     stableRateSlope1 = ''0'',
     stableRateSlope2 = ''0'' \<rparr>"

definition aave_rateStrategyStableTwo :: "'b bn_api \<Rightarrow> IInterestRateStrategyParams" where
  "aave_rateStrategyStableTwo B = \<lparr>
     strategy_name = ''rateStrategyStableTwo'',
     optimalUtilizationRate = bn_toFixed B (bn_times B (bn_num B 8 1) (oneRay B)),
     baseVariableBorrowRate = bn_toFixed B (bn_times B (bn_num B 0 0) (oneRay B)),
     variableRateSlope1 = bn_toFixed B (bn_times B (bn_num B 4 2) (oneRay B)),
     variableRateSlope2 = bn_toFixed B (bn_times B (bn_num B 75 2) (oneRay B)),
     stableRateSlope1 = bn_toFixed B (bn_times B (bn_num B 2 2) (oneRay B)),
     stableRateSlope2 = bn_toFixed B (bn_times B (bn_num B 75 2) (oneRay B)) \<rparr>"

definition aave_rateStrategyStableThree :: "'b bn_api \<Rightarrow> IInterestRateStrategyParams" where
  "aave_rateStrategyStableThree B = \<lparr>
     strategy_name = ''rateStrategyStableThree'',
     optimalUtilizationRate = bn_toFixed B (bn_times B (bn_num B 9 1) (oneRay B)),
     baseVariableBorrowRate = bn_toFixed B (bn_times B (bn_num B 0 0) (oneRay B)),
     variableRateSlope1 = bn_toFixed B (bn_times B (bn_num B 4 2) (oneRay B)),
     variableRateSlope2 = bn_toFixed B (bn_times B (bn_num B 60 2) (oneRay B)),
     stableRateSlope1 = bn_toFixed B (bn_times B (bn_num B 2 2) (oneRay B)),
     stableRateSlope2 = bn_toFixed B (bn_times B (bn_num B 60 2) (oneRay B)) \<rparr>"

definition aave_rateStrategyWETH :: "'b bn_api \<Rightarrow> IInterestRateStrategyParams" where
  "aave_rateStrategyWETH B = \<lparr>
     strategy_name = ''rateStrategyWETH'',
     optimalUtilizationRate = bn_toFixed B (bn_times B (bn_num B 65 2) (oneRay B)),
     baseVariableBorrowRate = bn_toFixed B (bn_times B (bn_num B 0 0) (oneRay B)),
     variableRateSlope1 = bn_toFixed B (bn_times B (bn_num B 8 2) (oneRay B)),
     variableRateSlope2 = bn_toFixed B (bn_times B (bn_num B 1 0) (oneRay B)),
     stableRateSlope1 = bn_toFixed B (bn_times B (bn_num B 1 1) (oneRay B)),
     stableRateSlope2 = bn_toFixed B (bn_times B (bn_num B 1 0) (oneRay B)) \<rparr>"

definition aave_rateStrategyAAVE :: "'b bn_api \<Rightarrow> IInterestRateStrategyParams" where
  "aave_rateStrategyAAVE B = \<lparr>
     strategy_name = ''rateStrategyAAVE'',
     optimalUtilizationRate = bn_toFixed B (bn_times B (bn_num B 45 2) (oneRay B)),
     baseVariableBorrowRate = ''0'',
     variableRateSlope1 = ''0'',
     variableRateSlope2 = ''0'',
     stableRateSlope1 = ''0'',
     stableRateSlope2 = ''0'' \<rparr>"

definition aave_rateStrategyVolatileOne :: "'b bn_api \<Rightarrow> IInterestRateStrategyParams" where
  "aave_rateStrategyVolatileOne B = \<lparr>
     strategy_name = ''rateStrategyVolatileOne'',
     optimalUtilizationRate = bn_toFixed B (bn_times B (bn_num B 45 2) (oneRay B)),
     baseVariableBorrowRate = bn_toFixed B (bn_times B (bn_num B 0 0) (oneRay B)),
     variableRateSlope1 = bn_toFixed B (bn_times B (bn_num B 7 2) (oneRay B)),
     variableRateSlope2 = bn_toFixed B (bn_times B (bn_num B 3 0) (oneRay B)),
     stableRateSlope1 = bn_toFixed B (bn_times B (bn_num B 1 1) (oneRay B)),
     stableRateSlope2 = bn_toFixed B (bn_times B (bn_num B 3 0) (oneRay B)) \<rparr>"

definition aave_rateStrategyVolatileTwo :: "'b bn_api \<Rightarrow> IInterestRateStrategyParams" where
  "aave_rateStrategyVolatileTwo B = \<lparr>
     strategy_name = ''rateStrategyVolatileTwo'',
     optimalUtilizationRate = bn_toFixed B (bn_times B (bn_num B 65 2) (oneRay B)),
     baseVariableBorrowRate = bn_toFixed B (bn_times B (bn_num B 0 0) (oneRay B)),
     variableRateSlope1 = bn_toFixed B (bn_times B (bn_num B 8 2) (oneRay B)),
     variableRateSlope2 = bn_toFixed B (bn_times B (bn_num B 3 0) (oneRay B)),
     stableRateSlope1 = bn_toFixed B (bn_times B (bn_num B 1 1) (oneRay B)),
     stableRateSlope2 = bn_toFixed B (bn_times B (bn_num B 3 0) (oneRay B)) \<rparr>"

definition aave_rateStrategyVolatileThree :: "'b bn_api \<Rightarrow> IInterestRateStrategyParams" where
  "aave_rateStrategyVolatileThree B = \<lparr>
     strategy_name = ''rateStrategyVolatileThree'',
     optimalUtilizationRate = bn_toFixed B (bn_times B (bn_num B 65 2) (oneRay B)),
     baseVariableBorrowRate = bn_toFixed B (bn_times B (bn_num B 0 0) (oneRay B)),
     variableRateSlope1 = bn_toFixed B (bn_times B (bn_num B 8 2) (oneRay B)),
     variableRateSlope2 = bn_toFixed B (bn_times B (bn_num B 3 0) (oneRay B)),
     stableRateSlope1 = bn_toFixed B (bn_times B (bn_num B 1 1) (oneRay B)),
     stableRateSlope2 = bn_toFixed B (bn_times B (bn_num B 3 0) (oneRay B)) \<rparr>"

definition aave_rateStrategyVolatileFour :: "'b bn_api \<Rightarrow> IInterestRateStrategyParams" where
  "aave_rateStrategyVolatileFour B = \<lparr>
     strategy_name = ''rateStrategyVolatileFour'',
     optimalUtilizationRate = bn_toFixed B (bn_times B (bn_num B 45 2) (oneRay B)),
     baseVariableBorrowRate = ''0'',
     variableRateSlope1 = bn_toFixed B (bn_times B (bn_num B 7 2) (oneRay B)),
     variableRateSlope2 = bn_toFixed B (bn_times B (bn_num B 3 0) (oneRay B)),
     stableRateSlope1 = ''0'',
     stableRateSlope2 = ''0'' \<rparr>"

section \<open>Reserve parameters (\<open>reservesConfigs.ts\<close>)\<close>

definition aave_strategyBUSD :: "'b bn_api \<Rightarrow> IReserveParams" where
  "aave_strategyBUSD B = \<lparr>
     strategy = aave_rateStrategyStableOne B,
     baseLTVAsCollateral = ''0'',
     liquidationThreshold = ''0'',
     liquidationBonus = ''0'',
     borrowingEnabled = True,
     stableBorrowRateEnabled = False,
     reserveDecimals = ''18'',
     aTokenImpl = Id_AToken,
     reserveFactor = ''1000'' \<rparr>"

definition aave_strategyDAI :: "'b bn_api \<Rightarrow> IReserveParams" where
  "aave_strategyDAI B = \<lparr>
     strategy = aave_rateStrategyStableTwo B,
     baseLTVAsCollateral = ''7500'',
     liquidationThreshold = ''8000'',
     liquidationBonus = ''10500'',
     borrowingEnabled = True,
     stableBorrowRateEnabled = True,
     reserveDecimals = ''18'',
     aTokenImpl = Id_AToken,
     reserveFactor = ''1000'' \<rparr>"

definition aave_strategySUSD :: "'b bn_api \<Rightarrow> IReserveParams" where
  "aave_strategySUSD B = \<lparr>
     strategy = aave_rateStrategyStableOne B,
     baseLTVAsCollateral = ''0'',
     liquidationThreshold = ''0'',
     liquidationBonus = ''0'',
     borrowingEnabled = True,
     stableBorrowRateEnabled = False,
     reserveDecimals = ''18'',
     aTokenImpl = Id_AToken,
     reserveFactor = ''2000'' \<rparr>"

definition aave_strategyTUSD :: "'b bn_api \<Rightarrow> IReserveParams" where
  "aave_strategyTUSD B = \<lparr>
     strategy = aave_rateStrategyStableTwo B,
     baseLTVAsCollateral = ''7500'',
     liquidationThreshold = ''8000'',
     liquidationBonus = ''10500'',
     borrowingEnabled = True,
     stableBorrowRateEnabled = True,
     reserveDecimals = ''18'',
     aTokenImpl = Id_AToken,
     reserveFactor = ''1000'' \<rparr>"

definition aave_strategyUSDC :: "'b bn_api \<Rightarrow> IReserveParams" where
  "aave_strategyUSDC B = \<lparr>
     strategy = aave_rateStrategyStableThree B,
     baseLTVAsCollateral = ''8000'',
     liquidationThreshold = ''8500'',
     liquidationBonus = ''10500'',
     borrowingEnabled = True,
     stableBorrowRateEnabled = True,
     reserveDecimals = ''6'',
     aTokenImpl = Id_AToken,
     reserveFactor = ''1000'' \<rparr>"

definition aave_strategyUSDT :: "'b bn_api \<Rightarrow> IReserveParams" where
  "aave_strategyUSDT B = \<lparr>
     strategy = aave_rateStrategyStableThree B,
     baseLTVAsCollateral = ''8000'',
     liquidationThreshold = ''8500'',
     liquidationBonus = ''10500'',
     borrowingEnabled = True,
     stableBorrowRateEnabled = True,
     reserveDecimals = ''6'',
     aTokenImpl = Id_AToken,
     reserveFactor = ''1000'' \<rparr>"

definition aave_strategyAAVE :: "'b bn_api \<Rightarrow> IReserveParams" where
  "aave_strategyAAVE B = \<lparr>
     strategy = aave_rateStrategyAAVE B,
     baseLTVAsCollateral = ''5000'',
     liquidationThreshold = ''6500'',
     liquidationBonus = ''11000'',
     borrowingEnabled = False,
     stableBorrowRateEnabled = False,
     reserveDecimals = ''18'',
     aTokenImpl = Id_AToken,
     reserveFactor = ''0'' \<rparr>"

definition aave_strategyBAT :: "'b bn_api \<Rightarrow> IReserveParams" where
  "aave_strategyBAT B = \<lparr>
     strategy = aave_rateStrategyVolatileOne B,
     baseLTVAsCollateral = ''7000'',
     liquidationThreshold = ''7500'',
     liquidationBonus = ''11000'',
     borrowingEnabled = True,
     stableBorrowRateEnabled = True,
     reserveDecimals = ''18'',
     aTokenImpl = Id_AToken,
     reserveFactor = ''2000'' \<rparr>"

definition aave_strategyENJ :: "'b bn_api \<Rightarrow> IReserveParams" where
  "aave_strategyENJ B = \<lparr>
     strategy = aave_rateStrategyVolatileOne B,
     baseLTVAsCollateral = ''5500'',
     liquidationThreshold = ''6000'',
     liquidationBonus = ''11000'',
     borrowingEnabled = True,
     stableBorrowRateEnabled = True,
     reserveDecimals = ''18'',
     aTokenImpl = Id_AToken,
     reserveFactor = ''2000'' \<rparr>"

definition aave_strategyWETH :: "'b bn_api \<Rightarrow> IReserveParams" where
  "aave_strategyWETH B = \<lparr>
     strategy = aave_rateStrategyWETH B,
     baseLTVAsCollateral = ''8000'',
     liquidationThreshold = ''8250'',
     liquidationBonus = ''10500'',
     borrowingEnabled = True,
     stableBorrowRateEnabled = True,
     reserveDecimals = ''18'',
     aTokenImpl = Id_AToken,
     reserveFactor = ''1000'' \<rparr>"

definition aave_strategyKNC :: "'b bn_api \<Rightarrow> IReserveParams" where
  "aave_strategyKNC B = \<lparr>
     strategy = aave_rateStrategyVolatileTwo B,
     baseLTVAsCollateral = ''6000'',
     liquidationThreshold = ''6500'',
     liquidationBonus = ''11000'',
     borrowingEnabled = True,
     stableBorrowRateEnabled = True,
     reserveDecimals = ''18'',
     aTokenImpl = Id_AToken,
     reserveFactor = ''2000'' \<rparr>"

definition aave_strategyLINK :: "'b bn_api \<Rightarrow> IReserveParams" where
  "aave_strategyLINK B = \<lparr>
     strategy = aave_rateStrategyVolatileOne B,
     baseLTVAsCollateral = ''7000'',
     liquidationThreshold = ''7500'',
     liquidationBonus = ''11000'',
     borrowingEnabled = True,
     stableBorrowRateEnabled = True,
     reserveDecimals = ''18'',
     aTokenImpl = Id_AToken,
     reserveFactor = ''2000'' \<rparr>"

definition aave_strategyMANA :: "'b bn_api \<Rightarrow> IReserveParams" where
  "aave_strategyMANA B = \<lparr>
     strategy = aave_rateStrategyVolatileOne B,
     baseLTVAsCollateral = ''6000'',
     liquidationThreshold = ''6500'',
     liquidationBonus = ''11000'',
     borrowingEnabled = True,
     stableBorrowRateEnabled = True,
     reserveDecimals = ''18'',
     aTokenImpl = Id_AToken,
     reserveFactor = ''3500'' \<rparr>"

definition aave_strategyMKR :: "'b bn_api \<Rightarrow> IReserveParams" where
  "aave_strategyMKR B = \<lparr>
     strategy = aave_rateStrategyVolatileOne B,
     baseLTVAsCollateral = ''6000'',
     liquidationThreshold = ''6500'',
     liquidationBonus = ''11000'',
     borrowingEnabled = True,
     stableBorrowRateEnabled = True,
     reserveDecimals = ''18'',
     aTokenImpl = Id_AToken,
     reserveFactor = ''2000'' \<rparr>"

definition aave_strategyREN :: "'b bn_api \<Rightarrow> IReserveParams" where
  "aave_strategyREN B = \<lparr>
     strategy = aave_rateStrategyVolatileOne B,
     baseLTVAsCollateral = ''5500'',
     liquidationThreshold = ''6000'',
     liquidationBonus = ''11000'',
     borrowingEnabled = True,
     stableBorrowRateEnabled = True,
     reserveDecimals = ''18'',
     aTokenImpl = Id_AToken,
     reserveFactor = ''2000'' \<rparr>"

definition aave_strategySNX :: "'b bn_api \<Rightarrow> IReserveParams" where
  "aave_strategySNX B = \<lparr>
     strategy = aave_rateStrategyVolatileThree B,
     baseLTVAsCollateral = ''1500'',
     liquidationThreshold = ''4000'',
     liquidationBonus = ''11000'',
     borrowingEnabled = True,
     stableBorrowRateEnabled = False,
     reserveDecimals = ''18'',
     aTokenImpl = Id_AToken,
     reserveFactor = ''3500'' \<rparr>"

definition aave_strategyUNI :: "'b bn_api \<Rightarrow> IReserveParams" where
  "aave_strategyUNI B = \<lparr>
     strategy = aave_rateStrategyVolatileThree B,
     baseLTVAsCollateral = ''6000'',
     liquidationThreshold = ''6500'',
     liquidationBonus = ''11000'',
     borrowingEnabled = False,
     stableBorrowRateEnabled = False,
     reserveDecimals = ''18'',
     aTokenImpl = Id_DelegationAwareAToken,
     reserveFactor = ''2000'' \<rparr>"

definition aave_strategyWBTC :: "'b bn_api \<Rightarrow> IReserveParams" where
  "aave_strategyWBTC B = \<lparr>
     strategy = aave_rateStrategyVolatileTwo B,
     baseLTVAsCollateral = ''7000'',
     liquidationThreshold = ''7500'',
     liquidationBonus = ''11000'',
     borrowingEnabled = True,
     stableBorrowRateEnabled = True,
     reserveDecimals = ''8'',
     aTokenImpl = Id_AToken,
     reserveFactor = ''2000'' \<rparr>"

definition aave_strategyYFI :: "'b bn_api \<Rightarrow> IReserveParams" where
  "aave_strategyYFI B = \<lparr>
     strategy = aave_rateStrategyVolatileOne B,
     baseLTVAsCollateral = ''4000'',
     liquidationThreshold = ''5500'',
     liquidationBonus = ''11500'',
     borrowingEnabled = True,
     stableBorrowRateEnabled = True,
     reserveDecimals = ''18'',
     aTokenImpl = Id_AToken,
     reserveFactor = ''2000'' \<rparr>"

definition aave_strategyZRX :: "'b bn_api \<Rightarrow> IReserveParams" where
  "aave_strategyZRX B = \<lparr>
     strategy = aave_rateStrategyVolatileOne B,
     baseLTVAsCollateral = ''6000'',
     liquidationThreshold = ''6500'',
     liquidationBonus = ''11000'',
     borrowingEnabled = True,
     stableBorrowRateEnabled = True,
     reserveDecimals = ''18'',
     aTokenImpl = Id_AToken,
     reserveFactor = ''2000'' \<rparr>"

definition aave_strategyXSUSHI :: "'b bn_api \<Rightarrow> IReserveParams" where
  "aave_strategyXSUSHI B = \<lparr>
     strategy = aave_rateStrategyVolatileFour B,
     baseLTVAsCollateral = ''2500'',
     liquidationThreshold = ''4500'',
     liquidationBonus = ''11500'',
     borrowingEnabled = True,
     stableBorrowRateEnabled = False,
     reserveDecimals = ''18'',
     aTokenImpl = Id_AToken,
     reserveFactor = ''3500'' \<rparr>"

section \<open>The common configuration (\<open>commons.ts\<close>)\<close>

definition aave_LendingRateOracleRatesCommon :: "'b bn_api \<Rightarrow> IMarketRates js_obj" where
  "aave_LendingRateOracleRatesCommon B =
    [(''WETH'', \<lparr> borrowRate = bn_toFixed B (bn_times B (oneRay B) (bn_num B 3 2)) \<rparr>),
     (''DAI'', \<lparr> borrowRate = bn_toFixed B (bn_times B (oneRay B) (bn_num B 39 3)) \<rparr>),
     (''TUSD'', \<lparr> borrowRate = bn_toFixed B (bn_times B (oneRay B) (bn_num B 35 3)) \<rparr>),
     (''USDC'', \<lparr> borrowRate = bn_toFixed B (bn_times B (oneRay B) (bn_num B 39 3)) \<rparr>),
     (''SUSD'', \<lparr> borrowRate = bn_toFixed B (bn_times B (oneRay B) (bn_num B 35 3)) \<rparr>),
     (''USDT'', \<lparr> borrowRate = bn_toFixed B (bn_times B (oneRay B) (bn_num B 35 3)) \<rparr>),
     (''BAT'', \<lparr> borrowRate = bn_toFixed B (bn_times B (oneRay B) (bn_num B 3 2)) \<rparr>),
     (''AAVE'', \<lparr> borrowRate = bn_toFixed B (bn_times B (oneRay B) (bn_num B 3 2)) \<rparr>),
     (''LINK'', \<lparr> borrowRate = bn_toFixed B (bn_times B (oneRay B) (bn_num B 3 2)) \<rparr>),
     (''KNC'', \<lparr> borrowRate = bn_toFixed B (bn_times B (oneRay B) (bn_num B 3 2)) \<rparr>),
     (''MKR'', \<lparr> borrowRate = bn_toFixed B (bn_times B (oneRay B) (bn_num B 3 2)) \<rparr>),
     (''MANA'', \<lparr> borrowRate = bn_toFixed B (bn_times B (oneRay B) (bn_num B 3 2)) \<rparr>),
     (''WBTC'', \<lparr> borrowRate = bn_toFixed B (bn_times B (oneRay B) (bn_num B 3 2)) \<rparr>),
     (''ZRX'', \<lparr> borrowRate = bn_toFixed B (bn_times B (oneRay B) (bn_num B 3 2)) \<rparr>),
     (''SNX'', \<lparr> borrowRate = bn_toFixed B (bn_times B (oneRay B) (bn_num B 3 2)) \<rparr>),
     (''YFI'', \<lparr> borrowRate = bn_toFixed B (bn_times B (oneRay B) (bn_num B 3 2)) \<rparr>),
     (''REN'', \<lparr> borrowRate = bn_toFixed B (bn_times B (oneRay B) (bn_num B 3 2)) \<rparr>),
     (''UNI'', \<lparr> borrowRate = bn_toFixed B (bn_times B (oneRay B) (bn_num B 3 2)) \<rparr>),
     (''BUSD'', \<lparr> borrowRate = bn_toFixed B (bn_times B (oneRay B) (bn_num B 5 2)) \<rparr>)]"

definition aave_PoolAdmin :: "(string option) js_obj" where
  "aave_PoolAdmin =
    obj_lit
    [(eth_network Eth_coverage, None),
     (eth_network Eth_buidlerevm, None),
     (eth_network Eth_coverage, None),
     (eth_network Eth_hardhat, None),
     (eth_network Eth_kovan, None),
     (eth_network Eth_ropsten, None),
     (eth_network Eth_main, None),
     (eth_network Eth_tenderlyMain, None)]"

definition aave_EmergencyAdmin :: "(string option) js_obj" where
  "aave_EmergencyAdmin =
    [(eth_network Eth_hardhat, None),
     (eth_network Eth_coverage, None),
     (eth_network Eth_buidlerevm, None),
     (eth_network Eth_kovan, None),
     (eth_network Eth_ropsten, None),
     (eth_network Eth_main, None),
     (eth_network Eth_tenderlyMain, None)]"

definition aave_ProviderRegistry :: "(string option) js_obj" where
  "aave_ProviderRegistry =
    [(eth_network Eth_kovan, Some ''0x1E40B561EC587036f9789aF83236f057D1ed2A90''),
     (eth_network Eth_ropsten, Some ''''),
     (eth_network Eth_main, Some ''0x52D306e36E3B6B02c153d0266ff0f85d18BCD413''),
     (eth_network Eth_coverage, Some ''''),
     (eth_network Eth_hardhat, Some ''''),
     (eth_network Eth_buidlerevm, Some ''''),
     (eth_network Eth_tenderlyMain, Some ''0x52D306e36E3B6B02c153d0266ff0f85d18BCD413'')]"

definition aave_ProviderRegistryOwner :: "(string option) js_obj" where
  "aave_ProviderRegistryOwner =
    [(eth_network Eth_kovan, Some ''0x85e4A467343c0dc4aDAB74Af84448D9c45D8ae6F''),
     (eth_network Eth_ropsten, Some ''''),
     (eth_network Eth_main, Some ''0xbd723fc4f1d737dcfc48a07fe7336766d34cad5f''),
     (eth_network Eth_coverage, Some ''''),
     (eth_network Eth_hardhat, Some ''''),
     (eth_network Eth_buidlerevm, Some ''''),
     (eth_network Eth_tenderlyMain, Some ''0xbd723fc4f1d737dcfc48a07fe7336766d34cad5f'')]"

definition aave_LendingRateOracle :: "string js_obj" where
  "aave_LendingRateOracle =
    [(eth_network Eth_coverage, ''''),
     (eth_network Eth_hardhat, ''''),
     (eth_network Eth_buidlerevm, ''''),
     (eth_network Eth_kovan, ''''),
     (eth_network Eth_ropsten, ''0x05dcca805a6562c1bdd0423768754acb6993241b''),
     (eth_network Eth_main, ''''),
     (eth_network Eth_tenderlyMain, ''0x8A32f49FFbA88aba6EFF96F45D8BD1D4b3f35c7D'')]"

definition aave_LendingPoolCollateralManager :: "string js_obj" where
  "aave_LendingPoolCollateralManager =
    [(eth_network Eth_coverage, ''''),
     (eth_network Eth_hardhat, ''''),
     (eth_network Eth_buidlerevm, ''''),
     (eth_network Eth_kovan, ''0x9269b6453d0d75370c4c85e5a42977a53efdb72a''),
     (eth_network Eth_ropsten, ''''),
     (eth_network Eth_main, ''0xbd4765210d4167CE2A5b87280D9E8Ee316D5EC7C''),
     (eth_network Eth_tenderlyMain, ''0xbd4765210d4167CE2A5b87280D9E8Ee316D5EC7C'')]"

definition aave_LendingPoolConfigurator :: "string js_obj" where
  "aave_LendingPoolConfigurator =
    [(eth_network Eth_coverage, ''''),
     (eth_network Eth_hardhat, ''''),
     (eth_network Eth_buidlerevm, ''''),
     (eth_network Eth_kovan, ''''),
     (eth_network Eth_ropsten, ''''),
     (eth_network Eth_main, ''''),
     (eth_network Eth_tenderlyMain, '''')]"

definition aave_LendingPool :: "string js_obj" where
  "aave_LendingPool =
    [(eth_network Eth_coverage, ''''),
     (eth_network Eth_hardhat, ''''),
     (eth_network Eth_buidlerevm, ''''),
     (eth_network Eth_kovan, ''''),
     (eth_network Eth_ropsten, ''''),
     (eth_network Eth_main, ''''),
     (eth_network Eth_tenderlyMain, '''')]"

definition aave_WethGateway :: "string js_obj" where
  "aave_WethGateway =
    [(eth_network Eth_coverage, ''''),
     (eth_network Eth_hardhat, ''''),
     (eth_network Eth_buidlerevm, ''''),
     (eth_network Eth_kovan, ''0xf99b8E67a0E044734B01EC4586D1c88C9a869718''),
     (eth_network Eth_ropsten, ''''),
     (eth_network Eth_main, ''''),
     (eth_network Eth_tenderlyMain, '''')]"

definition aave_TokenDistributor :: "string js_obj" where
  "aave_TokenDistributor =
    [(eth_network Eth_coverage, ''''),
     (eth_network Eth_buidlerevm, ''''),
     (eth_network Eth_hardhat, ''''),
     (eth_network Eth_kovan, ''0x971efe90088f21dc6a36f610ffed77fc19710708''),
     (eth_network Eth_ropsten, ''0xeba2ea67942b8250d870b12750b594696d02fc9c''),
     (eth_network Eth_main, ''0xe3d9988f676457123c5fd01297605efdd0cba1ae''),
     (eth_network Eth_tenderlyMain, ''0xe3d9988f676457123c5fd01297605efdd0cba1ae'')]"

definition aave_AaveOracle :: "string js_obj" where
  "aave_AaveOracle =
    [(eth_network Eth_coverage, ''''),
     (eth_network Eth_hardhat, ''''),
     (eth_network Eth_buidlerevm, ''''),
     (eth_network Eth_kovan, ''''),
     (eth_network Eth_ropsten, ZERO_ADDRESS),
     (eth_network Eth_main, ''''),
     (eth_network Eth_tenderlyMain, ''0xA50ba011c48153De246E5192C8f9258A2ba79Ca9'')]"

definition aave_FallbackOracle :: "string js_obj" where
  "aave_FallbackOracle =
    [(eth_network Eth_coverage, ''''),
     (eth_network Eth_hardhat, ''''),
     (eth_network Eth_buidlerevm, ''''),
     (eth_network Eth_kovan, ''0x50913E8E1c650E790F8a1E741FF9B1B1bB251dfe''),
     (eth_network Eth_ropsten, ''0xAD1a978cdbb8175b2eaeC47B01404f8AEC5f4F0d''),
     (eth_network Eth_main, ZERO_ADDRESS),
     (eth_network Eth_tenderlyMain, ZERO_ADDRESS)]"

definition aave_ChainlinkAggregator :: "string js_obj js_obj" where
  "aave_ChainlinkAggregator =
    [(eth_network Eth_coverage, []),
     (eth_network Eth_hardhat, []),
     (eth_network Eth_buidlerevm, []),
     (eth_network Eth_kovan, [(''AAVE'', ''0xd04647B7CB523bb9f26730E9B6dE1174db7591Ad''),
         (''BAT'', ''0x0e4fcEC26c9f85c3D714370c98f43C4E02Fc35Ae''),
         (''BUSD'', ''0xbF7A18ea5DE0501f7559144e702b29c55b055CcB''),
         (''DAI'', ''0x22B58f1EbEDfCA50feF632bD73368b2FdA96D541''),
         (''ENJ'', ''0xfaDbe2ee798889F02d1d39eDaD98Eff4c7fe95D4''),
         (''KNC'', ''0xb8E8130d244CFd13a75D6B9Aee029B1C33c808A7''),
         (''LINK'', ''0x3Af8C569ab77af5230596Acf0E8c2F9351d24C38''),
         (''MANA'', ''0x1b93D8E109cfeDcBb3Cc74eD761DE286d5771511''),
         (''MKR'', ''0x0B156192e04bAD92B6C1C13cf8739d14D78D5701''),
         (''REN'', ''0xF1939BECE7708382b5fb5e559f630CB8B39a10ee''),
         (''SNX'', ''0xF9A76ae7a1075Fe7d646b06fF05Bd48b9FA5582e''),
         (''SUSD'', ''0xb343e7a1aF578FA35632435243D814e7497622f7''),
         (''TUSD'', ''0x7aeCF1c19661d12E962b69eBC8f6b2E63a55C660''),
         (''UNI'', ''0x17756515f112429471F86f98D5052aCB6C47f6ee''),
         (''USDC'', ''0x64EaC61A2DFda2c3Fa04eED49AA33D021AeC8838''),
         (''USDT'', ''0x0bF499444525a23E7Bb61997539725cA2e928138''),
         (''WBTC'', ''0xF7904a295A029a3aBDFFB6F12755974a958C7C25''),
         (''YFI'', ''0xC5d1B1DEb2992738C0273408ac43e1e906086B6C''),
         (''ZRX'', ''0xBc3f28Ccc21E9b5856E81E6372aFf57307E2E883''),
         (''USD'', ''0x9326BFA02ADD2366b30bacB125260Af641031331'')]),
     (eth_network Eth_ropsten, [(''AAVE'', ZERO_ADDRESS),
         (''BAT'', ''0xafd8186c962daf599f171b8600f3e19af7b52c92''),
         (''BUSD'', ''0x0A32D96Ff131cd5c3E0E5AAB645BF009Eda61564''),
         (''DAI'', ''0x64b8e49baded7bfb2fd5a9235b2440c0ee02971b''),
         (''ENJ'', ZERO_ADDRESS),
         (''KNC'', ''0x19d97ceb36624a31d827032d8216dd2eb15e9845''),
         (''LINK'', ''0xb8c99b98913bE2ca4899CdcaF33a3e519C20EeEc''),
         (''MANA'', ''0xDab909dedB72573c626481fC98CEE1152b81DEC2''),
         (''MKR'', ''0x811B1f727F8F4aE899774B568d2e72916D91F392''),
         (''REN'', ZERO_ADDRESS),
         (''SNX'', ''0xA95674a8Ed9aa9D2E445eb0024a9aa05ab44f6bf''),
         (''SUSD'', ''0xe054b4aee7ac7645642dd52f1c892ff0128c98f0''),
         (''TUSD'', ''0x523ac85618df56e940534443125ef16daf785620''),
         (''UNI'', ZERO_ADDRESS),
         (''USDC'', ''0xe1480303dde539e2c241bdc527649f37c9cbef7d''),
         (''USDT'', ''0xc08fe0c4d97ccda6b40649c6da621761b628c288''),
         (''WBTC'', ''0x5b8B87A0abA4be247e660B0e0143bB30Cdf566AF''),
         (''YFI'', ZERO_ADDRESS),
         (''ZRX'', ''0x1d0052e4ae5b4ae4563cbac50edc3627ca0460d7''),
         (''USD'', ''0x8468b2bDCE073A157E560AA4D9CcF6dB1DB98507'')]),
     (eth_network Eth_main, [(''AAVE'', ''0x6Df09E975c830ECae5bd4eD9d90f3A95a4f88012''),
         (''BAT'', ''0x0d16d4528239e9ee52fa531af613AcdB23D88c94''),
         (''BUSD'', ''0x614715d2Af89E6EC99A233818275142cE88d1Cfd''),
         (''DAI'', ''0x773616E4d11A78F511299002da57A0a94577F1f4''),
         (''ENJ'', ''0x24D9aB51950F3d62E9144fdC2f3135DAA6Ce8D1B''),
         (''KNC'', ''0x656c0544eF4C98A6a98491833A89204Abb045d6b''),
         (''LINK'', ''0xDC530D9457755926550b59e8ECcdaE7624181557''),
         (''MANA'', ''0x82A44D92D6c329826dc557c5E1Be6ebeC5D5FeB9''),
         (''MKR'', ''0x24551a8Fb2A7211A25a17B1481f043A8a8adC7f2''),
         (''REN'', ''0x3147D7203354Dc06D9fd350c7a2437bcA92387a4''),
         (''SNX'', ''0x79291A9d692Df95334B1a0B3B4AE6bC606782f8c''),
         (''SUSD'', ''0x8e0b7e6062272B5eF4524250bFFF8e5Bd3497757''),
         (''TUSD'', ''0x3886BA987236181D98F2401c507Fb8BeA7871dF2''),
         (''UNI'', ''0xD6aA3D25116d8dA79Ea0246c4826EB951872e02e''),
         (''USDC'', ''0x986b5E1e1755e3C2440e960477f25201B0a8bbD4''),
         (''USDT'', ''0xEe9F2375b4bdF6387aa8265dD4FB8F16512A1d46''),
         (''WBTC'', ''0xdeb288F737066589598e9214E782fa5A8eD689e8''),
         (''YFI'', ''0x7c5d4F8345e66f68099581Db340cd65B078C41f4''),
         (''ZRX'', ''0x2Da4983a622a8498bb1a21FaE9D8F6C664939962''),
         (''USD'', ''0x5f4eC3Df9cbd43714FE2740f5E3616155c5b8419'')]),
     (eth_network Eth_tenderlyMain, [(''AAVE'', ''0x6Df09E975c830ECae5bd4eD9d90f3A95a4f88012''),
         (''BAT'', ''0x0d16d4528239e9ee52fa531af613AcdB23D88c94''),
         (''BUSD'', ''0x614715d2Af89E6EC99A233818275142cE88d1Cfd''),
         (''DAI'', ''0x773616E4d11A78F511299002da57A0a94577F1f4''),
         (''ENJ'', ''0x24D9aB51950F3d62E9144fdC2f3135DAA6Ce8D1B''),
         (''KNC'', ''0x656c0544eF4C98A6a98491833A89204Abb045d6b''),
         (''LINK'', ''0xDC530D9457755926550b59e8ECcdaE7624181557''),
         (''MANA'', ''0x82A44D92D6c329826dc557c5E1Be6ebeC5D5FeB9''),
         (''MKR'', ''0x24551a8Fb2A7211A25a17B1481f043A8a8adC7f2''),
         (''REN'', ''0x3147D7203354Dc06D9fd350c7a2437bcA92387a4''),
         (''SNX'', ''0x79291A9d692Df95334B1a0B3B4AE6bC606782f8c''),
         (''SUSD'', ''0x8e0b7e6062272B5eF4524250bFFF8e5Bd3497757''),
         (''TUSD'', ''0x3886BA987236181D98F2401c507Fb8BeA7871dF2''),
         (''UNI'', ''0xD6aA3D25116d8dA79Ea0246c4826EB951872e02e''),
         (''USDC'', ''0x986b5E1e1755e3C2440e960477f25201B0a8bbD4''),
         (''USDT'', ''0xEe9F2375b4bdF6387aa8265dD4FB8F16512A1d46''),
         (''WBTC'', ''0xdeb288F737066589598e9214E782fa5A8eD689e8''),
         (''YFI'', ''0x7c5d4F8345e66f68099581Db340cd65B078C41f4''),
         (''ZRX'', ''0x2Da4983a622a8498bb1a21FaE9D8F6C664939962''),
         (''USD'', ''0x5f4eC3Df9cbd43714FE2740f5E3616155c5b8419'')])]"

definition aave_ReserveAssets :: "string js_obj js_obj" where
  "aave_ReserveAssets =
    [(eth_network Eth_coverage, []),
     (eth_network Eth_hardhat, []),
     (eth_network Eth_buidlerevm, []),
     (eth_network Eth_main, []),
     (eth_network Eth_kovan, []),
     (eth_network Eth_ropsten, []),
     (eth_network Eth_tenderlyMain, [])]"

definition aave_ATokenDomainSeparator :: "string js_obj" where
  "aave_ATokenDomainSeparator =
    [(eth_network Eth_coverage, ''0x95b73a72c6ecf4ccbbba5178800023260bad8e75cdccdb8e4827a2977a37c820''),
     (eth_network Eth_hardhat, ''0xbae024d959c6a022dc5ed37294cd39c141034b2ae5f02a955cce75c930a81bf5''),
     (eth_network Eth_buidlerevm, ''0xbae024d959c6a022dc5ed37294cd39c141034b2ae5f02a955cce75c930a81bf5''),
     (eth_network Eth_kovan, ''''),
     (eth_network Eth_ropsten, ''''),
     (eth_network Eth_main, ''''),
     (eth_network Eth_tenderlyMain, '''')]"

definition aave_WETH :: "string js_obj" where
  "aave_WETH =
    [(eth_network Eth_coverage, ''''),
     (eth_network Eth_hardhat, ''''),
     (eth_network Eth_buidlerevm, ''''),
     (eth_network Eth_kovan, ''0xd0a1e359811322d97991e03f863a0c30c2cf029c''),
     (eth_network Eth_ropsten, ''0xc778417e063141139fce010982780140aa0cd5ab''),
     (eth_network Eth_main, ''0xc02aaa39b223fe8d0a0e5c4f27ead9083c756cc2''),
     (eth_network Eth_tenderlyMain, ''0xc02aaa39b223fe8d0a0e5c4f27ead9083c756cc2'')]"

definition aave_ReserveFactorTreasuryAddress :: "string js_obj" where
  "aave_ReserveFactorTreasuryAddress =
    [(eth_network Eth_coverage, ''0x464c71f6c2f760dda6093dcb91c24c39e5d6e18c''),
     (eth_network Eth_hardhat, ''0x464c71f6c2f760dda6093dcb91c24c39e5d6e18c''),
     (eth_network Eth_buidlerevm, ''0x464c71f6c2f760dda6093dcb91c24c39e5d6e18c''),
     (eth_network Eth_kovan, ''0x464c71f6c2f760dda6093dcb91c24c39e5d6e18c''),
     (eth_network Eth_ropsten, ''0x464c71f6c2f760dda6093dcb91c24c39e5d6e18c''),
     (eth_network Eth_main, ''0x464c71f6c2f760dda6093dcb91c24c39e5d6e18c''),
     (eth_network Eth_tenderlyMain, ''0x464c71f6c2f760dda6093dcb91c24c39e5d6e18c'')]"

definition aave_CommonsConfig :: "'b bn_api \<Rightarrow> ICommonConfiguration" where
  "aave_CommonsConfig B = \<lparr>
     MarketId = ''Commons'',
     ATokenNamePrefix = ''Aave interest bearing'',
     StableDebtTokenNamePrefix = ''Aave stable debt bearing'',
     VariableDebtTokenNamePrefix = ''Aave variable debt bearing'',
     SymbolPrefix = ''a'',
     ProviderId = 0,
     ProtocolGlobalParams = \<lparr>
       TokenDistributorPercentageBase = ''10000'',
       MockUsdPriceInWei = ''5848466240000000'',
       UsdAddress = ''0x10F7Fc1F91Ba351f9C629c5947AD69bD03C05b96'',
       NilAddress = ''0x0000000000000000000000000000000000000000'',
       OneAddress = ''0x0000000000000000000000000000000000000001'',
       AaveReferral = ''0'' \<rparr>,
     AllAssetsInitialPrices = MOCK_CHAINLINK_AGGREGATORS_PRICES B,
     ProviderRegistry = aave_ProviderRegistry,
     ProviderRegistryOwner = aave_ProviderRegistryOwner,
     LendingPoolCollateralManager = aave_LendingPoolCollateralManager,
     LendingPoolConfigurator = aave_LendingPoolConfigurator,
     LendingPool = aave_LendingPool,
     LendingRateOracleRatesCommon = aave_LendingRateOracleRatesCommon B,
     LendingRateOracle = aave_LendingRateOracle,
     TokenDistributor = aave_TokenDistributor,
     AaveOracle = aave_AaveOracle,
     FallbackOracle = aave_FallbackOracle,
     ChainlinkAggregator = aave_ChainlinkAggregator,
     PoolAdmin = aave_PoolAdmin,
     PoolAdminIndex = 0,
     EmergencyAdmin = aave_EmergencyAdmin,
     EmergencyAdminIndex = 1,
     ReserveAssets = aave_ReserveAssets,
     ReservesConfig = [],
     ATokenDomainSeparator = aave_ATokenDomainSeparator,
     WETH = aave_WETH,
     WethGateway = aave_WethGateway,
     ReserveFactorTreasuryAddress = aave_ReserveFactorTreasuryAddress \<rparr>"

section \<open>The market (\<open>index.ts\<close>)\<close>

definition aave_ReservesConfig :: "'b bn_api \<Rightarrow> IReserveParams js_obj" where
  "aave_ReservesConfig B =
    [(''AAVE'', aave_strategyAAVE B),
     (''BAT'', aave_strategyBAT B),
     (''BUSD'', aave_strategyBUSD B),
     (''DAI'', aave_strategyDAI B),
     (''ENJ'', aave_strategyREN B),
     (''KNC'', aave_strategyKNC B),
     (''LINK'', aave_strategyLINK B),
     (''MANA'', aave_strategyMANA B),
     (''MKR'', aave_strategyMKR B),
     (''REN'', aave_strategyREN B),
     (''SNX'', aave_strategySNX B),
     (''SUSD'', aave_strategySUSD B),
     (''TUSD'', aave_strategyTUSD B),
     (''UNI'', aave_strategyUNI B),
     (''USDC'', aave_strategyUSDC B),
     (''USDT'', aave_strategyUSDT B),
     (''WBTC'', aave_strategyWBTC B),
     (''WETH'', aave_strategyWETH B),
     (''YFI'', aave_strategyYFI B),
     (''ZRX'', aave_strategyZRX B),
     (''xSUSHI'', aave_strategyXSUSHI B)]"

definition aave_MarketReserveAssets :: "string js_obj js_obj" where
  "aave_MarketReserveAssets =
    [(eth_network Eth_buidlerevm, []),
     (eth_network Eth_hardhat, []),
     (eth_network Eth_coverage, []),
     (eth_network Eth_kovan, [(''AAVE'', ''0xB597cd8D3217ea6477232F9217fa70837ff667Af''),
         (''BAT'', ''0x2d12186Fbb9f9a8C28B3FfdD4c42920f8539D738''),
         (''BUSD'', ''0x4c6E1EFC12FDfD568186b7BAEc0A43fFfb4bCcCf''),
         (''DAI'', ''0xFf795577d9AC8bD7D90Ee22b6C1703490b6512FD''),
         (''ENJ'', ''0xC64f90Cd7B564D3ab580eb20a102A8238E218be2''),
         (''KNC'', ''0x3F80c39c0b96A0945f9F0E9f55d8A8891c5671A8''),
         (''LINK'', ''0xAD5ce863aE3E4E9394Ab43d4ba0D80f419F61789''),
         (''MANA'', ''0x738Dc6380157429e957d223e6333Dc385c85Fec7''),
         (''MKR'', ''0x61e4CAE3DA7FD189e52a4879C7B8067D7C2Cc0FA''),
         (''REN'', ''0x5eebf65A6746eed38042353Ba84c8e37eD58Ac6f''),
         (''SNX'', ''0x7FDb81B0b8a010dd4FFc57C3fecbf145BA8Bd947''),
         (''SUSD'', ''0x99b267b9D96616f906D53c26dECf3C5672401282''),
         (''TUSD'', ''0x016750AC630F711882812f24Dba6c95b9D35856d''),
         (''UNI'', ''0x075A36BA8846C6B6F53644fDd3bf17E5151789DC''),
         (''USDC'', ''0xe22da380ee6B445bb8273C81944ADEB6E8450422''),
         (''USDT'', ''0x13512979ADE267AB5100878E2e0f485B568328a4''),
         (''WBTC'', ''0xD1B98B6607330172f1D991521145A22BCe793277''),
         (''WETH'', ''0xd0a1e359811322d97991e03f863a0c30c2cf029c''),
         (''YFI'', ''0xb7c325266ec274fEb1354021D27FA3E3379D840d''),
         (''ZRX'', ''0xD0d76886cF8D952ca26177EB7CfDf83bad08C00C'')]),
     (eth_network Eth_ropsten, [(''AAVE'', ''''),
         (''BAT'', ''0x85B24b3517E3aC7bf72a14516160541A60cFF19d''),
         (''BUSD'', ''0xFA6adcFf6A90c11f31Bc9bb59eC0a6efB38381C6''),
         (''DAI'', ''0xf80A32A835F79D7787E8a8ee5721D0fEaFd78108''),
         (''ENJ'', ZERO_ADDRESS),
         (''KNC'', ''0xCe4aA1dE3091033Ba74FA2Ad951f6adc5E5cF361''),
         (''LINK'', ''0x1a906E71FF9e28d8E01460639EB8CF0a6f0e2486''),
         (''MANA'', ''0x78b1F763857C8645E46eAdD9540882905ff32Db7''),
         (''MKR'', ''0x2eA9df3bABe04451c9C3B06a2c844587c59d9C37''),
         (''REN'', ZERO_ADDRESS),
         (''SNX'', ''0xF80Aa7e2Fda4DA065C55B8061767F729dA1476c7''),
         (''SUSD'', ''0xc374eB17f665914c714Ac4cdC8AF3a3474228cc5''),
         (''TUSD'', ''0xa2EA00Df6d8594DBc76b79beFe22db9043b8896F''),
         (''UNI'', ZERO_ADDRESS),
         (''USDC'', ''0x851dEf71f0e6A903375C1e536Bd9ff1684BAD802''),
         (''USDT'', ''0xB404c51BBC10dcBE948077F18a4B8E553D160084''),
         (''WBTC'', ''0xa0E54Ab6AA5f0bf1D62EC3526436F3c05b3348A0''),
         (''WETH'', ''0xc778417e063141139fce010982780140aa0cd5ab''),
         (''YFI'', ZERO_ADDRESS),
         (''ZRX'', ''0x02d7055704EfF050323A2E5ee4ba05DB2A588959'')]),
     (eth_network Eth_main, [(''AAVE'', ''0x7Fc66500c84A76Ad7e9c93437bFc5Ac33E2DDaE9''),
         (''BAT'', ''0x0d8775f648430679a709e98d2b0cb6250d2887ef''),
         (''BUSD'', ''0x4Fabb145d64652a948d72533023f6E7A623C7C53''),
         (''DAI'', ''0x6B175474E89094C44Da98b954EedeAC495271d0F''),
         (''ENJ'', ''0xF629cBd94d3791C9250152BD8dfBDF380E2a3B9c''),
         (''KNC'', ''0xdd974D5C2e2928deA5F71b9825b8b646686BD200''),
         (''LINK'', ''0x514910771AF9Ca656af840dff83E8264EcF986CA''),
         (''MANA'', ''0x0F5D2fB29fb7d3CFeE444a200298f468908cC942''),
         (''MKR'', ''0x9f8F72aA9304c8B593d555F12eF6589cC3A579A2''),
         (''REN'', ''0x408e41876cCCDC0F92210600ef50372656052a38''),
         (''SNX'', ''0xC011a73ee8576Fb46F5E1c5751cA3B9Fe0af2a6F''),
         (''SUSD'', ''0x57Ab1ec28D129707052df4dF418D58a2D46d5f51''),
         (''TUSD'', ''0x0000000000085d4780B73119b644AE5ecd22b376''),
         (''UNI'', ''0x1f9840a85d5aF5bf1D1762F925BDADdC4201F984''),
         (''USDC'', ''0xA0b86991c6218b36c1d19D4a2e9Eb0cE3606eB48''),
         (''USDT'', ''0xdAC17F958D2ee523a2206206994597C13D831ec7''),
         (''WBTC'', ''0x2260FAC5E5542a773Aa44fBCfeDf7C193bc2C599''),
         (''WETH'', ''0xC02aaA39b223FE8D0A0e5C4F27eAD9083C756Cc2''),
         (''YFI'', ''0x0bc529c00C6401aEF6D220BE8C6Ea1667F6Ad93e''),
         (''ZRX'', ''0xE41d2489571d322189246DaFA5ebDe1F4699F498''),
         (''xSUSHI'', ''0x8798249c2E607446EfB7Ad49eC89dD1865Ff4272'')]),
     (eth_network Eth_tenderlyMain, [(''AAVE'', ''0x7Fc66500c84A76Ad7e9c93437bFc5Ac33E2DDaE9''),
         (''BAT'', ''0x0d8775f648430679a709e98d2b0cb6250d2887ef''),
         (''BUSD'', ''0x4Fabb145d64652a948d72533023f6E7A623C7C53''),
         (''DAI'', ''0x6B175474E89094C44Da98b954EedeAC495271d0F''),
         (''ENJ'', ''0xF629cBd94d3791C9250152BD8dfBDF380E2a3B9c''),
         (''KNC'', ''0xdd974D5C2e2928deA5F71b9825b8b646686BD200''),
         (''LINK'', ''0x514910771AF9Ca656af840dff83E8264EcF986CA''),
         (''MANA'', ''0x0F5D2fB29fb7d3CFeE444a200298f468908cC942''),
         (''MKR'', ''0x9f8F72aA9304c8B593d555F12eF6589cC3A579A2''),
         (''REN'', ''0x408e41876cCCDC0F92210600ef50372656052a38''),
         (''SNX'', ''0xC011a73ee8576Fb46F5E1c5751cA3B9Fe0af2a6F''),
         (''SUSD'', ''0x57Ab1ec28D129707052df4dF418D58a2D46d5f51''),
         (''TUSD'', ''0x0000000000085d4780B73119b644AE5ecd22b376''),
         (''UNI'', ''0x1f9840a85d5aF5bf1D1762F925BDADdC4201F984''),
         (''USDC'', ''0xA0b86991c6218b36c1d19D4a2e9Eb0cE3606eB48''),
         (''USDT'', ''0xdAC17F958D2ee523a2206206994597C13D831ec7''),
         (''WBTC'', ''0x2260FAC5E5542a773Aa44fBCfeDf7C193bc2C599''),
         (''WETH'', ''0xC02aaA39b223FE8D0A0e5C4F27eAD9083C756Cc2''),
         (''YFI'', ''0x0bc529c00C6401aEF6D220BE8C6Ea1667F6Ad93e''),
         (''ZRX'', ''0xE41d2489571d322189246DaFA5ebDe1F4699F498''),
         (''xSUSHI'', ''0x8798249c2E607446EfB7Ad49eC89dD1865Ff4272'')])]"

definition AaveConfig :: "'b bn_api \<Rightarrow> ICommonConfiguration" where
  "AaveConfig B = (aave_CommonsConfig B)\<lparr>
     MarketId := ''Aave genesis market'',
     ProviderId := 1,
     ReservesConfig := aave_ReservesConfig B,
     ReserveAssets := aave_MarketReserveAssets \<rparr>"


end
