(* ===== verification/AmmMarket.thy ===== *)
theory AmmMarket
  imports Types Constants
begin

text \<open>
  The Aave AMM market: the files of \<open>src/markets/amm\<close>. Rates are ray-scaled decimal strings computed
  with bignumber.js, so the strategies are functions of its operations \<open>B\<close>. A field of more than
  a few lines is a definition of its own, named after the market and the field.
\<close>

section \<open>Rate strategies (\<open>rateStrategies.ts\<close>)\<close>

definition amm_rateStrategyAmmBase :: "'b bn_api \<Rightarrow> IInterestRateStrategyParams" where
  "amm_rateStrategyAmmBase B = \<lparr>
     strategy_name = ''rateStrategyAmmBase'',
     optimalUtilizationRate = bn_toFixed B (bn_times B (bn_num B 45 2) (oneRay B)),
     baseVariableBorrowRate = bn_toFixed B (bn_times B (bn_num B 3 2) (oneRay B)),
     variableRateSlope1 = bn_toFixed B (bn_times B (bn_num B 10 2) (oneRay B)),
     variableRateSlope2 = bn_toFixed B (bn_times B (bn_num B 300 2) (oneRay B)),
     stableRateSlope1 = bn_toFixed B (bn_times B (bn_num B 1 1) (oneRay B)),
     stableRateSlope2 = bn_toFixed B (bn_times B (bn_num B 3 0) (oneRay B)) \<rparr>"

definition amm_rateStrategyBaseOne :: "'b bn_api \<Rightarrow> IInterestRateStrategyParams" where
  "amm_rateStrategyBaseOne B = \<lparr>
     strategy_name = ''rateStrategyBaseOne'',
     optimalUtilizationRate = bn_toFixed B (bn_times B (bn_num B 65 2) (oneRay B)),
     baseVariableBorrowRate = bn_toFixed B (bn_times B (bn_num B 0 0) (oneRay B)),
     variableRateSlope1 = bn_toFixed B (bn_times B (bn_num B 8 2) (oneRay B)),
     variableRateSlope2 = bn_toFixed B (bn_times B (bn_num B 1 0) (oneRay B)),
     stableRateSlope1 = bn_toFixed B (bn_times B (bn_num B 1 1) (oneRay B)),
     stableRateSlope2 = bn_toFixed B (bn_times B (bn_num B 1 0) (oneRay B)) \<rparr>"

definition amm_rateStrategyStable :: "'b bn_api \<Rightarrow> IInterestRateStrategyParams" where
  "amm_rateStrategyStable B = \<lparr>
     strategy_name = ''rateStrategyStable'',
     optimalUtilizationRate = bn_toFixed B (bn_times B (bn_num B 8 1) (oneRay B)),
     baseVariableBorrowRate = bn_toFixed B (bn_times B (bn_num B 0 0) (oneRay B)),
     variableRateSlope1 = bn_toFixed B (bn_times B (bn_num B 4 2) (oneRay B)),
     variableRateSlope2 = bn_toFixed B (bn_times B (bn_num B 75 2) (oneRay B)),
     stableRateSlope1 = bn_toFixed B (bn_times B (bn_num B 2 2) (oneRay B)),
     stableRateSlope2 = bn_toFixed B (bn_times B (bn_num B 60 2) (oneRay B)) \<rparr>"

section \<open>Reserve parameters (\<open>reservesConfigs.ts\<close>)\<close>

definition amm_strategyWETH :: "'b bn_api \<Rightarrow> IReserveParams" where
  "amm_strategyWETH B = \<lparr>
     strategy = amm_rateStrategyBaseOne B,
     baseLTVAsCollateral = ''8000'',
     liquidationThreshold = ''8250'',
     liquidationBonus = ''10500'',
     borrowingEnabled = True,
     stableBorrowRateEnabled = False,
     reserveDecimals = ''18'',
     aTokenImpl = Id_AToken,
     reserveFactor = ''1000'' \<rparr>"

definition amm_strategyWBTC :: "'b bn_api \<Rightarrow> IReserveParams" where
  "amm_strategyWBTC B = \<lparr>
     strategy = amm_rateStrategyBaseOne B,
     baseLTVAsCollateral = ''7000'',
     liquidationThreshold = ''7500'',
     liquidationBonus = ''11000'',
     borrowingEnabled = True,
     stableBorrowRateEnabled = False,
     reserveDecimals = ''8'',
     aTokenImpl = Id_AToken,
     reserveFactor = ''2000'' \<rparr>"

definition amm_strategyDAI :: "'b bn_api \<Rightarrow> IReserveParams" where
  "amm_strategyDAI B = \<lparr>
     strategy = amm_rateStrategyStable B,
     baseLTVAsCollateral = ''7500'',
     liquidationThreshold = ''8000'',
     liquidationBonus = ''10500'',
     borrowingEnabled = True,
     stableBorrowRateEnabled = False,
     reserveDecimals = ''18'',
     aTokenImpl = Id_AToken,
     reserveFactor = ''1000'' \<rparr>"

definition amm_strategyUSDC :: "'b bn_api \<Rightarrow> IReserveParams" where
  "amm_strategyUSDC B = \<lparr>
     strategy = amm_rateStrategyStable B,
     baseLTVAsCollateral = ''8000'',
     liquidationThreshold = ''8500'',
     liquidationBonus = ''10500'',
     borrowingEnabled = True,
     stableBorrowRateEnabled = False,
     reserveDecimals = ''6'',
     aTokenImpl = Id_AToken,
     reserveFactor = ''1000'' \<rparr>"

definition amm_strategyUSDT :: "'b bn_api \<Rightarrow> IReserveParams" where
  "amm_strategyUSDT B = \<lparr>
     strategy = amm_rateStrategyStable B,
     baseLTVAsCollateral = ''-1'',
     liquidationThreshold = ''8500'',
     liquidationBonus = ''10500'',
     borrowingEnabled = True,
     stableBorrowRateEnabled = False,
     reserveDecimals = ''6'',
     aTokenImpl = Id_AToken,
     reserveFactor = ''1000'' \<rparr>"

definition amm_strategyDAIWETH :: "'b bn_api \<Rightarrow> IReserveParams" where
  "amm_strategyDAIWETH B = \<lparr>
     strategy = amm_rateStrategyAmmBase B,
     baseLTVAsCollateral = ''6000'',
     liquidationThreshold = ''7000'',
     liquidationBonus = ''11500'',
     borrowingEnabled = True,
     stableBorrowRateEnabled = False,
     reserveDecimals = ''18'',
     aTokenImpl = Id_AToken,
     reserveFactor = ''1000'' \<rparr>"

definition amm_strategyWBTCWETH :: "'b bn_api \<Rightarrow> IReserveParams" where
  "amm_strategyWBTCWETH B = \<lparr>
     strategy = amm_rateStrategyAmmBase B,
     baseLTVAsCollateral = ''6000'',
     liquidationThreshold = ''7000'',
     liquidationBonus = ''11500'',
     borrowingEnabled = True,
     stableBorrowRateEnabled = False,
     reserveDecimals = ''18'',
     aTokenImpl = Id_AToken,
     reserveFactor = ''1500'' \<rparr>"

definition amm_strategyAAVEWETH :: "'b bn_api \<Rightarrow> IReserveParams" where
  "amm_strategyAAVEWETH B = \<lparr>
     strategy = amm_rateStrategyAmmBase B,
     baseLTVAsCollateral = ''6000'',
     liquidationThreshold = ''7000'',
     liquidationBonus = ''11500'',
     borrowingEnabled = True,
     stableBorrowRateEnabled = False,
     reserveDecimals = ''18'',
     aTokenImpl = Id_AToken,
     reserveFactor = ''500'' \<rparr>"

definition amm_strategyBATWETH :: "'b bn_api \<Rightarrow> IReserveParams" where
  "amm_strategyBATWETH B = \<lparr>
     strategy = amm_rateStrategyAmmBase B,
     baseLTVAsCollateral = ''6000'',
     liquidationThreshold = ''7000'',
     liquidationBonus = ''11500'',
     borrowingEnabled = True,
     stableBorrowRateEnabled = False,
     reserveDecimals = ''18'',
     aTokenImpl = Id_AToken,
     reserveFactor = ''1500'' \<rparr>"

definition amm_strategyDAIUSDC :: "'b bn_api \<Rightarrow> IReserveParams" where
  "amm_strategyDAIUSDC B = \<lparr>
     strategy = amm_rateStrategyAmmBase B,
     baseLTVAsCollateral = ''6000'',
     liquidationThreshold = ''7000'',
     liquidationBonus = ''11500'',
     borrowingEnabled = True,
     stableBorrowRateEnabled = False,
     reserveDecimals = ''18'',
     aTokenImpl = Id_AToken,
     reserveFactor = ''1000'' \<rparr>"

definition amm_strategyCRVWETH :: "'b bn_api \<Rightarrow> IReserveParams" where
  "amm_strategyCRVWETH B = \<lparr>
     strategy = amm_rateStrategyAmmBase B,
     baseLTVAsCollateral = ''5000'',
     liquidationThreshold = ''6000'',
     liquidationBonus = ''11500'',
     borrowingEnabled = True,
     stableBorrowRateEnabled = False,
     reserveDecimals = ''18'',
     aTokenImpl = Id_AToken,
     reserveFactor = ''1500'' \<rparr>"

definition amm_strategyLINKWETH :: "'b bn_api \<Rightarrow> IReserveParams" where
  "amm_strategyLINKWETH B = \<lparr>
     strategy = amm_rateStrategyAmmBase B,
     baseLTVAsCollateral = ''6000'',
     liquidationThreshold = ''7000'',
     liquidationBonus = ''11500'',
     borrowingEnabled = True,
     stableBorrowRateEnabled = False,
     reserveDecimals = ''18'',
     aTokenImpl = Id_AToken,
     reserveFactor = ''1500'' \<rparr>"

definition amm_strategyMKRWETH :: "'b bn_api \<Rightarrow> IReserveParams" where
  "amm_strategyMKRWETH B = \<lparr>
     strategy = amm_rateStrategyAmmBase B,
     baseLTVAsCollateral = ''6000'',
     liquidationThreshold = ''7000'',
     liquidationBonus = ''11500'',
     borrowingEnabled = True,
     stableBorrowRateEnabled = False,
     reserveDecimals = ''18'',
     aTokenImpl = Id_AToken,
     reserveFactor = ''1500'' \<rparr>"

definition amm_strategyRENWETH :: "'b bn_api \<Rightarrow> IReserveParams" where
  "amm_strategyRENWETH B = \<lparr>
     strategy = amm_rateStrategyAmmBase B,
     baseLTVAsCollateral = ''6000'',
     liquidationThreshold = ''7000'',
     liquidationBonus = ''11500'',
     borrowingEnabled = True,
     stableBorrowRateEnabled = False,
     reserveDecimals = ''18'',
     aTokenImpl = Id_AToken,
     reserveFactor = ''1500'' \<rparr>"

definition amm_strategySNXWETH :: "'b bn_api \<Rightarrow> IReserveParams" where
  "amm_strategySNXWETH B = \<lparr>
     strategy = amm_rateStrategyAmmBase B,
     baseLTVAsCollateral = ''4000'',
     liquidationThreshold = ''6000'',
     liquidationBonus = ''11500'',
     borrowingEnabled = True,
     stableBorrowRateEnabled = False,
     reserveDecimals = ''18'',
     aTokenImpl = Id_AToken,
     reserveFactor = ''2000'' \<rparr>"

definition amm_strategyUNIWETH :: "'b bn_api \<Rightarrow> IReserveParams" where
  "amm_strategyUNIWETH B = \<lparr>
     strategy = amm_rateStrategyAmmBase B,
     baseLTVAsCollateral = ''6000'',
     liquidationThreshold = ''7000'',
     liquidationBonus = ''11500'',
     borrowingEnabled = True,
     stableBorrowRateEnabled = False,
     reserveDecimals = ''18'',
     aTokenImpl = Id_AToken,
     reserveFactor = ''1500'' \<rparr>"

definition amm_strategyUSDCWETH :: "'b bn_api \<Rightarrow> IReserveParams" where
  "amm_strategyUSDCWETH B = \<lparr>
     strategy = amm_rateStrategyAmmBase B,
     baseLTVAsCollateral = ''6000'',
     liquidationThreshold = ''7000'',
     liquidationBonus = ''11500'',
     borrowingEnabled = True,
     stableBorrowRateEnabled = False,
     reserveDecimals = ''18'',
     aTokenImpl = Id_AToken,
     reserveFactor = ''1000'' \<rparr>"

definition amm_strategyWBTCUSDC :: "'b bn_api \<Rightarrow> IReserveParams" where
  "amm_strategyWBTCUSDC B = \<lparr>
     strategy = amm_rateStrategyAmmBase B,
     baseLTVAsCollateral = ''6000'',
     liquidationThreshold = ''7000'',
     liquidationBonus = ''11500'',
     borrowingEnabled = True,
     stableBorrowRateEnabled = False,
     reserveDecimals = ''18'',
     aTokenImpl = Id_AToken,
     reserveFactor = ''1500'' \<rparr>"

definition amm_strategyYFIWETH :: "'b bn_api \<Rightarrow> IReserveParams" where
  "amm_strategyYFIWETH B = \<lparr>
     strategy = amm_rateStrategyAmmBase B,
     baseLTVAsCollateral = ''5000'',
     liquidationThreshold = ''6000'',
     liquidationBonus = ''11500'',
     borrowingEnabled = True,
     stableBorrowRateEnabled = False,
     reserveDecimals = ''18'',
     aTokenImpl = Id_AToken,
     reserveFactor = ''1500'' \<rparr>"

definition amm_strategyBALWETH :: "'b bn_api \<Rightarrow> IReserveParams" where
  "amm_strategyBALWETH B = \<lparr>
     strategy = amm_rateStrategyAmmBase B,
     baseLTVAsCollateral = ''6000'',
     liquidationThreshold = ''7000'',
     liquidationBonus = ''11500'',
     borrowingEnabled = True,
     stableBorrowRateEnabled = False,
     reserveDecimals = ''18'',
     aTokenImpl = Id_AToken,
     reserveFactor = ''1500'' \<rparr>"

section \<open>The common configuration (\<open>commons.ts\<close>)\<close>

definition amm_LendingRateOracleRatesCommon :: "'b bn_api \<Rightarrow> IMarketRates js_obj" where
  "amm_LendingRateOracleRatesCommon B =
    [(''WETH'', \<lparr> borrowRate = bn_toFixed B (bn_times B (oneRay B) (bn_num B 3 2)) \<rparr>),
     (''DAI'', \<lparr> borrowRate = bn_toFixed B (bn_times B (oneRay B) (bn_num B 39 3)) \<rparr>),
     (''USDC'', \<lparr> borrowRate = bn_toFixed B (bn_times B (oneRay B) (bn_num B 39 3)) \<rparr>),
     (''USDT'', \<lparr> borrowRate = bn_toFixed B (bn_times B (oneRay B) (bn_num B 35 3)) \<rparr>),
     (''WBTC'', \<lparr> borrowRate = bn_toFixed B (bn_times B (oneRay B) (bn_num B 3 2)) \<rparr>),
     (''UniDAIWETH'', \<lparr> borrowRate = bn_toFixed B (bn_times B (oneRay B) (bn_num B 5 2)) \<rparr>),
     (''UniWBTCWETH'', \<lparr> borrowRate = bn_toFixed B (bn_times B (oneRay B) (bn_num B 5 2)) \<rparr>),
     (''UniAAVEWETH'', \<lparr> borrowRate = bn_toFixed B (bn_times B (oneRay B) (bn_num B 5 2)) \<rparr>),
     (''UniBATWETH'', \<lparr> borrowRate = bn_toFixed B (bn_times B (oneRay B) (bn_num B 5 2)) \<rparr>),
     (''UniDAIUSDC'', \<lparr> borrowRate = bn_toFixed B (bn_times B (oneRay B) (bn_num B 5 2)) \<rparr>),
     (''UniCRVWETH'', \<lparr> borrowRate = bn_toFixed B (bn_times B (oneRay B) (bn_num B 5 2)) \<rparr>),
     (''UniLINKWETH'', \<lparr> borrowRate = bn_toFixed B (bn_times B (oneRay B) (bn_num B 5 2)) \<rparr>),
     (''UniMKRWETH'', \<lparr> borrowRate = bn_toFixed B (bn_times B (oneRay B) (bn_num B 5 2)) \<rparr>),
     (''UniRENWETH'', \<lparr> borrowRate = bn_toFixed B (bn_times B (oneRay B) (bn_num B 5 2)) \<rparr>),
     (''UniSNXWETH'', \<lparr> borrowRate = bn_toFixed B (bn_times B (oneRay B) (bn_num B 5 2)) \<rparr>),
     (''UniUNIWETH'', \<lparr> borrowRate = bn_toFixed B (bn_times B (oneRay B) (bn_num B 5 2)) \<rparr>),
     (''UniUSDCWETH'', \<lparr> borrowRate = bn_toFixed B (bn_times B (oneRay B) (bn_num B 5 2)) \<rparr>),
     (''UniWBTCUSDC'', \<lparr> borrowRate = bn_toFixed B (bn_times B (oneRay B) (bn_num B 5 2)) \<rparr>),
     (''UniYFIWETH'', \<lparr> borrowRate = bn_toFixed B (bn_times B (oneRay B) (bn_num B 5 2)) \<rparr>),
     (''BptWBTCWETH'', \<lparr> borrowRate = bn_toFixed B (bn_times B (oneRay B) (bn_num B 5 2)) \<rparr>),
     (''BptBALWETH'', \<lparr> borrowRate = bn_toFixed B (bn_times B (oneRay B) (bn_num B 5 2)) \<rparr>)]"

definition amm_PoolAdmin :: "(string option) js_obj" where
  "amm_PoolAdmin =
    obj_lit
    [(eth_network Eth_coverage, None),
     (eth_network Eth_buidlerevm, None),
     (eth_network Eth_coverage, None),
     (eth_network Eth_hardhat, None),
     (eth_network Eth_kovan, None),
     (eth_network Eth_ropsten, None),
     (eth_network Eth_main, None),
     (eth_network Eth_tenderlyMain, None)]"

definition amm_EmergencyAdmin :: "(string option) js_obj" where
  "amm_EmergencyAdmin =
    [(eth_network Eth_hardhat, None),
     (eth_network Eth_coverage, None),
     (eth_network Eth_buidlerevm, None),
     (eth_network Eth_kovan, None),
     (eth_network Eth_ropsten, None),
     (eth_network Eth_main, None),
     (eth_network Eth_tenderlyMain, None)]"

definition amm_ProviderRegistry :: "(string option) js_obj" where
  "amm_ProviderRegistry =
    [(eth_network Eth_kovan, Some ''0x1E40B561EC587036f9789aF83236f057D1ed2A90''),
     (eth_network Eth_ropsten, Some ''''),
     (eth_network Eth_main, Some ''0x52D306e36E3B6B02c153d0266ff0f85d18BCD413''),
     (eth_network Eth_coverage, Some ''''),
     (eth_network Eth_hardhat, Some ''''),
     (eth_network Eth_buidlerevm, Some ''''),
     (eth_network Eth_tenderlyMain, Some ''0x52D306e36E3B6B02c153d0266ff0f85d18BCD413'')]"

definition amm_ProviderRegistryOwner :: "(string option) js_obj" where
  "amm_ProviderRegistryOwner =
    [(eth_network Eth_kovan, Some ''0x85e4A467343c0dc4aDAB74Af84448D9c45D8ae6F''),
     (eth_network Eth_ropsten, Some ''''),
     (eth_network Eth_main, Some ''0xbd723fc4f1d737dcfc48a07fe7336766d34cad5f''),
     (eth_network Eth_coverage, Some ''''),
     (eth_network Eth_hardhat, Some ''''),
     (eth_network Eth_buidlerevm, Some ''''),
     (eth_network Eth_tenderlyMain, Some ''0xbd723fc4f1d737dcfc48a07fe7336766d34cad5f'')]"

definition amm_LendingRateOracle :: "string js_obj" where
  "amm_LendingRateOracle =
    [(eth_network Eth_coverage, ''''),
     (eth_network Eth_hardhat, ''''),
     (eth_network Eth_buidlerevm, ''''),
     (eth_network Eth_kovan, ''0xd00Bd28FAdDa9d5658D1D4e0c151973146C7A533''),
     (eth_network Eth_ropsten, ''0x05dcca805a6562c1bdd0423768754acb6993241b''),
     (eth_network Eth_main, ''''),
     (eth_network Eth_tenderlyMain, ''0x8A32f49FFbA88aba6EFF96F45D8BD1D4b3f35c7D'')]"

definition amm_LendingPoolCollateralManager :: "string js_obj" where
  "amm_LendingPoolCollateralManager =
    [(eth_network Eth_coverage, ''''),
     (eth_network Eth_hardhat, ''''),
     (eth_network Eth_buidlerevm, ''''),
     (eth_network Eth_kovan, ''0x9269b6453d0d75370c4c85e5a42977a53efdb72a''),
     (eth_network Eth_ropsten, ''''),
     (eth_network Eth_main, ''0xbd4765210d4167CE2A5b87280D9E8Ee316D5EC7C''),
     (eth_network Eth_tenderlyMain, ''0xbd4765210d4167CE2A5b87280D9E8Ee316D5EC7C'')]"

definition amm_LendingPoolConfigurator :: "string js_obj" where
  "amm_LendingPoolConfigurator =
    [(eth_network Eth_coverage, ''''),
     (eth_network Eth_hardhat, ''''),
     (eth_network Eth_buidlerevm, ''''),
     (eth_network Eth_kovan, ''0x36eB31800aa67a9c50df1d56EE01981A6E14Cce5''),
     (eth_network Eth_ropsten, ''''),
     (eth_network Eth_main, ''''),
     (eth_network Eth_tenderlyMain, '''')]"

definition amm_LendingPool :: "string js_obj" where
  "amm_LendingPool =
    [(eth_network Eth_coverage, ''''),
     (eth_network Eth_hardhat, ''''),
     (eth_network Eth_buidlerevm, ''''),
     (eth_network Eth_kovan, ''0x78142De7a1930412E9e50dEB3b80dB284c2dFa3A''),
     (eth_network Eth_ropsten, ''''),
     (eth_network Eth_main, ''''),
     (eth_network Eth_tenderlyMain, '''')]"

definition amm_WethGateway :: "string js_obj" where
  "amm_WethGateway =
    [(eth_network Eth_coverage, ''''),
     (eth_network Eth_hardhat, ''''),
     (eth_network Eth_buidlerevm, ''''),
     (eth_network Eth_kovan, ''0x1c4A1cC35A477aa1cF35DF671d93ACc04d8131E0''),
     (eth_network Eth_ropsten, ''''),
     (eth_network Eth_main, ''''),
     (eth_network Eth_tenderlyMain, '''')]"

definition amm_TokenDistributor :: "string js_obj" where
  "amm_TokenDistributor =
    [(eth_network Eth_coverage, ''''),
     (eth_network Eth_buidlerevm, ''''),
     (eth_network Eth_hardhat, ''''),
     (eth_network Eth_kovan, ''0x971efe90088f21dc6a36f610ffed77fc19710708''),
     (eth_network Eth_ropsten, ''0xeba2ea67942b8250d870b12750b594696d02fc9c''),
     (eth_network Eth_main, ''0xe3d9988f676457123c5fd01297605efdd0cba1ae''),
     (eth_network Eth_tenderlyMain, ''0xe3d9988f676457123c5fd01297605efdd0cba1ae'')]"

definition amm_AaveOracle :: "string js_obj" where
  "amm_AaveOracle =
    [(eth_network Eth_coverage, ''''),
     (eth_network Eth_hardhat, ''''),
     (eth_network Eth_buidlerevm, ''''),
     (eth_network Eth_kovan, ''0x8fb777d67e9945e2c01936e319057f9d41d559e6''),
     (eth_network Eth_ropsten, ZERO_ADDRESS),
     (eth_network Eth_main, ''''),
     (eth_network Eth_tenderlyMain, ''0xA50ba011c48153De246E5192C8f9258A2ba79Ca9'')]"

definition amm_FallbackOracle :: "string js_obj" where
  "amm_FallbackOracle =
    [(eth_network Eth_coverage, ''''),
     (eth_network Eth_hardhat, ''''),
     (eth_network Eth_buidlerevm, ''''),
     (eth_network Eth_kovan, ''0x50913E8E1c650E790F8a1E741FF9B1B1bB251dfe''),
     (eth_network Eth_ropsten, ''0xAD1a978cdbb8175b2eaeC47B01404f8AEC5f4F0d''),
     (eth_network Eth_main, ZERO_ADDRESS),
     (eth_network Eth_tenderlyMain, ZERO_ADDRESS)]"

definition amm_ChainlinkAggregator :: "string js_obj js_obj" where
  "amm_ChainlinkAggregator =
    [(eth_network Eth_coverage, []),
     (eth_network Eth_hardhat, []),
     (eth_network Eth_buidlerevm, []),
     (eth_network Eth_kovan, [(''USDT'', ''0x0bF499444525a23E7Bb61997539725cA2e928138''),
         (''WBTC'', ''0xF7904a295A029a3aBDFFB6F12755974a958C7C25''),
         (''USDC'', ''0x64EaC61A2DFda2c3Fa04eED49AA33D021AeC8838''),
         (''DAI'', ''0x22B58f1EbEDfCA50feF632bD73368b2FdA96D541''),
         (''UniDAIWETH'', ''0x5699302154A020FB1DE2B1d39f4c73785A235d8F''),
         (''UniWBTCWETH'', ''0x5699302154A020FB1DE2B1d39f4c73785A235d8F''),
         (''UniAAVEWETH'', ''0x5699302154A020FB1DE2B1d39f4c73785A235d8F''),
         (''UniBATWETH'', ''0x5699302154A020FB1DE2B1d39f4c73785A235d8F''),
         (''UniDAIUSDC'', ''0x5699302154A020FB1DE2B1d39f4c73785A235d8F''),
         (''UniCRVWETH'', ''0x5699302154A020FB1DE2B1d39f4c73785A235d8F''),
         (''UniLINKWETH'', ''0x5699302154A020FB1DE2B1d39f4c73785A235d8F''),
         (''UniMKRWETH'', ''0x5699302154A020FB1DE2B1d39f4c73785A235d8F''),
         (''UniRENWETH'', ''0x5699302154A020FB1DE2B1d39f4c73785A235d8F''),
         (''UniSNXWETH'', ''0x5699302154A020FB1DE2B1d39f4c73785A235d8F''),
         (''UniUNIWETH'', ''0x5699302154A020FB1DE2B1d39f4c73785A235d8F''),
         (''UniUSDCWETH'', ''0x5699302154A020FB1DE2B1d39f4c73785A235d8F''),
         (''UniWBTCUSDC'', ''0x5699302154A020FB1DE2B1d39f4c73785A235d8F''),
         (''UniYFIWETH'', ''0x5699302154A020FB1DE2B1d39f4c73785A235d8F''),
         (''BptWBTCWETH'', ''0x5699302154A020FB1DE2B1d39f4c73785A235d8F''),
         (''BptBALWETH'', ''0x5699302154A020FB1DE2B1d39f4c73785A235d8F''),
         (''USD'', ''0x9326BFA02ADD2366b30bacB125260Af641031331'')]),
     (eth_network Eth_ropsten, []),
     (eth_network Eth_main, [(''USDT'', ''0xEe9F2375b4bdF6387aa8265dD4FB8F16512A1d46''),
         (''WBTC'', ''0xdeb288F737066589598e9214E782fa5A8eD689e8''),
         (''USDC'', ''0x986b5E1e1755e3C2440e960477f25201B0a8bbD4''),
         (''DAI'', ''0x773616E4d11A78F511299002da57A0a94577F1f4''),
         (''UniDAIWETH'', ''0xf4071801C4421Db7e63DaC15B9432e50C44a7F42''),
         (''UniWBTCWETH'', ''0x55EF7F1226507cFd846DE009C2f097c2211b6Fb8''),
         (''UniAAVEWETH'', ''0x5671387d56eAB334A2D65d6D0BB4D907898C7abA''),
         (''UniBATWETH'', ''0xA61ca04DF33B72b235a8A28CfB535bb7A5271B70''),
         (''UniDAIUSDC'', ''0xFd8dFc92B030e6BA957336e9f08C2a711e19069A''),
         (''UniCRVWETH'', ''0xd4D344D076256Fdf806375983b2cab2Db52FD506''),
         (''UniLINKWETH'', ''0x8C0e5df19B998F06e57A1Db1a38232F7590abe4b''),
         (''UniMKRWETH'', ''0x92f2A28fE33E0b6Ea218057EEe004E3B2B6de45d''),
         (''UniRENWETH'', ''0xFc0398b247107138dB494395600fB0d075b72C9A''),
         (''UniSNXWETH'', ''0xF5CB13c859383B5fb070bd111Cae7a900c00BA07''),
         (''UniUNIWETH'', ''0xE50e47E37DCF55dE1c5F2c32d346BB52064f7CE6''),
         (''UniUSDCWETH'', ''0xBE6ac123799572c98eFdE48895465AB392534AFD''),
         (''UniWBTCUSDC'', ''0xd6b8b08a0d13994A5f4a1949F4870DE57e9B40d9''),
         (''UniYFIWETH'', ''0x94daB35789f05f54224F6851921160DE21318072''),
         (''BptWBTCWETH'', ''0x4a2731c9f3B4355922c676f9b538278D79C299C5''),
         (''BptBALWETH'', ''0xD9400999f38E1877a6dDDb0090A327F19257f9AE''),
         (''USD'', ''0x9326BFA02ADD2366b30bacB125260Af641031331'')]),
     (eth_network Eth_tenderlyMain, [(''USDT'', ''0xEe9F2375b4bdF6387aa8265dD4FB8F16512A1d46''),
         (''WBTC'', ''0xdeb288F737066589598e9214E782fa5A8eD689e8''),
         (''USDC'', ''0x986b5E1e1755e3C2440e960477f25201B0a8bbD4''),
         (''DAI'', ''0x773616E4d11A78F511299002da57A0a94577F1f4''),
         (''UniDAIWETH'', ''0xf4071801C4421Db7e63DaC15B9432e50C44a7F42''),
         (''UniWBTCWETH'', ''0x55EF7F1226507cFd846DE009C2f097c2211b6Fb8''),
         (''UniAAVEWETH'', ''0x5671387d56eAB334A2D65d6D0BB4D907898C7abA''),
         (''UniBATWETH'', ''0xA61ca04DF33B72b235a8A28CfB535bb7A5271B70''),
         (''UniDAIUSDC'', ''0xFd8dFc92B030e6BA957336e9f08C2a711e19069A''),
         (''UniCRVWETH'', ''0xd4D344D076256Fdf806375983b2cab2Db52FD506''),
         (''UniLINKWETH'', ''0x8C0e5df19B998F06e57A1Db1a38232F7590abe4b''),
         (''UniMKRWETH'', ''0x92f2A28fE33E0b6Ea218057EEe004E3B2B6de45d''),
         (''UniRENWETH'', ''0xFc0398b247107138dB494395600fB0d075b72C9A''),
         (''UniSNXWETH'', ''0xF5CB13c859383B5fb070bd111Cae7a900c00BA07''),
         (''UniUNIWETH'', ''0xE50e47E37DCF55dE1c5F2c32d346BB52064f7CE6''),
         (''UniUSDCWETH'', ''0xBE6ac123799572c98eFdE48895465AB392534AFD''),
         (''UniWBTCUSDC'', ''0xd6b8b08a0d13994A5f4a1949F4870DE57e9B40d9''),
         (''UniYFIWETH'', ''0x94daB35789f05f54224F6851921160DE21318072''),
         (''BptWBTCWETH'', ''0x4a2731c9f3B4355922c676f9b538278D79C299C5''),
         (''BptBALWETH'', ''0xD9400999f38E1877a6dDDb0090A327F19257f9AE''),
         (''USD'', ''0x9326BFA02ADD2366b30bacB125260Af641031331'')])]"

definition amm_ReserveAssets :: "string js_obj js_obj" where
  "amm_ReserveAssets =
    [(eth_network Eth_coverage, []),
     (eth_network Eth_hardhat, []),
     (eth_network Eth_buidlerevm, []),
     (eth_network Eth_main, []),
     (eth_network Eth_kovan, []),
     (eth_network Eth_ropsten, []),
     (eth_network Eth_tenderlyMain, [])]"

definition amm_ATokenDomainSeparator :: "string js_obj" where
  "amm_ATokenDomainSeparator =
    [(eth_network Eth_coverage, ''0x95b73a72c6ecf4ccbbba5178800023260bad8e75cdccdb8e4827a2977a37c820''),
     (eth_network Eth_hardhat, ''0xbae024d959c6a022dc5ed37294cd39c141034b2ae5f02a955cce75c930a81bf5''),
     (eth_network Eth_buidlerevm, ''0xbae024d959c6a022dc5ed37294cd39c141034b2ae5f02a955cce75c930a81bf5''),
     (eth_network Eth_kovan, ''''),
     (eth_network Eth_ropsten, ''''),
     (eth_network Eth_main, ''''),
     (eth_network Eth_tenderlyMain, '''')]"

definition amm_WETH :: "string js_obj" where
  "amm_WETH =
    [(eth_network Eth_coverage, ''''),
     (eth_network Eth_hardhat, ''''),
     (eth_network Eth_buidlerevm, ''''),
     (eth_network Eth_kovan, ''0xd0a1e359811322d97991e03f863a0c30c2cf029c''),
     (eth_network Eth_ropsten, ''0xc778417e063141139fce010982780140aa0cd5ab''),
     (eth_network Eth_main, ''0xc02aaa39b223fe8d0a0e5c4f27ead9083c756cc2''),
     (eth_network Eth_tenderlyMain, ''0xc02aaa39b223fe8d0a0e5c4f27ead9083c756cc2'')]"

definition amm_ReserveFactorTreasuryAddress :: "string js_obj" where
  "amm_ReserveFactorTreasuryAddress =
    [(eth_network Eth_coverage, ''0x464c71f6c2f760dda6093dcb91c24c39e5d6e18c''),
     (eth_network Eth_hardhat, ''0x464c71f6c2f760dda6093dcb91c24c39e5d6e18c''),
     (eth_network Eth_buidlerevm, ''0x464c71f6c2f760dda6093dcb91c24c39e5d6e18c''),
     (eth_network Eth_kovan, ''0x464c71f6c2f760dda6093dcb91c24c39e5d6e18c''),
     (eth_network Eth_ropsten, ''0x464c71f6c2f760dda6093dcb91c24c39e5d6e18c''),
     (eth_network Eth_main, ''0x464c71f6c2f760dda6093dcb91c24c39e5d6e18c''),
     (eth_network Eth_tenderlyMain, ''0x464c71f6c2f760dda6093dcb91c24c39e5d6e18c'')]"

definition amm_CommonsConfig :: "'b bn_api \<Rightarrow> ICommonConfiguration" where
  "amm_CommonsConfig B = \<lparr>
     MarketId = ''Commons'',
     ATokenNamePrefix = ''Aave AMM Market'',
     StableDebtTokenNamePrefix = ''Aave AMM Market stable debt'',
     VariableDebtTokenNamePrefix = ''Aave AMM Market variable debt'',
     SymbolPrefix = ''aAmm'',
     ProviderId = 0,
     ProtocolGlobalParams = \<lparr>
       TokenDistributorPercentageBase = ''10000'',
       MockUsdPriceInWei = ''5848466240000000'',
       UsdAddress = ''0x10F7Fc1F91Ba351f9C629c5947AD69bD03C05b96'',
       NilAddress = ''0x0000000000000000000000000000000000000000'',
       OneAddress = ''0x0000000000000000000000000000000000000001'',
       AaveReferral = ''0'' \<rparr>,
     AllAssetsInitialPrices = MOCK_CHAINLINK_AGGREGATORS_PRICES B,
     ProviderRegistry = amm_ProviderRegistry,
     ProviderRegistryOwner = amm_ProviderRegistryOwner,
     LendingPoolCollateralManager = amm_LendingPoolCollateralManager,
     LendingPoolConfigurator = amm_LendingPoolConfigurator,
     LendingPool = amm_LendingPool,
     LendingRateOracleRatesCommon = amm_LendingRateOracleRatesCommon B,
     LendingRateOracle = amm_LendingRateOracle,
     TokenDistributor = amm_TokenDistributor,
     AaveOracle = amm_AaveOracle,
     FallbackOracle = amm_FallbackOracle,
     ChainlinkAggregator = amm_ChainlinkAggregator,
     PoolAdmin = amm_PoolAdmin,
     PoolAdminIndex = 0,
     EmergencyAdmin = amm_EmergencyAdmin,
     EmergencyAdminIndex = 1,
     ReserveAssets = amm_ReserveAssets,
     ReservesConfig = [],
     ATokenDomainSeparator = amm_ATokenDomainSeparator,
     WETH = amm_WETH,
     WethGateway = amm_WethGateway,
     ReserveFactorTreasuryAddress = amm_ReserveFactorTreasuryAddress \<rparr>"

section \<open>The market (\<open>index.ts\<close>)\<close>

definition amm_ReservesConfig :: "'b bn_api \<Rightarrow> IReserveParams js_obj" where
  "amm_ReservesConfig B =
    [(''WETH'', amm_strategyWETH B),
     (''DAI'', amm_strategyDAI B),
     (''USDC'', amm_strategyUSDC B),
     (''USDT'', amm_strategyUSDT B),
     (''WBTC'', amm_strategyWBTC B),
     (''UniDAIWETH'', amm_strategyDAIWETH B),
     (''UniWBTCWETH'', amm_strategyWBTCWETH B),
     (''UniAAVEWETH'', amm_strategyAAVEWETH B),
     (''UniBATWETH'', amm_strategyBATWETH B),
     (''UniDAIUSDC'', amm_strategyDAIUSDC B),
     (''UniCRVWETH'', amm_strategyCRVWETH B),
     (''UniLINKWETH'', amm_strategyLINKWETH B),
     (''UniMKRWETH'', amm_strategyMKRWETH B),
     (''UniRENWETH'', amm_strategyRENWETH B),
     (''UniSNXWETH'', amm_strategySNXWETH B),
     (''UniUNIWETH'', amm_strategyUNIWETH B),
     (''UniUSDCWETH'', amm_strategyUSDCWETH B),
     (''UniWBTCUSDC'', amm_strategyWBTCUSDC B),
     (''UniYFIWETH'', amm_strategyYFIWETH B),
     (''BptWBTCWETH'', amm_strategyWBTCWETH B),
     (''BptBALWETH'', amm_strategyBALWETH B)]"

definition amm_MarketReserveAssets :: "string js_obj js_obj" where
  "amm_MarketReserveAssets =
    [(eth_network Eth_buidlerevm, []),
     (eth_network Eth_hardhat, []),
     (eth_network Eth_coverage, []),
     (eth_network Eth_kovan, [(''DAI'', ''0xFf795577d9AC8bD7D90Ee22b6C1703490b6512FD''),
         (''USDC'', ''0xe22da380ee6B445bb8273C81944ADEB6E8450422''),
         (''USDT'', ''0x13512979ADE267AB5100878E2e0f485B568328a4''),
         (''WBTC'', ''0xD1B98B6607330172f1D991521145A22BCe793277''),
         (''WETH'', ''0xd0a1e359811322d97991e03f863a0c30c2cf029c''),
         (''UniDAIWETH'', ''0x0C652EeEA3d7D35759ba1E16183F1D89C386C9ea''),
         (''UniWBTCWETH'', ''0x796d562B1dF5b9dc85A4612187B6f29Ed213d960''),
         (''UniAAVEWETH'', ''0x657A7B8b46F35C5C6583AEF43824744B236EF826''),
         (''UniBATWETH'', ''0xf8CEBA8b16579956B3aE4B5D09002a30f873F783''),
         (''UniDAIUSDC'', ''0x8e80b7a7531c276dD1dBEC2f1Cc281c11c859e62''),
         (''UniCRVWETH'', ''0x9c31b7538467bF0b01e6d5fA789e66Ce540a521e''),
         (''UniLINKWETH'', ''0x5Acab7f8B79620ec7127A96E5D8837d2124D5D7c''),
         (''UniMKRWETH'', ''0xB0C6EC5d58ddbF4cd1e419A56a19924E9904e4Dd''),
         (''UniRENWETH'', ''0xcF428637A9f8Af21920Bc0A94fd81071bc790105''),
         (''UniSNXWETH'', ''0xc8F2a0d698f675Ece74042e9fB06ea52b9517521''),
         (''UniUNIWETH'', ''0xcC99A5f95a86d30e3DeF113bCf22f00ecF90D050''),
         (''UniUSDCWETH'', ''0x8C00D2428ed1857E61652aca663323A85E6e76a9''),
         (''UniWBTCUSDC'', ''0x3d35B5F289f55A580e6F85eE22E6a8f57053b966''),
         (''UniYFIWETH'', ''0x5af95ddFACC150a1695A3Fc606459fd0dE57b91f''),
         (''BptWBTCWETH'', ''0x110569E3261bC0934dA637b019f6f1b6F50ec574''),
         (''BptBALWETH'', ''0xad01D8e0Fa9EAA8Fe76dA30CFb1BCe12707aE6c5'')]),
     (eth_network Eth_ropsten, []),
     (eth_network Eth_main, [(''DAI'', ''0x6B175474E89094C44Da98b954EedeAC495271d0F''),
         (''USDC'', ''0xA0b86991c6218b36c1d19D4a2e9Eb0cE3606eB48''),
         (''USDT'', ''0xdAC17F958D2ee523a2206206994597C13D831ec7''),
         (''WBTC'', ''0x2260FAC5E5542a773Aa44fBCfeDf7C193bc2C599''),
         (''WETH'', ''0xC02aaA39b223FE8D0A0e5C4F27eAD9083C756Cc2''),
         (''UniDAIWETH'', ''0xA478c2975Ab1Ea89e8196811F51A7B7Ade33eB11''),
         (''UniWBTCWETH'', ''0xBb2b8038a1640196FbE3e38816F3e67Cba72D940''),
         (''UniAAVEWETH'', ''0xDFC14d2Af169B0D36C4EFF567Ada9b2E0CAE044f''),
         (''UniBATWETH'', ''0xB6909B960DbbE7392D405429eB2b3649752b4838''),
         (''UniDAIUSDC'', ''0xAE461cA67B15dc8dc81CE7615e0320dA1A9aB8D5''),
         (''UniCRVWETH'', ''0x3dA1313aE46132A397D90d95B1424A9A7e3e0fCE''),
         (''UniLINKWETH'', ''0xa2107FA5B38d9bbd2C461D6EDf11B11A50F6b974''),
         (''UniMKRWETH'', ''0xC2aDdA861F89bBB333c90c492cB837741916A225''),
         (''UniRENWETH'', ''0x8Bd1661Da98EBDd3BD080F0bE4e6d9bE8cE9858c''),
         (''UniSNXWETH'', ''0x43AE24960e5534731Fc831386c07755A2dc33D47''),
         (''UniUNIWETH'', ''0xd3d2E2692501A5c9Ca623199D38826e513033a17''),
         (''UniUSDCWETH'', ''0xB4e16d0168e52d35CaCD2c6185b44281Ec28C9Dc''),
         (''UniWBTCUSDC'', ''0x004375Dff511095CC5A197A54140a24eFEF3A416''),
         (''UniYFIWETH'', ''0x2fDbAdf3C4D5A8666Bc06645B8358ab803996E28''),
         (''BptWBTCWETH'', ''0x1efF8aF5D577060BA4ac8A29A13525bb0Ee2A3D5''),
         (''BptBALWETH'', ''0x59A19D8c652FA0284f44113D0ff9aBa70bd46fB4'')]),
     (eth_network Eth_tenderlyMain, [(''DAI'', ''0x6B175474E89094C44Da98b954EedeAC495271d0F''),
         (''USDC'', ''0xA0b86991c6218b36c1d19D4a2e9Eb0cE3606eB48''),
         (''USDT'', ''0xdAC17F958D2ee523a2206206994597C13D831ec7''),
         (''WBTC'', ''0x2260FAC5E5542a773Aa44fBCfeDf7C193bc2C599''),
         (''WETH'', ''0xC02aaA39b223FE8D0A0e5C4F27eAD9083C756Cc2''),
         (''UniDAIWETH'', ''0xA478c2975Ab1Ea89e8196811F51A7B7Ade33eB11''),
         (''UniWBTCWETH'', ''0xBb2b8038a1640196FbE3e38816F3e67Cba72D940''),
         (''UniAAVEWETH'', ''0xDFC14d2Af169B0D36C4EFF567Ada9b2E0CAE044f''),
         (''UniBATWETH'', ''0xB6909B960DbbE7392D405429eB2b3649752b4838''),
         (''UniDAIUSDC'', ''0xAE461cA67B15dc8dc81CE7615e0320dA1A9aB8D5''),
         (''UniCRVWETH'', ''0x3dA1313aE46132A397D90d95B1424A9A7e3e0fCE''),
         (''UniLINKWETH'', ''0xa2107FA5B38d9bbd2C461D6EDf11B11A50F6b974''),
         (''UniMKRWETH'', ''0xC2aDdA861F89bBB333c90c492cB837741916A225''),
         (''UniRENWETH'', ''0x8Bd1661Da98EBDd3BD080F0bE4e6d9bE8cE9858c''),
         (''UniSNXWETH'', ''0x43AE24960e5534731Fc831386c07755A2dc33D47''),
         (''UniUNIWETH'', ''0xd3d2E2692501A5c9Ca623199D38826e513033a17''),
         (''UniUSDCWETH'', ''0xB4e16d0168e52d35CaCD2c6185b44281Ec28C9Dc''),
         (''UniWBTCUSDC'', ''0x004375Dff511095CC5A197A54140a24eFEF3A416''),
         (''UniYFIWETH'', ''0x2fDbAdf3C4D5A8666Bc06645B8358ab803996E28''),
         (''BptWBTCWETH'', ''0x1efF8aF5D577060BA4ac8A29A13525bb0Ee2A3D5''),
         (''BptBALWETH'', ''0x59A19D8c652FA0284f44113D0ff9aBa70bd46fB4'')])]"

definition AmmConfig :: "'b bn_api \<Rightarrow> ICommonConfiguration" where
  "AmmConfig B = (amm_CommonsConfig B)\<lparr>
     MarketId := ''Aave AMM market'',
     ProviderId := 2,
     ReservesConfig := amm_ReservesConfig B,
     ReserveAssets := amm_MarketReserveAssets \<rparr>"


end
