(* ===== verification/MaticMarket.thy ===== *)
theory MaticMarket
  imports Types Constants
begin

text \<open>
  The Matic market: the files of \<open>src/markets/matic\<close>. Rates are ray-scaled decimal strings computed
  with bignumber.js, so the strategies are functions of its operations \<open>B\<close>. A field of more than
  a few lines is a definition of its own, named after the market and the field.
\<close>

section \<open>Rate strategies (\<open>rateStrategies.ts\<close>)\<close>

definition matic_rateStrategyStableOne :: "'b bn_api \<Rightarrow> IInterestRateStrategyParams" where
  "matic_rateStrategyStableOne B = \<lparr>
     strategy_name = ''rateStrategyStableOne'',
     optimalUtilizationRate = bn_toFixed B (bn_times B (bn_num B 8 1) (oneRay B)),
     baseVariableBorrowRate = bn_toFixed B (bn_times B (bn_num B 0 0) (oneRay B)),
     variableRateSlope1 = bn_toFixed B (bn_times B (bn_num B 4 2) (oneRay B)),
     variableRateSlope2 = bn_toFixed B (bn_times B (bn_num B 1 0) (oneRay B)),
     stableRateSlope1 = ''0'',
     stableRateSlope2 = ''0'' \<rparr>"

definition matic_rateStrategyStableTwo :: "'b bn_api \<Rightarrow> IInterestRateStrategyParams" where
  "matic_rateStrategyStableTwo B = \<lparr>
     strategy_name = ''rateStrategyStableTwo'',
     optimalUtilizationRate = bn_toFixed B (bn_times B (bn_num B 8 1) (oneRay B)),
     baseVariableBorrowRate = bn_toFixed B (bn_times B (bn_num B 0 0) (oneRay B)),
     variableRateSlope1 = bn_toFixed B (bn_times B (bn_num B 4 2) (oneRay B)),
     variableRateSlope2 = bn_toFixed B (bn_times B (bn_num B 75 2) (oneRay B)),
     stableRateSlope1 = bn_toFixed B (bn_times B (bn_num B 2 2) (oneRay B)),
     stableRateSlope2 = bn_toFixed B (bn_times B (bn_num B 75 2) (oneRay B)) \<rparr>"

definition matic_rateStrategyStableThree :: "'b bn_api \<Rightarrow> IInterestRateStrategyParams" where
  "matic_rateStrategyStableThree B = \<lparr>
     strategy_name = ''rateStrategyStableThree'',
     optimalUtilizationRate = bn_toFixed B (bn_times B (bn_num B 9 1) (oneRay B)),
     baseVariableBorrowRate = bn_toFixed B (bn_times B (bn_num B 0 0) (oneRay B)),
     variableRateSlope1 = bn_toFixed B (bn_times B (bn_num B 4 2) (oneRay B)),
     variableRateSlope2 = bn_toFixed B (bn_times B (bn_num B 60 2) (oneRay B)),
     stableRateSlope1 = bn_toFixed B (bn_times B (bn_num B 2 2) (oneRay B)),
     stableRateSlope2 = bn_toFixed B (bn_times B (bn_num B 60 2) (oneRay B)) \<rparr>"

definition matic_rateStrategyWETH :: "'b bn_api \<Rightarrow> IInterestRateStrategyParams" where
  "matic_rateStrategyWETH B = \<lparr>
     strategy_name = ''rateStrategyWETH'',
     optimalUtilizationRate = bn_toFixed B (bn_times B (bn_num B 65 2) (oneRay B)),
     baseVariableBorrowRate = bn_toFixed B (bn_times B (bn_num B 0 0) (oneRay B)),
     variableRateSlope1 = bn_toFixed B (bn_times B (bn_num B 8 2) (oneRay B)),
     variableRateSlope2 = bn_toFixed B (bn_times B (bn_num B 1 0) (oneRay B)),
     stableRateSlope1 = bn_toFixed B (bn_times B (bn_num B 1 1) (oneRay B)),
     stableRateSlope2 = bn_toFixed B (bn_times B (bn_num B 1 0) (oneRay B)) \<rparr>"

definition matic_rateStrategyAAVE :: "'b bn_api \<Rightarrow> IInterestRateStrategyParams" where
  "matic_rateStrategyAAVE B = \<lparr>
     strategy_name = ''rateStrategyAAVE'',
     optimalUtilizationRate = bn_toFixed B (bn_times B (bn_num B 45 2) (oneRay B)),
     baseVariableBorrowRate = ''0'',
     variableRateSlope1 = ''0'',
     variableRateSlope2 = ''0'',
     stableRateSlope1 = ''0'',
     stableRateSlope2 = ''0'' \<rparr>"

definition matic_rateStrategyVolatileOne :: "'b bn_api \<Rightarrow> IInterestRateStrategyParams" where
  "matic_rateStrategyVolatileOne B = \<lparr>
     strategy_name = ''rateStrategyVolatileOne'',
     optimalUtilizationRate = bn_toFixed B (bn_times B (bn_num B 45 2) (oneRay B)),
     baseVariableBorrowRate = bn_toFixed B (bn_times B (bn_num B 0 0) (oneRay B)),
     variableRateSlope1 = bn_toFixed B (bn_times B (bn_num B 7 2) (oneRay B)),
     variableRateSlope2 = bn_toFixed B (bn_times B (bn_num B 3 0) (oneRay B)),
     stableRateSlope1 = bn_toFixed B (bn_times B (bn_num B 1 1) (oneRay B)),
     stableRateSlope2 = bn_toFixed B (bn_times B (bn_num B 3 0) (oneRay B)) \<rparr>"

definition matic_rateStrategyVolatileTwo :: "'b bn_api \<Rightarrow> IInterestRateStrategyParams" where
  "matic_rateStrategyVolatileTwo B = \<lparr>
     strategy_name = ''rateStrategyVolatileTwo'',
     optimalUtilizationRate = bn_toFixed B (bn_times B (bn_num B 65 2) (oneRay B)),
     baseVariableBorrowRate = bn_toFixed B (bn_times B (bn_num B 0 0) (oneRay B)),
     variableRateSlope1 = bn_toFixed B (bn_times B (bn_num B 8 2) (oneRay B)),
     variableRateSlope2 = bn_toFixed B (bn_times B (bn_num B 3 0) (oneRay B)),
     stableRateSlope1 = bn_toFixed B (bn_times B (bn_num B 1 1) (oneRay B)),
     stableRateSlope2 = bn_toFixed B (bn_times B (bn_num B 3 0) (oneRay B)) \<rparr>"

definition matic_rateStrategyVolatileThree :: "'b bn_api \<Rightarrow> IInterestRateStrategyParams" where
  "matic_rateStrategyVolatileThree B = \<lparr>
     strategy_name = ''rateStrategyVolatileThree'',
     optimalUtilizationRate = bn_toFixed B (bn_times B (bn_num B 65 2) (oneRay B)),
     baseVariableBorrowRate = bn_toFixed B (bn_times B (bn_num B 0 0) (oneRay B)),
     variableRateSlope1 = bn_toFixed B (bn_times B (bn_num B 8 2) (oneRay B)),
     variableRateSlope2 = bn_toFixed B (bn_times B (bn_num B 3 0) (oneRay B)),
     stableRateSlope1 = bn_toFixed B (bn_times B (bn_num B 1 1) (oneRay B)),
     stableRateSlope2 = bn_toFixed B (bn_times B (bn_num B 3 0) (oneRay B)) \<rparr>"

section \<open>Reserve parameters (\<open>reservesConfigs.ts\<close>)\<close>

definition matic_strategyDAI :: "'b bn_api \<Rightarrow> IReserveParams" where
  "matic_strategyDAI B = \<lparr>
     strategy = matic_rateStrategyStableTwo B,
     baseLTVAsCollateral = ''7500'',
     liquidationThreshold = ''8000'',
     liquidationBonus = ''10500'',
     borrowingEnabled = True,
     stableBorrowRateEnabled = True,
     reserveDecimals = ''18'',
     aTokenImpl = Id_AToken,
     reserveFactor = ''1000'' \<rparr>"

definition matic_strategyUSDC :: "'b bn_api \<Rightarrow> IReserveParams" where
  "matic_strategyUSDC B = \<lparr>
     strategy = matic_rateStrategyStableThree B,
     baseLTVAsCollateral = ''8000'',
     liquidationThreshold = ''8500'',
     liquidationBonus = ''10500'',
     borrowingEnabled = True,
     stableBorrowRateEnabled = True,
     reserveDecimals = ''6'',
     aTokenImpl = Id_AToken,
     reserveFactor = ''1000'' \<rparr>"

definition matic_strategyUSDT :: "'b bn_api \<Rightarrow> IReserveParams" where
  "matic_strategyUSDT B = \<lparr>
     strategy = matic_rateStrategyStableThree B,
     baseLTVAsCollateral = ''8000'',
     liquidationThreshold = ''8500'',
     liquidationBonus = ''10500'',
     borrowingEnabled = True,
     stableBorrowRateEnabled = True,
     reserveDecimals = ''6'',
     aTokenImpl = Id_AToken,
     reserveFactor = ''1000'' \<rparr>"

definition matic_strategyWETH :: "'b bn_api \<Rightarrow> IReserveParams" where
  "matic_strategyWETH B = \<lparr>
     strategy = matic_rateStrategyWETH B,
     baseLTVAsCollateral = ''8000'',
     liquidationThreshold = ''8250'',
     liquidationBonus = ''10500'',
     borrowingEnabled = True,
     stableBorrowRateEnabled = True,
     reserveDecimals = ''18'',
     aTokenImpl = Id_AToken,
     reserveFactor = ''1000'' \<rparr>"

definition matic_strategyWBTC :: "'b bn_api \<Rightarrow> IReserveParams" where
  "matic_strategyWBTC B = \<lparr>
     strategy = matic_rateStrategyVolatileTwo B,
     baseLTVAsCollateral = ''7000'',
     liquidationThreshold = ''7500'',
     liquidationBonus = ''11000'',
     borrowingEnabled = True,
     stableBorrowRateEnabled = True,
     reserveDecimals = ''8'',
     aTokenImpl = Id_AToken,
     reserveFactor = ''2000'' \<rparr>"

definition matic_strategyMATIC :: "'b bn_api \<Rightarrow> IReserveParams" where
  "matic_strategyMATIC B = \<lparr>
     strategy = matic_rateStrategyVolatileOne B,
     baseLTVAsCollateral = ''5000'',
     liquidationThreshold = ''6500'',
     liquidationBonus = ''11000'',
     borrowingEnabled = True,
     stableBorrowRateEnabled = True,
     reserveDecimals = ''18'',
     aTokenImpl = Id_AToken,
     reserveFactor = ''2000'' \<rparr>"

section \<open>The common configuration (\<open>commons.ts\<close>)\<close>

definition matic_LendingRateOracleRatesCommon :: "'b bn_api \<Rightarrow> IMarketRates js_obj" where
  "matic_LendingRateOracleRatesCommon B =
    [(''WETH'', \<lparr> borrowRate = bn_toFixed B (bn_times B (oneRay B) (bn_num B 3 2)) \<rparr>),
     (''DAI'', \<lparr> borrowRate = bn_toFixed B (bn_times B (oneRay B) (bn_num B 39 3)) \<rparr>),
     (''USDC'', \<lparr> borrowRate = bn_toFixed B (bn_times B (oneRay B) (bn_num B 39 3)) \<rparr>),
     (''USDT'', \<lparr> borrowRate = bn_toFixed B (bn_times B (oneRay B) (bn_num B 35 3)) \<rparr>),
     (''WBTC'', \<lparr> borrowRate = bn_toFixed B (bn_times B (oneRay B) (bn_num B 3 2)) \<rparr>),
     (''WMATIC'', \<lparr> borrowRate = bn_toFixed B (bn_times B (oneRay B) (bn_num B 5 2)) \<rparr>)]"

definition matic_ChainlinkAggregator :: "string js_obj js_obj" where
  "matic_ChainlinkAggregator =
    [(polygon_network Polygon_matic, [(''DAI'', ''0x4746DeC9e833A82EC7C2C1356372CcF2cfcD2F3D''),
         (''USDC'', ''0xfE4A8cc5b5B2366C1B58Bea3858e81843581b2F7''),
         (''USDT'', ''0x0A6513e40db6EB1b165753AD52E80663aeA50545''),
         (''WBTC'', ''0xc907E116054Ad103354f2D350FD2514433D57F6f''),
         (''WETH'', ''0xF9680D99D6C9589e2a93a78A04A279e509205945''),
         (''WMATIC'', ''0xAB594600376Ec9fD91F8e885dADF0CE036862dE0'')]),
     (polygon_network Polygon_mumbai, [(''DAI'', ZERO_ADDRESS),
         (''USDC'', ZERO_ADDRESS),
         (''USDT'', ZERO_ADDRESS),
         (''WBTC'', ZERO_ADDRESS),
         (''WMATIC'', ZERO_ADDRESS)])]"

definition matic_CommonsConfig :: "'b bn_api \<Rightarrow> ICommonConfiguration" where
  "matic_CommonsConfig B = \<lparr>
     MarketId = ''Commons'',
     ATokenNamePrefix = ''Aave Matic Market'',
     StableDebtTokenNamePrefix = ''Aave Matic Market stable debt'',
     VariableDebtTokenNamePrefix = ''Aave Matic Market variable debt'',
     SymbolPrefix = ''am'',
     ProviderId = 0,
     ProtocolGlobalParams = \<lparr>
       TokenDistributorPercentageBase = ''10000'',
       MockUsdPriceInWei = ''5848466240000000'',
       UsdAddress = ''0x10F7Fc1F91Ba351f9C629c5947AD69bD03C05b96'',
       NilAddress = ''0x0000000000000000000000000000000000000000'',
       OneAddress = ''0x0000000000000000000000000000000000000001'',
       AaveReferral = ''0'' \<rparr>,
     AllAssetsInitialPrices = MOCK_CHAINLINK_AGGREGATORS_PRICES B,
     ProviderRegistry = [(polygon_network Polygon_mumbai, Some ''0x569859d41499B4dDC28bfaA43915051FF0A38a6F''),
       (polygon_network Polygon_matic, Some ''0x28334e4791860a0c1eCF89a62B973ba04a5d643F'')],
     ProviderRegistryOwner = [(polygon_network Polygon_mumbai, Some ''0x18d9bA2baEfBdE0FF137C4ad031427EF205f1Fd9''),
       (polygon_network Polygon_matic, Some ''0x85e4A467343c0dc4aDAB74Af84448D9c45D8ae6F'')],
     LendingPoolCollateralManager = [(polygon_network Polygon_mumbai, ''''),
       (polygon_network Polygon_matic, ''0x9Af76e0575D139570D3B4c821567Fe935E8c25C5'')],
     LendingPoolConfigurator = [(polygon_network Polygon_mumbai, ''''),
       (polygon_network Polygon_matic, ''0x17c4A170FFF882862F656597889016D3a6073534'')],
     LendingPool = [(polygon_network Polygon_mumbai, ''''),
       (polygon_network Polygon_matic, ''0xABdC61Cd16e5111f335f4135B7A0e65Cc7F86327'')],
     LendingRateOracleRatesCommon = matic_LendingRateOracleRatesCommon B,
     LendingRateOracle = [(polygon_network Polygon_mumbai, ''''),
       (polygon_network Polygon_matic, '''')],
     TokenDistributor = [(polygon_network Polygon_mumbai, ''''),
       (polygon_network Polygon_matic, '''')],
     AaveOracle = [(polygon_network Polygon_mumbai, ''''),
       (polygon_network Polygon_matic, ''0x1B38fa90596F2C25bCf1B193A6c6a718349AFDfC'')],
     FallbackOracle = [(polygon_network Polygon_mumbai, ZERO_ADDRESS),
       (polygon_network Polygon_matic, ZERO_ADDRESS)],
     ChainlinkAggregator = matic_ChainlinkAggregator,
     PoolAdmin = [(polygon_network Polygon_mumbai, None),
       (polygon_network Polygon_matic, None)],
     PoolAdminIndex = 0,
     EmergencyAdmin = [(polygon_network Polygon_mumbai, None),
       (polygon_network Polygon_matic, None)],
     EmergencyAdminIndex = 1,
     ReserveAssets = [(polygon_network Polygon_matic, []),
       (polygon_network Polygon_mumbai, [])],
     ReservesConfig = [],
     ATokenDomainSeparator = [(polygon_network Polygon_mumbai, ''''),
       (polygon_network Polygon_matic, '''')],
     WETH = [(polygon_network Polygon_mumbai, ''0x9c3C9283D3e44854697Cd22D3Faa240Cfb032889''),
       (polygon_network Polygon_matic, ''0x0d500B1d8E8eF31E21C99d1Db9A6444d3ADf1270'')],
     WethGateway = [(polygon_network Polygon_mumbai, ''''),
       (polygon_network Polygon_matic, ''0x15A46f5073789b7D16F6F46632aE50Bae838d938'')],
     ReserveFactorTreasuryAddress = [(polygon_network Polygon_mumbai, ''0x464c71f6c2f760dda6093dcb91c24c39e5d6e18c''),
       (polygon_network Polygon_matic, ''0x464c71f6c2f760dda6093dcb91c24c39e5d6e18c'')] \<rparr>"

section \<open>The market (\<open>index.ts\<close>)\<close>

definition matic_ReservesConfig :: "'b bn_api \<Rightarrow> IReserveParams js_obj" where
  "matic_ReservesConfig B =
    [(''DAI'', matic_strategyDAI B),
     (''USDC'', matic_strategyUSDC B),
     (''USDT'', matic_strategyUSDT B),
     (''WBTC'', matic_strategyWBTC B),
     (''WETH'', matic_strategyWETH B),
     (''WMATIC'', matic_strategyMATIC B)]"

definition matic_MarketReserveAssets :: "string js_obj js_obj" where
  "matic_MarketReserveAssets =
    [(polygon_network Polygon_matic, [(''DAI'', ''0x8f3Cf7ad23Cd3CaDbD9735AFf958023239c6A063''),
         (''USDC'', ''0x2791Bca1f2de4661ED88A30C99A7a9449Aa84174''),
         (''USDT'', ''0xc2132D05D31c914a87C6611C10748AEb04B58e8F''),
         (''WBTC'', ''0x1BFD67037B42Cf73acF2047067bd4F2C47D9BfD6''),
         (''WETH'', ''0x7ceB23fD6bC0adD59E62ac25578270cFf1b9f619''),
         (''WMATIC'', ''0x0d500B1d8E8eF31E21C99d1Db9A6444d3ADf1270'')]),
     (polygon_network Polygon_mumbai, [(''DAI'', ''0x13b3fda609C1eeb23b4F4b69257840760dCa6C4a''),
         (''USDC'', ''0x52b63223994433FdE2F1350Ba69Dfd2779f06ABA''),
         (''USDT'', ''0xB3abd1912F586fDFFa13606882c28E27913853d2''),
         (''WBTC'', ''0x393E3512d45a956A628124665672312ea86930Ba''),
         (''WETH'', ''0x53CDb16B8C031B779e996406546614E5F05BC4Bf''),
         (''WMATIC'', ''0x9c3C9283D3e44854697Cd22D3Faa240Cfb032889'')])]"

definition MaticConfig :: "'b bn_api \<Rightarrow> ICommonConfiguration" where
  "MaticConfig B = (matic_CommonsConfig B)\<lparr>
     MarketId := ''Matic Market'',
     ProviderId := 3,
     ReservesConfig := matic_ReservesConfig B,
     ReserveAssets := matic_MarketReserveAssets \<rparr>"


end
