(* ===== verification/XDaiMarket.thy ===== *)
theory XDaiMarket
  imports Types Constants
begin

text \<open>
  The xDai market: the files of \<open>src/markets/xdai\<close>. Rates are ray-scaled decimal strings computed
  with bignumber.js, so the strategies are functions of its operations \<open>B\<close>. A field of more than
  a few lines is a definition of its own, named after the market and the field.
\<close>

section \<open>Rate strategies (\<open>rateStrategies.ts\<close>)\<close>

definition xdai_rateStrategyStableOne :: "'b bn_api \<Rightarrow> IInterestRateStrategyParams" where
  "xdai_rateStrategyStableOne B = \<lparr>
     strategy_name = ''rateStrategyStableOne'',
     optimalUtilizationRate = bn_toFixed B (bn_times B (bn_num B 8 1) (oneRay B)),
     baseVariableBorrowRate = bn_toFixed B (bn_times B (bn_num B 0 0) (oneRay B)),
     variableRateSlope1 = bn_toFixed B (bn_times B (bn_num B 4 2) (oneRay B)),
     variableRateSlope2 = bn_toFixed B (bn_times B (bn_num B 1 0) (oneRay B)),
     stableRateSlope1 = ''0'',
     stableRateSlope2 = ''0'' \<rparr>"

definition xdai_rateStrategyStableTwo :: "'b bn_api \<Rightarrow> IInterestRateStrategyParams" where
  "xdai_rateStrategyStableTwo B = \<lparr>
     strategy_name = ''rateStrategyStableTwo'',
     optimalUtilizationRate = bn_toFixed B (bn_times B (bn_num B 8 1) (oneRay B)),
     baseVariableBorrowRate = bn_toFixed B (bn_times B (bn_num B 0 0) (oneRay B)),
     variableRateSlope1 = bn_toFixed B (bn_times B (bn_num B 4 2) (oneRay B)),
     variableRateSlope2 = bn_toFixed B (bn_times B (bn_num B 75 2) (oneRay B)),
     stableRateSlope1 = bn_toFixed B (bn_times B (bn_num B 2 2) (oneRay B)),
     stableRateSlope2 = bn_toFixed B (bn_times B (bn_num B 75 2) (oneRay B)) \<rparr>"

definition xdai_rateStrategyStableThree :: "'b bn_api \<Rightarrow> IInterestRateStrategyParams" where
  "xdai_rateStrategyStableThree B = \<lparr>
     strategy_name = ''rateStrategyStableThree'',
     optimalUtilizationRate = bn_toFixed B (bn_times B (bn_num B 9 1) (oneRay B)),
     baseVariableBorrowRate = bn_toFixed B (bn_times B (bn_num B 0 0) (oneRay B)),
     variableRateSlope1 = bn_toFixed B (bn_times B (bn_num B 4 2) (oneRay B)),
     variableRateSlope2 = bn_toFixed B (bn_times B (bn_num B 60 2) (oneRay B)),
     stableRateSlope1 = bn_toFixed B (bn_times B (bn_num B 2 2) (oneRay B)),
     stableRateSlope2 = bn_toFixed B (bn_times B (bn_num B 60 2) (oneRay B)) \<rparr>"

definition xdai_rateStrategyWETH :: "'b bn_api \<Rightarrow> IInterestRateStrategyParams" where
  "xdai_rateStrategyWETH B = \<lparr>
     strategy_name = ''rateStrategyWETH'',
     optimalUtilizationRate = bn_toFixed B (bn_times B (bn_num B 65 2) (oneRay B)),
     baseVariableBorrowRate = bn_toFixed B (bn_times B (bn_num B 0 0) (oneRay B)),
     variableRateSlope1 = bn_toFixed B (bn_times B (bn_num B 8 2) (oneRay B)),
     variableRateSlope2 = bn_toFixed B (bn_times B (bn_num B 1 0) (oneRay B)),
     stableRateSlope1 = bn_toFixed B (bn_times B (bn_num B 1 1) (oneRay B)),
     stableRateSlope2 = bn_toFixed B (bn_times B (bn_num B 1 0) (oneRay B)) \<rparr>"

definition xdai_rateStrategyAAVE :: "'b bn_api \<Rightarrow> IInterestRateStrategyParams" where
  "xdai_rateStrategyAAVE B = \<lparr>
     strategy_name = ''rateStrategyAAVE'',
     optimalUtilizationRate = bn_toFixed B (bn_times B (bn_num B 45 2) (oneRay B)),
     baseVariableBorrowRate = ''0'',
     variableRateSlope1 = ''0'',
     variableRateSlope2 = ''0'',
     stableRateSlope1 = ''0'',
     stableRateSlope2 = ''0'' \<rparr>"

definition xdai_rateStrategyVolatileOne :: "'b bn_api \<Rightarrow> IInterestRateStrategyParams" where
  "xdai_rateStrategyVolatileOne B = \<lparr>
     strategy_name = ''rateStrategyVolatileOne'',
     optimalUtilizationRate = bn_toFixed B (bn_times B (bn_num B 45 2) (oneRay B)),
     baseVariableBorrowRate = bn_toFixed B (bn_times B (bn_num B 0 0) (oneRay B)),
     variableRateSlope1 = bn_toFixed B (bn_times B (bn_num B 7 2) (oneRay B)),
     variableRateSlope2 = bn_toFixed B (bn_times B (bn_num B 3 0) (oneRay B)),
     stableRateSlope1 = bn_toFixed B (bn_times B (bn_num B 1 1) (oneRay B)),
     stableRateSlope2 = bn_toFixed B (bn_times B (bn_num B 3 0) (oneRay B)) \<rparr>"

definition xdai_rateStrategyVolatileTwo :: "'b bn_api \<Rightarrow> IInterestRateStrategyParams" where
  "xdai_rateStrategyVolatileTwo B = \<lparr>
     strategy_name = ''rateStrategyVolatileTwo'',
     optimalUtilizationRate = bn_toFixed B (bn_times B (bn_num B 65 2) (oneRay B)),
     baseVariableBorrowRate = bn_toFixed B (bn_times B (bn_num B 0 0) (oneRay B)),
     variableRateSlope1 = bn_toFixed B (bn_times B (bn_num B 8 2) (oneRay B)),
     variableRateSlope2 = bn_toFixed B (bn_times B (bn_num B 3 0) (oneRay B)),
     stableRateSlope1 = bn_toFixed B (bn_times B (bn_num B 1 1) (oneRay B)),
     stableRateSlope2 = bn_toFixed B (bn_times B (bn_num B 3 0) (oneRay B)) \<rparr>"

definition xdai_rateStrategyVolatileThree :: "'b bn_api \<Rightarrow> IInterestRateStrategyParams" where
  "xdai_rateStrategyVolatileThree B = \<lparr>
     strategy_name = ''rateStrategyVolatileThree'',
     optimalUtilizationRate = bn_toFixed B (bn_times B (bn_num B 65 2) (oneRay B)),
     baseVariableBorrowRate = bn_toFixed B (bn_times B (bn_num B 0 0) (oneRay B)),
     variableRateSlope1 = bn_toFixed B (bn_times B (bn_num B 8 2) (oneRay B)),
     variableRateSlope2 = bn_toFixed B (bn_times B (bn_num B 3 0) (oneRay B)),
     stableRateSlope1 = bn_toFixed B (bn_times B (bn_num B 1 1) (oneRay B)),
     stableRateSlope2 = bn_toFixed B (bn_times B (bn_num B 3 0) (oneRay B)) \<rparr>"

section \<open>Reserve parameters (\<open>reservesConfigs.ts\<close>)\<close>

definition xdai_strategyDAI :: "'b bn_api \<Rightarrow> IReserveParams" where
  "xdai_strategyDAI B = \<lparr>
     strategy = xdai_rateStrategyStableTwo B,
     baseLTVAsCollateral = ''7500'',
     liquidationThreshold = ''8000'',
     liquidationBonus = ''10500'',
     borrowingEnabled = True,
     stableBorrowRateEnabled = True,
     reserveDecimals = ''18'',
     aTokenImpl = Id_AToken,
     reserveFactor = ''1000'' \<rparr>"

definition xdai_strategyUSDC :: "'b bn_api \<Rightarrow> IReserveParams" where
  "xdai_strategyUSDC B = \<lparr>
     strategy = xdai_rateStrategyStableThree B,
     baseLTVAsCollateral = ''8000'',
     liquidationThreshold = ''8500'',
     liquidationBonus = ''10500'',
     borrowingEnabled = True,
     stableBorrowRateEnabled = True,
     reserveDecimals = ''6'',
     aTokenImpl = Id_AToken,
     reserveFactor = ''1000'' \<rparr>"

definition xdai_strategyUSDT :: "'b bn_api \<Rightarrow> IReserveParams" where
  "xdai_strategyUSDT B = \<lparr>
     strategy = xdai_rateStrategyStableThree B,
     baseLTVAsCollateral = ''8000'',
     liquidationThreshold = ''8500'',
     liquidationBonus = ''10500'',
     borrowingEnabled = True,
     stableBorrowRateEnabled = True,
     reserveDecimals = ''6'',
     aTokenImpl = Id_AToken,
     reserveFactor = ''1000'' \<rparr>"

definition xdai_strategyWETH :: "'b bn_api \<Rightarrow> IReserveParams" where
  "xdai_strategyWETH B = \<lparr>
     strategy = xdai_rateStrategyWETH B,
     baseLTVAsCollateral = ''8000'',
     liquidationThreshold = ''8250'',
     liquidationBonus = ''10500'',
     borrowingEnabled = True,
     stableBorrowRateEnabled = True,
     reserveDecimals = ''18'',
     aTokenImpl = Id_AToken,
     reserveFactor = ''1000'' \<rparr>"

definition xdai_strategyWBTC :: "'b bn_api \<Rightarrow> IReserveParams" where
  "xdai_strategyWBTC B = \<lparr>
     strategy = xdai_rateStrategyVolatileTwo B,
     baseLTVAsCollateral = ''7000'',
     liquidationThreshold = ''7500'',
     liquidationBonus = ''11000'',
     borrowingEnabled = True,
     stableBorrowRateEnabled = True,
     reserveDecimals = ''8'',
     aTokenImpl = Id_AToken,
     reserveFactor = ''2000'' \<rparr>"

definition xdai_strategySTAKE :: "'b bn_api \<Rightarrow> IReserveParams" where
  "xdai_strategySTAKE B = \<lparr>
     strategy = xdai_rateStrategyVolatileOne B,
     baseLTVAsCollateral = ''5000'',
     liquidationThreshold = ''6500'',
     liquidationBonus = ''11000'',
     borrowingEnabled = True,
     stableBorrowRateEnabled = True,
     reserveDecimals = ''18'',
     aTokenImpl = Id_AToken,
     reserveFactor = ''2000'' \<rparr>"

section \<open>The common configuration (\<open>commons.ts\<close>)\<close>

definition xdai_LendingRateOracleRatesCommon :: "'b bn_api \<Rightarrow> IMarketRates js_obj" where
  "xdai_LendingRateOracleRatesCommon B =
    [(''WETH'', \<lparr> borrowRate = bn_toFixed B (bn_times B (oneRay B) (bn_num B 3 2)) \<rparr>),
     (''DAI'', \<lparr> borrowRate = bn_toFixed B (bn_times B (oneRay B) (bn_num B 39 3)) \<rparr>),
     (''USDC'', \<lparr> borrowRate = bn_toFixed B (bn_times B (oneRay B) (bn_num B 39 3)) \<rparr>),
     (''USDT'', \<lparr> borrowRate = bn_toFixed B (bn_times B (oneRay B) (bn_num B 35 3)) \<rparr>),
     (''WBTC'', \<lparr> borrowRate = bn_toFixed B (bn_times B (oneRay B) (bn_num B 3 2)) \<rparr>),
     (''STAKE'', \<lparr> borrowRate = bn_toFixed B (bn_times B (oneRay B) (bn_num B 5 2)) \<rparr>)]"

definition xdai_ChainlinkAggregator :: "string js_obj js_obj" where
  "xdai_ChainlinkAggregator =
    [(xdai_network XDai_xdai, [(''DAI'', ZERO_ADDRESS),
         (''USDC'', ZERO_ADDRESS),
         (''USDT'', ZERO_ADDRESS),
         (''WBTC'', ZERO_ADDRESS),
         (''STAKE'', ZERO_ADDRESS)])]"

definition xdai_CommonsConfig :: "'b bn_api \<Rightarrow> ICommonConfiguration" where
  "xdai_CommonsConfig B = \<lparr>
     MarketId = ''Commons'',
     ATokenNamePrefix = ''Aave XDAI Market'',
     StableDebtTokenNamePrefix = ''Aave XDAI Market stable debt'',
     VariableDebtTokenNamePrefix = ''Aave XDAI Market variable debt'',
     SymbolPrefix = ''ax'',
     ProviderId = 0,
     ProtocolGlobalParams = \<lparr>
       TokenDistributorPercentageBase = ''10000'',
       MockUsdPriceInWei = ''5848466240000000'',
       UsdAddress = ''0x10F7Fc1F91Ba351f9C629c5947AD69bD03C05b96'',
       NilAddress = ''0x0000000000000000000000000000000000000000'',
       OneAddress = ''0x0000000000000000000000000000000000000001'',
       AaveReferral = ''0'' \<rparr>,
     AllAssetsInitialPrices = MOCK_CHAINLINK_AGGREGATORS_PRICES B,
     ProviderRegistry = [(xdai_network XDai_xdai, Some '''')],
     ProviderRegistryOwner = [(xdai_network XDai_xdai, Some '''')],
     LendingPoolCollateralManager = [(xdai_network XDai_xdai, '''')],
     LendingPoolConfigurator = [(xdai_network XDai_xdai, ''0'')],
     LendingPool = [(xdai_network XDai_xdai, ''0'')],
     LendingRateOracleRatesCommon = xdai_LendingRateOracleRatesCommon B,
     LendingRateOracle = [(xdai_network XDai_xdai, '''')],
     TokenDistributor = [(xdai_network XDai_xdai, '''')],
     AaveOracle = [(xdai_network XDai_xdai, '''')],
     FallbackOracle = [(xdai_network XDai_xdai, ZERO_ADDRESS)],
     ChainlinkAggregator = xdai_ChainlinkAggregator,
     PoolAdmin = [(xdai_network XDai_xdai, None)],
     PoolAdminIndex = 0,
     EmergencyAdmin = [(xdai_network XDai_xdai, None)],
     EmergencyAdminIndex = 1,
     ReserveAssets = [(xdai_network XDai_xdai, [])],
     ReservesConfig = [],
     ATokenDomainSeparator = [(xdai_network XDai_xdai, '''')],
     WETH = [(xdai_network XDai_xdai, '''')],
     WethGateway = [(xdai_network XDai_xdai, '''')],
     ReserveFactorTreasuryAddress = [(xdai_network XDai_xdai, '''')] \<rparr>"

section \<open>The market (\<open>index.ts\<close>)\<close>

definition xdai_ReservesConfig :: "'b bn_api \<Rightarrow> IReserveParams js_obj" where
  "xdai_ReservesConfig B =
    [(''DAI'', xdai_strategyDAI B),
     (''USDC'', xdai_strategyUSDC B),
     (''USDT'', xdai_strategyUSDT B),
     (''WBTC'', xdai_strategyWBTC B),
     (''WETH'', xdai_strategyWETH B),
     (''STAKE'', xdai_strategySTAKE B)]"

definition xdai_MarketReserveAssets :: "string js_obj js_obj" where
  "xdai_MarketReserveAssets =
    [(xdai_network XDai_xdai, [(''DAI'', ''0x44fA8E6f47987339850636F88629646662444217''),
         (''USDC'', ''0xDDAfbb505ad214D7b80b1f830fcCc89B60fb7A83''),
         (''USDT'', ''0x4ECaBa5870353805a9F068101A40E0f32ed605C6''),
         (''WBTC'', ''0x8e5bBbb09Ed1ebdE8674Cda39A0c169401db4252''),
         (''WETH'', ''0x6A023CCd1ff6F2045C3309768eAd9E68F978f6e1''),
         (''STAKE'', ''0xb7D311E2Eb55F2f68a9440da38e7989210b9A05e'')])]"

definition XDAIConfig :: "'b bn_api \<Rightarrow> ICommonConfiguration" where
  "XDAIConfig B = (xdai_CommonsConfig B)\<lparr>
     MarketId := ''XDAI Market'',
     ProviderId := 4,
     ReservesConfig := xdai_ReservesConfig B,
     ReserveAssets := xdai_MarketReserveAssets \<rparr>"


end
