(* ===== verification/Effects.thy ===== *)
theory Effects
  imports Prelude
begin

text \<open>
  The effects of the scripts. A script is a function from the history of requests made so far to
  a result (an error or a value) and the longer history. Each request to code outside the
  repository is recorded with its outcome; the answers come from the functions of the record
  \<open>runtime\<close>, which stand for the node, ethers, hardhat, lowdb and the Etherscan plugin and
  may depend on everything that happened before. Console output is not modelled.
\<close>

section \<open>Contracts, requests, histories\<close>

text \<open>
  An ethers contract handle: its ABI name, its address, the signer that sends its transactions,
  and, for a handle that a factory has just deployed, the deployment transaction's sender.
\<close>

record contract =
  abi :: string
  address :: string
  signer :: "string option"
  deployer :: "string option"

text \<open>An entry of \<open>deployed-contracts.json\<close>: \<open>insertContractAddressInDb\<close> stores no deployer.\<close>

record db_entry =
  entry_address :: string
  entry_deployer :: "string option"

datatype request =
    ReqDeploy string "string option" "js_val list"
  | ReqSend "string option" string string "js_val list"
  | ReqWait string
  | ReqCall string string "js_val list"
  | ReqDbGet string
  | ReqDbSet string db_entry
  | ReqRpc string "js_val list"
  | ReqRun string js_val
  | ReqTmpFile "js_val list"
  | ReqCleanup

datatype reply =
    ReplyContract contract
  | ReplyTx string
  | ReplyUnit
  | ReplyVal js_val
  | ReplyEntry "db_entry option"

text \<open>
  \<open>EvOk\<close> is a request that resolved, \<open>EvFail\<close> one whose promise was rejected (a transaction
  that reverted, a call that failed, an RPC error). Histories are oldest first.
\<close>

datatype event = EvOk request reply | EvFail request js_error

type_synonym history = "event list"

type_synonym 'a io = "history \<Rightarrow> (js_error + 'a) \<times> history"

text \<open>The world outside the repository, and the parts of \<open>process.env\<close> and \<open>DRE\<close> it reads.\<close>

record runtime =
  network_name :: string
  env_var :: "string \<Rightarrow> string option"
  chain_id :: "int option"
  signer_addresses :: "string list"
  ext_deploy :: "history \<Rightarrow> string \<Rightarrow> string option \<Rightarrow> js_val list \<Rightarrow> js_error + contract"
  ext_send :: "history \<Rightarrow> string option \<Rightarrow> string \<Rightarrow> string \<Rightarrow> js_val list \<Rightarrow> js_error + string"
  ext_wait :: "history \<Rightarrow> string \<Rightarrow> js_error + unit"
  ext_call :: "history \<Rightarrow> string \<Rightarrow> string \<Rightarrow> js_val list \<Rightarrow> js_error + js_val"
  ext_db_get :: "history \<Rightarrow> string \<Rightarrow> js_error + db_entry option"
  ext_db_set :: "history \<Rightarrow> string \<Rightarrow> db_entry \<Rightarrow> js_error + unit"
  ext_rpc :: "history \<Rightarrow> string \<Rightarrow> js_val list \<Rightarrow> js_error + js_val"
  ext_run :: "history \<Rightarrow> string \<Rightarrow> js_val \<Rightarrow> js_error + unit"
  ext_tmp :: "history \<Rightarrow> js_val list \<Rightarrow> js_error + string"
  deploy_tx :: "contract \<Rightarrow> string"

definition env_is :: "runtime \<Rightarrow> string \<Rightarrow> string \<Rightarrow> bool" where
  "env_is rt name v \<longleftrightarrow> env_var rt name = Some v"

section \<open>The monad\<close>

definition ret :: "'a \<Rightarrow> 'a io" where
  "ret x h = (Inr x, h)"

definition throw :: "js_error \<Rightarrow> 'a io" where
  "throw e h = (Inl e, h)"

definition bind :: "'a io \<Rightarrow> ('a \<Rightarrow> 'b io) \<Rightarrow> 'b io" where
  "bind m f h = (case m h of (Inl e, h1) \<Rightarrow> (Inl e, h1) | (Inr x, h1) \<Rightarrow> f x h1)"

definition seq :: "'a io \<Rightarrow> 'b io \<Rightarrow> 'b io" where
  "seq m n = bind m (\<lambda>_. n)"

text \<open>\<open>try { m } catch (err) { k err }\<close>; an exit of the process is not caught.\<close>

definition catch :: "'a io \<Rightarrow> (js_error \<Rightarrow> 'a io) \<Rightarrow> 'a io" where
  "catch m k h = (case m h of
      (Inl (JsExit n), h1) \<Rightarrow> (Inl (JsExit n), h1)
    | (Inl e, h1) \<Rightarrow> k e h1
    | (Inr x, h1) \<Rightarrow> (Inr x, h1))"

definition lift_sum :: "js_error + 'a \<Rightarrow> 'a io" where
  "lift_sum r h = (r, h)"

definition io_when :: "bool \<Rightarrow> unit io \<Rightarrow> unit io" where
  "io_when b m = (if b then m else ret ())"

text \<open>\<open>for (const x of xs) acc = await f(acc, x)\<close> and the loop without an accumulator.\<close>

fun fold_io :: "('b \<Rightarrow> 'a \<Rightarrow> 'b io) \<Rightarrow> 'b \<Rightarrow> 'a list \<Rightarrow> 'b io" where
  "fold_io f acc [] = ret acc"
| "fold_io f acc (x # xs) = bind (f acc x) (\<lambda>acc'. fold_io f acc' xs)"

definition for_each :: "('a \<Rightarrow> unit io) \<Rightarrow> 'a list \<Rightarrow> unit io" where
  "for_each f xs = fold_io (\<lambda>_ x. f x) () xs"

text \<open>One request: ask the outside, record the outcome.\<close>

definition perform :: "(history \<Rightarrow> js_error + 'a) \<Rightarrow> ('a \<Rightarrow> reply) \<Rightarrow> request \<Rightarrow> 'a io" where
  "perform ask mk r h = (case ask h of
      Inl e \<Rightarrow> (Inl e, h @ [EvFail r e])
    | Inr x \<Rightarrow> (Inr x, h @ [EvOk r (mk x)]))"

section \<open>The primitive requests\<close>

text \<open>\<open>new XFactory(signer).deploy(...args)\<close>\<close>

definition deploy_contract :: "runtime \<Rightarrow> string \<Rightarrow> string option \<Rightarrow> js_val list \<Rightarrow> contract io" where
  "deploy_contract rt f s args =
     perform (\<lambda>h. ext_deploy rt h f s args) ReplyContract (ReqDeploy f s args)"

text \<open>\<open>contract.method(...args)\<close> for a state-changing method: resolves to the transaction.\<close>

definition send_tx :: "runtime \<Rightarrow> contract \<Rightarrow> string \<Rightarrow> js_val list \<Rightarrow> string io" where
  "send_tx rt c m args =
     perform (\<lambda>h. ext_send rt h (signer c) (address c) m args) ReplyTx
       (ReqSend (signer c) (address c) m args)"

text \<open>\<open>tx.wait(1)\<close>\<close>

definition wait_tx :: "runtime \<Rightarrow> string \<Rightarrow> unit io" where
  "wait_tx rt tx = perform (\<lambda>h. ext_wait rt h tx) (\<lambda>_. ReplyUnit) (ReqWait tx)"

text \<open>\<open>contract.method(...args)\<close> for a view method.\<close>

definition call_view :: "runtime \<Rightarrow> contract \<Rightarrow> string \<Rightarrow> js_val list \<Rightarrow> js_val io" where
  "call_view rt c m args =
     perform (\<lambda>h. ext_call rt h (address c) m args) ReplyVal (ReqCall (address c) m args)"

text \<open>\<open>getDb().get(path).value()\<close> and \<open>getDb().set(path, entry).write()\<close>\<close>

definition db_get :: "runtime \<Rightarrow> string \<Rightarrow> db_entry option io" where
  "db_get rt p = perform (\<lambda>h. ext_db_get rt h p) ReplyEntry (ReqDbGet p)"

definition db_set :: "runtime \<Rightarrow> string \<Rightarrow> db_entry \<Rightarrow> unit io" where
  "db_set rt p e = perform (\<lambda>h. ext_db_set rt h p e) (\<lambda>_. ReplyUnit) (ReqDbSet p e)"

definition rpc_send :: "runtime \<Rightarrow> string \<Rightarrow> js_val list \<Rightarrow> js_val io" where
  "rpc_send rt m args = perform (\<lambda>h. ext_rpc rt h m args) ReplyVal (ReqRpc m args)"

definition run_plugin_task :: "runtime \<Rightarrow> string \<Rightarrow> js_val \<Rightarrow> unit io" where
  "run_plugin_task rt t p = perform (\<lambda>h. ext_run rt h t p) (\<lambda>_. ReplyUnit) (ReqRun t p)"

text \<open>
  The temporary file of constructor arguments, and its \<open>cleanup()\<close>: tmp-promise's cleanup returns a
  promise that the code does not await, so it never throws into the caller.
\<close>

definition tmp_file :: "runtime \<Rightarrow> js_val list \<Rightarrow> string io" where
  "tmp_file rt args = perform (\<lambda>h. ext_tmp rt h args) (\<lambda>p. ReplyVal (VStr p)) (ReqTmpFile args)"

definition cleanup_tmp :: "unit io" where
  "cleanup_tmp = perform (\<lambda>_. Inr ()) (\<lambda>_. ReplyUnit) ReqCleanup"

text \<open>
  A call that is not awaited: its synchronous effects happen, its error is an unhandled rejection
  that the caller does not see.
\<close>

definition not_awaited :: "'a io \<Rightarrow> unit io" where
  "not_awaited m h = (Inr (), snd (m h))"

text \<open>
  The string a view call returns (an address, a symbol). A result that is not a string would be
  used as it is by the script; it is converted to the empty string, which no result has.
\<close>

fun val_str :: "js_val \<Rightarrow> string" where
  "val_str (VStr s) = s"
| "val_str _ = ''''"

definition call_str :: "runtime \<Rightarrow> contract \<Rightarrow> string \<Rightarrow> js_val list \<Rightarrow> string io" where
  "call_str rt c m args = bind (call_view rt c m args) (\<lambda>v. ret (val_str v))"

section \<open>Evaluation and inversion\<close>

lemma ret_eq [io_simps]: "ret x h = (Inr x, h)"
  by (simp add: ret_def)

lemma throw_eq [io_simps]: "throw e h = (Inl e, h)"
  by (simp add: throw_def)

lemma bind_Inr [io_simps]: "m h = (Inr x, h1) \<Longrightarrow> bind m f h = f x h1"
  by (simp add: bind_def)

lemma bind_Inl [io_simps]: "m h = (Inl e, h1) \<Longrightarrow> bind m f h = (Inl e, h1)"
  by (simp add: bind_def)

lemma bind_ret [simp, io_simps]: "bind (ret x) f = f x"
  by (simp add: bind_def ret_def fun_eq_iff)

lemma bind_throw [simp, io_simps]: "bind (throw e) f = throw e"
  by (simp add: bind_def throw_def fun_eq_iff)

lemma bind_ret_right [simp]: "bind m ret = m"
  by (auto simp: bind_def ret_def fun_eq_iff split: prod.splits sum.splits)

lemma ret_ok: "ret x h = (Inr y, h') \<longleftrightarrow> y = x \<and> h' = h"
  by (auto simp: ret_def)

lemma throw_ok [simp]: "throw e h \<noteq> (Inr y, h')"
  by (simp add: throw_def)

lemma throw_err: "throw e h = (Inl e', h') \<longleftrightarrow> e' = e \<and> h' = h"
  by (auto simp: throw_def)

lemma ret_err [simp]: "ret x h \<noteq> (Inl e, h')"
  by (simp add: ret_def)

lemma bind_assoc: "bind (bind m f) g = bind m (\<lambda>x. bind (f x) g)"
  by (auto simp: bind_def fun_eq_iff split: prod.splits sum.splits)

lemma bind_ok: "bind m f h = (Inr y, h') \<longleftrightarrow> (\<exists>x h1. m h = (Inr x, h1) \<and> f x h1 = (Inr y, h'))"
  by (auto simp: bind_def split: prod.splits sum.splits)

lemma seq_ok: "seq m n h = (Inr y, h') \<longleftrightarrow> (\<exists>x h1. m h = (Inr x, h1) \<and> n h1 = (Inr y, h'))"
  by (simp add: seq_def bind_ok)

lemma lift_sum_cases [simp]: "lift_sum (Inr x) = ret x" "lift_sum (Inl e) = throw e"
  by (simp_all add: fun_eq_iff lift_sum_def ret_def throw_def)

lemma lift_sum_ok: "lift_sum r h = (Inr y, h') \<longleftrightarrow> r = Inr y \<and> h' = h"
  by (auto simp: lift_sum_def)

lemma io_when_ok: "io_when b m h = (Inr y, h') \<longleftrightarrow> (if b then m h = (Inr y, h') else h' = h)"
  by (auto simp: io_when_def ret_def)

lemma fold_io_append: "fold_io f acc (xs @ ys) = bind (fold_io f acc xs) (\<lambda>acc'. fold_io f acc' ys)"
  by (induction xs arbitrary: acc) (simp_all add: bind_assoc)

lemma for_each_Nil [simp]: "for_each f [] = ret ()"
  by (simp add: for_each_def)

lemma for_each_Cons: "for_each f (x # xs) = seq (f x) (for_each f xs)"
  by (simp add: for_each_def seq_def)

lemma not_awaited_ok: "not_awaited m h = (Inr y, h') \<longleftrightarrow> h' = snd (m h)"
  by (auto simp: not_awaited_def)

lemma perform_ok:
  "perform ask mk r h = (Inr x, h') \<longleftrightarrow> ask h = Inr x \<and> h' = h @ [EvOk r (mk x)]"
  by (auto simp: perform_def split: sum.splits)

lemma perform_err:
  "perform ask mk r h = (Inl e, h') \<longleftrightarrow> ask h = Inl e \<and> h' = h @ [EvFail r e]"
  by (auto simp: perform_def split: sum.splits)

lemmas ok_simps = ret_ok bind_ok seq_ok lift_sum_ok not_awaited_ok io_when_ok perform_ok

lemmas prim_defs = deploy_contract_def send_tx_def wait_tx_def call_view_def db_get_def db_set_def
  rpc_send_def run_plugin_task_def call_str_def tmp_file_def cleanup_tmp_def

end
