(* ===== verification/Traces.thy ===== *)
theory Traces
  imports Effects "HOL-Library.Sublist"
begin

text \<open>
  What a script leaves in the history. An observation is a projection of histories that maps
  appending to appending: the transactions sent, the contracts deployed, the database writes. The
  locale \<open>observation\<close> proves once, for every such projection, how the effect combinators compose;
  it is interpreted on the three projections below, and the components prove their trace
  properties from these rules.
\<close>

named_theorems quiet_intros "operations that leave an observation unchanged"
named_theorems emits_intros "operations whose contribution to an observation is known"

section \<open>Projections\<close>

text \<open>A transaction: sender, contract, method, arguments.\<close>

type_synonym tx_obs = "string option \<times> string \<times> string \<times> js_val list"

fun sent_ev :: "event \<Rightarrow> tx_obs list" where
  "sent_ev (EvOk (ReqSend s a m args) r) = [(s, a, m, args)]"
| "sent_ev _ = []"

definition sent :: "history \<Rightarrow> tx_obs list" where
  "sent h = concat (map sent_ev h)"

fun deployed_ev :: "event \<Rightarrow> (string \<times> js_val list \<times> string) list" where
  "deployed_ev (EvOk (ReqDeploy f s args) (ReplyContract c)) = [(f, args, address c)]"
| "deployed_ev _ = []"

definition deployed :: "history \<Rightarrow> (string \<times> js_val list \<times> string) list" where
  "deployed h = concat (map deployed_ev h)"

fun db_write_ev :: "event \<Rightarrow> (string \<times> db_entry) list" where
  "db_write_ev (EvOk (ReqDbSet p e) r) = [(p, e)]"
| "db_write_ev _ = []"

definition db_writes :: "history \<Rightarrow> (string \<times> db_entry) list" where
  "db_writes h = concat (map db_write_ev h)"

text \<open>Runs of plugin tasks, successful or not.\<close>

fun plugin_run_ev :: "event \<Rightarrow> (string \<times> js_val) list" where
  "plugin_run_ev (EvOk (ReqRun t p) r) = [(t, p)]"
| "plugin_run_ev (EvFail (ReqRun t p) e) = [(t, p)]"
| "plugin_run_ev _ = []"

definition plugin_runs :: "history \<Rightarrow> (string \<times> js_val) list" where
  "plugin_runs h = concat (map plugin_run_ev h)"

definition quiet :: "(history \<Rightarrow> 'o list) \<Rightarrow> 'a io \<Rightarrow> bool" where
  "quiet proj m \<longleftrightarrow> (\<forall>h. proj (snd (m h)) = proj h)"

text \<open>A run that succeeds with \<open>x\<close> contributes \<open>T x\<close>.\<close>

definition emits :: "(history \<Rightarrow> 'o list) \<Rightarrow> 'a io \<Rightarrow> ('a \<Rightarrow> 'o list) \<Rightarrow> bool" where
  "emits proj m T \<longleftrightarrow> (\<forall>h x h'. m h = (Inr x, h') \<longrightarrow> proj h' = proj h @ T x)"

text \<open>A run that fails contributes some trace in \<open>F\<close>.\<close>

definition fails_with :: "(history \<Rightarrow> 'o list) \<Rightarrow> 'a io \<Rightarrow> 'o list set \<Rightarrow> bool" where
  "fails_with proj m F \<longleftrightarrow> (\<forall>h e h'. m h = (Inl e, h') \<longrightarrow> (\<exists>t \<in> F. proj h' = proj h @ t))"

text \<open>
  A run that succeeds contributes exactly \<open>T\<close>, one that fails a prefix of \<open>T\<close>: the operations of
  \<open>T\<close> are issued in this order, and none is skipped.
\<close>

definition follows :: "(history \<Rightarrow> 'o list) \<Rightarrow> 'a io \<Rightarrow> 'o list \<Rightarrow> bool" where
  "follows proj m T \<longleftrightarrow> emits proj m (\<lambda>_. T) \<and> fails_with proj m {t. prefix t T}"

text \<open>
  The same for a trace that depends on what the run reads: every run contributes a prefix of some
  trace that satisfies \<open>P\<close>, the whole of it when it succeeds.
\<close>

definition issues :: "(history \<Rightarrow> 'o list) \<Rightarrow> 'a io \<Rightarrow> ('o list \<Rightarrow> bool) \<Rightarrow> bool" where
  "issues proj m P \<longleftrightarrow> (\<forall>h r h'. m h = (r, h') \<longrightarrow>
     (\<exists>T t. P T \<and> prefix t T \<and> proj h' = proj h @ t \<and> ((\<exists>x. r = Inr x) \<longrightarrow> t = T)))"

lemma issuesD: "issues proj m P \<Longrightarrow> m h = (r, h') \<Longrightarrow>
    \<exists>T t. P T \<and> prefix t T \<and> proj h' = proj h @ t \<and> ((\<exists>x. r = Inr x) \<longrightarrow> t = T)"
  by (simp add: issues_def)

lemma emitsD: "emits proj m T \<Longrightarrow> m h = (Inr x, h') \<Longrightarrow> proj h' = proj h @ T x"
  by (simp add: emits_def)

lemma quietD: "quiet proj m \<Longrightarrow> m h = (r, h') \<Longrightarrow> proj h' = proj h"
  by (simp add: quiet_def) (metis snd_conv)

lemma fails_withD: "fails_with proj m F \<Longrightarrow> m h = (Inl e, h') \<Longrightarrow> \<exists>t \<in> F. proj h' = proj h @ t"
  by (simp add: fails_with_def)

section \<open>The interface and its rules\<close>

locale observation =
  fixes proj :: "history \<Rightarrow> 'o list"
  assumes proj_append: "proj (h @ t) = proj h @ proj t"
begin

lemma quiet_ret: "quiet proj (ret x)"
  by (simp add: quiet_def ret_def)

lemma quiet_throw: "quiet proj (throw e)"
  by (simp add: quiet_def throw_def)

lemma quiet_lift: "quiet proj (lift_sum r)"
  by (simp add: quiet_def lift_sum_def)

lemma quiet_bind:
  assumes "quiet proj m" and "\<And>x. quiet proj (f x)"
  shows "quiet proj (bind m f)"
  unfolding quiet_def
proof
  fix h
  obtain r h1 where mh: "m h = (r, h1)" by (cases "m h")
  have 1: "proj h1 = proj h" using quietD [OF assms(1) mh] .
  have 2: "proj (snd (f x h1)) = proj h1" for x using assms(2) by (simp add: quiet_def)
  show "proj (snd (bind m f h)) = proj h"
    using 1 2 by (simp add: bind_def mh split: sum.split)
qed

lemma quiet_seq: "quiet proj m \<Longrightarrow> quiet proj n \<Longrightarrow> quiet proj (seq m n)"
  by (simp add: seq_def quiet_bind)

lemma quiet_io_when: "quiet proj m \<Longrightarrow> quiet proj (io_when b m)"
  by (simp add: io_when_def quiet_ret)

lemma quiet_if: "quiet proj m \<Longrightarrow> quiet proj n \<Longrightarrow> quiet proj (if b then m else n)"
  by simp

lemma quiet_case_option: "quiet proj m \<Longrightarrow> (\<And>x. quiet proj (f x)) \<Longrightarrow>
    quiet proj (case v of None \<Rightarrow> m | Some x \<Rightarrow> f x)"
  by (cases v) simp_all

lemma quiet_catch:
  assumes "quiet proj m" and "\<And>e. quiet proj (k e)"
  shows "quiet proj (catch m k)"
  unfolding quiet_def
proof
  fix h
  obtain r h1 where mh: "m h = (r, h1)" by (cases "m h")
  have 1: "proj h1 = proj h" using quietD [OF assms(1) mh] .
  have 2: "proj (snd (k e h1)) = proj h1" for e using assms(2) by (simp add: quiet_def)
  show "proj (snd (catch m k h)) = proj h"
    using 1 2 by (simp add: catch_def mh split: sum.split js_error.split)
qed

lemma quiet_fold: "(\<And>acc x. quiet proj (f acc x)) \<Longrightarrow> quiet proj (fold_io f acc xs)"
  by (induction xs arbitrary: acc) (simp_all add: quiet_ret quiet_bind)

lemma quiet_not_awaited: "quiet proj m \<Longrightarrow> quiet proj (not_awaited m)"
  by (simp add: quiet_def not_awaited_def)

lemma quiet_perform:
  "(\<And>x. proj [EvOk r (mk x)] = []) \<Longrightarrow> (\<And>e. proj [EvFail r e] = []) \<Longrightarrow> quiet proj (perform ask mk r)"
  by (simp add: quiet_def perform_def proj_append split: sum.split)

lemma emits_quiet: "quiet proj m \<Longrightarrow> emits proj m (\<lambda>_. [])"
  by (auto simp: emits_def dest: quietD)

lemma emits_ret: "emits proj (ret x) (\<lambda>_. [])"
  by (simp add: emits_quiet quiet_ret)

lemma emits_throw: "emits proj (throw e) T"
  by (simp add: emits_def throw_def)

lemma emits_bind:
  assumes "emits proj m (\<lambda>_. s)" and "\<And>x. emits proj (f x) T"
  shows "emits proj (bind m f) (\<lambda>y. s @ T y)"
  unfolding emits_def
proof (intro allI impI)
  fix h y h' assume "bind m f h = (Inr y, h')"
  then obtain x h1 where "m h = (Inr x, h1)" and "f x h1 = (Inr y, h')" by (auto simp: bind_ok)
  then show "proj h' = proj h @ s @ T y"
    using emitsD [OF assms(1)] emitsD [OF assms(2)] by fastforce
qed

lemma emits_seq:
  "emits proj m (\<lambda>_. s) \<Longrightarrow> emits proj n T \<Longrightarrow> emits proj (seq m n) (\<lambda>y. s @ T y)"
  by (simp add: seq_def emits_bind)

lemma emits_perform:
  "(\<And>x. proj [EvOk r (mk x)] = T x) \<Longrightarrow> emits proj (perform ask mk r) T"
  by (auto simp: emits_def perform_ok proj_append)

lemma emits_for_each:
  assumes "\<And>x. emits proj (f x) (\<lambda>_. T x)"
  shows "emits proj (for_each f xs) (\<lambda>_. concat (map T xs))"
proof (induction xs)
  case Nil
  then show ?case by (simp add: emits_ret)
next
  case (Cons x xs)
  then show ?case using emits_seq [OF assms Cons.IH] by (simp add: for_each_Cons)
qed

lemma emits_fold:
  assumes "\<And>acc x. emits proj (f acc x) (\<lambda>_. T x)"
  shows "emits proj (fold_io f acc xs) (\<lambda>_. concat (map T xs))"
proof (induction xs arbitrary: acc)
  case Nil
  then show ?case by (simp add: emits_ret)
next
  case (Cons x xs)
  have "emits proj (bind (f acc x) (\<lambda>acc'. fold_io f acc' xs)) (\<lambda>_. T x @ concat (map T xs))"
    by (rule emits_bind [OF assms Cons.IH])
  then show ?case by simp
qed

lemma emits_mono: "emits proj m T \<Longrightarrow> (\<And>x. T x = T' x) \<Longrightarrow> emits proj m T'"
  by (simp add: emits_def)

lemma fails_perform: "(\<And>e. proj [EvFail r e] = []) \<Longrightarrow> fails_with proj (perform ask mk r) {[]}"
  by (auto simp: fails_with_def perform_err proj_append)

lemma fails_quiet: "quiet proj m \<Longrightarrow> fails_with proj m {[]}"
  by (auto simp: fails_with_def dest: quietD)

lemma fails_bind:
  assumes "emits proj m (\<lambda>_. s)" and "fails_with proj m F" and "\<And>x. fails_with proj (f x) G"
  shows "fails_with proj (bind m f) (F \<union> (\<lambda>t. s @ t) ` G)"
  unfolding fails_with_def
proof (intro allI impI)
  fix h e h' assume run: "bind m f h = (Inl e, h')"
  obtain r h1 where mh: "m h = (r, h1)" by (cases "m h")
  show "\<exists>t \<in> F \<union> (\<lambda>t. s @ t) ` G. proj h' = proj h @ t"
  proof (cases r)
    case (Inl e1)
    then have "m h = (Inl e, h')" using run mh by (simp add: bind_def)
    then show ?thesis using fails_withD [OF assms(2)] by blast
  next
    case (Inr x)
    then have fx: "f x h1 = (Inl e, h')" using run mh by (simp add: bind_def)
    have "proj h1 = proj h @ s" using emitsD [OF assms(1)] mh Inr by simp
    moreover obtain t where "t \<in> G" "proj h' = proj h1 @ t"
      using fails_withD [OF assms(3) fx] by blast
    ultimately show ?thesis by auto
  qed
qed

lemma fails_seq:
  "emits proj m (\<lambda>_. s) \<Longrightarrow> fails_with proj m F \<Longrightarrow> fails_with proj n G \<Longrightarrow>
    fails_with proj (seq m n) (F \<union> (\<lambda>t. s @ t) ` G)"
  by (simp add: seq_def fails_bind)

lemma fails_mono: "fails_with proj m F \<Longrightarrow> F \<subseteq> G \<Longrightarrow> fails_with proj m G"
  unfolding fails_with_def by (meson subsetD)

lemma follows_quiet: "quiet proj m \<Longrightarrow> follows proj m []"
  by (simp add: follows_def emits_quiet fails_quiet)

lemma follows_ret: "follows proj (ret x) []"
  by (simp add: follows_quiet quiet_ret)

lemma follows_bind:
  assumes "follows proj m S" and "\<And>x. follows proj (f x) T"
  shows "follows proj (bind m f) (S @ T)"
proof -
  have "fails_with proj (bind m f) ({t. prefix t S} \<union> (\<lambda>t. S @ t) ` {t. prefix t T})"
    by (rule fails_bind) (use assms in \<open>auto simp: follows_def\<close>)
  then have "fails_with proj (bind m f) {t. prefix t (S @ T)}"
    by (rule fails_mono) (auto simp: prefix_append)
  moreover have "emits proj (bind m f) (\<lambda>y. S @ T)"
    by (rule emits_bind) (use assms in \<open>auto simp: follows_def\<close>)
  ultimately show ?thesis by (simp add: follows_def)
qed

lemma follows_seq: "follows proj m S \<Longrightarrow> follows proj n T \<Longrightarrow> follows proj (seq m n) (S @ T)"
  by (simp add: seq_def follows_bind)

lemma follows_quiet_bind: "quiet proj m \<Longrightarrow> (\<And>x. follows proj (f x) T) \<Longrightarrow> follows proj (bind m f) T"
  using follows_bind [OF follows_quiet] by fastforce

lemma follows_quiet_seq: "quiet proj m \<Longrightarrow> follows proj n T \<Longrightarrow> follows proj (seq m n) T"
  using follows_seq [OF follows_quiet] by fastforce

lemma follows_seq_quiet: "follows proj m T \<Longrightarrow> quiet proj n \<Longrightarrow> follows proj (seq m n) T"
  using follows_seq [OF _ follows_quiet] by fastforce

lemma follows_for_each:
  assumes "\<And>x. follows proj (f x) (T x)"
  shows "follows proj (for_each f xs) (concat (map T xs))"
proof (induction xs)
  case Nil
  then show ?case by (simp add: follows_ret)
next
  case (Cons x xs)
  then show ?case using follows_seq [OF assms Cons.IH] by (simp add: for_each_Cons)
qed

lemma follows_ok: "follows proj m T \<Longrightarrow> m h = (Inr x, h') \<Longrightarrow> proj h' = proj h @ T"
  by (auto simp: follows_def dest: emitsD)

lemma follows_any: "follows proj m T \<Longrightarrow> m h = (r, h') \<Longrightarrow> \<exists>t. prefix t T \<and> proj h' = proj h @ t"
  by (cases r) (auto simp: follows_def dest: emitsD fails_withD)

lemma issues_follows: "follows proj m T \<Longrightarrow> P T \<Longrightarrow> issues proj m P"
  unfolding issues_def
proof (intro allI impI)
  fix h r h' assume f: "follows proj m T" and "P T" and run: "m h = (r, h')"
  obtain t where t: "prefix t T" "proj h' = proj h @ t" using follows_any [OF f run] by blast
  have "proj h' = proj h @ T" if "r = Inr x" for x using follows_ok [OF f] run that by simp
  then show "\<exists>T t. P T \<and> prefix t T \<and> proj h' = proj h @ t \<and> ((\<exists>x. r = Inr x) \<longrightarrow> t = T)"
    using t \<open>P T\<close> by (intro exI [of _ T] exI [of _ t]) auto
qed

lemma issues_quiet_bind:
  assumes "quiet proj m" and "P T"
    and "\<And>x h h'. m h = (Inr x, h') \<Longrightarrow> issues proj (f x) P"
  shows "issues proj (bind m f) P"
  unfolding issues_def
proof (intro allI impI)
  fix h r h' assume run: "bind m f h = (r, h')"
  obtain r1 h1 where m: "m h = (r1, h1)" by fastforce
  have same: "proj h1 = proj h" by (rule quietD [OF assms(1) m])
  show "\<exists>T t. P T \<and> prefix t T \<and> proj h' = proj h @ t \<and> ((\<exists>x. r = Inr x) \<longrightarrow> t = T)"
  proof (cases r1)
    case (Inl e)
    then have "r = Inl e" "h' = h1" using run m by (auto simp: bind_def)
    then show ?thesis using assms(2) same by (intro exI [of _ T] exI [of _ "[]"]) simp
  next
    case (Inr x)
    then have "f x h1 = (r, h')" and "m h = (Inr x, h1)" using run m by (auto simp: bind_def)
    then obtain T' t where "P T'" "prefix t T'" "proj h' = proj h1 @ t" "(\<exists>x. r = Inr x) \<longrightarrow> t = T'"
      using issuesD [OF assms(3)] by blast
    then show ?thesis using same by (intro exI [of _ T'] exI [of _ t]) simp
  qed
qed

lemma issues_quiet_seq: "quiet proj m \<Longrightarrow> P T \<Longrightarrow> issues proj n P \<Longrightarrow> issues proj (seq m n) P"
  unfolding seq_def by (rule issues_quiet_bind)

lemma issues_bind:
  assumes "issues proj m P" and "\<And>x. issues proj (f x) Q"
  shows "issues proj (bind m f) (\<lambda>T. \<exists>S U. T = S @ U \<and> P S \<and> Q U)"
  unfolding issues_def
proof (intro allI impI)
  fix h r h' assume run: "bind m f h = (r, h')"
  obtain r1 h1 where m: "m h = (r1, h1)" by fastforce
  obtain S s where S: "P S" "prefix s S" "proj h1 = proj h @ s" "(\<exists>x. r1 = Inr x) \<longrightarrow> s = S"
    using issuesD [OF assms(1) m] by blast
  let ?goal = "\<exists>T t. (\<exists>S U. T = S @ U \<and> P S \<and> Q U) \<and> prefix t T \<and> proj h' = proj h @ t
      \<and> ((\<exists>x. r = Inr x) \<longrightarrow> t = T)"
  show ?goal
  proof (cases r1)
    case (Inl e)
    obtain r2 h2 where "f undefined h1 = (r2, h2)" by fastforce
    then obtain U where "Q U" using issuesD [OF assms(2)] by blast
    moreover have "r = Inl e" "h' = h1" using Inl run m by (auto simp: bind_def)
    ultimately show ?thesis using S
      by (intro exI [of _ "S @ U"] exI [of _ s]) (auto simp: prefix_append)
  next
    case (Inr x)
    then have "f x h1 = (r, h')" using run m by (simp add: bind_def)
    then obtain U u where "Q U" "prefix u U" "proj h' = proj h1 @ u" "(\<exists>x. r = Inr x) \<longrightarrow> u = U"
      using issuesD [OF assms(2)] by blast
    then show ?thesis using S Inr by (intro exI [of _ "S @ U"] exI [of _ "S @ u"]) auto
  qed
qed

lemma issues_seq:
  "issues proj m P \<Longrightarrow> issues proj n Q \<Longrightarrow> issues proj (seq m n) (\<lambda>T. \<exists>S U. T = S @ U \<and> P S \<and> Q U)"
  unfolding seq_def by (rule issues_bind)

lemma issues_follows_seq:
  assumes "follows proj m S" and "issues proj n P"
  shows "issues proj (seq m n) (\<lambda>T. \<exists>U. T = S @ U \<and> P U)"
  using issues_seq [OF issues_follows [OF assms(1), of "\<lambda>T. T = S"] assms(2)]
  by (auto simp: issues_def)

lemma issues_seq_follows:
  assumes "issues proj m P" and "follows proj n S"
  shows "issues proj (seq m n) (\<lambda>T. \<exists>U. T = U @ S \<and> P U)"
  using issues_seq [OF assms(1) issues_follows [OF assms(2), of "\<lambda>T. T = S"]]
  by (auto simp: issues_def)

lemma issues_if: "issues proj m P \<Longrightarrow> issues proj n P \<Longrightarrow> issues proj (if b then m else n) P"
  by simp

lemma issues_mono: "issues proj m P \<Longrightarrow> (\<And>T. P T \<Longrightarrow> Q T) \<Longrightarrow> issues proj m Q"
  unfolding issues_def by blast

end

interpretation sent: observation sent
  by unfold_locales (simp add: sent_def)

interpretation deployed: observation deployed
  by unfold_locales (simp add: deployed_def)

interpretation db_writes: observation db_writes
  by unfold_locales (simp add: db_writes_def)

interpretation plugin_runs: observation plugin_runs
  by unfold_locales (simp add: plugin_runs_def)

lemma proj_Cons [simp]:
  "plugin_runs (e # h) = plugin_run_ev e @ plugin_runs h" "sent (e # h) = sent_ev e @ sent h"
  "deployed (e # h) = deployed_ev e @ deployed h" "db_writes (e # h) = db_write_ev e @ db_writes h"
  by (simp_all add: sent_def deployed_def db_writes_def plugin_runs_def)

lemma proj_Nil [simp]: "sent [] = []" "deployed [] = []" "db_writes [] = []"
  "plugin_runs [] = []"
  by (simp_all add: sent_def deployed_def db_writes_def plugin_runs_def)

section \<open>The primitives\<close>

lemma quiet_sent [quiet_intros]:
  "quiet sent (deploy_contract rt f s args)" "quiet sent (wait_tx rt tx)"
  "quiet sent (call_view rt c m args)" "quiet sent (db_get rt p)" "quiet sent (db_set rt p e)"
  "quiet sent (rpc_send rt m args)" "quiet sent (run_plugin_task rt t prm)"
  "quiet sent (tmp_file rt args)" "quiet sent cleanup_tmp"
  by (simp_all add: prim_defs sent.quiet_perform)

lemma quiet_deployed [quiet_intros]:
  "quiet deployed (send_tx rt c m args)" "quiet deployed (wait_tx rt tx)"
  "quiet deployed (call_view rt c m args)" "quiet deployed (db_get rt p)" "quiet deployed (db_set rt p e)"
  "quiet deployed (rpc_send rt m args)" "quiet deployed (run_plugin_task rt t prm)"
  "quiet deployed (tmp_file rt args)" "quiet deployed cleanup_tmp"
  by (simp_all add: prim_defs deployed.quiet_perform)

lemma quiet_db_writes [quiet_intros]:
  "quiet db_writes (deploy_contract rt f s args)" "quiet db_writes (wait_tx rt tx)"
  "quiet db_writes (send_tx rt c m args)"
  "quiet db_writes (call_view rt c m args)" "quiet db_writes (db_get rt p)"
  "quiet db_writes (rpc_send rt m args)" "quiet db_writes (run_plugin_task rt t prm)"
  "quiet db_writes (tmp_file rt args)" "quiet db_writes cleanup_tmp"
  by (simp_all add: prim_defs db_writes.quiet_perform)

lemma quiet_plugin_runs [quiet_intros]:
  "quiet plugin_runs (deploy_contract rt f s args)" "quiet plugin_runs (wait_tx rt tx)"
  "quiet plugin_runs (send_tx rt c m args)"
  "quiet plugin_runs (call_view rt c m args)" "quiet plugin_runs (db_get rt p)"
  "quiet plugin_runs (db_set rt p e)" "quiet plugin_runs (rpc_send rt m args)"
  "quiet plugin_runs (tmp_file rt args)" "quiet plugin_runs cleanup_tmp"
  by (simp_all add: prim_defs plugin_runs.quiet_perform)

lemmas quiet_combinators [quiet_intros] =
  sent.quiet_ret sent.quiet_throw sent.quiet_lift sent.quiet_bind sent.quiet_seq sent.quiet_io_when
  sent.quiet_if sent.quiet_not_awaited sent.quiet_case_option sent.quiet_catch sent.quiet_fold
  deployed.quiet_ret deployed.quiet_throw deployed.quiet_lift deployed.quiet_bind deployed.quiet_seq
  deployed.quiet_io_when deployed.quiet_if deployed.quiet_case_option deployed.quiet_catch
  deployed.quiet_fold deployed.quiet_not_awaited db_writes.quiet_not_awaited
  db_writes.quiet_ret db_writes.quiet_throw db_writes.quiet_lift db_writes.quiet_bind
  db_writes.quiet_seq db_writes.quiet_io_when db_writes.quiet_if db_writes.quiet_case_option
  db_writes.quiet_catch db_writes.quiet_fold

lemma quiet_call_str [quiet_intros]:
  "quiet sent (call_str rt c m args)" "quiet deployed (call_str rt c m args)"
  "quiet db_writes (call_str rt c m args)"
  by (simp_all add: call_str_def quiet_intros)

lemma emits_send_tx [emits_intros]:
  "emits sent (send_tx rt c m args) (\<lambda>_. [(signer c, address c, m, args)])"
  by (simp add: send_tx_def sent.emits_perform)

lemma emits_deploy_contract [emits_intros]:
  "emits deployed (deploy_contract rt f s args) (\<lambda>c. [(f, args, address c)])"
  by (simp add: deploy_contract_def deployed.emits_perform)

lemma emits_db_set [emits_intros]: "emits db_writes (db_set rt p e) (\<lambda>_. [(p, e)])"
  by (simp add: db_set_def db_writes.emits_perform)

lemma follows_send_tx: "follows sent (send_tx rt c m args) [(signer c, address c, m, args)]"
  by (simp add: follows_def emits_send_tx)
     (rule sent.fails_mono [of _ "{[]}"], simp_all add: send_tx_def sent.fails_perform)

lemma fails_send_tx: "fails_with sent (send_tx rt c m args) {[]}"
  by (simp add: send_tx_def sent.fails_perform)

end
