(* ===== verification/MiscUtils.thy ===== *)
theory MiscUtils
  imports Traces Constants
begin

text \<open>
  \<open>helpers/misc-utils.ts\<close>: batching (\<open>chunk\<close>), selection of object entries (\<open>filterMapBy\<close>),
  address checks, waiting for transactions, block time, and the listing of the JSON registry.
  The lemmas show that \<open>chunk\<close> is the usual splitting into blocks for a positive size, and what it
  does for size 0; that \<open>filterMapBy\<close> keeps exactly the selected entries, in order.
\<close>

section \<open>Numbers\<close>

definition toWad :: "'b bn_api \<Rightarrow> string \<Rightarrow> string" where
  "toWad B v = bn_toFixed B (bn_times B (bn_str B v) (bn_str B WAD))"

definition stringToBigNumber :: "'b bn_api \<Rightarrow> string \<Rightarrow> 'b" where
  "stringToBigNumber B amount = bn_str B amount"

section \<open>The node\<close>

text \<open>\<open>await DRE.ethers.getSigners()\<close> and its first element.\<close>

definition first_signer :: "runtime \<Rightarrow> string option" where
  "first_signer rt = (case signer_addresses rt of [] \<Rightarrow> None | s # _ \<Rightarrow> Some s)"

definition evmSnapshot :: "runtime \<Rightarrow> js_val io" where
  "evmSnapshot rt = rpc_send rt ''evm_snapshot'' []"

definition evmRevert :: "runtime \<Rightarrow> string \<Rightarrow> js_val io" where
  "evmRevert rt snapshot = rpc_send rt ''evm_revert'' [VStr snapshot]"

definition advanceBlock :: "runtime \<Rightarrow> int \<Rightarrow> js_val io" where
  "advanceBlock rt timestamp = rpc_send rt ''evm_mine'' [VNum timestamp]"

definition increaseTime :: "runtime \<Rightarrow> int \<Rightarrow> unit io" where
  "increaseTime rt secondsToIncrease =
     seq (rpc_send rt ''evm_increaseTime'' [VNum secondsToIncrease])
    (seq (rpc_send rt ''evm_mine'' []) (ret ()))"

text \<open>\<open>block.timestamp\<close> of a block the provider returned.\<close>

fun block_timestamp :: "js_val \<Rightarrow> js_error + int" where
  "block_timestamp (VObj fs) =
     (case map_of fs ''timestamp'' of Some (VNum t) \<Rightarrow> Inr t
      | _ \<Rightarrow> Inl (JsTypeError ''block.timestamp is not a number''))"
| "block_timestamp _ = Inl (JsTypeError ''cannot read timestamp'')"

definition timeLatest :: "runtime \<Rightarrow> int io" where
  "timeLatest rt =
     bind (rpc_send rt ''getBlock'' [VStr ''latest'']) (\<lambda>block. lift_sum (block_timestamp block))"

definition advanceTimeAndBlock :: "runtime \<Rightarrow> int \<Rightarrow> unit io" where
  "advanceTimeAndBlock rt forwardTime =
     bind (rpc_send rt ''getBlockNumber'' []) (\<lambda>currentBlockNumber.
     bind (rpc_send rt ''getBlock'' [currentBlockNumber]) (\<lambda>currentBlock.
     if currentBlock = VNull then
       seq (rpc_send rt ''evm_increaseTime'' [VNum forwardTime])
      (seq (rpc_send rt ''evm_mine'' [])
      (seq (rpc_send rt ''evm_increaseTime'' [VNum 15]) (ret ())))
     else
       bind (lift_sum (block_timestamp currentBlock)) (\<lambda>currentTime.
       let futureTime = currentTime + forwardTime in
       seq (rpc_send rt ''evm_setNextBlockTimestamp'' [VNum futureTime])
      (seq (rpc_send rt ''evm_mine'' []) (ret ())))))"

definition waitForTx :: "runtime \<Rightarrow> string \<Rightarrow> unit io" where
  "waitForTx rt tx = wait_tx rt tx"

text \<open>The idiom \<open>await waitForTx(await c.method(...args))\<close>.\<close>

definition send_and_wait :: "runtime \<Rightarrow> contract \<Rightarrow> string \<Rightarrow> js_val list \<Rightarrow> unit io" where
  "send_and_wait rt c m args = bind (send_tx rt c m args) (\<lambda>tx. waitForTx rt tx)"

section \<open>Lists and objects\<close>

definition filterMapBy :: "'v js_obj \<Rightarrow> (string \<Rightarrow> bool) \<Rightarrow> 'v js_obj" where
  "filterMapBy raw fn =
     foldl (\<lambda>ob key. case obj_get raw key of None \<Rightarrow> ob | Some v \<Rightarrow> obj_set ob key v)
       [] (filter fn (obj_keys raw))"

text \<open>
  \<open>!(currIndx % chunkSize)\<close>: the remainder is 0, or \<open>NaN\<close> when \<open>chunkSize\<close> is 0.
\<close>

definition chunk_starts :: "nat \<Rightarrow> nat \<Rightarrow> bool" where
  "chunk_starts currIndx chunkSize \<longleftrightarrow> chunkSize = 0 \<or> currIndx mod chunkSize = 0"

definition chunk :: "'a list \<Rightarrow> nat \<Rightarrow> 'a list list" where
  "chunk arr chunkSize =
     foldl (\<lambda>prevVal currIndx.
              if chunk_starts currIndx chunkSize
              then prevVal @ [take chunkSize (drop currIndx arr)] else prevVal)
       [] [0..<length arr]"

text \<open>
  The lines \<open>printContracts\<close> writes for the registry state: entries whose value has the network.
\<close>

definition printContracts :: "string \<Rightarrow> db_entry js_obj js_obj \<Rightarrow> nat \<times> string list" where
  "printContracts network state =
     (let entries = filter (\<lambda>(_, value). obj_get value network \<noteq> None) state;
          contractsPrint = map (\<lambda>(key, value).
            key @ '': '' @ (case obj_get value network of None \<Rightarrow> '''' | Some e \<Rightarrow> entry_address e)) entries
      in (length entries, contractsPrint))"

text \<open>\<open>isAddress\<close> of ethers and \<open>isZeroAddress\<close> of ethereumjs-util.\<close>

record address_api =
  is_address :: "string \<Rightarrow> bool"
  is_zero_address :: "string \<Rightarrow> bool"

definition notFalsyOrZeroAddress :: "address_api \<Rightarrow> string option \<Rightarrow> bool" where
  "notFalsyOrZeroAddress A addr =
     (case addr of None \<Rightarrow> False
      | Some a \<Rightarrow> if a = '''' then False else is_address A a \<and> \<not> is_zero_address A a)"

section \<open>Blocks\<close>

text \<open>The reference: split off blocks of \<open>n\<close> elements.\<close>

fun blocks :: "nat \<Rightarrow> 'a list \<Rightarrow> 'a list list" where
  "blocks n xs = (if xs = [] \<or> n = 0 then [] else take n xs # blocks n (drop n xs))"

declare blocks.simps [simp del]

lemma blocks_Nil [simp]: "blocks n [] = []"
  by (simp add: blocks.simps)

lemma blocks_step: "0 < n \<Longrightarrow> xs \<noteq> [] \<Longrightarrow> blocks n xs = take n xs # blocks n (drop n xs)"
  by (subst blocks.simps) simp

lemma blocks_0 [simp]: "blocks 0 xs = []"
  by (simp add: blocks.simps)

lemma foldl_select: "foldl (\<lambda>acc i. if p i then acc @ [f i] else acc) acc is = acc @ map f (filter p is)"
  by (induction "is" arbitrary: acc) simp_all

lemma chunk_as_map:
  "chunk arr n = map (\<lambda>i. take n (drop i arr)) (filter (\<lambda>i. chunk_starts i n) [0..<length arr])"
  by (simp add: chunk_def foldl_select)

lemma filter_shift: "filter p [k..<k + m] = map (\<lambda>i. k + i) (filter (\<lambda>i. p (k + i)) [0..<m])"
proof -
  have "[k..<k + m] = map (\<lambda>i. k + i) [0..<m]"
    by (induction m) simp_all
  then show ?thesis by (simp add: filter_map o_def)
qed

lemma starts_first:
  assumes "0 < m" and "m \<le> n"
  shows "filter (\<lambda>i. chunk_starts i n) [0..<m] = [0]"
proof -
  have "[0..<m] = 0 # [1..<m]" using assms(1) by (simp add: upt_conv_Cons)
  moreover have "filter (\<lambda>i. chunk_starts i n) [1..<m] = []"
    using assms by (auto simp: filter_empty_conv chunk_starts_def)
  ultimately show ?thesis by (simp add: chunk_starts_def)
qed

lemma chunk_step:
  assumes "0 < n" and "xs \<noteq> []"
  shows "chunk xs n = take n xs # chunk (drop n xs) n"
proof (cases "length xs \<le> n")
  case True
  then show ?thesis using assms starts_first [of "length xs" n] by (simp add: chunk_as_map)
next
  case False
  define m where "m = length xs - n"
  have len: "length xs = n + m" using False by (simp add: m_def)
  have "[0..<length xs] = [0..<n] @ [n..<n + m]"
    unfolding len using upt_add_eq_append [of 0 n m] by simp
  moreover have "(\<lambda>i. chunk_starts (n + i) n) = (\<lambda>i. chunk_starts i n)"
    by (simp add: chunk_starts_def fun_eq_iff)
  ultimately have "filter (\<lambda>i. chunk_starts i n) [0..<length xs]
      = 0 # map (\<lambda>i. n + i) (filter (\<lambda>i. chunk_starts i n) [0..<m])"
    using assms(1) by (simp add: starts_first filter_shift)
  then show ?thesis
    by (simp add: chunk_as_map m_def o_def add.commute)
qed

lemma chunk_blocks: "0 < n \<Longrightarrow> chunk xs n = blocks n xs"
proof (induction n xs rule: blocks.induct)
  case (1 n xs)
  show ?case
  proof (cases "xs = []")
    case True
    then show ?thesis by (simp add: chunk_def)
  next
    case False
    then show ?thesis using 1 by (simp add: chunk_step blocks_step)
  qed
qed

lemma concat_blocks: "0 < n \<Longrightarrow> concat (blocks n xs) = xs"
proof (induction n xs rule: blocks.induct)
  case (1 n xs)
  then show ?case by (cases "xs = []") (simp_all add: blocks_step)
qed

lemma blocks_bounds: "b \<in> set (blocks n xs) \<Longrightarrow> b \<noteq> [] \<and> length b \<le> n"
proof (induction n xs rule: blocks.induct)
  case (1 n xs)
  have ne: "0 < n" "xs \<noteq> []" using 1(2) by (cases "n = 0"; cases "xs = []"; simp)+
  then have "b = take n xs \<or> b \<in> set (blocks n (drop n xs))"
    using 1(2) by (simp add: blocks_step)
  then show ?case using 1(1) ne by auto
qed

lemma div_add_Suc: "0 < n \<Longrightarrow> (a + n) div n = Suc (a div n)" for a n :: nat
  by (simp add: div_add_self2 del: div_add_self2 flip: Suc_eq_plus1)

lemma length_blocks: "0 < n \<Longrightarrow> length (blocks n xs) = (length xs + n - 1) div n"
proof (induction n xs rule: blocks.induct)
  case (1 n xs)
  show ?case
  proof (cases "xs = []")
    case True
    then show ?thesis using 1(2) by simp
  next
    case ne: False
    have step: "length (blocks n xs) = Suc ((length (drop n xs) + n - 1) div n)"
      using 1 ne by (simp add: blocks_step)
    show ?thesis
    proof (cases "length xs \<le> n")
      case True
      have "0 < length xs" using ne by simp
      then have eq: "length xs + n - 1 = (length xs - 1) + n" and lt: "length xs - 1 < n"
        using True by linarith+
      have "(length xs + n - 1) div n = Suc ((length xs - 1) div n)"
        unfolding eq using 1(2) by (rule div_add_Suc)
      then have "(length xs + n - 1) div n = Suc 0" using lt by (simp only: div_less)
      then show ?thesis using step True 1(2) by simp
    next
      case False
      then have eq: "length xs + n - 1 = (length (drop n xs) + n - 1) + n" using 1(2) by simp
      have "((length (drop n xs) + n - 1) + n) div n = Suc ((length (drop n xs) + n - 1) div n)"
        using 1(2) by (rule div_add_Suc)
      then show ?thesis unfolding step eq by (rule sym)
    qed
  qed
qed

lemma chunk_map: "chunk (map f xs) n = map (map f) (chunk xs n)"
  by (simp add: chunk_as_map take_map drop_map)

section \<open>Selection\<close>

lemma filterMapBy_aux:
  assumes "distinct (obj_keys (pre @ ob))" and "\<And>k v. (k, v) \<in> set ob \<Longrightarrow> obj_get raw k = Some v"
  shows "foldl (\<lambda>acc key. case obj_get raw key of None \<Rightarrow> acc | Some v \<Rightarrow> obj_set acc key v)
      pre (obj_keys ob) = pre @ ob"
  using assms
proof (induction ob arbitrary: pre)
  case Nil
  then show ?case by simp
next
  case (Cons p ob)
  obtain k v where p: "p = (k, v)" by fastforce
  have "obj_get raw k = Some v" using Cons.prems(2) p by simp
  moreover have "obj_set pre k v = pre @ [(k, v)]"
    using Cons.prems(1) p by (intro obj_set_fresh) auto
  moreover have "foldl (\<lambda>acc key. case obj_get raw key of None \<Rightarrow> acc | Some v \<Rightarrow> obj_set acc key v)
      (pre @ [(k, v)]) (obj_keys ob) = (pre @ [(k, v)]) @ ob"
    using Cons.prems p by (intro Cons.IH) auto
  ultimately show ?case by (simp add: p)
qed

lemma filterMapBy_eq:
  assumes "distinct (obj_keys raw)"
  shows "filterMapBy raw fn = filter (\<lambda>(k, _). fn k) raw"
proof -
  let ?sel = "filter (\<lambda>(k, _). fn k) raw"
  have keys: "filter fn (obj_keys raw) = obj_keys ?sel"
    by (induction raw) (auto simp: obj_keys_def)
  have dist: "distinct (obj_keys ?sel)"
    using assms keys by (metis distinct_filter)
  have get: "obj_get raw k = Some v" if "(k, v) \<in> set ?sel" for k v
    using that assms by (auto simp: obj_get_def obj_keys_def)
  have "filterMapBy raw fn = [] @ ?sel"
    unfolding filterMapBy_def keys by (rule filterMapBy_aux) (use dist get in auto)
  then show ?thesis by simp
qed

lemma notFalsyOrZeroAddress_truthy: "notFalsyOrZeroAddress A addr \<Longrightarrow> truthy addr"
  by (auto simp: notFalsyOrZeroAddress_def split: option.splits if_splits)

section \<open>Sending and waiting\<close>

lemma emits_send_and_wait [emits_intros]:
  "emits sent (send_and_wait rt c m args) (\<lambda>_. [(signer c, address c, m, args)])"
proof -
  have "emits sent (send_and_wait rt c m args) (\<lambda>_. [(signer c, address c, m, args)] @ [])"
    unfolding send_and_wait_def waitForTx_def
    by (rule sent.emits_bind) (simp_all add: emits_send_tx sent.emits_quiet quiet_sent)
  then show ?thesis by simp
qed

lemma follows_send_and_wait:
  "follows sent (send_and_wait rt c m args) [(signer c, address c, m, args)]"
  unfolding send_and_wait_def waitForTx_def
  using sent.follows_bind [OF follows_send_tx sent.follows_quiet [OF quiet_sent(2)]] by simp

lemma quiet_send_and_wait [quiet_intros]:
  "quiet deployed (send_and_wait rt c m args)" "quiet db_writes (send_and_wait rt c m args)"
  by (simp_all add: send_and_wait_def waitForTx_def quiet_intros)

end
