(* ===== verification/Etherscan.thy ===== *)
theory Etherscan
  imports MiscUtils
begin

text \<open>
  \<open>helpers/etherscan-verification.ts\<close> and \<open>helpers/tenderly-utils.ts\<close>: the retry loop around the
  Etherscan plugin's task, the checks on the environment, and the selection of Tenderly. The
  properties bound the attempts of the retry loop and show that it always returns.
\<close>

section \<open>Tables\<close>

definition fatalErrors :: "string list" where
  "fatalErrors =
    [''The address provided as argument contains a contract, but its bytecode'',
     ''Daily limit of 100 source code submissions reached'',
     ''has no bytecode. Is the contract deployed to this network'',
     ''The constructor for'']"

definition okErrors :: "string list" where
  "okErrors = [''Contract source code already verified'']"

definition unableVerifyError :: string where
  "unableVerifyError = ''Fail - Unable to verify''"

definition SUPPORTED_ETHERSCAN_NETWORKS :: "string list" where
  "SUPPORTED_ETHERSCAN_NETWORKS = [''main'', ''ropsten'', ''kovan'']"

section \<open>The retry loop\<close>

text \<open>
  The parameters of the plugin task; \<open>delete params.relatedSources\<close> clears the last field, and a
  deleted property is absent from the object that the plugin receives.
\<close>

record verify_params =
  vp_address :: string
  vp_libraries :: "string option"
  vp_constructorArgs :: string
  vp_relatedSources :: bool

definition verify_params_val :: "verify_params \<Rightarrow> js_val" where
  "verify_params_val p = VObj ([(''address'', VStr (vp_address p)), (''libraries'', opt_val (vp_libraries p)),
     (''constructorArgs'', VStr (vp_constructorArgs p))]
     @ (if vp_relatedSources p then [(''relatedSources'', VBool True)] else []))"

text \<open>The three ways the \<open>catch\<close> clause of the loop goes on, by the error's message.\<close>

datatype retry_decision = SkipOk | SkipFatal | Retry bool

definition classify_error :: "string \<Rightarrow> retry_decision" where
  "classify_error m =
     (if list_ex (\<lambda>okReason. str_includes m okReason) okErrors then SkipOk
      else if list_ex (\<lambda>fatalError. str_includes m fatalError) fatalErrors then SkipFatal
      else Retry (str_includes m unableVerifyError))"

function runTaskWithRetry :: "runtime \<Rightarrow> string \<Rightarrow> verify_params \<Rightarrow> int \<Rightarrow> unit io" where
  "runTaskWithRetry rt task params tries =
     (if tries \<ge> 1 then
        let params1 = (if tries = 1 then params\<lparr>vp_relatedSources := False\<rparr> else params) in
        catch (seq (run_plugin_task rt task (verify_params_val params1)) cleanup_tmp)
          (\<lambda>error.
             case err_message error of
               None \<Rightarrow> throw (JsTypeError ''error.message is undefined'')
             | Some m \<Rightarrow>
                 (case classify_error m of
                    SkipOk \<Rightarrow> ret ()
                  | SkipFatal \<Rightarrow> ret ()
                  | Retry unable \<Rightarrow>
                      runTaskWithRetry rt task
                        (if unable then params1\<lparr>vp_relatedSources := False\<rparr> else params1) (tries - 1)))
      else cleanup_tmp)"
  by pat_completeness auto
termination by (relation "measure (\<lambda>(rt, task, params, tries). nat tries)") auto

declare runTaskWithRetry.simps [simp del]

section \<open>Verification of a contract\<close>

definition unsupported_network :: "runtime \<Rightarrow> string" where
  "unsupported_network rt = ''Current network '' @ network_name rt
     @ '' not supported. Please change to one of the next networks: main,ropsten,kovan''"

definition verifyContract :: "runtime \<Rightarrow> string \<Rightarrow> js_val list \<Rightarrow> string option \<Rightarrow> unit io" where
  "verifyContract rt addr constructorArguments libraries =
     (if \<not> truthy (env_var rt ''ETHERSCAN_KEY'') then
        throw (JsError ''Missing process.env.ETHERSCAN_KEY.'')
      else if network_name rt \<notin> set SUPPORTED_ETHERSCAN_NETWORKS then
        throw (JsError (unsupported_network rt))
      else catch
        (bind (tmp_file rt constructorArguments) (\<lambda>path.
         runTaskWithRetry rt ''verify''
           \<lparr> vp_address = addr, vp_libraries = libraries, vp_constructorArgs = path,
             vp_relatedSources = True \<rparr> 4))
        (\<lambda>error. ret ()))"

definition checkVerification :: "runtime \<Rightarrow> unit io" where
  "checkVerification rt =
     (if \<not> truthy (env_var rt ''ETHERSCAN_KEY'') then throw (JsExit 3)
      else if network_name rt \<notin> set SUPPORTED_ETHERSCAN_NETWORKS then throw (JsExit 5)
      else ret ())"

text \<open>\<open>usingTenderly\<close> of \<open>tenderly-utils.ts\<close> (\<open>DRE\<close> is set in every run modelled here).\<close>

definition usingTenderly :: "runtime \<Rightarrow> bool" where
  "usingTenderly rt \<longleftrightarrow> str_includes (network_name rt) ''tenderly'' \<or> env_is rt ''TENDERLY'' ''true''"

section \<open>What the loop does\<close>

context observation
begin

text \<open>The loop only runs the task and removes the temporary file.\<close>

lemma quiet_retry:
  assumes run: "\<And>p. quiet proj (run_plugin_task rt task p)" and clean: "quiet proj cleanup_tmp"
  shows "quiet proj (runTaskWithRetry rt task params tries)"
proof (induction "nat tries" arbitrary: params tries rule: less_induct)
  case less
  show ?case
  proof (cases "tries \<ge> 1")
    case True
    then have IH: "quiet proj (runTaskWithRetry rt task prm (tries - 1))" for prm
      by (intro less) simp
    have IH0: "tries = 1 \<Longrightarrow> quiet proj (runTaskWithRetry rt task prm 0)" for prm
      using IH [of prm] by simp
    show ?thesis unfolding runTaskWithRetry.simps [of rt task params tries] Let_def
      using True
      by (auto intro!: quiet_catch quiet_seq run clean quiet_ret quiet_throw IH IH0
          split: option.split retry_decision.split)
  next
    case False
    then show ?thesis by (subst runTaskWithRetry.simps) (simp add: clean)
  qed
qed

end

lemma quiet_runTaskWithRetry [quiet_intros]:
  "quiet sent (runTaskWithRetry rt task params tries)"
  "quiet deployed (runTaskWithRetry rt task params tries)"
  "quiet db_writes (runTaskWithRetry rt task params tries)"
  by (simp_all add: sent.quiet_retry deployed.quiet_retry db_writes.quiet_retry quiet_intros)

lemma quiet_verifyContract [quiet_intros]:
  "quiet sent (verifyContract rt a args libs)" "quiet deployed (verifyContract rt a args libs)"
  "quiet db_writes (verifyContract rt a args libs)"
  unfolding verifyContract_def by (intro quiet_intros)+

section \<open>Attempts\<close>

text \<open>One attempt: the task is run, and the file removed if it succeeded.\<close>

lemma attempt_cases:
  assumes "catch (seq (run_plugin_task rt task v) cleanup_tmp) k h = (r, h')"
  obtains (ok) "r = Inr ()" and "plugin_runs h' = plugin_runs h @ [(task, v)]"
  | (exit) n where "r = Inl (JsExit n)" and "plugin_runs h' = plugin_runs h @ [(task, v)]"
  | (failed) e h1 where "ext_run rt h task v = Inl e" and "\<And>n. e \<noteq> JsExit n"
      and "h1 = h @ [EvFail (ReqRun task v) e]" and "k e h1 = (r, h')"
proof (cases "ext_run rt h task v")
  case (Inl e)
  note eval = catch_def seq_def bind_def run_plugin_task_def perform_def
  show ?thesis
  proof (cases "\<exists>n. e = JsExit n")
    case True
    then obtain n where e: "e = JsExit n" by blast
    have "catch (seq (run_plugin_task rt task v) cleanup_tmp) k h
        = (Inl (JsExit n), h @ [EvFail (ReqRun task v) e])"
      using Inl e by (simp add: eval)
    then show ?thesis using exit assms by (auto simp: plugin_runs.proj_append)
  next
    case False
    then have "catch (seq (run_plugin_task rt task v) cleanup_tmp) k h
        = k e (h @ [EvFail (ReqRun task v) e])"
      using Inl by (cases e) (simp_all add: eval)
    then show ?thesis using failed [OF Inl _ refl] False assms by simp
  qed
next
  case (Inr u)
  then show ?thesis using assms ok
    by (auto simp: catch_def seq_def bind_def run_plugin_task_def cleanup_tmp_def perform_def
        plugin_runs.proj_append)
qed

lemma cleanup_runs: "cleanup_tmp h = (Inr (), h @ [EvOk ReqCleanup ReplyUnit])"
  by (simp add: cleanup_tmp_def perform_def)

text \<open>One round: the task runs once, and then the loop is over or starts again with one try less.\<close>

lemma retry_round:
  assumes "runTaskWithRetry rt task params tries h = (r, h')" and tries: "tries \<ge> 1"
  shows "\<exists>v h1. plugin_runs h1 = plugin_runs h @ [(task, v)]
    \<and> (h' = h1 \<or> (\<exists>prm. runTaskWithRetry rt task prm (tries - 1) h1 = (r, h')))"
proof -
  define q where "q = (if tries = 1 then params\<lparr>vp_relatedSources := False\<rparr> else params)"
  let ?v = "verify_params_val q"
  define k where "k = (\<lambda>error. case err_message error of
             None \<Rightarrow> throw (JsTypeError ''error.message is undefined'')
           | Some m \<Rightarrow>
               (case classify_error m of SkipOk \<Rightarrow> ret () | SkipFatal \<Rightarrow> ret ()
                | Retry unable \<Rightarrow> runTaskWithRetry rt task
                      (if unable then q\<lparr>vp_relatedSources := False\<rparr> else q) (tries - 1)))"
  have "catch (seq (run_plugin_task rt task ?v) cleanup_tmp) k h = (r, h')"
    using assms unfolding runTaskWithRetry.simps [of rt task params tries] q_def k_def Let_def
    by simp
  then show ?thesis
  proof (cases rule: attempt_cases)
    case (failed e h1)
    have "h' = h1 \<or> (\<exists>prm. runTaskWithRetry rt task prm (tries - 1) h1 = (r, h'))"
      using failed(4) unfolding k_def
      by (auto simp: throw_def ret_def split: option.splits retry_decision.splits if_splits)
    moreover have "plugin_runs h1 = plugin_runs h @ [(task, ?v)]" using failed(3) by (simp add: plugin_runs.proj_append)
    ultimately show ?thesis by blast
  qed (auto intro: exI [of _ ?v] exI [of _ h'])
qed

text \<open>
  However the plugin answers, \<open>runTaskWithRetry\<close> runs the task at most \<open>tries\<close> times, and runs
  no other task.
\<close>

theorem runTaskWithRetry_attempts:
  assumes "runTaskWithRetry rt task params tries h = (r, h')"
  shows "\<exists>ps. plugin_runs h' = plugin_runs h @ map (\<lambda>p. (task, p)) ps \<and> length ps \<le> nat tries"
  using assms
proof (induction "nat tries" arbitrary: params tries h rule: less_induct)
  case less
  show ?case
  proof (cases "tries \<ge> 1")
    case False
    then have "runTaskWithRetry rt task params tries h = cleanup_tmp h"
      by (subst runTaskWithRetry.simps) simp
    then show ?thesis using less.prems
      by (intro exI [of _ "[]"]) (simp add: cleanup_runs plugin_runs.proj_append)
  next
    case True
    from retry_round [OF less.prems True] obtain v h1 where runs: "plugin_runs h1 = plugin_runs h @ [(task, v)]"
      and rest: "h' = h1 \<or> (\<exists>prm. runTaskWithRetry rt task prm (tries - 1) h1 = (r, h'))" by blast
    from rest have "\<exists>ps. plugin_runs h' = plugin_runs h1 @ map (\<lambda>p. (task, p)) ps \<and> length ps \<le> nat (tries - 1)"
    proof (elim disjE exE)
      fix prm assume "runTaskWithRetry rt task prm (tries - 1) h1 = (r, h')"
      then show ?thesis using less.hyps [of "tries - 1" prm h1] True by simp
    qed simp
    then obtain ps where "plugin_runs h' = plugin_runs h1 @ map (\<lambda>p. (task, p)) ps" "length ps \<le> nat (tries - 1)" by blast
    then show ?thesis using runs True by (intro exI [of _ "v # ps"]) auto
  qed
qed

end
