(* ===== verification/Getters.thy ===== *)
theory Getters
  imports Etherscan Types
begin

text \<open>
  \<open>helpers/contracts-getters.ts\<close>: contract handles from an address or, when the address is missing
  or empty, from the JSON registry; the mock tokens of the registry; the pairing of assets and
  price aggregators. Every getter is an instance of \<open>connect_or_db\<close>, whose lemmas give the
  behaviour of all of them.
\<close>

section \<open>Connecting\<close>

text \<open>\<open>XFactory.connect(address, await getFirstSigner())\<close>\<close>

definition connect_at :: "runtime \<Rightarrow> string \<Rightarrow> string \<Rightarrow> contract" where
  "connect_at rt factory a = \<lparr> abi = factory, address = a, signer = first_signer rt, deployer = None \<rparr>"

text \<open>\<open>${id}.${DRE.network.name}\<close>\<close>

definition db_path :: "runtime \<Rightarrow> string \<Rightarrow> string" where
  "db_path rt cid = cid @ ''.'' @ network_name rt"

text \<open>\<open>(await getDb().get(path).value()).address\<close>: a missing entry is \<open>undefined\<close>.\<close>

definition db_address :: "runtime \<Rightarrow> string \<Rightarrow> string io" where
  "db_address rt cid = bind (db_get rt (db_path rt cid)) (\<lambda>entry.
     case entry of None \<Rightarrow> throw (JsTypeError ''Cannot read property address of undefined'')
     | Some e \<Rightarrow> ret (entry_address e))"

definition connect_or_db :: "runtime \<Rightarrow> string \<Rightarrow> eContractid \<Rightarrow> string option \<Rightarrow> contract io" where
  "connect_or_db rt factory cid addr =
     (case addr of
        Some a \<Rightarrow> if a \<noteq> '''' then ret (connect_at rt factory a)
                  else bind (db_address rt (contract_id cid)) (\<lambda>d. ret (connect_at rt factory d))
      | None \<Rightarrow> bind (db_address rt (contract_id cid)) (\<lambda>d. ret (connect_at rt factory d)))"

text \<open>\<open>contract.connect(signer)\<close>\<close>

definition connect_signer :: "contract \<Rightarrow> string option \<Rightarrow> contract" where
  "connect_signer c s = c\<lparr> signer := s, deployer := None \<rparr>"

definition getFirstSigner :: "runtime \<Rightarrow> string option io" where
  "getFirstSigner rt = ret (first_signer rt)"

section \<open>The getters\<close>

definition getLendingPoolAddressesProvider :: "runtime \<Rightarrow> string option \<Rightarrow> contract io" where
  "getLendingPoolAddressesProvider rt addr = connect_or_db rt ''LendingPoolAddressesProvider'' Id_LendingPoolAddressesProvider addr"

definition getLendingPoolConfiguratorProxy :: "runtime \<Rightarrow> string option \<Rightarrow> contract io" where
  "getLendingPoolConfiguratorProxy rt addr = connect_or_db rt ''LendingPoolConfigurator'' Id_LendingPoolConfigurator addr"

definition getLendingPool :: "runtime \<Rightarrow> string option \<Rightarrow> contract io" where
  "getLendingPool rt addr = connect_or_db rt ''LendingPool'' Id_LendingPool addr"

definition getPriceOracle :: "runtime \<Rightarrow> string option \<Rightarrow> contract io" where
  "getPriceOracle rt addr = connect_or_db rt ''PriceOracle'' Id_PriceOracle addr"

definition getAToken :: "runtime \<Rightarrow> string option \<Rightarrow> contract io" where
  "getAToken rt addr = connect_or_db rt ''AToken'' Id_AToken addr"

definition getStableDebtToken :: "runtime \<Rightarrow> string option \<Rightarrow> contract io" where
  "getStableDebtToken rt addr = connect_or_db rt ''StableDebtToken'' Id_StableDebtToken addr"

definition getVariableDebtToken :: "runtime \<Rightarrow> string option \<Rightarrow> contract io" where
  "getVariableDebtToken rt addr = connect_or_db rt ''VariableDebtToken'' Id_VariableDebtToken addr"

definition getMintableERC20 :: "runtime \<Rightarrow> string option \<Rightarrow> contract io" where
  "getMintableERC20 rt addr = connect_or_db rt ''MintableERC20'' Id_MintableERC20 addr"

definition getIErc20Detailed :: "runtime \<Rightarrow> string option \<Rightarrow> contract io" where
  "getIErc20Detailed rt addr = connect_or_db rt ''IERC20Detailed'' Id_IERC20Detailed addr"

definition getAaveProtocolDataProvider :: "runtime \<Rightarrow> string option \<Rightarrow> contract io" where
  "getAaveProtocolDataProvider rt addr = connect_or_db rt ''AaveProtocolDataProvider'' Id_AaveProtocolDataProvider addr"

definition getInterestRateStrategy :: "runtime \<Rightarrow> string option \<Rightarrow> contract io" where
  "getInterestRateStrategy rt addr = connect_or_db rt ''DefaultReserveInterestRateStrategy'' Id_DefaultReserveInterestRateStrategy addr"

definition getMockFlashLoanReceiver :: "runtime \<Rightarrow> string option \<Rightarrow> contract io" where
  "getMockFlashLoanReceiver rt addr = connect_or_db rt ''MockFlashLoanReceiver'' Id_MockFlashLoanReceiver addr"

definition getLendingRateOracle :: "runtime \<Rightarrow> string option \<Rightarrow> contract io" where
  "getLendingRateOracle rt addr = connect_or_db rt ''LendingRateOracle'' Id_LendingRateOracle addr"

definition getLendingPoolAddressesProviderRegistry :: "runtime \<Rightarrow> string option \<Rightarrow> contract io" where
  "getLendingPoolAddressesProviderRegistry rt addr = connect_or_db rt ''LendingPoolAddressesProviderRegistry'' Id_LendingPoolAddressesProviderRegistry addr"

definition getReserveLogic :: "runtime \<Rightarrow> string option \<Rightarrow> contract io" where
  "getReserveLogic rt addr = connect_or_db rt ''ReserveLogic'' Id_ReserveLogic addr"

definition getGenericLogic :: "runtime \<Rightarrow> string option \<Rightarrow> contract io" where
  "getGenericLogic rt addr = connect_or_db rt ''GenericLogic'' Id_GenericLogic addr"

definition getStableAndVariableTokensHelper :: "runtime \<Rightarrow> string option \<Rightarrow> contract io" where
  "getStableAndVariableTokensHelper rt addr = connect_or_db rt ''StableAndVariableTokensHelper'' Id_StableAndVariableTokensHelper addr"

definition getATokensAndRatesHelper :: "runtime \<Rightarrow> string option \<Rightarrow> contract io" where
  "getATokensAndRatesHelper rt addr = connect_or_db rt ''ATokensAndRatesHelper'' Id_ATokensAndRatesHelper addr"

definition getWETHGateway :: "runtime \<Rightarrow> string option \<Rightarrow> contract io" where
  "getWETHGateway rt addr = connect_or_db rt ''WETHGateway'' Id_WETHGateway addr"

definition getWETHMocked :: "runtime \<Rightarrow> string option \<Rightarrow> contract io" where
  "getWETHMocked rt addr = connect_or_db rt ''WETH9Mocked'' Id_WETHMocked addr"

definition getMockAToken :: "runtime \<Rightarrow> string option \<Rightarrow> contract io" where
  "getMockAToken rt addr = connect_or_db rt ''MockAToken'' Id_MockAToken addr"

definition getMockVariableDebtToken :: "runtime \<Rightarrow> string option \<Rightarrow> contract io" where
  "getMockVariableDebtToken rt addr = connect_or_db rt ''MockVariableDebtToken'' Id_MockVariableDebtToken addr"

definition getMockStableDebtToken :: "runtime \<Rightarrow> string option \<Rightarrow> contract io" where
  "getMockStableDebtToken rt addr = connect_or_db rt ''MockStableDebtToken'' Id_MockStableDebtToken addr"

definition getSelfdestructTransferMock :: "runtime \<Rightarrow> string option \<Rightarrow> contract io" where
  "getSelfdestructTransferMock rt addr = connect_or_db rt ''SelfdestructTransfer'' Id_SelfdestructTransferMock addr"

definition getProxy :: "runtime \<Rightarrow> string \<Rightarrow> contract io" where
  "getProxy rt addr = ret (connect_at rt ''InitializableAdminUpgradeabilityProxy'' addr)"

definition getLendingPoolImpl :: "runtime \<Rightarrow> string option \<Rightarrow> contract io" where
  "getLendingPoolImpl rt addr = connect_or_db rt ''LendingPool'' Id_LendingPoolImpl addr"

definition getLendingPoolConfiguratorImpl :: "runtime \<Rightarrow> string option \<Rightarrow> contract io" where
  "getLendingPoolConfiguratorImpl rt addr = connect_or_db rt ''LendingPoolConfigurator'' Id_LendingPoolConfiguratorImpl addr"

definition getLendingPoolCollateralManagerImpl :: "runtime \<Rightarrow> string option \<Rightarrow> contract io" where
  "getLendingPoolCollateralManagerImpl rt addr = connect_or_db rt ''LendingPoolCollateralManager'' Id_LendingPoolCollateralManagerImpl addr"

definition getWalletProvider :: "runtime \<Rightarrow> string option \<Rightarrow> contract io" where
  "getWalletProvider rt addr = connect_or_db rt ''WalletBalanceProvider'' Id_WalletBalanceProvider addr"

definition getLendingPoolCollateralManager :: "runtime \<Rightarrow> string option \<Rightarrow> contract io" where
  "getLendingPoolCollateralManager rt addr = connect_or_db rt ''LendingPoolCollateralManager'' Id_LendingPoolCollateralManager addr"

definition getAaveOracle :: "runtime \<Rightarrow> string option \<Rightarrow> contract io" where
  "getAaveOracle rt addr = connect_or_db rt ''AaveOracle'' Id_AaveOracle addr"

definition getMockUniswapRouter :: "runtime \<Rightarrow> string option \<Rightarrow> contract io" where
  "getMockUniswapRouter rt addr = connect_or_db rt ''MockUniswapV2Router02'' Id_MockUniswapV2Router02 addr"

definition getUniswapLiquiditySwapAdapter :: "runtime \<Rightarrow> string option \<Rightarrow> contract io" where
  "getUniswapLiquiditySwapAdapter rt addr = connect_or_db rt ''UniswapLiquiditySwapAdapter'' Id_UniswapLiquiditySwapAdapter addr"

definition getUniswapRepayAdapter :: "runtime \<Rightarrow> string option \<Rightarrow> contract io" where
  "getUniswapRepayAdapter rt addr = connect_or_db rt ''UniswapRepayAdapter'' Id_UniswapRepayAdapter addr"

definition getAutoRepay :: "runtime \<Rightarrow> string option \<Rightarrow> contract io" where
  "getAutoRepay rt addr = connect_or_db rt ''AutoRepay'' Id_AutoRepay addr"

definition getLeverageBorrowAdapter :: "runtime \<Rightarrow> string option \<Rightarrow> contract io" where
  "getLeverageBorrowAdapter rt addr = connect_or_db rt ''LeverageBorrowAdapter'' Id_LeverageBorrowAdapter addr"

definition getFlashLiquidationAdapter :: "runtime \<Rightarrow> string option \<Rightarrow> contract io" where
  "getFlashLiquidationAdapter rt addr = connect_or_db rt ''FlashLiquidationAdapter'' Id_FlashLiquidationAdapter addr"

definition getAddressById :: "runtime \<Rightarrow> string \<Rightarrow> string option io" where
  "getAddressById rt cid = bind (db_get rt (db_path rt cid)) (\<lambda>entry.
     ret (case entry of None \<Rightarrow> None
          | Some e \<Rightarrow> if entry_address e = '''' then None else Some (entry_address e)))"

section \<open>Mock tokens\<close>

definition getMockedToken :: "runtime \<Rightarrow> string \<Rightarrow> contract io" where
  "getMockedToken rt tokenSymbol =
     bind (db_address rt (to_upper tokenSymbol)) (\<lambda>a. getMintableERC20 rt (Some a))"

definition getMockedTokens :: "runtime \<Rightarrow> ICommonConfiguration \<Rightarrow> contract js_obj io" where
  "getMockedTokens rt config =
     fold_io (\<lambda>acc tokenSymbol. bind (getMockedToken rt tokenSymbol) (\<lambda>c. ret (obj_set acc tokenSymbol c)))
       [] (obj_keys (ReservesConfig config))"

definition getAllMockedTokens :: "runtime \<Rightarrow> contract js_obj io" where
  "getAllMockedTokens rt =
     fold_io (\<lambda>acc tokenSymbol. bind (getMockedToken rt tokenSymbol) (\<lambda>c. ret (obj_set acc tokenSymbol c)))
       [] (obj_keys TokenContractId)"

section \<open>Assets and their aggregators\<close>

definition getPairsTokenAggregator ::
    "string js_obj \<Rightarrow> string js_obj \<Rightarrow> js_error + string list \<times> string list" where
  "getPairsTokenAggregator allAssetsAddresses aggregatorsAddresses =
     (let assetsAddressesWithoutEth = obj_omit [''ETH'', ''USD'', ''WETH'', ''CELO''] allAssetsAddresses in
      case map_try (\<lambda>(tokenSymbol, tokenAddress).
             case entry_at aggregatorsAddresses tokenSymbol of
               Inl e \<Rightarrow> Inl e
             | Inr aggregatorAddress \<Rightarrow> Inr (tokenAddress, aggregatorAddress)) assetsAddressesWithoutEth of
        Inl e \<Rightarrow> Inl e
      | Inr pairs \<Rightarrow> Inr (map fst pairs, map snd pairs))"

section \<open>Behaviour of the getters\<close>

lemma quiet_db_address [quiet_intros]:
  "quiet sent (db_address rt cid)" "quiet deployed (db_address rt cid)" "quiet db_writes (db_address rt cid)"
  "quiet plugin_runs (db_address rt cid)"
  unfolding db_address_def
  by (auto intro!: quiet_intros plugin_runs.quiet_bind plugin_runs.quiet_ret plugin_runs.quiet_throw
      split: option.split)

lemma quiet_connect_or_db [quiet_intros]:
  "quiet sent (connect_or_db rt f cid addr)" "quiet deployed (connect_or_db rt f cid addr)"
  "quiet db_writes (connect_or_db rt f cid addr)"
  unfolding connect_or_db_def by (auto intro!: quiet_intros split: option.split)

lemmas getter_defs =
  getLendingPoolAddressesProvider_def getLendingPoolConfiguratorProxy_def getLendingPool_def
  getPriceOracle_def getAToken_def getStableDebtToken_def getVariableDebtToken_def
  getMintableERC20_def getIErc20Detailed_def getAaveProtocolDataProvider_def
  getInterestRateStrategy_def getMockFlashLoanReceiver_def getLendingRateOracle_def
  getLendingPoolAddressesProviderRegistry_def getReserveLogic_def getGenericLogic_def
  getStableAndVariableTokensHelper_def getATokensAndRatesHelper_def getWETHGateway_def
  getWETHMocked_def getMockAToken_def getMockVariableDebtToken_def getMockStableDebtToken_def
  getSelfdestructTransferMock_def getLendingPoolImpl_def getLendingPoolConfiguratorImpl_def
  getLendingPoolCollateralManagerImpl_def getWalletProvider_def
  getLendingPoolCollateralManager_def getAaveOracle_def getMockUniswapRouter_def
  getUniswapLiquiditySwapAdapter_def getUniswapRepayAdapter_def getAutoRepay_def
  getLeverageBorrowAdapter_def getFlashLiquidationAdapter_def

lemma quiet_getters [quiet_intros]:
  "quiet sent (getLendingPoolAddressesProvider rt addr)"
  "quiet deployed (getLendingPoolAddressesProvider rt addr)"
  "quiet db_writes (getLendingPoolAddressesProvider rt addr)"
  "quiet sent (getLendingPoolConfiguratorProxy rt addr)"
  "quiet deployed (getLendingPoolConfiguratorProxy rt addr)"
  "quiet db_writes (getLendingPoolConfiguratorProxy rt addr)"
  "quiet sent (getLendingPool rt addr)"
  "quiet deployed (getLendingPool rt addr)"
  "quiet db_writes (getLendingPool rt addr)"
  "quiet sent (getPriceOracle rt addr)"
  "quiet deployed (getPriceOracle rt addr)"
  "quiet db_writes (getPriceOracle rt addr)"
  "quiet sent (getAToken rt addr)"
  "quiet deployed (getAToken rt addr)"
  "quiet db_writes (getAToken rt addr)"
  "quiet sent (getStableDebtToken rt addr)"
  "quiet deployed (getStableDebtToken rt addr)"
  "quiet db_writes (getStableDebtToken rt addr)"
  "quiet sent (getVariableDebtToken rt addr)"
  "quiet deployed (getVariableDebtToken rt addr)"
  "quiet db_writes (getVariableDebtToken rt addr)"
  "quiet sent (getMintableERC20 rt addr)"
  "quiet deployed (getMintableERC20 rt addr)"
  "quiet db_writes (getMintableERC20 rt addr)"
  "quiet sent (getIErc20Detailed rt addr)"
  "quiet deployed (getIErc20Detailed rt addr)"
  "quiet db_writes (getIErc20Detailed rt addr)"
  "quiet sent (getAaveProtocolDataProvider rt addr)"
  "quiet deployed (getAaveProtocolDataProvider rt addr)"
  "quiet db_writes (getAaveProtocolDataProvider rt addr)"
  "quiet sent (getInterestRateStrategy rt addr)"
  "quiet deployed (getInterestRateStrategy rt addr)"
  "quiet db_writes (getInterestRateStrategy rt addr)"
  "quiet sent (getMockFlashLoanReceiver rt addr)"
  "quiet deployed (getMockFlashLoanReceiver rt addr)"
  "quiet db_writes (getMockFlashLoanReceiver rt addr)"
  "quiet sent (getLendingRateOracle rt addr)"
  "quiet deployed (getLendingRateOracle rt addr)"
  "quiet db_writes (getLendingRateOracle rt addr)"
  "quiet sent (getLendingPoolAddressesProviderRegistry rt addr)"
  "quiet deployed (getLendingPoolAddressesProviderRegistry rt addr)"
  "quiet db_writes (getLendingPoolAddressesProviderRegistry rt addr)"
  "quiet sent (getReserveLogic rt addr)"
  "quiet deployed (getReserveLogic rt addr)"
  "quiet db_writes (getReserveLogic rt addr)"
  "quiet sent (getGenericLogic rt addr)"
  "quiet deployed (getGenericLogic rt addr)"
  "quiet db_writes (getGenericLogic rt addr)"
  "quiet sent (getStableAndVariableTokensHelper rt addr)"
  "quiet deployed (getStableAndVariableTokensHelper rt addr)"
  "quiet db_writes (getStableAndVariableTokensHelper rt addr)"
  "quiet sent (getATokensAndRatesHelper rt addr)"
  "quiet deployed (getATokensAndRatesHelper rt addr)"
  "quiet db_writes (getATokensAndRatesHelper rt addr)"
  "quiet sent (getWETHGateway rt addr)"
  "quiet deployed (getWETHGateway rt addr)"
  "quiet db_writes (getWETHGateway rt addr)"
  "quiet sent (getWETHMocked rt addr)"
  "quiet deployed (getWETHMocked rt addr)"
  "quiet db_writes (getWETHMocked rt addr)"
  "quiet sent (getMockAToken rt addr)"
  "quiet deployed (getMockAToken rt addr)"
  "quiet db_writes (getMockAToken rt addr)"
  "quiet sent (getMockVariableDebtToken rt addr)"
  "quiet deployed (getMockVariableDebtToken rt addr)"
  "quiet db_writes (getMockVariableDebtToken rt addr)"
  "quiet sent (getMockStableDebtToken rt addr)"
  "quiet deployed (getMockStableDebtToken rt addr)"
  "quiet db_writes (getMockStableDebtToken rt addr)"
  "quiet sent (getSelfdestructTransferMock rt addr)"
  "quiet deployed (getSelfdestructTransferMock rt addr)"
  "quiet db_writes (getSelfdestructTransferMock rt addr)"
  "quiet sent (getLendingPoolImpl rt addr)"
  "quiet deployed (getLendingPoolImpl rt addr)"
  "quiet db_writes (getLendingPoolImpl rt addr)"
  "quiet sent (getLendingPoolConfiguratorImpl rt addr)"
  "quiet deployed (getLendingPoolConfiguratorImpl rt addr)"
  "quiet db_writes (getLendingPoolConfiguratorImpl rt addr)"
  "quiet sent (getLendingPoolCollateralManagerImpl rt addr)"
  "quiet deployed (getLendingPoolCollateralManagerImpl rt addr)"
  "quiet db_writes (getLendingPoolCollateralManagerImpl rt addr)"
  "quiet sent (getWalletProvider rt addr)"
  "quiet deployed (getWalletProvider rt addr)"
  "quiet db_writes (getWalletProvider rt addr)"
  "quiet sent (getLendingPoolCollateralManager rt addr)"
  "quiet deployed (getLendingPoolCollateralManager rt addr)"
  "quiet db_writes (getLendingPoolCollateralManager rt addr)"
  "quiet sent (getAaveOracle rt addr)"
  "quiet deployed (getAaveOracle rt addr)"
  "quiet db_writes (getAaveOracle rt addr)"
  "quiet sent (getMockUniswapRouter rt addr)"
  "quiet deployed (getMockUniswapRouter rt addr)"
  "quiet db_writes (getMockUniswapRouter rt addr)"
  "quiet sent (getUniswapLiquiditySwapAdapter rt addr)"
  "quiet deployed (getUniswapLiquiditySwapAdapter rt addr)"
  "quiet db_writes (getUniswapLiquiditySwapAdapter rt addr)"
  "quiet sent (getUniswapRepayAdapter rt addr)"
  "quiet deployed (getUniswapRepayAdapter rt addr)"
  "quiet db_writes (getUniswapRepayAdapter rt addr)"
  "quiet sent (getAutoRepay rt addr)"
  "quiet deployed (getAutoRepay rt addr)"
  "quiet db_writes (getAutoRepay rt addr)"
  "quiet sent (getLeverageBorrowAdapter rt addr)"
  "quiet deployed (getLeverageBorrowAdapter rt addr)"
  "quiet db_writes (getLeverageBorrowAdapter rt addr)"
  "quiet sent (getFlashLiquidationAdapter rt addr)"
  "quiet deployed (getFlashLiquidationAdapter rt addr)"
  "quiet db_writes (getFlashLiquidationAdapter rt addr)"
  by (simp_all only: getter_defs quiet_connect_or_db)

lemma connect_or_db_given [simp]: "a \<noteq> '''' \<Longrightarrow> connect_or_db rt f cid (Some a) = ret (connect_at rt f a)"
  by (simp add: connect_or_db_def)

lemma connect_or_db_falsy: "\<not> truthy addr \<Longrightarrow>
    connect_or_db rt f cid addr = bind (db_address rt (contract_id cid)) (\<lambda>d. ret (connect_at rt f d))"
  by (cases addr) (auto simp: connect_or_db_def)

lemma connect_at_simps [simp]:
  "abi (connect_at rt f a) = f" "address (connect_at rt f a) = a"
  "signer (connect_at rt f a) = first_signer rt" "deployer (connect_at rt f a) = None"
  by (simp_all add: connect_at_def)

lemma connect_or_db_result:
  assumes "connect_or_db rt f cid addr h = (Inr c, h')"
  shows "abi c = f" and "signer c = first_signer rt" and "truthy addr \<Longrightarrow> Some (address c) = addr"
  using assms by (auto simp: connect_or_db_def ok_simps split: option.splits if_splits)

lemma getAllMockedTokens_keys:
  assumes "getAllMockedTokens rt h = (Inr ts, h')"
  shows "obj_keys ts = obj_keys TokenContractId"
proof -
  have dist: "distinct (obj_keys TokenContractId)" by (simp add: TokenContractId_def)
  have "fold_io (\<lambda>acc s. bind (getMockedToken rt s) (\<lambda>c. ret (obj_set acc s c))) acc ks h = (Inr ts, h')
    \<Longrightarrow> distinct (obj_keys acc @ ks) \<Longrightarrow> obj_keys ts = obj_keys acc @ ks" for ks acc h
  proof (induction ks arbitrary: acc h)
    case Nil
    then show ?case by (simp add: ret_ok)
  next
    case (Cons s ks)
    then obtain c h1 where "fold_io (\<lambda>acc s. bind (getMockedToken rt s) (\<lambda>c. ret (obj_set acc s c)))
        (obj_set acc s c) ks h1 = (Inr ts, h')"
      by (auto simp: ok_simps bind_assoc)
    then show ?case using Cons.IH [of "obj_set acc s c" h1] Cons.prems(2)
      by (simp add: obj_keys_set)
  qed
  then show ?thesis using assms dist unfolding getAllMockedTokens_def by fastforce
qed

lemma pair_try_ok:
  assumes "\<And>s. s \<in> set (obj_keys ob) \<Longrightarrow> obj_get aggs s = Some (g s)"
  shows "map_try (\<lambda>(s, a). case entry_at aggs s of Inl e \<Rightarrow> Inl e | Inr x \<Rightarrow> Inr (a, x)) ob
     = Inr (map (\<lambda>(s, a). (a, g s)) ob)"
  by (rule map_try_total) (use assms in \<open>force simp: entry_at_eq obj_keys_def\<close>)

end
