(* ===== verification/ContractsHelpers.thy ===== *)
theory ContractsHelpers
  imports Getters
begin

text \<open>
  \<open>helpers/contracts-helpers.ts\<close>: the JSON registry of deployed contracts, deployment with
  registration and verification, library linking of bytecode, parameters per network and pool,
  unit conversion, and the parameter encodings of the adapters. ethers' \<open>parseUnits\<close> and ABI coder
  and eth-sig-util's \<open>signTypedData_v4\<close> are parameters.
\<close>

section \<open>The registry\<close>

text \<open>\<open>contractInstance.deployTransaction\<close>: only a handle that a factory deployed has one.\<close>

definition deploy_transaction :: "runtime \<Rightarrow> contract \<Rightarrow> js_error + string" where
  "deploy_transaction rt c = (case deployer c of
      None \<Rightarrow> Inl (JsTypeError ''deployTransaction is undefined'') | Some d \<Rightarrow> Inr (deploy_tx rt c))"

definition registerContractInJsonDb :: "runtime \<Rightarrow> string \<Rightarrow> contract \<Rightarrow> unit io" where
  "registerContractInJsonDb rt contractId contractInstance =
     seq (lift_sum (deploy_transaction rt contractInstance))
       (db_set rt (db_path rt contractId)
         \<lparr> entry_address = address contractInstance, entry_deployer = deployer contractInstance \<rparr>)"

definition insertContractAddressInDb :: "runtime \<Rightarrow> eContractid \<Rightarrow> string \<Rightarrow> unit io" where
  "insertContractAddressInDb rt cid addr =
     db_set rt (db_path rt (contract_id cid)) \<lparr> entry_address = addr, entry_deployer = None \<rparr>"

definition rawInsertContractAddressInDb :: "runtime \<Rightarrow> string \<Rightarrow> string \<Rightarrow> unit io" where
  "rawInsertContractAddressInDb rt cid addr =
     db_set rt (db_path rt cid) \<lparr> entry_address = addr, entry_deployer = None \<rparr>"

definition getEthersSignersAddresses :: "runtime \<Rightarrow> string list io" where
  "getEthersSignersAddresses rt = ret (signer_addresses rt)"

definition getCurrentBlock :: "runtime \<Rightarrow> js_val io" where
  "getCurrentBlock rt = rpc_send rt ''getBlockNumber'' []"

section \<open>Deployment\<close>

definition wait_deployed :: "runtime \<Rightarrow> contract \<Rightarrow> unit io" where
  "wait_deployed rt c = bind (lift_sum (deploy_transaction rt c)) (\<lambda>tx. waitForTx rt tx)"

definition deployContract :: "runtime \<Rightarrow> string \<Rightarrow> js_val list \<Rightarrow> contract io" where
  "deployContract rt contractName args =
     bind (deploy_contract rt contractName (first_signer rt) args) (\<lambda>contract.
     seq (wait_deployed rt contract)
    (seq (registerContractInJsonDb rt contractName contract)
    (ret contract)))"

definition withSaveAndVerify ::
    "runtime \<Rightarrow> contract \<Rightarrow> string \<Rightarrow> js_val list \<Rightarrow> bool \<Rightarrow> contract io" where
  "withSaveAndVerify rt instnce cid args verify =
     seq (wait_deployed rt instnce)
    (seq (registerContractInJsonDb rt cid instnce)
    (seq (io_when (usingTenderly rt)
           (run_plugin_task rt ''tenderlyRPC.verify''
             (VObj [(''name'', VStr cid), (''address'', VStr (address instnce))])))
    (seq (io_when verify (verifyContract rt (address instnce) args None))
    (ret instnce))))"

definition getContract :: "runtime \<Rightarrow> string \<Rightarrow> string \<Rightarrow> contract io" where
  "getContract rt contractName addr = ret (connect_at rt contractName addr)"

section \<open>Linking\<close>

text \<open>\<open>s.substr(a, n)\<close> and \<open>s.substr(a)\<close> for non-negative arguments.\<close>

definition substr :: "string \<Rightarrow> nat \<Rightarrow> nat \<Rightarrow> string" where
  "substr s a n = take n (drop a s)"

definition substr_from :: "string \<Rightarrow> nat \<Rightarrow> string" where
  "substr_from s a = drop a s"

record fixup =
  fix_start :: nat
  fix_length :: nat

record artifact =
  bytecode :: string
  linkReferences :: "fixup list js_obj js_obj"

definition apply_fixup :: "string \<Rightarrow> string \<Rightarrow> fixup \<Rightarrow> string" where
  "apply_fixup addr code fx =
     substr code 0 (2 + fix_start fx * 2) @ substr_from addr 2
       @ substr_from code (2 + (fix_start fx + fix_length fx) * 2)"

definition link_library :: "string js_obj \<Rightarrow> string \<Rightarrow> string \<times> fixup list \<Rightarrow> string" where
  "link_library libraries code ref =
     (case obj_get libraries (fst ref) of
        None \<Rightarrow> code
      | Some addr \<Rightarrow> foldl (apply_fixup addr) code (snd ref))"

definition linkBytecode :: "artifact \<Rightarrow> string js_obj \<Rightarrow> string" where
  "linkBytecode art libraries =
     foldl (\<lambda>code fileReferences. foldl (link_library libraries) code (snd fileReferences))
       (bytecode art) (linkReferences art)"

section \<open>Parameters per network and pool\<close>

text \<open>\<open>None\<close> is the result \<open>undefined\<close>: a key the object does not have, or an unknown network.\<close>

definition getParamPerNetwork :: "runtime \<Rightarrow> 'v iParamsPerNetwork \<Rightarrow> string \<Rightarrow> 'v option" where
  "getParamPerNetwork rt param network =
     (let main = obj_get param (eth_network Eth_main);
          ropsten = obj_get param (eth_network Eth_ropsten);
          kovan = obj_get param (eth_network Eth_kovan);
          coverage = obj_get param (eth_network Eth_coverage);
          buidlerevm = obj_get param (eth_network Eth_buidlerevm);
          tenderlyMain = obj_get param (eth_network Eth_tenderlyMain);
          matic = obj_get param (polygon_network Polygon_matic);
          mumbai = obj_get param (polygon_network Polygon_mumbai);
          xdai = obj_get param (xdai_network XDai_xdai);
          celo = obj_get param (celo_network Celo_celo);
          alfajores = obj_get param (celo_network Celo_alfajores)
      in if env_is rt ''MAINNET_FORK'' ''true'' then main
         else if network = celo_network Celo_celo then celo
         else if network = celo_network Celo_alfajores then alfajores
         else if network = eth_network Eth_coverage then coverage
         else if network = eth_network Eth_buidlerevm then buidlerevm
         else if network = eth_network Eth_hardhat then buidlerevm
         else if network = eth_network Eth_kovan then kovan
         else if network = eth_network Eth_ropsten then ropsten
         else if network = eth_network Eth_main then main
         else if network = eth_network Eth_tenderlyMain then tenderlyMain
         else if network = polygon_network Polygon_matic then matic
         else if network = polygon_network Polygon_mumbai then mumbai
         else if network = xdai_network XDai_xdai then xdai
         else None)"

definition getParamPerPool :: "'v iParamsPerPool \<Rightarrow> string \<Rightarrow> 'v" where
  "getParamPerPool params pool =
     (if pool = pool_str Pool_proto then param_proto params
      else if pool = pool_str Pool_amm then param_amm params
      else if pool = pool_str Pool_matic then param_matic params
      else if pool = pool_str Pool_moola then param_moola params
      else param_proto params)"

section \<open>Units and encodings\<close>

text \<open>The result of the view call \<open>decimals()\<close>, a \<open>uint8\<close> that ethers returns as a number.\<close>

definition token_decimals :: "runtime \<Rightarrow> contract \<Rightarrow> nat io" where
  "token_decimals rt token = bind (call_view rt token ''decimals'' []) (\<lambda>v.
     case v of VNum d \<Rightarrow> ret (nat d) | _ \<Rightarrow> throw (JsTypeError ''decimals''))"

definition convertToCurrencyDecimals ::
    "runtime \<Rightarrow> (string \<Rightarrow> string \<Rightarrow> js_error + int) \<Rightarrow> string \<Rightarrow> string \<Rightarrow> int io" where
  "convertToCurrencyDecimals rt parseUnits tokenAddress amount =
     bind (getIErc20Detailed rt (Some tokenAddress)) (\<lambda>token.
     bind (token_decimals rt token) (\<lambda>d.
     lift_sum (parseUnits amount (dec_of_nat d))))"

definition convertToCurrencyUnits :: "runtime \<Rightarrow> 'b bn_api \<Rightarrow> string \<Rightarrow> string \<Rightarrow> string io" where
  "convertToCurrencyUnits rt B tokenAddress amount =
     bind (getIErc20Detailed rt (Some tokenAddress)) (\<lambda>token.
     bind (token_decimals rt token) (\<lambda>d.
     let currencyUnit = bn_pow B (bn_num B 10 0) d;
         amountInCurrencyUnits = bn_div B (bn_str B amount) currencyUnit
     in ret (bn_toFixed B amountInCurrencyUnits)))"

definition typed_field :: "string \<Rightarrow> string \<Rightarrow> js_val" where
  "typed_field n t = VObj [(''name'', VStr n), (''type'', VStr t)]"

definition buildPermitParams ::
    "int \<Rightarrow> string \<Rightarrow> string \<Rightarrow> string \<Rightarrow> string \<Rightarrow> string \<Rightarrow> int \<Rightarrow> string \<Rightarrow> string \<Rightarrow> js_val" where
  "buildPermitParams chainId token revision tokenName owner spender nonce deadline v = VObj
     [(''types'', VObj
        [(''EIP712Domain'', VList
           [typed_field ''name'' ''string'', typed_field ''version'' ''string'',
            typed_field ''chainId'' ''uint256'', typed_field ''verifyingContract'' ''address'']),
         (''Permit'', VList
           [typed_field ''owner'' ''address'', typed_field ''spender'' ''address'',
            typed_field ''value'' ''uint256'', typed_field ''nonce'' ''uint256'',
            typed_field ''deadline'' ''uint256''])]),
      (''primaryType'', VStr ''Permit''),
      (''domain'', VObj
        [(''name'', VStr tokenName), (''version'', VStr revision), (''chainId'', VNum chainId),
         (''verifyingContract'', VStr token)]),
      (''message'', VObj
        [(''owner'', VStr owner), (''spender'', VStr spender), (''value'', VStr v),
         (''nonce'', VNum nonce), (''deadline'', VStr deadline)])]"

text \<open>\<open>privateKey.substring(2, 66)\<close> is the key without \<open>0x\<close>.\<close>

definition getSignatureFromTypedData :: "(string \<Rightarrow> js_val \<Rightarrow> 's) \<Rightarrow> string \<Rightarrow> js_val \<Rightarrow> 's" where
  "getSignatureFromTypedData sign privateKey typedData = sign (substr privateKey 2 64) typedData"

definition buildLiquiditySwapParams ::
    "(string list \<Rightarrow> js_val list \<Rightarrow> 'e) \<Rightarrow> js_val \<Rightarrow> js_val \<Rightarrow> js_val \<Rightarrow> js_val \<Rightarrow> js_val \<Rightarrow> js_val \<Rightarrow> js_val
      \<Rightarrow> js_val \<Rightarrow> js_val \<Rightarrow> js_val \<Rightarrow> js_val \<Rightarrow> 'e" where
  "buildLiquiditySwapParams encode assetToSwapToList minAmountsToReceive swapAllBalances permitAmounts
     deadlines v r s useEthPath useATokenAsFrom useATokenAsTo =
     encode [''address[]'', ''uint256[]'', ''bool[]'', ''uint256[]'', ''uint256[]'', ''uint8[]'',
             ''bytes32[]'', ''bytes32[]'', ''bool[]'', ''bool[]'', ''bool[]'']
       [assetToSwapToList, minAmountsToReceive, swapAllBalances, permitAmounts, deadlines, v, r, s,
        useEthPath, useATokenAsFrom, useATokenAsTo]"

definition buildRepayAdapterParams ::
    "(string list \<Rightarrow> js_val list \<Rightarrow> 'e) \<Rightarrow> js_val \<Rightarrow> js_val \<Rightarrow> js_val \<Rightarrow> js_val \<Rightarrow> js_val \<Rightarrow> js_val \<Rightarrow> js_val
      \<Rightarrow> js_val \<Rightarrow> js_val \<Rightarrow> js_val \<Rightarrow> js_val \<Rightarrow> 'e" where
  "buildRepayAdapterParams encode collateralAsset collateralAmount rateMode permitAmount deadline v r s
     useEthPath useATokenAsFrom useATokenAsTo =
     encode [''address'', ''uint256'', ''uint256'', ''uint256'', ''uint256'', ''uint8'', ''bytes32'',
             ''bytes32'', ''bool'', ''bool'', ''bool'']
       [collateralAsset, collateralAmount, rateMode, permitAmount, deadline, v, r, s,
        useEthPath, useATokenAsFrom, useATokenAsTo]"

definition buildLeverageBorrowAdapterParams :: "(string list \<Rightarrow> js_val list \<Rightarrow> 'e) \<Rightarrow> js_val \<Rightarrow> 'e" where
  "buildLeverageBorrowAdapterParams encode leverageBorrowAdapterParamsArr =
     encode [''tuple(bool useATokenAsFrom, bool useATokenAsTo, bool useEthPath, address toAsset, uint256 minAmountOut)[]'']
       [leverageBorrowAdapterParamsArr]"

definition buildFlashLiquidationAdapterParams ::
    "(string list \<Rightarrow> js_val list \<Rightarrow> 'e) \<Rightarrow> js_val \<Rightarrow> js_val \<Rightarrow> js_val \<Rightarrow> js_val \<Rightarrow> js_val \<Rightarrow> 'e" where
  "buildFlashLiquidationAdapterParams encode collateralAsset debtAsset user debtToCover useEthPath =
     encode [''address'', ''address'', ''address'', ''uint256'', ''bool'']
       [collateralAsset, debtAsset, user, debtToCover, useEthPath]"

section \<open>What deployment leaves behind\<close>

lemma quiet_registry [quiet_intros]:
  "quiet sent (registerContractInJsonDb rt cid c)" "quiet deployed (registerContractInJsonDb rt cid c)"
  "quiet sent (insertContractAddressInDb rt id0 a)" "quiet deployed (insertContractAddressInDb rt id0 a)"
  "quiet sent (rawInsertContractAddressInDb rt cid a)"
  "quiet deployed (rawInsertContractAddressInDb rt cid a)"
  unfolding registerContractInJsonDb_def insertContractAddressInDb_def rawInsertContractAddressInDb_def
  by (intro quiet_intros)+

lemma quiet_wait_deployed [quiet_intros]:
  "quiet sent (wait_deployed rt c)" "quiet deployed (wait_deployed rt c)"
  "quiet db_writes (wait_deployed rt c)"
  unfolding wait_deployed_def waitForTx_def by (intro quiet_intros)+

lemma quiet_withSaveAndVerify [quiet_intros]:
  "quiet sent (withSaveAndVerify rt c cid args v)" "quiet deployed (withSaveAndVerify rt c cid args v)"
  unfolding withSaveAndVerify_def by (intro quiet_intros)+

abbreviation saved_entry :: "runtime \<Rightarrow> string \<Rightarrow> contract \<Rightarrow> string \<times> db_entry" where
  "saved_entry rt cid c \<equiv> (db_path rt cid, \<lparr> entry_address = address c, entry_deployer = deployer c \<rparr>)"

lemma emits_register [emits_intros]:
  "emits db_writes (registerContractInJsonDb rt cid c) (\<lambda>_. [saved_entry rt cid c])"
  unfolding registerContractInJsonDb_def
  using db_writes.emits_seq [OF db_writes.emits_quiet [OF db_writes.quiet_lift] emits_db_set] by simp

lemma withSaveAndVerify_result:
  "withSaveAndVerify rt c cid args v h = (Inr c', h') \<Longrightarrow> c' = c \<and> deployer c \<noteq> None"
  by (auto simp: withSaveAndVerify_def wait_deployed_def deploy_transaction_def ok_simps
      split: option.splits)

lemma emits_withSaveAndVerify [emits_intros]:
  "emits db_writes (withSaveAndVerify rt c cid args v) (\<lambda>_. [saved_entry rt cid c])"
proof -
  have tail: "quiet db_writes (seq (io_when (usingTenderly rt) m) (seq (io_when v (verifyContract rt a args None)) (ret c)))"
    if "quiet db_writes m" for m a using that by (intro quiet_intros)
  have "emits db_writes (withSaveAndVerify rt c cid args v) (\<lambda>_. [] @ [saved_entry rt cid c] @ [])"
    unfolding withSaveAndVerify_def
    by (rule db_writes.emits_seq [OF db_writes.emits_quiet [OF quiet_wait_deployed(3)]
          db_writes.emits_seq [OF emits_register db_writes.emits_quiet]], rule tail, intro quiet_intros)
  then show ?thesis by simp
qed

section \<open>Linking keeps the layout\<close>

definition fixup_fits :: "string \<Rightarrow> string \<Rightarrow> fixup \<Rightarrow> bool" where
  "fixup_fits addr code fx \<longleftrightarrow> length addr = 2 + 2 * fix_length fx
     \<and> 2 + (fix_start fx + fix_length fx) * 2 \<le> length code"

lemma apply_fixup_length: "fixup_fits addr code fx \<Longrightarrow> length (apply_fixup addr code fx) = length code"
  by (auto simp: apply_fixup_def fixup_fits_def substr_def substr_from_def)

lemma apply_fixup_at:
  "fixup_fits addr code fx \<Longrightarrow>
    take (2 * fix_length fx) (drop (2 + fix_start fx * 2) (apply_fixup addr code fx)) = drop 2 addr"
  by (auto simp: apply_fixup_def fixup_fits_def substr_def substr_from_def)

lemma apply_fixup_nth_other:
  assumes "fixup_fits addr code fx"
    and "i < 2 + fix_start fx * 2 \<or> 2 + (fix_start fx + fix_length fx) * 2 \<le> i" and "i < length code"
  shows "apply_fixup addr code fx ! i = code ! i"
proof -
  have idx: "2 \<le> i \<Longrightarrow> Suc (Suc (i - 2)) = i" by simp
  show ?thesis using assms
    by (auto simp: apply_fixup_def fixup_fits_def substr_def substr_from_def nth_append min_def idx)
qed

lemma foldl_apply_fixup_length:
  "(\<And>fx. fx \<in> set fxs \<Longrightarrow> fixup_fits addr code fx) \<Longrightarrow> length (foldl (apply_fixup addr) code fxs) = length code"
proof (induction fxs arbitrary: code)
  case Nil
  then show ?case by simp
next
  case (Cons fx fxs)
  have len: "length (apply_fixup addr code fx) = length code"
    using Cons.prems by (simp add: apply_fixup_length)
  have "length (foldl (apply_fixup addr) (apply_fixup addr code fx) fxs) = length (apply_fixup addr code fx)"
    by (rule Cons.IH) (use Cons.prems len in \<open>simp add: fixup_fits_def\<close>)
  then show ?case using len by simp
qed

end
