(* ===== verification/MarketConfigs.thy ===== *)
theory MarketConfigs
  imports MoolaMarket AaveMarket AmmMarket MaticMarket XDaiMarket ContractsHelpers
begin

text \<open>
  The selection of a market's configuration, from \<open>helpers/configuration.ts\<close>: by the name a task
  receives (\<open>loadPoolConfig\<close>) and by pool (\<open>getReservesConfigByPool\<close>).
\<close>

datatype ConfigNames = Config_Commons | Config_Aave | Config_Matic | Config_Amm | Config_Moola

primrec config_name :: "ConfigNames \<Rightarrow> string" where
  "config_name Config_Commons = ''Commons''"
| "config_name Config_Aave = ''Aave''"
| "config_name Config_Matic = ''Matic''"
| "config_name Config_Amm = ''Amm''"
| "config_name Config_Moola = ''Moola''"

definition loadPoolConfig :: "'b bn_api \<Rightarrow> string \<Rightarrow> js_error + ICommonConfiguration" where
  "loadPoolConfig B configName =
     (if configName = config_name Config_Aave then Inr (AaveConfig B)
      else if configName = config_name Config_Matic then Inr (MaticConfig B)
      else if configName = config_name Config_Amm then Inr (AmmConfig B)
      else if configName = config_name Config_Commons then Inr (aave_CommonsConfig B)
      else if configName = config_name Config_Moola then Inr (MoolaConfig B)
      else Inl (JsError ''Unsupported pool configuration: Commons,Aave,Matic,Amm,Moola''))"

definition getReservesConfigByPool :: "'b bn_api \<Rightarrow> string \<Rightarrow> IReserveParams js_obj" where
  "getReservesConfigByPool B pool = getParamPerPool
     \<lparr> param_proto = ReservesConfig (AaveConfig B), param_matic = ReservesConfig (MaticConfig B),
       param_amm = ReservesConfig (AmmConfig B), param_moola = ReservesConfig (MoolaConfig B) \<rparr> pool"

section \<open>The parts of a loaded configuration\<close>

text \<open>\<open>MoolaConfig\<close> and the others override four fields of their common part and keep the rest.\<close>

lemmas market_defs = MoolaConfig_def AaveConfig_def AmmConfig_def MaticConfig_def XDAIConfig_def

lemma ReservesConfig_simps [simp]:
  "ReservesConfig (MoolaConfig B) = moola_ReservesConfig B"
  "ReservesConfig (AaveConfig B) = aave_ReservesConfig B"
  "ReservesConfig (AmmConfig B) = amm_ReservesConfig B"
  "ReservesConfig (MaticConfig B) = matic_ReservesConfig B"
  "ReservesConfig (XDAIConfig B) = xdai_ReservesConfig B"
  by (simp_all add: market_defs)

lemma ReserveAssets_simps [simp]:
  "ReserveAssets (MoolaConfig B) = moola_MarketReserveAssets"
  "ReserveAssets (AaveConfig B) = aave_MarketReserveAssets"
  "ReserveAssets (AmmConfig B) = amm_MarketReserveAssets"
  "ReserveAssets (MaticConfig B) = matic_MarketReserveAssets"
  "ReserveAssets (XDAIConfig B) = xdai_MarketReserveAssets"
  by (simp_all add: market_defs)

lemmas market_strategies =
  moola_ReservesConfig_def aave_ReservesConfig_def amm_ReservesConfig_def matic_ReservesConfig_def
  xdai_ReservesConfig_def

section \<open>The symbols and networks of the types\<close>

text \<open>
  The asset symbols and the network keys that \<open>types.ts\<close> declares for objects indexed by them, and that the
  objects of the markets keep to them.
\<close>

section \<open>Symbols\<close>

definition iAssetBase :: "string list" where
  "iAssetBase =
    [''CUSD'', ''CEUR'', ''CREAL'', ''CELO'', ''MOO'', ''UBE'', ''WETH'', ''DAI'', ''TUSD'',
     ''USDC'', ''USDT'', ''SUSD'', ''AAVE'', ''BAT'', ''MKR'', ''LINK'', ''KNC'', ''WBTC'',
     ''MANA'', ''ZRX'', ''SNX'', ''BUSD'', ''YFI'', ''UNI'', ''USD'', ''REN'', ''ENJ'',
     ''UniDAIWETH'', ''UniWBTCWETH'', ''UniAAVEWETH'', ''UniBATWETH'', ''UniDAIUSDC'', ''UniCRVWETH'', ''UniLINKWETH'', ''UniMKRWETH'', ''UniRENWETH'',
     ''UniSNXWETH'', ''UniUNIWETH'', ''UniUSDCWETH'', ''UniWBTCUSDC'', ''UniYFIWETH'', ''BptWBTCWETH'', ''BptBALWETH'', ''WMATIC'', ''STAKE'',
     ''xSUSHI'']"

text \<open>\<open>Omit<iAssetBase, 'ETH'>\<close> omits nothing.\<close>

definition iAssetsWithoutETH :: "string list" where
  "iAssetsWithoutETH = filter (\<lambda>s. s \<noteq> ''ETH'') iAssetBase"

definition iAssetsWithoutUSD :: "string list" where
  "iAssetsWithoutUSD = filter (\<lambda>s. s \<noteq> ''USD'') iAssetBase"

lemma iAssetsWithoutETH_eq: "iAssetsWithoutETH = iAssetBase"
  by (simp add: iAssetsWithoutETH_def iAssetBase_def)

section \<open>Networks\<close>

definition iEthereumParamsPerNetwork :: "string list" where
  "iEthereumParamsPerNetwork = map eth_network [Eth_coverage, Eth_buidlerevm, Eth_kovan, Eth_ropsten, Eth_main,
     Eth_hardhat, Eth_tenderlyMain]"

definition iPolygonParamsPerNetwork :: "string list" where
  "iPolygonParamsPerNetwork = map polygon_network [Polygon_matic, Polygon_mumbai]"

definition iXDaiParamsPerNetwork :: "string list" where
  "iXDaiParamsPerNetwork = map xdai_network [XDai_xdai]"

definition iCeloParamsPerNetwork :: "string list" where
  "iCeloParamsPerNetwork = map celo_network [Celo_celo, Celo_alfajores]"

definition iParamsPerNetworkAll :: "string list" where
  "iParamsPerNetworkAll = iEthereumParamsPerNetwork @ iPolygonParamsPerNetwork @ iXDaiParamsPerNetwork
     @ iCeloParamsPerNetwork"

lemmas network_keys = iParamsPerNetworkAll_def iEthereumParamsPerNetwork_def iPolygonParamsPerNetwork_def
  iXDaiParamsPerNetwork_def iCeloParamsPerNetwork_def

section \<open>What is declared\<close>

text \<open>
  Every pool picks its symbols from \<open>iAssetsWithoutUSD\<close>, and the network keys are those of the networks, each
  in one of the four interfaces.
\<close>

lemma pool_assets_declared:
  "\<forall>assets \<in> {iAavePoolAssets, iLpPoolAssets, iMaticPoolAssets, iXDAIPoolAssets, iMoolaPoolAssets}.
    set assets \<subseteq> set iAssetsWithoutUSD \<and> distinct assets"
  by (simp add: iAavePoolAssets_def iLpPoolAssets_def iMaticPoolAssets_def iXDAIPoolAssets_def iMoolaPoolAssets_def
      iAssetsWithoutUSD_def iAssetBase_def)

lemma network_keys_complete:
  "set iParamsPerNetworkAll = network_str ` set all_networks \<and> distinct iParamsPerNetworkAll"
  by (auto simp: network_keys all_networks_def)

end
