(* ===== verification/Deployments.thy ===== *)
theory Deployments
  imports MarketConfigs
begin

text \<open>
  \<open>helpers/contracts-deployments.ts\<close>: one definition per deployment function. Most of them deploy a
  contract with the first signer and register it under its contract id (\<open>deploy_and_save\<close>); the
  others also link libraries, register an implementation, initialize the new token or deploy the
  mock tokens. The artifacts that hardhat and buidler read are a parameter.
\<close>

section \<open>The common shape\<close>

text \<open>
  \<open>withSaveAndVerify(await new XFactory(await getFirstSigner()).deploy(...args), id, args, verify)\<close>
\<close>

definition deploy_and_save ::
    "runtime \<Rightarrow> string \<Rightarrow> js_val list \<Rightarrow> eContractid \<Rightarrow> bool \<Rightarrow> contract io" where
  "deploy_and_save rt factory args cid verify =
     bind (deploy_contract rt factory (first_signer rt) args) (\<lambda>c.
     withSaveAndVerify rt c (contract_id cid) args verify)"

section \<open>Deployments of that shape\<close>

definition deployLendingPoolAddressesProvider :: "runtime \<Rightarrow> string \<Rightarrow> bool \<Rightarrow> contract io" where
  "deployLendingPoolAddressesProvider rt marketId verify = deploy_and_save rt ''LendingPoolAddressesProvider'' [VStr marketId] Id_LendingPoolAddressesProvider verify"

definition deployLendingPoolAddressesProviderRegistry :: "runtime \<Rightarrow> bool \<Rightarrow> contract io" where
  "deployLendingPoolAddressesProviderRegistry rt verify = deploy_and_save rt ''LendingPoolAddressesProviderRegistry'' [] Id_LendingPoolAddressesProviderRegistry verify"

definition deployReserveLogicLibrary :: "runtime \<Rightarrow> bool \<Rightarrow> contract io" where
  "deployReserveLogicLibrary rt verify = deploy_and_save rt ''ReserveLogic'' [] Id_ReserveLogic verify"

definition deployPriceOracle :: "runtime \<Rightarrow> bool \<Rightarrow> contract io" where
  "deployPriceOracle rt verify = deploy_and_save rt ''PriceOracle'' [] Id_PriceOracle verify"

definition deployLendingRateOracle :: "runtime \<Rightarrow> bool \<Rightarrow> contract io" where
  "deployLendingRateOracle rt verify = deploy_and_save rt ''LendingRateOracle'' [] Id_LendingRateOracle verify"

definition deployMockAggregator :: "runtime \<Rightarrow> string \<Rightarrow> bool \<Rightarrow> contract io" where
  "deployMockAggregator rt price verify = deploy_and_save rt ''MockAggregator'' [VStr price] Id_MockAggregator verify"

definition deployInitializableAdminUpgradeabilityProxy :: "runtime \<Rightarrow> bool \<Rightarrow> contract io" where
  "deployInitializableAdminUpgradeabilityProxy rt verify = deploy_and_save rt ''InitializableAdminUpgradeabilityProxy'' [] Id_InitializableAdminUpgradeabilityProxy verify"

definition deployMockFlashLoanReceiver :: "runtime \<Rightarrow> string \<Rightarrow> bool \<Rightarrow> contract io" where
  "deployMockFlashLoanReceiver rt addressesProvider verify = deploy_and_save rt ''MockFlashLoanReceiver'' [VStr addressesProvider] Id_MockFlashLoanReceiver verify"

definition deployWalletBalancerProvider :: "runtime \<Rightarrow> bool \<Rightarrow> contract io" where
  "deployWalletBalancerProvider rt verify = deploy_and_save rt ''WalletBalanceProvider'' [] Id_WalletBalanceProvider verify"

definition deployAaveProtocolDataProvider :: "runtime \<Rightarrow> string \<Rightarrow> bool \<Rightarrow> contract io" where
  "deployAaveProtocolDataProvider rt addressesProvider verify = deploy_and_save rt ''AaveProtocolDataProvider'' [VStr addressesProvider] Id_AaveProtocolDataProvider verify"

definition deployMintableERC20 :: "runtime \<Rightarrow> string list \<Rightarrow> bool \<Rightarrow> contract io" where
  "deployMintableERC20 rt args verify = deploy_and_save rt ''MintableERC20'' (map VStr args) Id_MintableERC20 verify"

definition deployMintableDelegationERC20 :: "runtime \<Rightarrow> string list \<Rightarrow> bool \<Rightarrow> contract io" where
  "deployMintableDelegationERC20 rt args verify = deploy_and_save rt ''MintableDelegationERC20'' (map VStr args) Id_MintableDelegationERC20 verify"

definition deployDefaultReserveInterestRateStrategy :: "runtime \<Rightarrow> string list \<Rightarrow> bool \<Rightarrow> contract io" where
  "deployDefaultReserveInterestRateStrategy rt args verify = deploy_and_save rt ''DefaultReserveInterestRateStrategy'' (map VStr args) Id_DefaultReserveInterestRateStrategy verify"

definition deployGenericStableDebtToken :: "runtime \<Rightarrow> contract io" where
  "deployGenericStableDebtToken rt = deploy_and_save rt ''StableDebtToken'' [] Id_StableDebtToken False"

definition deployGenericVariableDebtToken :: "runtime \<Rightarrow> contract io" where
  "deployGenericVariableDebtToken rt = deploy_and_save rt ''VariableDebtToken'' [] Id_VariableDebtToken False"

definition deployGenericATokenImpl :: "runtime \<Rightarrow> bool \<Rightarrow> contract io" where
  "deployGenericATokenImpl rt verify = deploy_and_save rt ''AToken'' [] Id_AToken verify"

definition deployDelegationAwareATokenImpl :: "runtime \<Rightarrow> bool \<Rightarrow> contract io" where
  "deployDelegationAwareATokenImpl rt verify = deploy_and_save rt ''DelegationAwareAToken'' [] Id_DelegationAwareAToken verify"

definition deployStableAndVariableTokensHelper :: "runtime \<Rightarrow> string list \<Rightarrow> bool \<Rightarrow> contract io" where
  "deployStableAndVariableTokensHelper rt args verify = deploy_and_save rt ''StableAndVariableTokensHelper'' (map VStr args) Id_StableAndVariableTokensHelper verify"

definition deployATokensAndRatesHelper :: "runtime \<Rightarrow> string list \<Rightarrow> bool \<Rightarrow> contract io" where
  "deployATokensAndRatesHelper rt args verify = deploy_and_save rt ''ATokensAndRatesHelper'' (map VStr args) Id_ATokensAndRatesHelper verify"

definition deployWETHGateway :: "runtime \<Rightarrow> string list \<Rightarrow> bool \<Rightarrow> contract io" where
  "deployWETHGateway rt args verify = deploy_and_save rt ''WETHGateway'' (map VStr args) Id_WETHGateway verify"

definition deployWETHMocked :: "runtime \<Rightarrow> bool \<Rightarrow> contract io" where
  "deployWETHMocked rt verify = deploy_and_save rt ''WETH9Mocked'' [] Id_WETHMocked verify"

definition deploySelfdestructTransferMock :: "runtime \<Rightarrow> bool \<Rightarrow> contract io" where
  "deploySelfdestructTransferMock rt verify = deploy_and_save rt ''SelfdestructTransfer'' [] Id_SelfdestructTransferMock verify"

definition deployMockUniswapRouter :: "runtime \<Rightarrow> bool \<Rightarrow> contract io" where
  "deployMockUniswapRouter rt verify = deploy_and_save rt ''MockUniswapV2Router02'' [] Id_MockUniswapV2Router02 verify"

definition deployUniswapLiquiditySwapAdapter :: "runtime \<Rightarrow> string list \<Rightarrow> bool \<Rightarrow> contract io" where
  "deployUniswapLiquiditySwapAdapter rt args verify = deploy_and_save rt ''UniswapLiquiditySwapAdapter'' (map VStr args) Id_UniswapLiquiditySwapAdapter verify"

definition deployUniswapRepayAdapter :: "runtime \<Rightarrow> string list \<Rightarrow> bool \<Rightarrow> contract io" where
  "deployUniswapRepayAdapter rt args verify = deploy_and_save rt ''UniswapRepayAdapter'' (map VStr args) Id_UniswapRepayAdapter verify"

definition deployAutoRepay :: "runtime \<Rightarrow> string list \<Rightarrow> bool \<Rightarrow> contract io" where
  "deployAutoRepay rt args verify = deploy_and_save rt ''AutoRepay'' (map VStr args) Id_AutoRepay verify"

definition deployLeverageBorrowAdapter :: "runtime \<Rightarrow> string list \<Rightarrow> bool \<Rightarrow> contract io" where
  "deployLeverageBorrowAdapter rt args verify = deploy_and_save rt ''LeverageBorrowAdapter'' (map VStr args) Id_LeverageBorrowAdapter verify"

definition deployFlashLiquidationAdapter :: "runtime \<Rightarrow> string list \<Rightarrow> bool \<Rightarrow> contract io" where
  "deployFlashLiquidationAdapter rt args verify = deploy_and_save rt ''FlashLiquidationAdapter'' (map VStr args) Id_FlashLiquidationAdapter verify"

definition deployCREALConfiguratorAlfajores :: "runtime \<Rightarrow> bool \<Rightarrow> contract io" where
  "deployCREALConfiguratorAlfajores rt verify = deploy_and_save rt ''CREALConfiguratorAlfajores'' [] Id_CREALConfiguratorAlfajores verify"

definition deployCREALConfiguratorCelo :: "runtime \<Rightarrow> bool \<Rightarrow> contract io" where
  "deployCREALConfiguratorCelo rt verify = deploy_and_save rt ''CREALConfiguratorCelo'' [] Id_CREALConfiguratorCelo verify"

definition deployAaveOracle ::
    "runtime \<Rightarrow> string list \<Rightarrow> string list \<Rightarrow> string option \<Rightarrow> string \<Rightarrow> bool \<Rightarrow> contract io" where
  "deployAaveOracle rt assets sources fallback weth verify =
     deploy_and_save rt ''AaveOracle''
       [VList (map VStr assets), VList (map VStr sources), opt_val fallback, VStr weth] Id_AaveOracle verify"

section \<open>Implementations behind proxies\<close>

text \<open>
  The implementation's address is stored under the \<open>...Impl\<close> id before the instance is registered
  under the plain id.
\<close>

definition deploy_impl ::
    "runtime \<Rightarrow> string \<Rightarrow> js_val list \<Rightarrow> eContractid \<Rightarrow> eContractid \<Rightarrow> bool \<Rightarrow> contract io" where
  "deploy_impl rt factory dargs implId cid verify =
     bind (deploy_contract rt factory (first_signer rt) dargs) (\<lambda>impl.
     seq (insertContractAddressInDb rt implId (address impl))
    (withSaveAndVerify rt impl (contract_id cid) [] verify))"

definition deployLendingPoolConfigurator :: "runtime \<Rightarrow> bool \<Rightarrow> contract io" where
  "deployLendingPoolConfigurator rt verify =
     deploy_impl rt ''LendingPoolConfigurator'' [] Id_LendingPoolConfiguratorImpl
       Id_LendingPoolConfigurator verify"

definition deployLendingPoolCollateralManager :: "runtime \<Rightarrow> bool \<Rightarrow> contract io" where
  "deployLendingPoolCollateralManager rt verify =
     deploy_impl rt ''LendingPoolCollateralManager'' [] Id_LendingPoolCollateralManagerImpl
       Id_LendingPoolCollateralManager verify"

definition deployLendingPoolCollateralManagerWithReserve :: "runtime \<Rightarrow> bool \<Rightarrow> contract io" where
  "deployLendingPoolCollateralManagerWithReserve rt verify =
     deploy_impl rt ''LendingPoolCollateralManagerWithReserve'' []
       Id_LendingPoolCollateralManagerWithReserveImpl Id_LendingPoolCollateralManagerWithReserve verify"

section \<open>Libraries\<close>

record artifact_api =
  buidler_artifact :: "string \<Rightarrow> js_error + artifact"
  hardhat_artifact :: "string \<Rightarrow> js_error + artifact"

definition readArtifact :: "runtime \<Rightarrow> artifact_api \<Rightarrow> string \<Rightarrow> artifact io" where
  "readArtifact rt A cid =
     (if network_name rt = eth_network Eth_buidlerevm then lift_sum (buidler_artifact A cid)
      else lift_sum (hardhat_artifact A cid))"

text \<open>
  \<open>getContractFactory(abi, bytecode)\<close> followed by \<open>deploy()\<close> and \<open>deployed()\<close>: the factory is
  identified by the linked bytecode; hardhat's default signer is the first one.
\<close>

definition deploy_bytecode :: "runtime \<Rightarrow> string \<Rightarrow> contract io" where
  "deploy_bytecode rt code =
     bind (deploy_contract rt code (first_signer rt) []) (\<lambda>c. seq (wait_deployed rt c) (ret c))"

definition deployGenericLogic :: "runtime \<Rightarrow> artifact_api \<Rightarrow> contract \<Rightarrow> bool \<Rightarrow> contract io" where
  "deployGenericLogic rt A reserveLogic verify =
     bind (readArtifact rt A (contract_id Id_GenericLogic)) (\<lambda>genericLogicArtifact.
     let linkedGenericLogicByteCode = linkBytecode genericLogicArtifact
           [(contract_id Id_ReserveLogic, address reserveLogic)]
     in bind (deploy_bytecode rt linkedGenericLogicByteCode) (\<lambda>genericLogic.
        withSaveAndVerify rt genericLogic (contract_id Id_GenericLogic) [] verify))"

definition deployValidationLogic ::
    "runtime \<Rightarrow> artifact_api \<Rightarrow> contract \<Rightarrow> contract \<Rightarrow> bool \<Rightarrow> contract io" where
  "deployValidationLogic rt A reserveLogic genericLogic verify =
     bind (readArtifact rt A (contract_id Id_ValidationLogic)) (\<lambda>validationLogicArtifact.
     let linkedValidationLogicByteCode = linkBytecode validationLogicArtifact
           [(contract_id Id_ReserveLogic, address reserveLogic),
            (contract_id Id_GenericLogic, address genericLogic)]
     in bind (deploy_bytecode rt linkedValidationLogicByteCode) (\<lambda>validationLogic.
        withSaveAndVerify rt validationLogic (contract_id Id_ValidationLogic) [] verify))"

text \<open>The result maps the placeholders of LendingPool's bytecode to library addresses.\<close>

definition deployAaveLibraries :: "runtime \<Rightarrow> artifact_api \<Rightarrow> bool \<Rightarrow> string js_obj io" where
  "deployAaveLibraries rt A verify =
     bind (deployReserveLogicLibrary rt verify) (\<lambda>reserveLogic.
     bind (deployGenericLogic rt A reserveLogic verify) (\<lambda>genericLogic.
     bind (deployValidationLogic rt A reserveLogic genericLogic verify) (\<lambda>validationLogic.
     ret [(''__$de8c0cf1a7d7c36c802af9a64fb9d86036$__'', address validationLogic),
          (''__$22cd43a9dda9ce44e9b92ba393b88fb9ac$__'', address reserveLogic)])))"

text \<open>The libraries go to the factory's constructor and are recorded as its argument.\<close>

definition deployLendingPool :: "runtime \<Rightarrow> artifact_api \<Rightarrow> bool \<Rightarrow> contract io" where
  "deployLendingPool rt A verify =
     bind (deployAaveLibraries rt A verify) (\<lambda>libraries.
     deploy_impl rt ''LendingPool'' [VObj (map (\<lambda>(k, a). (k, VStr a)) libraries)]
       Id_LendingPoolImpl Id_LendingPool verify)"

section \<open>Tokens that are initialized after registration\<close>

text \<open>The transaction of \<open>initialize\<close> is awaited but not waited for.\<close>

definition deploy_and_initialize ::
    "runtime \<Rightarrow> string \<Rightarrow> eContractid \<Rightarrow> js_val list \<Rightarrow> bool \<Rightarrow> contract io" where
  "deploy_and_initialize rt factory cid initArgs verify =
     bind (deploy_and_save rt factory [] cid verify) (\<lambda>instnce.
     seq (send_tx rt instnce ''initialize'' initArgs)
    (ret instnce))"

definition deployStableDebtToken ::
    "runtime \<Rightarrow> string \<times> string \<times> string \<times> string \<times> string \<Rightarrow> bool \<Rightarrow> contract io" where
  "deployStableDebtToken rt args verify =
     (case args of (a0, a1, a2, a3, a4) \<Rightarrow>
        deploy_and_initialize rt ''StableDebtToken'' Id_StableDebtToken
          [VStr a0, VStr a1, VStr a2, VStr ''18'', VStr a3, VStr a4, VStr ''0x10''] verify)"

definition deployVariableDebtToken ::
    "runtime \<Rightarrow> string \<times> string \<times> string \<times> string \<times> string \<Rightarrow> bool \<Rightarrow> contract io" where
  "deployVariableDebtToken rt args verify =
     (case args of (a0, a1, a2, a3, a4) \<Rightarrow>
        deploy_and_initialize rt ''VariableDebtToken'' Id_VariableDebtToken
          [VStr a0, VStr a1, VStr a2, VStr ''18'', VStr a3, VStr a4, VStr ''0x10''] verify)"

definition deployGenericAToken ::
    "runtime \<Rightarrow> string \<times> string \<times> string \<times> string \<times> string \<times> string \<Rightarrow> bool \<Rightarrow> contract io" where
  "deployGenericAToken rt args verify =
     (case args of (poolAddress, underlyingAssetAddress, treasuryAddress, incentivesController, tname, tsymbol) \<Rightarrow>
        deploy_and_initialize rt ''AToken'' Id_AToken
          [VStr poolAddress, VStr treasuryAddress, VStr underlyingAssetAddress, VStr incentivesController,
           VStr ''18'', VStr tname, VStr tsymbol, VStr ''0x10''] verify)"

definition deployDelegationAwareAToken ::
    "runtime \<Rightarrow> string \<times> string \<times> string \<times> string \<times> string \<times> string \<Rightarrow> bool \<Rightarrow> contract io" where
  "deployDelegationAwareAToken rt args verify =
     (case args of (pool, underlyingAssetAddress, treasuryAddress, incentivesController, tname, tsymbol) \<Rightarrow>
        deploy_and_initialize rt ''DelegationAwareAToken'' Id_DelegationAwareAToken
          [VStr pool, VStr treasuryAddress, VStr underlyingAssetAddress, VStr incentivesController,
           VStr ''18'', VStr tname, VStr tsymbol, VStr ''0x10''] verify)"

definition deployMockStableDebtToken ::
    "runtime \<Rightarrow> string \<times> string \<times> string \<times> string \<times> string \<times> string \<Rightarrow> bool \<Rightarrow> contract io" where
  "deployMockStableDebtToken rt args verify =
     (case args of (a0, a1, a2, a3, a4, a5) \<Rightarrow>
        deploy_and_initialize rt ''MockStableDebtToken'' Id_MockStableDebtToken
          [VStr a0, VStr a1, VStr a2, VStr ''18'', VStr a3, VStr a4, VStr a5] verify)"

definition deployMockVariableDebtToken ::
    "runtime \<Rightarrow> string \<times> string \<times> string \<times> string \<times> string \<times> string \<Rightarrow> bool \<Rightarrow> contract io" where
  "deployMockVariableDebtToken rt args verify =
     (case args of (a0, a1, a2, a3, a4, a5) \<Rightarrow>
        deploy_and_initialize rt ''MockVariableDebtToken'' Id_MockVariableDebtToken
          [VStr a0, VStr a1, VStr a2, VStr ''18'', VStr a3, VStr a4, VStr a5] verify)"

definition deployMockAToken ::
    "runtime \<Rightarrow> string \<times> string \<times> string \<times> string \<times> string \<times> string \<times> string \<Rightarrow> bool \<Rightarrow> contract io" where
  "deployMockAToken rt args verify =
     (case args of (a0, a1, a2, a3, a4, a5, a6) \<Rightarrow>
        deploy_and_initialize rt ''MockAToken'' Id_MockAToken
          [VStr a0, VStr a2, VStr a1, VStr a3, VStr ''18'', VStr a4, VStr a5, VStr a6] verify)"

section \<open>Mock tokens\<close>

definition deployAllMockTokens :: "runtime \<Rightarrow> 'b bn_api \<Rightarrow> bool \<Rightarrow> contract js_obj io" where
  "deployAllMockTokens rt B verify =
     (let protoConfigData = getReservesConfigByPool B (pool_str Pool_proto) in
      fold_io (\<lambda>tokens tokenSymbol.
        let decimals = ''18''; configData = obj_get protoConfigData tokenSymbol in
        bind (deployMintableERC20 rt [tokenSymbol, tokenSymbol,
               (case configData of Some c \<Rightarrow> reserveDecimals c | None \<Rightarrow> decimals)] verify) (\<lambda>token.
        seq (registerContractInJsonDb rt (to_upper tokenSymbol) token)
       (ret (obj_set tokens tokenSymbol token))))
      [] (obj_keys TokenContractId))"

definition deployMockTokens :: "runtime \<Rightarrow> ICommonConfiguration \<Rightarrow> bool \<Rightarrow> contract js_obj io" where
  "deployMockTokens rt config verify =
     (let configData = ReservesConfig config in
      fold_io (\<lambda>tokens tokenSymbol.
        bind (lift_sum (case obj_get configData tokenSymbol of
                 None \<Rightarrow> Inl (JsTypeError ''Cannot read property reserveDecimals of undefined'')
               | Some c \<Rightarrow> Inr (if reserveDecimals c = '''' then ''18'' else reserveDecimals c))) (\<lambda>decimals.
        bind (deployMintableERC20 rt [tokenSymbol, tokenSymbol, decimals] verify) (\<lambda>token.
        seq (registerContractInJsonDb rt (to_upper tokenSymbol) token)
       (ret (obj_set tokens tokenSymbol token)))))
      [] (obj_keys configData))"

text \<open>\<open>attach(wethGateWay).authorizeLendingPool(lendingPool)\<close>: the transaction is not waited for.\<close>

definition authorizeWETHGateway :: "runtime \<Rightarrow> string \<Rightarrow> string \<Rightarrow> string io" where
  "authorizeWETHGateway rt wethGateWay lendingPool =
     send_tx rt (connect_at rt ''WETHGateway'' wethGateWay) ''authorizeLendingPool'' [VStr lendingPool]"

section \<open>Their traces\<close>

lemmas simple_deployment_defs = 
  deployLendingPoolAddressesProvider_def deployLendingPoolAddressesProviderRegistry_def
  deployReserveLogicLibrary_def deployPriceOracle_def deployLendingRateOracle_def
  deployMockAggregator_def deployInitializableAdminUpgradeabilityProxy_def
  deployMockFlashLoanReceiver_def deployWalletBalancerProvider_def
  deployAaveProtocolDataProvider_def deployMintableERC20_def deployMintableDelegationERC20_def
  deployDefaultReserveInterestRateStrategy_def deployGenericStableDebtToken_def
  deployGenericVariableDebtToken_def deployGenericATokenImpl_def
  deployDelegationAwareATokenImpl_def deployStableAndVariableTokensHelper_def
  deployATokensAndRatesHelper_def deployWETHGateway_def deployWETHMocked_def
  deploySelfdestructTransferMock_def deployMockUniswapRouter_def
  deployUniswapLiquiditySwapAdapter_def deployUniswapRepayAdapter_def deployAutoRepay_def
  deployLeverageBorrowAdapter_def deployFlashLiquidationAdapter_def
  deployCREALConfiguratorAlfajores_def deployCREALConfiguratorCelo_def

lemma quiet_deploy_and_save [quiet_intros]: "quiet sent (deploy_and_save rt f args cid v)"
  unfolding deploy_and_save_def by (intro quiet_intros)+

lemma quiet_simple_deployments [quiet_intros]:
  "quiet sent (deployLendingPoolAddressesProvider rt marketId v)"
  "quiet sent (deployLendingPoolAddressesProviderRegistry rt v)"
  "quiet sent (deployReserveLogicLibrary rt v)"
  "quiet sent (deployPriceOracle rt v)"
  "quiet sent (deployLendingRateOracle rt v)"
  "quiet sent (deployMockAggregator rt price v)"
  "quiet sent (deployInitializableAdminUpgradeabilityProxy rt v)"
  "quiet sent (deployMockFlashLoanReceiver rt addressesProvider v)"
  "quiet sent (deployWalletBalancerProvider rt v)"
  "quiet sent (deployAaveProtocolDataProvider rt addressesProvider v)"
  "quiet sent (deployMintableERC20 rt args v)"
  "quiet sent (deployMintableDelegationERC20 rt args v)"
  "quiet sent (deployDefaultReserveInterestRateStrategy rt args v)"
  "quiet sent (deployGenericStableDebtToken rt)"
  "quiet sent (deployGenericVariableDebtToken rt)"
  "quiet sent (deployGenericATokenImpl rt v)"
  "quiet sent (deployDelegationAwareATokenImpl rt v)"
  "quiet sent (deployStableAndVariableTokensHelper rt args v)"
  "quiet sent (deployATokensAndRatesHelper rt args v)"
  "quiet sent (deployWETHGateway rt args v)"
  "quiet sent (deployWETHMocked rt v)"
  "quiet sent (deploySelfdestructTransferMock rt v)"
  "quiet sent (deployMockUniswapRouter rt v)"
  "quiet sent (deployUniswapLiquiditySwapAdapter rt args v)"
  "quiet sent (deployUniswapRepayAdapter rt args v)"
  "quiet sent (deployAutoRepay rt args v)"
  "quiet sent (deployLeverageBorrowAdapter rt args v)"
  "quiet sent (deployFlashLiquidationAdapter rt args v)"
  "quiet sent (deployCREALConfiguratorAlfajores rt v)"
  "quiet sent (deployCREALConfiguratorCelo rt v)"
  "quiet sent (deployAaveOracle rt assets sources fallback weth v)"
  unfolding simple_deployment_defs deployAaveOracle_def by (rule quiet_deploy_and_save)+

lemma quiet_impl_deployments [quiet_intros]:
  "quiet sent (deploy_impl rt f dargs i cid v)"
  "quiet sent (deployLendingPoolConfigurator rt v)"
  "quiet sent (deployLendingPoolCollateralManager rt v)"
  "quiet sent (deployLendingPoolCollateralManagerWithReserve rt v)"
  unfolding deployLendingPoolConfigurator_def deployLendingPoolCollateralManager_def
    deployLendingPoolCollateralManagerWithReserve_def deploy_impl_def
  by (intro quiet_intros)+

lemma quiet_library_deployments [quiet_intros]:
  "quiet sent (readArtifact rt A i)" "quiet sent (deploy_bytecode rt code)"
  "quiet sent (deployGenericLogic rt A rl v)" "quiet sent (deployValidationLogic rt A rl gl v)"
  "quiet sent (deployAaveLibraries rt A v)" "quiet sent (deployLendingPool rt A v)"
proof -
  show 1: "quiet sent (readArtifact rt A i)" for i
    unfolding readArtifact_def by (intro quiet_intros)
  show 2: "quiet sent (deploy_bytecode rt code)" for code
    unfolding deploy_bytecode_def by (intro quiet_intros)
  show 3: "quiet sent (deployGenericLogic rt A rl v)" for rl
    unfolding deployGenericLogic_def Let_def by (intro quiet_intros 1 2)
  show 4: "quiet sent (deployValidationLogic rt A rl gl v)" for rl gl
    unfolding deployValidationLogic_def Let_def by (intro quiet_intros 1 2)
  show 5: "quiet sent (deployAaveLibraries rt A v)"
    unfolding deployAaveLibraries_def by (intro quiet_intros 3 4)
  show "quiet sent (deployLendingPool rt A v)"
    unfolding deployLendingPool_def by (intro quiet_intros 5)
qed

text \<open>What a deployment that succeeds has deployed and registered.\<close>

lemma deploy_and_save_result:
  assumes "deploy_and_save rt f args cid v h = (Inr c, h')"
  shows "deployed h' = deployed h @ [(f, args, address c)]"
    and "db_writes h' = db_writes h @ [saved_entry rt (contract_id cid) c]"
    and "deployer c \<noteq> None"
proof -
  obtain c0 h1 where d: "deploy_contract rt f (first_signer rt) args h = (Inr c0, h1)"
    and w: "withSaveAndVerify rt c0 (contract_id cid) args v h1 = (Inr c, h')"
    using assms by (auto simp: deploy_and_save_def bind_ok)
  have c: "c = c0" "deployer c \<noteq> None" using withSaveAndVerify_result [OF w] by auto
  show "deployed h' = deployed h @ [(f, args, address c)]"
    using emitsD [OF emits_deploy_contract d] quietD [OF quiet_withSaveAndVerify(2) w] c by simp
  show "db_writes h' = db_writes h @ [saved_entry rt (contract_id cid) c]"
    using quietD [OF quiet_db_writes(1) d] emitsD [OF emits_withSaveAndVerify w] c by simp
  show "deployer c \<noteq> None" by (rule c(2))
qed

end
