(* ===== verification/Oracles.thy ===== *)
theory Oracles
  imports Deployments
begin

text \<open>
  \<open>helpers/oracles-helpers.ts\<close> and \<open>helpers/mock-helpers.ts\<close>: the initial borrow rates, set by a
  helper contract that owns the rate oracle for the time of the batches; asset prices; mock
  aggregators and the address maps. The properties give the order of the transactions on success
  and on failure.
\<close>

section \<open>Initial market rates\<close>

definition resolve_rates ::
    "IMarketRates js_obj \<Rightarrow> string js_obj \<Rightarrow> js_error + (string \<times> string \<times> string) list" where
  "resolve_rates marketRates assetsAddresses =
     map_try (\<lambda>(assetSymbol, rates).
       case entry_at assetsAddresses assetSymbol of
         Inl e \<Rightarrow> Inl e
       | Inr assetAddress \<Rightarrow> Inr (assetAddress, borrowRate rates, assetSymbol)) marketRates"

definition strs :: "string list \<Rightarrow> js_val" where
  "strs xs = VList (map VStr xs)"

definition setInitialMarketRatesInRatesOracleByHelper ::
    "runtime \<Rightarrow> IMarketRates js_obj \<Rightarrow> string js_obj \<Rightarrow> contract \<Rightarrow> string option \<Rightarrow> unit io" where
  "setInitialMarketRatesInRatesOracleByHelper rt marketRates assetsAddresses lendingRateOracleInstance admin =
     bind (getStableAndVariableTokensHelper rt None) (\<lambda>stableAndVariableTokenHelper.
     bind (lift_sum (resolve_rates marketRates assetsAddresses)) (\<lambda>rows.
     let assetAddresses = map fst rows;
         borrowRates = map (fst \<circ> snd) rows;
         ratesChunks = 20;
         chunkedTokens = chunk assetAddresses ratesChunks;
         chunkedRates = chunk borrowRates ratesChunks
     in
     seq (send_and_wait rt lendingRateOracleInstance ''transferOwnership''
            [VStr (address stableAndVariableTokenHelper)])
    (seq (for_each (\<lambda>chunkIndex.
            send_and_wait rt stableAndVariableTokenHelper ''setOracleBorrowRates''
              [strs (chunkedTokens ! chunkIndex), strs (chunkedRates ! chunkIndex),
               VStr (address lendingRateOracleInstance)])
          [0..<length chunkedTokens])
    (send_and_wait rt stableAndVariableTokenHelper ''setOracleOwnership''
       [VStr (address lendingRateOracleInstance), opt_val admin]))))"

section \<open>Prices\<close>

definition set_price :: "runtime \<Rightarrow> string js_obj \<Rightarrow> contract \<Rightarrow> string \<times> string \<Rightarrow> unit io" where
  "set_price rt assetsAddresses priceOracleInstance entry =
     bind (lift_sum (entry_at assetsAddresses (fst entry))) (\<lambda>assetAddress.
     send_and_wait rt priceOracleInstance ''setAssetPrice'' [VStr assetAddress, VStr (snd entry)])"

definition setInitialAssetPricesInOracle ::
    "runtime \<Rightarrow> string js_obj \<Rightarrow> string js_obj \<Rightarrow> contract \<Rightarrow> unit io" where
  "setInitialAssetPricesInOracle rt prices assetsAddresses priceOracleInstance =
     for_each (set_price rt assetsAddresses priceOracleInstance) prices"

definition setAssetPricesInOracle ::
    "runtime \<Rightarrow> string js_obj \<Rightarrow> string js_obj \<Rightarrow> contract \<Rightarrow> unit io" where
  "setAssetPricesInOracle rt prices assetsAddresses priceOracleInstance =
     for_each (set_price rt assetsAddresses priceOracleInstance) prices"

section \<open>Mock aggregators\<close>

definition deploy_aggregator ::
    "runtime \<Rightarrow> string js_obj \<Rightarrow> bool \<Rightarrow> contract js_obj \<Rightarrow> string \<Rightarrow> contract js_obj io" where
  "deploy_aggregator rt initialPrices verify aggregators tokenContractName =
     (if tokenContractName \<noteq> ''ETH'' then
        bind (lift_sum (entry_at initialPrices tokenContractName)) (\<lambda>price.
        bind (deployMockAggregator rt price verify) (\<lambda>aggregator.
        ret (obj_set aggregators tokenContractName aggregator)))
      else ret aggregators)"

definition deployMockAggregators :: "runtime \<Rightarrow> string js_obj \<Rightarrow> bool \<Rightarrow> contract js_obj io" where
  "deployMockAggregators rt initialPrices verify =
     fold_io (deploy_aggregator rt initialPrices verify) [] (obj_keys initialPrices)"

definition deployAllMockAggregators :: "runtime \<Rightarrow> string js_obj \<Rightarrow> bool \<Rightarrow> contract js_obj io" where
  "deployAllMockAggregators rt initialPrices verify =
     fold_io (deploy_aggregator rt initialPrices verify) [] (obj_keys initialPrices)"

definition getAllTokenAddresses :: "contract js_obj \<Rightarrow> string js_obj" where
  "getAllTokenAddresses mockTokens =
     foldl (\<lambda>accum (tokenSymbol, tokenContract).
       obj_set (obj_spread [] accum) tokenSymbol (address tokenContract)) [] mockTokens"

definition getAllAggregatorsAddresses :: "contract js_obj \<Rightarrow> string js_obj" where
  "getAllAggregatorsAddresses mockAggregators =
     foldl (\<lambda>accum (tokenSymbol, aggregator).
       obj_set (obj_spread [] accum) tokenSymbol (address aggregator)) [] mockAggregators"

section \<open>The rate batches as a trace\<close>

text \<open>The transactions of the rate batches, as a function of the resolved rows.\<close>

definition rate_batches :: "contract \<Rightarrow> contract \<Rightarrow> (string \<times> string \<times> string) list \<Rightarrow> tx_obs list" where
  "rate_batches helper oracle rows =
     map (\<lambda>b. (signer helper, address helper, ''setOracleBorrowRates'',
                [strs (map fst b), strs (map (fst \<circ> snd) b), VStr (address oracle)]))
       (chunk rows 20)"

definition rate_trace ::
    "contract \<Rightarrow> contract \<Rightarrow> string option \<Rightarrow> (string \<times> string \<times> string) list \<Rightarrow> tx_obs list" where
  "rate_trace helper oracle admin rows =
     (signer oracle, address oracle, ''transferOwnership'', [VStr (address helper)])
     # rate_batches helper oracle rows
     @ [(signer helper, address helper, ''setOracleOwnership'', [VStr (address oracle), opt_val admin])]"

lemma concat_map_single [simp]: "concat (map (\<lambda>x. [f x]) xs) = map f xs"
  by (induction xs) simp_all

lemma rate_batches_index:
  "rate_batches helper oracle rows =
     map (\<lambda>i. (signer helper, address helper, ''setOracleBorrowRates'',
          [strs (chunk (map fst rows) 20 ! i), strs (chunk (map (fst \<circ> snd) rows) 20 ! i),
           VStr (address oracle)])) [0..<length (chunk (map fst rows) 20)]"
proof -
  have len: "length (chunk (map f rows) 20) = length (chunk rows 20)" for f :: "_ \<Rightarrow> string"
    by (simp add: chunk_map)
  show ?thesis
    by (rule nth_equalityI) (simp_all add: rate_batches_def len chunk_map)
qed

lemma follows_rate_program:
  "follows sent
     (seq (send_and_wait rt oracle ''transferOwnership'' [VStr (address helper)])
     (seq (for_each (\<lambda>i. send_and_wait rt helper ''setOracleBorrowRates''
              [strs (chunk (map fst rows) 20 ! i), strs (chunk (map (fst \<circ> snd) rows) 20 ! i),
               VStr (address oracle)])
          [0..<length (chunk (map fst rows) 20)])
       (send_and_wait rt helper ''setOracleOwnership'' [VStr (address oracle), opt_val admin])))
     (rate_trace helper oracle admin rows)"
  unfolding rate_trace_def rate_batches_index
  using sent.follows_seq [OF follows_send_and_wait
      sent.follows_seq [OF sent.follows_for_each [OF follows_send_and_wait] follows_send_and_wait]]
  by simp

lemma entry_keys_distinct: "distinct (obj_keys ob) \<Longrightarrow> obj_spread [] ob = ob"
proof -
  have "foldl (\<lambda>acc (k, v). obj_set acc k v) pre ob = pre @ ob" if "distinct (obj_keys (pre @ ob))" for pre
    using that
  proof (induction ob arbitrary: pre)
    case Nil
    then show ?case by simp
  next
    case (Cons p ob)
    obtain k v where p: "p = (k, v)" by fastforce
    have "obj_set pre k v = pre @ [(k, v)]" using Cons.prems p by (intro obj_set_fresh) auto
    moreover have "foldl (\<lambda>acc (k, v). obj_set acc k v) (pre @ [(k, v)]) ob = (pre @ [(k, v)]) @ ob"
      using Cons.prems p by (intro Cons.IH) auto
    ultimately show ?case by (simp add: p)
  qed
  from this [of "[]"] show "distinct (obj_keys ob) \<Longrightarrow> obj_spread [] ob = ob"
    by (simp add: obj_spread_def)
qed

lemma address_fold:
  "distinct (obj_keys (pre @ map (\<lambda>(k, c). (k, address c)) ob)) \<Longrightarrow>
    foldl (\<lambda>accum (k, c). obj_set (obj_spread [] accum) k (address c)) pre ob
      = pre @ map (\<lambda>(k, c). (k, address c)) ob"
proof (induction ob arbitrary: pre)
  case Nil
  then show ?case by simp
next
  case (Cons p ob)
  obtain k c where p: "p = (k, c)" by fastforce
  have "distinct (obj_keys pre)" using Cons.prems by auto
  then have "obj_set (obj_spread [] pre) k (address c) = pre @ [(k, address c)]"
    using Cons.prems p by (simp add: entry_keys_distinct obj_set_fresh)
  moreover have "foldl (\<lambda>accum (k, c). obj_set (obj_spread [] accum) k (address c))
      (pre @ [(k, address c)]) ob = (pre @ [(k, address c)]) @ map (\<lambda>(k, c). (k, address c)) ob"
    using Cons.prems p by (intro Cons.IH) auto
  ultimately show ?case by (simp add: p)
qed

lemma getAllTokenAddresses_eq:
  assumes "distinct (obj_keys ts)"
  shows "getAllTokenAddresses ts = map (\<lambda>(k, c). (k, address c)) ts"
proof -
  have "obj_keys (map (\<lambda>(k, c). (k, address c)) ts) = obj_keys ts"
    by (induction ts) (auto simp: obj_keys_def)
  then show ?thesis using address_fold [of "[]" ts] assms by (simp add: getAllTokenAddresses_def)
qed

end
