(* ===== verification/InitHelpers.thy ===== *)
theory InitHelpers
  imports Oracles
begin

text \<open>
  \<open>helpers/init-helpers.ts\<close>: the initialization of a market's reserves. \<open>initReservesByHelper\<close>
  deploys the token implementations and one rate strategy per strategy name and initializes the
  reserves in batches; \<open>configureReservesByHelper\<close> enables them as collateral through a helper that
  is pool admin for the time of the batches; \<open>initTokenReservesByHelper\<close> is the older variant that
  reuses addresses of the registry.
\<close>

section \<open>Reserve inputs\<close>

text \<open>The argument of \<open>batchInitReserve\<close> for one reserve.\<close>

record init_input =
  in_aTokenImpl :: string
  in_stableDebtTokenImpl :: string
  in_variableDebtTokenImpl :: string
  in_underlyingAssetDecimals :: string
  in_interestRateStrategyAddress :: "string option"
  in_underlyingAsset :: "string option"
  in_treasury :: "string option"
  in_incentivesController :: string
  in_underlyingAssetName :: string
  in_aTokenName :: string
  in_aTokenSymbol :: string
  in_variableDebtTokenName :: string
  in_variableDebtTokenSymbol :: string
  in_stableDebtTokenName :: string
  in_stableDebtTokenSymbol :: string
  in_params :: string

definition init_input_val :: "init_input \<Rightarrow> js_val" where
  "init_input_val p = VObj
     [(''aTokenImpl'', VStr (in_aTokenImpl p)),
      (''stableDebtTokenImpl'', VStr (in_stableDebtTokenImpl p)),
      (''variableDebtTokenImpl'', VStr (in_variableDebtTokenImpl p)),
      (''underlyingAssetDecimals'', VStr (in_underlyingAssetDecimals p)),
      (''interestRateStrategyAddress'', opt_val (in_interestRateStrategyAddress p)),
      (''underlyingAsset'', opt_val (in_underlyingAsset p)),
      (''treasury'', opt_val (in_treasury p)),
      (''incentivesController'', VStr (in_incentivesController p)),
      (''underlyingAssetName'', VStr (in_underlyingAssetName p)),
      (''aTokenName'', VStr (in_aTokenName p)),
      (''aTokenSymbol'', VStr (in_aTokenSymbol p)),
      (''variableDebtTokenName'', VStr (in_variableDebtTokenName p)),
      (''variableDebtTokenSymbol'', VStr (in_variableDebtTokenSymbol p)),
      (''stableDebtTokenName'', VStr (in_stableDebtTokenName p)),
      (''stableDebtTokenSymbol'', VStr (in_stableDebtTokenSymbol p)),
      (''params'', VStr (in_params p))]"

type_synonym token_args = "string \<times> string \<times> string \<times> string \<times> string \<times> string"

definition chooseATokenDeployment ::
    "eContractid \<Rightarrow> js_error + (runtime \<Rightarrow> token_args \<Rightarrow> bool \<Rightarrow> contract io)" where
  "chooseATokenDeployment cid =
     (if cid = Id_AToken then Inr deployGenericAToken
      else if cid = Id_DelegationAwareAToken then Inr deployDelegationAwareAToken
      else Inl (JsError (''Missing aToken deployment script for: '' @ contract_id cid)))"

section \<open>initReservesByHelper\<close>

text \<open>The variables of the loop over the reserves.\<close>

record init_state =
  strategyAddresses :: "string js_obj"
  strategyAddressPerAsset :: "string option js_obj"
  aTokenType :: "string js_obj"
  reserveInitDecimals :: "string list"
  reserveTokens :: "string option list"
  reserveSymbols :: "string list"

definition init_start :: init_state where
  "init_start = \<lparr> strategyAddresses = [], strategyAddressPerAsset = [], aTokenType = [],
     reserveInitDecimals = [], reserveTokens = [], reserveSymbols = [] \<rparr>"

definition strategy_args :: "string \<Rightarrow> IInterestRateStrategyParams \<Rightarrow> string list" where
  "strategy_args a s = [a, optimalUtilizationRate s, baseVariableBorrowRate s, variableRateSlope1 s,
     variableRateSlope2 s, stableRateSlope1 s, stableRateSlope2 s]"

text \<open>\<open>if (!strategyAddresses[strategy.name]) { ... }\<close>\<close>

definition ensure_strategy ::
    "runtime \<Rightarrow> contract \<Rightarrow> bool \<Rightarrow> string js_obj \<Rightarrow> IInterestRateStrategyParams \<Rightarrow> string js_obj io" where
  "ensure_strategy rt addressProvider verify known s =
     (if \<not> truthy (obj_get known (strategy_name s)) then
        bind (deployDefaultReserveInterestRateStrategy rt (strategy_args (address addressProvider) s) verify)
          (\<lambda>c.
        seq (not_awaited (rawInsertContractAddressInDb rt (strategy_name s) (address c)))
       (ret (obj_set known (strategy_name s) (address c))))
      else ret known)"

definition init_reserve ::
    "runtime \<Rightarrow> contract \<Rightarrow> string js_obj \<Rightarrow> bool \<Rightarrow> init_state \<Rightarrow> string \<times> IReserveParams \<Rightarrow> init_state io" where
  "init_reserve rt addressProvider tokenAddresses verify st entry =
     (let symbol = fst entry; params = snd entry; s = strategy params in
      bind (ensure_strategy rt addressProvider verify (strategyAddresses st) s) (\<lambda>known.
      ret (st\<lparr>
        strategyAddresses := known,
        strategyAddressPerAsset :=
          obj_set (strategyAddressPerAsset st) symbol (obj_get known (strategy_name s)),
        aTokenType :=
          (if aTokenImpl params = Id_AToken then obj_set (aTokenType st) symbol ''generic''
           else if aTokenImpl params = Id_DelegationAwareAToken
             then obj_set (aTokenType st) symbol ''delegation aware''
           else aTokenType st),
        reserveInitDecimals := reserveInitDecimals st @ [reserveDecimals params],
        reserveTokens := reserveTokens st @ [obj_get tokenAddresses symbol],
        reserveSymbols := reserveSymbols st @ [symbol] \<rparr>)))"

text \<open>The addresses and prefixes that the inputs of all reserves share.\<close>

record init_common =
  stableDebtTokenImplementationAddress :: string
  variableDebtTokenImplementationAddress :: string
  aTokenImplementationAddress :: string
  delegationAwareATokenImplementationAddress :: string
  treasuryAddress :: "string option"
  aTokenNamePrefix :: string
  stableDebtTokenNamePrefix :: string
  variableDebtTokenNamePrefix :: string
  symbolPrefix :: string

definition init_params :: "init_common \<Rightarrow> init_state \<Rightarrow> nat \<Rightarrow> init_input" where
  "init_params c st i =
     (let symbol = reserveSymbols st ! i in
      \<lparr> in_aTokenImpl =
          (if obj_get (aTokenType st) symbol = Some ''generic'' then aTokenImplementationAddress c
           else delegationAwareATokenImplementationAddress c),
        in_stableDebtTokenImpl = stableDebtTokenImplementationAddress c,
        in_variableDebtTokenImpl = variableDebtTokenImplementationAddress c,
        in_underlyingAssetDecimals = reserveInitDecimals st ! i,
        in_interestRateStrategyAddress = Option.bind (obj_get (strategyAddressPerAsset st) symbol) (\<lambda>a. a),
        in_underlyingAsset = reserveTokens st ! i,
        in_treasury = treasuryAddress c,
        in_incentivesController = ZERO_ADDRESS,
        in_underlyingAssetName = symbol,
        in_aTokenName = aTokenNamePrefix c @ '' '' @ symbol,
        in_aTokenSymbol = symbolPrefix c @ symbol,
        in_variableDebtTokenName = variableDebtTokenNamePrefix c @ '' '' @ symbolPrefix c @ symbol,
        in_variableDebtTokenSymbol = ''variableDebt'' @ symbolPrefix c @ symbol,
        in_stableDebtTokenName = stableDebtTokenNamePrefix c @ '' '' @ symbol,
        in_stableDebtTokenSymbol = ''stableDebt'' @ symbolPrefix c @ symbol,
        in_params = ''0x10'' \<rparr>)"

definition batch_init :: "runtime \<Rightarrow> contract \<Rightarrow> init_input list \<Rightarrow> unit io" where
  "batch_init rt configurator initInputParams =
     (let initChunks = 4; chunkedInitInputParams = chunk initInputParams initChunks in
      for_each (\<lambda>chunkIndex.
          send_and_wait rt configurator ''batchInitReserve''
            [VList (map init_input_val (chunkedInitInputParams ! chunkIndex))])
        [0..<length chunkedInitInputParams])"

definition initReservesByHelper ::
    "runtime \<Rightarrow> IReserveParams js_obj \<Rightarrow> string js_obj \<Rightarrow> string \<Rightarrow> string \<Rightarrow> string \<Rightarrow> string
      \<Rightarrow> string \<Rightarrow> string option \<Rightarrow> string \<Rightarrow> bool \<Rightarrow> int io" where
  "initReservesByHelper rt reservesParams tokenAddresses aTokenPrefix stablePrefix variablePrefix
      symPrefix admin treasury incentivesController verify =
     bind (getStableAndVariableTokensHelper rt None) (\<lambda>stableAndVariableDeployer.
     bind (getLendingPoolAddressesProvider rt None) (\<lambda>addressProvider.
     bind (deployGenericStableDebtToken rt) (\<lambda>stableDebt.
     bind (deployGenericVariableDebtToken rt) (\<lambda>variableDebt.
     bind (deployGenericATokenImpl rt verify) (\<lambda>aTokenImplementation.
     seq (not_awaited (rawInsertContractAddressInDb rt ''aTokenImpl'' (address aTokenImplementation)))
    (let delegatedAwareReserves =
           filter (\<lambda>(_, params). aTokenImpl params = Id_DelegationAwareAToken) reservesParams
     in bind (if delegatedAwareReserves \<noteq> [] then
                bind (deployDelegationAwareATokenImpl rt verify) (\<lambda>impl.
                seq (not_awaited (rawInsertContractAddressInDb rt ''delegationAwareATokenImpl'' (address impl)))
               (ret (address impl)))
              else ret '''') (\<lambda>delegationAware.
     let reserves = filter (\<lambda>(_, params). aTokenImpl params = Id_DelegationAwareAToken
                              \<or> aTokenImpl params = Id_AToken) reservesParams
     in bind (fold_io (init_reserve rt addressProvider tokenAddresses verify) init_start reserves) (\<lambda>st.
     let common = \<lparr> stableDebtTokenImplementationAddress = address stableDebt,
            variableDebtTokenImplementationAddress = address variableDebt,
            aTokenImplementationAddress = address aTokenImplementation,
            delegationAwareATokenImplementationAddress = delegationAware,
            treasuryAddress = treasury, aTokenNamePrefix = aTokenPrefix,
            stableDebtTokenNamePrefix = stablePrefix, variableDebtTokenNamePrefix = variablePrefix,
            symbolPrefix = symPrefix \<rparr>;
         initInputParams = map (init_params common st) [0..<length (reserveSymbols st)]
     in bind (getLendingPoolConfiguratorProxy rt None) (\<lambda>configurator.
        seq (batch_init rt configurator initInputParams) (ret 0))))))))))"

section \<open>The pairing of assets and aggregators, second copy\<close>

text \<open>
  The copy in this file also skips three symbols inside the callback, which then returns
  \<open>undefined\<close>; destructuring it is a TypeError.
\<close>

definition getPairsTokenAggregator_init ::
    "string js_obj \<Rightarrow> string js_obj \<Rightarrow> js_error + string list \<times> string list" where
  "getPairsTokenAggregator_init allAssetsAddresses aggregatorsAddresses =
     (let assetsAddressesWithoutEth = obj_omit [''ETH'', ''USD'', ''WETH'', ''CELO''] allAssetsAddresses in
      case map_try (\<lambda>(tokenSymbol, tokenAddress).
             if tokenSymbol \<noteq> ''WETH'' \<and> tokenSymbol \<noteq> ''ETH'' \<and> tokenSymbol \<noteq> ''CELO'' then
               (case entry_at aggregatorsAddresses tokenSymbol of
                  Inl e \<Rightarrow> Inl e
                | Inr aggregatorAddress \<Rightarrow> Inr (Some (tokenAddress, aggregatorAddress)))
             else Inr None) assetsAddressesWithoutEth of
        Inl e \<Rightarrow> Inl e
      | Inr pairs \<Rightarrow>
          if None \<in> set pairs then Inl (JsTypeError ''undefined is not iterable'')
          else Inr (map (\<lambda>p. case p of Some (a, _) \<Rightarrow> a | None \<Rightarrow> '''') pairs,
                    map (\<lambda>p. case p of Some (_, s) \<Rightarrow> s | None \<Rightarrow> '''') pairs))"

section \<open>configureReservesByHelper\<close>

record configure_input =
  cfg_asset :: string
  cfg_baseLTV :: string
  cfg_liquidationThreshold :: string
  cfg_liquidationBonus :: string
  cfg_reserveFactor :: string
  cfg_stableBorrowingEnabled :: bool

definition configure_input_val :: "configure_input \<Rightarrow> js_val" where
  "configure_input_val p = VObj
     [(''asset'', VStr (cfg_asset p)), (''baseLTV'', VStr (cfg_baseLTV p)),
      (''liquidationThreshold'', VStr (cfg_liquidationThreshold p)),
      (''liquidationBonus'', VStr (cfg_liquidationBonus p)),
      (''reserveFactor'', VStr (cfg_reserveFactor p)),
      (''stableBorrowingEnabled'', VBool (cfg_stableBorrowingEnabled p))]"

definition configure_of :: "string \<Rightarrow> IReserveParams \<Rightarrow> configure_input" where
  "configure_of tokenAddress params =
     \<lparr> cfg_asset = tokenAddress, cfg_baseLTV = baseLTVAsCollateral params,
       cfg_liquidationThreshold = liquidationThreshold params,
       cfg_liquidationBonus = liquidationBonus params, cfg_reserveFactor = reserveFactor params,
       cfg_stableBorrowingEnabled = stableBorrowRateEnabled params \<rparr>"

text \<open>One round of the first loop: skip an LTV of -1 and a reserve that is already collateral.\<close>

definition collect_reserve ::
    "runtime \<Rightarrow> string js_obj \<Rightarrow> contract \<Rightarrow> configure_input list \<Rightarrow> string \<times> IReserveParams
      \<Rightarrow> configure_input list io" where
  "collect_reserve rt tokenAddresses helpers inputParams entry =
     (let assetSymbol = fst entry; params = snd entry in
      if baseLTVAsCollateral params = ''-1'' then ret inputParams
      else
        bind (lift_sum (entry_at tokenAddresses assetSymbol)) (\<lambda>tokenAddress.
        bind (call_view rt helpers ''getReserveConfigurationData'' [VStr tokenAddress]) (\<lambda>data.
        bind (lift_sum (val_field data ''usageAsCollateralEnabled'')) (\<lambda>alreadyEnabled.
        if js_truthy alreadyEnabled then ret inputParams
        else ret (inputParams @ [configure_of tokenAddress params])))))"

definition configure_gas :: js_val where
  "configure_gas = VObj [(''gasLimit'', VNum 12000000)]"

definition configureReservesByHelper ::
    "runtime \<Rightarrow> IReserveParams js_obj \<Rightarrow> string js_obj \<Rightarrow> contract \<Rightarrow> string \<Rightarrow> unit io" where
  "configureReservesByHelper rt reservesParams tokenAddresses helpers admin =
     bind (getLendingPoolAddressesProvider rt None) (\<lambda>addressProvider.
     bind (getATokensAndRatesHelper rt None) (\<lambda>atokenAndRatesDeployer.
     bind (fold_io (collect_reserve rt tokenAddresses helpers) [] reservesParams) (\<lambda>inputParams.
     io_when (inputParams \<noteq> [])
       (seq (send_and_wait rt addressProvider ''setPoolAdmin'' [VStr (address atokenAndRatesDeployer)])
       (let enableChunks = 20; chunkedInputParams = chunk inputParams enableChunks in
        seq (for_each (\<lambda>chunkIndex.
              send_and_wait rt atokenAndRatesDeployer ''configureReserves''
                [VList (map configure_input_val (chunkedInputParams ! chunkIndex)), configure_gas])
            [0..<length chunkedInputParams])
       (send_and_wait rt addressProvider ''setPoolAdmin'' [VStr admin]))))))"

section \<open>Batches as traces\<close>

definition init_batches :: "contract \<Rightarrow> init_input list \<Rightarrow> tx_obs list" where
  "init_batches configurator inputs =
     map (\<lambda>b. (signer configurator, address configurator, ''batchInitReserve'',
                [VList (map init_input_val b)])) (chunk inputs 4)"

definition configure_batches :: "contract \<Rightarrow> configure_input list \<Rightarrow> tx_obs list" where
  "configure_batches helper inputs =
     map (\<lambda>b. (signer helper, address helper, ''configureReserves'',
                [VList (map configure_input_val b), configure_gas])) (chunk inputs 20)"

text \<open>The whole configuration: the helper becomes pool admin, the batches, the admin is set back.\<close>

definition configure_trace ::
    "contract \<Rightarrow> contract \<Rightarrow> string \<Rightarrow> configure_input list \<Rightarrow> tx_obs list" where
  "configure_trace provider helper admin inputs =
     (if inputs = [] then []
      else (signer provider, address provider, ''setPoolAdmin'', [VStr (address helper)])
           # configure_batches helper inputs
           @ [(signer provider, address provider, ''setPoolAdmin'', [VStr admin])])"

lemma index_map: "map (\<lambda>i. f (xs ! i)) [0..<length xs] = map f xs"
  by (rule nth_equalityI) simp_all

lemma follows_batch_init: "follows sent (batch_init rt configurator inputs) (init_batches configurator inputs)"
proof -
  have "follows sent (batch_init rt configurator inputs)
      (concat (map (\<lambda>i. [(signer configurator, address configurator, ''batchInitReserve'',
          [VList (map init_input_val (chunk inputs 4 ! i))])]) [0..<length (chunk inputs 4)]))"
    unfolding batch_init_def Let_def by (intro sent.follows_for_each follows_send_and_wait)
  then show ?thesis
    using index_map [of "\<lambda>b. (signer configurator, address configurator, ''batchInitReserve'',
        [VList (map init_input_val b)])" "chunk inputs 4"]
    by (simp add: init_batches_def)
qed

lemma follows_configure_program:
  "follows sent
     (io_when (inputs \<noteq> [])
       (seq (send_and_wait rt provider ''setPoolAdmin'' [VStr (address helper)])
       (seq (for_each (\<lambda>i. send_and_wait rt helper ''configureReserves''
                [VList (map configure_input_val (chunk inputs 20 ! i)), configure_gas])
            [0..<length (chunk inputs 20)])
       (send_and_wait rt provider ''setPoolAdmin'' [VStr admin]))))
     (configure_trace provider helper admin inputs)"
proof (cases "inputs = []")
  case True
  then show ?thesis by (simp add: io_when_def configure_trace_def sent.follows_ret)
next
  case False
  have "follows sent (seq (send_and_wait rt provider ''setPoolAdmin'' [VStr (address helper)])
       (seq (for_each (\<lambda>i. send_and_wait rt helper ''configureReserves''
                [VList (map configure_input_val (chunk inputs 20 ! i)), configure_gas])
            [0..<length (chunk inputs 20)])
       (send_and_wait rt provider ''setPoolAdmin'' [VStr admin])))
     ([(signer provider, address provider, ''setPoolAdmin'', [VStr (address helper)])]
      @ concat (map (\<lambda>i. [(signer helper, address helper, ''configureReserves'',
          [VList (map configure_input_val (chunk inputs 20 ! i)), configure_gas])])
          [0..<length (chunk inputs 20)])
      @ [(signer provider, address provider, ''setPoolAdmin'', [VStr admin])])"
    by (intro sent.follows_seq sent.follows_for_each follows_send_and_wait)
  then show ?thesis
    using False index_map [of "\<lambda>b. (signer helper, address helper, ''configureReserves'',
        [VList (map configure_input_val b), configure_gas])" "chunk inputs 20"]
    by (simp add: io_when_def configure_trace_def configure_batches_def)
qed

section \<open>The selection of reserves to configure\<close>

lemma quiet_collect [quiet_intros]:
  "quiet sent (collect_reserve rt tokens helpers acc entry)"
  unfolding collect_reserve_def Let_def by (auto intro!: quiet_intros)

text \<open>Every input comes from a configured reserve whose LTV is not -1.\<close>

definition configured_from :: "IReserveParams js_obj \<Rightarrow> string js_obj \<Rightarrow> configure_input \<Rightarrow> bool" where
  "configured_from reserves tokens p \<longleftrightarrow>
     (\<exists>s q. (s, q) \<in> set reserves \<and> baseLTVAsCollateral q \<noteq> ''-1''
        \<and> obj_get tokens s = Some (cfg_asset p) \<and> p = configure_of (cfg_asset p) q)"

lemma collect_reserve_ok:
  assumes "collect_reserve rt tokens helpers acc entry h = (Inr acc', h')"
  shows "acc' = acc \<or> (\<exists>p. acc' = acc @ [p] \<and> configured_from [entry] tokens p)"
  using assms
  by (auto simp: collect_reserve_def Let_def ok_simps entry_at_eq configured_from_def configure_of_def
      split: if_splits option.splits) (metis prod.collapse)+

lemma collect_all_ok:
  assumes "fold_io (collect_reserve rt tokens helpers) acc reserves h = (Inr inputs, h')"
  shows "\<exists>new. inputs = acc @ new \<and> (\<forall>p \<in> set new. configured_from reserves tokens p)"
  using assms
proof (induction reserves arbitrary: acc h)
  case Nil
  then show ?case by (simp add: ret_ok)
next
  case (Cons entry reserves)
  then obtain acc1 h1 where step: "collect_reserve rt tokens helpers acc entry h = (Inr acc1, h1)"
    and rest: "fold_io (collect_reserve rt tokens helpers) acc1 reserves h1 = (Inr inputs, h')"
    by (auto simp: bind_ok)
  obtain new where new: "inputs = acc1 @ new" "\<forall>p \<in> set new. configured_from reserves tokens p"
    using Cons.IH [OF rest] by blast
  have mono: "configured_from reserves tokens p \<or> configured_from [entry] tokens p
      \<Longrightarrow> configured_from (entry # reserves) tokens p" for p
    by (auto simp: configured_from_def)
  from collect_reserve_ok [OF step] show ?case
  proof
    assume "acc1 = acc"
    then show ?thesis using new mono by blast
  next
    assume "\<exists>p. acc1 = acc @ [p] \<and> configured_from [entry] tokens p"
    then obtain p where "acc1 = acc @ [p]" "configured_from [entry] tokens p" by blast
    then have "inputs = acc @ (p # new)" "\<forall>q \<in> set (p # new). configured_from (entry # reserves) tokens q"
      using new mono by auto
    then show ?thesis by blast
  qed
qed

section \<open>One rate strategy per name\<close>

definition rate_deploy :: "string \<Rightarrow> IInterestRateStrategyParams \<times> string \<Rightarrow> string \<times> js_val list \<times> string" where
  "rate_deploy provider sa =
     (''DefaultReserveInterestRateStrategy'', map VStr (strategy_args provider (fst sa)), snd sa)"

text \<open>A factory never yields a contract without an address.\<close>

definition addresses_nonempty :: "runtime \<Rightarrow> bool" where
  "addresses_nonempty rt \<longleftrightarrow> (\<forall>h f s args c. ext_deploy rt h f s args = Inr c \<longrightarrow> address c \<noteq> '''')"

lemma deploy_and_save_nonempty:
  "addresses_nonempty rt \<Longrightarrow> deploy_and_save rt f args cid v h = (Inr c, h') \<Longrightarrow> address c \<noteq> ''''"
  by (auto simp: deploy_and_save_def bind_ok deploy_contract_def perform_ok addresses_nonempty_def
      dest!: withSaveAndVerify_result)

text \<open>
  The strategies known so far: \<open>sas\<close> pairs each deployed strategy with its address, and the object
  \<open>strategyAddresses\<close> maps their names to these addresses.
\<close>

definition knows :: "string js_obj \<Rightarrow> (IInterestRateStrategyParams \<times> string) list \<Rightarrow> bool" where
  "knows known sas \<longleftrightarrow> known = map (\<lambda>(s, a). (strategy_name s, a)) sas
     \<and> distinct (map (strategy_name \<circ> fst) sas) \<and> '''' \<notin> set (map snd sas)"

lemma knows_keys: "knows known sas \<Longrightarrow> obj_keys known = map (strategy_name \<circ> fst) sas"
  by (auto simp: knows_def obj_keys_def)

lemma knows_get:
  assumes "knows known sas"
  shows "obj_get known n = Some a \<longleftrightarrow> (\<exists>s. (s, a) \<in> set sas \<and> strategy_name s = n)"
proof -
  have "distinct (obj_keys known)" unfolding knows_keys [OF assms] using assms by (simp add: knows_def)
  then have "distinct (map fst known)" by (simp add: obj_keys_def)
  then have "obj_get known n = Some a \<longleftrightarrow> (n, a) \<in> set known" by (simp add: obj_get_def)
  also have "\<dots> \<longleftrightarrow> (\<exists>s. (s, a) \<in> set sas \<and> strategy_name s = n)"
    using assms by (force simp: knows_def)
  finally show ?thesis .
qed

lemma ensure_strategy_ok:
  assumes run: "ensure_strategy rt provider v known s h = (Inr known', h')"
    and ne: "addresses_nonempty rt" and kn: "knows known sas"
  shows "\<exists>new. knows known' (sas @ new)
      \<and> deployed h' = deployed h @ map (rate_deploy (address provider)) new
      \<and> set (map (strategy_name \<circ> fst) (sas @ new)) = insert (strategy_name s) (set (map (strategy_name \<circ> fst) sas))
      \<and> set (map fst new) \<subseteq> {s}"
proof (cases "truthy (obj_get known (strategy_name s))")
  case True
  then obtain a where a: "obj_get known (strategy_name s) = Some a" by (auto dest: truthy_Some)
  then have "strategy_name s \<in> set (map (strategy_name \<circ> fst) sas)"
    using knows_get [OF kn] by force
  moreover have "known' = known" "h' = h"
    using run True by (auto simp: ensure_strategy_def ret_ok)
  ultimately show ?thesis using kn by (intro exI [of _ "[]"]) (auto simp: insert_absorb)
next
  case False
  have fresh: "obj_get known (strategy_name s) = None"
  proof (rule ccontr)
    assume "obj_get known (strategy_name s) \<noteq> None"
    then obtain a where "obj_get known (strategy_name s) = Some a" by blast
    then have "a \<noteq> ''''" using knows_get [OF kn] kn by (force simp: knows_def)
    then show False using False \<open>obj_get known (strategy_name s) = Some a\<close> by simp
  qed
  obtain c h1 where dep: "deploy_and_save rt ''DefaultReserveInterestRateStrategy''
        (map VStr (strategy_args (address provider) s)) Id_DefaultReserveInterestRateStrategy v h = (Inr c, h1)"
    and known': "known' = obj_set known (strategy_name s) (address c)"
    and h': "h' = snd (rawInsertContractAddressInDb rt (strategy_name s) (address c) h1)"
    using run False
    by (auto simp: ensure_strategy_def deployDefaultReserveInterestRateStrategy_def ok_simps)
  have notin: "strategy_name s \<notin> set (obj_keys known)" using fresh by (simp add: obj_get_None_iff)
  then have "known' = known @ [(strategy_name s, address c)]" by (simp add: known' obj_set_fresh)
  moreover have "address c \<noteq> ''''" by (rule deploy_and_save_nonempty [OF ne dep])
  moreover have "deployed h' = deployed h1"
    using quiet_registry(6) [of rt "strategy_name s" "address c"] by (simp add: h' quiet_def)
  ultimately show ?thesis using kn notin deploy_and_save_result(1) [OF dep] knows_keys [OF kn]
    by (intro exI [of _ "[(s, address c)]"]) (auto simp: knows_def rate_deploy_def)
qed

text \<open>What the loop over the reserves has established when it ends.\<close>

definition init_done ::
    "IReserveParams js_obj \<Rightarrow> string js_obj \<Rightarrow> (IInterestRateStrategyParams \<times> string) list \<Rightarrow> init_state \<Rightarrow> bool" where
  "init_done reserves tokens sas st \<longleftrightarrow>
     knows (strategyAddresses st) sas
     \<and> set (map (strategy_name \<circ> fst) sas) = (strategy_name \<circ> strategy) ` set (map snd reserves)
     \<and> set (map fst sas) \<subseteq> strategy ` set (map snd reserves)
     \<and> reserveSymbols st = map fst reserves
     \<and> reserveInitDecimals st = map (reserveDecimals \<circ> snd) reserves
     \<and> reserveTokens st = map (\<lambda>(s, _). obj_get tokens s) reserves
     \<and> (\<forall>(s, p) \<in> set reserves.
          obj_get (strategyAddressPerAsset st) s = Some (obj_get (strategyAddresses st) (strategy_name (strategy p)))
          \<and> obj_get (aTokenType st) s = Some (if aTokenImpl p = Id_AToken then ''generic'' else ''delegation aware''))"

definition initializable :: "IReserveParams \<Rightarrow> bool" where
  "initializable p \<longleftrightarrow> aTokenImpl p = Id_DelegationAwareAToken \<or> aTokenImpl p = Id_AToken"

lemma init_done_step:
  assumes inv: "init_done prev tokens sas st"
    and run: "init_reserve rt provider tokens v st (sy, p) h = (Inr st', h')"
    and ne: "addresses_nonempty rt" and fresh: "sy \<notin> set (map fst prev)" and impl: "initializable p"
  shows "\<exists>new. init_done (prev @ [(sy, p)]) tokens (sas @ new) st'
      \<and> deployed h' = deployed h @ map (rate_deploy (address provider)) new"
proof -
  let ?n = "strategy_name (strategy p)"
  obtain known where ens: "ensure_strategy rt provider v (strategyAddresses st) (strategy p) h = (Inr known, h')"
    and st': "st' = st\<lparr> strategyAddresses := known,
        strategyAddressPerAsset := obj_set (strategyAddressPerAsset st) sy (obj_get known ?n),
        aTokenType := (if aTokenImpl p = Id_AToken then obj_set (aTokenType st) sy ''generic''
           else if aTokenImpl p = Id_DelegationAwareAToken then obj_set (aTokenType st) sy ''delegation aware''
           else aTokenType st),
        reserveInitDecimals := reserveInitDecimals st @ [reserveDecimals p],
        reserveTokens := reserveTokens st @ [obj_get tokens sy],
        reserveSymbols := reserveSymbols st @ [sy] \<rparr>"
    using run by (auto simp: init_reserve_def Let_def ok_simps)
  have kn: "knows (strategyAddresses st) sas" using inv by (simp add: init_done_def)
  obtain new where kn': "knows known (sas @ new)"
    and dep: "deployed h' = deployed h @ map (rate_deploy (address provider)) new"
    and names: "set (map (strategy_name \<circ> fst) (sas @ new)) = insert ?n (set (map (strategy_name \<circ> fst) sas))"
    and orig: "set (map fst new) \<subseteq> {strategy p}"
    using ensure_strategy_ok [OF ens ne kn] by blast
  have keep: "obj_get known m = obj_get (strategyAddresses st) m" if had: "obj_get (strategyAddresses st) m = Some a" for m a
  proof -
    obtain s where "(s, a) \<in> set sas" "strategy_name s = m" using had knows_get [OF kn, of m a] by blast
    then have "obj_get known m = Some a" using knows_get [OF kn', of m a] by auto
    then show ?thesis using had by simp
  qed
  have old: "obj_get known (strategy_name (strategy q)) = obj_get (strategyAddresses st) (strategy_name (strategy q))"
    if memb: "(s, q) \<in> set prev" for s q
  proof -
    have "q \<in> set (map snd prev)" using memb by force
    moreover have "set (map (strategy_name \<circ> fst) sas) = (strategy_name \<circ> strategy) ` set (map snd prev)"
      using inv unfolding init_done_def by blast
    ultimately have "strategy_name (strategy q) \<in> set (map (strategy_name \<circ> fst) sas)" by simp
    then obtain s0 a where "(s0, a) \<in> set sas" "strategy_name s0 = strategy_name (strategy q)" by auto
    then have "obj_get (strategyAddresses st) (strategy_name (strategy q)) = Some a"
      using knows_get [OF kn, of "strategy_name (strategy q)" a] by blast
    then show ?thesis by (rule keep)
  qed
  have other: "s \<noteq> sy" if "(s, q) \<in> set prev" for s q using that fresh by force
  have "init_done (prev @ [(sy, p)]) tokens (sas @ new) st'"
    unfolding init_done_def
  proof (intro conjI)
    show "knows (strategyAddresses st') (sas @ new)" using kn' by (simp add: st')
    show "set (map (strategy_name \<circ> fst) (sas @ new)) = (strategy_name \<circ> strategy) ` set (map snd (prev @ [(sy, p)]))"
      using names inv by (simp add: init_done_def)
    show "set (map fst (sas @ new)) \<subseteq> strategy ` set (map snd (prev @ [(sy, p)]))"
      using orig inv by (auto simp: init_done_def)
    show "reserveSymbols st' = map fst (prev @ [(sy, p)])" using inv by (simp add: st' init_done_def)
    show "reserveInitDecimals st' = map (reserveDecimals \<circ> snd) (prev @ [(sy, p)])"
      using inv by (simp add: st' init_done_def)
    show "reserveTokens st' = map (\<lambda>(s, _). obj_get tokens s) (prev @ [(sy, p)])"
      using inv by (simp add: st' init_done_def)
    show "\<forall>(s, q) \<in> set (prev @ [(sy, p)]).
        obj_get (strategyAddressPerAsset st') s = Some (obj_get (strategyAddresses st') (strategy_name (strategy q)))
        \<and> obj_get (aTokenType st') s = Some (if aTokenImpl q = Id_AToken then ''generic'' else ''delegation aware'')"
      using inv impl old other by (fastforce simp: st' init_done_def initializable_def)
  qed
  then show ?thesis using dep by blast
qed

lemma init_done_loop:
  assumes "init_done prev tokens sas st"
    and "fold_io (init_reserve rt provider tokens v) st reserves h = (Inr st', h')"
    and "addresses_nonempty rt" and "distinct (map fst (prev @ reserves))"
    and "\<forall>(_, p) \<in> set reserves. initializable p"
  shows "\<exists>new. init_done (prev @ reserves) tokens (sas @ new) st'
      \<and> deployed h' = deployed h @ map (rate_deploy (address provider)) new"
  using assms
proof (induction reserves arbitrary: prev sas st h)
  case Nil
  then show ?case by (intro exI [of _ "[]"]) (simp add: ret_ok)
next
  case (Cons e reserves)
  obtain sy p where e: "e = (sy, p)" by fastforce
  obtain st1 h1 where step: "init_reserve rt provider tokens v st (sy, p) h = (Inr st1, h1)"
    and rest: "fold_io (init_reserve rt provider tokens v) st1 reserves h1 = (Inr st', h')"
    using Cons.prems(2) e by (auto simp: bind_ok)
  obtain new1 where 1: "init_done (prev @ [(sy, p)]) tokens (sas @ new1) st1"
    "deployed h1 = deployed h @ map (rate_deploy (address provider)) new1"
    using init_done_step [OF Cons.prems(1) step Cons.prems(3)] Cons.prems(4,5) e by auto
  obtain new2 where "init_done ((prev @ [(sy, p)]) @ reserves) tokens ((sas @ new1) @ new2) st'"
    "deployed h' = deployed h1 @ map (rate_deploy (address provider)) new2"
    using Cons.IH [OF 1(1) rest Cons.prems(3)] Cons.prems(4,5) e by auto
  then show ?case using 1(2) e by (intro exI [of _ "new1 @ new2"]) simp
qed

section \<open>A successful initialization\<close>

lemma quiet_init_reserve [quiet_intros]: "quiet sent (init_reserve rt provider tokens v st e)"
  unfolding init_reserve_def ensure_strategy_def Let_def by (auto intro!: quiet_intros)

lemma quiet_batch_init [quiet_intros]: "quiet deployed (batch_init rt configurator inputs)"
  unfolding batch_init_def Let_def for_each_def by (intro quiet_intros)

definition impl_deploys :: "init_common \<Rightarrow> bool \<Rightarrow> (string \<times> js_val list \<times> string) list" where
  "impl_deploys c delegated =
     [(''StableDebtToken'', [], stableDebtTokenImplementationAddress c),
      (''VariableDebtToken'', [], variableDebtTokenImplementationAddress c),
      (''AToken'', [], aTokenImplementationAddress c)]
     @ (if delegated then [(''DelegationAwareAToken'', [], delegationAwareATokenImplementationAddress c)] else [])"

definition has_delegated :: "IReserveParams js_obj \<Rightarrow> bool" where
  "has_delegated reserves \<longleftrightarrow> filter (\<lambda>(_, params). aTokenImpl params = Id_DelegationAwareAToken) reserves \<noteq> []"

definition selected_reserves :: "IReserveParams js_obj \<Rightarrow> IReserveParams js_obj" where
  "selected_reserves reserves = filter (\<lambda>(_, params). aTokenImpl params = Id_DelegationAwareAToken
     \<or> aTokenImpl params = Id_AToken) reserves"

lemma selected_initializable: "\<forall>(_, p) \<in> set (selected_reserves reserves). initializable p"
  by (auto simp: selected_reserves_def initializable_def)

lemma selected_all: "\<forall>(_, p) \<in> set reserves. initializable p \<Longrightarrow> selected_reserves reserves = reserves"
  by (auto simp: selected_reserves_def initializable_def filter_id_conv)

lemma getter_trace:
  assumes "connect_or_db rt f cid addr h = (Inr c, h')"
  shows "sent h' = sent h" and "deployed h' = deployed h" and "db_writes h' = db_writes h"
  using assms by (auto dest: quietD [OF quiet_connect_or_db(1)] quietD [OF quiet_connect_or_db(2)]
      quietD [OF quiet_connect_or_db(3)])

lemma deploy_and_save_sent: "deploy_and_save rt f args cid v h = (Inr c, h') \<Longrightarrow> sent h' = sent h"
  by (rule quietD [OF quiet_deploy_and_save])

lemma raw_insert_trace:
  "sent (snd (rawInsertContractAddressInDb rt cid a h)) = sent h"
  "deployed (snd (rawInsertContractAddressInDb rt cid a h)) = deployed h"
  using quiet_registry(5,6) by (simp_all add: quiet_def)

definition init_common_of ::
    "contract \<Rightarrow> contract \<Rightarrow> contract \<Rightarrow> string \<Rightarrow> string option \<Rightarrow> string \<Rightarrow> string \<Rightarrow> string \<Rightarrow> string \<Rightarrow> init_common" where
  "init_common_of stableDebt variableDebt aTok delegationAware treasury aTokenPrefix stablePrefix
      variablePrefix symPrefix =
     \<lparr> stableDebtTokenImplementationAddress = address stableDebt,
       variableDebtTokenImplementationAddress = address variableDebt,
       aTokenImplementationAddress = address aTok,
       delegationAwareATokenImplementationAddress = delegationAware,
       treasuryAddress = treasury, aTokenNamePrefix = aTokenPrefix,
       stableDebtTokenNamePrefix = stablePrefix, variableDebtTokenNamePrefix = variablePrefix,
       symbolPrefix = symPrefix \<rparr>"

text \<open>The two phases of a successful run: implementations and strategies, then the batches.\<close>

lemma init_core:
  assumes run: "initReservesByHelper rt reserves tokens aP sP vP syP admin treasury inc v h = (Inr g, h')"
    and ne: "addresses_nonempty rt" and dist: "distinct (map fst reserves)"
  obtains provider configurator c st sas where
    "init_done (selected_reserves reserves) tokens sas st"
    "sent h' = sent h @ init_batches configurator (map (init_params c st) [0..<length (reserveSymbols st)])"
    "deployed h' = deployed h @ impl_deploys c (has_delegated reserves) @ map (rate_deploy provider) sas"
    "treasuryAddress c = treasury" "aTokenNamePrefix c = aP" "symbolPrefix c = syP"
proof -
  obtain stab h1 prov h2 sd h3 vd h4 aT h5 dl h6 st h7 conf h8 where
    g1: "getStableAndVariableTokensHelper rt None h = (Inr stab, h1)" and
    g2: "getLendingPoolAddressesProvider rt None h1 = (Inr prov, h2)" and
    d1: "deployGenericStableDebtToken rt h2 = (Inr sd, h3)" and
    d2: "deployGenericVariableDebtToken rt h3 = (Inr vd, h4)" and
    d3: "deployGenericATokenImpl rt v h4 = (Inr aT, h5)" and
    d4: "(if has_delegated reserves then
            bind (deployDelegationAwareATokenImpl rt v) (\<lambda>impl.
              seq (not_awaited (rawInsertContractAddressInDb rt ''delegationAwareATokenImpl'' (address impl)))
               (ret (address impl)))
          else ret '''') (snd (rawInsertContractAddressInDb rt ''aTokenImpl'' (address aT) h5)) = (Inr dl, h6)" and
    lp: "fold_io (init_reserve rt prov tokens v) init_start (selected_reserves reserves) h6 = (Inr st, h7)" and
    g3: "getLendingPoolConfiguratorProxy rt None h7 = (Inr conf, h8)" and
    bt: "batch_init rt conf (map (init_params (init_common_of sd vd aT dl treasury aP sP vP syP) st)
            [0..<length (reserveSymbols st)]) h8 = (Inr (), h')"
    using run unfolding initReservesByHelper_def Let_def has_delegated_def selected_reserves_def
      init_common_of_def
    by (auto simp: bind_ok seq_ok not_awaited_ok ret_ok)
  let ?c = "init_common_of sd vd aT dl treasury aP sP vP syP"
  note simple = deployGenericStableDebtToken_def deployGenericVariableDebtToken_def
    deployGenericATokenImpl_def deployDelegationAwareATokenImpl_def
  have start: "init_done [] tokens [] init_start"
    by (simp add: init_done_def init_start_def knows_def)
  have distsel: "distinct (map fst (selected_reserves reserves))"
    unfolding selected_reserves_def using dist by (rule distinct_map_filter)
  have dl: "deployed h6 = deployed h5 @ (if has_delegated reserves then [(''DelegationAwareAToken'', [], dl)] else [])"
    using d4 by (auto simp: bind_ok seq_ok not_awaited_ok ret_ok raw_insert_trace simple
        dest: deploy_and_save_result(1) split: if_splits)
  have sl: "sent h6 = sent h5"
    using d4 by (auto simp: bind_ok seq_ok not_awaited_ok ret_ok raw_insert_trace simple
        dest: deploy_and_save_sent split: if_splits)
  obtain sas where inv: "init_done (selected_reserves reserves) tokens sas st"
    and ds: "deployed h7 = deployed h6 @ map (rate_deploy (address prov)) sas"
    using init_done_loop [OF start lp ne] distsel selected_initializable by auto
  have sent': "sent h' = sent h8 @ init_batches conf (map (init_params ?c st) [0..<length (reserveSymbols st)])"
    using sent.follows_ok [OF follows_batch_init bt] .
  have s7: "sent h7 = sent h6" by (rule quietD [OF sent.quiet_fold [OF quiet_init_reserve] lp])
  have getters: "sent h1 = sent h" "sent h2 = sent h1" "sent h8 = sent h7"
      "deployed h1 = deployed h" "deployed h2 = deployed h1" "deployed h8 = deployed h7"
    using g1 g2 g3 by (auto simp: getStableAndVariableTokensHelper_def getLendingPoolAddressesProvider_def
        getLendingPoolConfiguratorProxy_def dest: getter_trace)
  have impls_sent: "sent h5 = sent h2"
    using d1 [unfolded simple, THEN deploy_and_save_sent] d2 [unfolded simple, THEN deploy_and_save_sent]
      d3 [unfolded simple, THEN deploy_and_save_sent] by simp
  have impls: "deployed h5 = deployed h2 @ [(''StableDebtToken'', [], address sd),
      (''VariableDebtToken'', [], address vd), (''AToken'', [], address aT)]"
    using d1 [unfolded simple, THEN deploy_and_save_result(1)]
      d2 [unfolded simple, THEN deploy_and_save_result(1)]
      d3 [unfolded simple, THEN deploy_and_save_result(1)] by simp
  show thesis
  proof (rule that [of sas st conf ?c "address prov"])
    show "init_done (selected_reserves reserves) tokens sas st" by (rule inv)
    show "sent h' = sent h @ init_batches conf (map (init_params ?c st) [0..<length (reserveSymbols st)])"
      using sent' getters impls_sent sl s7 by simp
    show "deployed h' = deployed h @ impl_deploys ?c (has_delegated reserves) @ map (rate_deploy (address prov)) sas"
      using quietD [OF quiet_batch_init bt] ds dl impls getters
      by (auto simp: impl_deploys_def init_common_of_def)
  qed (simp_all add: init_common_of_def)
qed

end
