(* ===== verification/Registry.thy ===== *)
theory Registry
  imports ContractsHelpers
begin

text \<open>
  The JSON registry as its clients see it. lowdb is not in the repository; its documented behaviour
  with the synchronous file adapter is that \<open>get(path)\<close> yields what the last \<open>set(path, entry).write()\<close>
  stored. The locale \<open>json_registry\<close> states this of a lookup function on histories and proves what
  the clients need; it is interpreted on \<open>reg_lookup\<close>, and a runtime whose \<open>get\<close> answers by
  \<open>reg_lookup\<close> is \<open>db_lawful\<close>. The lemmas connect deployment (a write) and the getters (a read).
\<close>

section \<open>The interface\<close>

locale json_registry =
  fixes lookup :: "history \<Rightarrow> string \<Rightarrow> db_entry option"
  assumes lookup_same: "db_writes h' = db_writes h \<Longrightarrow> lookup h' = lookup h"
    and lookup_write: "db_writes h' = db_writes h @ [(p, e)] \<Longrightarrow> lookup h' = (lookup h)(p \<mapsto> e)"
begin

lemma lookup_written: "db_writes h' = db_writes h @ [(p, e)] \<Longrightarrow> lookup h' p = Some e"
  by (simp add: lookup_write)

lemma lookup_other: "db_writes h' = db_writes h @ [(p, e)] \<Longrightarrow> q \<noteq> p \<Longrightarrow> lookup h' q = lookup h q"
  by (simp add: lookup_write)

text \<open>The last write to a path counts, and writes to other paths do not matter.\<close>

lemma lookup_after:
  assumes "db_writes h' = db_writes h @ ws"
  shows "lookup h' p = (case map_of (rev ws) p of None \<Rightarrow> lookup h p | Some e \<Rightarrow> Some e)"
  using assms
proof (induction ws arbitrary: h' rule: rev_induct)
  case Nil
  then show ?case using lookup_same [of h' h] by simp
next
  case (snoc w ws)
  obtain q e where w: "w = (q, e)" by fastforce
  define h1 where "h1 = h @ map (\<lambda>(p, e). EvOk (ReqDbSet p e) ReplyUnit) ws"
  have "db_writes (map (\<lambda>(p, e). EvOk (ReqDbSet p e) ReplyUnit) ws) = ws"
    by (induction ws) auto
  then have h1: "db_writes h1 = db_writes h @ ws"
    by (simp add: h1_def db_writes.proj_append)
  then have "db_writes h' = db_writes h1 @ [(q, e)]" using snoc.prems w by simp
  then have "lookup h' p = ((lookup h1)(q \<mapsto> e)) p" by (simp add: lookup_write)
  then show ?case using snoc.IH [OF h1] w by simp
qed

text \<open>A write that no later write overwrites.\<close>

lemma lookup_last:
  assumes "db_writes h' = db_writes h @ us @ [(p, e)] @ ts" and "p \<notin> fst ` set ts"
  shows "lookup h' p = Some e"
proof -
  have "map_of (rev ts) p = None" using assms(2) by (simp add: map_of_eq_None_iff)
  then have "map_of (rev (us @ [(p, e)] @ ts)) p = Some e" by (simp add: map_add_def)
  then show ?thesis using lookup_after [OF assms(1)] by simp
qed

end

section \<open>The model of the file\<close>

definition reg_lookup :: "(string \<Rightarrow> db_entry option) \<Rightarrow> history \<Rightarrow> string \<Rightarrow> db_entry option" where
  "reg_lookup db0 h p = (case map_of (rev (db_writes h)) p of None \<Rightarrow> db0 p | Some e \<Rightarrow> Some e)"

interpretation reg: json_registry "reg_lookup db0" for db0
  by unfold_locales (auto simp: reg_lookup_def fun_eq_iff)

definition db_lawful :: "runtime \<Rightarrow> (string \<Rightarrow> db_entry option) \<Rightarrow> bool" where
  "db_lawful rt db0 \<longleftrightarrow> (\<forall>h p. ext_db_get rt h p = Inr (reg_lookup db0 h p))"

section \<open>Reading what was written\<close>

lemma db_path_inject [simp]: "db_path rt a = db_path rt b \<longleftrightarrow> a = b"
  by (simp add: db_path_def)

lemma db_get_lawful:
  "db_lawful rt db0 \<Longrightarrow>
    db_get rt p h = (Inr (reg_lookup db0 h p), h @ [EvOk (ReqDbGet p) (ReplyEntry (reg_lookup db0 h p))])"
  by (simp add: db_get_def perform_def db_lawful_def)

lemma db_address_lawful:
  assumes "db_lawful rt db0" and "reg_lookup db0 h (db_path rt cid) = Some e"
  shows "db_address rt cid h =
    (Inr (entry_address e), h @ [EvOk (ReqDbGet (db_path rt cid)) (ReplyEntry (Some e))])"
  using assms by (simp add: db_address_def bind_def db_get_lawful ret_def)

lemma db_address_missing:
  assumes "db_lawful rt db0" and "reg_lookup db0 h (db_path rt cid) = None"
  shows "fst (db_address rt cid h) = Inl (JsTypeError ''Cannot read property address of undefined'')"
  using assms by (simp add: db_address_def bind_def db_get_lawful throw_def)

lemma connect_or_db_lawful:
  assumes "db_lawful rt db0" and "\<not> truthy addr"
    and "reg_lookup db0 h (db_path rt (contract_id cid)) = Some e"
  shows "fst (connect_or_db rt f cid addr h) = Inr (connect_at rt f (entry_address e))"
  using assms by (simp add: connect_or_db_falsy bind_def db_address_lawful ret_def)

text \<open>A getter right after a registered write returns that address.\<close>

lemma registered_then_connected:
  assumes "db_lawful rt db0" and "db_writes h' = db_writes h @ ws @ [(db_path rt (contract_id cid), e)]"
    and "\<not> truthy addr"
  shows "fst (connect_or_db rt f cid addr h') = Inr (connect_at rt f (entry_address e))"
  by (rule connect_or_db_lawful [OF assms(1,3)])
     (use reg.lookup_after [of h' h "ws @ [(db_path rt (contract_id cid), e)]" db0] assms(2) in simp)

end
