(* ===== verification/Demo.thy ===== *)
theory Demo
  imports Registry
begin

text \<open>
  A small concrete runtime for the witnesses: deployments succeed at fresh addresses, transactions
  and calls succeed, and the registry is the model of \<open>Registry\<close>. \<open>demo_db\<close> has an entry for every
  contract id on the network \<open>celo\<close>.
\<close>

definition demo_db :: "string \<Rightarrow> db_entry option" where
  "demo_db p = Some \<lparr> entry_address = ''0x'' @ p, entry_deployer = None \<rparr>"

definition demo_rt :: runtime where
  "demo_rt = \<lparr> network_name = ''celo'', env_var = (\<lambda>_. None), chain_id = Some 42220,
     signer_addresses = [''0xdeployer'', ''0xsecond''],
     ext_deploy = (\<lambda>h f s args. Inr \<lparr> abi = f, address = ''0x'' @ replicate (length h) CHR ''1'',
        signer = s, deployer = Some ''0xdeployer'' \<rparr>),
     ext_send = (\<lambda>h s a m args. Inr ''tx''),
     ext_wait = (\<lambda>h tx. Inr ()),
     ext_call = (\<lambda>h a m args. Inr (VObj [(''usageAsCollateralEnabled'', VBool False)])),
     ext_db_get = (\<lambda>h p. Inr (reg_lookup demo_db h p)),
     ext_db_set = (\<lambda>h p e. Inr ()),
     ext_rpc = (\<lambda>h m args. Inr VNull),
     ext_run = (\<lambda>h t p. Inr ()),
     ext_tmp = (\<lambda>h args. Inr ''/tmp/verify-params-1.js''),
     deploy_tx = (\<lambda>c. ''deployment of '' @ abi c) \<rparr>"

lemma demo_lawful: "db_lawful demo_rt demo_db"
  by (simp add: db_lawful_def demo_rt_def)

text \<open>The same runtime with every transaction of one method rejected.\<close>

definition rejecting :: "string \<Rightarrow> runtime" where
  "rejecting method = demo_rt\<lparr> ext_send := (\<lambda>h s a m args.
     if m = method then Inl (JsRejected ''execution reverted'') else Inr ''tx'') \<rparr>"

end
