(* ===== verification/InitTheorems.thy ===== *)
theory InitTheorems
  imports InitHelpers Demo
begin

text \<open>
  What the initialization helpers do to the chain: the transactions of \<open>configureReservesByHelper\<close> in
  order, on success and on failure; the inputs of \<open>initReservesByHelper\<close> and the rate strategies
  behind them; the two copies of \<open>getPairsTokenAggregator\<close>.
\<close>

section \<open>Configuring reserves\<close>

lemma issues_configureReserves:
  "issues sent (configureReservesByHelper rt reserves tokens helpers admin)
    (\<lambda>T. \<exists>provider helper inputs. T = configure_trace provider helper admin inputs
      \<and> (\<forall>p \<in> set inputs. configured_from reserves tokens p))"
  (is "issues sent _ ?P")
proof -
  have P0: "?P []" by (intro exI [of _ "[]"] exI) (simp add: configure_trace_def)
  show ?thesis
    unfolding configureReservesByHelper_def getLendingPoolAddressesProvider_def getATokensAndRatesHelper_def
      Let_def
  proof (intro sent.issues_quiet_bind [where P = ?P, OF _ P0])
    fix provider helper inputs and h1 h2 :: history
    assume "fold_io (collect_reserve rt tokens helpers) [] reserves h1 = (Inr inputs, h2)"
    then have "\<forall>p \<in> set inputs. configured_from reserves tokens p" using collect_all_ok by fastforce
    then show "issues sent (io_when (inputs \<noteq> [])
        (seq (send_and_wait rt provider ''setPoolAdmin'' [VStr (address helper)])
        (seq (for_each (\<lambda>i. send_and_wait rt helper ''configureReserves''
                 [VList (map configure_input_val (chunk inputs 20 ! i)), configure_gas])
             [0..<length (chunk inputs 20)])
        (send_and_wait rt provider ''setPoolAdmin'' [VStr admin])))) ?P"
      by (intro sent.issues_follows [OF follows_configure_program]) blast
  qed (auto intro!: quiet_intros)
qed

text \<open>
  C7. Whatever happens, the transactions \<open>configureReservesByHelper\<close> sends are a prefix of: make the
  helper pool admin, one \<open>configureReserves\<close> per batch, make \<open>admin\<close> pool admin again; all of it when
  the run succeeds. Every configured asset is the address of a reserve whose LTV is not -1, with that
  reserve's parameters.
\<close>

theorem configureReserves_order:
  assumes "configureReservesByHelper rt reserves tokens helpers admin h = (r, h')"
  shows "\<exists>provider helper inputs t. sent h' = sent h @ t
      \<and> prefix t (configure_trace provider helper admin inputs)
      \<and> (r = Inr () \<longrightarrow> t = configure_trace provider helper admin inputs)
      \<and> (\<forall>p \<in> set inputs. configured_from reserves tokens p)"
  using issuesD [OF issues_configureReserves assms] by (cases r) auto

definition demo_strategy :: IInterestRateStrategyParams where
  "demo_strategy = \<lparr> strategy_name = ''rateStrategy'', optimalUtilizationRate = ''1'',
     baseVariableBorrowRate = ''0'', variableRateSlope1 = ''0'', variableRateSlope2 = ''0'',
     stableRateSlope1 = ''0'', stableRateSlope2 = ''0'' \<rparr>"

definition demo_reserve :: "string \<Rightarrow> IReserveParams" where
  "demo_reserve ltv = \<lparr> strategy = demo_strategy, baseLTVAsCollateral = ltv,
     liquidationThreshold = ''8000'', liquidationBonus = ''10500'', borrowingEnabled = True,
     stableBorrowRateEnabled = True, reserveDecimals = ''18'', aTokenImpl = Id_AToken,
     reserveFactor = ''1000'' \<rparr>"

definition demo_reserves :: "IReserveParams js_obj" where
  "demo_reserves = [(''CUSD'', demo_reserve ''7500''), (''MOO'', demo_reserve ''-1''), (''CELO'', demo_reserve ''8000'')]"

definition demo_tokens :: "string js_obj" where
  "demo_tokens = [(''CELO'', ''0xcelo''), (''CUSD'', ''0xcusd''), (''MOO'', ''0xmoo'')]"

definition demo_data :: contract where
  "demo_data = connect_at demo_rt ''AaveProtocolDataProvider'' ''0xdata''"

lemma demo_configure: "fst (configureReservesByHelper demo_rt demo_reserves demo_tokens demo_data ''0xadmin'' []) = Inr ()"
  by code_simp

lemma configureReserves_order_witness:
  "\<exists>provider helper inputs. sent (snd (configureReservesByHelper demo_rt demo_reserves demo_tokens demo_data ''0xadmin'' []))
      = configure_trace provider helper ''0xadmin'' inputs"
  using configureReserves_order [of demo_rt demo_reserves demo_tokens demo_data "''0xadmin''" "[]" "Inr ()"
      "snd (configureReservesByHelper demo_rt demo_reserves demo_tokens demo_data ''0xadmin'' [])"]
    demo_configure by (auto simp: prod_eq_iff)

section \<open>Which reserves are configured\<close>

text \<open>
  The view call answers the same during the collection (no transaction is sent in between):
  \<open>en a\<close> says whether the reserve of asset \<open>a\<close> is already enabled as collateral.
\<close>

definition view_enabled :: "runtime \<Rightarrow> contract \<Rightarrow> (string \<Rightarrow> bool) \<Rightarrow> bool" where
  "view_enabled rt data en \<longleftrightarrow> (\<forall>h a. \<exists>fs.
     ext_call rt h (address data) ''getReserveConfigurationData'' [VStr a] = Inr (VObj fs)
     \<and> map_of fs ''usageAsCollateralEnabled'' = Some (VBool (en a)))"

definition configure_inputs ::
    "(string \<Rightarrow> bool) \<Rightarrow> string js_obj \<Rightarrow> IReserveParams js_obj \<Rightarrow> configure_input list" where
  "configure_inputs en tokens reserves = concat (map (\<lambda>(s, q).
     case obj_get tokens s of None \<Rightarrow> []
     | Some a \<Rightarrow> if baseLTVAsCollateral q = ''-1'' \<or> en a then [] else [configure_of a q]) reserves)"

lemma collect_exact_step:
  assumes "collect_reserve rt tokens data acc (s, q) h = (Inr acc', h')" and "view_enabled rt data en"
  shows "acc' = acc @ configure_inputs en tokens [(s, q)]"
proof -
  obtain fs where view: "ext_call rt h (address data) ''getReserveConfigurationData'' [VStr a] = Inr (VObj (fs a))"
    "map_of (fs a) ''usageAsCollateralEnabled'' = Some (VBool (en a))" for a
    using assms(2) unfolding view_enabled_def by metis
  show ?thesis using assms(1) view
    by (auto simp: collect_reserve_def configure_inputs_def Let_def ok_simps entry_at_eq call_view_def
        split: if_splits option.splits)
qed

lemma collect_exact:
  assumes "fold_io (collect_reserve rt tokens data) acc reserves h = (Inr inputs, h')" and "view_enabled rt data en"
  shows "inputs = acc @ configure_inputs en tokens reserves"
  using assms(1)
proof (induction reserves arbitrary: acc h)
  case Nil
  then show ?case by (simp add: ret_ok configure_inputs_def)
next
  case (Cons e reserves)
  obtain s q where e: "e = (s, q)" by fastforce
  obtain acc1 h1 where "collect_reserve rt tokens data acc (s, q) h = (Inr acc1, h1)"
    and rest: "fold_io (collect_reserve rt tokens data) acc1 reserves h1 = (Inr inputs, h')"
    using Cons.prems e by (auto simp: bind_ok)
  then have "acc1 = acc @ configure_inputs en tokens [(s, q)]" using collect_exact_step assms(2) by blast
  then show ?case using Cons.IH [OF rest] e by (simp add: configure_inputs_def)
qed

text \<open>
  When \<open>configureReservesByHelper\<close> succeeds, it has configured exactly the reserves whose LTV is
  not -1 and that were not collateral before, each with its own parameters, in the order of the
  configuration, in batches between the two changes of the pool admin.
\<close>

theorem configureReserves_exact:
  assumes "configureReservesByHelper rt reserves tokens data admin h = (Inr (), h')"
    and "view_enabled rt data en"
  shows "\<exists>provider helper. sent h' = sent h
      @ configure_trace provider helper admin (configure_inputs en tokens reserves)"
proof -
  obtain provider h1 helper h2 inputs h3 where
    1: "getLendingPoolAddressesProvider rt None h = (Inr provider, h1)" and
    2: "getATokensAndRatesHelper rt None h1 = (Inr helper, h2)" and
    3: "fold_io (collect_reserve rt tokens data) [] reserves h2 = (Inr inputs, h3)" and
    4: "io_when (inputs \<noteq> [])
         (seq (send_and_wait rt provider ''setPoolAdmin'' [VStr (address helper)])
         (seq (for_each (\<lambda>i. send_and_wait rt helper ''configureReserves''
                  [VList (map configure_input_val (chunk inputs 20 ! i)), configure_gas])
              [0..<length (chunk inputs 20)])
         (send_and_wait rt provider ''setPoolAdmin'' [VStr admin]))) h3 = (Inr (), h')"
    using assms(1) unfolding configureReservesByHelper_def Let_def bind_ok by blast
  have "sent h1 = sent h" "sent h2 = sent h1"
    using 1 2 by (auto simp: getLendingPoolAddressesProvider_def getATokensAndRatesHelper_def dest: getter_trace)
  moreover have "sent h3 = sent h2" by (rule quietD [OF sent.quiet_fold [OF quiet_collect] 3])
  moreover have "inputs = configure_inputs en tokens reserves" using collect_exact [OF 3 assms(2)] by simp
  ultimately show ?thesis using sent.follows_ok [OF follows_configure_program 4] by metis
qed

lemma demo_view: "view_enabled demo_rt demo_data (\<lambda>_. False)"
  by (simp add: view_enabled_def demo_rt_def)

lemma configureReserves_exact_witness:
  "\<exists>provider helper. sent (snd (configureReservesByHelper demo_rt demo_reserves demo_tokens demo_data ''0xadmin'' []))
      = configure_trace provider helper ''0xadmin''
          [configure_of ''0xcusd'' (demo_reserve ''7500''), configure_of ''0xcelo'' (demo_reserve ''8000'')]"
proof -
  have "configure_inputs (\<lambda>_. False) demo_tokens demo_reserves
      = [configure_of ''0xcusd'' (demo_reserve ''7500''), configure_of ''0xcelo'' (demo_reserve ''8000'')]"
    by code_simp
  then show ?thesis
    using configureReserves_exact [OF _ demo_view, of demo_reserves demo_tokens "''0xadmin''" "[]"]
      demo_configure by (metis prod.collapse sent.proj_append append_Nil proj_Nil(1))
qed

text \<open>
  \<open>borrowingEnabled\<close> has no influence on what \<open>configureReservesByHelper\<close> does: a market that
  disables borrowing of a reserve configures it like any other.
\<close>

theorem configureReserves_ignores_borrowingEnabled:
  "configureReservesByHelper rt (map (\<lambda>(s, p). (s, p\<lparr>borrowingEnabled := b s\<rparr>)) reserves) tokens data admin
     = configureReservesByHelper rt reserves tokens data admin"
proof -
  have step: "collect_reserve rt tokens data acc (s, p\<lparr>borrowingEnabled := b s\<rparr>)
      = collect_reserve rt tokens data acc (s, p)" for acc s p
  proof -
    have "configure_of a (p\<lparr>borrowingEnabled := b s\<rparr>) = configure_of a p" for a
      by (simp add: configure_of_def)
    then show ?thesis by (simp add: collect_reserve_def Let_def cong: if_cong)
  qed
  have "fold_io (collect_reserve rt tokens data) acc (map (\<lambda>(s, p). (s, p\<lparr>borrowingEnabled := b s\<rparr>)) reserves)
      = fold_io (collect_reserve rt tokens data) acc reserves" for acc
    by (induction reserves arbitrary: acc) (auto simp: step)
  then show ?thesis by (simp add: configureReservesByHelper_def)
qed

text \<open>
  When the node rejects a \<open>configureReserves\<close> batch, the helper contract stays pool admin: the
  only transaction of the run is the one that hands it the role.
\<close>

theorem configureReserves_rejected:
  "(let run = configureReservesByHelper (rejecting ''configureReserves'') demo_reserves demo_tokens
        demo_data ''0xadmin'' [] in
    fst run = Inl (JsRejected ''execution reverted'')
    \<and> map (\<lambda>(s, a, m, args). (m, args)) (sent (snd run))
      = [(''setPoolAdmin'', [VStr ''0xATokensAndRatesHelper.celo''])])"
  by code_simp

section \<open>Initializing reserves\<close>

text \<open>In one market, reserves that name the same rate strategy have the same strategy.\<close>

definition strategies_consistent :: "IReserveParams js_obj \<Rightarrow> bool" where
  "strategies_consistent reserves \<longleftrightarrow> (\<forall>(_, p) \<in> set reserves. \<forall>(_, q) \<in> set reserves.
     strategy_name (strategy p) = strategy_name (strategy q) \<longrightarrow> strategy p = strategy q)"

lemma init_params_at:
  assumes inv: "init_done reserves tokens sas st" and cons: "strategies_consistent reserves"
    and i: "i < length reserves"
  shows "in_underlyingAssetName (init_params c st i) = fst (reserves ! i)"
    and "in_underlyingAsset (init_params c st i) = obj_get tokens (fst (reserves ! i))"
    and "in_underlyingAssetDecimals (init_params c st i) = reserveDecimals (snd (reserves ! i))"
    and "\<exists>a. in_interestRateStrategyAddress (init_params c st i) = Some a
      \<and> (strategy (snd (reserves ! i)), a) \<in> set sas"
    and "in_aTokenImpl (init_params c st i) = (if aTokenImpl (snd (reserves ! i)) = Id_AToken
      then aTokenImplementationAddress c else delegationAwareATokenImplementationAddress c)"
proof -
  let ?s = "fst (reserves ! i)" and ?p = "snd (reserves ! i)"
  have mem: "(?s, ?p) \<in> set reserves" using i by simp
  have kn: "knows (strategyAddresses st) sas" using inv by (simp add: init_done_def)
  have sym: "reserveSymbols st ! i = ?s" using inv i by (simp add: init_done_def)
  show "in_underlyingAssetName (init_params c st i) = ?s" by (simp add: init_params_def Let_def sym)
  show "in_underlyingAsset (init_params c st i) = obj_get tokens ?s"
    using inv i by (simp add: init_params_def Let_def init_done_def case_prod_beta)
  show "in_underlyingAssetDecimals (init_params c st i) = reserveDecimals ?p"
    using inv i by (simp add: init_params_def Let_def init_done_def)
  have per: "obj_get (strategyAddressPerAsset st) ?s = Some (obj_get (strategyAddresses st) (strategy_name (strategy ?p)))"
    and kind: "obj_get (aTokenType st) ?s = Some (if aTokenImpl ?p = Id_AToken then ''generic'' else ''delegation aware'')"
    using inv mem unfolding init_done_def by fast+
  show "in_aTokenImpl (init_params c st i) = (if aTokenImpl ?p = Id_AToken
      then aTokenImplementationAddress c else delegationAwareATokenImplementationAddress c)"
    by (simp add: init_params_def Let_def sym kind)
  have "strategy_name (strategy ?p) \<in> (strategy_name \<circ> strategy) ` set (map snd reserves)"
    using mem by force
  moreover have "set (map (strategy_name \<circ> fst) sas) = (strategy_name \<circ> strategy) ` set (map snd reserves)"
    using inv unfolding init_done_def by blast
  ultimately have "strategy_name (strategy ?p) \<in> set (map (strategy_name \<circ> fst) sas)" by (simp only:)
  then obtain s0 a where sa: "(s0, a) \<in> set sas" "strategy_name s0 = strategy_name (strategy ?p)" by auto
  have "s0 \<in> strategy ` set (map snd reserves)" using inv sa(1) unfolding init_done_def by force
  then have "s0 = strategy ?p" using cons mem sa(2) unfolding strategies_consistent_def by fastforce
  moreover have "obj_get (strategyAddresses st) (strategy_name (strategy ?p)) = Some a"
    using knows_get [OF kn, of "strategy_name (strategy ?p)" a] sa by blast
  ultimately show "\<exists>a. in_interestRateStrategyAddress (init_params c st i) = Some a \<and> (strategy ?p, a) \<in> set sas"
    using sa(1) by (simp add: init_params_def Let_def sym per)
qed


text \<open>
  C1. When \<open>initReservesByHelper\<close> succeeds for a market of AToken and DelegationAwareAToken reserves
  whose strategy names are unambiguous, the transactions are the batches of one input per reserve, in
  order; each input has the reserve's symbol, asset and decimals, the AToken implementation of its kind
  deployed in this run, and a rate strategy deployed in this run with the reserve's own rates.
\<close>

theorem initReserves_inputs:
  assumes "initReservesByHelper rt reserves tokens aP sP vP syP admin treasury inc v h = (Inr g, h')"
    and "addresses_nonempty rt" and "distinct (map fst reserves)"
    and "\<forall>(_, p) \<in> set reserves. initializable p" and "strategies_consistent reserves"
  shows "\<exists>configurator provider inputs. sent h' = sent h @ init_batches configurator inputs
    \<and> length inputs = length reserves
    \<and> (\<forall>i < length reserves.
         in_underlyingAssetName (inputs ! i) = fst (reserves ! i)
       \<and> in_underlyingAsset (inputs ! i) = obj_get tokens (fst (reserves ! i))
       \<and> in_underlyingAssetDecimals (inputs ! i) = reserveDecimals (snd (reserves ! i))
       \<and> (contract_id (aTokenImpl (snd (reserves ! i))), [], in_aTokenImpl (inputs ! i))
           \<in> set (drop (length (deployed h)) (deployed h'))
       \<and> (\<exists>a. in_interestRateStrategyAddress (inputs ! i) = Some a
            \<and> rate_deploy provider (strategy (snd (reserves ! i)), a)
                \<in> set (drop (length (deployed h)) (deployed h'))))"
proof -
  have all: "selected_reserves reserves = reserves" using assms(4) by (rule selected_all)
  obtain provider configurator c st sas where inv: "init_done reserves tokens sas st"
    and tx: "sent h' = sent h @ init_batches configurator (map (init_params c st) [0..<length (reserveSymbols st)])"
    and dep: "deployed h' = deployed h @ impl_deploys c (has_delegated reserves) @ map (rate_deploy provider) sas"
    using init_core [OF assms(1-3)] all by metis
  have len: "length (reserveSymbols st) = length reserves" using inv by (simp add: init_done_def)
  have new: "drop (length (deployed h)) (deployed h') = impl_deploys c (has_delegated reserves) @ map (rate_deploy provider) sas"
    by (simp add: dep)
  have "(contract_id (aTokenImpl (snd (reserves ! i))), [], in_aTokenImpl (init_params c st i))
        \<in> set (impl_deploys c (has_delegated reserves))" if i: "i < length reserves" for i
  proof -
    have mem: "reserves ! i \<in> set reserves" using i by simp
    then have "initializable (snd (reserves ! i))" using assms(4) by (auto simp: case_prod_beta)
    moreover have "has_delegated reserves" if "aTokenImpl (snd (reserves ! i)) = Id_DelegationAwareAToken"
      using mem that by (auto simp: has_delegated_def filter_empty_conv case_prod_beta)
    ultimately show ?thesis
      unfolding init_params_at(5) [OF inv assms(5) i]
      by (auto simp: impl_deploys_def initializable_def)
  qed
  moreover have "\<exists>a. in_interestRateStrategyAddress (init_params c st i) = Some a
      \<and> rate_deploy provider (strategy (snd (reserves ! i)), a) \<in> set (map (rate_deploy provider) sas)"
    if i: "i < length reserves" for i using init_params_at(4) [OF inv assms(5) i] by force
  ultimately show ?thesis
    using tx len init_params_at(1-3) [OF inv assms(5)]
    by (intro exI [of _ configurator] exI [of _ provider]
        exI [of _ "map (init_params c st) [0..<length reserves]"]) (simp add: new, blast)
qed

text \<open>
  \<open>initReservesByHelper\<close> deploys one rate strategy per strategy name of the market, and nothing
  else but the token implementations, the delegation-aware one only when a reserve asks for it.
\<close>

theorem initReserves_deployments:
  assumes "initReservesByHelper rt reserves tokens aP sP vP syP admin treasury inc v h = (Inr g, h')"
    and "addresses_nonempty rt" and "distinct (map fst reserves)"
  shows "\<exists>c provider sas. deployed h' = deployed h @ impl_deploys c (has_delegated reserves) @ map (rate_deploy provider) sas
    \<and> distinct (map (strategy_name \<circ> fst) sas)
    \<and> set (map (strategy_name \<circ> fst) sas) = (strategy_name \<circ> strategy) ` set (map snd (selected_reserves reserves))"
proof -
  obtain provider configurator c st sas where inv: "init_done (selected_reserves reserves) tokens sas st"
    and dep: "deployed h' = deployed h @ impl_deploys c (has_delegated reserves) @ map (rate_deploy provider) sas"
    using init_core [OF assms] by metis
  show ?thesis using inv dep unfolding init_done_def knows_def by blast
qed

definition demo_init :: "int io" where
  "demo_init = initReservesByHelper demo_rt demo_reserves demo_tokens ''Moola'' ''Moola stable'' ''Moola variable''
     ''m'' ''0xadmin'' (Some ''0xtreasury'') ''0x0'' False"

lemma demo_init_ok: "fst (demo_init []) = Inr 0"
  by code_simp

lemma demo_init_run: "demo_init [] = (Inr 0, snd (demo_init []))"
  using demo_init_ok by (metis prod.collapse)

lemma demo_nonempty: "addresses_nonempty demo_rt"
  by (simp add: addresses_nonempty_def demo_rt_def)

lemma demo_reserves_ok:
  "distinct (map fst demo_reserves)" "\<forall>(_, p) \<in> set demo_reserves. initializable p"
  "strategies_consistent demo_reserves"
  by (simp_all add: demo_reserves_def demo_reserve_def initializable_def strategies_consistent_def)

lemma initReserves_inputs_witness:
  "\<exists>configurator inputs. sent (snd (demo_init [])) = init_batches configurator inputs
    \<and> map in_underlyingAssetName inputs = [''CUSD'', ''MOO'', ''CELO'']"
proof -
  have len: "length demo_reserves = 3" "map fst demo_reserves = [''CUSD'', ''MOO'', ''CELO'']"
    by (simp_all add: demo_reserves_def)
  obtain configurator inputs where "sent (snd (demo_init [])) = init_batches configurator inputs"
    and "length inputs = length demo_reserves"
    and "\<forall>i < length demo_reserves. in_underlyingAssetName (inputs ! i) = fst (demo_reserves ! i)"
    using initReserves_inputs [OF demo_init_run [unfolded demo_init_def] demo_nonempty demo_reserves_ok]
    unfolding demo_init_def by auto
  moreover from this have "map in_underlyingAssetName inputs = map fst demo_reserves"
    by (intro nth_equalityI) simp_all
  ultimately show ?thesis using len by metis
qed

lemma distinct_single: "distinct xs \<Longrightarrow> set xs = {x} \<Longrightarrow> xs = [x]"
  by (cases xs; cases "tl xs") auto

lemma initReserves_deployments_witness:
  "\<exists>c provider sas. deployed (snd (demo_init [])) = impl_deploys c False @ map (rate_deploy provider) sas
    \<and> map (strategy_name \<circ> fst) sas = [''rateStrategy'']"
proof -
  have hd: "has_delegated demo_reserves = False" by code_simp
  have names: "(strategy_name \<circ> strategy) ` set (map snd (selected_reserves demo_reserves)) = {''rateStrategy''}"
    by (simp add: selected_reserves_def demo_reserves_def demo_reserve_def demo_strategy_def)
  obtain c provider sas where "deployed (snd (demo_init [])) = impl_deploys c False @ map (rate_deploy provider) sas"
    "distinct (map (strategy_name \<circ> fst) sas)" "set (map (strategy_name \<circ> fst) sas) = {''rateStrategy''}"
    using initReserves_deployments [OF demo_init_run [unfolded demo_init_def] demo_nonempty demo_reserves_ok(1)]
    unfolding hd names demo_init_def by auto
  moreover from this have "map (strategy_name \<circ> fst) sas = [''rateStrategy'']"
    by (intro distinct_single)
  ultimately show ?thesis by metis
qed

section \<open>Assets and aggregators\<close>

text \<open>
  \<open>getPairsTokenAggregator\<close> leaves out ETH, USD, WETH and CELO; if every other asset has an
  aggregator it returns the assets' addresses and, at the same positions, their aggregators, in the
  order of the assets; otherwise it throws a TypeError.
\<close>

theorem getPairsTokenAggregator_spec:
  "getPairsTokenAggregator assets aggs =
    (let rest = obj_omit [''ETH'', ''USD'', ''WETH'', ''CELO''] assets in
     if list_all (\<lambda>(s, _). obj_get aggs s \<noteq> None) rest
     then Inr (map snd rest, map (\<lambda>(s, _). the (obj_get aggs s)) rest)
     else Inl (JsTypeError ''undefined is not iterable''))"
proof -
  let ?f = "\<lambda>(s, a). case entry_at aggs s of Inl e \<Rightarrow> Inl e | Inr x \<Rightarrow> Inr (a, x)"
  have "map_try ?f rest = (if list_all (\<lambda>(s, _). obj_get aggs s \<noteq> None) rest
      then Inr (map (\<lambda>(s, a). (a, the (obj_get aggs s))) rest)
      else Inl (JsTypeError ''undefined is not iterable''))" for rest :: "string js_obj"
    by (induction rest) (auto simp: entry_at_eq split: option.splits)
  then show ?thesis
    by (simp add: getPairsTokenAggregator_def Let_def o_def case_prod_beta)
qed

text \<open>
  The two copies of \<open>getPairsTokenAggregator\<close>, in contracts-getters.ts and in init-helpers.ts, are
  the same function: the extra test of the second one never skips an entry.
\<close>

theorem getPairsTokenAggregator_copies:
  "getPairsTokenAggregator_init assets aggs = getPairsTokenAggregator assets aggs"
proof -
  let ?rest = "obj_omit [''ETH'', ''USD'', ''WETH'', ''CELO''] assets"
  let ?f = "\<lambda>(s, a). case entry_at aggs s of Inl e \<Rightarrow> Inl e | Inr x \<Rightarrow> Inr (a, x)"
  let ?g = "\<lambda>(s, a). if s \<noteq> ''WETH'' \<and> s \<noteq> ''ETH'' \<and> s \<noteq> ''CELO'' then
      (case entry_at aggs s of Inl e \<Rightarrow> Inl e | Inr x \<Rightarrow> Inr (Some (a, x))) else Inr None"
  have "map_try ?g rest = (case map_try ?f rest of Inl e \<Rightarrow> Inl e | Inr ps \<Rightarrow> Inr (map Some ps))"
    if "\<forall>(s, a) \<in> set rest. s \<notin> {''WETH'', ''ETH'', ''CELO''}" for rest :: "string js_obj"
    using that by (induction rest) (auto split: sum.splits)
  moreover have "\<forall>(s, a) \<in> set ?rest. s \<notin> {''WETH'', ''ETH'', ''CELO''}" by (auto simp: obj_omit_def)
  ultimately have "map_try ?g ?rest = (case map_try ?f ?rest of Inl e \<Rightarrow> Inl e | Inr ps \<Rightarrow> Inr (map Some ps))"
    by blast
  then show ?thesis
    by (auto simp: getPairsTokenAggregator_init_def getPairsTokenAggregator_def Let_def o_def case_prod_beta
        split: sum.splits)
qed

end
