(* ===== verification/MarketRules.thy ===== *)
theory MarketRules
  imports MarketConfigs "HOL-Library.Word"
begin

text \<open>
  What the chain accepts of a market: the requirements of \<open>LendingPoolConfigurator\<close>,
  \<open>ReserveConfiguration\<close>, \<open>PercentageMath\<close> and the constructor of
  \<open>DefaultReserveInterestRateStrategy\<close> (Solidity, 256-bit words), against which the market
  configurations are checked. The lemmas reduce the words to natural numbers, so that a market is
  checked by evaluating its strings.
\<close>

section \<open>PercentageMath\<close>

type_synonym u256 = "256 word"

definition HALF_PERCENT :: u256 where "HALF_PERCENT = 5000"

text \<open>\<open>None\<close> is a revert.\<close>

definition percentMul :: "u256 \<Rightarrow> u256 \<Rightarrow> u256 option" where
  "percentMul v percentage =
     (if v = 0 \<or> percentage = 0 then Some 0
      else if v \<le> (- 1 - HALF_PERCENT) div percentage
      then Some ((v * percentage + HALF_PERCENT) div 10000) else None)"

lemma unat_max: "unat (- 1 - HALF_PERCENT) = 2 ^ 256 - 5001"
  by (simp add: HALF_PERCENT_def unat_sub_if')

text \<open>The guard is what keeps the multiplication from wrapping around.\<close>

lemma percentMul_guard:
  assumes "percentage \<noteq> 0"
  shows "v \<le> (- 1 - HALF_PERCENT) div percentage \<longleftrightarrow> unat v * unat percentage + 5000 < 2 ^ 256"
proof -
  have "0 < unat percentage" using assms by (simp add: unat_gt_0)
  then have "unat v \<le> (2 ^ 256 - 5001) div unat percentage \<longleftrightarrow> unat v * unat percentage \<le> 2 ^ 256 - 5001"
    by (simp add: less_eq_div_iff_mult_less_eq)
  then show ?thesis by (auto simp: word_le_nat_alt unat_div unat_max)
qed

lemma u256_eq_iff: "x = y \<longleftrightarrow> unat x = unat y" for x y :: u256
  by (auto intro: unsigned_word_eqI)

lemma percentMul_unat:
  "percentMul v percentage = Some r \<longleftrightarrow>
    (v = 0 \<or> percentage = 0 \<or> unat v * unat percentage + 5000 < 2 ^ 256)
    \<and> unat r = (unat v * unat percentage + 5000) div 10000"
proof (cases "v = 0 \<or> percentage = 0")
  case True
  then show ?thesis by (auto simp: percentMul_def unat_eq_0)
next
  case False
  have val: "unat ((v * percentage + HALF_PERCENT) div 10000) = (unat v * unat percentage + 5000) div 10000"
    if "unat v * unat percentage + 5000 < 2 ^ 256"
    using that by (simp add: unat_div unat_word_ariths HALF_PERCENT_def)
  show ?thesis using False val percentMul_guard [of percentage v]
    by (auto simp: percentMul_def u256_eq_iff)
qed

section \<open>Requirements on a reserve\<close>

text \<open>\<open>nothing_deposited\<close> is what \<open>_checkNoLiquidity\<close> requires when a reserve is disabled.\<close>

definition configureReserveAsCollateral_accepts :: "bool \<Rightarrow> u256 \<Rightarrow> u256 \<Rightarrow> u256 \<Rightarrow> bool" where
  "configureReserveAsCollateral_accepts nothing_deposited ltv threshold bonus \<longleftrightarrow>
     ltv \<le> threshold
     \<and> (if threshold \<noteq> 0 then
          bonus > 10000 \<and> (case percentMul threshold bonus of None \<Rightarrow> False | Some x \<Rightarrow> x \<le> 10000)
        else bonus = 0 \<and> nothing_deposited)
     \<and> ltv \<le> 65535 \<and> threshold \<le> 65535 \<and> bonus \<le> 65535"

definition setReserveFactor_accepts :: "u256 \<Rightarrow> bool" where
  "setReserveFactor_accepts rf \<longleftrightarrow> rf \<le> 65535"

definition setDecimals_accepts :: "u256 \<Rightarrow> bool" where
  "setDecimals_accepts d \<longleftrightarrow> d \<le> 255"

text \<open>A decimal string as a \<open>uint256\<close> argument.\<close>

definition u256_of_dec :: "string \<Rightarrow> u256 option" where
  "u256_of_dec s = (case nat_of_dec s of None \<Rightarrow> None
     | Some n \<Rightarrow> if n < 2 ^ 256 then Some (of_nat n) else None)"

text \<open>
  A reserve of a configuration: its decimals are accepted at initialization and, unless its LTV is
  -1 (not configured), its collateral parameters and reserve factor are.
\<close>

definition reserve_accepted :: "IReserveParams \<Rightarrow> bool" where
  "reserve_accepted p \<longleftrightarrow>
     (case u256_of_dec (reserveDecimals p) of None \<Rightarrow> False | Some d \<Rightarrow> setDecimals_accepts d)
     \<and> (baseLTVAsCollateral p \<noteq> ''-1'' \<longrightarrow>
          (case (u256_of_dec (baseLTVAsCollateral p), u256_of_dec (liquidationThreshold p),
                 u256_of_dec (liquidationBonus p), u256_of_dec (reserveFactor p)) of
             (Some ltv, Some threshold, Some bonus, Some rf) \<Rightarrow>
               configureReserveAsCollateral_accepts True ltv threshold bonus \<and> setReserveFactor_accepts rf
           | _ \<Rightarrow> False))"

section \<open>Requirements on a rate strategy\<close>

text \<open>
  The constructor subtracts the optimal utilization from a ray with SafeMath; \<open>calculateInterestRates\<close>
  divides by both parts.
\<close>

definition strategy_accepted :: "IInterestRateStrategyParams \<Rightarrow> bool" where
  "strategy_accepted s \<longleftrightarrow>
     (case (nat_of_dec (optimalUtilizationRate s), nat_of_dec (baseVariableBorrowRate s),
            nat_of_dec (variableRateSlope1 s), nat_of_dec (variableRateSlope2 s),
            nat_of_dec (stableRateSlope1 s), nat_of_dec (stableRateSlope2 s)) of
        (Some opt, Some base, Some v1, Some v2, Some s1, Some s2) \<Rightarrow>
          0 < opt \<and> opt < 10 ^ 27 \<and> base + v1 + v2 < 2 ^ 128 \<and> s1 + s2 < 2 ^ 128
      | _ \<Rightarrow> False)"

section \<open>Evaluation on natural numbers\<close>

definition accepted_nat :: "nat \<Rightarrow> nat \<Rightarrow> nat \<Rightarrow> bool" where
  "accepted_nat ltv threshold bonus \<longleftrightarrow> ltv \<le> threshold \<and> threshold \<le> 65535 \<and> bonus \<le> 65535
     \<and> (if threshold \<noteq> 0 then 10000 < bonus \<and> (threshold * bonus + 5000) div 10000 \<le> 10000 else bonus = 0)"

lemma unat_of_small: "n \<le> 65535 \<Longrightarrow> unat (of_nat n :: u256) = n"
  by (simp add: unat_of_nat)

lemma accepted_nat_sound:
  assumes "accepted_nat ltv threshold bonus"
  shows "configureReserveAsCollateral_accepts True (of_nat ltv) (of_nat threshold) (of_nat bonus)"
proof -
  have small: "ltv \<le> 65535" "threshold \<le> 65535" "bonus \<le> 65535" and le: "ltv \<le> threshold"
    using assms by (auto simp: accepted_nat_def)
  have u: "unat (of_nat ltv :: u256) = ltv" "unat (of_nat threshold :: u256) = threshold"
      "unat (of_nat bonus :: u256) = bonus"
    using small by (simp_all add: unat_of_small)
  have "threshold * bonus \<le> 65535 * 65535" using small by (intro mult_mono) auto
  then have lt: "threshold * bonus + 5000 < 2 ^ 256" by simp
  obtain x where x: "percentMul (of_nat threshold) (of_nat bonus) = Some x"
    "unat x = (threshold * bonus + 5000) div 10000"
  proof -
    define y :: u256 where "y = of_nat ((threshold * bonus + 5000) div 10000)"
    have "unat y = (threshold * bonus + 5000) div 10000"
      unfolding y_def using lt by (simp add: unat_of_nat take_bit_nat_eq_self)
    then show thesis using that percentMul_unat [of "of_nat threshold" "of_nat bonus" y] u lt by simp
  qed
  show ?thesis using assms x u le
    by (auto simp: configureReserveAsCollateral_accepts_def accepted_nat_def word_le_nat_alt word_less_nat_alt
        u256_eq_iff split: if_splits)
qed

definition reserve_accepted_nat :: "IReserveParams \<Rightarrow> bool" where
  "reserve_accepted_nat p \<longleftrightarrow>
     (case nat_of_dec (reserveDecimals p) of None \<Rightarrow> False | Some d \<Rightarrow> d \<le> 255)
     \<and> (baseLTVAsCollateral p \<noteq> ''-1'' \<longrightarrow>
          (case (nat_of_dec (baseLTVAsCollateral p), nat_of_dec (liquidationThreshold p),
                 nat_of_dec (liquidationBonus p), nat_of_dec (reserveFactor p)) of
             (Some ltv, Some threshold, Some bonus, Some rf) \<Rightarrow> accepted_nat ltv threshold bonus \<and> rf \<le> 65535
           | _ \<Rightarrow> False))"

lemma u256_of_small: "nat_of_dec s = Some n \<Longrightarrow> n \<le> 65535 \<Longrightarrow> u256_of_dec s = Some (of_nat n)"
  by (simp add: u256_of_dec_def)

lemma reserve_accepted_nat_sound:
  assumes "reserve_accepted_nat p"
  shows "reserve_accepted p"
proof -
  obtain d where d: "nat_of_dec (reserveDecimals p) = Some d" "d \<le> 255"
    using assms by (auto simp: reserve_accepted_nat_def split: option.splits)
  have dec: "u256_of_dec (reserveDecimals p) = Some (of_nat d)" "setDecimals_accepts (of_nat d)"
    using d by (simp_all add: u256_of_small setDecimals_accepts_def word_le_nat_alt unat_of_small)
  show ?thesis
  proof (cases "baseLTVAsCollateral p = ''-1''")
    case True
    then show ?thesis using dec by (simp add: reserve_accepted_def)
  next
    case False
    then obtain ltv t b rf where parts: "nat_of_dec (baseLTVAsCollateral p) = Some ltv"
      "nat_of_dec (liquidationThreshold p) = Some t" "nat_of_dec (liquidationBonus p) = Some b"
      "nat_of_dec (reserveFactor p) = Some rf" and ok: "accepted_nat ltv t b" "rf \<le> 65535"
      using assms by (auto simp: reserve_accepted_nat_def split: option.splits)
    have "ltv \<le> 65535" "t \<le> 65535" "b \<le> 65535" using ok by (auto simp: accepted_nat_def)
    then show ?thesis using parts ok dec accepted_nat_sound [OF ok(1)]
      by (simp add: reserve_accepted_def u256_of_small setReserveFactor_accepts_def word_le_nat_alt unat_of_small)
  qed
qed

end
