(* ===== verification/HelperTheorems.thy ===== *)
theory HelperTheorems
  imports InitTheorems MarketTheorems
begin

text \<open>
  Properties of the helper modules: batching and selection (\<open>misc-utils.ts\<close>), the registry, linking
  and parameters per network (\<open>contracts-helpers.ts\<close>), the retries of the verification
  (\<open>etherscan-verification.ts\<close>), the constants, and the tables of the markets.
\<close>

section \<open>Batches and selections\<close>

text \<open>
  For every positive size \<open>chunk\<close> computes the usual splitting into blocks: the blocks put together
  are the array, none is empty or longer than the size, and there are as few of them as possible.
\<close>

theorem chunk_is_blocks:
  "chunk arr (Suc n) = blocks (Suc n) arr \<and> concat (chunk arr (Suc n)) = arr
    \<and> list_all (\<lambda>b. b \<noteq> [] \<and> length b \<le> Suc n) (chunk arr (Suc n))
    \<and> length (chunk arr (Suc n)) = (length arr + n) div Suc n"
  by (simp add: chunk_blocks concat_blocks length_blocks list_all_iff blocks_bounds del: div_Suc)

text \<open>
  \<open>filterMapBy\<close> keeps the entries whose key is selected, with their values and in their order, for
  every object (whose keys are distinct).
\<close>

theorem filterMapBy_selects:
  assumes "distinct (obj_keys raw)"
  shows "filterMapBy raw fn = filter (\<lambda>(k, _). fn k) raw
    \<and> obj_get (filterMapBy raw fn) k = (if fn k then obj_get raw k else None)"
proof
  show eq: "filterMapBy raw fn = filter (\<lambda>(k, _). fn k) raw" by (rule filterMapBy_eq [OF assms])
  have "map_of (filter (\<lambda>(k, _). fn k) ob) k = (if fn k then map_of ob k else None)" for ob :: "'a js_obj"
    by (induction ob) auto
  then show "obj_get (filterMapBy raw fn) k = (if fn k then obj_get raw k else None)"
    by (simp add: eq obj_get_def)
qed

lemma filterMapBy_selects_witness:
  "filterMapBy [(''CELO'', ''a''), (''USD'', ''b'')] (\<lambda>k. k \<noteq> ''USD'') = [(''CELO'', ''a'')]"
  by (subst filterMapBy_selects [THEN conjunct1]) (simp_all add: obj_keys_def)

section \<open>The registry\<close>

lemma no_dot_in_ids: "CHR ''.'' \<notin> set (contract_id c)"
  by (cases c) simp_all

text \<open>
  The registry path of a contract id on a network determines both: entries of different contracts
  or of different networks never overwrite each other.
\<close>

theorem registry_paths_distinct:
  "db_path rt (contract_id a) = db_path rt' (contract_id b) \<longleftrightarrow> a = b \<and> network_name rt = network_name rt'"
proof
  assume eq: "db_path rt (contract_id a) = db_path rt' (contract_id b)"
  have first: "takeWhile (\<lambda>x. x \<noteq> CHR ''.'') (db_path r (contract_id c)) = contract_id c" for r c
  proof -
    have "x \<noteq> CHR ''.''" if "x \<in> set (contract_id c)" for x using that no_dot_in_ids [of c] by blast
    then show ?thesis by (simp add: db_path_def takeWhile_append2)
  qed
  have "contract_id a = contract_id b" using first [of rt a] first [of rt' b] eq by simp
  then have "a = b" by (simp add: contract_id_inject)
  then show "a = b \<and> network_name rt = network_name rt'" using eq by (simp add: db_path_def)
qed (simp add: db_path_def)

text \<open>
  C30. A contract that was deployed and registered is the one a getter of its id returns afterwards, as
  long as nothing else is registered: same address, and the first signer sends its transactions.
\<close>

theorem deployed_then_found:
  assumes "deploy_and_save rt f args cid v h = (Inr c, h')" and "db_lawful rt db0"
  shows "fst (connect_or_db rt f cid None h') = Inr (connect_at rt f (address c))"
  using registered_then_connected [OF assms(2), of h' h "[]"] deploy_and_save_result(2) [OF assms(1)]
  by simp

lemma deployed_then_found_witness:
  "fst (getWETHGateway demo_rt None (snd (deployWETHGateway demo_rt [''0xweth''] False [])))
    = Inr (connect_at demo_rt ''WETHGateway'' ''0x'')"
proof -
  have run: "deploy_and_save demo_rt ''WETHGateway'' [VStr ''0xweth''] Id_WETHGateway False []
      = (Inr \<lparr> abi = ''WETHGateway'', address = ''0x'', signer = Some ''0xdeployer'', deployer = Some ''0xdeployer'' \<rparr>,
         snd (deploy_and_save demo_rt ''WETHGateway'' [VStr ''0xweth''] Id_WETHGateway False []))"
    by code_simp
  show ?thesis
    using deployed_then_found [OF run demo_lawful] by (simp add: getWETHGateway_def deployWETHGateway_def)
qed

section \<open>Parameters per network\<close>

text \<open>The key that \<open>getParamPerNetwork\<close> reads: hardhat uses the entry of buidlerevm.\<close>

definition param_key :: "eNetwork \<Rightarrow> string" where
  "param_key n = (if n = NetEthereum Eth_hardhat then network_str (NetEthereum Eth_buidlerevm) else network_str n)"

text \<open>
  On a fork of mainnet every parameter is the one of mainnet, whatever the network. Otherwise a
  known network reads the entry under its own name, except hardhat, which reads buidlerevm's, and an
  unknown network reads nothing.
\<close>

theorem getParamPerNetwork_spec:
  "getParamPerNetwork rt param network =
    (if env_is rt ''MAINNET_FORK'' ''true'' then obj_get param ''main''
     else case find (\<lambda>n. network_str n = network) all_networks of
            None \<Rightarrow> None | Some n \<Rightarrow> obj_get param (param_key n))"
  by (auto simp: getParamPerNetwork_def all_networks_def param_key_def)

section \<open>Verification\<close>

text \<open>The plugin rejects with \<open>Error\<close> objects, which have a message.\<close>

definition rejects_with_messages :: "runtime \<Rightarrow> bool" where
  "rejects_with_messages rt \<longleftrightarrow> (\<forall>h t p e. ext_run rt h t p = Inl e \<longrightarrow> (\<exists>m. err_message e = Some m))"

lemma message_not_exit: "err_message e = Some m \<Longrightarrow> catch (\<lambda>_. (Inl e, h1)) k h = k e h1"
  by (cases e) (simp_all add: catch_def)

text \<open>
  C29. Whatever the plugin answers, the retries come to an end and \<open>runTaskWithRetry\<close> resolves: a failed
  verification never makes a deployment fail.
\<close>

theorem runTaskWithRetry_resolves:
  assumes "rejects_with_messages rt"
  shows "fst (runTaskWithRetry rt task params tries h) = Inr ()"
proof (induction "nat tries" arbitrary: params tries h rule: less_induct)
  case less
  show ?case
  proof (cases "tries \<ge> 1")
    case False
    then show ?thesis by (subst runTaskWithRetry.simps) (simp add: cleanup_runs)
  next
    case True
    have IH: "fst (runTaskWithRetry rt task prm (tries - 1) g) = Inr ()" for prm g
      using less True by simp
    have IH0: "tries = 1 \<Longrightarrow> fst (runTaskWithRetry rt task prm 0 g) = Inr ()" for prm g
      using IH [of prm g] by simp
    have step: "fst (catch (seq (run_plugin_task rt task v) cleanup_tmp) k h) = Inr ()"
      if k: "\<And>e g. \<exists>m. err_message e = Some m \<Longrightarrow> fst (k e g) = Inr ()" for v k
    proof (cases "ext_run rt h task v")
      case (Inl e)
      then obtain m where m: "err_message e = Some m" using assms unfolding rejects_with_messages_def by blast
      have "seq (run_plugin_task rt task v) cleanup_tmp h = (Inl e, h @ [EvFail (ReqRun task v) e])"
        using Inl by (simp add: seq_def bind_def run_plugin_task_def perform_def)
      then have "catch (seq (run_plugin_task rt task v) cleanup_tmp) k h = k e (h @ [EvFail (ReqRun task v) e])"
        using m by (cases e) (simp_all add: catch_def)
      then show ?thesis using k m by simp
    next
      case (Inr u)
      then show ?thesis
        by (simp add: catch_def seq_def bind_def run_plugin_task_def perform_def cleanup_tmp_def)
    qed
    show ?thesis
      unfolding runTaskWithRetry.simps [of rt task params tries] Let_def if_P [OF True]
      by (rule step) (auto simp: IH IH0 ret_def split: retry_decision.split)
  qed
qed

lemma runTaskWithRetry_resolves_witness:
  "fst (runTaskWithRetry (demo_rt\<lparr> ext_run := (\<lambda>h t p. Inl (JsError ''Fail - Unable to verify'')) \<rparr>) ''verify''
     \<lparr> vp_address = ''0x1'', vp_libraries = None, vp_constructorArgs = ''f'', vp_relatedSources = True \<rparr> 4 []) = Inr ()"
  by (rule runTaskWithRetry_resolves) (simp add: rejects_with_messages_def)

lemma runTaskWithRetry_attempts_witness:
  "\<exists>ps. plugin_runs (snd (runTaskWithRetry demo_rt ''verify''
        \<lparr> vp_address = ''0x1'', vp_libraries = None, vp_constructorArgs = ''f'', vp_relatedSources = True \<rparr> 4 []))
      = map (\<lambda>p. (''verify'', p)) ps \<and> length ps \<le> 4"
  using runTaskWithRetry_attempts [OF prod.collapse [symmetric], of demo_rt "''verify''"
      "\<lparr> vp_address = ''0x1'', vp_libraries = None, vp_constructorArgs = ''f'', vp_relatedSources = True \<rparr>" 4 "[]"]
  by simp

section \<open>Linking\<close>

text \<open>The replacements that \<open>linkBytecode\<close> makes, in its order.\<close>

definition replacements :: "artifact \<Rightarrow> string js_obj \<Rightarrow> (string \<times> fixup) list" where
  "replacements art libraries =
     concat (map (\<lambda>(file, refs). concat (map (\<lambda>(lib, fxs).
       case obj_get libraries lib of None \<Rightarrow> [] | Some a \<Rightarrow> map (\<lambda>fx. (a, fx)) fxs) refs)) (linkReferences art))"

lemma foldl_concat_map: "foldl f s (concat (map g xs)) = foldl (\<lambda>t x. foldl f t (g x)) s xs"
  by (induction xs arbitrary: s) simp_all

lemma linkBytecode_replacements:
  "linkBytecode art libraries = foldl (\<lambda>code (a, fx). apply_fixup a code fx) (bytecode art) (replacements art libraries)"
proof -
  have lib: "link_library libraries code ref =
      foldl (\<lambda>code (a, fx). apply_fixup a code fx) code
        (case ref of (lib, fxs) \<Rightarrow> case obj_get libraries lib of None \<Rightarrow> [] | Some a \<Rightarrow> map (\<lambda>fx. (a, fx)) fxs)"
    for code ref
    by (cases ref) (auto simp: link_library_def foldl_map split: option.split)
  then have "link_library libraries = (\<lambda>code ref. foldl (\<lambda>code (a, fx). apply_fixup a code fx) code
        (case ref of (lib, fxs) \<Rightarrow> case obj_get libraries lib of None \<Rightarrow> [] | Some a \<Rightarrow> map (\<lambda>fx. (a, fx)) fxs))"
    by (intro ext)
  then show ?thesis
    unfolding linkBytecode_def replacements_def foldl_concat_map by (simp add: foldl_concat_map case_prod_beta)
qed

text \<open>The characters of the bytecode that a replacement writes.\<close>

definition region :: "fixup \<Rightarrow> nat set" where
  "region fx = {2 + fix_start fx * 2 ..< 2 + (fix_start fx + fix_length fx) * 2}"

lemma fold_fixups_length:
  "\<forall>(a, fx) \<in> set rs. fixup_fits a code fx \<Longrightarrow>
    length (foldl (\<lambda>code (a, fx). apply_fixup a code fx) code rs) = length code"
proof (induction rs arbitrary: code)
  case Nil
  then show ?case by simp
next
  case (Cons r rs)
  obtain a fx where r: "r = (a, fx)" by fastforce
  have "length (apply_fixup a code fx) = length code" using Cons.prems r by (auto intro: apply_fixup_length)
  moreover from this have "\<forall>(b, fy) \<in> set rs. fixup_fits b (apply_fixup a code fx) fy"
    using Cons.prems by (auto simp: fixup_fits_def)
  ultimately show ?case using Cons.IH r by simp
qed

lemma fold_fixups_other:
  assumes "\<forall>(a, fx) \<in> set rs. fixup_fits a code fx" and "\<forall>(a, fx) \<in> set rs. i \<notin> region fx" and "i < length code"
  shows "foldl (\<lambda>code (a, fx). apply_fixup a code fx) code rs ! i = code ! i"
  using assms
proof (induction rs arbitrary: code)
  case Nil
  then show ?case by simp
next
  case (Cons r rs)
  obtain a fx where r: "r = (a, fx)" by fastforce
  have fits: "fixup_fits a code fx" using Cons.prems r by auto
  have len: "length (apply_fixup a code fx) = length code" by (rule apply_fixup_length [OF fits])
  have "\<forall>(b, fy) \<in> set rs. fixup_fits b (apply_fixup a code fx) fy"
    using Cons.prems len by (auto simp: fixup_fits_def)
  moreover have "apply_fixup a code fx ! i = code ! i"
    using Cons.prems r by (intro apply_fixup_nth_other [OF fits]) (auto simp: region_def not_less)
  ultimately show ?case using Cons.IH Cons.prems len r by auto
qed

lemma fold_fixups_at:
  assumes "\<forall>(a, fx) \<in> set rs. fixup_fits a code fx"
    and "sorted_wrt (\<lambda>(a, fx) (b, fy). region fx \<inter> region fy = {}) rs" and "(a, fx) \<in> set rs"
  shows "take (2 * fix_length fx) (drop (2 + fix_start fx * 2) (foldl (\<lambda>code (a, fx). apply_fixup a code fx) code rs))
    = drop 2 a"
  using assms
proof (induction rs arbitrary: code)
  case Nil
  then show ?case by simp
next
  case (Cons r rs)
  obtain b fy where r: "r = (b, fy)" by fastforce
  let ?code1 = "apply_fixup b code fy"
  let ?linked = "foldl (\<lambda>code (a, fx). apply_fixup a code fx) ?code1 rs"
  have fits: "fixup_fits b code fy" using Cons.prems r by auto
  have len: "length ?code1 = length code" by (rule apply_fixup_length [OF fits])
  have fits1: "\<forall>(a, fx) \<in> set rs. fixup_fits a ?code1 fx"
    using Cons.prems len by (auto simp: fixup_fits_def)
  show ?case
  proof (cases "(a, fx) \<in> set rs")
    case True
    then show ?thesis using Cons.IH [OF fits1] Cons.prems r by simp
  next
    case False
    then have same: "a = b" "fx = fy" using Cons.prems r by auto
    have bound: "2 + (fix_start fy + fix_length fy) * 2 \<le> length code" using fits by (simp add: fixup_fits_def)
    have len2: "length ?linked = length code" using fold_fixups_length [OF fits1] len by simp
    have "?linked ! (2 + fix_start fy * 2 + j) = ?code1 ! (2 + fix_start fy * 2 + j)" if "j < 2 * fix_length fy" for j
    proof (rule fold_fixups_other [OF fits1])
      have "2 + fix_start fy * 2 + j \<in> region fy" using that by (simp add: region_def)
      moreover have "\<forall>(c, fz) \<in> set rs. region fy \<inter> region fz = {}" using Cons.prems r by auto
      ultimately show "\<forall>(c, fz) \<in> set rs. 2 + fix_start fy * 2 + j \<notin> region fz" by blast
      show "2 + fix_start fy * 2 + j < length ?code1" using that bound len by simp
    qed
    then have "take (2 * fix_length fy) (drop (2 + fix_start fy * 2) ?linked)
        = take (2 * fix_length fy) (drop (2 + fix_start fy * 2) ?code1)"
      using bound len len2 by (intro nth_equalityI) simp_all
    then show ?thesis using apply_fixup_at [OF fits] r same by simp
  qed
qed

text \<open>
  C28. When every placeholder fits (an address of \<open>0x\<close> and twice the placeholder's length in digits, at
  a place inside the bytecode) and no two overlap, \<open>linkBytecode\<close> keeps the length, puts the digits of
  the library's address at every placeholder of a given library, and changes nothing else.
\<close>

theorem linkBytecode_links:
  assumes "\<forall>(a, fx) \<in> set (replacements art libraries). fixup_fits a (bytecode art) fx"
    and "sorted_wrt (\<lambda>(a, fx) (b, fy). region fx \<inter> region fy = {}) (replacements art libraries)"
  shows "length (linkBytecode art libraries) = length (bytecode art)
    \<and> (\<forall>(a, fx) \<in> set (replacements art libraries).
         take (2 * fix_length fx) (drop (2 + fix_start fx * 2) (linkBytecode art libraries)) = drop 2 a)
    \<and> (\<forall>i < length (bytecode art). (\<forall>(a, fx) \<in> set (replacements art libraries). i \<notin> region fx) \<longrightarrow>
         linkBytecode art libraries ! i = bytecode art ! i)"
  unfolding linkBytecode_replacements
  using fold_fixups_length [OF assms(1)] fold_fixups_at [OF assms] fold_fixups_other [OF assms(1)]
  by blast

definition demo_artifact :: artifact where
  "demo_artifact = \<lparr> bytecode = ''0x60__lib__73__lib__'',
     linkReferences = [(''a.sol'', [(''Lib'', [\<lparr> fix_start = 1, fix_length = 3 \<rparr>, \<lparr> fix_start = 5, fix_length = 3 \<rparr>])])] \<rparr>"

lemma linkBytecode_links_witness:
  "length (linkBytecode demo_artifact [(''Lib'', ''0xabcdef'')]) = 20
    \<and> take 6 (drop 4 (linkBytecode demo_artifact [(''Lib'', ''0xabcdef'')])) = ''abcdef''"
proof -
  have reps: "replacements demo_artifact [(''Lib'', ''0xabcdef'')]
      = [(''0xabcdef'', \<lparr> fix_start = 1, fix_length = 3 \<rparr>), (''0xabcdef'', \<lparr> fix_start = 5, fix_length = 3 \<rparr>)]"
    by (simp add: replacements_def demo_artifact_def obj_get_def)
  have code: "bytecode demo_artifact = ''0x60__lib__73__lib__''" by (simp add: demo_artifact_def)
  note spec = linkBytecode_links [of demo_artifact "[(''Lib'', ''0xabcdef'')]", unfolded reps code]
  show ?thesis using spec by (simp add: fixup_fits_def region_def)
qed

section \<open>The tables of the markets\<close>

lemma initializable_tables:
  "list_all (\<lambda>(s, p). initializable p) (moola_ReservesConfig B)"
  "list_all (\<lambda>(s, p). initializable p) (aave_ReservesConfig B)"
  "list_all (\<lambda>(s, p). initializable p) (amm_ReservesConfig B)"
  "list_all (\<lambda>(s, p). initializable p) (matic_ReservesConfig B)"
  "list_all (\<lambda>(s, p). initializable p) (xdai_ReservesConfig B)"
  by (simp_all add: all_reserves initializable_def)

lemmas market_lists = moola_ReservesConfig_def aave_ReservesConfig_def amm_ReservesConfig_def
  matic_ReservesConfig_def xdai_ReservesConfig_def

lemma distinct_tables:
  "distinct (obj_keys (moola_ReservesConfig B))" "distinct (obj_keys (aave_ReservesConfig B))"
  "distinct (obj_keys (amm_ReservesConfig B))" "distinct (obj_keys (matic_ReservesConfig B))"
  "distinct (obj_keys (xdai_ReservesConfig B))"
  by (simp_all add: market_lists)

text \<open>Equality of two lists of symbols as sets, by membership tests.\<close>

definition same_symbols :: "string list \<Rightarrow> string list \<Rightarrow> bool" where
  "same_symbols xs ys \<longleftrightarrow> list_all (\<lambda>x. x \<in> set ys) xs \<and> list_all (\<lambda>y. y \<in> set xs) ys"

lemma same_symbols_set: "same_symbols xs ys \<longleftrightarrow> set xs = set ys"
  by (auto simp: same_symbols_def list_all_iff)

lemma symbol_tables:
  "same_symbols (obj_keys (moola_ReservesConfig B)) iMoolaPoolAssets"
  "same_symbols (obj_keys (aave_ReservesConfig B)) iAavePoolAssets"
  "same_symbols (obj_keys (amm_ReservesConfig B)) iLpPoolAssets"
  "same_symbols (obj_keys (matic_ReservesConfig B)) iMaticPoolAssets"
  "same_symbols (obj_keys (xdai_ReservesConfig B)) iXDAIPoolAssets"
  by code_simp+

text \<open>
  Every market configures exactly the symbols of its pool's asset type, each once, and every reserve
  has a token implementation that the initialization knows.
\<close>

theorem market_tables:
  "list_all2 (\<lambda>cfg symbols. set (obj_keys (ReservesConfig cfg)) = set symbols
      \<and> distinct (obj_keys (ReservesConfig cfg)) \<and> list_all (\<lambda>(s, p). initializable p) (ReservesConfig cfg))
    (all_markets B)
    [iMoolaPoolAssets, iAavePoolAssets, iLpPoolAssets, iMaticPoolAssets, iXDAIPoolAssets]"
  using symbol_tables [of B]
  by (simp add: all_markets_def initializable_tables distinct_tables same_symbols_set)

lemma consistent_from_table:
  assumes "list_all (\<lambda>(s, p). strategy p \<in> set rates) reserves" and "distinct (map strategy_name rates)"
  shows "strategies_consistent reserves"
  unfolding strategies_consistent_def
proof (clarify)
  fix s p s' q assume "(s, p) \<in> set reserves" "(s', q) \<in> set reserves"
    and names: "strategy_name (strategy p) = strategy_name (strategy q)"
  then have "strategy p \<in> set rates" "strategy q \<in> set rates" using assms(1) by (auto simp: list_all_iff)
  then show "strategy p = strategy q" using names assms(2) by (simp add: distinct_map inj_on_def)
qed

lemma consistent_tables:
  "strategies_consistent (moola_ReservesConfig B)" "strategies_consistent (aave_ReservesConfig B)"
  "strategies_consistent (amm_ReservesConfig B)" "strategies_consistent (matic_ReservesConfig B)"
  "strategies_consistent (xdai_ReservesConfig B)"
proof -
  show "strategies_consistent (moola_ReservesConfig B)"
    by (rule consistent_from_table [of "[moola_rateStrategyStableTwo B, moola_rateStrategyWETH B]"])
       (simp add: moola_reserves moola_rateStrategyCELO_def, simp add: moola_rates)
  show "strategies_consistent (aave_ReservesConfig B)"
    by (rule consistent_from_table [of "[aave_rateStrategyStableOne B, aave_rateStrategyStableTwo B,
          aave_rateStrategyStableThree B, aave_rateStrategyWETH B, aave_rateStrategyAAVE B,
          aave_rateStrategyVolatileOne B, aave_rateStrategyVolatileTwo B, aave_rateStrategyVolatileThree B,
          aave_rateStrategyVolatileFour B]"])
       (simp add: aave_reserves, simp add: aave_rates)
  show "strategies_consistent (amm_ReservesConfig B)"
    by (rule consistent_from_table [of "[amm_rateStrategyAmmBase B, amm_rateStrategyBaseOne B,
          amm_rateStrategyStable B]"])
       (simp add: amm_reserves, simp add: amm_rates)
  show "strategies_consistent (matic_ReservesConfig B)"
    by (rule consistent_from_table [of "[matic_rateStrategyStableOne B, matic_rateStrategyStableTwo B,
          matic_rateStrategyStableThree B, matic_rateStrategyWETH B, matic_rateStrategyAAVE B,
          matic_rateStrategyVolatileOne B, matic_rateStrategyVolatileTwo B, matic_rateStrategyVolatileThree B]"])
       (simp add: matic_reserves, simp add: matic_rates)
  show "strategies_consistent (xdai_ReservesConfig B)"
    by (rule consistent_from_table [of "[xdai_rateStrategyStableOne B, xdai_rateStrategyStableTwo B,
          xdai_rateStrategyStableThree B, xdai_rateStrategyWETH B, xdai_rateStrategyAAVE B,
          xdai_rateStrategyVolatileOne B, xdai_rateStrategyVolatileTwo B, xdai_rateStrategyVolatileThree B]"])
       (simp add: xdai_reserves, simp add: xdai_rates)
qed

text \<open>
  In every market the rate strategies are determined by their names, so that deploying one strategy
  per name, as \<open>initReservesByHelper\<close> does, gives every reserve its own rates.
\<close>

theorem market_strategy_names:
  "list_all (\<lambda>cfg. strategies_consistent (ReservesConfig cfg)) (all_markets B)"
  by (simp add: all_markets_def consistent_tables)

section \<open>Constants\<close>

text \<open>
  With an arithmetic that does what bignumber.js documents, the fixed-point constants are the ones of
  the contracts: a ray is 10^27 and its half 5 * 10^26, half a wad is 5 * 10^17, and the optimal and
  excess utilization of the test rates are 80% and 20% of a ray and add up to one ray.
\<close>

theorem fixed_point_constants:
  assumes "bignumber B val"
  shows "RAY B = dec_of_nat (10 ^ 27) \<and> HALF_RAY B = dec_of_nat (5 * 10 ^ 26) \<and> HALF_WAD B = dec_of_nat (5 * 10 ^ 17)
    \<and> val (OPTIMAL_UTILIZATION_RATE B) = of_nat (8 * 10 ^ 26)
    \<and> val (OPTIMAL_UTILIZATION_RATE B) + val (EXCESS_UTILIZATION_RATE B) = of_nat (10 ^ 27)"
  using bignumber.RAY_eq [OF assms] bignumber.HALF_RAY_eq [OF assms] bignumber.HALF_WAD_eq [OF assms]
    bignumber.val_utilization_rates [OF assms] by simp

lemma fixed_point_constants_witness: "RAY exact_bn = dec_of_nat (10 ^ 27)"
  using fixed_point_constants [OF exact_bignumber] by blast

section \<open>The percentage check of the chain\<close>

text \<open>
  C27. The multiplication by which the chain checks the collateral parameters returns the product rounded
  half up to whole basis points, and it reverts exactly when the rounded product would not fit into
  256 bits before the division.
\<close>

theorem percentMul_exact:
  "percentMul v percentage =
    (if v = 0 \<or> percentage = 0 \<or> unat v * unat percentage + 5000 < 2 ^ 256
     then Some (word_of_nat ((unat v * unat percentage + 5000) div 10000)) else None)"
proof -
  let ?n = "(unat v * unat percentage + 5000) div 10000"
  show ?thesis
  proof (cases "v = 0 \<or> percentage = 0 \<or> unat v * unat percentage + 5000 < 2 ^ 256")
    case True
    then have "unat v * unat percentage + 5000 < 2 ^ 256" by auto
    then have "?n < 2 ^ 256" by linarith
    then have "unat (word_of_nat ?n :: u256) = ?n" by (simp add: unat_of_nat)
    then have "percentMul v percentage = Some (word_of_nat ?n)" using True percentMul_unat by simp
    then show ?thesis using True by simp
  next
    case False
    then have "percentMul v percentage \<noteq> Some r" for r using percentMul_unat by simp
    then show ?thesis using False by (cases "percentMul v percentage") auto
  qed
qed

section \<open>Borrow rates\<close>

text \<open>
  When the node rejects a batch of borrow rates, the helper contract stays owner of the rate oracle:
  the only transaction of the run is the one that hands it over.
\<close>

theorem setInitialMarketRates_rejected:
  "(let run = setInitialMarketRatesInRatesOracleByHelper (rejecting ''setOracleBorrowRates'')
        [(''CELO'', \<lparr> borrowRate = ''1'' \<rparr>)] [(''CELO'', ''0xcelo'')] demo_data (Some ''0xadmin'') [] in
    fst run = Inl (JsRejected ''execution reverted'')
    \<and> map (\<lambda>(s, a, m, args). (m, args)) (sent (snd run))
      = [(''transferOwnership'', [VStr ''0xStableAndVariableTokensHelper.celo''])])"
  by code_simp

end
