(* ===== verification/Configuration.thy ===== *)
theory Configuration
  imports Deployments
begin

text \<open>
  The network-dependent part of \<open>helpers/configuration.ts\<close>: administrators, treasury, wrapped token
  and the lending rates of a market. \<open>None\<close> is the value \<open>undefined\<close>.
\<close>

definition current_network :: "runtime \<Rightarrow> string" where
  "current_network rt = (if env_is rt ''MAINNET_FORK'' ''true'' then ''main'' else network_name rt)"

text \<open>\<open>addressList[addressIndex]\<close>\<close>

definition signer_at :: "runtime \<Rightarrow> nat \<Rightarrow> string option" where
  "signer_at rt i = (if i < length (signer_addresses rt) then Some (signer_addresses rt ! i) else None)"

definition getGenesisPoolAdmin :: "runtime \<Rightarrow> ICommonConfiguration \<Rightarrow> string option io" where
  "getGenesisPoolAdmin rt config =
     (let currentNetwork = current_network rt;
          targetAddress = Option.bind (getParamPerNetwork rt (PoolAdmin config) currentNetwork) (\<lambda>a. a)
      in if truthy targetAddress then ret targetAddress
         else let addressIndex = PoolAdminIndex config in ret (signer_at rt addressIndex))"

definition getEmergencyAdmin :: "runtime \<Rightarrow> ICommonConfiguration \<Rightarrow> string option io" where
  "getEmergencyAdmin rt config =
     (let currentNetwork = current_network rt;
          targetAddress = Option.bind (getParamPerNetwork rt (EmergencyAdmin config) currentNetwork) (\<lambda>a. a)
      in if truthy targetAddress then ret targetAddress
         else let addressIndex = EmergencyAdminIndex config in ret (signer_at rt addressIndex))"

definition getTreasuryAddress :: "runtime \<Rightarrow> ICommonConfiguration \<Rightarrow> string option io" where
  "getTreasuryAddress rt config =
     ret (getParamPerNetwork rt (ReserveFactorTreasuryAddress config) (current_network rt))"

definition getATokenDomainSeparatorPerNetwork ::
    "runtime \<Rightarrow> string \<Rightarrow> ICommonConfiguration \<Rightarrow> string option" where
  "getATokenDomainSeparatorPerNetwork rt network config =
     getParamPerNetwork rt (ATokenDomainSeparator config) network"

definition getWethAddress :: "runtime \<Rightarrow> ICommonConfiguration \<Rightarrow> string io" where
  "getWethAddress rt config =
     (let currentNetwork = current_network rt;
          wethAddress = getParamPerNetwork rt (WETH config) currentNetwork
      in case wethAddress of
           Some a \<Rightarrow>
             if a \<noteq> '''' then ret a
             else if str_includes currentNetwork ''main'' then
               throw (JsError ''WETH not set at mainnet configuration.'')
             else bind (deployWETHMocked rt False) (\<lambda>weth. ret (address weth))
         | None \<Rightarrow>
             if str_includes currentNetwork ''main'' then
               throw (JsError ''WETH not set at mainnet configuration.'')
             else bind (deployWETHMocked rt False) (\<lambda>weth. ret (address weth)))"

text \<open>
  \<open>Object.keys(ReserveAssets[network])\<close> is evaluated once per rate: with no rates a network without
  assets is not noticed, otherwise it is a TypeError.
\<close>

definition getLendingRateOracles :: "runtime \<Rightarrow> ICommonConfiguration \<Rightarrow> js_error + IMarketRates js_obj" where
  "getLendingRateOracles rt poolConfig =
     (case obj_get (ReserveAssets poolConfig) (current_network rt) of
        None \<Rightarrow> if LendingRateOracleRatesCommon poolConfig = [] then Inr []
                else Inl (JsTypeError ''Cannot convert undefined or null to object'')
      | Some assets \<Rightarrow>
          Inr (filterMapBy (LendingRateOracleRatesCommon poolConfig)
                 (\<lambda>key. key \<in> set (obj_keys assets))))"

lemma quiet_configuration [quiet_intros]:
  "quiet sent (getGenesisPoolAdmin rt config)" "quiet sent (getEmergencyAdmin rt config)"
  "quiet sent (getTreasuryAddress rt config)" "quiet sent (getWethAddress rt config)"
  unfolding getGenesisPoolAdmin_def getEmergencyAdmin_def getTreasuryAddress_def getWethAddress_def Let_def
  by (auto intro!: quiet_intros split: option.split)

end
