(* ===== verification/FullTasks.thy ===== *)
theory FullTasks
  imports InitHelpers Configuration
begin

text \<open>
  The tasks of \<open>tasks/full\<close> that deploy a market, and \<open>tasks/misc/set-bre.ts\<close>, which they all start
  with. A task's \<open>pool\<close> is the configuration's name, its \<open>verify\<close> flag a boolean. The runtime's
  network, chain id and signers are those of the hardhat environment the task receives; \<open>A\<close> holds the
  address predicates, \<open>arts\<close> the compiled artifacts, \<open>B\<close> the operations of bignumber.js.
\<close>

section \<open>set-DRE\<close>

text \<open>
  The module variable \<open>DRE\<close> is set once per process: the history records it as a run of the task
  \<open>set-DRE\<close>. Only a Tenderly network has effects of its own.
\<close>

definition dre_mark :: event where
  "dre_mark = EvOk (ReqRun ''set-DRE'' VUndef) ReplyUnit"

definition tenderly_setup :: "runtime \<Rightarrow> unit io" where
  "tenderly_setup rt =
     seq (if truthy (env_var rt ''TENDERLY_FORK_ID'') \<and> truthy (env_var rt ''TENDERLY_HEAD_ID'') then
            seq (run_plugin_task rt ''tenderlyRPC.setFork'' (opt_val (env_var rt ''TENDERLY_FORK_ID'')))
                (run_plugin_task rt ''tenderlyRPC.setHead'' (opt_val (env_var rt ''TENDERLY_HEAD_ID'')))
          else run_plugin_task rt ''tenderlyRPC.initializeFork'' VUndef)
    (bind (lift_sum (case first_signer rt of None \<Rightarrow> Inl (JsTypeError ''getAddress of undefined'') | Some a \<Rightarrow> Inr a))
       (\<lambda>a. seq (rpc_send rt ''eth_getBalance'' [VStr a]) (ret ())))"

definition mark_dre :: "unit io" where
  "mark_dre h = (Inr (), h @ [dre_mark])"

definition set_DRE :: "runtime \<Rightarrow> unit io" where
  "set_DRE rt h =
     (if dre_mark \<in> set h then (Inr (), h)
      else seq (io_when (str_includes (network_name rt) ''tenderly'' \<or> env_is rt ''TENDERLY'' ''true'')
                 (tenderly_setup rt)) mark_dre h)"

section \<open>0 and 1: registry and addresses provider\<close>

definition full_address_provider_registry :: "runtime \<Rightarrow> bool \<Rightarrow> unit io" where
  "full_address_provider_registry rt verify =
     seq (set_DRE rt)
    (bind (deployLendingPoolAddressesProviderRegistry rt verify) (\<lambda>_. ret ()))"

text \<open>\<open>firstAccount.sendTransaction({ value: parseEther('10'), to })\<close>: a transfer without a method.\<close>

definition send_ether :: "runtime \<Rightarrow> string option \<Rightarrow> string \<Rightarrow> string io" where
  "send_ether rt sender dest =
     send_tx rt \<lparr> abi = '''', address = dest, signer = sender, deployer = None \<rparr> ''''
       [VObj [(''value'', VNum (10 ^ 19)), (''to'', VStr dest)]]"

definition full_address_provider ::
    "runtime \<Rightarrow> 'b bn_api \<Rightarrow> address_api \<Rightarrow> bool \<Rightarrow> string \<Rightarrow> unit io" where
  "full_address_provider rt B A verify pool =
     seq (set_DRE rt)
    (bind (lift_sum (loadPoolConfig B pool)) (\<lambda>poolConfig.
     let network = network_name rt;
         join = (\<lambda>v. Option.bind v (\<lambda>a. a));
         providerRegistryAddress = join (getParamPerNetwork rt (ProviderRegistry poolConfig) network);
         providerRegistryOwner = join (getParamPerNetwork rt (ProviderRegistryOwner poolConfig) network)
     in
     bind (lift_sum (case providerRegistryOwner of
              None \<Rightarrow> Inl (JsError ''config.ProviderRegistryOwner is missing or is not an address.'')
            | Some owner \<Rightarrow>
                if owner = '''' \<or> \<not> is_address A owner \<or> is_zero_address A owner
                then Inl (JsError ''config.ProviderRegistryOwner is missing or is not an address.'')
                else Inr owner)) (\<lambda>owner.
     seq (io_when (env_is rt ''MAINNET_FORK'' ''true'')
           (seq (rpc_send rt ''hardhat_impersonateAccount'' [VStr owner])
           (seq (send_ether rt (first_signer rt) owner) (ret ()))))
    (bind (getLendingPoolAddressesProviderRegistry rt providerRegistryAddress) (\<lambda>registry.
     let addressesProviderRegistry = connect_signer registry (Some owner) in
     bind (deployLendingPoolAddressesProvider rt (MarketId poolConfig) verify) (\<lambda>addressesProvider.
     seq (send_and_wait rt addressesProviderRegistry ''registerAddressesProvider''
           [VStr (address addressesProvider), VNum (ProviderId poolConfig)])
    (bind (getGenesisPoolAdmin rt poolConfig) (\<lambda>poolAdmin.
     seq (send_and_wait rt addressesProvider ''setPoolAdmin'' [opt_val poolAdmin])
    (bind (getEmergencyAdmin rt poolConfig) (\<lambda>emergencyAdmin.
     seq (send_and_wait rt addressesProvider ''setEmergencyAdmin'' [opt_val emergencyAdmin])
    (seq (call_view rt addressesProvider ''getPoolAdmin'' [])
    (seq (call_view rt addressesProvider ''getEmergencyAdmin'' [])
    (ret ())))))))))))))"

section \<open>2: lending pool\<close>

text \<open>
  \<open>try { ... } catch (error) { ...; throw error }\<close> logs a link on Tenderly and passes the error on.
\<close>

definition rethrow :: "'a io \<Rightarrow> 'a io" where
  "rethrow m = catch m (\<lambda>error. throw error)"

definition full_lending_pool ::
    "runtime \<Rightarrow> 'b bn_api \<Rightarrow> address_api \<Rightarrow> artifact_api \<Rightarrow> bool \<Rightarrow> string \<Rightarrow> unit io" where
  "full_lending_pool rt B A arts verify pool = rethrow
    (seq (set_DRE rt)
    (bind (lift_sum (loadPoolConfig B pool)) (\<lambda>poolConfig.
     let network = network_name rt in
     bind (getLendingPoolAddressesProvider rt None) (\<lambda>addressesProvider.
     let configured = getParamPerNetwork rt (LendingPool poolConfig) network in
     bind (if \<not> notFalsyOrZeroAddress A configured
           then bind (deployLendingPool rt arts verify) (\<lambda>impl. ret (Some (address impl)))
           else ret configured) (\<lambda>lendingPoolImplAddress.
     seq (send_and_wait rt addressesProvider ''setLendingPoolImpl'' [opt_val lendingPoolImplAddress])
    (bind (call_str rt addressesProvider ''getLendingPool'' []) (\<lambda>addr.
     bind (getLendingPool rt (Some addr)) (\<lambda>lendingPoolProxy.
     seq (insertContractAddressInDb rt Id_LendingPool (address lendingPoolProxy))
    (let configuredConfigurator = getParamPerNetwork rt (LendingPoolConfigurator poolConfig) network in
     bind (if \<not> notFalsyOrZeroAddress A configuredConfigurator
           then bind (deployLendingPoolConfigurator rt verify) (\<lambda>impl. ret (Some (address impl)))
           else ret configuredConfigurator) (\<lambda>lendingPoolConfiguratorImplAddress.
     seq (send_and_wait rt addressesProvider ''setLendingPoolConfiguratorImpl''
           [opt_val lendingPoolConfiguratorImplAddress])
    (bind (call_str rt addressesProvider ''getLendingPoolConfigurator'' []) (\<lambda>caddr.
     bind (getLendingPoolConfiguratorProxy rt (Some caddr)) (\<lambda>lendingPoolConfiguratorProxy.
     seq (insertContractAddressInDb rt Id_LendingPoolConfigurator (address lendingPoolConfiguratorProxy))
    (bind (deployStableAndVariableTokensHelper rt
             [address lendingPoolProxy, address addressesProvider] verify) (\<lambda>_.
     bind (deployATokensAndRatesHelper rt
             [address lendingPoolProxy, address addressesProvider, address lendingPoolConfiguratorProxy]
             verify) (\<lambda>_.
     ret ()))))))))))))))))"

section \<open>3: oracles\<close>

text \<open>
  \<open>getPairsTokenAggregator(tokensToWatch, undefined)\<close>: \<open>Object.keys(undefined)\<close> throws at the first
  asset, if there is one.
\<close>

definition pairs_for :: "string js_obj \<Rightarrow> string js_obj option \<Rightarrow> js_error + string list \<times> string list" where
  "pairs_for tokensToWatch chainlinkAggregators =
     (case chainlinkAggregators of
        Some aggs \<Rightarrow> getPairsTokenAggregator tokensToWatch aggs
      | None \<Rightarrow>
          if obj_omit [''ETH'', ''USD'', ''WETH'', ''CELO''] tokensToWatch = [] then Inr ([], [])
          else Inl (JsTypeError ''Cannot convert undefined or null to object''))"

definition full_oracles ::
    "runtime \<Rightarrow> 'b bn_api \<Rightarrow> address_api \<Rightarrow> bool \<Rightarrow> string \<Rightarrow> unit io" where
  "full_oracles rt B A verify pool = rethrow
    (seq (set_DRE rt)
    (bind (lift_sum (loadPoolConfig B pool)) (\<lambda>poolConfig.
     let network = network_name rt in
     bind (lift_sum (getLendingRateOracles rt poolConfig)) (\<lambda>lendingRateOracles.
     bind (getLendingPoolAddressesProvider rt None) (\<lambda>addressesProvider.
     bind (getGenesisPoolAdmin rt poolConfig) (\<lambda>admin.
     let aaveOracleAddress = getParamPerNetwork rt (AaveOracle poolConfig) network;
         lendingRateOracleAddress = getParamPerNetwork rt (LendingRateOracle poolConfig) network;
         fallbackOracleAddress = getParamPerNetwork rt (FallbackOracle poolConfig) network;
         reserveAssets = getParamPerNetwork rt (ReserveAssets poolConfig) network;
         chainlinkAggregators = getParamPerNetwork rt (ChainlinkAggregator poolConfig) network;
         tokensToWatch =
           obj_set (obj_spread [] (case reserveAssets of None \<Rightarrow> [] | Some r \<Rightarrow> r))
             ''USD'' (UsdAddress (ProtocolGlobalParams poolConfig))
     in
     bind (if notFalsyOrZeroAddress A aaveOracleAddress then getAaveOracle rt aaveOracleAddress
           else bind (lift_sum (pairs_for tokensToWatch chainlinkAggregators)) (\<lambda>(tokens, aggregators).
                bind (getWethAddress rt poolConfig) (\<lambda>weth.
                deployAaveOracle rt tokens aggregators fallbackOracleAddress weth verify))) (\<lambda>aaveOracle.
     bind (if notFalsyOrZeroAddress A lendingRateOracleAddress
           then getLendingRateOracle rt lendingRateOracleAddress
           else deployLendingRateOracle rt verify) (\<lambda>lendingRateOracle0.
     let tokensAddressesWithoutUsd = obj_omit [''USD''] tokensToWatch in
     bind (call_str rt lendingRateOracle0 ''owner'' []) (\<lambda>owner.
     let lendingRateOracle = connect_signer lendingRateOracle0 (Some owner) in
     seq (setInitialMarketRatesInRatesOracleByHelper rt lendingRateOracles tokensAddressesWithoutUsd
            lendingRateOracle admin)
    (seq (send_and_wait rt addressesProvider ''setPriceOracle'' [VStr (address aaveOracle)])
    (send_and_wait rt addressesProvider ''setLendingRateOracle'' [VStr (address lendingRateOracle)])))))))))))"

section \<open>4 and 5: data provider and gateway\<close>

text \<open>\<open>try { ... } catch (err) { console.error(err); exit(1); }\<close>\<close>

definition exit_on_error :: "unit io \<Rightarrow> unit io" where
  "exit_on_error m = catch m (\<lambda>err. throw (JsExit 1))"

definition full_data_provider :: "runtime \<Rightarrow> bool \<Rightarrow> unit io" where
  "full_data_provider rt verify = exit_on_error
    (seq (set_DRE rt)
    (bind (getLendingPoolAddressesProvider rt None) (\<lambda>addressesProvider.
     bind (deployAaveProtocolDataProvider rt (address addressesProvider) verify) (\<lambda>_. ret ()))))"

definition full_weth_gateway :: "runtime \<Rightarrow> 'b bn_api \<Rightarrow> bool \<Rightarrow> string \<Rightarrow> unit io" where
  "full_weth_gateway rt B verify pool =
     seq (set_DRE rt)
    (bind (lift_sum (loadPoolConfig B pool)) (\<lambda>poolConfig.
     let network = network_name rt in
     bind (getWethAddress rt poolConfig) (\<lambda>Weth.
     if chain_id rt = None \<or> chain_id rt = Some 0 then throw (JsError ''INVALID_CHAIN_ID'')
     else
       let gateWay = getParamPerNetwork rt (WethGateway poolConfig) network in
       if gateWay = Some '''' then bind (deployWETHGateway rt [Weth] verify) (\<lambda>_. ret ())
       else ret ())))"

section \<open>6: initialization of the reserves\<close>

definition full_initialize ::
    "runtime \<Rightarrow> 'b bn_api \<Rightarrow> address_api \<Rightarrow> bool \<Rightarrow> string \<Rightarrow> unit io" where
  "full_initialize rt B A verify pool = exit_on_error
    (seq (set_DRE rt)
    (bind (lift_sum (loadPoolConfig B pool)) (\<lambda>poolConfig.
     let network = network_name rt in
     bind (ret (getParamPerNetwork rt (ReserveAssets poolConfig) network)) (\<lambda>assets.
     bind (getLendingPoolAddressesProvider rt None) (\<lambda>addressesProvider.
     bind (getAaveProtocolDataProvider rt None) (\<lambda>testHelpers.
     bind (call_str rt addressesProvider ''getPoolAdmin'' []) (\<lambda>admin.
     bind (case assets of None \<Rightarrow>
             throw (JsThrown ''Reserve assets is undefined. Check ReserveAssets configuration at config directory'')
           | Some r \<Rightarrow> ret r) (\<lambda>reserveAssets.
     bind (getTreasuryAddress rt poolConfig) (\<lambda>treasury.
     seq (initReservesByHelper rt (ReservesConfig poolConfig) reserveAssets (ATokenNamePrefix poolConfig)
            (StableDebtTokenNamePrefix poolConfig) (VariableDebtTokenNamePrefix poolConfig)
            (SymbolPrefix poolConfig) admin treasury ZERO_ADDRESS verify)
    (seq (configureReservesByHelper rt (ReservesConfig poolConfig) reserveAssets testHelpers admin)
    (let configured = getParamPerNetwork rt (LendingPoolCollateralManager poolConfig) network in
     bind (if \<not> notFalsyOrZeroAddress A configured
           then bind (deployLendingPoolCollateralManager rt verify) (\<lambda>manager. ret (Some (address manager)))
           else ret configured) (\<lambda>collateralManagerAddress.
     seq (send_and_wait rt addressesProvider ''setLendingPoolCollateralManager''
            [opt_val collateralManagerAddress])
    (bind (deployWalletBalancerProvider rt verify) (\<lambda>_.
     bind (call_str rt addressesProvider ''getLendingPool'' []) (\<lambda>lendingPoolAddress.
     if network = celo_network Celo_celo \<or> network = celo_network Celo_alfajores then ret ()
     else
       let gateWay = getParamPerNetwork rt (WethGateway poolConfig) network in
       bind (if \<not> notFalsyOrZeroAddress A gateWay
             then bind (getWETHGateway rt None) (\<lambda>g. ret (address g))
             else ret (case gateWay of None \<Rightarrow> '''' | Some g \<Rightarrow> g)) (\<lambda>g.
       bind (authorizeWETHGateway rt g lendingPoolAddress) (\<lambda>_. ret ())))))))))))))))))"

end
