(* ===== verification/TokenReserves.thy ===== *)
theory TokenReserves
  imports FullTasks
begin

text \<open>
  The older path by which reserves were added to a running market: \<open>initTokenReservesByHelper\<close> of
  \<open>helpers/init-helpers.ts\<close> (with its own \<open>getAddressById\<close>) and the task
  \<open>full:initialize-tokens\<close> of \<open>tasks/misc\<close> that calls it, and the task \<open>print-config\<close> it ends with.
\<close>

section \<open>Reading the registry\<close>

text \<open>\<open>(await getDb().get(`${id}.${network}`).value())?.address || undefined\<close>\<close>

definition getAddressById_init :: "runtime \<Rightarrow> string \<Rightarrow> string \<Rightarrow> string option io" where
  "getAddressById_init rt name network = bind (db_get rt (name @ ''.'' @ network)) (\<lambda>entry.
     ret (case entry of None \<Rightarrow> None
          | Some e \<Rightarrow> if entry_address e = '''' then None else Some (entry_address e)))"

text \<open>\<open>process.env.MAINNET_FORK === 'true' ? eEthereumNetwork.main : DRE.network.name\<close>\<close>

definition fork_network :: "runtime \<Rightarrow> string" where
  "fork_network rt = (if env_is rt ''MAINNET_FORK'' ''true'' then eth_network Eth_main else network_name rt)"

section \<open>initTokenReservesByHelper\<close>

text \<open>The lists the loop fills in parallel, one element for each reserve in the batch.\<close>

record token_state =
  deployedStableTokens :: "string list"
  deployedVariableTokens :: "string list"
  deployedATokens :: "string list"
  deployedRates :: "string list"
  batchDecimals :: "string list"
  batchSymbols :: "string list"

definition token_start :: token_state where
  "token_start = \<lparr> deployedStableTokens = [], deployedVariableTokens = [], deployedATokens = [],
     deployedRates = [], batchDecimals = [], batchSymbols = [] \<rparr>"

text \<open>\<open>if (!known) { ...; known = deployed.address }\<close>\<close>

definition known_or :: "string option \<Rightarrow> contract io \<Rightarrow> string io" where
  "known_or known dep = (case known of
       Some a \<Rightarrow> if a \<noteq> '''' then ret a else bind dep (\<lambda>c. ret (address c))
     | None \<Rightarrow> bind dep (\<lambda>c. ret (address c)))"

text \<open>The aToken implementation of the registry; other kinds have none.\<close>

definition registered_aToken :: "runtime \<Rightarrow> string \<Rightarrow> eContractid \<Rightarrow> string option io" where
  "registered_aToken rt network impl =
     (if impl = Id_AToken then getAddressById_init rt ''aTokenImpl'' network
      else if impl = Id_DelegationAwareAToken then getAddressById_init rt ''delegationAwareATokenImpl'' network
      else ret (Some ''''))"

text \<open>
  The implementations of one reserve. The first argument of a new rate strategy, its addresses
  provider, is the address of the token. An undefined treasury, which ethers refuses, is the empty
  string in the arguments of an aToken.
\<close>

definition token_implementations ::
    "runtime \<Rightarrow> string \<Rightarrow> string \<Rightarrow> string option \<Rightarrow> bool \<Rightarrow> string \<Rightarrow> string \<Rightarrow> IReserveParams
     \<Rightarrow> (string \<times> string \<times> string \<times> string) io" where
  "token_implementations rt network poolAddress treasury verify symbol token params =
     bind (getAddressById_init rt ''stableDebtTokenImpl'' network) (\<lambda>stableKnown.
     bind (getAddressById_init rt ''variableDebtTokenImpl'' network) (\<lambda>variableKnown.
     bind (registered_aToken rt network (aTokenImpl params)) (\<lambda>aTokenKnown.
     bind (getAddressById_init rt (strategy_name (strategy params)) network) (\<lambda>strategyKnown.
     bind (known_or stableKnown (deployStableDebtToken rt
         (poolAddress, token, ZERO_ADDRESS, ''Moola stable debt bearing '' @ symbol, ''stableDebt'' @ symbol)
         verify)) (\<lambda>stableTokenImpl.
     bind (known_or variableKnown (deployVariableDebtToken rt
         (poolAddress, token, ZERO_ADDRESS, ''Moola variable debt bearing '' @ symbol, ''variableDebt'' @ symbol)
         verify)) (\<lambda>variableTokenImpl.
     bind (known_or aTokenKnown
         (bind (lift_sum (chooseATokenDeployment (aTokenImpl params))) (\<lambda>deployCustomAToken.
          deployCustomAToken rt (poolAddress, token, val_str (opt_val treasury), ZERO_ADDRESS,
            ''Moola interest bearing '' @ symbol, ''m'' @ symbol) verify))) (\<lambda>aTokenImplementation.
     bind (known_or strategyKnown
         (deployDefaultReserveInterestRateStrategy rt (strategy_args token (strategy params)) verify))
       (\<lambda>strategyImpl.
     ret (stableTokenImpl, variableTokenImpl, aTokenImplementation, strategyImpl)))))))))"

definition init_token ::
    "runtime \<Rightarrow> address_api \<Rightarrow> IReserveParams js_obj \<Rightarrow> string \<Rightarrow> string \<Rightarrow> string option \<Rightarrow> bool \<Rightarrow> contract
     \<Rightarrow> token_state \<Rightarrow> string \<times> string \<Rightarrow> token_state io" where
  "init_token rt A reservesParams network poolAddress treasury verify dataProvider st entry =
     (let symbol = fst entry; token = snd entry in
      bind (call_view rt dataProvider ''getReserveTokensAddresses'' [VStr token]) (\<lambda>data.
      bind (lift_sum (val_field data ''aTokenAddress'')) (\<lambda>aTokenAddress.
      bind (lift_sum (entry_at reservesParams symbol)) (\<lambda>params.
      if \<not> is_zero_address A (val_str aTokenAddress) then ret st
      else
        bind (token_implementations rt network poolAddress treasury verify symbol token params)
          (\<lambda>(stableTokenImpl, variableTokenImpl, aTokenImplementation, strategyImpl).
        ret (st\<lparr>deployedStableTokens := deployedStableTokens st @ [stableTokenImpl],
                deployedVariableTokens := deployedVariableTokens st @ [variableTokenImpl],
                deployedATokens := deployedATokens st @ [aTokenImplementation],
                deployedRates := deployedRates st @ [strategyImpl],
                batchDecimals := batchDecimals st @ [reserveDecimals params],
                batchSymbols := batchSymbols st @ [symbol]\<rparr>))))))"

definition token_input :: "string js_obj \<Rightarrow> string option \<Rightarrow> token_state \<Rightarrow> nat \<Rightarrow> init_input" where
  "token_input tokenAddresses treasury st i =
     (let symbol = batchSymbols st ! i in
      \<lparr> in_aTokenImpl = deployedATokens st ! i,
        in_stableDebtTokenImpl = deployedStableTokens st ! i,
        in_variableDebtTokenImpl = deployedVariableTokens st ! i,
        in_underlyingAssetDecimals = batchDecimals st ! i,
        in_interestRateStrategyAddress = Some (deployedRates st ! i),
        in_underlyingAsset = obj_get tokenAddresses symbol,
        in_treasury = treasury,
        in_incentivesController = ZERO_ADDRESS,
        in_underlyingAssetName = symbol,
        in_aTokenName = ''Moola interest bearing '' @ symbol,
        in_aTokenSymbol = ''m'' @ symbol,
        in_variableDebtTokenName = ''Moola variable debt bearing '' @ symbol,
        in_variableDebtTokenSymbol = ''variableDebt'' @ symbol,
        in_stableDebtTokenName = ''Moola stable debt bearing '' @ symbol,
        in_stableDebtTokenSymbol = ''stableDebt'' @ symbol,
        in_params = ''0x10'' \<rparr>)"

definition initTokenReservesByHelper ::
    "runtime \<Rightarrow> address_api \<Rightarrow> IReserveParams js_obj \<Rightarrow> string js_obj \<Rightarrow> string \<Rightarrow> string \<Rightarrow> string \<Rightarrow> string
     \<Rightarrow> string option \<Rightarrow> string option \<Rightarrow> bool \<Rightarrow> int io" where
  "initTokenReservesByHelper rt A reservesParams tokenAddresses admin addressesProviderAddress
     ratesHelperAddress dataProviderAddress sender treasury verify =
     bind (getATokensAndRatesHelper rt (Some ratesHelperAddress)) (\<lambda>_.
     bind (getLendingPoolAddressesProvider rt (Some addressesProviderAddress)) (\<lambda>provider.
     let addressProvider = connect_signer provider sender in
     bind (getAaveProtocolDataProvider rt (Some dataProviderAddress)) (\<lambda>data.
     let protocolDataProvider = connect_signer data sender in
     bind (call_str rt addressProvider ''getLendingPool'' []) (\<lambda>poolAddress.
     bind (fold_io (init_token rt A reservesParams (fork_network rt) poolAddress treasury verify
             protocolDataProvider) token_start tokenAddresses) (\<lambda>st.
     let initInputParams = map (token_input tokenAddresses treasury st) [0..<length (deployedATokens st)] in
     bind (getLendingPoolConfiguratorProxy rt None) (\<lambda>configurator.
     seq (batch_init rt configurator initInputParams) (ret 0)))))))"

text \<open>Kept in the file although nothing calls it any more.\<close>

definition isErc20SymbolCorrect :: "runtime \<Rightarrow> string \<Rightarrow> string \<Rightarrow> bool io" where
  "isErc20SymbolCorrect rt token symbol =
     bind (getAToken rt (Some token)) (\<lambda>erc20.
     bind (call_str rt erc20 ''symbol'' []) (\<lambda>erc20Symbol.
     ret (symbol = erc20Symbol)))"

section \<open>The tasks\<close>

text \<open>\<open>providers[0]\<close> of the registry's list.\<close>

fun first_address :: "js_val \<Rightarrow> string option" where
  "first_address (VList (VStr a # _)) = Some a"
| "first_address _ = None"

definition print_fields :: "string list" where
  "print_fields = [''decimals'', ''ltv'', ''liquidationThreshold'', ''liquidationBonus'', ''reserveFactor'',
     ''usageAsCollateralEnabled'', ''borrowingEnabled'', ''stableBorrowRateEnabled'', ''isActive'', ''isFrozen'']"

text \<open>\<open>reserveData[field].toString()\<close> throws on a missing field.\<close>

definition print_field :: "js_val \<Rightarrow> string \<Rightarrow> unit io" where
  "print_field reserveData field = bind (lift_sum (val_field reserveData field)) (\<lambda>v.
     if v = VUndef then throw (JsTypeError ''Cannot read property toString of undefined'') else ret ())"

text \<open>The view calls of the task; what it prints is not modelled.\<close>

definition print_config :: "runtime \<Rightarrow> 'b bn_api \<Rightarrow> string \<Rightarrow> string \<Rightarrow> unit io" where
  "print_config rt B pool dataProvider =
     seq (set_DRE rt)
    (let network = fork_network rt in
     bind (lift_sum (loadPoolConfig B pool)) (\<lambda>poolConfig.
     bind (getLendingPoolAddressesProviderRegistry rt
         (Option.bind (getParamPerNetwork rt (ProviderRegistry poolConfig) network) (\<lambda>a. a))) (\<lambda>providerRegistry.
     bind (call_view rt providerRegistry ''getAddressesProvidersList'' []) (\<lambda>providers.
     bind (getLendingPoolAddressesProvider rt (first_address providers)) (\<lambda>addressesProvider.
     seq (for_each (\<lambda>m. bind (call_view rt addressesProvider m []) (\<lambda>_. ret ()))
           [''getMarketId'', ''getLendingPool'', ''getLendingPoolCollateralManager'', ''getLendingPoolConfigurator'',
            ''getPoolAdmin'', ''getEmergencyAdmin'', ''getPriceOracle'', ''getLendingRateOracle''])
    (bind (getAaveProtocolDataProvider rt (Some dataProvider)) (\<lambda>protocolDataProvider.
     bind (lift_sum (case getParamPerNetwork rt (ReserveAssets poolConfig) network of
         None \<Rightarrow> Inl (JsTypeError ''Cannot convert undefined or null to object'') | Some r \<Rightarrow> Inr r)) (\<lambda>assets.
     for_each (\<lambda>(symbol, asset).
        bind (call_view rt protocolDataProvider ''getReserveConfigurationData'' [VStr asset]) (\<lambda>reserveData.
        seq (call_view rt protocolDataProvider ''getReserveTokensAddresses'' [VStr asset])
       (for_each (print_field reserveData) print_fields))) assets))))))))"

text \<open>\<open>getSigner(undefined)\<close> is the node's first account.\<close>

definition owner_signer :: "runtime \<Rightarrow> string option \<Rightarrow> string option" where
  "owner_signer rt owner = (case owner of None \<Rightarrow> first_signer rt | Some a \<Rightarrow> Some a)"

definition full_initialize_tokens ::
    "runtime \<Rightarrow> 'b bn_api \<Rightarrow> address_api \<Rightarrow> bool \<Rightarrow> string \<Rightarrow> string \<Rightarrow> string \<Rightarrow> unit io" where
  "full_initialize_tokens rt B A verify pool dataProvider ratesDeployer = exit_on_error
    (seq (set_DRE rt)
    (let network = fork_network rt; join = (\<lambda>v. Option.bind v (\<lambda>a. a)) in
     bind (lift_sum (loadPoolConfig B pool)) (\<lambda>poolConfig.
     bind (getTreasuryAddress rt poolConfig) (\<lambda>treasury.
     let providerRegistryOwner = join (getParamPerNetwork rt (ProviderRegistryOwner poolConfig) network);
         sender = owner_signer rt providerRegistryOwner in
     bind (getLendingPoolAddressesProviderRegistry rt
         (join (getParamPerNetwork rt (ProviderRegistry poolConfig) network))) (\<lambda>providerRegistry.
     bind (call_view rt providerRegistry ''getAddressesProvidersList'' []) (\<lambda>providers.
     bind (getLendingPoolAddressesProvider rt (first_address providers)) (\<lambda>addressesProvider.
     bind (call_str rt addressesProvider ''getPoolAdmin'' []) (\<lambda>admin.
     bind (case getParamPerNetwork rt (ReserveAssets poolConfig) network of
         None \<Rightarrow> throw (JsThrown ''Reserve assets is undefined. Check ReserveAssets configuration at config directory'')
       | Some r \<Rightarrow> ret r) (\<lambda>reserveAssets.
     seq (io_when (env_is rt ''MAINNET_FORK'' ''true'')
           (seq (rpc_send rt ''hardhat_impersonateAccount'' [opt_val providerRegistryOwner])
           (bind (send_ether rt (first_signer rt) (val_str (opt_val sender))) (\<lambda>tx.
            seq (wait_tx rt tx)
           (seq (rpc_send rt ''eth_getBalance'' [opt_val sender]) (ret ()))))))
    (seq (initTokenReservesByHelper rt A (ReservesConfig poolConfig) reserveAssets admin
            (address addressesProvider) ratesDeployer dataProvider sender treasury verify)
    (print_config rt B ''Aave'' dataProvider)))))))))))"

end
