(* ===== verification/DevTasks.thy ===== *)
theory DevTasks
  imports TokenReserves
begin

text \<open>
  \<open>tasks/dev\<close>, the tasks that deploy a market of mock tokens, and \<open>tasks/verifications\<close>, the
  verification of a deployed market on Etherscan. A parameter that a task does not receive is
  undefined, that is false for a flag.
\<close>

section \<open>dev: a market of mock tokens\<close>

definition dev_mock_tokens :: "runtime \<Rightarrow> 'b bn_api \<Rightarrow> bool \<Rightarrow> unit io" where
  "dev_mock_tokens rt B verify =
     seq (set_DRE rt) (bind (deployAllMockTokens rt B verify) (\<lambda>_. ret ()))"

definition dev_address_provider :: "runtime \<Rightarrow> 'b bn_api \<Rightarrow> bool \<Rightarrow> unit io" where
  "dev_address_provider rt B verify =
     seq (set_DRE rt)
    (bind (lift_sum (case first_signer rt of
         None \<Rightarrow> Inl (JsTypeError ''Cannot read property getAddress of undefined'') | Some a \<Rightarrow> Inr a)) (\<lambda>admin.
     bind (deployLendingPoolAddressesProvider rt (MarketId (AaveConfig B)) verify) (\<lambda>addressesProvider.
     seq (send_and_wait rt addressesProvider ''setPoolAdmin'' [VStr admin])
    (bind (deployLendingPoolAddressesProviderRegistry rt verify) (\<lambda>addressesProviderRegistry.
     send_and_wait rt addressesProviderRegistry ''registerAddressesProvider''
       [VStr (address addressesProvider), VNum 1])))))"

definition dev_lending_pool :: "runtime \<Rightarrow> artifact_api \<Rightarrow> bool \<Rightarrow> unit io" where
  "dev_lending_pool rt arts verify =
     seq (set_DRE rt)
    (bind (getLendingPoolAddressesProvider rt None) (\<lambda>addressesProvider.
     bind (deployLendingPool rt arts verify) (\<lambda>lendingPoolImpl.
     seq (send_and_wait rt addressesProvider ''setLendingPoolImpl'' [VStr (address lendingPoolImpl)])
    (bind (call_str rt addressesProvider ''getLendingPool'' []) (\<lambda>addr.
     bind (getLendingPool rt (Some addr)) (\<lambda>lendingPoolProxy.
     seq (insertContractAddressInDb rt Id_LendingPool (address lendingPoolProxy))
    (bind (deployLendingPoolConfigurator rt verify) (\<lambda>lendingPoolConfiguratorImpl.
     seq (send_and_wait rt addressesProvider ''setLendingPoolConfiguratorImpl''
            [VStr (address lendingPoolConfiguratorImpl)])
    (bind (call_str rt addressesProvider ''getLendingPoolConfigurator'' []) (\<lambda>caddr.
     bind (getLendingPoolConfiguratorProxy rt (Some caddr)) (\<lambda>lendingPoolConfiguratorProxy.
     seq (insertContractAddressInDb rt Id_LendingPoolConfigurator (address lendingPoolConfiguratorProxy))
    (bind (deployStableAndVariableTokensHelper rt
             [address lendingPoolProxy, address addressesProvider] verify) (\<lambda>_.
     bind (deployATokensAndRatesHelper rt
             [address lendingPoolProxy, address addressesProvider, address lendingPoolConfiguratorProxy]
             verify) (\<lambda>_.
     ret ()))))))))))))))"

text \<open>
  The prices are given for every token id: the empty address for a token without a mock. The oracle
  set at the addresses provider is the fallback oracle.
\<close>

definition mock_addresses :: "string \<Rightarrow> contract js_obj \<Rightarrow> string js_obj" where
  "mock_addresses usd mockTokens =
     foldl (\<lambda>prev (curr, token). obj_set prev curr (address token))
       (obj_set (map (\<lambda>symbol. (symbol, '''')) (obj_keys TokenContractId)) ''USD'' usd) mockTokens"

definition dev_oracles :: "runtime \<Rightarrow> 'b bn_api \<Rightarrow> bool \<Rightarrow> string \<Rightarrow> unit io" where
  "dev_oracles rt B verify pool =
     seq (set_DRE rt)
    (bind (lift_sum (loadPoolConfig B pool)) (\<lambda>poolConfig.
     bind (getAllMockedTokens rt) (\<lambda>mockTokens.
     let mockTokensAddress = mock_addresses (UsdAddress (ProtocolGlobalParams poolConfig)) mockTokens in
     bind (getLendingPoolAddressesProvider rt None) (\<lambda>addressesProvider.
     bind (call_str rt addressesProvider ''getPoolAdmin'' []) (\<lambda>admin.
     bind (deployPriceOracle rt verify) (\<lambda>fallbackOracle.
     seq (send_and_wait rt fallbackOracle ''setEthUsdPrice''
            [VStr (MockUsdPriceInWei (ProtocolGlobalParams poolConfig))])
    (seq (setInitialAssetPricesInOracle rt (AllAssetsInitialPrices poolConfig) mockTokensAddress fallbackOracle)
    (bind (deployAllMockAggregators rt (AllAssetsInitialPrices poolConfig) verify) (\<lambda>mockAggregators.
     let allTokenAddresses = getAllTokenAddresses mockTokens;
         allAggregatorsAddresses = getAllAggregatorsAddresses mockAggregators in
     bind (lift_sum (getPairsTokenAggregator allTokenAddresses allAggregatorsAddresses)) (\<lambda>(tokens, aggregators).
     bind (getWethAddress rt poolConfig) (\<lambda>weth.
     bind (deployAaveOracle rt tokens aggregators (Some (address fallbackOracle)) weth verify) (\<lambda>_.
     seq (send_and_wait rt addressesProvider ''setPriceOracle'' [VStr (address fallbackOracle)])
    (bind (deployLendingRateOracle rt verify) (\<lambda>lendingRateOracle.
     seq (send_and_wait rt addressesProvider ''setLendingRateOracle'' [VStr (address lendingRateOracle)])
    (setInitialMarketRatesInRatesOracleByHelper rt (LendingRateOracleRatesCommon poolConfig)
       (obj_omit [''USD''] allTokenAddresses) lendingRateOracle (Some admin))))))))))))))))"

text \<open>The gateway of the configuration is authorized even when it is the empty address.\<close>

definition dev_initialize :: "runtime \<Rightarrow> 'b bn_api \<Rightarrow> bool \<Rightarrow> string \<Rightarrow> unit io" where
  "dev_initialize rt B verify pool =
     seq (set_DRE rt)
    (let network = network_name rt in
     bind (lift_sum (loadPoolConfig B pool)) (\<lambda>poolConfig.
     bind (getAllMockedTokens rt) (\<lambda>mockTokens.
     let allTokenAddresses = getAllTokenAddresses mockTokens in
     bind (getLendingPoolAddressesProvider rt None) (\<lambda>addressesProvider.
     let protoPoolReservesAddresses = filterMapBy allTokenAddresses (\<lambda>key. \<not> str_includes key ''UNI_'') in
     bind (deployAaveProtocolDataProvider rt (address addressesProvider) verify) (\<lambda>testHelpers.
     let reservesParams = getReservesConfigByPool B (pool_str Pool_proto) in
     bind (call_str rt addressesProvider ''getPoolAdmin'' []) (\<lambda>admin.
     bind (getTreasuryAddress rt poolConfig) (\<lambda>treasury.
     seq (initReservesByHelper rt reservesParams protoPoolReservesAddresses (ATokenNamePrefix poolConfig)
            (StableDebtTokenNamePrefix poolConfig) (VariableDebtTokenNamePrefix poolConfig)
            (SymbolPrefix poolConfig) admin treasury ZERO_ADDRESS verify)
    (seq (configureReservesByHelper rt reservesParams protoPoolReservesAddresses testHelpers admin)
    (bind (deployLendingPoolCollateralManager rt verify) (\<lambda>collateralManager.
     seq (send_and_wait rt addressesProvider ''setLendingPoolCollateralManager'' [VStr (address collateralManager)])
    (bind (deployMockFlashLoanReceiver rt (address addressesProvider) verify) (\<lambda>mockFlashLoanReceiver.
     seq (insertContractAddressInDb rt Id_MockFlashLoanReceiver (address mockFlashLoanReceiver))
    (bind (deployWalletBalancerProvider rt verify) (\<lambda>_.
     seq (insertContractAddressInDb rt Id_AaveProtocolDataProvider (address testHelpers))
    (bind (call_str rt addressesProvider ''getLendingPool'' []) (\<lambda>lendingPoolAddress.
     let gateWay = getParamPerNetwork rt (WethGateway poolConfig) network in
     bind (authorizeWETHGateway rt (case gateWay of None \<Rightarrow> '''' | Some g \<Rightarrow> g) lendingPoolAddress) (\<lambda>_.
     ret ())))))))))))))))))"

definition dev_wallet_balance_provider :: "runtime \<Rightarrow> bool \<Rightarrow> unit io" where
  "dev_wallet_balance_provider rt verify =
     seq (set_DRE rt) (bind (deployWalletBalancerProvider rt verify) (\<lambda>_. ret ()))"

section \<open>verify: source verification on Etherscan\<close>

text \<open>A configured address, or the one of the registry.\<close>

definition configured_or_registry ::
    "address_api \<Rightarrow> string option \<Rightarrow> (string option \<Rightarrow> contract io) \<Rightarrow> contract io" where
  "configured_or_registry A addr getter =
     (if notFalsyOrZeroAddress A addr then getter addr else getter None)"

definition verify_all_general ::
    "runtime \<Rightarrow> address_api \<Rightarrow> ICommonConfiguration \<Rightarrow> contract \<Rightarrow> contract \<Rightarrow> unit io" where
  "verify_all_general rt A poolConfig addressesProvider addressesProviderRegistry =
     (let network = network_name rt in
      bind (configured_or_registry A (getParamPerNetwork rt (LendingPool poolConfig) network)
              (getLendingPoolImpl rt)) (\<lambda>lendingPoolImpl.
      bind (configured_or_registry A (getParamPerNetwork rt (LendingPoolConfigurator poolConfig) network)
              (getLendingPoolConfiguratorImpl rt)) (\<lambda>lendingPoolConfiguratorImpl.
      bind (configured_or_registry A (getParamPerNetwork rt (LendingPoolCollateralManager poolConfig) network)
              (getLendingPoolCollateralManagerImpl rt)) (\<lambda>lendingPoolCollateralManagerImpl.
      bind (getAaveProtocolDataProvider rt None) (\<lambda>dataProvider.
      bind (getWalletProvider rt None) (\<lambda>walletProvider.
      bind (configured_or_registry A (getParamPerNetwork rt (WethGateway poolConfig) network)
              (getWETHGateway rt)) (\<lambda>wethGateway.
      seq (verifyContract rt (address addressesProvider) [VStr (MarketId poolConfig)] None)
     (seq (verifyContract rt (address addressesProviderRegistry) [] None)
     (seq (verifyContract rt (address lendingPoolImpl) [] None)
     (seq (verifyContract rt (address lendingPoolConfiguratorImpl) [] None)
     (seq (verifyContract rt (address lendingPoolCollateralManagerImpl) [] None)
     (seq (verifyContract rt (address dataProvider) [VStr (address addressesProvider)] None)
     (seq (verifyContract rt (address walletProvider) [] None)
     (bind (getWethAddress rt poolConfig) (\<lambda>weth.
      verifyContract rt (address wethGateway) [VStr weth] None)))))))))))))))"

definition verify_general :: "runtime \<Rightarrow> 'b bn_api \<Rightarrow> address_api \<Rightarrow> bool \<Rightarrow> string \<Rightarrow> unit io" where
  "verify_general rt B A everything pool =
     seq (set_DRE rt)
    (let network = network_name rt in
     bind (lift_sum (loadPoolConfig B pool)) (\<lambda>poolConfig.
     bind (getTreasuryAddress rt poolConfig) (\<lambda>treasury.
     let registryAddress = Option.bind (getParamPerNetwork rt (ProviderRegistry poolConfig) network) (\<lambda>a. a) in
     bind (getLendingPoolAddressesProvider rt None) (\<lambda>addressesProvider.
     bind (configured_or_registry A registryAddress (getLendingPoolAddressesProviderRegistry rt))
       (\<lambda>addressesProviderRegistry.
     bind (call_str rt addressesProvider ''getLendingPool'' []) (\<lambda>lendingPoolAddress.
     bind (call_str rt addressesProvider ''getLendingPoolConfigurator'' []) (\<lambda>lendingPoolConfiguratorAddress.
     bind (call_str rt addressesProvider ''getLendingPoolCollateralManager'' []) (\<lambda>collateralManagerAddress.
     seq (io_when everything (verify_all_general rt A poolConfig addressesProvider addressesProviderRegistry))
    (seq (verifyContract rt lendingPoolAddress [VStr (address addressesProvider)] None)
    (seq (verifyContract rt lendingPoolConfiguratorAddress [VStr (address addressesProvider)] None)
    (seq (verifyContract rt collateralManagerAddress [] None)
    (bind (lift_sum (case getParamPerNetwork rt (ReserveAssets poolConfig) network of
         None \<Rightarrow> Inl (JsTypeError ''Cannot read property UNI of undefined'')
       | Some assets \<Rightarrow> Inr (obj_get assets ''UNI''))) (\<lambda>UNI.
     bind (getAddressById rt ''aUNI'') (\<lambda>aUNI.
     case aUNI of None \<Rightarrow> ret ()
     | Some a \<Rightarrow> verifyContract rt a [VStr lendingPoolAddress, opt_val UNI, opt_val treasury,
         VStr ''Aave interest bearing UNI'', VStr ''aUNI'', VStr ZERO_ADDRESS] None))))))))))))))"

text \<open>\<open>const { ... } = await lendingPoolProxy.getReserveData(tokenAddress)\<close>\<close>

definition field_str :: "js_val \<Rightarrow> string \<Rightarrow> string io" where
  "field_str v f = bind (lift_sum (val_field v f)) (\<lambda>x. ret (val_str x))"

definition verify_if_known :: "runtime \<Rightarrow> string option \<Rightarrow> js_val list \<Rightarrow> unit io" where
  "verify_if_known rt a args = (case a of None \<Rightarrow> ret () | Some x \<Rightarrow> verifyContract rt x args None)"

definition verify_token ::
    "runtime \<Rightarrow> ICommonConfiguration \<Rightarrow> string option \<Rightarrow> contract \<Rightarrow> contract \<Rightarrow> contract \<Rightarrow> string \<times> string \<Rightarrow> unit io" where
  "verify_token rt poolConfig treasury addressesProvider lendingPoolProxy lendingPoolConfigurator entry =
     (let token = fst entry; tokenAddress = snd entry; configurator = VStr (address lendingPoolConfigurator);
          pool = VStr (address lendingPoolProxy) in
      bind (call_view rt lendingPoolProxy ''getReserveData'' [VStr tokenAddress]) (\<lambda>data.
      bind (field_str data ''stableDebtTokenAddress'') (\<lambda>stableDebtTokenAddress.
      bind (field_str data ''variableDebtTokenAddress'') (\<lambda>variableDebtTokenAddress.
      bind (field_str data ''aTokenAddress'') (\<lambda>aTokenAddress.
      bind (field_str data ''interestRateStrategyAddress'') (\<lambda>interestRateStrategyAddress.
      bind (case obj_get (ReservesConfig poolConfig) token of
          None \<Rightarrow> throw (JsThrown (''ReservesConfig not found for '' @ token @ '' token''))
        | Some tokenConfig \<Rightarrow> ret tokenConfig) (\<lambda>tokenConfig.
      seq (verifyContract rt stableDebtTokenAddress [configurator] None)
     (seq (verifyContract rt variableDebtTokenAddress [configurator] None)
     (seq (verifyContract rt aTokenAddress [configurator] None)
     (seq (verifyContract rt interestRateStrategyAddress
            (map VStr (strategy_args (address addressesProvider) (strategy tokenConfig))) None)
     (bind (getAddressById rt (''stableDebt'' @ token)) (\<lambda>stableDebt.
      bind (getAddressById rt (''variableDebt'' @ token)) (\<lambda>variableDebt.
      bind (getAddressById rt (''a'' @ token)) (\<lambda>aToken.
      seq (verify_if_known rt aToken [pool, VStr tokenAddress, opt_val treasury,
             VStr (''Aave interest bearing '' @ token), VStr (''a'' @ token), VStr ZERO_ADDRESS])
     (seq (verify_if_known rt stableDebt [pool, VStr tokenAddress,
             VStr (''Aave stable debt bearing '' @ token), VStr (''stableDebt'' @ token), VStr ZERO_ADDRESS])
      (verify_if_known rt variableDebt [pool, VStr tokenAddress,
             VStr (''Aave variable debt bearing '' @ token), VStr (''variableDebt'' @ token), VStr ZERO_ADDRESS]))))))))))))))))"

definition verify_tokens :: "runtime \<Rightarrow> 'b bn_api \<Rightarrow> string \<Rightarrow> unit io" where
  "verify_tokens rt B pool =
     seq (set_DRE rt)
    (let network = network_name rt in
     bind (lift_sum (loadPoolConfig B pool)) (\<lambda>poolConfig.
     bind (getTreasuryAddress rt poolConfig) (\<lambda>treasury.
     bind (getLendingPoolAddressesProvider rt None) (\<lambda>addressesProvider.
     bind (call_str rt addressesProvider ''getLendingPool'' []) (\<lambda>lp.
     let lendingPoolProxy = connect_at rt ''LendingPool'' lp in
     bind (call_str rt addressesProvider ''getLendingPoolConfigurator'' []) (\<lambda>lpc.
     let lendingPoolConfigurator = connect_at rt ''LendingPoolConfigurator'' lpc in
     bind (lift_sum (case getParamPerNetwork rt (ReserveAssets poolConfig) network of
         None \<Rightarrow> Inl (JsTypeError ''Cannot convert undefined or null to object'') | Some r \<Rightarrow> Inr r)) (\<lambda>assets.
     for_each (verify_token rt poolConfig treasury addressesProvider lendingPoolProxy lendingPoolConfigurator)
       assets)))))))"

end
