(* ===== verification/Migrations.thy ===== *)
theory Migrations
  imports DevTasks
begin

text \<open>
  The tasks that run other tasks: the whole deployments of \<open>tasks/migrations\<close>, and the remaining
  tasks of \<open>tasks/deployments\<close>, \<open>tasks/helpers\<close> and \<open>tasks/misc\<close>. A task that is run without the
  parameter \<open>verify\<close> does not verify. What the tasks print is not modelled.
\<close>

section \<open>migrations\<close>

definition aave_dev :: "runtime \<Rightarrow> 'b bn_api \<Rightarrow> artifact_api \<Rightarrow> bool \<Rightarrow> unit io" where
  "aave_dev rt B arts verify =
     seq (set_DRE rt)
    (seq (io_when verify (checkVerification rt))
    (seq (dev_mock_tokens rt B verify)
    (seq (dev_address_provider rt B verify)
    (seq (dev_lending_pool rt arts verify)
    (seq (dev_oracles rt B verify (config_name Config_Aave))
    (dev_initialize rt B verify (config_name Config_Aave)))))))"

text \<open>
  The parts the tasks for a public network have in common. The aave, amm and matic tasks hand
  \<open>verify\<close> to none of the deployments and verify everything at the end.
\<close>

definition market_contracts ::
    "runtime \<Rightarrow> 'b bn_api \<Rightarrow> address_api \<Rightarrow> artifact_api \<Rightarrow> string \<Rightarrow> unit io" where
  "market_contracts rt B A arts POOL_NAME =
     seq (full_address_provider rt B A False POOL_NAME)
    (seq (full_lending_pool rt B A arts False POOL_NAME)
    (seq (full_oracles rt B A False POOL_NAME)
    (full_data_provider rt False)))"

definition verify_market :: "runtime \<Rightarrow> 'b bn_api \<Rightarrow> address_api \<Rightarrow> bool \<Rightarrow> string \<Rightarrow> unit io" where
  "verify_market rt B A verify POOL_NAME =
     io_when verify (seq (verify_general rt B A True POOL_NAME) (verify_tokens rt B POOL_NAME))"

definition aave_mainnet :: "runtime \<Rightarrow> 'b bn_api \<Rightarrow> address_api \<Rightarrow> artifact_api \<Rightarrow> bool \<Rightarrow> unit io" where
  "aave_mainnet rt B A arts verify =
     (let POOL_NAME = config_name Config_Aave in
      seq (set_DRE rt)
     (seq (io_when verify (checkVerification rt))
     (seq (market_contracts rt B A arts POOL_NAME)
     (seq (full_weth_gateway rt B False POOL_NAME)
     (seq (full_initialize rt B A False POOL_NAME)
     (verify_market rt B A verify POOL_NAME))))))"

definition amm_mainnet :: "runtime \<Rightarrow> 'b bn_api \<Rightarrow> address_api \<Rightarrow> artifact_api \<Rightarrow> bool \<Rightarrow> unit io" where
  "amm_mainnet rt B A arts verify =
     (let POOL_NAME = config_name Config_Amm in
      seq (set_DRE rt)
     (seq (io_when verify (checkVerification rt))
     (seq (market_contracts rt B A arts POOL_NAME)
     (seq (full_weth_gateway rt B False POOL_NAME)
     (seq (full_initialize rt B A False POOL_NAME)
     (verify_market rt B A verify POOL_NAME))))))"

definition matic_mainnet :: "runtime \<Rightarrow> 'b bn_api \<Rightarrow> address_api \<Rightarrow> artifact_api \<Rightarrow> bool \<Rightarrow> unit io" where
  "matic_mainnet rt B A arts verify =
     (let POOL_NAME = config_name Config_Matic in
      seq (set_DRE rt)
     (seq (io_when verify (checkVerification rt))
     (seq (market_contracts rt B A arts POOL_NAME)
     (seq (full_initialize rt B A False POOL_NAME)
     (verify_market rt B A verify POOL_NAME)))))"

text \<open>\<open>moola:alfajores\<close> and \<open>moola:celo\<close> ignore their flag \<open>verify\<close> and deploy no gateway.\<close>

definition moola_alfajores :: "runtime \<Rightarrow> 'b bn_api \<Rightarrow> address_api \<Rightarrow> artifact_api \<Rightarrow> bool \<Rightarrow> unit io" where
  "moola_alfajores rt B A arts verify =
     (let POOL_NAME = config_name Config_Moola in
      seq (set_DRE rt)
     (seq (full_address_provider_registry rt False)
     (seq (market_contracts rt B A arts POOL_NAME)
     (full_initialize rt B A False POOL_NAME))))"

definition moola_celo :: "runtime \<Rightarrow> 'b bn_api \<Rightarrow> address_api \<Rightarrow> artifact_api \<Rightarrow> bool \<Rightarrow> unit io" where
  "moola_celo rt B A arts verify =
     (let POOL_NAME = config_name Config_Moola in
      seq (set_DRE rt)
     (seq (full_address_provider_registry rt False)
     (seq (market_contracts rt B A arts POOL_NAME)
     (full_initialize rt B A False POOL_NAME))))"

section \<open>deployments\<close>

text \<open>Deployed by a fresh factory, not registered, and verified whatever the flag \<open>verify\<close> says.\<close>

definition deploy_external :: "runtime \<Rightarrow> string \<Rightarrow> js_val list \<Rightarrow> unit io" where
  "deploy_external rt contractName args =
     seq (set_DRE rt)
    (if chain_id rt = None \<or> chain_id rt = Some 0 then throw (JsError ''INVALID_CHAIN_ID'')
     else
       bind (deploy_contract rt contractName (first_signer rt) args) (\<lambda>c.
       seq (bind (lift_sum (deploy_transaction rt c)) (\<lambda>tx. wait_tx rt tx))
      (verifyContract rt (address c) args None)))"

definition deploy_UiPoolDataProvider_task :: "runtime \<Rightarrow> bool \<Rightarrow> unit io" where
  "deploy_UiPoolDataProvider_task rt verify = deploy_external rt ''UiPoolDataProvider'' []"

definition deploy_UniswapLiquiditySwapAdapter_task ::
    "runtime \<Rightarrow> string \<Rightarrow> string \<Rightarrow> string \<Rightarrow> bool \<Rightarrow> unit io" where
  "deploy_UniswapLiquiditySwapAdapter_task rt provider router weth verify =
     deploy_external rt ''UniswapLiquiditySwapAdapter'' [VStr provider, VStr router, VStr weth]"

definition deploy_UniswapRepayAdapter_task ::
    "runtime \<Rightarrow> string \<Rightarrow> string \<Rightarrow> string \<Rightarrow> bool \<Rightarrow> unit io" where
  "deploy_UniswapRepayAdapter_task rt provider router weth verify =
     deploy_external rt ''UniswapRepayAdapter'' [VStr provider, VStr router, VStr weth]"

section \<open>misc\<close>

definition print_contracts_task :: "runtime \<Rightarrow> unit io" where
  "print_contracts_task rt = set_DRE rt"

definition print_config_fork ::
    "runtime \<Rightarrow> 'b bn_api \<Rightarrow> address_api \<Rightarrow> artifact_api \<Rightarrow> bool \<Rightarrow> unit io" where
  "print_config_fork rt B A arts verify =
     seq (set_DRE rt)
    (seq (aave_mainnet rt B A arts False)
    (bind (getAaveProtocolDataProvider rt None) (\<lambda>dataProvider.
     print_config rt B ''Aave'' (address dataProvider))))"

definition verify_sc :: "runtime \<Rightarrow> string \<Rightarrow> js_val list \<Rightarrow> string option \<Rightarrow> unit io" where
  "verify_sc rt addr constructorArguments libraries =
     seq (set_DRE rt)
    (seq (checkVerification rt)
    (verifyContract rt addr constructorArguments libraries))"

section \<open>helpers: one more asset for a deployed market\<close>

definition LENDING_POOL_ADDRESS_PROVIDER :: "string js_obj" where
  "LENDING_POOL_ADDRESS_PROVIDER =
    [(''main'', ''0xb53c1a33016b2dc2ff3653530bff1848a515c8c5''),
     (''kovan'', ''0x652B2937Efd0B5beA1c8d54293FC1289672AFC6b'')]"

text \<open>
  The module \<open>markets/aave/reservesConfigs\<close> as the object of its exports, and the export that each
  entry of the market's \<open>ReservesConfig\<close> is: \<open>===\<close> compares the identity of these objects.
\<close>

definition aave_reserveConfigs :: "'b bn_api \<Rightarrow> IReserveParams js_obj" where
  "aave_reserveConfigs B =
    [(''strategyBUSD'', aave_strategyBUSD B),
     (''strategyDAI'', aave_strategyDAI B),
     (''strategySUSD'', aave_strategySUSD B),
     (''strategyTUSD'', aave_strategyTUSD B),
     (''strategyUSDC'', aave_strategyUSDC B),
     (''strategyUSDT'', aave_strategyUSDT B),
     (''strategyAAVE'', aave_strategyAAVE B),
     (''strategyBAT'', aave_strategyBAT B),
     (''strategyENJ'', aave_strategyENJ B),
     (''strategyWETH'', aave_strategyWETH B),
     (''strategyKNC'', aave_strategyKNC B),
     (''strategyLINK'', aave_strategyLINK B),
     (''strategyMANA'', aave_strategyMANA B),
     (''strategyMKR'', aave_strategyMKR B),
     (''strategyREN'', aave_strategyREN B),
     (''strategySNX'', aave_strategySNX B),
     (''strategyUNI'', aave_strategyUNI B),
     (''strategyWBTC'', aave_strategyWBTC B),
     (''strategyYFI'', aave_strategyYFI B),
     (''strategyZRX'', aave_strategyZRX B),
     (''strategyXSUSHI'', aave_strategyXSUSHI B)]"

definition aave_config_objects :: "string js_obj" where
  "aave_config_objects =
    [(''AAVE'', ''strategyAAVE''), (''BAT'', ''strategyBAT''), (''BUSD'', ''strategyBUSD''),
     (''DAI'', ''strategyDAI''), (''ENJ'', ''strategyREN''), (''KNC'', ''strategyKNC''),
     (''LINK'', ''strategyLINK''), (''MANA'', ''strategyMANA''), (''MKR'', ''strategyMKR''),
     (''REN'', ''strategyREN''), (''SNX'', ''strategySNX''), (''SUSD'', ''strategySUSD''),
     (''TUSD'', ''strategyTUSD''), (''UNI'', ''strategyUNI''), (''USDC'', ''strategyUSDC''),
     (''USDT'', ''strategyUSDT''), (''WBTC'', ''strategyWBTC''), (''WETH'', ''strategyWETH''),
     (''YFI'', ''strategyYFI''), (''ZRX'', ''strategyZRX''), (''xSUSHI'', ''strategyXSUSHI'')]"

text \<open>\<open>ReserveAssets[network][symbol]\<close>\<close>

definition asset_on :: "string js_obj iParamsPerNetwork \<Rightarrow> string \<Rightarrow> string \<Rightarrow> js_error + string option" where
  "asset_on assets network symbol = (case obj_get assets network of
       None \<Rightarrow> Inl (JsTypeError (''Cannot read property '' @ symbol @ '' of undefined''))
     | Some m \<Rightarrow> Inr (obj_get m symbol))"

definition isSymbolValid :: "'b bn_api \<Rightarrow> string \<Rightarrow> string \<Rightarrow> js_error + bool" where
  "isSymbolValid B symbol network =
     (if obj_get (aave_reserveConfigs B) (''strategy'' @ symbol) = None then Inr False
      else case asset_on (ReserveAssets (AaveConfig B)) network symbol of
        Inl e \<Rightarrow> Inl e
      | Inr a \<Rightarrow> Inr (truthy a \<and> obj_get aave_config_objects symbol = Some (''strategy'' @ symbol)))"

text \<open>
  The rates are read from the reserve's parameters, which do not have them (they are those of its
  strategy), so that six arguments of the rate strategy are undefined.
\<close>

definition deploy_new_asset :: "runtime \<Rightarrow> 'b bn_api \<Rightarrow> bool \<Rightarrow> string \<Rightarrow> unit io" where
  "deploy_new_asset rt B verify symbol =
     (let network = network_name rt in
      bind (lift_sum (isSymbolValid B symbol network)) (\<lambda>valid.
      if \<not> valid then throw (JsError ''WRONG RESERVE ASSET SETUP'')
      else
        seq mark_dre
       (bind (lift_sum (entry_at (aave_reserveConfigs B) (''strategy'' @ symbol))) (\<lambda>strategyParams.
        bind (lift_sum (asset_on (ReserveAssets (AaveConfig B)) network symbol)) (\<lambda>reserveAssetAddress.
        bind (lift_sum (chooseATokenDeployment (aTokenImpl strategyParams))) (\<lambda>deployCustomAToken.
        bind (getLendingPoolAddressesProvider rt (obj_get LENDING_POOL_ADDRESS_PROVIDER network)) (\<lambda>addressProvider.
        bind (call_str rt addressProvider ''getLendingPool'' []) (\<lambda>poolAddress.
        bind (getTreasuryAddress rt (AaveConfig B)) (\<lambda>treasuryAddress.
        let asset = val_str (opt_val reserveAssetAddress) in
        bind (deployCustomAToken rt (poolAddress, asset, val_str (opt_val treasuryAddress), ZERO_ADDRESS,
                ''Aave interest bearing '' @ symbol, ''a'' @ symbol) verify) (\<lambda>_.
        bind (deployStableDebtToken rt (poolAddress, asset, ZERO_ADDRESS,
                ''Aave stable debt bearing '' @ symbol, ''stableDebt'' @ symbol) verify) (\<lambda>_.
        bind (deployVariableDebtToken rt (poolAddress, asset, ZERO_ADDRESS,
                ''Aave variable debt bearing '' @ symbol, ''variableDebt'' @ symbol) verify) (\<lambda>_.
        bind (deploy_and_save rt ''DefaultReserveInterestRateStrategy''
                (VStr (address addressProvider) # replicate 6 VUndef) Id_DefaultReserveInterestRateStrategy verify) (\<lambda>_.
        ret ())))))))))))))"

definition deploy_crealconfigurator_alfajores :: "runtime \<Rightarrow> unit io" where
  "deploy_crealconfigurator_alfajores rt =
     seq mark_dre (bind (deployCREALConfiguratorAlfajores rt False) (\<lambda>_. ret ()))"

definition deploy_crealconfigurator_celo :: "runtime \<Rightarrow> unit io" where
  "deploy_crealconfigurator_celo rt =
     seq mark_dre (bind (deployCREALConfiguratorCelo rt False) (\<lambda>_. ret ()))"

end
