(* ===== verification/FullTheorems.thy ===== *)
theory FullTheorems
  imports FullTasks Demo
begin

text \<open>
  The order of the transactions of the deployment tasks of \<open>tasks/full\<close>, on every run, and what a
  successful run leaves in the registry. The first section has the observations of the tasks' own
  steps; the theorems follow the tasks.
\<close>

section \<open>Steps without transactions\<close>

lemma quiet_set_DRE [quiet_intros]: "quiet sent (set_DRE rt)"
proof -
  have mark: "quiet sent mark_dre" by (simp add: quiet_def mark_dre_def dre_mark_def sent.proj_append)
  have tenderly: "quiet sent (tenderly_setup rt)"
    unfolding tenderly_setup_def by (intro quiet_intros)
  have "quiet sent (seq (io_when b (tenderly_setup rt)) mark_dre)" for b
    by (intro quiet_intros mark tenderly)
  then show ?thesis by (simp add: quiet_def set_DRE_def)
qed

lemma quiet_send_ether_free [quiet_intros]:
  "quiet deployed (send_ether rt s d)" "quiet db_writes (send_ether rt s d)"
  by (simp_all add: send_ether_def quiet_intros)

lemma follows_send_ether:
  "follows sent (send_ether rt s d) [(s, d, '''', [VObj [(''value'', VNum (10 ^ 19)), (''to'', VStr d)]])]"
  unfolding send_ether_def using follows_send_tx [of rt "\<lparr> abi = '''', address = d, signer = s, deployer = None \<rparr>"]
  by simp

lemma issues_rethrow:
  assumes "issues sent m P"
  shows "issues sent (rethrow m) P"
proof -
  have "rethrow m h = m h" for h
    by (cases "m h") (auto simp: rethrow_def catch_def throw_def split: sum.split js_error.split)
  then show ?thesis using assms by (simp add: issues_def)
qed

section \<open>The addresses provider\<close>

text \<open>The transfer that funds the impersonated owner on a fork of mainnet.\<close>

definition fork_funding :: "runtime \<Rightarrow> string \<Rightarrow> tx_obs list" where
  "fork_funding rt owner = (if env_is rt ''MAINNET_FORK'' ''true''
     then [(first_signer rt, owner, '''', [VObj [(''value'', VNum (10 ^ 19)), (''to'', VStr owner)]])]
     else [])"

definition provider_setup ::
    "ICommonConfiguration \<Rightarrow> string \<Rightarrow> string \<Rightarrow> contract \<Rightarrow> string option \<Rightarrow> string option \<Rightarrow> tx_obs list" where
  "provider_setup cfg owner registry provider poolAdmin emergencyAdmin =
     [(Some owner, registry, ''registerAddressesProvider'',
         [VStr (address provider), VNum (ProviderId cfg)]),
      (signer provider, address provider, ''setPoolAdmin'', [opt_val poolAdmin]),
      (signer provider, address provider, ''setEmergencyAdmin'', [opt_val emergencyAdmin])]"

lemma follows_fork_funding:
  "follows sent (io_when (env_is rt ''MAINNET_FORK'' ''true'')
      (seq (rpc_send rt ''hardhat_impersonateAccount'' [VStr owner])
      (seq (send_ether rt (first_signer rt) owner) (ret ())))) (fork_funding rt owner)"
proof -
  have "follows sent (seq (rpc_send rt ''hardhat_impersonateAccount'' [VStr owner])
      (seq (send_ether rt (first_signer rt) owner) (ret ()))) [(first_signer rt, owner, '''',
      [VObj [(''value'', VNum (10 ^ 19)), (''to'', VStr owner)]])]"
    by (intro sent.follows_quiet_seq sent.follows_seq_quiet follows_send_ether quiet_intros)
  then show ?thesis by (simp add: io_when_def fork_funding_def sent.follows_ret)
qed

text \<open>The configured administrator of the network, or else the signer with the configured index.\<close>

definition admin_of :: "runtime \<Rightarrow> string option iParamsPerNetwork \<Rightarrow> nat \<Rightarrow> string option" where
  "admin_of rt param i =
     (case getParamPerNetwork rt param (current_network rt) of
        Some (Some a) \<Rightarrow> if a = [] then signer_at rt i else Some a
      | _ \<Rightarrow> signer_at rt i)"

lemma admins_eq:
  "getGenesisPoolAdmin rt cfg = ret (admin_of rt (PoolAdmin cfg) (PoolAdminIndex cfg))"
  "getEmergencyAdmin rt cfg = ret (admin_of rt (EmergencyAdmin cfg) (EmergencyAdminIndex cfg))"
  by (auto simp: getGenesisPoolAdmin_def getEmergencyAdmin_def admin_of_def Let_def truthy_def
      split: option.split)

definition registry_owner :: "runtime \<Rightarrow> ICommonConfiguration \<Rightarrow> string option" where
  "registry_owner rt cfg =
     Option.bind (getParamPerNetwork rt (ProviderRegistryOwner cfg) (network_name rt)) (\<lambda>a. a)"

lemma issues_provider_tail:
  "issues sent
    (bind (getLendingPoolAddressesProviderRegistry rt addr) (\<lambda>registry.
     let addressesProviderRegistry = connect_signer registry (Some owner) in
     bind (deployLendingPoolAddressesProvider rt m v) (\<lambda>addressesProvider.
     seq (send_and_wait rt addressesProviderRegistry ''registerAddressesProvider''
           [VStr (address addressesProvider), VNum (ProviderId cfg)])
    (bind (getGenesisPoolAdmin rt cfg) (\<lambda>poolAdmin.
     seq (send_and_wait rt addressesProvider ''setPoolAdmin'' [opt_val poolAdmin])
    (bind (getEmergencyAdmin rt cfg) (\<lambda>emergencyAdmin.
     seq (send_and_wait rt addressesProvider ''setEmergencyAdmin'' [opt_val emergencyAdmin])
    (seq (call_view rt addressesProvider ''getPoolAdmin'' [])
    (seq (call_view rt addressesProvider ''getEmergencyAdmin'' [])
    (ret ()))))))))))
   (\<lambda>T. \<exists>registry provider. T = provider_setup cfg owner registry provider
      (admin_of rt (PoolAdmin cfg) (PoolAdminIndex cfg))
      (admin_of rt (EmergencyAdmin cfg) (EmergencyAdminIndex cfg)))"
  (is "issues sent _ ?P")
proof -
  obtain t where P0: "?P t" by blast
  show ?thesis
    unfolding Let_def
  proof (intro sent.issues_quiet_bind [where P = ?P, OF _ P0] quiet_intros, goal_cases)
  case (1 registry h1 h2 provider h3 h4)
  let ?reg = "connect_signer registry (Some owner)"
  let ?p = "opt_val (admin_of rt (PoolAdmin cfg) (PoolAdminIndex cfg))"
  let ?e = "opt_val (admin_of rt (EmergencyAdmin cfg) (EmergencyAdminIndex cfg))"
  have "follows sent
    (seq (send_and_wait rt ?reg ''registerAddressesProvider'' [VStr (address provider), VNum (ProviderId cfg)])
    (seq (send_and_wait rt provider ''setPoolAdmin'' [?p])
    (seq (send_and_wait rt provider ''setEmergencyAdmin'' [?e])
    (seq (call_view rt provider ''getPoolAdmin'' [])
    (seq (call_view rt provider ''getEmergencyAdmin'' []) (ret ()))))))
    ([(signer ?reg, address ?reg, ''registerAddressesProvider'', [VStr (address provider), VNum (ProviderId cfg)])]
     @ [(signer provider, address provider, ''setPoolAdmin'', [?p])]
     @ [(signer provider, address provider, ''setEmergencyAdmin'', [?e])])"
    by (intro sent.follows_seq follows_send_and_wait sent.follows_seq_quiet quiet_intros)
  then show ?case
    unfolding admins_eq bind_ret
    by (rule sent.issues_follows)
       (auto simp: provider_setup_def connect_signer_def intro!: exI [of _ "address registry"] exI [of _ provider])
  qed
qed

lemma issues_address_provider:
  assumes "loadPoolConfig B pool = Inr cfg" and "registry_owner rt cfg = Some owner"
  shows "issues sent (full_address_provider rt B A v pool)
    (\<lambda>T. \<exists>U. T = fork_funding rt owner @ U \<and> (\<exists>registry provider. U =
      provider_setup cfg owner registry provider (admin_of rt (PoolAdmin cfg) (PoolAdminIndex cfg))
        (admin_of rt (EmergencyAdmin cfg) (EmergencyAdminIndex cfg))))"
  (is "issues sent _ ?P")
proof -
  obtain t where P0: "?P t" by blast
  show ?thesis
    unfolding full_address_provider_def assms(1) lift_sum_cases bind_ret Let_def
      assms(2) [unfolded registry_owner_def] option.case
  proof (rule sent.issues_quiet_seq [where P = ?P, OF quiet_set_DRE P0],
      rule sent.issues_quiet_bind [where P = ?P, OF sent.quiet_lift P0], goal_cases)
    case (1 o1 h1 h2)
    then have "o1 = owner" by (auto simp: lift_sum_ok split: if_splits)
    then show ?case
      by (simp only: sent.issues_follows_seq [OF follows_fork_funding issues_provider_tail [unfolded Let_def]])
  qed
qed

text \<open>
  On every run of \<open>full:deploy-address-provider\<close> with a configured registry owner the transactions
  are, in this order and with none skipped: on a mainnet fork the transfer to the owner; then, from the
  owner, the registration of the new provider under the market's id; then the market's pool admin and
  emergency admin. A run that fails has sent a prefix of these, a run that succeeds all of them.
\<close>

theorem address_provider_order:
  assumes "loadPoolConfig B pool = Inr cfg" and "registry_owner rt cfg = Some owner"
    and "full_address_provider rt B A v pool h = (r, h')"
  shows "\<exists>registry provider T t. prefix t T \<and> sent h' = sent h @ t \<and> (r = Inr () \<longrightarrow> t = T)
    \<and> T = fork_funding rt owner @ provider_setup cfg owner registry provider
        (admin_of rt (PoolAdmin cfg) (PoolAdminIndex cfg))
        (admin_of rt (EmergencyAdmin cfg) (EmergencyAdminIndex cfg))"
  using issuesD [OF issues_address_provider [OF assms(1,2)] assms(3)] by (cases r) auto

text \<open>Address predicates for the witnesses: 42 characters, and not all of them the zero address.\<close>

definition demo_addresses :: address_api where
  "demo_addresses = \<lparr> is_address = (\<lambda>a. length a = 42), is_zero_address = (\<lambda>a. a = ZERO_ADDRESS) \<rparr>"

definition demo_provider_run :: "unit io" where
  "demo_provider_run = full_address_provider demo_rt exact_bn demo_addresses False ''Moola''"

lemma moola_registry_owner: "registry_owner demo_rt (MoolaConfig B) = Some ''0x643C574128c7C56A1835e021Ad0EcC2592E72624''"
  by code_simp

lemma moola_admins:
  "admin_of demo_rt (PoolAdmin (MoolaConfig B)) (PoolAdminIndex (MoolaConfig B)) = Some ''0xdeployer''"
  "admin_of demo_rt (EmergencyAdmin (MoolaConfig B)) (EmergencyAdminIndex (MoolaConfig B)) = Some ''0xsecond''"
  by code_simp+

lemma moola_loads: "loadPoolConfig B ''Moola'' = Inr (MoolaConfig B)"
  by (simp add: loadPoolConfig_def)

lemma demo_provider_ok: "fst (full_address_provider demo_rt B demo_addresses False ''Moola'' []) = Inr ()"
  by code_simp

lemma address_provider_order_witness:
  "\<exists>registry provider. sent (snd (demo_provider_run [])) =
    provider_setup (MoolaConfig exact_bn) ''0x643C574128c7C56A1835e021Ad0EcC2592E72624'' registry provider
      (Some ''0xdeployer'') (Some ''0xsecond'')"
proof -
  have "demo_provider_run [] = (Inr (), snd (demo_provider_run []))"
    using demo_provider_ok [of exact_bn] unfolding demo_provider_run_def by (metis prod.collapse)
  moreover have "fork_funding demo_rt a = []" for a
    by (simp add: fork_funding_def env_is_def demo_rt_def)
  ultimately show ?thesis
    using address_provider_order [OF moola_loads moola_registry_owner, of exact_bn demo_addresses False "[]"]
    unfolding demo_provider_run_def by (fastforce simp: moola_admins)
qed

section \<open>The lending pool\<close>

lemma rethrow_eq [simp]: "rethrow m = m"
proof
  fix h show "rethrow m h = m h"
    by (cases "m h") (auto simp: rethrow_def catch_def throw_def split: sum.split js_error.split)
qed

lemma emits_insert [emits_intros]:
  "emits db_writes (insertContractAddressInDb rt cid a)
     (\<lambda>_. [(db_path rt (contract_id cid), \<lparr> entry_address = a, entry_deployer = None \<rparr>)])"
  unfolding insertContractAddressInDb_def by (intro emits_intros)

lemma deploy_impl_writes:
  assumes "deploy_impl rt f dargs implId cid v h = (Inr c, h')"
  shows "db_writes h' = db_writes h @
      [(db_path rt (contract_id implId), \<lparr> entry_address = address c, entry_deployer = None \<rparr>),
       saved_entry rt (contract_id cid) c]"
proof -
  obtain c0 h1 h2 where d: "deploy_contract rt f (first_signer rt) dargs h = (Inr c0, h1)"
    and i: "insertContractAddressInDb rt implId (address c0) h1 = (Inr (), h2)"
    and w: "withSaveAndVerify rt c0 (contract_id cid) [] v h2 = (Inr c, h')"
    using assms by (auto simp: deploy_impl_def ok_simps)
  have "c = c0" using withSaveAndVerify_result [OF w] by simp
  then show ?thesis
    using quietD [OF quiet_db_writes(1) d] emitsD [OF emits_insert i] emitsD [OF emits_withSaveAndVerify w]
    by simp
qed

text \<open>
  The proxies answer with addresses: \<open>getLendingPool\<close> and \<open>getLendingPoolConfigurator\<close> of the
  addresses provider return non-empty strings.
\<close>

definition answers_addresses :: "runtime \<Rightarrow> bool" where
  "answers_addresses rt \<longleftrightarrow> (\<forall>h a m x. ext_call rt h a m [] = Inr x \<longrightarrow>
     m \<in> {''getLendingPool'', ''getLendingPoolConfigurator''} \<longrightarrow> (\<exists>s. x = VStr s \<and> s \<noteq> ''''))"

lemma call_str_address:
  assumes "answers_addresses rt" and "m \<in> {''getLendingPool'', ''getLendingPoolConfigurator''}"
    and "call_str rt c m [] h = (Inr s, h')"
  shows "ext_call rt h (address c) m [] = Inr (VStr s)" and "s \<noteq> ''''"
proof -
  obtain x where x: "ext_call rt h (address c) m [] = Inr x" and s: "s = val_str x"
    using assms(3) by (auto simp: call_str_def call_view_def ok_simps)
  obtain s0 where "x = VStr s0" "s0 \<noteq> ''''" using assms(1,2) x unfolding answers_addresses_def by blast
  then show "ext_call rt h (address c) m [] = Inr (VStr s)" and "s \<noteq> ''''" using x s by auto
qed

text \<open>The writes of one step that reuses a configured implementation or deploys one.\<close>

lemma reuse_or_deploy_writes:
  assumes "(if b then bind (deploy_impl rt f dargs implId cid v) (\<lambda>impl. ret (Some (address impl)))
            else ret addr) h = (Inr r, h')"
  shows "\<exists>ws. db_writes h' = db_writes h @ ws
    \<and> fst ` set ws \<subseteq> {db_path rt (contract_id implId), db_path rt (contract_id cid)}"
  using assms by (auto simp: ok_simps dest!: deploy_impl_writes split: if_splits)

lemma lending_pool_run:
  assumes run: "full_lending_pool rt B A arts v pool h = (Inr (), h')"
    and "db_lawful rt db0" and ans: "answers_addresses rt"
  shows "\<exists>(provider :: contract) lp lpc h1 h2 ws tail impl cimpl.
      ext_call rt h1 (address provider) ''getLendingPool'' [] = Inr (VStr lp)
    \<and> sent h1 = sent h @ [(signer provider, address provider, ''setLendingPoolImpl'', [opt_val impl])]
    \<and> ext_call rt h2 (address provider) ''getLendingPoolConfigurator'' [] = Inr (VStr lpc)
    \<and> sent h2 = sent h1 @ [(signer provider, address provider, ''setLendingPoolConfiguratorImpl'', [opt_val cimpl])]
    \<and> sent h' = sent h2 \<and> db_writes h' = db_writes h1
        @ [(db_path rt ''LendingPool'', \<lparr> entry_address = lp, entry_deployer = None \<rparr>)] @ ws
        @ [(db_path rt ''LendingPoolConfigurator'', \<lparr> entry_address = lpc, entry_deployer = None \<rparr>)] @ tail
    \<and> fst ` set ws \<subseteq> {db_path rt ''LendingPoolConfiguratorImpl'', db_path rt ''LendingPoolConfigurator''}
    \<and> fst ` set tail \<subseteq> {db_path rt ''StableAndVariableTokensHelper'', db_path rt ''ATokensAndRatesHelper''}
    \<and> (\<exists>pre a b. deployed h' = pre @ [(''StableAndVariableTokensHelper'', [VStr lp, VStr (address provider)], a),
         (''ATokensAndRatesHelper'', [VStr lp, VStr (address provider), VStr lpc], b)])"
proof -
  obtain cfg where "loadPoolConfig B pool = Inr cfg"
    using run by (auto simp: full_lending_pool_def ok_simps)
  note run1 = run [unfolded full_lending_pool_def rethrow_eq this lift_sum_cases bind_ret Let_def]
  let ?net = "network_name rt"
  let ?LP = "getParamPerNetwork rt (LendingPool cfg) ?net"
  let ?LPC = "getParamPerNetwork rt (LendingPoolConfigurator cfg) ?net"
  obtain g0 g1 g2 g3 g4 g5 g6 g7 g8 g9 g10 g11 g12 provider impl lp pc cimpl lpc cc a b x y z where
    s1: "set_DRE rt h = (Inr x, g0)"
    and s2: "getLendingPoolAddressesProvider rt None g0 = (Inr provider, g1)"
    and s3: "(if \<not> notFalsyOrZeroAddress A ?LP then bind (deployLendingPool rt arts v) (\<lambda>impl. ret (Some (address impl)))
      else ret ?LP) g1 = (Inr impl, g2)"
    and s4: "send_and_wait rt provider ''setLendingPoolImpl'' [opt_val impl] g2 = (Inr y, g3)"
    and s5: "call_str rt provider ''getLendingPool'' [] g3 = (Inr lp, g4)"
    and s6: "getLendingPool rt (Some lp) g4 = (Inr pc, g5)"
    and s7: "insertContractAddressInDb rt Id_LendingPool (address pc) g5 = (Inr (), g6)"
    and s8: "(if \<not> notFalsyOrZeroAddress A ?LPC then bind (deployLendingPoolConfigurator rt v) (\<lambda>impl. ret (Some (address impl)))
      else ret ?LPC) g6 = (Inr cimpl, g7)"
    and s9: "send_and_wait rt provider ''setLendingPoolConfiguratorImpl'' [opt_val cimpl] g7 = (Inr z, g8)"
    and s10: "call_str rt provider ''getLendingPoolConfigurator'' [] g8 = (Inr lpc, g9)"
    and s11: "getLendingPoolConfiguratorProxy rt (Some lpc) g9 = (Inr cc, g10)"
    and s12: "insertContractAddressInDb rt Id_LendingPoolConfigurator (address cc) g10 = (Inr (), g11)"
    and s13: "deployStableAndVariableTokensHelper rt [address pc, address provider] v g11 = (Inr a, g12)"
    and s14: "deployATokensAndRatesHelper rt [address pc, address provider, address cc] v g12 = (Inr b, h')"
    using run1 by (auto simp: bind_ok seq_ok ret_ok)
  note lp = call_str_address [OF ans _ s5, simplified]
  note lpc = call_str_address [OF ans _ s10, simplified]
  have pc: "address pc = lp" "g5 = g4"
    using s6 lp(2) by (auto simp: getLendingPool_def ret_ok connect_at_def)
  have cc: "address cc = lpc" "g10 = g9"
    using s11 lpc(2) by (auto simp: getLendingPoolConfiguratorProxy_def ret_ok connect_at_def)
  have impl_sent: "quiet sent (if b then bind (deployLendingPool rt arts v) (\<lambda>impl. ret (Some (address impl))) else ret w)"
    for b w by (intro quiet_intros)
  have cimpl_sent: "quiet sent (if b then bind (deployLendingPoolConfigurator rt v) (\<lambda>impl. ret (Some (address impl))) else ret w)"
    for b w by (intro quiet_intros)
  obtain ws where ws: "db_writes g7 = db_writes g6 @ ws"
      "fst ` set ws \<subseteq> {db_path rt ''LendingPoolConfiguratorImpl'', db_path rt ''LendingPoolConfigurator''}"
    using reuse_or_deploy_writes [OF s8 [unfolded deployLendingPoolConfigurator_def]] by auto
  note sv = deploy_and_save_result [OF s13 [unfolded deployStableAndVariableTokensHelper_def]]
  note at = deploy_and_save_result [OF s14 [unfolded deployATokensAndRatesHelper_def]]
  have sent3: "sent g3 = sent h @ [(signer provider, address provider, ''setLendingPoolImpl'', [opt_val impl])]"
    using quietD [OF quiet_set_DRE s1] quietD [OF quiet_getters(1) s2] quietD [OF impl_sent s3]
      sent.follows_ok [OF follows_send_and_wait s4] by simp
  have w3: "db_writes g4 = db_writes g3" "sent g4 = sent g3"
    using quietD [OF quiet_call_str(3) s5] quietD [OF quiet_call_str(1) s5] by simp_all
  have sent8: "sent g8 = sent g3 @ [(signer provider, address provider, ''setLendingPoolConfiguratorImpl'', [opt_val cimpl])]"
    using w3 pc quietD [OF quiet_registry(3) s7] quietD [OF cimpl_sent s8]
      sent.follows_ok [OF follows_send_and_wait s9] by simp
  have sent': "sent h' = sent g8"
    using quietD [OF quiet_call_str(1) s10] cc quietD [OF quiet_registry(3) s12]
      quietD [OF quiet_simple_deployments(18) s13] quietD [OF quiet_simple_deployments(19) s14] by simp
  have w8: "db_writes g8 = db_writes g7" "db_writes g9 = db_writes g8"
    using quietD [OF quiet_send_and_wait(2) s9] quietD [OF quiet_call_str(3) s10] by simp_all
  show ?thesis
  proof (rule exI [of _ provider], rule exI [of _ lp], rule exI [of _ lpc], rule exI [of _ g3], rule exI [of _ g8],
      rule exI [of _ ws],
      rule exI [of _ "[saved_entry rt ''StableAndVariableTokensHelper'' a, saved_entry rt ''ATokensAndRatesHelper'' b]"],
      rule exI [of _ impl], rule exI [of _ cimpl], intro conjI)
    show "db_writes h' = db_writes g3
        @ [(db_path rt ''LendingPool'', \<lparr> entry_address = lp, entry_deployer = None \<rparr>)] @ ws
        @ [(db_path rt ''LendingPoolConfigurator'', \<lparr> entry_address = lpc, entry_deployer = None \<rparr>)]
        @ [saved_entry rt ''StableAndVariableTokensHelper'' a, saved_entry rt ''ATokensAndRatesHelper'' b]"
      using ws(1) w3 w8 pc cc sv(2) at(2) emitsD [OF emits_insert s7] emitsD [OF emits_insert s12] by simp
    show "\<exists>pre a b. deployed h' = pre @ [(''StableAndVariableTokensHelper'', [VStr lp, VStr (address provider)], a),
         (''ATokensAndRatesHelper'', [VStr lp, VStr (address provider), VStr lpc], b)]"
      using sv(1) at(1) pc cc by simp
  qed (use lp lpc sent3 sent8 sent' ws w3 w8 in auto)
qed

text \<open>
  C8. When \<open>full:deploy-lending-pool\<close> succeeds, the transactions are \<open>setLendingPoolImpl\<close> and then
  \<open>setLendingPoolConfiguratorImpl\<close> on the addresses provider, the registry resolves \<open>LendingPool\<close> and
  \<open>LendingPoolConfigurator\<close> to the proxies that the addresses provider names after each of them, not to
  the implementations that were registered under the same ids, and the two helper contracts are
  deployed for these proxies.
\<close>

theorem lending_pool_registered:
  assumes "full_lending_pool rt B A arts v pool h = (Inr (), h')"
    and "db_lawful rt db0" and "answers_addresses rt"
  shows "\<exists>(provider :: contract) lp lpc h1 h2 impl cimpl.
      ext_call rt h1 (address provider) ''getLendingPool'' [] = Inr (VStr lp)
    \<and> sent h1 = sent h @ [(signer provider, address provider, ''setLendingPoolImpl'', [opt_val impl])]
    \<and> ext_call rt h2 (address provider) ''getLendingPoolConfigurator'' [] = Inr (VStr lpc)
    \<and> sent h2 = sent h1 @ [(signer provider, address provider, ''setLendingPoolConfiguratorImpl'', [opt_val cimpl])]
    \<and> sent h' = sent h2
    \<and> fst (getLendingPool rt None h') = Inr (connect_at rt ''LendingPool'' lp)
    \<and> fst (getLendingPoolConfiguratorProxy rt None h') = Inr (connect_at rt ''LendingPoolConfigurator'' lpc)
    \<and> (\<exists>pre a b. deployed h' = pre @ [(''StableAndVariableTokensHelper'', [VStr lp, VStr (address provider)], a),
         (''ATokensAndRatesHelper'', [VStr lp, VStr (address provider), VStr lpc], b)])"
proof -
  obtain provider :: contract and lp lpc h1 h2 ws tail impl cimpl where facts:
      "ext_call rt h1 (address provider) ''getLendingPool'' [] = Inr (VStr lp)"
      "sent h1 = sent h @ [(signer provider, address provider, ''setLendingPoolImpl'', [opt_val impl])]"
      "ext_call rt h2 (address provider) ''getLendingPoolConfigurator'' [] = Inr (VStr lpc)"
      "sent h2 = sent h1 @ [(signer provider, address provider, ''setLendingPoolConfiguratorImpl'', [opt_val cimpl])]"
      "sent h' = sent h2"
      "\<exists>pre a b. deployed h' = pre @ [(''StableAndVariableTokensHelper'', [VStr lp, VStr (address provider)], a),
         (''ATokensAndRatesHelper'', [VStr lp, VStr (address provider), VStr lpc], b)]"
    and w: "db_writes h' = db_writes h1
        @ [(db_path rt ''LendingPool'', \<lparr> entry_address = lp, entry_deployer = None \<rparr>)] @ ws
        @ [(db_path rt ''LendingPoolConfigurator'', \<lparr> entry_address = lpc, entry_deployer = None \<rparr>)] @ tail"
    and keys: "fst ` set ws \<subseteq> {db_path rt ''LendingPoolConfiguratorImpl'', db_path rt ''LendingPoolConfigurator''}"
      "fst ` set tail \<subseteq> {db_path rt ''StableAndVariableTokensHelper'', db_path rt ''ATokensAndRatesHelper''}"
    using lending_pool_run [OF assms] by (elim exE conjE) (rule that; (assumption | (intro exI, assumption)))
  have "reg_lookup db0 h' (db_path rt ''LendingPoolConfigurator'') = Some \<lparr> entry_address = lpc, entry_deployer = None \<rparr>"
    by (rule reg.lookup_last [of _ h1 "[(db_path rt ''LendingPool'', \<lparr> entry_address = lp, entry_deployer = None \<rparr>)] @ ws"])
       (use w keys(2) in auto)
  then have cfg: "fst (getLendingPoolConfiguratorProxy rt None h') = Inr (connect_at rt ''LendingPoolConfigurator'' lpc)"
    by (simp add: getLendingPoolConfiguratorProxy_def connect_or_db_lawful [OF assms(2)])
  have "reg_lookup db0 h' (db_path rt ''LendingPool'') = Some \<lparr> entry_address = lp, entry_deployer = None \<rparr>"
    by (rule reg.lookup_last [of _ h1 "[]" _ _ "ws @ [(db_path rt ''LendingPoolConfigurator'',
          \<lparr> entry_address = lpc, entry_deployer = None \<rparr>)] @ tail"])
       (use w keys in auto)
  then have "fst (getLendingPool rt None h') = Inr (connect_at rt ''LendingPool'' lp)"
    by (simp add: getLendingPool_def connect_or_db_lawful [OF assms(2)])
  then show ?thesis using facts cfg by blast
qed

definition pool_rt :: runtime where
  "pool_rt = demo_rt\<lparr> ext_call := (\<lambda>h a m args. Inr (VStr (''proxy of '' @ m))) \<rparr>"

definition demo_artifacts :: artifact_api where
  "demo_artifacts = \<lparr> buidler_artifact = (\<lambda>_. Inl (JsError ''HH700'')),
     hardhat_artifact = (\<lambda>_. Inr \<lparr> bytecode = ''0x60'', linkReferences = [] \<rparr>) \<rparr>"

lemma pool_lawful: "db_lawful pool_rt demo_db"
  by (simp add: db_lawful_def pool_rt_def demo_rt_def)

lemma pool_answers: "answers_addresses pool_rt"
  by (simp add: answers_addresses_def pool_rt_def)

definition demo_pool_run :: "unit io" where
  "demo_pool_run = full_lending_pool pool_rt exact_bn demo_addresses demo_artifacts False ''Moola''"

lemma demo_pool_ok: "fst (full_lending_pool pool_rt B demo_addresses demo_artifacts False ''Moola'' []) = Inr ()"
  by code_simp

lemma lending_pool_registered_witness:
  "\<exists>lp. fst (getLendingPool pool_rt None (snd (demo_pool_run []))) = Inr (connect_at pool_rt ''LendingPool'' lp)"
proof -
  have "demo_pool_run [] = (Inr (), snd (demo_pool_run []))"
    using demo_pool_ok [of exact_bn] unfolding demo_pool_run_def by (metis prod.collapse)
  then show ?thesis
    using lending_pool_registered [OF _ pool_lawful pool_answers, of exact_bn demo_addresses demo_artifacts]
    unfolding demo_pool_run_def by blast
qed

end
