(* ===== verification/MarketSetup.thy ===== *)
theory MarketSetup
  imports FullTheorems InitTheorems
begin

text \<open>
  The two tasks that make a market usable, \<open>full:deploy-oracles\<close> and
  \<open>full:initialize-lending-pool\<close>: their transactions in order on every run, and how they end.
\<close>

section \<open>Oracles\<close>

text \<open>The rows of rates that a market sets, empty when they cannot be resolved.\<close>

definition rows_of :: "IMarketRates js_obj \<Rightarrow> string js_obj \<Rightarrow> (string \<times> string \<times> string) list" where
  "rows_of rates assets = (case resolve_rates rates assets of Inl _ \<Rightarrow> [] | Inr rows \<Rightarrow> rows)"

lemma issues_set_rates:
  "issues sent (setInitialMarketRatesInRatesOracleByHelper rt rates assets oracle admin)
    (\<lambda>T. \<exists>helper. T = rate_trace helper oracle admin (rows_of rates assets))"
  (is "issues sent _ ?P")
proof -
  obtain t where P0: "?P t" by blast
  show ?thesis
    unfolding setInitialMarketRatesInRatesOracleByHelper_def Let_def
  proof (intro sent.issues_quiet_bind [where P = ?P, OF _ P0])
    fix helper rows and h1 h2 :: history
    assume "lift_sum (resolve_rates rates assets) h1 = (Inr rows, h2)"
    then have "rows_of rates assets = rows" by (simp add: rows_of_def lift_sum_ok)
    then show "issues sent
        (seq (send_and_wait rt oracle ''transferOwnership'' [VStr (address helper)])
        (seq (for_each (\<lambda>i. send_and_wait rt helper ''setOracleBorrowRates''
                 [strs (chunk (map fst rows) 20 ! i), strs (chunk (map (fst \<circ> snd) rows) 20 ! i),
                  VStr (address oracle)])
             [0..<length (chunk (map fst rows) 20)])
          (send_and_wait rt helper ''setOracleOwnership'' [VStr (address oracle), opt_val admin]))) ?P"
      by (intro sent.issues_follows [OF follows_rate_program]) blast
  qed (intro quiet_intros)+
qed

text \<open>The assets whose prices and rates a market watches.\<close>

definition watched :: "runtime \<Rightarrow> ICommonConfiguration \<Rightarrow> string js_obj" where
  "watched rt cfg =
     obj_set (obj_spread [] (case getParamPerNetwork rt (ReserveAssets cfg) (network_name rt) of
        None \<Rightarrow> [] | Some r \<Rightarrow> r)) ''USD'' (UsdAddress (ProtocolGlobalParams cfg))"

definition market_rows :: "runtime \<Rightarrow> ICommonConfiguration \<Rightarrow> (string \<times> string \<times> string) list" where
  "market_rows rt cfg = (case getLendingRateOracles rt cfg of
     Inl _ \<Rightarrow> [] | Inr rates \<Rightarrow> rows_of rates (obj_omit [''USD''] (watched rt cfg)))"

definition oracle_trace ::
    "runtime \<Rightarrow> ICommonConfiguration \<Rightarrow> contract \<Rightarrow> contract \<Rightarrow> contract \<Rightarrow> contract \<Rightarrow> tx_obs list" where
  "oracle_trace rt cfg provider helper priceOracle rateOracle =
     rate_trace helper rateOracle (admin_of rt (PoolAdmin cfg) (PoolAdminIndex cfg)) (market_rows rt cfg)
     @ [(signer provider, address provider, ''setPriceOracle'', [VStr (address priceOracle)]),
        (signer provider, address provider, ''setLendingRateOracle'', [VStr (address rateOracle)])]"

lemma quiet_pairs [quiet_intros]:
  "quiet sent (bind (lift_sum (pairs_for w aggs)) (\<lambda>(tokens, aggregators).
     bind (getWethAddress rt cfg) (\<lambda>weth. deployAaveOracle rt tokens aggregators fallback weth v)))"
  by (auto intro!: quiet_intros simp: case_prod_beta)

lemma issues_oracle_tail:
  "issues sent
    (seq (setInitialMarketRatesInRatesOracleByHelper rt rates assets oracle admin)
    (seq (send_and_wait rt provider ''setPriceOracle'' [VStr (address priceOracle)])
         (send_and_wait rt provider ''setLendingRateOracle'' [VStr (address oracle)])))
    (\<lambda>T. \<exists>helper. T = rate_trace helper oracle admin (rows_of rates assets)
       @ [(signer provider, address provider, ''setPriceOracle'', [VStr (address priceOracle)]),
          (signer provider, address provider, ''setLendingRateOracle'', [VStr (address oracle)])])"
  using sent.issues_seq_follows [OF issues_set_rates
      sent.follows_seq [OF follows_send_and_wait follows_send_and_wait]]
  by (rule sent.issues_mono) auto

lemma issues_oracles:
  assumes "loadPoolConfig B pool = Inr cfg"
  shows "issues sent (full_oracles rt B A v pool)
    (\<lambda>T. \<exists>(provider :: contract) helper (priceOracle :: contract) rateOracle owner.
       signer rateOracle = Some owner \<and> T = oracle_trace rt cfg provider helper priceOracle rateOracle)"
  (is "issues sent _ ?P")
proof -
  let ?c = "connect_signer \<lparr> abi = '''', address = '''', signer = None, deployer = None \<rparr> (Some '''')"
  have "?P (oracle_trace rt cfg p p p ?c)" for p by (force simp: connect_signer_def)
  then obtain t where P0: "?P t" by blast
  show ?thesis
    unfolding full_oracles_def rethrow_eq assms lift_sum_cases bind_ret Let_def admins_eq
  proof (rule sent.issues_quiet_seq [where P = ?P, OF quiet_set_DRE P0],
      intro sent.issues_quiet_bind [where P = ?P, OF _ P0], goal_cases)
    case (6 rates h1 h2 provider h3 h4 priceOracle h5 h6 rate h7 h8 owner h9 h10)
    let ?rate = "connect_signer rate (Some owner)"
    have rows: "market_rows rt cfg = rows_of rates (obj_omit [''USD''] (watched rt cfg))"
      using 6(1) by (simp add: market_rows_def lift_sum_ok)
    have "?P (oracle_trace rt cfg provider helper priceOracle ?rate)" for helper
      by (force simp: connect_signer_def)
    then have concl: "?P T" if "\<exists>helper. T = oracle_trace rt cfg provider helper priceOracle ?rate" for T
      using that by blast
    show ?case
      by (rule sent.issues_mono [OF issues_oracle_tail], rule concl)
         (simp add: oracle_trace_def rows watched_def)
  qed (intro sent.quiet_if quiet_pairs quiet_intros)+
qed

text \<open>
  On every run of \<open>full:deploy-oracles\<close> the transactions are, in this order and with none skipped:
  the owner of the rate oracle hands it to the helper, the helper sets the market's borrow rates in
  batches and hands the oracle to the pool admin, and only then the price oracle and the rate oracle
  are set at the addresses provider. A run that fails has sent a prefix of these.
\<close>

theorem oracles_order:
  assumes "loadPoolConfig B pool = Inr cfg" and "full_oracles rt B A v pool h = (r, h')"
  shows "\<exists>(provider :: contract) helper (priceOracle :: contract) rateOracle owner T t.
      signer rateOracle = Some owner \<and> T = oracle_trace rt cfg provider helper priceOracle rateOracle
    \<and> prefix t T \<and> sent h' = sent h @ t \<and> (r = Inr () \<longrightarrow> t = T)"
proof -
  obtain provider :: contract and helper and priceOracle :: contract and rateOracle owner T t where
      "signer rateOracle = Some owner" "T = oracle_trace rt cfg provider helper priceOracle rateOracle"
      "prefix t T" "sent h' = sent h @ t" "(\<exists>x. r = Inr x) \<longrightarrow> t = T"
    using issuesD [OF issues_oracles [OF assms(1)] assms(2)] by (elim exE conjE) (rule that)
  then show ?thesis by blast
qed

definition demo_oracles_run :: "unit io" where
  "demo_oracles_run = full_oracles pool_rt exact_bn demo_addresses False ''Moola''"

lemma demo_oracles_ok: "fst (full_oracles pool_rt B demo_addresses False ''Moola'' []) = Inr ()"
  by code_simp

lemma oracles_order_witness:
  "\<exists>(provider :: contract) helper (priceOracle :: contract) rateOracle.
    sent (snd (demo_oracles_run [])) = oracle_trace pool_rt (MoolaConfig exact_bn) provider helper priceOracle rateOracle"
proof -
  have "demo_oracles_run [] = (Inr (), snd (demo_oracles_run []))"
    using demo_oracles_ok [of exact_bn] unfolding demo_oracles_run_def by (metis prod.collapse)
  then show ?thesis
    using oracles_order [OF moola_loads, of pool_rt exact_bn demo_addresses False "[]"]
    unfolding demo_oracles_run_def by fastforce
qed

section \<open>Initialization\<close>

lemma issues_initReserves:
  "issues sent (initReservesByHelper rt reserves tokens aP sP vP syP admin tr inc v)
    (\<lambda>T. \<exists>configurator inputs. T = init_batches configurator inputs)"
  (is "issues sent _ ?P")
proof -
  obtain t where P0: "?P t" by blast
  have tail: "issues sent (seq (batch_init rt configurator inputs) (ret 0)) ?P" for configurator inputs
    by (rule sent.issues_follows [OF sent.follows_seq_quiet [OF follows_batch_init sent.quiet_ret]]) blast
  show ?thesis
    unfolding initReservesByHelper_def Let_def
    by (intro sent.issues_quiet_bind [where P = ?P, OF _ P0] sent.issues_quiet_seq [where P = ?P, OF _ P0]
        tail sent.quiet_if quiet_intros)
qed

lemma issues_exit_on_error: "issues sent m P \<Longrightarrow> issues sent (exit_on_error m) P"
  unfolding issues_def
proof (intro allI impI)
  fix h r h'
  assume m: "\<forall>h r h'. m h = (r, h') \<longrightarrow> (\<exists>T t. P T \<and> prefix t T \<and> sent h' = sent h @ t \<and> ((\<exists>x. r = Inr x) \<longrightarrow> t = T))"
    and run: "exit_on_error m h = (r, h')"
  obtain r0 where r0: "m h = (r0, h')" and "(\<exists>x. r = Inr x) \<longrightarrow> (\<exists>x. r0 = Inr x)"
    using run by (cases "m h") (auto simp: exit_on_error_def catch_def throw_def split: sum.splits js_error.splits)
  then show "\<exists>T t. P T \<and> prefix t T \<and> sent h' = sent h @ t \<and> ((\<exists>x. r = Inr x) \<longrightarrow> t = T)"
    using m by blast
qed

text \<open>The last two steps; the networks of Celo have no gateway to authorize.\<close>

definition finish_trace ::
    "runtime \<Rightarrow> contract \<Rightarrow> string option \<Rightarrow> string \<Rightarrow> string \<Rightarrow> tx_obs list" where
  "finish_trace rt provider manager gateway lp =
     (signer provider, address provider, ''setLendingPoolCollateralManager'', [opt_val manager])
     # (if network_name rt = ''celo'' \<or> network_name rt = ''alfajores'' then []
        else [(first_signer rt, gateway, ''authorizeLendingPool'', [VStr lp])])"

lemma issues_finish:
  assumes "quiet sent mgr" and "\<And>x. quiet sent (gw x)"
  shows "issues sent
    (bind mgr (\<lambda>m.
     seq (send_and_wait rt provider ''setLendingPoolCollateralManager'' [opt_val m])
    (bind (deployWalletBalancerProvider rt v) (\<lambda>_.
     bind (call_str rt provider ''getLendingPool'' []) (\<lambda>lp.
     if network_name rt = celo_network Celo_celo \<or> network_name rt = celo_network Celo_alfajores then ret ()
     else bind (gw lp) (\<lambda>g. bind (authorizeWETHGateway rt g lp) (\<lambda>_. ret ())))))))
    (\<lambda>T. \<exists>m g lp. T = finish_trace rt provider m g lp)"
  (is "issues sent _ ?P")
proof -
  obtain t where P0: "?P t" by blast
  define auth :: "string \<Rightarrow> string \<Rightarrow> tx_obs list" where "auth g lp = (if network_name rt = ''celo'' \<or> network_name rt = ''alfajores'' then []
      else [(first_signer rt, g, ''authorizeLendingPool'', [VStr lp])])" for g lp
  let ?Q = "\<lambda>T. \<exists>g lp. T = auth g lp"
  obtain u where Q0: "?Q u" by blast
  have authorize: "follows sent (bind (authorizeWETHGateway rt g lp) (\<lambda>_. ret ()))
      [(first_signer rt, g, ''authorizeLendingPool'', [VStr lp])]" for g lp
    using sent.follows_bind [OF follows_send_tx [of rt "connect_at rt ''WETHGateway'' g"
          "''authorizeLendingPool''" "[VStr lp]"] sent.follows_ret [of "()"]]
    by (simp add: authorizeWETHGateway_def connect_at_def)
  have rest: "issues sent (if network_name rt = celo_network Celo_celo \<or> network_name rt = celo_network Celo_alfajores
      then ret () else bind (gw lp) (\<lambda>g. bind (authorizeWETHGateway rt g lp) (\<lambda>_. ret ()))) ?Q" for lp
  proof (cases "network_name rt = ''celo'' \<or> network_name rt = ''alfajores''")
    case True
    then show ?thesis by (auto simp: auth_def intro!: sent.issues_follows [OF sent.follows_ret])
  next
    case False
    have "issues sent (bind (gw lp) (\<lambda>g. bind (authorizeWETHGateway rt g lp) (\<lambda>_. ret ()))) ?Q"
      by (rule sent.issues_quiet_bind [where P = ?Q], rule assms(2), rule Q0,
          rule sent.issues_follows [OF authorize]) (use False in \<open>auto simp: auth_def\<close>)
    then show ?thesis using False by simp
  qed
  have step: "issues sent
    (seq (send_and_wait rt provider ''setLendingPoolCollateralManager'' [opt_val m])
    (bind (deployWalletBalancerProvider rt v) (\<lambda>_.
     bind (call_str rt provider ''getLendingPool'' []) (\<lambda>lp.
     if network_name rt = celo_network Celo_celo \<or> network_name rt = celo_network Celo_alfajores then ret ()
     else bind (gw lp) (\<lambda>g. bind (authorizeWETHGateway rt g lp) (\<lambda>_. ret ())))))) ?P" for m
    by (rule sent.issues_mono [OF sent.issues_follows_seq [OF follows_send_and_wait]],
        rule sent.issues_quiet_bind [where P = ?Q, OF _ Q0], rule quiet_intros,
        rule sent.issues_quiet_bind [where P = ?Q, OF _ Q0], rule quiet_intros, rule rest)
       (auto simp: finish_trace_def auth_def)
  show ?thesis by (rule sent.issues_quiet_bind [where P = ?P, OF assms(1) P0], rule step)
qed

lemma issues_initialize:
  assumes "loadPoolConfig B pool = Inr cfg"
    and "getParamPerNetwork rt (ReserveAssets cfg) (network_name rt) = Some assets"
  shows "issues sent (full_initialize rt B A v pool)
    (\<lambda>T. \<exists>configurator inputs provider helper admin toConfigure (provider' :: contract) manager gateway lp.
       T = init_batches configurator inputs @ configure_trace provider helper admin toConfigure
         @ finish_trace rt provider' manager gateway lp
     \<and> (\<forall>p \<in> set toConfigure. configured_from (ReservesConfig cfg) assets p))"
  (is "issues sent _ ?P")
proof -
  have "\<forall>p \<in> set []. configured_from (ReservesConfig cfg) assets p" by simp
  then obtain t where P0: "?P t" by blast
  show ?thesis
    unfolding full_initialize_def assms lift_sum_cases bind_ret Let_def option.case
  proof (rule issues_exit_on_error, rule sent.issues_quiet_seq [where P = ?P, OF quiet_set_DRE P0],
      intro sent.issues_quiet_bind [where P = ?P, OF _ P0], goal_cases)
    case (5 provider h1 h2 helpers h3 h4 admin h5 h6 treasury h7 h8)
    have finish: "issues sent (bind (if \<not> notFalsyOrZeroAddress A w
           then bind (deployLendingPoolCollateralManager rt v) (\<lambda>manager. ret (Some (address manager)))
           else ret w) (\<lambda>m.
       seq (send_and_wait rt provider ''setLendingPoolCollateralManager'' [opt_val m])
      (bind (deployWalletBalancerProvider rt v) (\<lambda>_.
       bind (call_str rt provider ''getLendingPool'' []) (\<lambda>lp.
       if network_name rt = celo_network Celo_celo \<or> network_name rt = celo_network Celo_alfajores then ret ()
       else bind (if \<not> notFalsyOrZeroAddress A u
             then bind (getWETHGateway rt None) (\<lambda>g. ret (address g))
             else ret u') (\<lambda>g. bind (authorizeWETHGateway rt g lp) (\<lambda>_. ret ())))))))
      (\<lambda>T. \<exists>m g lp. T = finish_trace rt provider m g lp)" for w u u'
      by (rule issues_finish) (intro sent.quiet_if quiet_intros)+
    show ?case
      by (rule sent.issues_mono [OF sent.issues_seq [OF issues_initReserves
            sent.issues_seq [OF issues_configureReserves finish]]]) blast
  qed (intro quiet_intros)+
qed

lemma exit_on_error_result:
  "exit_on_error m h = (r, h') \<Longrightarrow> r = Inr () \<or> (\<exists>n. r = Inl (JsExit n))"
  by (cases "m h") (auto simp: exit_on_error_def catch_def throw_def split: sum.splits js_error.splits)

text \<open>
  C17. On every run of \<open>full:initialize-lending-pool\<close> for a network with reserve assets the transactions
  are, in this order and with none skipped: the batches that initialize the reserves, the
  configuration of reserves of the market (helper in, batches, admin back), the collateral manager,
  and, except on the networks celo and alfajores, the authorization of the gateway. A run that fails
  has sent a prefix of these and ends the process: no other error leaves the task.
\<close>

theorem initialize_order:
  assumes "loadPoolConfig B pool = Inr cfg"
    and "getParamPerNetwork rt (ReserveAssets cfg) (network_name rt) = Some assets"
    and "full_initialize rt B A v pool h = (r, h')"
  shows "\<exists>configurator inputs provider helper admin toConfigure (provider' :: contract) manager gateway lp T t.
       T = init_batches configurator inputs @ configure_trace provider helper admin toConfigure
         @ finish_trace rt provider' manager gateway lp
     \<and> (\<forall>p \<in> set toConfigure. configured_from (ReservesConfig cfg) assets p)
     \<and> prefix t T \<and> sent h' = sent h @ t \<and> (r = Inr () \<longrightarrow> t = T)
     \<and> (r = Inr () \<or> (\<exists>n. r = Inl (JsExit n)))"
proof -
  have "r = Inr () \<or> (\<exists>n. r = Inl (JsExit n))"
    using assms(3) unfolding full_initialize_def by (rule exit_on_error_result)
  moreover obtain configurator inputs provider helper admin toConfigure provider' manager gateway lp T t where
      "T = init_batches configurator inputs @ configure_trace provider helper admin toConfigure
         @ finish_trace rt provider' manager gateway lp"
      "\<forall>p \<in> set toConfigure. configured_from (ReservesConfig cfg) assets p"
      "prefix t T" "sent h' = sent h @ t" "(\<exists>x. r = Inr x) \<longrightarrow> t = T"
    using issuesD [OF issues_initialize [OF assms(1,2)] assms(3)] by (elim exE conjE) (rule that)
  ultimately show ?thesis by blast
qed

definition init_rt :: runtime where
  "init_rt = demo_rt\<lparr> ext_call := (\<lambda>h a m args. Inr (
     if m = ''getReserveConfigurationData'' then VObj [(''usageAsCollateralEnabled'', VBool False)]
     else VStr (''0x'' @ m))) \<rparr>"

definition demo_initialize_run :: "unit io" where
  "demo_initialize_run = full_initialize init_rt exact_bn demo_addresses False ''Moola''"

lemma demo_initialize_ok: "fst (full_initialize init_rt B demo_addresses False ''Moola'' []) = Inr ()"
  by code_simp

definition moola_celo_assets :: "string js_obj" where
  "moola_celo_assets = (case obj_get moola_MarketReserveAssets ''celo'' of None \<Rightarrow> [] | Some r \<Rightarrow> r)"

lemma moola_celo_reserves:
  "getParamPerNetwork init_rt (ReserveAssets (MoolaConfig B)) (network_name init_rt) = Some moola_celo_assets"
  by code_simp

lemma initialize_order_witness:
  "\<exists>configurator inputs provider helper admin toConfigure (provider' :: contract) manager gateway lp.
     sent (snd (demo_initialize_run [])) = init_batches configurator inputs
       @ configure_trace provider helper admin toConfigure @ finish_trace init_rt provider' manager gateway lp"
proof -
  have "demo_initialize_run [] = (Inr (), snd (demo_initialize_run []))"
    using demo_initialize_ok [of exact_bn] unfolding demo_initialize_run_def by (metis prod.collapse)
  then show ?thesis
    using initialize_order [OF moola_loads moola_celo_reserves, of exact_bn demo_addresses False "[]"]
    unfolding demo_initialize_run_def by fastforce
qed

end
