(* ===== verification/KnownProvider.thy ===== *)
theory KnownProvider
  imports MarketSetup
begin

text \<open>
  Tasks that start when the registry names an addresses provider: they send their transactions to
  that provider, and they leave its entry as it is. \<open>issues_from I\<close> is \<open>issues\<close> for the runs that start
  in a history with the property \<open>I\<close>; the observation \<open>writes_to p\<close> is the sequence of writes to
  one path of the registry.
\<close>

section \<open>Runs from a known state\<close>

definition issues_from ::
    "(history \<Rightarrow> bool) \<Rightarrow> (history \<Rightarrow> 'o list) \<Rightarrow> 'a io \<Rightarrow> ('o list \<Rightarrow> bool) \<Rightarrow> bool" where
  "issues_from I proj m P \<longleftrightarrow> (\<forall>h r h'. I h \<longrightarrow> m h = (r, h') \<longrightarrow>
     (\<exists>T t. P T \<and> prefix t T \<and> proj h' = proj h @ t \<and> ((\<exists>x. r = Inr x) \<longrightarrow> t = T)))"

definition keeps :: "(history \<Rightarrow> bool) \<Rightarrow> 'a io \<Rightarrow> bool" where
  "keeps I m \<longleftrightarrow> (\<forall>h. I h \<longrightarrow> I (snd (m h)))"

lemma keepsD: "keeps I m \<Longrightarrow> I h \<Longrightarrow> m h = (r, h') \<Longrightarrow> I h'"
  unfolding keeps_def by (metis snd_conv)

lemma issues_fromD: "issues_from I proj m P \<Longrightarrow> I h \<Longrightarrow> m h = (r, h') \<Longrightarrow>
    \<exists>T t. P T \<and> prefix t T \<and> proj h' = proj h @ t \<and> ((\<exists>x. r = Inr x) \<longrightarrow> t = T)"
  by (simp add: issues_from_def)

lemma issues_from_issues: "issues proj m P \<Longrightarrow> issues_from I proj m P"
  by (simp add: issues_def issues_from_def)

lemma issues_from_mono: "issues_from I proj m P \<Longrightarrow> (\<And>T. P T \<Longrightarrow> Q T) \<Longrightarrow> issues_from I proj m Q"
  unfolding issues_from_def by blast

context observation
begin

lemma issues_from_bind:
  assumes m: "issues_from I proj m P" "keeps I m" and f: "\<And>x. issues_from I proj (f x) Q" and "Q U"
  shows "issues_from I proj (bind m f) (\<lambda>T. \<exists>S U. T = S @ U \<and> P S \<and> Q U)"
  unfolding issues_from_def
proof (intro allI impI)
  fix h r h' assume I: "I h" and run: "bind m f h = (r, h')"
  obtain r1 h1 where m1: "m h = (r1, h1)" by fastforce
  obtain S s where S: "P S" "prefix s S" "proj h1 = proj h @ s" "(\<exists>x. r1 = Inr x) \<longrightarrow> s = S"
    using issues_fromD [OF m(1) I m1] by blast
  show "\<exists>T t. (\<exists>S U. T = S @ U \<and> P S \<and> Q U) \<and> prefix t T \<and> proj h' = proj h @ t
      \<and> ((\<exists>x. r = Inr x) \<longrightarrow> t = T)"
  proof (cases r1)
    case (Inl e)
    then have "r = Inl e" "h' = h1" using run m1 by (auto simp: bind_def)
    then show ?thesis using S \<open>Q U\<close>
      by (intro exI [of _ "S @ U"] exI [of _ s]) (auto simp: prefix_append)
  next
    case (Inr x)
    then have "f x h1 = (r, h')" using run m1 by (simp add: bind_def)
    then obtain U u where "Q U" "prefix u U" "proj h' = proj h1 @ u" "(\<exists>x. r = Inr x) \<longrightarrow> u = U"
      using issues_fromD [OF f keepsD [OF m(2) I m1]] by blast
    then show ?thesis using S Inr by (intro exI [of _ "S @ U"] exI [of _ "S @ u"]) auto
  qed
qed

lemma issues_from_seq:
  "issues_from I proj m P \<Longrightarrow> keeps I m \<Longrightarrow> issues_from I proj n Q \<Longrightarrow> Q U \<Longrightarrow>
    issues_from I proj (seq m n) (\<lambda>T. \<exists>S U. T = S @ U \<and> P S \<and> Q U)"
  unfolding seq_def by (rule issues_from_bind)

lemma issues_from_quiet_bind:
  assumes "quiet proj m" and "keeps I m" and "P T"
    and f: "\<And>x h h'. I h \<Longrightarrow> m h = (Inr x, h') \<Longrightarrow> issues_from I proj (f x) P"
  shows "issues_from I proj (bind m f) P"
  unfolding issues_from_def
proof (intro allI impI)
  fix h r h' assume I: "I h" and run: "bind m f h = (r, h')"
  obtain r1 h1 where m: "m h = (r1, h1)" by fastforce
  have same: "proj h1 = proj h" by (rule quietD [OF assms(1) m])
  show "\<exists>T t. P T \<and> prefix t T \<and> proj h' = proj h @ t \<and> ((\<exists>x. r = Inr x) \<longrightarrow> t = T)"
  proof (cases r1)
    case (Inl e)
    then have "r = Inl e" "h' = h1" using run m by (auto simp: bind_def)
    then show ?thesis using assms(3) same by (intro exI [of _ T] exI [of _ "[]"]) simp
  next
    case (Inr x)
    then have "f x h1 = (r, h')" using run m by (simp add: bind_def)
    then show ?thesis
      using issues_fromD [OF f [OF I m [unfolded Inr]] keepsD [OF assms(2) I m]] same by simp
  qed
qed

lemma issues_from_seq_quiet:
  assumes "issues_from I proj m P" and "quiet proj n"
  shows "issues_from I proj (seq m n) P"
  unfolding issues_from_def
proof (intro allI impI)
  fix h r h' assume I: "I h" and run: "seq m n h = (r, h')"
  obtain r1 h1 where m: "m h = (r1, h1)" by fastforce
  obtain T t where T: "P T" "prefix t T" "proj h1 = proj h @ t" "(\<exists>x. r1 = Inr x) \<longrightarrow> t = T"
    using issues_fromD [OF assms(1) I m] by blast
  have "proj h' = proj h1" and "(\<exists>x. r = Inr x) \<longrightarrow> (\<exists>x. r1 = Inr x)"
    using run m quietD [OF assms(2)] by (auto simp: seq_def bind_def split: sum.splits)
  then show "\<exists>T t. P T \<and> prefix t T \<and> proj h' = proj h @ t \<and> ((\<exists>x. r = Inr x) \<longrightarrow> t = T)"
    using T by metis
qed

lemma issues_from_quiet_seq:
  "quiet proj m \<Longrightarrow> keeps I m \<Longrightarrow> P T \<Longrightarrow> issues_from I proj n P \<Longrightarrow> issues_from I proj (seq m n) P"
  unfolding seq_def by (rule issues_from_quiet_bind)

end

lemma issues_from_exit:
  assumes "issues_from I sent m P"
  shows "issues_from I sent (exit_on_error m) P"
  unfolding issues_from_def
proof (intro allI impI)
  fix h r h' assume I: "I h" and run: "exit_on_error m h = (r, h')"
  obtain r0 where r0: "m h = (r0, h')" and "(\<exists>x. r = Inr x) \<longrightarrow> (\<exists>x. r0 = Inr x)"
    using run by (cases "m h") (auto simp: exit_on_error_def catch_def throw_def split: sum.splits js_error.splits)
  then show "\<exists>T t. P T \<and> prefix t T \<and> sent h' = sent h @ t \<and> ((\<exists>x. r = Inr x) \<longrightarrow> t = T)"
    using issues_fromD [OF assms I r0] by blast
qed

section \<open>One entry of the registry\<close>

definition writes_to :: "string \<Rightarrow> history \<Rightarrow> (string \<times> db_entry) list" where
  "writes_to p h = filter (\<lambda>(q, _). q = p) (db_writes h)"

interpretation writes_to: observation "writes_to p" for p
  by unfold_locales (simp add: writes_to_def db_writes.proj_append)

named_theorems apart_intros "operations that do not write to a path of the registry"

lemma quiet_writes_to: "quiet db_writes m \<Longrightarrow> quiet (writes_to p) m"
  by (simp add: quiet_def writes_to_def)

lemma lookup_writes_to: "writes_to p h' = writes_to p h \<Longrightarrow> reg_lookup db0 h' p = reg_lookup db0 h p"
proof -
  have "map_of (filter (\<lambda>(q, _). q = p) ws) p = map_of ws p" for ws :: "(string \<times> db_entry) list"
    by (induction ws) auto
  then have "reg_lookup db0 h p = (case map_of (rev (writes_to p h)) p of None \<Rightarrow> db0 p | Some e \<Rightarrow> Some e)" for h
    unfolding reg_lookup_def writes_to_def rev_filter by simp
  then show "writes_to p h' = writes_to p h \<Longrightarrow> reg_lookup db0 h' p = reg_lookup db0 h p" by simp
qed

text \<open>The registry resolves the contract id \<open>c\<close> to the address \<open>a\<close>.\<close>

definition resolves :: "runtime \<Rightarrow> (string \<Rightarrow> db_entry option) \<Rightarrow> string \<Rightarrow> string \<Rightarrow> history \<Rightarrow> bool" where
  "resolves rt db0 c a h \<longleftrightarrow> map_option entry_address (reg_lookup db0 h (db_path rt c)) = Some a"

lemma keeps_resolves: "quiet (writes_to (db_path rt c)) m \<Longrightarrow> keeps (resolves rt db0 c a) m"
  unfolding keeps_def resolves_def by (metis lookup_writes_to prod.collapse quietD)

abbreviation the_provider :: "runtime \<Rightarrow> string \<Rightarrow> contract" where
  "the_provider rt a \<equiv> connect_at rt ''LendingPoolAddressesProvider'' a"

abbreviation known_provider :: "runtime \<Rightarrow> (string \<Rightarrow> db_entry option) \<Rightarrow> string \<Rightarrow> history \<Rightarrow> bool" where
  "known_provider rt db0 \<equiv> resolves rt db0 ''LendingPoolAddressesProvider''"

abbreviation apart :: "runtime \<Rightarrow> 'a io \<Rightarrow> bool" where
  "apart rt \<equiv> quiet (writes_to (db_path rt ''LendingPoolAddressesProvider''))"

lemma known_provider_got:
  assumes "db_lawful rt db0" and "known_provider rt db0 a h"
    and "getLendingPoolAddressesProvider rt None h = (Inr p, h')"
  shows "p = the_provider rt a"
proof -
  obtain e where "reg_lookup db0 h (db_path rt ''LendingPoolAddressesProvider'') = Some e" "entry_address e = a"
    using assms(2) by (auto simp: resolves_def)
  then show ?thesis
    using connect_or_db_lawful [OF assms(1), of None h Id_LendingPoolAddressesProvider e "''LendingPoolAddressesProvider''"]
      assms(3) by (simp add: getLendingPoolAddressesProvider_def truthy_def)
qed

section \<open>What leaves the entry as it is\<close>

lemmas apart_combinators [apart_intros] =
  writes_to.quiet_ret writes_to.quiet_throw writes_to.quiet_lift writes_to.quiet_bind writes_to.quiet_seq
  writes_to.quiet_io_when writes_to.quiet_if writes_to.quiet_case_option writes_to.quiet_catch
  writes_to.quiet_fold writes_to.quiet_not_awaited

lemma apart_reads [apart_intros]:
  "apart rt (send_and_wait rt c m args)" "apart rt (call_view rt c m args)" "apart rt (call_str rt c m args)"
  "apart rt (connect_or_db rt f cid addr)" "apart rt (verifyContract rt a args libs)"
  "apart rt (wait_deployed rt c)" "apart rt (deploy_contract rt f s args)"
  by (rule quiet_writes_to, rule quiet_intros)+

lemma apart_register [apart_intros]:
  "cid \<noteq> ''LendingPoolAddressesProvider'' \<Longrightarrow> apart rt (db_set rt (db_path rt cid) e)"
  "cid \<noteq> ''LendingPoolAddressesProvider'' \<Longrightarrow> apart rt (registerContractInJsonDb rt cid c)"
  "cid \<noteq> ''LendingPoolAddressesProvider'' \<Longrightarrow> apart rt (rawInsertContractAddressInDb rt cid a)"
  "contract_id i \<noteq> ''LendingPoolAddressesProvider'' \<Longrightarrow> apart rt (insertContractAddressInDb rt i a)"
proof -
  show 1: "apart rt (db_set rt (db_path rt cid) e)" if "cid \<noteq> ''LendingPoolAddressesProvider''" for cid e
    using that by (simp add: db_set_def writes_to.quiet_perform writes_to_def)
  show "cid \<noteq> ''LendingPoolAddressesProvider'' \<Longrightarrow> apart rt (registerContractInJsonDb rt cid c)"
    unfolding registerContractInJsonDb_def by (intro apart_intros 1)
  show "cid \<noteq> ''LendingPoolAddressesProvider'' \<Longrightarrow> apart rt (rawInsertContractAddressInDb rt cid a)"
    unfolding rawInsertContractAddressInDb_def by (rule 1)
  show "contract_id i \<noteq> ''LendingPoolAddressesProvider'' \<Longrightarrow> apart rt (insertContractAddressInDb rt i a)"
    unfolding insertContractAddressInDb_def by (rule 1)
qed

lemma apart_save [apart_intros]:
  assumes "cid \<noteq> ''LendingPoolAddressesProvider''"
  shows "apart rt (withSaveAndVerify rt c cid args v)"
proof -
  have "apart rt (run_plugin_task rt t x)" for t x by (rule quiet_writes_to, rule quiet_intros)
  then show ?thesis unfolding withSaveAndVerify_def by (intro apart_intros assms)
qed

lemma apart_deploy_and_save [apart_intros]:
  "contract_id cid \<noteq> ''LendingPoolAddressesProvider'' \<Longrightarrow> apart rt (deploy_and_save rt f args cid v)"
  unfolding deploy_and_save_def by (intro apart_intros)

lemma apart_deploy_impl [apart_intros]:
  "contract_id i \<noteq> ''LendingPoolAddressesProvider'' \<Longrightarrow> contract_id cid \<noteq> ''LendingPoolAddressesProvider'' \<Longrightarrow>
    apart rt (deploy_impl rt f args i cid v)"
  unfolding deploy_impl_def by (intro apart_intros)

lemma apart_bytecode [apart_intros]: "apart rt (deploy_bytecode rt code)" "apart rt (readArtifact rt A i)"
  unfolding deploy_bytecode_def readArtifact_def by (intro apart_intros)+

lemma apart_lending_pool [apart_intros]: "apart rt (deployLendingPool rt A v)"
  unfolding deployLendingPool_def deployAaveLibraries_def deployReserveLogicLibrary_def deployGenericLogic_def
    deployValidationLogic_def Let_def
  by (intro apart_intros) simp_all

lemma apart_getters [apart_intros]:
  "apart rt (getLendingPoolAddressesProvider rt addr)" "apart rt (getLendingPool rt addr)"
  "apart rt (getLendingPoolConfiguratorProxy rt addr)" "apart rt (getAaveOracle rt addr)"
  "apart rt (getLendingRateOracle rt addr)" "apart rt (getStableAndVariableTokensHelper rt addr)"
  "apart rt (getATokensAndRatesHelper rt addr)" "apart rt (getAaveProtocolDataProvider rt addr)"
  by (rule quiet_writes_to, rule quiet_intros)+

lemma apart_set_DRE [apart_intros]: "apart rt (set_DRE rt)"
proof -
  have "db_writes (snd (set_DRE rt h)) = db_writes h" for h
  proof -
    have "quiet db_writes mark_dre" by (simp add: quiet_def mark_dre_def dre_mark_def db_writes.proj_append)
    moreover have "quiet db_writes (tenderly_setup rt)" unfolding tenderly_setup_def by (intro quiet_intros)
    ultimately have "quiet db_writes (seq (io_when b (tenderly_setup rt)) mark_dre)" for b
      by (intro quiet_intros)
    then show ?thesis by (simp add: quiet_def set_DRE_def)
  qed
  then have "quiet db_writes (set_DRE rt)" by (simp add: quiet_def)
  then show ?thesis by (rule quiet_writes_to)
qed

lemma apart_configuration [apart_intros]:
  "apart rt (getWethAddress rt cfg)" "apart rt (getGenesisPoolAdmin rt cfg)" "apart rt (getTreasuryAddress rt cfg)"
  unfolding getWethAddress_def admins_eq getTreasuryAddress_def Let_def deployWETHMocked_def
  by (auto intro!: apart_intros split: option.split)

lemma apart_for_each: "(\<And>x. apart rt (f x)) \<Longrightarrow> apart rt (for_each f xs)"
  unfolding for_each_def by (intro apart_intros)

lemma apart_set_rates [apart_intros]:
  "apart rt (setInitialMarketRatesInRatesOracleByHelper rt rates assets oracle admin)"
  unfolding setInitialMarketRatesInRatesOracleByHelper_def Let_def by (intro apart_intros apart_for_each)

lemma apart_pairs [apart_intros]:
  "apart rt (bind (lift_sum (pairs_for w aggs)) (\<lambda>(tokens, aggregators).
     bind (getWethAddress rt cfg) (\<lambda>weth. deployAaveOracle rt tokens aggregators fallback weth v)))"
  unfolding deployAaveOracle_def by (auto intro!: apart_intros simp: case_prod_beta)

lemma apart_tasks [apart_intros]:
  "apart rt (full_lending_pool rt B A arts v pool)" "apart rt (full_oracles rt B A v pool)"
  "apart rt (full_data_provider rt v)"
proof -
  show "apart rt (full_lending_pool rt B A arts v pool)"
    unfolding full_lending_pool_def rethrow_eq Let_def deployStableAndVariableTokensHelper_def
      deployATokensAndRatesHelper_def deployLendingPoolConfigurator_def
    by (intro apart_intros) simp_all
  show "apart rt (full_oracles rt B A v pool)"
    unfolding full_oracles_def rethrow_eq Let_def deployLendingRateOracle_def
    by (intro apart_intros) simp_all
  show "apart rt (full_data_provider rt v)"
    unfolding full_data_provider_def exit_on_error_def deployAaveProtocolDataProvider_def
    by (intro apart_intros) simp_all
qed

text \<open>The rate strategies are registered under their own names, which come from the configuration.\<close>

definition names_apart :: "IReserveParams js_obj \<Rightarrow> bool" where
  "names_apart reserves \<longleftrightarrow> ''LendingPoolAddressesProvider'' \<notin> (\<lambda>(_, p). strategy_name (strategy p)) ` set reserves"

lemma apart_fold:
  "(\<And>acc x. x \<in> set xs \<Longrightarrow> apart rt (f acc x)) \<Longrightarrow> apart rt (fold_io f acc xs)"
proof (induction xs arbitrary: acc)
  case Nil
  show ?case unfolding fold_io.simps by (rule apart_intros)
next
  case (Cons x xs)
  have "apart rt (f acc x)" for acc by (rule Cons.prems) simp
  moreover have "apart rt (fold_io f acc xs)" for acc by (rule Cons.IH, rule Cons.prems) simp
  ultimately show ?case unfolding fold_io.simps by (intro writes_to.quiet_bind)
qed

lemma apart_init_reserves:
  assumes "names_apart reserves"
  shows "apart rt (initReservesByHelper rt reserves tokens aP sP vP syP admin tr inc v)"
proof -
  have one: "apart rt (init_reserve rt provider tokens v st (s, p))" if "(s, p) \<in> set reserves" for provider st s p
  proof -
    have "strategy_name (strategy p) \<noteq> ''LendingPoolAddressesProvider''"
      using assms that unfolding names_apart_def by (metis (mono_tags, lifting) case_prod_conv image_eqI)
    then show ?thesis
      unfolding init_reserve_def ensure_strategy_def deployDefaultReserveInterestRateStrategy_def Let_def
      by (intro apart_intros) simp_all
  qed
  have fold: "apart rt (fold_io (init_reserve rt provider tokens v) init_start (filter f reserves))" for provider f
    by (rule apart_fold) (auto intro: one)
  have batch: "apart rt (batch_init rt c inputs)" for c inputs
    unfolding batch_init_def Let_def by (intro apart_for_each apart_intros)
  show ?thesis
    unfolding initReservesByHelper_def Let_def deployGenericStableDebtToken_def deployGenericVariableDebtToken_def
      deployGenericATokenImpl_def deployDelegationAwareATokenImpl_def
    by (intro fold batch apart_intros) simp_all
qed

section \<open>The lending pool\<close>

text \<open>The transactions of \<open>full:deploy-lending-pool\<close>.\<close>

definition pool_trace :: "contract \<Rightarrow> string option \<Rightarrow> string option \<Rightarrow> tx_obs list" where
  "pool_trace provider impl cimpl =
     [(signer provider, address provider, ''setLendingPoolImpl'', [opt_val impl]),
      (signer provider, address provider, ''setLendingPoolConfiguratorImpl'', [opt_val cimpl])]"

lemma issues_pool_rest:
  "issues sent
    (seq (send_and_wait rt provider ''setLendingPoolImpl'' [opt_val impl])
    (bind (call_str rt provider ''getLendingPool'' []) (\<lambda>addr.
     bind (getLendingPool rt (Some addr)) (\<lambda>proxy.
     seq (insertContractAddressInDb rt Id_LendingPool (address proxy))
    (bind (if \<not> notFalsyOrZeroAddress A w
           then bind (deployLendingPoolConfigurator rt v) (\<lambda>impl. ret (Some (address impl)))
           else ret w) (\<lambda>cimpl.
     seq (send_and_wait rt provider ''setLendingPoolConfiguratorImpl'' [opt_val cimpl])
    (bind (call_str rt provider ''getLendingPoolConfigurator'' []) (\<lambda>caddr.
     bind (getLendingPoolConfiguratorProxy rt (Some caddr)) (\<lambda>cproxy.
     seq (insertContractAddressInDb rt Id_LendingPoolConfigurator (address cproxy))
    (bind (deployStableAndVariableTokensHelper rt [address proxy, address provider] v) (\<lambda>_.
     bind (deployATokensAndRatesHelper rt [address proxy, address provider, address cproxy] v) (\<lambda>_.
     ret ()))))))))))))
   (\<lambda>T. \<exists>cimpl. T = pool_trace provider impl cimpl)"
proof -
  let ?Q = "\<lambda>T. \<exists>cimpl. T = [(signer provider, address provider, ''setLendingPoolConfiguratorImpl'', [opt_val cimpl])]"
  obtain u where Q0: "?Q u" by blast
  have tail: "issues sent
    (seq (send_and_wait rt provider ''setLendingPoolConfiguratorImpl'' [opt_val cimpl])
    (bind (call_str rt provider ''getLendingPoolConfigurator'' []) (\<lambda>caddr.
     bind (getLendingPoolConfiguratorProxy rt (Some caddr)) (\<lambda>cproxy.
     seq (insertContractAddressInDb rt Id_LendingPoolConfigurator (address cproxy))
    (bind (deployStableAndVariableTokensHelper rt [address proxy, address provider] v) (\<lambda>_.
     bind (deployATokensAndRatesHelper rt [address proxy, address provider, address cproxy] v) (\<lambda>_.
     ret ()))))))) ?Q" for cimpl proxy
    by (rule sent.issues_follows [OF sent.follows_seq_quiet [OF follows_send_and_wait]])
       ((intro quiet_intros)+, blast)
  have rest: "issues sent
    (bind (call_str rt provider ''getLendingPool'' []) (\<lambda>addr.
     bind (getLendingPool rt (Some addr)) (\<lambda>proxy.
     seq (insertContractAddressInDb rt Id_LendingPool (address proxy))
    (bind (if \<not> notFalsyOrZeroAddress A w
           then bind (deployLendingPoolConfigurator rt v) (\<lambda>impl. ret (Some (address impl)))
           else ret w) (\<lambda>cimpl.
     seq (send_and_wait rt provider ''setLendingPoolConfiguratorImpl'' [opt_val cimpl])
    (bind (call_str rt provider ''getLendingPoolConfigurator'' []) (\<lambda>caddr.
     bind (getLendingPoolConfiguratorProxy rt (Some caddr)) (\<lambda>cproxy.
     seq (insertContractAddressInDb rt Id_LendingPoolConfigurator (address cproxy))
    (bind (deployStableAndVariableTokensHelper rt [address proxy, address provider] v) (\<lambda>_.
     bind (deployATokensAndRatesHelper rt [address proxy, address provider, address cproxy] v) (\<lambda>_.
     ret ()))))))))))) ?Q" for w
    by (intro tail sent.issues_quiet_bind [where P = ?Q, OF _ Q0] sent.issues_quiet_seq [where P = ?Q, OF _ Q0]
        sent.quiet_if quiet_intros)
  show ?thesis
    by (rule sent.issues_mono [OF sent.issues_follows_seq [OF follows_send_and_wait rest]])
       (auto simp: pool_trace_def)
qed

lemma pool_from:
  assumes "loadPoolConfig B pool = Inr cfg" and "db_lawful rt db0"
  shows "issues_from (known_provider rt db0 a) sent (full_lending_pool rt B A arts v pool)
    (\<lambda>T. \<exists>impl cimpl. T = pool_trace (the_provider rt a) impl cimpl)"
  (is "issues_from _ sent _ ?P")
proof -
  obtain t where P0: "?P t" by blast
  have rest: "issues sent m (\<lambda>T. \<exists>cimpl. T = pool_trace (the_provider rt a) impl cimpl) \<Longrightarrow> issues sent m ?P"
    for m :: "unit io" and impl
    by (erule sent.issues_mono) blast
  show ?thesis
    unfolding full_lending_pool_def rethrow_eq assms(1) lift_sum_cases bind_ret Let_def
  proof (rule sent.issues_from_quiet_seq [where P = ?P, OF quiet_set_DRE keeps_resolves [OF apart_set_DRE] P0],
      rule sent.issues_from_quiet_bind [where P = ?P, OF _ _ P0], goal_cases)
    case (3 p h h')
    then have p: "p = the_provider rt a" by (metis known_provider_got [OF assms(2)])
    show ?case
      unfolding p
      by (rule issues_from_issues, rule sent.issues_quiet_bind [where P = ?P, OF _ P0],
          intro sent.quiet_if quiet_intros, rule rest, rule issues_pool_rest)
  qed (rule quiet_intros keeps_resolves apart_getters)+
qed

section \<open>The oracles\<close>

lemma oracles_from:
  assumes "loadPoolConfig B pool = Inr cfg" and "db_lawful rt db0"
  shows "issues_from (known_provider rt db0 a) sent (full_oracles rt B A v pool)
    (\<lambda>T. \<exists>helper (priceOracle :: contract) rateOracle owner.
       signer rateOracle = Some owner \<and> T = oracle_trace rt cfg (the_provider rt a) helper priceOracle rateOracle)"
  (is "issues_from _ sent _ ?P")
proof -
  let ?c = "connect_signer \<lparr> abi = '''', address = '''', signer = None, deployer = None \<rparr> (Some '''')"
  have "?P (oracle_trace rt cfg (the_provider rt a) p p ?c)" for p by (force simp: connect_signer_def)
  then obtain t where P0: "?P t" by blast
  show ?thesis
    unfolding full_oracles_def rethrow_eq assms(1) lift_sum_cases bind_ret Let_def admins_eq
  proof (rule sent.issues_from_quiet_seq [where P = ?P, OF quiet_set_DRE keeps_resolves [OF apart_set_DRE] P0],
      rule sent.issues_from_quiet_bind [where P = ?P, OF sent.quiet_lift keeps_resolves [OF writes_to.quiet_lift] P0],
      rule sent.issues_from_quiet_bind [where P = ?P, OF _ _ P0], goal_cases)
    case (3 rates h1 h2 p h3 h4)
    then have p: "p = the_provider rt a" by (metis known_provider_got [OF assms(2)])
    have rows: "market_rows rt cfg = rows_of rates (obj_omit [''USD''] (watched rt cfg))"
      using 3(2) by (simp add: market_rows_def lift_sum_ok)
    show ?case
      unfolding p
    proof (rule issues_from_issues, intro sent.issues_quiet_bind [where P = ?P, OF _ P0], goal_cases)
      case (4 priceOracle h5 h6 rate h7 h8 owner h9 h10)
      let ?rate = "connect_signer rate (Some owner)"
      have "?P (oracle_trace rt cfg (the_provider rt a) helper priceOracle ?rate)" for helper
        by (force simp: connect_signer_def)
      then have concl: "?P T" if "\<exists>helper. T = oracle_trace rt cfg (the_provider rt a) helper priceOracle ?rate" for T
        using that by blast
      show ?case
        by (rule sent.issues_mono [OF issues_oracle_tail], rule concl)
           (simp add: oracle_trace_def rows watched_def)
    qed (intro sent.quiet_if quiet_pairs quiet_intros)+
  qed (rule quiet_intros keeps_resolves apart_getters)+
qed

section \<open>The initialization\<close>

lemma configure_from:
  assumes "db_lawful rt db0"
  shows "issues_from (known_provider rt db0 a) sent (configureReservesByHelper rt reserves tokens helpers admin)
    (\<lambda>T. \<exists>helper inputs. T = configure_trace (the_provider rt a) helper admin inputs
      \<and> (\<forall>p \<in> set inputs. configured_from reserves tokens p))"
  (is "issues_from _ sent _ ?P")
proof -
  have P0: "?P []" by (intro exI [of _ "[]"] exI) (simp add: configure_trace_def)
  show ?thesis
    unfolding configureReservesByHelper_def Let_def
  proof (rule sent.issues_from_quiet_bind [where P = ?P, OF _ _ P0], goal_cases)
    case (3 p h1 h2)
    then have p: "p = the_provider rt a" by (metis known_provider_got [OF assms])
    show ?case
      unfolding p
    proof (rule issues_from_issues, intro sent.issues_quiet_bind [where P = ?P, OF _ P0])
      fix helper inputs and h1 h2 :: history
      assume "fold_io (collect_reserve rt tokens helpers) [] reserves h1 = (Inr inputs, h2)"
      then have "\<forall>p \<in> set inputs. configured_from reserves tokens p" using collect_all_ok by fastforce
      then show "issues sent (io_when (inputs \<noteq> [])
          (seq (send_and_wait rt (the_provider rt a) ''setPoolAdmin'' [VStr (address helper)])
          (seq (for_each (\<lambda>i. send_and_wait rt helper ''configureReserves''
                   [VList (map configure_input_val (chunk inputs 20 ! i)), configure_gas])
               [0..<length (chunk inputs 20)])
          (send_and_wait rt (the_provider rt a) ''setPoolAdmin'' [VStr admin])))) ?P"
        by (intro sent.issues_follows [OF follows_configure_program]) blast
    qed (auto intro!: quiet_intros)
  qed (rule quiet_intros keeps_resolves apart_getters)+
qed

lemma apart_configure [apart_intros]: "apart rt (configureReservesByHelper rt reserves tokens helpers admin)"
proof -
  have "apart rt (collect_reserve rt tokens helpers acc entry)" for acc entry
    unfolding collect_reserve_def Let_def by (auto intro!: apart_intros)
  then show ?thesis
    unfolding configureReservesByHelper_def Let_def by (intro apart_intros apart_for_each)
qed

text \<open>The transactions of \<open>full:initialize-lending-pool\<close> on one addresses provider.\<close>

definition setup_trace :: "runtime \<Rightarrow> ICommonConfiguration \<Rightarrow> string js_obj \<Rightarrow> contract \<Rightarrow> tx_obs list \<Rightarrow> bool" where
  "setup_trace rt cfg assets provider T \<longleftrightarrow> (\<exists>configurator inputs helper admin toConfigure manager gateway lp.
     T = init_batches configurator inputs @ configure_trace provider helper admin toConfigure
       @ finish_trace rt provider manager gateway lp
   \<and> (\<forall>p \<in> set toConfigure. configured_from (ReservesConfig cfg) assets p))"

lemma setup_traceI:
  "\<forall>p \<in> set inputs. configured_from (ReservesConfig cfg) assets p \<Longrightarrow>
    setup_trace rt cfg assets provider (init_batches c i @ configure_trace provider helper admin inputs
      @ finish_trace rt provider m g lp)"
  unfolding setup_trace_def by blast

lemma setup_trace_ex: "\<exists>T. setup_trace rt cfg assets provider T"
proof -
  have "\<forall>p \<in> set []. configured_from (ReservesConfig cfg) assets p" by simp
  then show ?thesis unfolding setup_trace_def by blast
qed

lemma initialize_from:
  assumes cfg: "loadPoolConfig B pool = Inr cfg"
    and assets: "getParamPerNetwork rt (ReserveAssets cfg) (network_name rt) = Some assets"
    and db: "db_lawful rt db0" and names: "names_apart (ReservesConfig cfg)"
  shows "issues_from (known_provider rt db0 a) sent (full_initialize rt B A v pool)
    (setup_trace rt cfg assets (the_provider rt a))"
  (is "issues_from ?I sent _ ?P")
proof -
  obtain t where P0: "?P t" using setup_trace_ex by blast
  let ?F = "\<lambda>T. \<exists>m g lp. T = finish_trace rt (the_provider rt a) m g lp"
  let ?C = "\<lambda>admin T. \<exists>helper inputs. T = configure_trace (the_provider rt a) helper admin inputs
      \<and> (\<forall>p \<in> set inputs. configured_from (ReservesConfig cfg) assets p)"
  obtain f where F0: "?F f" by blast
  have C0: "?C admin []" for admin by (intro exI [of _ "[]"] exI) (simp add: configure_trace_def)
  have finish: "issues sent (bind (if \<not> notFalsyOrZeroAddress A w
         then bind (deployLendingPoolCollateralManager rt v) (\<lambda>manager. ret (Some (address manager)))
         else ret w) (\<lambda>m.
     seq (send_and_wait rt (the_provider rt a) ''setLendingPoolCollateralManager'' [opt_val m])
    (bind (deployWalletBalancerProvider rt v) (\<lambda>_.
     bind (call_str rt (the_provider rt a) ''getLendingPool'' []) (\<lambda>lp.
     if network_name rt = celo_network Celo_celo \<or> network_name rt = celo_network Celo_alfajores then ret ()
     else bind (if \<not> notFalsyOrZeroAddress A u
           then bind (getWETHGateway rt None) (\<lambda>g. ret (address g))
           else ret u') (\<lambda>g. bind (authorizeWETHGateway rt g lp) (\<lambda>_. ret ()))))))) ?F" for w u u'
    by (rule issues_finish) (intro sent.quiet_if quiet_intros)+
  have configure: "issues_from ?I sent (seq (configureReservesByHelper rt (ReservesConfig cfg) assets helpers admin) m)
      (\<lambda>T. \<exists>S U. T = S @ U \<and> ?C admin S \<and> ?F U)" if "issues sent m ?F" for helpers admin and m :: "unit io"
    by (rule sent.issues_from_seq [OF configure_from [OF db] keeps_resolves [OF apart_configure]
          issues_from_issues [OF that] F0])
  have some: "\<exists>S U. [] @ f = S @ U \<and> ?C admin S \<and> ?F U" for admin
    by (intro exI [of _ "[]"] exI [of _ f] conjI C0 F0 refl)
  have tail: "issues_from ?I sent (seq (initReservesByHelper rt (ReservesConfig cfg) assets aP sP vP syP admin tr inc v)
      (seq (configureReservesByHelper rt (ReservesConfig cfg) assets helpers admin) m)) ?P"
    if "issues sent m ?F" for aP sP vP syP admin tr inc helpers and m :: "unit io"
  proof (rule issues_from_mono)
    show "issues_from ?I sent (seq (initReservesByHelper rt (ReservesConfig cfg) assets aP sP vP syP admin tr inc v)
        (seq (configureReservesByHelper rt (ReservesConfig cfg) assets helpers admin) m))
      (\<lambda>T. \<exists>S U. T = S @ U \<and> (\<exists>c i. S = init_batches c i) \<and> (\<exists>S' U'. U = S' @ U' \<and> ?C admin S' \<and> ?F U'))"
      by (rule sent.issues_from_seq [OF issues_from_issues [OF issues_initReserves]
            keeps_resolves [OF apart_init_reserves [OF names]] configure [OF that] some])
  qed (auto intro: setup_traceI)
  show ?thesis
    unfolding full_initialize_def cfg assets lift_sum_cases bind_ret Let_def option.case
  proof (rule issues_from_exit,
      rule sent.issues_from_quiet_seq [where P = ?P, OF quiet_set_DRE keeps_resolves [OF apart_set_DRE] P0],
      rule sent.issues_from_quiet_bind [where P = ?P, OF _ _ P0], goal_cases)
    case (3 p h1 h2)
    then have p: "p = the_provider rt a" by (metis known_provider_got [OF db])
    show ?case
      unfolding p
      by (intro tail finish sent.issues_from_quiet_bind [where P = ?P, OF _ _ P0] quiet_intros keeps_resolves apart_intros)
  qed (rule quiet_intros keeps_resolves apart_getters)+
qed

end
