(* ===== verification/MigrationTheorems.thy ===== *)
theory MigrationTheorems
  imports Migrations KnownProvider
begin

text \<open>
  Whole deployments: on every run of a migration the transactions are those of its tasks in their
  order, and all tasks after the first act on the addresses provider that the first one deployed.
\<close>

section \<open>The first task\<close>

lemma address_provider_run:
  assumes "loadPoolConfig B pool = Inr cfg" and "registry_owner rt cfg = Some owner"
    and "full_address_provider rt B A v pool h = (Inr (), h')"
  shows "\<exists>registry provider. sent h' = sent h @ fork_funding rt owner @ provider_setup cfg owner registry provider
        (admin_of rt (PoolAdmin cfg) (PoolAdminIndex cfg))
        (admin_of rt (EmergencyAdmin cfg) (EmergencyAdminIndex cfg))
    \<and> known_provider rt db0 (address provider) h'"
proof -
  let ?p = "opt_val (admin_of rt (PoolAdmin cfg) (PoolAdminIndex cfg))"
  let ?e = "opt_val (admin_of rt (EmergencyAdmin cfg) (EmergencyAdminIndex cfg))"
  obtain g1 g2 g3 g4 g5 registry provider and u :: unit where
    s1: "set_DRE rt h = (Inr u, g1)"
    and s2: "io_when (env_is rt ''MAINNET_FORK'' ''true'')
      (seq (rpc_send rt ''hardhat_impersonateAccount'' [VStr owner])
      (seq (send_ether rt (first_signer rt) owner) (ret ()))) g1 = (Inr (), g2)"
    and s3: "getLendingPoolAddressesProviderRegistry rt (Option.bind (getParamPerNetwork rt (ProviderRegistry cfg)
      (network_name rt)) (\<lambda>a. a)) g2 = (Inr registry, g3)"
    and s4: "deployLendingPoolAddressesProvider rt (MarketId cfg) v g3 = (Inr provider, g4)"
    and s5: "(seq (send_and_wait rt (connect_signer registry (Some owner)) ''registerAddressesProvider''
           [VStr (address provider), VNum (ProviderId cfg)])
      (seq (send_and_wait rt provider ''setPoolAdmin'' [?p])
      (seq (send_and_wait rt provider ''setEmergencyAdmin'' [?e])
      (seq (call_view rt provider ''getPoolAdmin'' [])
      (seq (call_view rt provider ''getEmergencyAdmin'' []) (ret ())))))) g4 = (Inr (), h')"
    using assms(3) unfolding full_address_provider_def assms(1) lift_sum_cases bind_ret Let_def
      assms(2) [unfolded registry_owner_def] option.case admins_eq
    by (auto simp: bind_ok seq_ok lift_sum_ok split: if_splits)
  have fund: "sent g2 = sent g1 @ fork_funding rt owner" by (rule sent.follows_ok [OF follows_fork_funding s2])
  have "follows sent
    (seq (send_and_wait rt (connect_signer registry (Some owner)) ''registerAddressesProvider''
           [VStr (address provider), VNum (ProviderId cfg)])
    (seq (send_and_wait rt provider ''setPoolAdmin'' [?p])
    (seq (send_and_wait rt provider ''setEmergencyAdmin'' [?e])
    (seq (call_view rt provider ''getPoolAdmin'' [])
    (seq (call_view rt provider ''getEmergencyAdmin'' []) (ret ()))))))
    ([(signer (connect_signer registry (Some owner)), address (connect_signer registry (Some owner)),
         ''registerAddressesProvider'', [VStr (address provider), VNum (ProviderId cfg)])]
     @ [(signer provider, address provider, ''setPoolAdmin'', [?p])]
     @ [(signer provider, address provider, ''setEmergencyAdmin'', [?e])])"
    by (intro sent.follows_seq follows_send_and_wait sent.follows_seq_quiet quiet_intros)
  from sent.follows_ok [OF this s5] have "sent h' = sent h @ fork_funding rt owner
      @ provider_setup cfg owner (address registry) provider
        (admin_of rt (PoolAdmin cfg) (PoolAdminIndex cfg)) (admin_of rt (EmergencyAdmin cfg) (EmergencyAdminIndex cfg))"
    using quietD [OF quiet_set_DRE s1] fund quietD [OF quiet_getters(40) s3]
      quietD [OF quiet_simple_deployments(1) s4] by (simp add: provider_setup_def connect_signer_def)
  moreover have "known_provider rt db0 (address provider) h'"
  proof -
    have "quiet db_writes
      (seq (send_and_wait rt (connect_signer registry (Some owner)) ''registerAddressesProvider''
           [VStr (address provider), VNum (ProviderId cfg)])
      (seq (send_and_wait rt provider ''setPoolAdmin'' [?p])
      (seq (send_and_wait rt provider ''setEmergencyAdmin'' [?e])
      (seq (call_view rt provider ''getPoolAdmin'' [])
      (seq (call_view rt provider ''getEmergencyAdmin'' []) (ret ()))))))"
      by (intro quiet_intros)
    from quietD [OF this s5] have "db_writes h' = db_writes g3 @ [saved_entry rt ''LendingPoolAddressesProvider'' provider]"
      using deploy_and_save_result(2) [OF s4 [unfolded deployLendingPoolAddressesProvider_def]] by simp
    then show ?thesis by (simp add: resolves_def reg.lookup_written)
  qed
  ultimately show ?thesis by blast
qed

section \<open>The parts without transactions\<close>

lemma quiet_address_provider_registry [quiet_intros]: "quiet sent (full_address_provider_registry rt v)"
  unfolding full_address_provider_registry_def by (intro quiet_intros quiet_set_DRE)+

lemma quiet_data_provider [quiet_intros]: "quiet sent (full_data_provider rt v)"
  unfolding full_data_provider_def exit_on_error_def by (intro quiet_intros)

lemma quiet_weth_gateway [quiet_intros]: "quiet sent (full_weth_gateway rt B v pool)"
  unfolding full_weth_gateway_def Let_def by (intro quiet_intros)

lemma apart_weth_gateway [apart_intros]: "apart rt (full_weth_gateway rt B v pool)"
  unfolding full_weth_gateway_def Let_def deployWETHGateway_def by (intro apart_intros) simp_all

lemma quiet_checkVerification [quiet_intros]: "quiet sent (checkVerification rt)"
  unfolding checkVerification_def by (intro quiet_intros)

lemma quiet_address_by_id [quiet_intros]: "quiet sent (getAddressById rt i)"
  unfolding getAddressById_def by (intro quiet_intros)

lemma quiet_configured [quiet_intros]:
  "(\<And>a. quiet sent (getter a)) \<Longrightarrow> quiet sent (configured_or_registry A addr getter)"
  unfolding configured_or_registry_def by (intro quiet_intros)

lemma quiet_verify_token [quiet_intros]:
  "quiet sent (verify_token rt cfg treasury provider pool configurator entry)"
  unfolding verify_token_def field_str_def verify_if_known_def Let_def by (intro quiet_intros)

lemma quiet_verify [quiet_intros]:
  "quiet sent (verify_general rt B A everything pool)" "quiet sent (verify_tokens rt B pool)"
  unfolding verify_general_def verify_all_general_def verify_tokens_def for_each_def Let_def
  by (intro quiet_intros)+

section \<open>The migrations\<close>

definition migrations ::
    "runtime \<Rightarrow> 'b bn_api \<Rightarrow> address_api \<Rightarrow> artifact_api \<Rightarrow> bool \<Rightarrow> (string \<times> unit io) list" where
  "migrations rt B A arts verify =
    [(''Moola'', moola_celo rt B A arts verify), (''Moola'', moola_alfajores rt B A arts verify),
     (''Aave'', aave_mainnet rt B A arts verify), (''Amm'', amm_mainnet rt B A arts verify),
     (''Matic'', matic_mainnet rt B A arts verify)]"

text \<open>The transactions of a deployment on the addresses provider that it deploys.\<close>

definition market_trace :: "runtime \<Rightarrow> ICommonConfiguration \<Rightarrow> string js_obj \<Rightarrow> string \<Rightarrow> tx_obs list \<Rightarrow> bool" where
  "market_trace rt cfg assets owner T \<longleftrightarrow>
     (\<exists>registry (provider :: contract) impl cimpl helper (priceOracle :: contract) rateOracle rateOwner U.
        signer rateOracle = Some rateOwner
      \<and> T = fork_funding rt owner @ provider_setup cfg owner registry provider
            (admin_of rt (PoolAdmin cfg) (PoolAdminIndex cfg))
            (admin_of rt (EmergencyAdmin cfg) (EmergencyAdminIndex cfg))
          @ pool_trace (the_provider rt (address provider)) impl cimpl
          @ oracle_trace rt cfg (the_provider rt (address provider)) helper priceOracle rateOracle @ U
      \<and> setup_trace rt cfg assets (the_provider rt (address provider)) U)"

text \<open>What follows the first task, from a state in which the registry names its provider.\<close>

definition rest_trace :: "runtime \<Rightarrow> ICommonConfiguration \<Rightarrow> string js_obj \<Rightarrow> contract \<Rightarrow> tx_obs list \<Rightarrow> bool" where
  "rest_trace rt cfg assets provider T \<longleftrightarrow>
     (\<exists>impl cimpl helper (priceOracle :: contract) rateOracle rateOwner U.
        signer rateOracle = Some rateOwner
      \<and> T = pool_trace provider impl cimpl @ oracle_trace rt cfg provider helper priceOracle rateOracle @ U
      \<and> setup_trace rt cfg assets provider U)"

lemma seq_assoc: "seq (seq m n) k = seq m (seq n k)"
  by (simp add: seq_def bind_assoc)

lemma rest_trace_ex: "\<exists>T. rest_trace rt cfg assets provider T"
proof -
  obtain U where "setup_trace rt cfg assets provider U" using setup_trace_ex by blast
  moreover have "signer (connect_signer p (Some [])) = Some []" for p by (simp add: connect_signer_def)
  ultimately show ?thesis unfolding rest_trace_def by blast
qed

lemma rest_from:
  assumes cfg: "loadPoolConfig B pool = Inr cfg"
    and assets: "getParamPerNetwork rt (ReserveAssets cfg) (network_name rt) = Some assets"
    and db: "db_lawful rt db0" and names: "names_apart (ReservesConfig cfg)"
    and mid: "quiet sent mid" "apart rt mid" and post: "quiet sent post"
  shows "issues_from (known_provider rt db0 a) sent
    (seq (full_lending_pool rt B A arts False pool)
    (seq (full_oracles rt B A False pool)
    (seq (full_data_provider rt False)
    (seq mid
    (seq (full_initialize rt B A False pool) post)))))
    (rest_trace rt cfg assets (the_provider rt a))"
proof -
  let ?S = "setup_trace rt cfg assets (the_provider rt a)"
  let ?O = "\<lambda>T. \<exists>helper (priceOracle :: contract) rateOracle owner.
       signer rateOracle = Some owner \<and> T = oracle_trace rt cfg (the_provider rt a) helper priceOracle rateOracle"
  obtain s where s: "?S s" using setup_trace_ex by blast
  have "?O (oracle_trace rt cfg (the_provider rt a) p p (connect_signer p (Some '''')))" for p
    by (force simp: connect_signer_def)
  then obtain u where u: "?O u" by blast
  have init: "issues_from (known_provider rt db0 a) sent
      (seq (full_data_provider rt False) (seq mid (seq (full_initialize rt B A False pool) post))) ?S"
    by (intro sent.issues_from_quiet_seq [where P = ?S, OF _ _ s] sent.issues_from_seq_quiet
        initialize_from [OF cfg assets db names] keeps_resolves apart_tasks quiet_data_provider mid post)
  have oracles: "issues_from (known_provider rt db0 a) sent
      (seq (full_oracles rt B A False pool)
      (seq (full_data_provider rt False) (seq mid (seq (full_initialize rt B A False pool) post))))
      (\<lambda>T. \<exists>S U. T = S @ U \<and> ?O S \<and> ?S U)"
    by (rule sent.issues_from_seq [OF oracles_from [OF cfg db] keeps_resolves [OF apart_tasks(2)] init s])
  have some: "\<exists>S U. u @ s = S @ U \<and> ?O S \<and> ?S U"
    by (intro exI [of _ u] exI [of _ s] conjI u s refl)
  show ?thesis
  proof (rule issues_from_mono [OF sent.issues_from_seq [OF pool_from [OF cfg db]
        keeps_resolves [OF apart_tasks(1)] oracles some]])
    fix T assume "\<exists>S U. T = S @ U \<and> (\<exists>impl cimpl. S = pool_trace (the_provider rt a) impl cimpl)
      \<and> (\<exists>S' U'. U = S' @ U' \<and> ?O S' \<and> ?S U')"
    then show "rest_trace rt cfg assets (the_provider rt a) T" unfolding rest_trace_def by blast
  qed
qed

lemma market_traceI:
  "rest_trace rt cfg assets (the_provider rt (address provider)) R \<Longrightarrow>
    market_trace rt cfg assets owner (fork_funding rt owner @ provider_setup cfg owner registry provider
      (admin_of rt (PoolAdmin cfg) (PoolAdminIndex cfg))
      (admin_of rt (EmergencyAdmin cfg) (EmergencyAdminIndex cfg)) @ R)"
  unfolding market_trace_def rest_trace_def by blast

text \<open>A migration: the registry, the market's contracts, and quiet steps in between.\<close>

lemma market_run:
  assumes cfg: "loadPoolConfig B pool = Inr cfg" and owner: "registry_owner rt cfg = Some owner"
    and assets: "getParamPerNetwork rt (ReserveAssets cfg) (network_name rt) = Some assets"
    and db: "db_lawful rt db0" and names: "names_apart (ReservesConfig cfg)"
    and mid: "quiet sent mid" "apart rt mid" and post: "quiet sent post"
  shows "issues sent
    (seq (market_contracts rt B A arts pool) (seq mid (seq (full_initialize rt B A False pool) post)))
    (market_trace rt cfg assets owner)"
  unfolding issues_def
proof (intro allI impI)
  let ?pa = "admin_of rt (PoolAdmin cfg) (PoolAdminIndex cfg)"
  let ?ea = "admin_of rt (EmergencyAdmin cfg) (EmergencyAdminIndex cfg)"
  let ?rest = "seq (full_lending_pool rt B A arts False pool) (seq (full_oracles rt B A False pool)
    (seq (full_data_provider rt False) (seq mid (seq (full_initialize rt B A False pool) post))))"
  fix h r h' assume "seq (market_contracts rt B A arts pool) (seq mid (seq (full_initialize rt B A False pool) post)) h = (r, h')"
  then have run: "seq (full_address_provider rt B A False pool) ?rest h = (r, h')"
    by (simp add: market_contracts_def seq_assoc)
  obtain r1 h1 where first: "full_address_provider rt B A False pool h = (r1, h1)" by fastforce
  show "\<exists>T t. market_trace rt cfg assets owner T \<and> prefix t T \<and> sent h' = sent h @ t \<and> ((\<exists>x. r = Inr x) \<longrightarrow> t = T)"
  proof (cases r1)
    case (Inl e)
    then have r: "r = Inl e" "h' = h1" using run first by (auto simp: seq_def bind_def)
    obtain registry provider t where t: "prefix t (fork_funding rt owner @ provider_setup cfg owner registry provider ?pa ?ea)"
        "sent h1 = sent h @ t"
      using issuesD [OF issues_address_provider [OF cfg owner] first] by blast
    obtain R where "rest_trace rt cfg assets (the_provider rt (address provider)) R"
      using rest_trace_ex by blast
    from market_traceI [OF this] t r show ?thesis
      by (intro exI [of _ "fork_funding rt owner @ provider_setup cfg owner registry provider ?pa ?ea @ R"]
          exI [of _ t]) (auto simp: prefix_append)
  next
    case (Inr x)
    then have "?rest h1 = (r, h')" using run first by (simp add: seq_def bind_def)
    moreover obtain registry provider where p: "sent h1 = sent h @ fork_funding rt owner @ provider_setup cfg owner registry provider ?pa ?ea"
        "known_provider rt db0 (address provider) h1"
      using address_provider_run [OF cfg owner, of A False h h1 db0] first Inr by auto
    ultimately obtain R t where "rest_trace rt cfg assets (the_provider rt (address provider)) R" "prefix t R"
        "sent h' = sent h1 @ t" "(\<exists>x. r = Inr x) \<longrightarrow> t = R"
      using issues_fromD [OF rest_from [OF cfg assets db names mid post] p(2)] by blast
    with p market_traceI show ?thesis
      by (intro exI [of _ "fork_funding rt owner @ provider_setup cfg owner registry provider ?pa ?ea @ R"]
          exI [of _ "fork_funding rt owner @ provider_setup cfg owner registry provider ?pa ?ea @ t"]) auto
  qed
qed

lemma seq_unit [simp]: "seq (ret x) n = n" "seq m (ret ()) = m"
proof -
  show "seq (ret x) n = n" by (simp add: seq_def)
  show "seq m (ret ()) = m"
    by (rule ext) (simp add: seq_def bind_def ret_def split: sum.split prod.split)
qed

lemma names_apart_markets:
  "names_apart (ReservesConfig (MoolaConfig B))" "names_apart (ReservesConfig (AaveConfig B))"
  "names_apart (ReservesConfig (AmmConfig B))" "names_apart (ReservesConfig (MaticConfig B))"
  by code_simp+

lemma names_apart_loaded:
  assumes "pool \<in> {''Moola'', ''Aave'', ''Amm'', ''Matic''}" and "loadPoolConfig B pool = Inr cfg"
  shows "names_apart (ReservesConfig cfg)"
  using assms names_apart_markets [of B] by (auto simp: loadPoolConfig_def)

lemma quiet_verify_market [quiet_intros]: "quiet sent (verify_market rt B A v pool)"
  unfolding verify_market_def by (intro quiet_intros)

text \<open>
  C4. On every run of a migration to a public network (\<open>moola:celo\<close>, \<open>moola:alfajores\<close>,
  \<open>aave:mainnet\<close>, \<open>amm:mainnet\<close>, \<open>matic:mainnet\<close>), successful or not and from any earlier state of the
  registry, the transactions are a prefix of: the registration and the admins of a new addresses
  provider; then, all of them on this same provider, the implementations of pool and configurator, the
  market's borrow rates and the two oracles, the initialization and the configuration of the reserves
  and the collateral manager. A run that succeeds has sent the whole sequence.
\<close>

theorem migrations_order:
  assumes "(pool, m) \<in> set (migrations rt B A arts v)" and "loadPoolConfig B pool = Inr cfg"
    and "registry_owner rt cfg = Some owner"
    and "getParamPerNetwork rt (ReserveAssets cfg) (network_name rt) = Some assets"
    and "db_lawful rt db0" and "m h = (r, h')"
  shows "\<exists>T t. market_trace rt cfg assets owner T \<and> prefix t T \<and> sent h' = sent h @ t \<and> (r = Inr () \<longrightarrow> t = T)"
proof -
  let ?P = "market_trace rt cfg assets owner"
  obtain T0 where T0: "?P T0" using market_traceI rest_trace_ex by blast
  have names: "names_apart (ReservesConfig cfg)"
    by (rule names_apart_loaded [OF _ assms(2)]) (use assms(1) in \<open>auto simp: migrations_def\<close>)
  have market: "issues sent (seq (market_contracts rt B A arts pool) (seq mid (seq (full_initialize rt B A False pool) post))) ?P"
    if "quiet sent mid" "apart rt mid" "quiet sent post" for mid post :: "unit io"
    by (rule market_run [OF assms(2-5) names that])
  have plain: "issues sent (seq (market_contracts rt B A arts pool) (full_initialize rt B A False pool)) ?P"
    using market [of "ret ()" "ret ()"] by (simp add: sent.quiet_ret writes_to.quiet_ret)
  have verified: "issues sent (seq (market_contracts rt B A arts pool)
      (seq (full_initialize rt B A False pool) (verify_market rt B A v pool))) ?P"
    using market [of "ret ()" "verify_market rt B A v pool"] by (simp add: sent.quiet_ret writes_to.quiet_ret quiet_intros)
  have gateway: "issues sent (seq (market_contracts rt B A arts pool) (seq (full_weth_gateway rt B False pool)
      (seq (full_initialize rt B A False pool) (verify_market rt B A v pool)))) ?P"
    by (intro market quiet_intros apart_intros)
  have first: "issues sent n ?P \<Longrightarrow> issues sent (seq (set_DRE rt) (seq (full_address_provider_registry rt False) n)) ?P"
      "issues sent n ?P \<Longrightarrow> issues sent (seq (set_DRE rt) (seq (io_when v (checkVerification rt)) n)) ?P" for n :: "unit io"
    by (rule sent.issues_quiet_seq [where P = ?P, OF quiet_set_DRE T0],
        erule sent.issues_quiet_seq [where P = ?P, OF _ T0, rotated], intro quiet_intros)+
  have "issues sent m ?P"
    using assms(1) plain verified gateway
    unfolding migrations_def moola_celo_def moola_alfajores_def aave_mainnet_def amm_mainnet_def
      matic_mainnet_def Let_def config_name.simps
    by (auto intro!: first)
  from issuesD [OF this assms(6)] show ?thesis by (cases r) auto
qed

text \<open>A run in which the node rejects the second transaction of the lending pool task.\<close>

definition stopped_rt :: runtime where
  "stopped_rt = init_rt\<lparr> ext_send := (\<lambda>h s a m args.
     if m = ''setLendingPoolConfiguratorImpl'' then Inl (JsRejected ''execution reverted'') else Inr ''tx'') \<rparr>"

definition stopped_migration :: "unit io" where
  "stopped_migration = moola_celo stopped_rt exact_bn demo_addresses demo_artifacts False"

lemma stopped_lawful: "db_lawful stopped_rt demo_db"
  by (simp add: db_lawful_def stopped_rt_def init_rt_def demo_rt_def)

lemma stopped_config:
  "registry_owner stopped_rt (MoolaConfig B) = Some ''0x643C574128c7C56A1835e021Ad0EcC2592E72624''"
  "getParamPerNetwork stopped_rt (ReserveAssets (MoolaConfig B)) (network_name stopped_rt) = Some moola_celo_assets"
  by code_simp+

lemma stopped_methods:
  "map (\<lambda>(_, _, m, _). m) (sent (snd (moola_celo stopped_rt B demo_addresses demo_artifacts False []))) =
    [''registerAddressesProvider'', ''setPoolAdmin'', ''setEmergencyAdmin'', ''setLendingPoolImpl'']"
  by code_simp

lemma migrations_order_witness:
  "\<exists>T. market_trace stopped_rt (MoolaConfig exact_bn) moola_celo_assets ''0x643C574128c7C56A1835e021Ad0EcC2592E72624'' T
    \<and> prefix (sent (snd (stopped_migration []))) T \<and> length (sent (snd (stopped_migration []))) = 4"
proof -
  obtain r where run: "stopped_migration [] = (r, snd (stopped_migration []))" by (metis prod.collapse)
  have member: "(''Moola'', stopped_migration) \<in> set (migrations stopped_rt exact_bn demo_addresses demo_artifacts False)"
    by (simp add: migrations_def stopped_migration_def)
  have "length (sent (snd (stopped_migration []))) = 4"
    using arg_cong [OF stopped_methods [of exact_bn], of length] by (simp add: stopped_migration_def)
  with migrations_order [OF member moola_loads stopped_config stopped_lawful run] show ?thesis by auto
qed

end
