(* ===== verification/WadRay.thy ===== *)
theory WadRay
  imports Constants MarketRules
begin

text \<open>
  \<open>test-suites/test-aave/helpers/utils/math.ts\<close>: the fixed-point arithmetic the reference
  calculations of the test suites use (the file of \<open>test-amm\<close> is identical), and the libraries
  \<open>WadRayMath\<close> and \<open>PercentageMath\<close> of the contracts it stands for, on 256-bit words.

  The rest of bignumber.js is the record \<open>bn_math\<close>. The locale \<open>bignumber_math\<close> states what its
  documentation promises: sums, differences and comparisons are exact, a quotient is rounded
  to \<open>dp\<close> decimal places in the direction \<open>md\<close> (the settings \<open>DECIMAL_PLACES\<close> and
  \<open>ROUNDING_MODE\<close>). The suites run with \<open>0\<close> and \<open>ROUND_DOWN\<close>, the default is \<open>20\<close> and
  \<open>ROUND_HALF_UP\<close>.
\<close>

section \<open>Rounding\<close>

datatype rounding_mode = ROUND_DOWN | ROUND_HALF_UP

text \<open>Toward zero, and to the nearest with ties away from zero.\<close>

definition round_int :: "rounding_mode \<Rightarrow> rat \<Rightarrow> int" where
  "round_int md q = (case md of
       ROUND_DOWN \<Rightarrow> (if 0 \<le> q then \<lfloor>q\<rfloor> else \<lceil>q\<rceil>)
     | ROUND_HALF_UP \<Rightarrow> (if 0 \<le> q then \<lfloor>q + 1 / 2\<rfloor> else \<lceil>q - 1 / 2\<rceil>))"

definition round_places :: "nat \<Rightarrow> rounding_mode \<Rightarrow> rat \<Rightarrow> rat" where
  "round_places dp md q = of_int (round_int md (q * 10 ^ dp)) / 10 ^ dp"

lemma round_int_of_int [simp]: "round_int md (of_int z) = z"
proof -
  have "\<lfloor>of_int z + 1 / 2 :: rat\<rfloor> = z" "\<lceil>of_int z - 1 / 2 :: rat\<rceil> = z" by linarith+
  then show ?thesis by (simp add: round_int_def split: rounding_mode.split)
qed

lemma round_int_of_nat [simp]: "round_int md (of_nat n) = int n"
  using round_int_of_int [of md "int n"] by simp

lemma round_places_of_int [simp]: "round_places dp md (of_int z) = of_int z"
proof -
  have "of_int z * 10 ^ dp = (of_int (z * 10 ^ dp) :: rat)" by simp
  then show ?thesis by (simp only: round_places_def round_int_of_int) simp
qed

lemma round_places_of_nat [simp]: "round_places dp md (of_nat n) = of_nat n"
  using round_places_of_int [of dp md "int n"] by simp

lemma floor_quotient: "\<lfloor>of_nat m / of_nat n :: rat\<rfloor> = int (m div n)"
  using floor_divide_of_nat_eq [of m n, where 'a = rat] by simp

lemma round_down_quotient [simp]:
  "round_places 0 ROUND_DOWN (of_nat m / of_nat n) = of_nat (m div n)"
  by (simp add: round_places_def round_int_def floor_quotient)

section \<open>The interface of bignumber.js\<close>

text \<open>
  \<open>decimalPlaces_down M x\<close> is \<open>x.decimalPlaces(0, BigNumber.ROUND_DOWN)\<close>, \<open>toFixed0 M x\<close> is
  \<open>x.toFixed(0)\<close>. A division by zero, which yields no finite number, is an unspecified value,
  and so is \<open>undefined_bn\<close>, what a property that was never assigned holds.
\<close>

record 'b bn_math =
  api :: "'b bn_api"
  plus_bn :: "'b \<Rightarrow> 'b \<Rightarrow> 'b"
  minus_bn :: "'b \<Rightarrow> 'b \<Rightarrow> 'b"
  negated_bn :: "'b \<Rightarrow> 'b"
  abs_bn :: "'b \<Rightarrow> 'b"
  eq_bn :: "'b \<Rightarrow> 'b \<Rightarrow> bool"
  lt_bn :: "'b \<Rightarrow> 'b \<Rightarrow> bool"
  decimalPlaces_down :: "'b \<Rightarrow> 'b"
  toFixed0 :: "'b \<Rightarrow> string"
  undefined_bn :: "'b"

abbreviation times_bn :: "'b bn_math \<Rightarrow> 'b \<Rightarrow> 'b \<Rightarrow> 'b" where
  "times_bn M \<equiv> bn_times (api M)"

abbreviation div_bn :: "'b bn_math \<Rightarrow> 'b \<Rightarrow> 'b \<Rightarrow> 'b" where
  "div_bn M \<equiv> bn_div (api M)"

abbreviation str_bn :: "'b bn_math \<Rightarrow> string \<Rightarrow> 'b" where
  "str_bn M \<equiv> bn_str (api M)"

abbreviation int_bn :: "'b bn_math \<Rightarrow> int \<Rightarrow> 'b" where
  "int_bn M n \<equiv> bn_num (api M) n 0"

section \<open>The methods of \<open>math.ts\<close>\<close>

definition ray :: "'b bn_math \<Rightarrow> 'b" where
  "ray M = decimalPlaces_down M (str_bn M (RAY (api M)))"

definition wad :: "'b bn_math \<Rightarrow> 'b" where
  "wad M = decimalPlaces_down M (str_bn M WAD)"

definition halfRay :: "'b bn_math \<Rightarrow> 'b" where
  "halfRay M = decimalPlaces_down M (str_bn M (HALF_RAY (api M)))"

definition halfWad :: "'b bn_math \<Rightarrow> 'b" where
  "halfWad M = decimalPlaces_down M (str_bn M (HALF_WAD (api M)))"

definition wadMul :: "'b bn_math \<Rightarrow> 'b \<Rightarrow> 'b \<Rightarrow> 'b" where
  "wadMul M this b =
     decimalPlaces_down M (div_bn M (plus_bn M (halfWad M) (times_bn M this b)) (str_bn M WAD))"

definition wadDiv :: "'b bn_math \<Rightarrow> 'b \<Rightarrow> 'b \<Rightarrow> 'b" where
  "wadDiv M this a =
     (let halfA = decimalPlaces_down M (div_bn M a (int_bn M 2)) in
      decimalPlaces_down M (div_bn M (plus_bn M halfA (times_bn M this (str_bn M WAD))) a))"

definition rayMul :: "'b bn_math \<Rightarrow> 'b \<Rightarrow> 'b \<Rightarrow> 'b" where
  "rayMul M this a =
     decimalPlaces_down M
       (div_bn M (plus_bn M (halfRay M) (times_bn M this a)) (str_bn M (RAY (api M))))"

definition rayDiv :: "'b bn_math \<Rightarrow> 'b \<Rightarrow> 'b \<Rightarrow> 'b" where
  "rayDiv M this a =
     (let halfA = decimalPlaces_down M (div_bn M a (int_bn M 2)) in
      decimalPlaces_down M
        (div_bn M
          (decimalPlaces_down M (plus_bn M halfA (times_bn M this (str_bn M (RAY (api M)))))) a))"

definition rayToWad :: "'b bn_math \<Rightarrow> 'b \<Rightarrow> 'b" where
  "rayToWad M this =
     (let halfRatio = div_bn M (str_bn M WAD_RAY_RATIO) (int_bn M 2) in
      decimalPlaces_down M (div_bn M (plus_bn M halfRatio this) (str_bn M WAD_RAY_RATIO)))"

definition wadToRay :: "'b bn_math \<Rightarrow> 'b \<Rightarrow> 'b" where
  "wadToRay M this = decimalPlaces_down M (times_bn M this (str_bn M WAD_RAY_RATIO))"

definition halfPercentage :: "'b bn_math \<Rightarrow> 'b" where
  "halfPercentage M = decimalPlaces_down M (str_bn M HALF_PERCENTAGE)"

definition percentMul_bn :: "'b bn_math \<Rightarrow> 'b \<Rightarrow> 'b \<Rightarrow> 'b" where
  "percentMul_bn M this b =
     decimalPlaces_down M
       (div_bn M (plus_bn M (halfPercentage M) (times_bn M this b)) (str_bn M PERCENTAGE_FACTOR))"

definition percentDiv_bn :: "'b bn_math \<Rightarrow> 'b \<Rightarrow> 'b \<Rightarrow> 'b" where
  "percentDiv_bn M this a =
     (let halfA = decimalPlaces_down M (div_bn M a (int_bn M 2)) in
      decimalPlaces_down M
        (div_bn M (plus_bn M halfA (times_bn M this (str_bn M PERCENTAGE_FACTOR))) a))"

section \<open>What bignumber.js promises\<close>

locale bignumber_math = bignumber "api M" val for M :: "'b bn_math" and val :: "'b \<Rightarrow> rat" +
  fixes dp :: nat and md :: rounding_mode
  assumes val_plus: "val (plus_bn M a b) = val a + val b"
    and val_minus: "val (minus_bn M a b) = val a - val b"
    and val_negated: "val (negated_bn M a) = - val a"
    and val_abs: "val (abs_bn M a) = \<bar>val a\<bar>"
    and eq_iff: "eq_bn M a b \<longleftrightarrow> val a = val b"
    and lt_iff: "lt_bn M a b \<longleftrightarrow> val a < val b"
    and val_quotient: "val b \<noteq> 0 \<Longrightarrow> val (div_bn M a b) = round_places dp md (val a / val b)"
    and val_decimalPlaces: "val (decimalPlaces_down M a) = of_int (round_int ROUND_DOWN (val a))"
    and toFixed0_nat: "val a = of_nat n \<Longrightarrow> toFixed0 M a = dec_of_nat n"
begin

lemma decimalPlaces_nat: "val a = of_nat n \<Longrightarrow> val (decimalPlaces_down M a) = of_nat n"
  by (simp add: val_decimalPlaces)

lemma decimalPlaces_quotient:
  "val a = of_nat m / of_nat n \<Longrightarrow> val (decimalPlaces_down M a) = of_nat (m div n)"
  by (simp add: val_decimalPlaces round_int_def floor_quotient)

lemma val_literal [simp]: "val (int_bn M (int n)) = of_nat n"
  by (simp add: val_num)

lemma val_two [simp]: "val (int_bn M 2) = of_nat 2"
  using val_literal [of 2] by simp

lemma val_dec_of_nat: "val (str_bn M (dec_of_nat n)) = of_nat n"
  by (rule val_str) simp

lemma val_units:
  "val (str_bn M WAD) = of_nat (10 ^ 18)" "val (str_bn M (RAY (api M))) = of_nat (10 ^ 27)"
  "val (str_bn M WAD_RAY_RATIO) = of_nat (10 ^ 9)" "val (str_bn M PERCENTAGE_FACTOR) = of_nat 10000"
  "val (str_bn M ONE_YEAR) = of_nat 31536000"
proof -
  show "val (str_bn M (RAY (api M))) = of_nat (10 ^ 27)" by (rule val_RAY)
  show "val (str_bn M WAD) = of_nat (10 ^ 18)" "val (str_bn M WAD_RAY_RATIO) = of_nat (10 ^ 9)"
    "val (str_bn M PERCENTAGE_FACTOR) = of_nat 10000" "val (str_bn M ONE_YEAR) = of_nat 31536000"
    by (rule val_str,
        simp add: WAD_def WAD_RAY_RATIO_def PERCENTAGE_FACTOR_def ONE_YEAR_def decimal_value_def
          nat_of_dec_def char_digit_def)+
qed

lemma val_halves:
  "val (halfWad M) = of_nat (5 * 10 ^ 17)" "val (halfRay M) = of_nat (5 * 10 ^ 26)"
  "val (halfPercentage M) = of_nat 5000"
proof -
  have "val (str_bn M HALF_PERCENTAGE) = of_nat 5000"
    by (rule val_str)
      (simp add: HALF_PERCENTAGE_def decimal_value_def nat_of_dec_def char_digit_def)
  then show "val (halfPercentage M) = of_nat 5000"
    unfolding halfPercentage_def by (rule decimalPlaces_nat)
  show "val (halfWad M) = of_nat (5 * 10 ^ 17)"
    unfolding halfWad_def HALF_WAD_eq by (rule decimalPlaces_nat, rule val_dec_of_nat)
  show "val (halfRay M) = of_nat (5 * 10 ^ 26)"
    unfolding halfRay_def HALF_RAY_eq by (rule decimalPlaces_nat, rule val_dec_of_nat)
qed

lemma plus_nat: "val a = of_nat m \<Longrightarrow> val b = of_nat n \<Longrightarrow> val (plus_bn M a b) = of_nat (m + n)"
  by (simp add: val_plus)

lemma minus_nat:
  "val a = of_nat m \<Longrightarrow> val b = of_nat n \<Longrightarrow> n \<le> m \<Longrightarrow> val (minus_bn M a b) = of_nat (m - n)"
  by (simp add: val_minus of_nat_diff)

lemma times_nat: "val a = of_nat m \<Longrightarrow> val b = of_nat n \<Longrightarrow> val (times_bn M a b) = of_nat (m * n)"
  by (simp add: val_times)

end

text \<open>The nearest integer to a quotient, ties rounded up: what all these methods are meant to compute.\<close>

definition nearest_div :: "nat \<Rightarrow> nat \<Rightarrow> nat" where
  "nearest_div m n = (m + n div 2) div n"

lemma nearest_div_bounds:
  assumes "0 < n"
  shows "2 * nearest_div m n * n \<le> 2 * m + n" and "2 * m \<le> 2 * nearest_div m n * n + n"
proof -
  define q where "q = nearest_div m n"
  have 1: "q * n \<le> m + n div 2" and 2: "m + n div 2 < q * n + n"
    using assms dividend_less_div_times [of n "m + n div 2"]
    by (simp_all add: q_def nearest_div_def add.commute)
  have 3: "2 * (n div 2) \<le> n" "n \<le> 2 * (n div 2) + 1" by linarith+
  show "2 * nearest_div m n * n \<le> 2 * m + n"
    using 1 3 by (simp add: q_def [symmetric])
  show "2 * m \<le> 2 * nearest_div m n * n + n"
    using 2 3 by (simp add: q_def [symmetric])
qed

lemma nearest_div_mult [simp]: "0 < n \<Longrightarrow> nearest_div (m * n) n = m"
  by (simp add: nearest_div_def div_add1_eq)

lemma nearest_div_0 [simp]: "nearest_div 0 n = 0"
  by (cases "n = 0") (simp_all add: nearest_div_def)

lemma nearest_div_mono: "m \<le> m' \<Longrightarrow> nearest_div m n \<le> nearest_div m' n"
  by (simp add: nearest_div_def div_le_mono)

section \<open>The settings of the suites\<close>

locale suite_math = bignumber_math M val 0 ROUND_DOWN for M :: "'b bn_math" and val :: "'b \<Rightarrow> rat"
begin

lemma div_nat:
  assumes "val a = of_nat m" "val b = of_nat n" "n \<noteq> 0"
  shows "val (div_bn M a b) = of_nat (m div n)"
  using val_quotient [of b a] assms by simp

lemma down_div_nat:
  assumes "val a = of_nat m" "val b = of_nat n" "n \<noteq> 0"
  shows "val (decimalPlaces_down M (div_bn M a b)) = of_nat (m div n)"
  by (rule decimalPlaces_nat, rule div_nat [OF assms])

lemma mul_nearest:
  assumes "val x = of_nat m" "val y = of_nat n" "val h = of_nat (f div 2)" "val u = of_nat f" "f \<noteq> 0"
  shows "val (decimalPlaces_down M (div_bn M (plus_bn M h (times_bn M x y)) u)) = of_nat (nearest_div (m * n) f)"
proof -
  have "val (plus_bn M h (times_bn M x y)) = of_nat (f div 2 + m * n)"
    by (rule plus_nat [OF assms(3) times_nat [OF assms(1,2)]])
  from down_div_nat [OF this assms(4,5)] show ?thesis by (simp add: nearest_div_def add.commute)
qed

lemma half_nat: "val y = of_nat n \<Longrightarrow> val (decimalPlaces_down M (div_bn M y (int_bn M 2))) = of_nat (n div 2)"
  by (rule down_div_nat) simp_all

lemma div_nearest:
  assumes "val x = of_nat m" "val y = of_nat n" "n \<noteq> 0" "val u = of_nat f"
  shows "val (decimalPlaces_down M (div_bn M (plus_bn M (decimalPlaces_down M (div_bn M y (int_bn M 2)))
           (times_bn M x u)) y)) = of_nat (nearest_div (m * f) n)"
proof -
  have "val (plus_bn M (decimalPlaces_down M (div_bn M y (int_bn M 2))) (times_bn M x u))
      = of_nat (n div 2 + m * f)"
    by (rule plus_nat [OF half_nat [OF assms(2)] times_nat [OF assms(1,4)]])
  from down_div_nat [OF this assms(2,3)] show ?thesis by (simp add: nearest_div_def add.commute)
qed

lemma wadMul_nat: "val x = of_nat m \<Longrightarrow> val y = of_nat n \<Longrightarrow> val (wadMul M x y) = of_nat (nearest_div (m * n) (10 ^ 18))"
  unfolding wadMul_def by (rule mul_nearest [OF _ _ _ val_units(1)]) (simp_all add: val_halves)

lemma rayMul_nat: "val x = of_nat m \<Longrightarrow> val y = of_nat n \<Longrightarrow> val (rayMul M x y) = of_nat (nearest_div (m * n) (10 ^ 27))"
  unfolding rayMul_def by (rule mul_nearest [OF _ _ _ val_units(2)]) (simp_all add: val_halves)

lemma percentMul_nat: "val x = of_nat m \<Longrightarrow> val y = of_nat n \<Longrightarrow> val (percentMul_bn M x y) = of_nat (nearest_div (m * n) 10000)"
  unfolding percentMul_bn_def by (rule mul_nearest [OF _ _ _ val_units(4)]) (simp_all add: val_halves)

lemma wadDiv_nat:
  "val x = of_nat m \<Longrightarrow> val y = of_nat n \<Longrightarrow> n \<noteq> 0 \<Longrightarrow> val (wadDiv M x y) = of_nat (nearest_div (m * 10 ^ 18) n)"
  unfolding wadDiv_def Let_def by (rule div_nearest [OF _ _ _ val_units(1)])

lemma percentDiv_nat:
  "val x = of_nat m \<Longrightarrow> val y = of_nat n \<Longrightarrow> n \<noteq> 0 \<Longrightarrow> val (percentDiv_bn M x y) = of_nat (nearest_div (m * 10000) n)"
  unfolding percentDiv_bn_def Let_def by (rule div_nearest [OF _ _ _ val_units(4)])

lemma rayDiv_nat:
  assumes "val x = of_nat m" "val y = of_nat n" "n \<noteq> 0"
  shows "val (rayDiv M x y) = of_nat (nearest_div (m * 10 ^ 27) n)"
proof -
  have "val (plus_bn M (decimalPlaces_down M (div_bn M y (int_bn M 2))) (times_bn M x (str_bn M (RAY (api M)))))
      = of_nat (n div 2 + m * 10 ^ 27)"
    by (rule plus_nat [OF half_nat [OF assms(2)] times_nat [OF assms(1) val_units(2)]])
  from down_div_nat [OF decimalPlaces_nat [OF this] assms(2,3)] show ?thesis
    by (simp add: rayDiv_def nearest_div_def add.commute)
qed

lemma rayToWad_nat:
  assumes "val x = of_nat m"
  shows "val (rayToWad M x) = of_nat (nearest_div m (10 ^ 9))"
proof -
  have "val (div_bn M (str_bn M WAD_RAY_RATIO) (int_bn M 2)) = of_nat (10 ^ 9 div 2)"
    by (rule div_nat [OF val_units(3) val_two]) simp
  from down_div_nat [OF plus_nat [OF this assms] val_units(3)] show ?thesis
    by (simp add: rayToWad_def nearest_div_def add.commute)
qed

lemma wadToRay_nat: "val x = of_nat m \<Longrightarrow> val (wadToRay M x) = of_nat (m * 10 ^ 9)"
  unfolding wadToRay_def by (rule decimalPlaces_nat) (rule times_nat [OF _ val_units(3)])

end

section \<open>The contracts\<close>

definition sol_WAD :: u256 where "sol_WAD = 1000000000000000000"
definition sol_halfWAD :: u256 where "sol_halfWAD = sol_WAD div 2"
definition sol_RAY :: u256 where "sol_RAY = 1000000000000000000000000000"
definition sol_halfRAY :: u256 where "sol_halfRAY = sol_RAY div 2"
definition sol_WAD_RAY_RATIO :: u256 where "sol_WAD_RAY_RATIO = 1000000000"

definition sol_wadMul :: "u256 \<Rightarrow> u256 \<Rightarrow> u256 option" where
  "sol_wadMul a b =
     (if a = 0 \<or> b = 0 then Some 0
      else if a \<le> (- 1 - sol_halfWAD) div b then Some ((a * b + sol_halfWAD) div sol_WAD) else None)"

definition sol_wadDiv :: "u256 \<Rightarrow> u256 \<Rightarrow> u256 option" where
  "sol_wadDiv a b =
     (if b = 0 then None
      else let halfB = b div 2 in
        if a \<le> (- 1 - halfB) div sol_WAD then Some ((a * sol_WAD + halfB) div b) else None)"

definition sol_rayMul :: "u256 \<Rightarrow> u256 \<Rightarrow> u256 option" where
  "sol_rayMul a b =
     (if a = 0 \<or> b = 0 then Some 0
      else if a \<le> (- 1 - sol_halfRAY) div b then Some ((a * b + sol_halfRAY) div sol_RAY) else None)"

definition sol_rayDiv :: "u256 \<Rightarrow> u256 \<Rightarrow> u256 option" where
  "sol_rayDiv a b =
     (if b = 0 then None
      else let halfB = b div 2 in
        if a \<le> (- 1 - halfB) div sol_RAY then Some ((a * sol_RAY + halfB) div b) else None)"

definition sol_rayToWad :: "u256 \<Rightarrow> u256 option" where
  "sol_rayToWad a =
     (let halfRatio = sol_WAD_RAY_RATIO div 2; result = halfRatio + a in
      if halfRatio \<le> result then Some (result div sol_WAD_RAY_RATIO) else None)"

definition sol_wadToRay :: "u256 \<Rightarrow> u256 option" where
  "sol_wadToRay a =
     (let result = a * sol_WAD_RAY_RATIO in
      if result div sol_WAD_RAY_RATIO = a then Some result else None)"

definition sol_percentDiv :: "u256 \<Rightarrow> u256 \<Rightarrow> u256 option" where
  "sol_percentDiv value percentage =
     (if percentage = 0 then None
      else let halfPercentage = percentage div 2 in
        if value \<le> (- 1 - halfPercentage) div 10000
        then Some ((value * 10000 + halfPercentage) div percentage) else None)"

text \<open>The guards keep the products from wrapping around; then the words are the natural numbers.\<close>

lemma unat_less_2p: "unat h < 2 ^ 256" for h :: u256
  using unsigned_less [of h] by simp

lemma unat_max_minus: "unat (- 1 - h :: u256) = 2 ^ 256 - 1 - unat h"
proof -
  have m: "unat (- 1 :: u256) = 2 ^ 256 - 1" by (simp add: unsigned_minus_1_eq_mask mask_eq_exp_minus_1)
  have "h \<le> - 1" by (rule word_order.extremum)
  then have "unat (- 1 - h) = unat (- 1 :: u256) - unat h" by (rule unat_sub)
  then show ?thesis by (simp only: m)
qed

lemma product_guard:
  fixes a b h :: u256
  assumes "b \<noteq> 0"
  shows "a \<le> (- 1 - h) div b \<longleftrightarrow> unat a * unat b + unat h < 2 ^ 256"
proof -
  have "0 < unat b" using assms by (simp add: unat_gt_0)
  then have "unat a \<le> (2 ^ 256 - 1 - unat h) div unat b \<longleftrightarrow> unat a * unat b \<le> 2 ^ 256 - 1 - unat h"
    by (rule less_eq_div_iff_mult_less_eq)
  moreover have "unat h < 2 ^ 256" by (rule unat_less_2p)
  ultimately show ?thesis by (auto simp: word_le_nat_alt unat_div unat_max_minus)
qed

lemma unat_product_plus:
  "unat a * unat b + unat h < 2 ^ 256 \<Longrightarrow> unat (a * b + h) = unat a * unat b + unat h" for a b h :: u256
  by (simp add: unat_word_ariths)

lemma mul_guarded:
  fixes a b h f r :: u256
  assumes "unat f = F" "unat h = F div 2" "0 < F"
  shows "(if a = 0 \<or> b = 0 then Some 0 else if a \<le> (- 1 - h) div b then Some ((a * b + h) div f) else None)
       = Some r \<longleftrightarrow> (a = 0 \<or> b = 0 \<or> unat a * unat b + F div 2 < 2 ^ 256)
                  \<and> unat r = nearest_div (unat a * unat b) F"
proof (cases "a = 0 \<or> b = 0")
  case True
  then show ?thesis by (auto simp: unat_eq_0)
next
  case False
  then show ?thesis
    using product_guard [of b a h] unat_product_plus [of a b h] assms
    by (auto simp: u256_eq_iff unat_div nearest_div_def)
qed

lemma div_guarded:
  fixes a b f r :: u256
  assumes "unat f = F" "0 < F"
  shows "(if b = 0 then None else let h = b div 2 in
           if a \<le> (- 1 - h) div f then Some ((a * f + h) div b) else None)
       = Some r \<longleftrightarrow> b \<noteq> 0 \<and> unat a * F + unat b div 2 < 2 ^ 256
                  \<and> unat r = nearest_div (unat a * F) (unat b)"
proof -
  have "f \<noteq> 0" using assms by auto
  moreover have "unat (b div 2) = unat b div 2" by (simp add: unat_div)
  ultimately show ?thesis
    using product_guard [of f a "b div 2"] unat_product_plus [of a f "b div 2"] assms
    by (auto simp: u256_eq_iff unat_div nearest_div_def Let_def)
qed

lemma unat_sol_units:
  "unat sol_WAD = 10 ^ 18" "unat sol_RAY = 10 ^ 27" "unat sol_WAD_RAY_RATIO = 10 ^ 9"
  "unat sol_halfWAD = 10 ^ 18 div 2" "unat sol_halfRAY = 10 ^ 27 div 2"
  by (simp_all add: sol_WAD_def sol_RAY_def sol_WAD_RAY_RATIO_def sol_halfWAD_def sol_halfRAY_def unat_div)

lemma sol_wadMul_iff: "sol_wadMul a b = Some r \<longleftrightarrow>
    (a = 0 \<or> b = 0 \<or> unat a * unat b + 10 ^ 18 div 2 < 2 ^ 256) \<and> unat r = nearest_div (unat a * unat b) (10 ^ 18)"
  unfolding sol_wadMul_def by (rule mul_guarded) (simp_all add: unat_sol_units)

lemma sol_rayMul_iff: "sol_rayMul a b = Some r \<longleftrightarrow>
    (a = 0 \<or> b = 0 \<or> unat a * unat b + 10 ^ 27 div 2 < 2 ^ 256) \<and> unat r = nearest_div (unat a * unat b) (10 ^ 27)"
  unfolding sol_rayMul_def by (rule mul_guarded) (simp_all add: unat_sol_units)

lemma percentMul_iff: "percentMul a b = Some r \<longleftrightarrow>
    (a = 0 \<or> b = 0 \<or> unat a * unat b + 10000 div 2 < 2 ^ 256) \<and> unat r = nearest_div (unat a * unat b) 10000"
  unfolding percentMul_def by (rule mul_guarded) (simp_all add: HALF_PERCENT_def)

lemma sol_wadDiv_iff: "sol_wadDiv a b = Some r \<longleftrightarrow>
    b \<noteq> 0 \<and> unat a * 10 ^ 18 + unat b div 2 < 2 ^ 256 \<and> unat r = nearest_div (unat a * 10 ^ 18) (unat b)"
  unfolding sol_wadDiv_def by (rule div_guarded) (simp_all add: unat_sol_units)

lemma sol_rayDiv_iff: "sol_rayDiv a b = Some r \<longleftrightarrow>
    b \<noteq> 0 \<and> unat a * 10 ^ 27 + unat b div 2 < 2 ^ 256 \<and> unat r = nearest_div (unat a * 10 ^ 27) (unat b)"
  unfolding sol_rayDiv_def by (rule div_guarded) (simp_all add: unat_sol_units)

lemma sol_percentDiv_iff: "sol_percentDiv a b = Some r \<longleftrightarrow>
    b \<noteq> 0 \<and> unat a * 10000 + unat b div 2 < 2 ^ 256 \<and> unat r = nearest_div (unat a * 10000) (unat b)"
  unfolding sol_percentDiv_def by (rule div_guarded) simp_all

lemma sol_rayToWad_iff: "sol_rayToWad a = Some r \<longleftrightarrow>
    unat a + 10 ^ 9 div 2 < 2 ^ 256 \<and> unat r = nearest_div (unat a) (10 ^ 9)"
proof -
  let ?h = "sol_WAD_RAY_RATIO div 2"
  have h: "unat ?h = 10 ^ 9 div 2" by (simp add: unat_div unat_sol_units)
  have s: "unat (?h + a) = (10 ^ 9 div 2 + unat a) mod 2 ^ 256"
    using h by (simp add: unat_word_ariths)
  have "unat a < 2 ^ 256" by (rule unat_less_2p)
  then have "10 ^ 9 div 2 \<le> (10 ^ 9 div 2 + unat a) mod 2 ^ 256 \<longleftrightarrow> unat a + 10 ^ 9 div 2 < 2 ^ 256"
    by (cases "unat a + 10 ^ 9 div 2 < 2 ^ 256") (auto simp: not_less le_mod_geq add.commute)
  then have g: "?h \<le> ?h + a \<longleftrightarrow> unat a + 10 ^ 9 div 2 < 2 ^ 256"
    by (simp only: word_le_nat_alt h s)
  have v: "unat ((?h + a) div sol_WAD_RAY_RATIO) = nearest_div (unat a) (10 ^ 9)"
    if "unat a + 10 ^ 9 div 2 < 2 ^ 256"
    using that by (simp only: unat_div s unat_sol_units nearest_div_def) (simp add: add.commute)
  show ?thesis
    unfolding sol_rayToWad_def Let_def g
    by (cases "unat a + 10 ^ 9 div 2 < 2 ^ 256") (simp_all only: if_True if_False option.inject u256_eq_iff v, auto)
qed

lemma sol_wadToRay_iff: "sol_wadToRay a = Some r \<longleftrightarrow>
    unat a * 10 ^ 9 < 2 ^ 256 \<and> unat r = unat a * 10 ^ 9"
proof -
  let ?p = "a * sol_WAD_RAY_RATIO"
  have p: "unat ?p = (unat a * 10 ^ 9) mod 2 ^ 256"
    by (simp only: unat_word_ariths unat_sol_units) simp
  have "unat ?p div 10 ^ 9 = unat a \<longleftrightarrow> unat a * 10 ^ 9 < 2 ^ 256"
  proof
    assume "unat ?p div 10 ^ 9 = unat a"
    then have "unat a * 10 ^ 9 \<le> unat ?p"
      using div_times_less_eq_dividend [of "unat ?p" "10 ^ 9"] by simp
    then show "unat a * 10 ^ 9 < 2 ^ 256" using unat_less_2p [of ?p] by simp
  qed (simp add: p)
  then show ?thesis
    by (auto simp: sol_wadToRay_def Let_def u256_eq_iff unat_div unat_sol_units p)
qed

section \<open>The default settings\<close>

locale default_math = bignumber_math M val 20 ROUND_HALF_UP for M :: "'b bn_math" and val :: "'b \<Rightarrow> rat"
begin

text \<open>A quotient by a power of ten of at most 20 digits is exact.\<close>

lemma exact_quotient:
  assumes "val a = of_nat m" "val b = of_nat (10 ^ k)" "k \<le> 20"
  shows "val (decimalPlaces_down M (div_bn M a b)) = of_nat (m div 10 ^ k)"
proof -
  have e: "(10 :: rat) ^ 20 = 10 ^ (20 - k) * 10 ^ k" using assms(3) by (simp flip: power_add)
  have q: "of_nat m / of_nat (10 ^ k) * 10 ^ 20 = (of_nat (m * 10 ^ (20 - k)) :: rat)"
    unfolding e by simp
  have "round_places 20 ROUND_HALF_UP (of_nat m / of_nat (10 ^ k)) = of_nat m / of_nat (10 ^ k)"
    unfolding round_places_def q round_int_of_nat by (simp only: e) (simp add: field_simps)
  then have "val (div_bn M a b) = of_nat m / of_nat (10 ^ k)"
    using val_quotient [of b a] assms by simp
  then show ?thesis by (rule decimalPlaces_quotient)
qed

text \<open>A quotient by a ray has 27 decimals and is rounded up when it is close below an integer.\<close>

lemma ray_quotient:
  assumes "val a = of_nat m" "val b = of_nat (10 ^ 27)"
  shows "val (decimalPlaces_down M (div_bn M a b)) = of_nat ((m + 5 * 10 ^ 6) div 10 ^ 27)"
proof -
  have "(of_nat m / of_nat (10 ^ 27) * 10 ^ 20 + 1 / 2 :: rat) = of_nat (m + 5 * 10 ^ 6) / of_nat (10 ^ 7)"
    by (simp add: field_simps)
  then have "round_places 20 ROUND_HALF_UP (of_nat m / of_nat (10 ^ 27)) = of_nat ((m + 5 * 10 ^ 6) div 10 ^ 7) / of_nat (10 ^ 20)"
    by (simp only: round_places_def round_int_def floor_quotient rounding_mode.case) simp
  then have "val (div_bn M a b) = of_nat ((m + 5 * 10 ^ 6) div 10 ^ 7) / of_nat (10 ^ 20)"
    using val_quotient [of b a] assms by simp
  from decimalPlaces_quotient [OF this]
  have "val (decimalPlaces_down M (div_bn M a b)) = of_nat ((m + 5 * 10 ^ 6) div 10 ^ 7 div 10 ^ 20)" .
  also have "(m + 5 * 10 ^ 6) div 10 ^ 7 div 10 ^ 20 = (m + 5 * 10 ^ 6) div 10 ^ 27"
    by (simp flip: div_mult2_eq)
  finally show ?thesis .
qed

end

section \<open>An instance: rational arithmetic with the rounding of a quotient\<close>

definition rat_math :: "nat \<Rightarrow> rounding_mode \<Rightarrow> rat bn_math" where
  "rat_math dp md = \<lparr> api = exact_bn\<lparr>bn_div := \<lambda>a b. round_places dp md (a / b)\<rparr>,
     plus_bn = (+), minus_bn = (-), negated_bn = uminus, abs_bn = abs, eq_bn = (=), lt_bn = (<),
     decimalPlaces_down = (\<lambda>a. of_int (round_int ROUND_DOWN a)),
     toFixed0 = (\<lambda>a. dec_of_nat (nat (round_int md a))), undefined_bn = 0 \<rparr>"

lemma rat_bignumber_math: "bignumber_math (rat_math dp md) (\<lambda>r. r) dp md"
  by unfold_locales (simp_all add: rat_math_def exact_bn_def trunc_nat_def)

interpretation suite: suite_math "rat_math 0 ROUND_DOWN" "\<lambda>r. r"
  unfolding suite_math_def by (rule rat_bignumber_math)

interpretation dflt: default_math "rat_math 20 ROUND_HALF_UP" "\<lambda>r. r"
  unfolding default_math_def by (rule rat_bignumber_math)

end
