(* ===== verification/WadRayTheorems.thy ===== *)
theory WadRayTheorems
  imports WadRay
begin

text \<open>
  The fixed-point arithmetic of the test suites against the contracts: equality under the settings
  of the suites, the exact difference under the default settings of bignumber.js, and the rounding
  errors of conversions.
\<close>

section \<open>Helpers\<close>

lemma threshold_div:
  fixes m p u :: nat
  assumes "p \<le> u" "0 < u"
  shows "(m + p) div u = m div u + (if u - p \<le> m mod u then 1 else 0)"
proof -
  have "m + p = m div u * u + (m mod u + p)" by simp
  then have d: "(m + p) div u = m div u + (m mod u + p) div u" using assms(2)
    by (metis div_mult_self3 less_not_refl)
  have r: "m mod u < u" using assms(2) by simp
  have "(m mod u + p) div u = (if u - p \<le> m mod u then 1 else 0)"
  proof (cases "u - p \<le> m mod u")
    case True
    then have "m mod u + p - u < u" "u \<le> m mod u + p" using r assms(1) by linarith+
    then show ?thesis using True by (simp add: le_div_geq)
  qed (use assms in simp)
  with d show ?thesis by simp
qed

lemma abs_diff_bound: "2 * a \<le> 2 * b + c \<Longrightarrow> 2 * b \<le> 2 * a + c \<Longrightarrow> 2 * \<bar>a - b\<bar> \<le> c" for a b c :: int
  by (simp add: abs_if)

lemma small_diff:
  fixes u k d :: int
  assumes "2 * u * \<bar>d\<bar> \<le> k + u" "k < u" "0 < u"
  shows "d = 0"
proof (rule ccontr)
  assume "d \<noteq> 0"
  then have "2 * u * 1 \<le> 2 * u * \<bar>d\<bar>" using assms(3) by (intro mult_left_mono) auto
  then show False using assms by linarith
qed

text \<open>Scaling an amount by an index and back.\<close>

lemma nearest_div_back:
  assumes "0 < i" "0 < u"
  shows "2 * int u * \<bar>int (nearest_div (nearest_div (m * u) i * i) u) - int m\<bar> \<le> int i + int u"
proof -
  define q where "q = nearest_div (m * u) i"
  define p where "p = nearest_div (q * i) u"
  have "2 * q * i \<le> 2 * (m * u) + i" "2 * (m * u) \<le> 2 * q * i + i"
    "2 * p * u \<le> 2 * (q * i) + u" "2 * (q * i) \<le> 2 * p * u + u"
    unfolding p_def q_def by (rule nearest_div_bounds [OF assms(1)] nearest_div_bounds [OF assms(2)])+
  then have "2 * (p * u) \<le> 2 * (m * u) + i + u" "2 * (m * u) \<le> 2 * (p * u) + i + u"
    by (simp_all add: mult.assoc)
  then have "int (2 * (p * u)) \<le> int (2 * (m * u) + i + u)" "int (2 * (m * u)) \<le> int (2 * (p * u) + i + u)"
    by (simp_all only: of_nat_le_iff)
  then have "2 * (int p * int u) \<le> 2 * (int m * int u) + int i + int u"
    "2 * (int m * int u) \<le> 2 * (int p * int u) + int i + int u"
    by simp_all
  then have "2 * \<bar>int p * int u - int m * int u\<bar> \<le> int i + int u"
    by (intro abs_diff_bound) (simp_all only: add.assoc)
  also have "\<bar>int p * int u - int m * int u\<bar> = int u * \<bar>int p - int m\<bar>"
    by (simp add: abs_mult flip: left_diff_distrib)
  finally show ?thesis by (simp add: p_def q_def)
qed

section \<open>Properties\<close>

text \<open>
  C15. On 256-bit words, wherever a function of \<open>WadRayMath\<close> or \<open>PercentageMath\<close> does not revert,
  the method of \<open>math.ts\<close> that stands for it computes the same number, under the settings the
  suites run with.
\<close>

theorem math_ts_matches_contracts:
  fixes a b :: u256
  assumes M: "suite_math M val" and x: "val x = of_nat (unat a)" and y: "val y = of_nat (unat b)"
  shows "(\<forall>r. sol_wadMul a b = Some r \<longrightarrow> val (wadMul M x y) = of_nat (unat r)) \<and>
    (\<forall>r. sol_wadDiv a b = Some r \<longrightarrow> val (wadDiv M x y) = of_nat (unat r)) \<and>
    (\<forall>r. sol_rayMul a b = Some r \<longrightarrow> val (rayMul M x y) = of_nat (unat r)) \<and>
    (\<forall>r. sol_rayDiv a b = Some r \<longrightarrow> val (rayDiv M x y) = of_nat (unat r)) \<and>
    (\<forall>r. percentMul a b = Some r \<longrightarrow> val (percentMul_bn M x y) = of_nat (unat r)) \<and>
    (\<forall>r. sol_percentDiv a b = Some r \<longrightarrow> val (percentDiv_bn M x y) = of_nat (unat r)) \<and>
    (\<forall>r. sol_rayToWad a = Some r \<longrightarrow> val (rayToWad M x) = of_nat (unat r)) \<and>
    (\<forall>r. sol_wadToRay a = Some r \<longrightarrow> val (wadToRay M x) = of_nat (unat r))"
  using suite_math.wadMul_nat [OF M x y] suite_math.wadDiv_nat [OF M x y]
    suite_math.rayMul_nat [OF M x y] suite_math.rayDiv_nat [OF M x y]
    suite_math.percentMul_nat [OF M x y] suite_math.percentDiv_nat [OF M x y]
    suite_math.rayToWad_nat [OF M x] suite_math.wadToRay_nat [OF M x]
  by (simp add: sol_wadMul_iff sol_wadDiv_iff sol_rayMul_iff sol_rayDiv_iff percentMul_iff
      sol_percentDiv_iff sol_rayToWad_iff sol_wadToRay_iff unat_eq_0)

lemma math_ts_matches_contracts_witness:
  "sol_rayMul 5 sol_RAY = Some 5 \<and>
    rayMul (rat_math 0 ROUND_DOWN) 5 (10 ^ 27) = 5 \<and>
    sol_rayDiv 5 0 = None"
proof -
  have "sol_rayMul 5 sol_RAY = Some 5" "sol_rayDiv 5 0 = None" by code_simp+
  with math_ts_matches_contracts [OF suite.suite_math_axioms, of 5 5 "10 ^ 27" sol_RAY]
  show ?thesis by (simp add: unat_sol_units)
qed

text \<open>
  Under the default settings of bignumber.js \<open>rayMul\<close> is one too large exactly when the
  remainder of the contract's division is within five million of a full ray, because the quotient is
  first rounded to twenty decimals; \<open>wadMul\<close> and \<open>percentMul\<close> are exact.
\<close>

theorem default_rounding:
  assumes M: "default_math M val" and x: "val x = of_nat m" and y: "val y = of_nat n"
  shows "val (wadMul M x y) = of_nat (nearest_div (m * n) (10 ^ 18)) \<and>
    val (percentMul_bn M x y) = of_nat (nearest_div (m * n) 10000) \<and>
    val (rayMul M x y) = of_nat (nearest_div (m * n) (10 ^ 27) +
      (if 10 ^ 27 - 5000000 \<le> (m * n + 10 ^ 27 div 2) mod 10 ^ 27 then 1 else 0))"
proof -
  note B = default_math.axioms [OF M]
  note units = bignumber_math.val_units [OF B] and halves = bignumber_math.val_halves [OF B]
  note sum = bignumber_math.plus_nat [OF B _ bignumber_math.times_nat [OF B x y]]
  have w: "val (wadMul M x y) = of_nat ((5 * 10 ^ 17 + m * n) div 10 ^ 18)"
    unfolding wadMul_def
    by (rule default_math.exact_quotient [OF M sum [OF halves(1)] units(1)]) simp
  have "val (str_bn M PERCENTAGE_FACTOR) = of_nat (10 ^ 4)" using units(4) by simp
  from default_math.exact_quotient [OF M sum [OF halves(3)] this]
  have p: "val (percentMul_bn M x y) = of_nat ((5000 + m * n) div 10 ^ 4)"
    unfolding percentMul_bn_def by simp
  have r: "val (rayMul M x y) = of_nat ((5 * 10 ^ 26 + m * n + 5 * 10 ^ 6) div 10 ^ 27)"
    unfolding rayMul_def by (rule default_math.ray_quotient [OF M sum [OF halves(2)] units(2)])
  show ?thesis
    using w p r threshold_div [of "5 * 10 ^ 6" "10 ^ 27" "5 * 10 ^ 26 + m * n"]
    by (simp add: nearest_div_def add.commute)
qed

lemma default_rounding_witness:
  "rayMul (rat_math 20 ROUND_HALF_UP) 1 499999999999999999999999999 = 1 \<and>
    sol_rayMul 1 499999999999999999999999999 = Some 0"
proof -
  have "sol_rayMul 1 499999999999999999999999999 = Some 0" by code_simp
  with default_rounding [OF dflt.default_math_axioms, of 1 1 _ 499999999999999999999999999]
  show ?thesis by (simp add: nearest_div_def)
qed

text \<open>
  Converting wads to rays and back loses nothing; an amount scaled down by a liquidity index
  (\<open>rayDiv\<close>) and up again (\<open>rayMul\<close>) is off by at most half of the index plus half a ray, in rays,
  and not at all when the index is below one ray.
\<close>

theorem scaling_roundtrip:
  assumes M: "suite_math M val" and x: "val x = of_nat m" and i: "val i = of_nat k" and k: "0 < k"
  shows "val (rayToWad M (wadToRay M x)) = val x \<and>
    2 * 10 ^ 27 * \<bar>val (rayMul M (rayDiv M x i) i) - val x\<bar> \<le> val i + 10 ^ 27 \<and>
    (k < 10 ^ 27 \<longrightarrow> val (rayMul M (rayDiv M x i) i) = val x)"
proof -
  have c: "val (rayToWad M (wadToRay M x)) = val x"
    using suite_math.rayToWad_nat [OF M suite_math.wadToRay_nat [OF M x]] x by simp
  define p where "p = nearest_div (nearest_div (m * 10 ^ 27) k * k) (10 ^ 27)"
  have p: "val (rayMul M (rayDiv M x i) i) = of_nat p"
    using suite_math.rayMul_nat [OF M suite_math.rayDiv_nat [OF M x i] i] k by (simp add: p_def)
  have e: "2 * 10 ^ 27 * \<bar>int p - int m\<bar> \<le> int k + 10 ^ 27"
    using nearest_div_back [of k "10 ^ 27" m] k by (simp add: p_def)
  then have "of_int (2 * 10 ^ 27 * \<bar>int p - int m\<bar>) \<le> (of_int (int k + 10 ^ 27) :: rat)"
    by (simp only: of_int_le_iff)
  then have "2 * 10 ^ 27 * \<bar>(of_nat p - of_nat m :: rat)\<bar> \<le> of_nat k + 10 ^ 27" by simp
  moreover have "p = m" if "k < 10 ^ 27"
  proof -
    have "int k < int (10 ^ 27)" using that by (simp only: of_nat_less_iff)
    then have "int k < 10 ^ 27" by simp
    from small_diff [OF e this] show ?thesis by simp
  qed
  ultimately show ?thesis using c p x i by simp
qed

lemma scaling_roundtrip_witness:
  "rayMul (rat_math 0 ROUND_DOWN) (rayDiv (rat_math 0 ROUND_DOWN) 1000 (10 ^ 26)) (10 ^ 26) = 1000"
  using scaling_roundtrip [OF suite.suite_math_axioms, of 1000 1000 "10 ^ 26" "10 ^ 26"] by simp

end
