(* ===== verification/Calculations.thy ===== *)
theory Calculations
  imports WadRay Types
begin

text \<open>
  \<open>test-suites/test-aave/helpers/utils/calculations.ts\<close>: the reference model of the protocol's
  accounting. From the data of a reserve and of a user before an action (deposit, withdraw, borrow,
  repay, swap of the rate mode, rebalancing) it computes the data expected after it; the scenario
  engine compares them with what the contracts report. (The copy of \<open>test-amm\<close> differs in the type
  of the configuration only.)

  The records are those of \<open>utils/interfaces/index.ts\<close>, fields prefixed \<open>r_\<close> and \<open>u_\<close>. An
  expected record starts as the empty object: its fields hold \<open>undefined\<close> until they are assigned.
  The only error is the TypeError of a symbol the configuration does not have.
\<close>

section \<open>Data\<close>

record 'b ReserveData =
  r_address :: "string option"
  r_symbol :: "string option"
  r_decimals :: 'b
  r_totalLiquidity :: 'b
  r_availableLiquidity :: 'b
  r_totalStableDebt :: 'b
  r_totalVariableDebt :: 'b
  r_principalStableDebt :: 'b
  r_scaledVariableDebt :: 'b
  r_averageStableBorrowRate :: 'b
  r_variableBorrowRate :: 'b
  r_stableBorrowRate :: 'b
  r_utilizationRate :: 'b
  r_liquidityIndex :: 'b
  r_variableBorrowIndex :: 'b
  r_aTokenAddress :: "string option"
  r_marketStableRate :: 'b
  r_lastUpdateTimestamp :: 'b
  r_totalStableDebtLastUpdated :: 'b
  r_liquidityRate :: 'b

text \<open>
  \<open>u_principalVariableDebt\<close> is not declared in the interface; the rebalancing assigns it through the
  index signature.
\<close>

record 'b UserReserveData =
  u_scaledATokenBalance :: 'b
  u_currentATokenBalance :: 'b
  u_currentStableDebt :: 'b
  u_currentVariableDebt :: 'b
  u_principalStableDebt :: 'b
  u_scaledVariableDebt :: 'b
  u_liquidityRate :: 'b
  u_stableBorrowRate :: 'b
  u_stableRateLastUpdated :: 'b
  u_usageAsCollateralEnabled :: bool
  u_walletBalance :: 'b
  u_variableBorrowIndex :: 'b
  u_principalVariableDebt :: 'b

text \<open>\<open><ReserveData>{}\<close> and \<open><UserReserveData>{}\<close>; every function assigns the flag of the latter.\<close>

definition empty_ReserveData :: "'b bn_math \<Rightarrow> 'b ReserveData" where
  "empty_ReserveData M = (let u = undefined_bn M in
     \<lparr> r_address = None, r_symbol = None, r_decimals = u, r_totalLiquidity = u,
       r_availableLiquidity = u, r_totalStableDebt = u, r_totalVariableDebt = u,
       r_principalStableDebt = u, r_scaledVariableDebt = u, r_averageStableBorrowRate = u,
       r_variableBorrowRate = u, r_stableBorrowRate = u, r_utilizationRate = u,
       r_liquidityIndex = u, r_variableBorrowIndex = u, r_aTokenAddress = None,
       r_marketStableRate = u, r_lastUpdateTimestamp = u, r_totalStableDebtLastUpdated = u,
       r_liquidityRate = u \<rparr>)"

definition empty_UserReserveData :: "'b bn_math \<Rightarrow> 'b UserReserveData" where
  "empty_UserReserveData M = (let u = undefined_bn M in
     \<lparr> u_scaledATokenBalance = u, u_currentATokenBalance = u, u_currentStableDebt = u,
       u_currentVariableDebt = u, u_principalStableDebt = u, u_scaledVariableDebt = u,
       u_liquidityRate = u, u_stableBorrowRate = u, u_stableRateLastUpdated = u,
       u_usageAsCollateralEnabled = False, u_walletBalance = u, u_variableBorrowIndex = u,
       u_principalVariableDebt = u \<rparr>)"

text \<open>What follows a call that may throw.\<close>

definition and_then :: "js_error + 'a \<Rightarrow> ('a \<Rightarrow> 'c) \<Rightarrow> js_error + 'c" where
  "and_then r f = (case r of Inl e \<Rightarrow> Inl e | Inr x \<Rightarrow> Inr (f x))"

lemma and_then_simps [simp]: "and_then (Inl e) f = Inl e" "and_then (Inr x) f = Inr (f x)"
  by (simp_all add: and_then_def)

lemma and_then_Inr_iff: "and_then r f = Inr y \<longleftrightarrow> (\<exists>x. r = Inr x \<and> y = f x)"
  by (cases r) auto

section \<open>Interest\<close>

definition calcLinearInterest :: "'b bn_math \<Rightarrow> 'b \<Rightarrow> 'b \<Rightarrow> 'b \<Rightarrow> 'b" where
  "calcLinearInterest M rate currentTimestamp lastUpdateTimestamp =
     (let timeDifference = minus_bn M currentTimestamp lastUpdateTimestamp in
      plus_bn M (div_bn M (times_bn M rate timeDifference) (str_bn M ONE_YEAR))
        (str_bn M (RAY (api M))))"

definition calcCompoundedInterest :: "'b bn_math \<Rightarrow> 'b \<Rightarrow> 'b \<Rightarrow> 'b \<Rightarrow> 'b" where
  "calcCompoundedInterest M rate currentTimestamp lastUpdateTimestamp =
     (let timeDifference = minus_bn M currentTimestamp lastUpdateTimestamp in
      if eq_bn M timeDifference (int_bn M 0) then str_bn M (RAY (api M))
      else
        let expMinusOne = minus_bn M timeDifference (int_bn M 1);
            expMinusTwo = (if lt_bn M (int_bn M 2) timeDifference
                           then minus_bn M timeDifference (int_bn M 2) else int_bn M 0);
            ratePerSecond = div_bn M rate (str_bn M ONE_YEAR);
            basePowerTwo = rayMul M ratePerSecond ratePerSecond;
            basePowerThree = rayMul M basePowerTwo ratePerSecond;
            secondTerm = div_bn M (times_bn M (times_bn M timeDifference expMinusOne) basePowerTwo)
                           (int_bn M 2);
            thirdTerm = div_bn M
                          (times_bn M (times_bn M (times_bn M timeDifference expMinusOne) expMinusTwo)
                            basePowerThree) (int_bn M 6)
        in plus_bn M (plus_bn M (plus_bn M (str_bn M (RAY (api M)))
             (times_bn M ratePerSecond timeDifference)) secondTerm) thirdTerm)"

definition calcExpectedReserveNormalizedIncome :: "'b bn_math \<Rightarrow> 'b ReserveData \<Rightarrow> 'b \<Rightarrow> 'b" where
  "calcExpectedReserveNormalizedIncome M reserveData currentTimestamp =
     (if eq_bn M (r_liquidityRate reserveData) (str_bn M ''0'') then r_liquidityIndex reserveData
      else rayMul M (calcLinearInterest M (r_liquidityRate reserveData) currentTimestamp
                      (r_lastUpdateTimestamp reserveData)) (r_liquidityIndex reserveData))"

definition calcExpectedReserveNormalizedDebt :: "'b bn_math \<Rightarrow> 'b \<Rightarrow> 'b \<Rightarrow> 'b \<Rightarrow> 'b \<Rightarrow> 'b" where
  "calcExpectedReserveNormalizedDebt M variableBorrowRate variableBorrowIndex lastUpdateTimestamp currentTimestamp =
     (if eq_bn M variableBorrowRate (str_bn M ''0'') then variableBorrowIndex
      else rayMul M (calcCompoundedInterest M variableBorrowRate currentTimestamp lastUpdateTimestamp)
             variableBorrowIndex)"

definition calcExpectedLiquidityIndex :: "'b bn_math \<Rightarrow> 'b ReserveData \<Rightarrow> 'b \<Rightarrow> 'b" where
  "calcExpectedLiquidityIndex M reserveData timestamp =
     (if eq_bn M (r_utilizationRate reserveData) (str_bn M ''0'') then r_liquidityIndex reserveData
      else rayMul M (calcLinearInterest M (r_liquidityRate reserveData) timestamp
                      (r_lastUpdateTimestamp reserveData)) (r_liquidityIndex reserveData))"

definition calcExpectedVariableBorrowIndex :: "'b bn_math \<Rightarrow> 'b ReserveData \<Rightarrow> 'b \<Rightarrow> 'b" where
  "calcExpectedVariableBorrowIndex M reserveData timestamp =
     (if eq_bn M (r_totalVariableDebt reserveData) (str_bn M ''0'') then r_variableBorrowIndex reserveData
      else rayMul M (calcCompoundedInterest M (r_variableBorrowRate reserveData) timestamp
                      (r_lastUpdateTimestamp reserveData)) (r_variableBorrowIndex reserveData))"

section \<open>Balances\<close>

definition calcExpectedScaledATokenBalance ::
    "'b bn_math \<Rightarrow> 'b UserReserveData \<Rightarrow> 'b \<Rightarrow> 'b \<Rightarrow> 'b \<Rightarrow> 'b" where
  "calcExpectedScaledATokenBalance M userDataBeforeAction index amountAdded amountTaken =
     minus_bn M (plus_bn M (u_scaledATokenBalance userDataBeforeAction) (rayDiv M amountAdded index))
       (rayDiv M amountTaken index)"

definition calcExpectedATokenBalance ::
    "'b bn_math \<Rightarrow> 'b ReserveData \<Rightarrow> 'b UserReserveData \<Rightarrow> 'b \<Rightarrow> 'b" where
  "calcExpectedATokenBalance M reserveData userData currentTimestamp =
     (let index = calcExpectedReserveNormalizedIncome M reserveData currentTimestamp in
      rayMul M (u_scaledATokenBalance userData) index)"

definition calcExpectedVariableDebtTokenBalance ::
    "'b bn_math \<Rightarrow> 'b ReserveData \<Rightarrow> 'b UserReserveData \<Rightarrow> 'b \<Rightarrow> 'b" where
  "calcExpectedVariableDebtTokenBalance M reserveData userData currentTimestamp =
     (let normalizedDebt = calcExpectedReserveNormalizedDebt M (r_variableBorrowRate reserveData)
            (r_variableBorrowIndex reserveData) (r_lastUpdateTimestamp reserveData) currentTimestamp
      in rayMul M (u_scaledVariableDebt userData) normalizedDebt)"

definition calcExpectedStableDebtTokenBalance :: "'b bn_math \<Rightarrow> 'b \<Rightarrow> 'b \<Rightarrow> 'b \<Rightarrow> 'b \<Rightarrow> 'b" where
  "calcExpectedStableDebtTokenBalance M principalStableDebt stableBorrowRate stableRateLastUpdated currentTimestamp =
     (if eq_bn M stableBorrowRate (int_bn M 0) \<or> eq_bn M currentTimestamp stableRateLastUpdated
         \<or> eq_bn M stableRateLastUpdated (int_bn M 0) then principalStableDebt
      else rayMul M principalStableDebt
             (calcCompoundedInterest M stableBorrowRate currentTimestamp stableRateLastUpdated))"

definition calcExpectedTotalStableDebt :: "'b bn_math \<Rightarrow> 'b \<Rightarrow> 'b \<Rightarrow> 'b \<Rightarrow> 'b \<Rightarrow> 'b" where
  "calcExpectedTotalStableDebt M principalStableDebt averageStableBorrowRate lastUpdateTimestamp currentTimestamp =
     rayMul M (calcCompoundedInterest M averageStableBorrowRate currentTimestamp lastUpdateTimestamp)
       principalStableDebt"

definition calcExpectedTotalVariableDebt :: "'b bn_math \<Rightarrow> 'b ReserveData \<Rightarrow> 'b \<Rightarrow> 'b" where
  "calcExpectedTotalVariableDebt M reserveData expectedVariableDebtIndex =
     rayMul M (r_scaledVariableDebt reserveData) expectedVariableDebtIndex"

section \<open>Rates\<close>

definition calcExpectedAverageStableBorrowRate :: "'b bn_math \<Rightarrow> 'b \<Rightarrow> 'b \<Rightarrow> 'b \<Rightarrow> 'b \<Rightarrow> 'b" where
  "calcExpectedAverageStableBorrowRate M avgStableRateBefore totalStableDebtBefore amountChanged rate =
     (let weightedTotalBorrows = times_bn M avgStableRateBefore totalStableDebtBefore;
          weightedAmountBorrowed = times_bn M rate amountChanged;
          totalBorrowedStable = plus_bn M totalStableDebtBefore amountChanged
      in if eq_bn M totalBorrowedStable (int_bn M 0) then str_bn M ''0''
         else decimalPlaces_down M
                (div_bn M (plus_bn M weightedTotalBorrows weightedAmountBorrowed) totalBorrowedStable))"

definition calcExpectedAverageStableBorrowRateRebalance :: "'b bn_math \<Rightarrow> 'b \<Rightarrow> 'b \<Rightarrow> 'b \<Rightarrow> 'b \<Rightarrow> 'b" where
  "calcExpectedAverageStableBorrowRateRebalance M avgStableRateBefore totalStableDebtBefore amountChanged rate =
     (let weightedTotalBorrows = rayMul M avgStableRateBefore totalStableDebtBefore;
          weightedAmountBorrowed = rayMul M rate (wadToRay M amountChanged);
          totalBorrowedStable = plus_bn M totalStableDebtBefore (wadToRay M amountChanged)
      in if eq_bn M totalBorrowedStable (int_bn M 0) then str_bn M ''0''
         else decimalPlaces_down M
                (rayDiv M (plus_bn M weightedTotalBorrows weightedAmountBorrowed) totalBorrowedStable))"

definition calcExpectedUserStableRate :: "'b bn_math \<Rightarrow> 'b \<Rightarrow> 'b \<Rightarrow> 'b \<Rightarrow> 'b \<Rightarrow> 'b" where
  "calcExpectedUserStableRate M balanceBefore rateBefore amount rateNew =
     div_bn M (plus_bn M (times_bn M balanceBefore rateBefore) (times_bn M amount rateNew))
       (plus_bn M balanceBefore amount)"

definition calcExpectedUtilizationRate :: "'b bn_math \<Rightarrow> 'b \<Rightarrow> 'b \<Rightarrow> 'b \<Rightarrow> 'b" where
  "calcExpectedUtilizationRate M totalStableDebt totalVariableDebt totalLiquidity =
     (if eq_bn M totalStableDebt (str_bn M ''0'') \<and> eq_bn M totalVariableDebt (str_bn M ''0'')
      then str_bn M ''0''
      else rayDiv M (plus_bn M totalStableDebt totalVariableDebt) totalLiquidity)"

definition calcExpectedOverallBorrowRate :: "'b bn_math \<Rightarrow> 'b \<Rightarrow> 'b \<Rightarrow> 'b \<Rightarrow> 'b \<Rightarrow> 'b" where
  "calcExpectedOverallBorrowRate M totalStableDebt totalVariableDebt currentVariableBorrowRate
     currentAverageStableBorrowRate =
     (let totalBorrows = plus_bn M totalStableDebt totalVariableDebt in
      if eq_bn M totalBorrows (int_bn M 0) then str_bn M ''0''
      else
        let weightedVariableRate = rayMul M (wadToRay M totalVariableDebt) currentVariableBorrowRate;
            weightedStableRate = rayMul M (wadToRay M totalStableDebt) currentAverageStableBorrowRate
        in rayDiv M (plus_bn M weightedVariableRate weightedStableRate) (wadToRay M totalBorrows))"

text \<open>The lookup of the reserve's parameters, and the rates of one strategy.\<close>

definition reserve_configuration :: "IReserveParams js_obj \<Rightarrow> string option \<Rightarrow> js_error + IReserveParams" where
  "reserve_configuration reservesParams reserveSymbol = (case reserveSymbol of
       None \<Rightarrow> Inl (JsTypeError ''undefined is not iterable'')
     | Some s \<Rightarrow> entry_at reservesParams s)"

definition strategy_rates ::
    "'b bn_math \<Rightarrow> IReserveParams \<Rightarrow> 'b \<Rightarrow> 'b \<Rightarrow> 'b \<Rightarrow> 'b \<Rightarrow> 'b \<Rightarrow> 'b \<times> 'b \<times> 'b" where
  "strategy_rates M reserveConfiguration marketStableRate utilizationRate totalStableDebt
     totalVariableDebt averageStableBorrowRate =
     (let strat = strategy reserveConfiguration;
          baseRate = str_bn M (baseVariableBorrowRate strat);
          optimalRate = str_bn M (optimalUtilizationRate strat);
          excessRate = minus_bn M (str_bn M (RAY (api M))) optimalRate;
          (stableBorrowRate, variableBorrowRate) =
            (if lt_bn M optimalRate utilizationRate
             then
               let excessUtilizationRateRatio = rayDiv M
                     (minus_bn M utilizationRate (str_bn M (optimalUtilizationRate strat))) excessRate
               in (plus_bn M (plus_bn M marketStableRate (str_bn M (stableRateSlope1 strat)))
                     (rayMul M (str_bn M (stableRateSlope2 strat)) excessUtilizationRateRatio),
                   plus_bn M (plus_bn M baseRate (str_bn M (variableRateSlope1 strat)))
                     (rayMul M (str_bn M (variableRateSlope2 strat)) excessUtilizationRateRatio))
             else
               (plus_bn M marketStableRate
                  (rayMul M (str_bn M (stableRateSlope1 strat)) (rayDiv M utilizationRate optimalRate)),
                plus_bn M baseRate
                  (rayMul M (rayDiv M utilizationRate optimalRate) (str_bn M (variableRateSlope1 strat)))));
          expectedOverallRate = calcExpectedOverallBorrowRate M totalStableDebt totalVariableDebt
            variableBorrowRate averageStableBorrowRate;
          liquidityRate = percentMul_bn M (rayMul M expectedOverallRate utilizationRate)
            (minus_bn M (str_bn M PERCENTAGE_FACTOR) (str_bn M (reserveFactor reserveConfiguration)))
      in (liquidityRate, stableBorrowRate, variableBorrowRate))"

definition calcExpectedInterestRates ::
    "'b bn_math \<Rightarrow> IReserveParams js_obj \<Rightarrow> string option \<Rightarrow> 'b \<Rightarrow> 'b \<Rightarrow> 'b \<Rightarrow> 'b \<Rightarrow> 'b
     \<Rightarrow> js_error + 'b \<times> 'b \<times> 'b" where
  "calcExpectedInterestRates M reservesParams reserveSymbol marketStableRate utilizationRate
     totalStableDebt totalVariableDebt averageStableBorrowRate =
     and_then (reserve_configuration reservesParams reserveSymbol) (\<lambda>reserveConfiguration.
       strategy_rates M reserveConfiguration marketStableRate utilizationRate totalStableDebt
         totalVariableDebt averageStableBorrowRate)"

end
