(* ===== verification/ExpectedData.thy ===== *)
theory ExpectedData
  imports Calculations
begin

text \<open>
  The expected data of a reserve and of a user after each action: the exported functions of
  \<open>calculations.ts\<close>. Parameters the source never reads (\<open>txCost\<close>, some timestamps) are kept.
\<close>

section \<open>Reserves\<close>

text \<open>
  The end of five of the functions: the utilization of the record, and the rates at that utilization.
\<close>

definition finish_reserve ::
    "'b bn_math \<Rightarrow> IReserveParams js_obj \<Rightarrow> 'b ReserveData \<Rightarrow> 'b ReserveData \<Rightarrow> js_error + 'b ReserveData" where
  "finish_reserve M cfg before e =
     (let utilization = calcExpectedUtilizationRate M (r_totalStableDebt e) (r_totalVariableDebt e)
            (r_totalLiquidity e)
      in and_then
           (calcExpectedInterestRates M cfg (r_symbol before) (r_marketStableRate before) utilization
             (r_totalStableDebt e) (r_totalVariableDebt e) (r_averageStableBorrowRate e))
           (\<lambda>(liquidityRate, stableRate, variableRate).
              e\<lparr>r_utilizationRate := utilization, r_liquidityRate := liquidityRate,
                r_stableBorrowRate := stableRate, r_variableBorrowRate := variableRate\<rparr>))"

text \<open>\<open>address\<close>, \<open>liquidityIndex\<close> and \<open>variableBorrowIndex\<close>, assigned alike in all of them.\<close>

definition start_reserve :: "'b bn_math \<Rightarrow> 'b ReserveData \<Rightarrow> 'b \<Rightarrow> 'b ReserveData" where
  "start_reserve M before txTimestamp =
     (empty_ReserveData M)\<lparr>r_address := r_address before,
       r_liquidityIndex := calcExpectedLiquidityIndex M before txTimestamp,
       r_variableBorrowIndex := calcExpectedVariableBorrowIndex M before txTimestamp\<rparr>"

text \<open>The total stable debt of a reserve up to a time.\<close>

definition stable_debt_until :: "'b bn_math \<Rightarrow> 'b ReserveData \<Rightarrow> 'b \<Rightarrow> 'b" where
  "stable_debt_until M before timestamp =
     calcExpectedTotalStableDebt M (r_principalStableDebt before) (r_averageStableBorrowRate before)
       (r_totalStableDebtLastUpdated before) timestamp"

definition calcExpectedReserveDataAfterDeposit ::
    "'b bn_math \<Rightarrow> IReserveParams js_obj \<Rightarrow> string \<Rightarrow> 'b ReserveData \<Rightarrow> 'b \<Rightarrow> js_error + 'b ReserveData" where
  "calcExpectedReserveDataAfterDeposit M cfg amountDeposited before txTimestamp =
     (let amount = str_bn M amountDeposited; e = start_reserve M before txTimestamp in
      finish_reserve M cfg before
        (e\<lparr>r_totalLiquidity := plus_bn M (r_totalLiquidity before) amount,
           r_availableLiquidity := plus_bn M (r_availableLiquidity before) amount,
           r_averageStableBorrowRate := r_averageStableBorrowRate before,
           r_totalStableDebt := stable_debt_until M before txTimestamp,
           r_totalVariableDebt := calcExpectedTotalVariableDebt M before (r_variableBorrowIndex e),
           r_scaledVariableDebt := r_scaledVariableDebt before,
           r_principalStableDebt := r_principalStableDebt before\<rparr>))"

definition calcExpectedReserveDataAfterWithdraw ::
    "'b bn_math \<Rightarrow> IReserveParams js_obj \<Rightarrow> string \<Rightarrow> 'b ReserveData \<Rightarrow> 'b UserReserveData \<Rightarrow> 'b
     \<Rightarrow> js_error + 'b ReserveData" where
  "calcExpectedReserveDataAfterWithdraw M cfg amountWithdrawn before user txTimestamp =
     (let amountWithdrawn = (if amountWithdrawn = MAX_UINT_AMOUNT
            then bn_toFixed (api M) (calcExpectedATokenBalance M before user txTimestamp)
            else amountWithdrawn);
          amount = str_bn M amountWithdrawn; e = start_reserve M before txTimestamp;
          stableDebt = stable_debt_until M before txTimestamp;
          variableDebt = rayMul M (r_scaledVariableDebt before) (r_variableBorrowIndex e) in
      finish_reserve M cfg before
        (e\<lparr>r_availableLiquidity := minus_bn M (r_availableLiquidity before) amount,
           r_principalStableDebt := r_principalStableDebt before,
           r_scaledVariableDebt := r_scaledVariableDebt before,
           r_totalStableDebt := stableDebt, r_totalVariableDebt := variableDebt,
           r_averageStableBorrowRate := r_averageStableBorrowRate before,
           r_totalLiquidity := plus_bn M (plus_bn M
             (minus_bn M (r_availableLiquidity before) amount) variableDebt) stableDebt\<rparr>))"

text \<open>
  Borrowing: the rates are those right after the transaction, the debts, the liquidity and the
  utilization those at \<open>currentTimestamp\<close>.
\<close>

definition borrow_stable ::
    "'b bn_math \<Rightarrow> IReserveParams js_obj \<Rightarrow> 'b \<Rightarrow> 'b ReserveData \<Rightarrow> 'b \<Rightarrow> 'b \<Rightarrow> 'b ReserveData
     \<Rightarrow> js_error + 'b ReserveData" where
  "borrow_stable M cfg amount before txTimestamp currentTimestamp e =
     (let scaled = r_scaledVariableDebt before;
          variableDebtAfterTx = rayMul M scaled (r_variableBorrowIndex e);
          stableDebtUntilTx = stable_debt_until M before txTimestamp;
          principal = plus_bn M stableDebtUntilTx amount;
          avg = calcExpectedAverageStableBorrowRate M (r_averageStableBorrowRate before)
                  stableDebtUntilTx amount (r_stableBorrowRate before);
          liquidityAfterTx = plus_bn M (plus_bn M (r_availableLiquidity e) principal) variableDebtAfterTx;
          utilizationAfterTx = calcExpectedUtilizationRate M principal variableDebtAfterTx liquidityAfterTx
      in and_then
           (calcExpectedInterestRates M cfg (r_symbol before) (r_marketStableRate before)
             utilizationAfterTx principal variableDebtAfterTx avg)
           (\<lambda>(liquidityRate, stableRate, variableRate).
              let totalStable = calcExpectedTotalStableDebt M principal avg txTimestamp currentTimestamp;
                  totalVariable = rayMul M (r_scaledVariableDebt before)
                    (calcExpectedReserveNormalizedDebt M variableRate (r_variableBorrowIndex e)
                      txTimestamp currentTimestamp);
                  totalLiquidity = plus_bn M (plus_bn M (r_availableLiquidity e) totalVariable) totalStable
              in e\<lparr>r_scaledVariableDebt := scaled, r_principalStableDebt := principal,
                   r_averageStableBorrowRate := avg, r_liquidityRate := liquidityRate,
                   r_stableBorrowRate := stableRate, r_variableBorrowRate := variableRate,
                   r_totalStableDebt := totalStable, r_totalVariableDebt := totalVariable,
                   r_totalLiquidity := totalLiquidity,
                   r_utilizationRate :=
                     calcExpectedUtilizationRate M totalStable totalVariable totalLiquidity\<rparr>))"

definition borrow_variable ::
    "'b bn_math \<Rightarrow> IReserveParams js_obj \<Rightarrow> 'b \<Rightarrow> 'b ReserveData \<Rightarrow> 'b \<Rightarrow> 'b \<Rightarrow> 'b ReserveData
     \<Rightarrow> js_error + 'b ReserveData" where
  "borrow_variable M cfg amount before txTimestamp currentTimestamp e =
     (let stableDebtAfterTx = calcExpectedStableDebtTokenBalance M (r_principalStableDebt before)
            (r_averageStableBorrowRate before) (r_totalStableDebtLastUpdated before) txTimestamp;
          totalStable = stable_debt_until M before currentTimestamp;
          avg = r_averageStableBorrowRate before;
          scaled = plus_bn M (r_scaledVariableDebt before) (rayDiv M amount (r_variableBorrowIndex e));
          variableDebtAfterTx = rayMul M scaled (r_variableBorrowIndex e);
          utilizationAfterTx = calcExpectedUtilizationRate M stableDebtAfterTx variableDebtAfterTx
            (plus_bn M (plus_bn M (r_availableLiquidity e) stableDebtAfterTx) variableDebtAfterTx)
      in and_then
           (calcExpectedInterestRates M cfg (r_symbol before) (r_marketStableRate before)
             utilizationAfterTx stableDebtAfterTx variableDebtAfterTx avg)
           (\<lambda>(liquidityRate, stableRate, variableRate).
              let totalVariable = rayMul M scaled
                    (calcExpectedReserveNormalizedDebt M variableRate (r_variableBorrowIndex e)
                      txTimestamp currentTimestamp);
                  totalLiquidity = plus_bn M (plus_bn M (r_availableLiquidity e) totalStable) totalVariable
              in e\<lparr>r_principalStableDebt := r_principalStableDebt before,
                   r_totalStableDebt := totalStable, r_averageStableBorrowRate := avg,
                   r_scaledVariableDebt := scaled, r_liquidityRate := liquidityRate,
                   r_stableBorrowRate := stableRate, r_variableBorrowRate := variableRate,
                   r_totalVariableDebt := totalVariable, r_totalLiquidity := totalLiquidity,
                   r_utilizationRate :=
                     calcExpectedUtilizationRate M totalStable totalVariable totalLiquidity\<rparr>))"

definition calcExpectedReserveDataAfterBorrow ::
    "'b bn_math \<Rightarrow> IReserveParams js_obj \<Rightarrow> string \<Rightarrow> string \<Rightarrow> 'b ReserveData \<Rightarrow> 'b UserReserveData
     \<Rightarrow> 'b \<Rightarrow> 'b \<Rightarrow> js_error + 'b ReserveData" where
  "calcExpectedReserveDataAfterBorrow M cfg amountBorrowed borrowRateMode before user
     txTimestamp currentTimestamp =
     (let amount = str_bn M amountBorrowed;
          e = (start_reserve M before txTimestamp)
                \<lparr>r_availableLiquidity := minus_bn M (r_availableLiquidity before) amount,
                 r_lastUpdateTimestamp := txTimestamp\<rparr>
      in if borrowRateMode = rate_mode Rate_Stable
         then borrow_stable M cfg amount before txTimestamp currentTimestamp e
         else borrow_variable M cfg amount before txTimestamp currentTimestamp e)"

text \<open>
  Repaying. In the stable mode two guards reset the debt and the average rate when rounding errors
  have made one of them negative.
\<close>

definition repay_stable ::
    "'b bn_math \<Rightarrow> 'b \<Rightarrow> 'b ReserveData \<Rightarrow> 'b UserReserveData \<Rightarrow> 'b \<Rightarrow> 'b ReserveData \<Rightarrow> 'b ReserveData" where
  "repay_stable M amount before user txTimestamp e =
     (let expectedDebt = stable_debt_until M before txTimestamp;
          debt = minus_bn M expectedDebt amount;
          zero = int_bn M 0;
          (debt, avg) =
            (if lt_bn M debt (int_bn M 0) then (zero, zero)
             else
               let avg = calcExpectedAverageStableBorrowRate M (r_averageStableBorrowRate before)
                     expectedDebt (negated_bn M amount) (u_stableBorrowRate user)
               in if lt_bn M avg (int_bn M 0) then (zero, zero) else (debt, avg))
      in e\<lparr>r_principalStableDebt := debt, r_totalStableDebt := debt, r_averageStableBorrowRate := avg,
           r_scaledVariableDebt := r_scaledVariableDebt before,
           r_totalVariableDebt := rayMul M (r_scaledVariableDebt before) (r_variableBorrowIndex e)\<rparr>)"

definition repay_variable ::
    "'b bn_math \<Rightarrow> 'b \<Rightarrow> 'b ReserveData \<Rightarrow> 'b ReserveData \<Rightarrow> 'b ReserveData" where
  "repay_variable M amount before e =
     (let scaled = minus_bn M (r_scaledVariableDebt before) (rayDiv M amount (r_variableBorrowIndex e))
      in e\<lparr>r_scaledVariableDebt := scaled,
           r_totalVariableDebt := rayMul M scaled (r_variableBorrowIndex e),
           r_principalStableDebt := r_principalStableDebt before,
           r_totalStableDebt := r_totalStableDebt before,
           r_averageStableBorrowRate := r_averageStableBorrowRate before\<rparr>)"

definition calcExpectedReserveDataAfterRepay ::
    "'b bn_math \<Rightarrow> IReserveParams js_obj \<Rightarrow> string \<Rightarrow> string \<Rightarrow> 'b ReserveData \<Rightarrow> 'b UserReserveData
     \<Rightarrow> 'b \<Rightarrow> 'b \<Rightarrow> js_error + 'b ReserveData" where
  "calcExpectedReserveDataAfterRepay M cfg amountRepaid borrowRateMode before user
     txTimestamp currentTimestamp =
     (let userStableDebt = calcExpectedStableDebtTokenBalance M (u_principalStableDebt user)
            (u_stableBorrowRate user) (u_stableRateLastUpdated user) txTimestamp;
          userVariableDebt = calcExpectedVariableDebtTokenBalance M before user txTimestamp;
          amountBN = str_bn M amountRepaid;
          amount = (if eq_bn M (abs_bn M amountBN) (str_bn M MAX_UINT_AMOUNT)
                    then if borrowRateMode = rate_mode Rate_Stable then userStableDebt else userVariableDebt
                    else amountBN);
          e = start_reserve M before txTimestamp;
          e = (if borrowRateMode = rate_mode Rate_Stable
               then repay_stable M amount before user txTimestamp e
               else repay_variable M amount before e);
          available = plus_bn M (r_availableLiquidity before) amount
      in and_then
           (finish_reserve M cfg before
             (e\<lparr>r_availableLiquidity := available,
                r_totalLiquidity := plus_bn M (plus_bn M available (r_totalStableDebt e))
                  (r_totalVariableDebt e)\<rparr>))
           (\<lambda>e. e\<lparr>r_lastUpdateTimestamp := txTimestamp\<rparr>))"

definition calcExpectedReserveDataAfterSwapRateMode ::
    "'b bn_math \<Rightarrow> IReserveParams js_obj \<Rightarrow> 'b ReserveData \<Rightarrow> 'b UserReserveData \<Rightarrow> string \<Rightarrow> 'b
     \<Rightarrow> js_error + 'b ReserveData" where
  "calcExpectedReserveDataAfterSwapRateMode M cfg before user rateMode txTimestamp =
     (let variableDebt = calcExpectedVariableDebtTokenBalance M before user txTimestamp;
          stableDebt = calcExpectedStableDebtTokenBalance M (u_principalStableDebt user)
            (u_stableBorrowRate user) (u_stableRateLastUpdated user) txTimestamp;
          e = start_reserve M before txTimestamp;
          totalStableDebtUntilTx = stable_debt_until M before txTimestamp;
          (scaled, total, avg) =
            (if rateMode = rate_mode Rate_Stable
             then
               let total = minus_bn M totalStableDebtUntilTx stableDebt
               in (plus_bn M (r_scaledVariableDebt before) (rayDiv M stableDebt (r_variableBorrowIndex e)),
                   total,
                   calcExpectedAverageStableBorrowRate M (r_averageStableBorrowRate before)
                     (plus_bn M total stableDebt) (negated_bn M stableDebt) (u_stableBorrowRate user))
             else
               (minus_bn M (r_scaledVariableDebt before) (rayDiv M variableDebt (r_variableBorrowIndex e)),
                plus_bn M totalStableDebtUntilTx variableDebt,
                calcExpectedAverageStableBorrowRate M (r_averageStableBorrowRate before)
                  (r_totalStableDebt before) variableDebt (r_stableBorrowRate before)));
          totalVariable = rayMul M scaled (r_variableBorrowIndex e)
      in finish_reserve M cfg before
           (e\<lparr>r_availableLiquidity := r_availableLiquidity before, r_scaledVariableDebt := scaled,
              r_totalVariableDebt := totalVariable, r_principalStableDebt := total,
              r_totalStableDebt := total, r_averageStableBorrowRate := avg,
              r_totalLiquidity :=
                plus_bn M (plus_bn M (r_availableLiquidity before) total) totalVariable\<rparr>))"

definition calcExpectedReserveDataAfterStableRateRebalance ::
    "'b bn_math \<Rightarrow> IReserveParams js_obj \<Rightarrow> 'b ReserveData \<Rightarrow> 'b UserReserveData \<Rightarrow> 'b
     \<Rightarrow> js_error + 'b ReserveData" where
  "calcExpectedReserveDataAfterStableRateRebalance M cfg before user txTimestamp =
     (let userStableDebt = calcExpectedStableDebtTokenBalance M (u_principalStableDebt user)
            (u_stableBorrowRate user) (u_stableRateLastUpdated user) txTimestamp;
          e = start_reserve M before txTimestamp;
          totalVariable = rayMul M (r_scaledVariableDebt before) (r_variableBorrowIndex e);
          totalStable = stable_debt_until M before txTimestamp;
          avgRateBefore = calcExpectedAverageStableBorrowRateRebalance M
            (r_averageStableBorrowRate before) totalStable (negated_bn M userStableDebt)
            (u_stableBorrowRate user);
          avg = calcExpectedAverageStableBorrowRateRebalance M avgRateBefore
            (minus_bn M totalStable userStableDebt) userStableDebt (r_stableBorrowRate before)
      in finish_reserve M cfg before
           (e\<lparr>r_scaledVariableDebt := r_scaledVariableDebt before, r_totalVariableDebt := totalVariable,
              r_principalStableDebt := totalStable, r_totalStableDebt := totalStable,
              r_availableLiquidity := r_availableLiquidity before,
              r_totalLiquidity :=
                plus_bn M (plus_bn M (r_availableLiquidity before) totalStable) totalVariable,
              r_averageStableBorrowRate := avg\<rparr>))"

section \<open>Users\<close>

text \<open>The user's own debts up to a time.\<close>

definition user_stable_debt :: "'b bn_math \<Rightarrow> 'b UserReserveData \<Rightarrow> 'b \<Rightarrow> 'b" where
  "user_stable_debt M user timestamp =
     calcExpectedStableDebtTokenBalance M (u_principalStableDebt user) (u_stableBorrowRate user)
       (u_stableRateLastUpdated user) timestamp"

text \<open>
  The last two assignments of the deposit chain \<open>principalStableDebt\<close>: it ends up with the variable
  debt.
\<close>

definition calcExpectedUserDataAfterDeposit ::
    "'b bn_math \<Rightarrow> string \<Rightarrow> 'b ReserveData \<Rightarrow> 'b ReserveData \<Rightarrow> 'b UserReserveData \<Rightarrow> 'b \<Rightarrow> 'b \<Rightarrow> 'b
     \<Rightarrow> 'b UserReserveData" where
  "calcExpectedUserDataAfterDeposit M amountDeposited before after user txTimestamp currentTimestamp txCost =
     (let e = empty_UserReserveData M;
          e = e\<lparr>u_currentStableDebt := user_stable_debt M user txTimestamp,
                u_currentVariableDebt := calcExpectedVariableDebtTokenBalance M before user txTimestamp,
                u_principalStableDebt := u_principalStableDebt user,
                u_scaledVariableDebt := u_scaledVariableDebt user,
                u_variableBorrowIndex := u_variableBorrowIndex user,
                u_stableBorrowRate := u_stableBorrowRate user,
                u_stableRateLastUpdated := u_stableRateLastUpdated user,
                u_liquidityRate := r_liquidityRate after,
                u_scaledATokenBalance := calcExpectedScaledATokenBalance M user (r_liquidityIndex after)
                  (str_bn M amountDeposited) (int_bn M 0),
                u_currentATokenBalance := plus_bn M (calcExpectedATokenBalance M before user txTimestamp)
                  (str_bn M amountDeposited)\<rparr>;
          e = e\<lparr>u_usageAsCollateralEnabled :=
                  (if eq_bn M (u_currentATokenBalance user) (int_bn M 0) then True
                   else u_usageAsCollateralEnabled user),
                u_variableBorrowIndex := u_variableBorrowIndex user,
                u_walletBalance := minus_bn M (u_walletBalance user) (str_bn M amountDeposited)\<rparr>;
          stableDebt = user_stable_debt M user txTimestamp;
          e = e\<lparr>u_principalStableDebt := stableDebt, u_currentStableDebt := stableDebt\<rparr>;
          variableDebt = calcExpectedVariableDebtTokenBalance M before user txTimestamp
      in e\<lparr>u_principalStableDebt := variableDebt, u_currentVariableDebt := variableDebt\<rparr>)"

definition calcExpectedUserDataAfterWithdraw ::
    "'b bn_math \<Rightarrow> string \<Rightarrow> 'b ReserveData \<Rightarrow> 'b ReserveData \<Rightarrow> 'b UserReserveData \<Rightarrow> 'b \<Rightarrow> 'b \<Rightarrow> 'b
     \<Rightarrow> 'b UserReserveData" where
  "calcExpectedUserDataAfterWithdraw M amountWithdrawn before after user txTimestamp currentTimestamp txCost =
     (let aTokenBalance = calcExpectedATokenBalance M before user txTimestamp;
          amountWithdrawn = (if amountWithdrawn = MAX_UINT_AMOUNT then toFixed0 M aTokenBalance
                             else amountWithdrawn);
          amount = str_bn M amountWithdrawn;
          balance = minus_bn M aTokenBalance amount
      in (empty_UserReserveData M)
           \<lparr>u_scaledATokenBalance := calcExpectedScaledATokenBalance M user (r_liquidityIndex after)
              (int_bn M 0) amount,
            u_currentATokenBalance := balance,
            u_principalStableDebt := u_principalStableDebt user,
            u_scaledVariableDebt := u_scaledVariableDebt user,
            u_currentStableDebt := user_stable_debt M user txTimestamp,
            u_currentVariableDebt := calcExpectedVariableDebtTokenBalance M before user txTimestamp,
            u_variableBorrowIndex := u_variableBorrowIndex user,
            u_stableBorrowRate := u_stableBorrowRate user,
            u_stableRateLastUpdated := u_stableRateLastUpdated user,
            u_liquidityRate := r_liquidityRate after,
            u_usageAsCollateralEnabled :=
              (if eq_bn M (u_currentATokenBalance user) (int_bn M 0) then True
               else if eq_bn M balance (int_bn M 0) then False else u_usageAsCollateralEnabled user),
            u_walletBalance := plus_bn M (u_walletBalance user) amount\<rparr>)"

text \<open>In the variable mode the scaled debt starts from the reserve's, not from the user's.\<close>

definition calcExpectedUserDataAfterBorrow ::
    "'b bn_math \<Rightarrow> string \<Rightarrow> string \<Rightarrow> 'b ReserveData \<Rightarrow> 'b ReserveData \<Rightarrow> 'b UserReserveData \<Rightarrow> 'b \<Rightarrow> 'b
     \<Rightarrow> 'b UserReserveData" where
  "calcExpectedUserDataAfterBorrow M amountBorrowed interestRateMode before after user
     txTimestamp currentTimestamp =
     (let amount = str_bn M amountBorrowed;
          e = empty_UserReserveData M;
          e = (if interestRateMode = rate_mode Rate_Stable
               then
                 let stableDebtUntilTx = user_stable_debt M user txTimestamp;
                     principal = plus_bn M stableDebtUntilTx amount;
                     rate = calcExpectedUserStableRate M stableDebtUntilTx (u_stableBorrowRate user)
                       amount (r_stableBorrowRate before)
                 in e\<lparr>u_principalStableDebt := principal, u_stableRateLastUpdated := txTimestamp,
                      u_stableBorrowRate := rate,
                      u_currentStableDebt := calcExpectedStableDebtTokenBalance M principal rate
                        txTimestamp currentTimestamp,
                      u_scaledVariableDebt := u_scaledVariableDebt user\<rparr>
               else
                 e\<lparr>u_scaledVariableDebt := plus_bn M (r_scaledVariableDebt before)
                     (rayDiv M amount (r_variableBorrowIndex after)),
                   u_principalStableDebt := u_principalStableDebt user,
                   u_stableBorrowRate := u_stableBorrowRate user,
                   u_stableRateLastUpdated := u_stableRateLastUpdated user,
                   u_currentStableDebt := user_stable_debt M user currentTimestamp\<rparr>)
      in e\<lparr>u_currentVariableDebt := calcExpectedVariableDebtTokenBalance M after e currentTimestamp,
           u_liquidityRate := r_liquidityRate after,
           u_usageAsCollateralEnabled := u_usageAsCollateralEnabled user,
           u_currentATokenBalance := calcExpectedATokenBalance M after user currentTimestamp,
           u_scaledATokenBalance := u_scaledATokenBalance user,
           u_walletBalance := plus_bn M (u_walletBalance user) amount\<rparr>)"

text \<open>
  In the variable mode the stable debt with its interest is assigned to \<open>principalStableDebt\<close> and
  the principal to \<open>currentStableDebt\<close>.
\<close>

definition calcExpectedUserDataAfterRepay ::
    "'b bn_math \<Rightarrow> string \<Rightarrow> string \<Rightarrow> 'b ReserveData \<Rightarrow> 'b ReserveData \<Rightarrow> 'b UserReserveData
     \<Rightarrow> string \<Rightarrow> string \<Rightarrow> 'b \<Rightarrow> 'b \<Rightarrow> 'b UserReserveData" where
  "calcExpectedUserDataAfterRepay M totalRepaid rateMode before after user userAddress onBehalfOf
     txTimestamp currentTimestamp =
     (let variableDebt = calcExpectedVariableDebtTokenBalance M before user currentTimestamp;
          stableDebt = user_stable_debt M user currentTimestamp;
          repaidBN = str_bn M totalRepaid;
          repaid = (if eq_bn M (abs_bn M repaidBN) (str_bn M MAX_UINT_AMOUNT)
                    then if rateMode = rate_mode Rate_Stable then stableDebt else variableDebt
                    else repaidBN);
          e = empty_UserReserveData M;
          e = (if rateMode = rate_mode Rate_Stable
               then
                 let debt = minus_bn M stableDebt repaid;
                     (rate, updated) = (if eq_bn M debt (str_bn M ''0'')
                       then (str_bn M ''0'', str_bn M ''0'')
                       else (u_stableBorrowRate user, txTimestamp))
                 in e\<lparr>u_scaledVariableDebt := u_scaledVariableDebt user,
                      u_currentVariableDebt := variableDebt,
                      u_principalStableDebt := debt, u_currentStableDebt := debt,
                      u_stableBorrowRate := rate, u_stableRateLastUpdated := updated\<rparr>
               else
                 let scaled = minus_bn M (u_scaledVariableDebt user)
                       (rayDiv M repaid (r_variableBorrowIndex after))
                 in e\<lparr>u_currentStableDebt := u_principalStableDebt user,
                      u_principalStableDebt := stableDebt,
                      u_stableBorrowRate := u_stableBorrowRate user,
                      u_stableRateLastUpdated := u_stableRateLastUpdated user,
                      u_scaledVariableDebt := scaled,
                      u_currentVariableDebt := rayMul M scaled (r_variableBorrowIndex after)\<rparr>)
      in e\<lparr>u_liquidityRate := r_liquidityRate after,
           u_usageAsCollateralEnabled := u_usageAsCollateralEnabled user,
           u_currentATokenBalance := calcExpectedATokenBalance M before user txTimestamp,
           u_scaledATokenBalance := u_scaledATokenBalance user,
           u_walletBalance := (if userAddress = onBehalfOf
             then minus_bn M (u_walletBalance user) repaid else u_walletBalance user)\<rparr>)"

definition calcExpectedUserDataAfterSetUseAsCollateral ::
    "bool \<Rightarrow> 'b ReserveData \<Rightarrow> 'b UserReserveData \<Rightarrow> 'b \<Rightarrow> 'b UserReserveData" where
  "calcExpectedUserDataAfterSetUseAsCollateral useAsCollateral before user txCost =
     user\<lparr>u_usageAsCollateralEnabled := useAsCollateral\<rparr>"

definition calcExpectedUserDataAfterSwapRateMode ::
    "'b bn_math \<Rightarrow> 'b ReserveData \<Rightarrow> 'b ReserveData \<Rightarrow> 'b UserReserveData \<Rightarrow> string \<Rightarrow> 'b \<Rightarrow> 'b
     \<Rightarrow> 'b UserReserveData" where
  "calcExpectedUserDataAfterSwapRateMode M before after user rateMode txCost txTimestamp =
     (let stableDebtBalance = user_stable_debt M user txTimestamp;
          variableDebtBalance = calcExpectedVariableDebtTokenBalance M before user txTimestamp;
          e = user\<lparr>u_currentATokenBalance := calcExpectedATokenBalance M before user txTimestamp\<rparr>;
          e = (if rateMode = rate_mode Rate_Stable
               then
                 let scaled = plus_bn M (u_scaledVariableDebt user)
                       (rayDiv M stableDebtBalance (r_variableBorrowIndex after))
                 in e\<lparr>u_currentStableDebt := int_bn M 0, u_principalStableDebt := int_bn M 0,
                      u_stableBorrowRate := int_bn M 0, u_scaledVariableDebt := scaled,
                      u_currentVariableDebt := rayMul M scaled (r_variableBorrowIndex after),
                      u_stableRateLastUpdated := int_bn M 0\<rparr>
               else
                 let debt = plus_bn M (u_currentStableDebt user) variableDebtBalance
                 in e\<lparr>u_principalStableDebt := debt, u_currentStableDebt := debt,
                      u_stableBorrowRate := calcExpectedUserStableRate M stableDebtBalance
                        (u_stableBorrowRate user) variableDebtBalance (r_stableBorrowRate before),
                      u_stableRateLastUpdated := txTimestamp,
                      u_currentVariableDebt := int_bn M 0, u_scaledVariableDebt := int_bn M 0\<rparr>)
      in e\<lparr>u_liquidityRate := r_liquidityRate after\<rparr>)"

definition calcExpectedUserDataAfterStableRateRebalance ::
    "'b bn_math \<Rightarrow> 'b ReserveData \<Rightarrow> 'b ReserveData \<Rightarrow> 'b UserReserveData \<Rightarrow> 'b \<Rightarrow> 'b \<Rightarrow> 'b UserReserveData" where
  "calcExpectedUserDataAfterStableRateRebalance M before after user txCost txTimestamp =
     (let e = user\<lparr>u_principalStableDebt := u_principalStableDebt user,
                   u_principalVariableDebt :=
                     calcExpectedVariableDebtTokenBalance M before user txTimestamp\<rparr>;
          stableDebt = user_stable_debt M user txTimestamp;
          e = e\<lparr>u_currentStableDebt := stableDebt, u_principalStableDebt := stableDebt,
                u_currentVariableDebt := calcExpectedVariableDebtTokenBalance M before user txTimestamp,
                u_stableRateLastUpdated := txTimestamp,
                u_principalVariableDebt := u_principalVariableDebt user\<rparr>
      in e\<lparr>u_stableBorrowRate := r_averageStableBorrowRate after,
           u_liquidityRate := r_liquidityRate after,
           u_currentATokenBalance := calcExpectedATokenBalance M before user txTimestamp\<rparr>)"

end
