(* ===== verification/InterestContracts.thy ===== *)
theory InterestContracts
  imports WadRay "HOL-Library.Monad_Syntax"
begin

text \<open>
  What the reference calculations stand for: the interest formulas of \<open>MathUtils.sol\<close> and the rate
  strategy \<open>DefaultReserveInterestRateStrategy.sol\<close>, on 256-bit words, with the reverts of \<open>SafeMath\<close>.
\<close>

section \<open>SafeMath\<close>

definition sol_add :: "u256 \<Rightarrow> u256 \<Rightarrow> u256 option" where
  "sol_add a b = (let c = a + b in if a \<le> c then Some c else None)"

definition sol_sub :: "u256 \<Rightarrow> u256 \<Rightarrow> u256 option" where
  "sol_sub a b = (if b \<le> a then Some (a - b) else None)"

definition sol_mul :: "u256 \<Rightarrow> u256 \<Rightarrow> u256 option" where
  "sol_mul a b = (if a = 0 then Some 0 else let c = a * b in if c div a = b then Some c else None)"

lemma sol_addD: "sol_add a b = Some r \<Longrightarrow> unat r = unat a + unat b"
  by (auto simp: sol_add_def Let_def no_olen_add_nat unat_word_ariths split: if_splits)

lemma sol_subD: "sol_sub a b = Some r \<Longrightarrow> unat b \<le> unat a \<and> unat r = unat a - unat b"
  by (auto simp: sol_sub_def word_le_nat_alt unat_sub split: if_splits)

lemma sol_mulD: "sol_mul a b = Some r \<Longrightarrow> unat r = unat a * unat b"
proof -
  assume m: "sol_mul a b = Some r"
  show ?thesis
  proof (cases "a = 0")
    case False
    with m have r: "r = a * b" and d: "a * b div a = b"
      by (simp_all add: sol_mul_def Let_def split: if_splits)
    have w: "unat (a * b) = unat a * unat b mod 2 ^ 256" by (simp add: unat_word_ariths)
    have "unat b * unat a \<le> unat (a * b)"
      using d div_times_less_eq_dividend [of "unat (a * b)" "unat a"] by (metis unat_div)
    moreover have "unat (a * b) \<le> unat a * unat b" unfolding w by (rule mod_less_eq_dividend)
    ultimately show ?thesis by (simp add: r mult.commute)
  qed (use m in \<open>simp add: sol_mul_def\<close>)
qed

section \<open>MathUtils\<close>

definition sol_SECONDS_PER_YEAR :: u256 where "sol_SECONDS_PER_YEAR = 31536000"

definition sol_calculateLinearInterest :: "u256 \<Rightarrow> u256 \<Rightarrow> 40 word \<Rightarrow> u256 option" where
  "sol_calculateLinearInterest blockTimestamp rate lastUpdateTimestamp = do {
     timeDifference \<leftarrow> sol_sub blockTimestamp (ucast lastUpdateTimestamp);
     interest \<leftarrow> sol_mul rate timeDifference;
     sol_add (interest div sol_SECONDS_PER_YEAR) sol_RAY }"

definition sol_calculateCompoundedInterest :: "u256 \<Rightarrow> 40 word \<Rightarrow> u256 \<Rightarrow> u256 option" where
  "sol_calculateCompoundedInterest rate lastUpdateTimestamp currentTimestamp = do {
     exp \<leftarrow> sol_sub currentTimestamp (ucast lastUpdateTimestamp);
     if exp = 0 then Some sol_RAY
     else do {
       let expMinusOne = exp - 1;
       let expMinusTwo = (if 2 < exp then exp - 2 else 0);
       let ratePerSecond = rate div sol_SECONDS_PER_YEAR;
       basePowerTwo \<leftarrow> sol_rayMul ratePerSecond ratePerSecond;
       basePowerThree \<leftarrow> sol_rayMul basePowerTwo ratePerSecond;
       e2 \<leftarrow> sol_mul exp expMinusOne;
       s \<leftarrow> sol_mul e2 basePowerTwo;
       let secondTerm = s div 2;
       e3 \<leftarrow> sol_mul e2 expMinusTwo;
       t \<leftarrow> sol_mul e3 basePowerThree;
       let thirdTerm = t div 6;
       f \<leftarrow> sol_mul ratePerSecond exp;
       r1 \<leftarrow> sol_add sol_RAY f;
       r2 \<leftarrow> sol_add r1 secondTerm;
       sol_add r2 thirdTerm } }"

section \<open>The rate strategy\<close>

record sol_strategy =
  sol_OPTIMAL_UTILIZATION_RATE :: u256
  sol_EXCESS_UTILIZATION_RATE :: u256
  sol_baseVariableBorrowRate :: u256
  sol_variableRateSlope1 :: u256
  sol_variableRateSlope2 :: u256
  sol_stableRateSlope1 :: u256
  sol_stableRateSlope2 :: u256

text \<open>The constructor; the addresses provider only serves the oracle's answer.\<close>

definition sol_new_strategy :: "u256 \<Rightarrow> u256 \<Rightarrow> u256 \<Rightarrow> u256 \<Rightarrow> u256 \<Rightarrow> u256 \<Rightarrow> sol_strategy option" where
  "sol_new_strategy optimal base variable1 variable2 stable1 stable2 = do {
     excess \<leftarrow> sol_sub sol_RAY optimal;
     Some \<lparr> sol_OPTIMAL_UTILIZATION_RATE = optimal, sol_EXCESS_UTILIZATION_RATE = excess,
       sol_baseVariableBorrowRate = base, sol_variableRateSlope1 = variable1,
       sol_variableRateSlope2 = variable2, sol_stableRateSlope1 = stable1,
       sol_stableRateSlope2 = stable2 \<rparr> }"

definition sol_getOverallBorrowRate :: "u256 \<Rightarrow> u256 \<Rightarrow> u256 \<Rightarrow> u256 \<Rightarrow> u256 option" where
  "sol_getOverallBorrowRate totalStableDebt totalVariableDebt currentVariableBorrowRate
     currentAverageStableBorrowRate = do {
     totalDebt \<leftarrow> sol_add totalStableDebt totalVariableDebt;
     if totalDebt = 0 then Some 0
     else do {
       v \<leftarrow> sol_wadToRay totalVariableDebt;
       weightedVariableRate \<leftarrow> sol_rayMul v currentVariableBorrowRate;
       s \<leftarrow> sol_wadToRay totalStableDebt;
       weightedStableRate \<leftarrow> sol_rayMul s currentAverageStableBorrowRate;
       weighted \<leftarrow> sol_add weightedVariableRate weightedStableRate;
       d \<leftarrow> sol_wadToRay totalDebt;
       sol_rayDiv weighted d } }"

definition sol_utilizationRate :: "u256 \<Rightarrow> u256 \<Rightarrow> u256 option" where
  "sol_utilizationRate availableLiquidity totalDebt =
     (if totalDebt = 0 then Some 0
      else do { liquidity \<leftarrow> sol_add availableLiquidity totalDebt; sol_rayDiv totalDebt liquidity })"

definition sol_branch_rates :: "sol_strategy \<Rightarrow> u256 \<Rightarrow> u256 \<Rightarrow> (u256 \<times> u256) option" where
  "sol_branch_rates S marketRate utilizationRate =
     (if sol_OPTIMAL_UTILIZATION_RATE S < utilizationRate
      then do {
        excess \<leftarrow> sol_sub utilizationRate (sol_OPTIMAL_UTILIZATION_RATE S);
        ratio \<leftarrow> sol_rayDiv excess (sol_EXCESS_UTILIZATION_RATE S);
        s1 \<leftarrow> sol_add marketRate (sol_stableRateSlope1 S);
        s2 \<leftarrow> sol_rayMul (sol_stableRateSlope2 S) ratio;
        stable \<leftarrow> sol_add s1 s2;
        v1 \<leftarrow> sol_add (sol_baseVariableBorrowRate S) (sol_variableRateSlope1 S);
        v2 \<leftarrow> sol_rayMul (sol_variableRateSlope2 S) ratio;
        variable \<leftarrow> sol_add v1 v2;
        Some (stable, variable) }
      else do {
        u \<leftarrow> sol_rayDiv utilizationRate (sol_OPTIMAL_UTILIZATION_RATE S);
        s \<leftarrow> sol_rayMul (sol_stableRateSlope1 S) u;
        stable \<leftarrow> sol_add marketRate s;
        w \<leftarrow> sol_rayMul utilizationRate (sol_variableRateSlope1 S);
        v \<leftarrow> sol_rayDiv w (sol_OPTIMAL_UTILIZATION_RATE S);
        variable \<leftarrow> sol_add (sol_baseVariableBorrowRate S) v;
        Some (stable, variable) })"

text \<open>\<open>marketRate\<close> is what the lending rate oracle answers for the reserve.\<close>

definition sol_calculateInterestRates ::
    "sol_strategy \<Rightarrow> u256 \<Rightarrow> u256 \<Rightarrow> u256 \<Rightarrow> u256 \<Rightarrow> u256 \<Rightarrow> u256 \<Rightarrow> (u256 \<times> u256 \<times> u256) option" where
  "sol_calculateInterestRates S marketRate availableLiquidity totalStableDebt totalVariableDebt
     averageStableBorrowRate factor = do {
     totalDebt \<leftarrow> sol_add totalStableDebt totalVariableDebt;
     utilizationRate \<leftarrow> sol_utilizationRate availableLiquidity totalDebt;
     (stable, variable) \<leftarrow> sol_branch_rates S marketRate utilizationRate;
     overall \<leftarrow> sol_getOverallBorrowRate totalStableDebt totalVariableDebt variable averageStableBorrowRate;
     l \<leftarrow> sol_rayMul overall utilizationRate;
     p \<leftarrow> sol_sub 10000 factor;
     liquidity \<leftarrow> percentMul l p;
     Some (liquidity, stable, variable) }"

end
