(* ===== verification/CalculationRules.thy ===== *)
theory CalculationRules
  imports ExpectedData InterestContracts
begin

text \<open>
  Lemmas on the reference calculations: their values on natural numbers under the settings of the
  suites, how they follow the contracts step by step, and what the common parts of the expected
  records keep.
\<close>

section \<open>Records\<close>

lemma finish_reserve_Inr:
  assumes "finish_reserve M cfg b e = Inr e'"
  shows "r_totalLiquidity e' = r_totalLiquidity e \<and> r_availableLiquidity e' = r_availableLiquidity e
    \<and> r_totalStableDebt e' = r_totalStableDebt e \<and> r_totalVariableDebt e' = r_totalVariableDebt e
    \<and> r_utilizationRate e' = calcExpectedUtilizationRate M (r_totalStableDebt e) (r_totalVariableDebt e)
        (r_totalLiquidity e)"
  using assms by (auto simp: finish_reserve_def Let_def and_then_Inr_iff split: prod.splits)

text \<open>The liquidity of a record is what is available and what is lent.\<close>

definition adds_up :: "('b \<Rightarrow> rat) \<Rightarrow> 'b ReserveData \<Rightarrow> bool" where
  "adds_up val e \<longleftrightarrow> val (r_totalLiquidity e) =
     val (r_availableLiquidity e) + val (r_totalStableDebt e) + val (r_totalVariableDebt e)"

section \<open>Values\<close>

text \<open>The binomial approximation of the compounded interest over \<open>n\<close> seconds at \<open>q\<close> per second.\<close>

definition compounded :: "nat \<Rightarrow> nat \<Rightarrow> nat" where
  "compounded q n = (let p2 = nearest_div (q * q) (10 ^ 27); p3 = nearest_div (p2 * q) (10 ^ 27) in
     10 ^ 27 + q * n + n * (n - 1) * p2 div 2 + n * (n - 1) * (n - 2) * p3 div 6)"

context suite_math
begin

lemma zero_val [simp]: "val (str_bn M ''0'') = 0" "val (int_bn M 0) = 0"
proof -
  show "val (str_bn M ''0'') = 0"
    by (rule val_str) (simp add: decimal_value_def nat_of_dec_def char_digit_def)
  show "val (int_bn M 0) = 0" by (simp add: val_num)
qed

lemma literal_vals [simp]: "val (int_bn M 1) = 1" "val (int_bn M 6) = of_nat 6"
  by (simp_all add: val_num)

lemma linear_interest_nat:
  assumes "val rate = of_nat r" "val now = of_nat t" "val since = of_nat l" "l \<le> t"
  shows "val (calcLinearInterest M rate now since) = of_nat (r * (t - l) div 31536000 + 10 ^ 27)"
  unfolding calcLinearInterest_def Let_def
  by (rule plus_nat [OF div_nat [OF times_nat [OF assms(1) minus_nat [OF assms(2,3,4)]] val_units(5)] val_units(2)])
    simp

lemma compounded_interest_nat:
  assumes "val rate = of_nat r" "val now = of_nat t" "val since = of_nat l" "l \<le> t"
  shows "val (calcCompoundedInterest M rate now since) = of_nat (compounded (r div 31536000) (t - l))"
proof -
  define d where "d = minus_bn M now since"
  define n where "n = t - l"
  define q where "q = r div 31536000"
  have d: "val d = of_nat n" unfolding d_def n_def by (rule minus_nat [OF assms(2,3,4)])
  show ?thesis
  proof (cases "n = 0")
    case True
    then have "eq_bn M d (int_bn M 0)" by (simp add: eq_iff d)
    then show ?thesis
      using True by (simp add: calcCompoundedInterest_def d_def [symmetric] n_def [symmetric] compounded_def val_units)
  next
    case False
    have ne: "\<not> eq_bn M d (int_bn M 0)" using False by (simp add: eq_iff d)
    have m1: "val (minus_bn M d (int_bn M 1)) = of_nat (n - 1)"
      using minus_nat [OF d, of "int_bn M 1" 1] False by simp
    have m2: "val (if lt_bn M (int_bn M 2) d then minus_bn M d (int_bn M 2) else int_bn M 0) = of_nat (n - 2)"
      using minus_nat [OF d val_two] by (auto simp: lt_iff d)
    have q: "val (div_bn M rate (str_bn M ONE_YEAR)) = of_nat q"
      unfolding q_def by (rule div_nat [OF assms(1) val_units(5)]) simp
    note p2 = rayMul_nat [OF q q]
    note p3 = rayMul_nat [OF p2 q]
    note e2 = times_nat [OF d m1]
    note s = div_nat [OF times_nat [OF e2 p2] val_two]
    note third = div_nat [OF times_nat [OF times_nat [OF e2 m2] p3] literal_vals(2)]
    note total = plus_nat [OF plus_nat [OF plus_nat [OF val_units(2) times_nat [OF q d]] s] third]
    show ?thesis
      unfolding calcCompoundedInterest_def d_def [symmetric] Let_def if_not_P [OF ne]
      using total by (simp add: compounded_def q_def [symmetric] n_def [symmetric] Let_def)
  qed
qed

end

section \<open>The contracts step by step\<close>

named_theorems sol_dests "results of the checked operations as natural numbers"

declare sol_addD [sol_dests] sol_subD [sol_dests] sol_mulD [sol_dests]

lemma sol_fixed_pointD [sol_dests]:
  "sol_rayMul a b = Some r \<Longrightarrow> unat r = nearest_div (unat a * unat b) (10 ^ 27)"
  "sol_rayDiv a b = Some r \<Longrightarrow> b \<noteq> 0 \<and> unat r = nearest_div (unat a * 10 ^ 27) (unat b)"
  "sol_wadToRay a = Some r \<Longrightarrow> unat r = unat a * 10 ^ 9"
  "percentMul a b = Some r \<Longrightarrow> unat r = nearest_div (unat a * unat b) 10000"
  by (auto simp only: sol_rayMul_iff sol_rayDiv_iff sol_wadToRay_iff percentMul_iff)

lemma unat_timestamp: "unat (ucast t :: u256) = unat t" for t :: "40 word"
  by transfer simp

lemma sol_linear_interest:
  assumes "sol_calculateLinearInterest now rate since = Some r"
  shows "unat since \<le> unat now \<and>
    unat r = unat rate * (unat now - unat since) div 31536000 + 10 ^ 27"
  using assms
  by (auto simp: sol_calculateLinearInterest_def Option.bind_eq_Some_conv unat_div
      sol_SECONDS_PER_YEAR_def unat_sol_units unat_timestamp dest!: sol_dests)

lemma sol_compounded_interest:
  assumes "sol_calculateCompoundedInterest rate since now = Some r"
  shows "unat since \<le> unat now \<and> unat r = compounded (unat rate div 31536000) (unat now - unat since)"
proof -
  from assms obtain n where n: "sol_sub now (ucast since) = Some n"
    by (auto simp: sol_calculateCompoundedInterest_def Option.bind_eq_Some_conv)
  note n' = sol_subD [OF n, unfolded unat_timestamp]
  show ?thesis
  proof (cases "n = 0")
    case True
    then show ?thesis using assms n' n
      by (simp add: sol_calculateCompoundedInterest_def unat_sol_units compounded_def)
  next
    case False
    then have m1: "unat (n - 1) = unat n - 1" by (simp add: unat_minus_one)
    have m2: "unat (if 2 < n then n - 2 else 0) = unat n - 2"
      by (auto simp: unat_sub_if' word_less_nat_alt)
    have y: "unat sol_SECONDS_PER_YEAR = 31536000" by (simp add: sol_SECONDS_PER_YEAR_def)
    have "unat r = compounded (unat rate div 31536000) (unat n)"
      using assms False
      by (auto simp: sol_calculateCompoundedInterest_def n Option.bind_eq_Some_conv m1 m2 y unat_div
          unat_sol_units compounded_def Let_def simp del: One_nat_def dest!: sol_dests)
    then show ?thesis using n' by simp
  qed
qed

section \<open>Rates\<close>

definition overall_rate :: "nat \<Rightarrow> nat \<Rightarrow> nat \<Rightarrow> nat \<Rightarrow> nat" where
  "overall_rate m n a b = (if m + n = 0 then 0
     else nearest_div ((nearest_div (n * 10 ^ 9 * a) (10 ^ 27) + nearest_div (m * 10 ^ 9 * b) (10 ^ 27)) * 10 ^ 27)
            ((m + n) * 10 ^ 9))"

context suite_math
begin

lemma utilization_nat:
  assumes "val s = of_nat m" "val v = of_nat n" "val l = of_nat t" "m + n \<noteq> 0 \<Longrightarrow> t \<noteq> 0"
  shows "val (calcExpectedUtilizationRate M s v l)
    = of_nat (if m + n = 0 then 0 else nearest_div ((m + n) * 10 ^ 27) t)"
proof (cases "m + n = 0")
  case False
  then show ?thesis
    using rayDiv_nat [OF plus_nat [OF assms(1,2)] assms(3) assms(4) [OF False]]
    by (auto simp: calcExpectedUtilizationRate_def eq_iff assms(1,2))
qed (use assms(1,2) in \<open>simp add: calcExpectedUtilizationRate_def eq_iff\<close>)

text \<open>The weighted average of the rates of the two debts.\<close>

lemma overall_nat:
  assumes "val s = of_nat m" "val v = of_nat n" "val rv = of_nat a" "val rs = of_nat b"
  shows "val (calcExpectedOverallBorrowRate M s v rv rs) = of_nat (overall_rate m n a b)"
proof (cases "m + n = 0")
  case False
  note total = plus_nat [OF assms(1,2)]
  note weighted = plus_nat [OF rayMul_nat [OF wadToRay_nat [OF assms(2)] assms(3)]
    rayMul_nat [OF wadToRay_nat [OF assms(1)] assms(4)]]
  have "(m + n) * 10 ^ 9 \<noteq> 0" using False by simp
  from rayDiv_nat [OF weighted wadToRay_nat [OF total] this] False show ?thesis
    by (auto simp: calcExpectedOverallBorrowRate_def overall_rate_def eq_iff total Let_def)
qed (use assms(1,2) in \<open>simp add: calcExpectedOverallBorrowRate_def overall_rate_def eq_iff val_plus\<close>)

end

text \<open>The contract's rates as natural numbers, for a strategy deployed with the parameters \<open>P\<close>.\<close>

definition deployed_with :: "IReserveParams \<Rightarrow> sol_strategy \<Rightarrow> bool" where
  "deployed_with P S \<longleftrightarrow>
     optimalUtilizationRate (strategy P) = dec_of_nat (unat (sol_OPTIMAL_UTILIZATION_RATE S)) \<and>
     baseVariableBorrowRate (strategy P) = dec_of_nat (unat (sol_baseVariableBorrowRate S)) \<and>
     variableRateSlope1 (strategy P) = dec_of_nat (unat (sol_variableRateSlope1 S)) \<and>
     variableRateSlope2 (strategy P) = dec_of_nat (unat (sol_variableRateSlope2 S)) \<and>
     stableRateSlope1 (strategy P) = dec_of_nat (unat (sol_stableRateSlope1 S)) \<and>
     stableRateSlope2 (strategy P) = dec_of_nat (unat (sol_stableRateSlope2 S)) \<and>
     sol_new_strategy (sol_OPTIMAL_UTILIZATION_RATE S) (sol_baseVariableBorrowRate S)
       (sol_variableRateSlope1 S) (sol_variableRateSlope2 S) (sol_stableRateSlope1 S)
       (sol_stableRateSlope2 S) = Some S"

lemma deployed_excess:
  assumes "deployed_with P S"
  shows "unat (sol_OPTIMAL_UTILIZATION_RATE S) \<le> 10 ^ 27 \<and>
    unat (sol_EXCESS_UTILIZATION_RATE S) = 10 ^ 27 - unat (sol_OPTIMAL_UTILIZATION_RATE S)"
proof -
  from assms obtain x where x: "sol_sub sol_RAY (sol_OPTIMAL_UTILIZATION_RATE S) = Some x"
    and S: "S = S\<lparr>sol_EXCESS_UTILIZATION_RATE := x\<rparr>"
    by (cases S) (auto simp: deployed_with_def sol_new_strategy_def Option.bind_eq_Some_conv)
  from S have "sol_EXCESS_UTILIZATION_RATE S = x" by (cases S) simp
  with sol_subD [OF x] show ?thesis by (simp add: unat_sol_units)
qed

lemma sol_overall:
  assumes "sol_getOverallBorrowRate s v rv rs = Some r"
  shows "unat r = overall_rate (unat s) (unat v) (unat rv) (unat rs)"
proof -
  from assms obtain t where t: "sol_add s v = Some t"
    by (auto simp: sol_getOverallBorrowRate_def Option.bind_eq_Some_conv)
  show ?thesis
  proof (cases "t = 0")
    case True
    then show ?thesis using assms sol_addD [OF t] t
      by (simp add: sol_getOverallBorrowRate_def overall_rate_def)
  next
    case False
    then have "unat t \<noteq> 0" by (simp add: unat_eq_0)
    then have "unat s + unat v \<noteq> 0" unfolding sol_addD [OF t] .
    with False assms show ?thesis
      by (auto simp: sol_getOverallBorrowRate_def t Option.bind_eq_Some_conv overall_rate_def
          sol_addD [OF t] dest!: sol_dests)
  qed
qed

lemma sol_utilization:
  assumes "sol_utilizationRate a d = Some u"
  shows "unat u = (if unat d = 0 then 0 else nearest_div (unat d * 10 ^ 27) (unat a + unat d))"
  using assms by (auto simp: sol_utilizationRate_def Option.bind_eq_Some_conv unat_eq_0 split: if_splits
      dest!: sol_dests)

lemma sol_ratesD:
  assumes "sol_calculateInterestRates S mr a s v avg f = Some (l, sr, vr)"
  shows "\<exists>u. unat u = (if unat s + unat v = 0 then 0
        else nearest_div ((unat s + unat v) * 10 ^ 27) (unat a + (unat s + unat v))) \<and>
    sol_branch_rates S mr u = Some (sr, vr) \<and> unat f \<le> 10000 \<and>
    unat l = nearest_div (nearest_div (overall_rate (unat s) (unat v) (unat vr) (unat avg) * unat u)
      (10 ^ 27) * (10000 - unat f)) 10000"
proof -
  from assms obtain d u o' x p where d: "sol_add s v = Some d" and u: "sol_utilizationRate a d = Some u"
    and b: "sol_branch_rates S mr u = Some (sr, vr)"
    and o': "sol_getOverallBorrowRate s v vr avg = Some o'"
    and x: "sol_rayMul o' u = Some x" and p: "sol_sub 10000 f = Some p" and l: "percentMul x p = Some l"
    by (auto simp: sol_calculateInterestRates_def Option.bind_eq_Some_conv)
  show ?thesis
    using b sol_addD [OF d] sol_utilization [OF u] sol_overall [OF o'] sol_subD [OF p]
      sol_fixed_pointD(1) [OF x] sol_fixed_pointD(4) [OF l]
    by (intro exI [of _ u]) simp
qed

lemma sol_branch_ratesD:
  assumes "sol_branch_rates S mr u = Some (sr, vr)"
  shows "if unat (sol_OPTIMAL_UTILIZATION_RATE S) < unat u
    then \<exists>r. sol_EXCESS_UTILIZATION_RATE S \<noteq> 0
      \<and> r = nearest_div ((unat u - unat (sol_OPTIMAL_UTILIZATION_RATE S)) * 10 ^ 27) (unat (sol_EXCESS_UTILIZATION_RATE S))
      \<and> unat sr = unat mr + unat (sol_stableRateSlope1 S) + nearest_div (unat (sol_stableRateSlope2 S) * r) (10 ^ 27)
      \<and> unat vr = unat (sol_baseVariableBorrowRate S) + unat (sol_variableRateSlope1 S)
          + nearest_div (unat (sol_variableRateSlope2 S) * r) (10 ^ 27)
    else sol_OPTIMAL_UTILIZATION_RATE S \<noteq> 0
      \<and> unat sr = unat mr + nearest_div (unat (sol_stableRateSlope1 S)
          * nearest_div (unat u * 10 ^ 27) (unat (sol_OPTIMAL_UTILIZATION_RATE S))) (10 ^ 27)
      \<and> unat vr = unat (sol_baseVariableBorrowRate S)
          + nearest_div (nearest_div (unat u * unat (sol_variableRateSlope1 S)) (10 ^ 27) * 10 ^ 27)
              (unat (sol_OPTIMAL_UTILIZATION_RATE S))"
  using assms
  by (cases "sol_OPTIMAL_UTILIZATION_RATE S < u")
    (auto simp: sol_branch_rates_def Option.bind_eq_Some_conv word_less_nat_alt dest!: sol_dests)

text \<open>A configuration of a reserve, for the witnesses: optimal utilization at 80 percent, a tenth to the treasury.\<close>

definition sample_params :: IReserveParams where
  "sample_params = \<lparr> strategy = \<lparr> strategy_name = ''sample'',
       optimalUtilizationRate = dec_of_nat 800000000000000000000000000, baseVariableBorrowRate = dec_of_nat 0,
       variableRateSlope1 = dec_of_nat 40000000000000000000000000,
       variableRateSlope2 = dec_of_nat 750000000000000000000000000,
       stableRateSlope1 = dec_of_nat 20000000000000000000000000,
       stableRateSlope2 = dec_of_nat 600000000000000000000000000 \<rparr>,
     baseLTVAsCollateral = ''7500'', liquidationThreshold = ''8000'', liquidationBonus = ''10500'',
     borrowingEnabled = True, stableBorrowRateEnabled = True, reserveDecimals = ''18'', aTokenImpl = Id_AToken,
     reserveFactor = dec_of_nat 1000 \<rparr>"

end
