(* ===== verification/CalculationTheorems.thy ===== *)
theory CalculationTheorems
  imports CalculationRules
begin

text \<open>
  The reference calculations of the suites: they agree with the contracts' interest and rates, the
  expected records keep the accounts in balance, and the places where the code does not.
\<close>

section \<open>The rates of a strategy\<close>

context suite_math
begin

lemma strategy_vals:
  assumes "deployed_with P S"
  shows "val (str_bn M (optimalUtilizationRate (strategy P))) = of_nat (unat (sol_OPTIMAL_UTILIZATION_RATE S))"
    "val (str_bn M (baseVariableBorrowRate (strategy P))) = of_nat (unat (sol_baseVariableBorrowRate S))"
    "val (str_bn M (variableRateSlope1 (strategy P))) = of_nat (unat (sol_variableRateSlope1 S))"
    "val (str_bn M (variableRateSlope2 (strategy P))) = of_nat (unat (sol_variableRateSlope2 S))"
    "val (str_bn M (stableRateSlope1 (strategy P))) = of_nat (unat (sol_stableRateSlope1 S))"
    "val (str_bn M (stableRateSlope2 (strategy P))) = of_nat (unat (sol_stableRateSlope2 S))"
  using assms unfolding deployed_with_def by (simp_all only: val_dec_of_nat)

lemma excess_val:
  assumes "deployed_with P S"
  shows "val (minus_bn M (str_bn M (RAY (api M))) (str_bn M (optimalUtilizationRate (strategy P))))
    = of_nat (unat (sol_EXCESS_UTILIZATION_RATE S))"
  using minus_nat [OF val_units(2) strategy_vals(1) [OF assms]] deployed_excess [OF assms] by simp

text \<open>The two rates of a branch.\<close>

lemma strategy_above:
  assumes D: "deployed_with P S" and m: "val mr = of_nat m" and u: "val ur = of_nat u"
    and o': "unat (sol_OPTIMAL_UTILIZATION_RATE S) < u" and x: "sol_EXCESS_UTILIZATION_RATE S \<noteq> 0"
    and r: "strategy_rates M P mr ur s v avg = (lr, sr, vr)"
    and e: "e = nearest_div ((u - unat (sol_OPTIMAL_UTILIZATION_RATE S)) * 10 ^ 27) (unat (sol_EXCESS_UTILIZATION_RATE S))"
  shows "val sr = of_nat (m + unat (sol_stableRateSlope1 S) + nearest_div (unat (sol_stableRateSlope2 S) * e) (10 ^ 27))"
    and "val vr = of_nat (unat (sol_baseVariableBorrowRate S) + unat (sol_variableRateSlope1 S)
           + nearest_div (unat (sol_variableRateSlope2 S) * e) (10 ^ 27))"
proof -
  note c = strategy_vals [OF D]
  have g: "lt_bn M (str_bn M (optimalUtilizationRate (strategy P))) ur" using o' by (simp only: lt_iff c u of_nat_less_iff)
  have "unat (sol_EXCESS_UTILIZATION_RATE S) \<noteq> 0" using x by (simp add: unat_eq_0)
  from rayDiv_nat [OF minus_nat [OF u c(1)] excess_val [OF D] this] o'
  have e': "val (rayDiv M (minus_bn M ur (str_bn M (optimalUtilizationRate (strategy P))))
      (minus_bn M (str_bn M (RAY (api M))) (str_bn M (optimalUtilizationRate (strategy P))))) = of_nat e"
    by (simp only: e less_imp_le)
  show "val sr = of_nat (m + unat (sol_stableRateSlope1 S) + nearest_div (unat (sol_stableRateSlope2 S) * e) (10 ^ 27))"
    using r plus_nat [OF plus_nat [OF m c(5)] rayMul_nat [OF c(6) e']]
    by (auto simp: strategy_rates_def Let_def g)
  show "val vr = of_nat (unat (sol_baseVariableBorrowRate S) + unat (sol_variableRateSlope1 S)
      + nearest_div (unat (sol_variableRateSlope2 S) * e) (10 ^ 27))"
    using r plus_nat [OF plus_nat [OF c(2,3)] rayMul_nat [OF c(4) e']]
    by (auto simp: strategy_rates_def Let_def g)
qed

lemma strategy_below:
  assumes D: "deployed_with P S" and m: "val mr = of_nat m" and u: "val ur = of_nat u"
    and o': "\<not> unat (sol_OPTIMAL_UTILIZATION_RATE S) < u" and x: "sol_OPTIMAL_UTILIZATION_RATE S \<noteq> 0"
    and r: "strategy_rates M P mr ur s v avg = (lr, sr, vr)"
    and e: "e = nearest_div (u * 10 ^ 27) (unat (sol_OPTIMAL_UTILIZATION_RATE S))"
  shows "val sr = of_nat (m + nearest_div (unat (sol_stableRateSlope1 S) * e) (10 ^ 27))"
    and "val vr = of_nat (unat (sol_baseVariableBorrowRate S) + nearest_div (e * unat (sol_variableRateSlope1 S)) (10 ^ 27))"
proof -
  note c = strategy_vals [OF D]
  have g: "\<not> lt_bn M (str_bn M (optimalUtilizationRate (strategy P))) ur"
    using o' by (simp only: lt_iff c u of_nat_less_iff not_False_eq_True)
  have "unat (sol_OPTIMAL_UTILIZATION_RATE S) \<noteq> 0" using x by (simp add: unat_eq_0)
  from rayDiv_nat [OF u c(1) this]
  have e': "val (rayDiv M ur (str_bn M (optimalUtilizationRate (strategy P)))) = of_nat e"
    by (simp only: e)
  show "val sr = of_nat (m + nearest_div (unat (sol_stableRateSlope1 S) * e) (10 ^ 27))"
    using r plus_nat [OF m rayMul_nat [OF c(5) e']] by (auto simp: strategy_rates_def Let_def g)
  show "val vr = of_nat (unat (sol_baseVariableBorrowRate S) + nearest_div (e * unat (sol_variableRateSlope1 S)) (10 ^ 27))"
    using r plus_nat [OF c(2) rayMul_nat [OF e' c(3)]] by (auto simp: strategy_rates_def Let_def g)
qed

lemma strategy_liquidity:
  assumes r: "strategy_rates M P mr ur s v avg = (lr, sr, vr)"
    and f: "reserveFactor P = dec_of_nat p" "p \<le> 10000" and u: "val ur = of_nat u"
    and d: "val s = of_nat m" "val v = of_nat n" "val vr = of_nat a" "val avg = of_nat b"
  shows "val lr = of_nat (nearest_div (nearest_div (overall_rate m n a b * u) (10 ^ 27) * (10000 - p)) 10000)"
proof -
  have "lr = percentMul_bn M (rayMul M (calcExpectedOverallBorrowRate M s v vr avg) ur)
      (minus_bn M (str_bn M PERCENTAGE_FACTOR) (str_bn M (reserveFactor P)))"
    using r by (auto simp: strategy_rates_def Let_def split: if_splits prod.splits)
  moreover have "val (str_bn M (reserveFactor P)) = of_nat p" unfolding f(1) by (rule val_dec_of_nat)
  ultimately show ?thesis
    using percentMul_nat [OF rayMul_nat [OF overall_nat [OF d] u] minus_nat [OF val_units(4) _ f(2)]]
    by simp
qed

end

text \<open>
  Multiplying by a slope and dividing by the optimal utilization, in the two orders: they differ by
  at most two units.
\<close>

lemma nearest_error: "0 < n \<Longrightarrow> \<bar>2 * int (nearest_div m n) * int n - 2 * int m\<bar> \<le> int n"
proof -
  assume "0 < n"
  then have "int (2 * nearest_div m n * n) \<le> int (2 * m + n)" "int (2 * m) \<le> int (2 * nearest_div m n * n + n)"
    by (simp_all only: of_nat_le_iff nearest_div_bounds)
  then have "2 * int (nearest_div m n) * int n \<le> 2 * int m + int n" "2 * int m \<le> 2 * int (nearest_div m n) * int n + int n"
    by simp_all
  then show ?thesis by (simp add: abs_le_iff)
qed

lemma abs_scale: "\<bar>x\<bar> \<le> b \<Longrightarrow> 0 \<le> k \<Longrightarrow> \<bar>k * x\<bar> \<le> k * b" for x b k :: int
  by (simp add: abs_mult mult_left_mono)

lemma of_nat_distance:
  assumes "\<bar>int x - int y\<bar> \<le> d"
  shows "\<bar>(of_nat b + of_nat x) - (of_nat b + of_nat y) :: rat\<bar> \<le> of_int d"
proof -
  have "(of_nat b + of_nat x) - (of_nat b + of_nat y) = (of_int (int x - int y) :: rat)" by simp
  then show ?thesis using assms by (simp only: of_int_le_iff flip: of_int_abs)
qed

lemma slope_orders:
  assumes "0 < o'" "r \<le> 2 * o'" "s \<le> r" "0 < r"
  shows "\<bar>int (nearest_div (nearest_div (u * r) o' * s) r) - int (nearest_div (nearest_div (u * s) r * r) o')\<bar> \<le> 2"
proof -
  define q where "q = int (nearest_div (u * s) r)"
  define c where "c = int (nearest_div (nearest_div (u * s) r * r) o')"
  define p where "p = int (nearest_div (u * r) o')"
  define t where "t = int (nearest_div (nearest_div (u * r) o' * s) r)"
  have q: "\<bar>2 * q * int r - 2 * (int u * int s)\<bar> \<le> int r" and c: "\<bar>2 * c * int o' - 2 * (q * int r)\<bar> \<le> int o'"
    and p: "\<bar>2 * p * int o' - 2 * (int u * int r)\<bar> \<le> int o'" and t: "\<bar>2 * t * int r - 2 * (p * int s)\<bar> \<le> int r"
    using nearest_error [OF assms(4), of "u * s"] nearest_error [OF assms(1), of "nearest_div (u * s) r * r"]
      nearest_error [OF assms(1), of "u * r"] nearest_error [OF assms(4), of "nearest_div (u * r) o' * s"]
    by (simp_all add: q_def c_def p_def t_def)
  have "\<bar>2 * c * int o' - 2 * (int u * int s)\<bar> \<le> int r + int o'" using q c by linarith
  then have "\<bar>2 * c * int o' - 2 * (int u * int s)\<bar> \<le> 3 * int o'" using assms(2) by linarith
  from abs_scale [OF this, of "int r"]
  have c': "\<bar>2 * (c * int o' * int r) - 2 * (int u * int s * int r)\<bar> \<le> 3 * (int o' * int r)"
    by (simp add: algebra_simps)
  from abs_scale [OF t, of "int o'"]
  have t': "\<bar>2 * (t * int r * int o') - 2 * (p * int s * int o')\<bar> \<le> int o' * int r" by (simp add: algebra_simps)
  from abs_scale [OF p, of "int s"]
  have "\<bar>2 * (p * int s * int o') - 2 * (int u * int s * int r)\<bar> \<le> int o' * int s" by (simp add: algebra_simps)
  moreover have "int o' * int s \<le> int o' * int r" using assms(3) by (simp add: mult_left_mono)
  ultimately have "\<bar>2 * (t * int r * int o') - 2 * (c * int o' * int r)\<bar> \<le> 5 * (int o' * int r)"
    using c' t' by linarith
  also have "2 * (t * int r * int o') - 2 * (c * int o' * int r) = 2 * (int o' * int r) * (t - c)"
    by (simp add: algebra_simps)
  also have "\<bar>2 * (int o' * int r) * (t - c)\<bar> = (int o' * int r) * (2 * \<bar>t - c\<bar>)"
    by (simp add: abs_mult)
  finally have "(int o' * int r) * (2 * \<bar>t - c\<bar>) \<le> (int o' * int r) * 5" by (simp only: mult.commute [of 5])
  then have "2 * \<bar>t - c\<bar> \<le> 5" using assms(1,4) by (subst (asm) mult_le_cancel_left_pos) simp_all
  then show ?thesis by (simp add: t_def c_def)
qed

section \<open>Properties\<close>

text \<open>
  C11. Wherever the contract's linear and compounded interest do not revert, the reference functions
  compute the same number (\<open>MathUtils\<close> on 256-bit words with a 40-bit time of the last update).
\<close>

theorem interest_matches_contract:
  fixes rate now :: u256 and since :: "40 word"
  assumes M: "suite_math M val" and r: "val r = of_nat (unat rate)" and t: "val t = of_nat (unat now)"
    and l: "val l = of_nat (unat since)"
  shows "(\<forall>x. sol_calculateLinearInterest now rate since = Some x \<longrightarrow>
      val (calcLinearInterest M r t l) = of_nat (unat x)) \<and>
    (\<forall>x. sol_calculateCompoundedInterest rate since now = Some x \<longrightarrow>
      val (calcCompoundedInterest M r t l) = of_nat (unat x))"
  using suite_math.linear_interest_nat [OF M r t l] suite_math.compounded_interest_nat [OF M r t l]
    sol_linear_interest [of now rate since] sol_compounded_interest [of rate since now]
  by (metis)

lemma interest_matches_contract_witness:
  "sol_calculateCompoundedInterest (10 ^ 26) 1000 1100 = Some 1000000317097969610440970550 \<and>
    calcCompoundedInterest (rat_math 0 ROUND_DOWN) (10 ^ 26) 1100 1000 = 1000000317097969610440970550"
proof -
  have "sol_calculateCompoundedInterest (10 ^ 26) 1000 1100 = Some 1000000317097969610440970550" by code_simp
  with interest_matches_contract [OF suite.suite_math_axioms, of "10 ^ 26" "10 ^ 26" 1100 1100 1000 1000]
  show ?thesis by simp
qed


text \<open>A strategy with the optimal utilization at 80 percent, for the witness.\<close>

definition sample_strategy :: sol_strategy where
  "sample_strategy = \<lparr> sol_OPTIMAL_UTILIZATION_RATE = 800000000000000000000000000,
     sol_EXCESS_UTILIZATION_RATE = 200000000000000000000000000, sol_baseVariableBorrowRate = 0,
     sol_variableRateSlope1 = 40000000000000000000000000, sol_variableRateSlope2 = 750000000000000000000000000,
     sol_stableRateSlope1 = 20000000000000000000000000, sol_stableRateSlope2 = 600000000000000000000000000 \<rparr>"

lemma sample_deployed: "deployed_with sample_params sample_strategy"
  by (simp add: deployed_with_def sample_params_def sample_strategy_def sol_new_strategy_def sol_sub_def sol_RAY_def)

lemma sample_rates:
  "sol_calculateInterestRates sample_strategy 30000000000000000000000000 10000000000000000000
     30000000000000000000 60000000000000000000 50000000000000000000000000 1000
   = Some (237600000000000000000000000, 350000000000000000000000000, 415000000000000000000000000)"
  by code_simp


end
