(* ===== verification/AccountingTheorems.thy ===== *)
theory AccountingTheorems
  imports CalculationRules WadRayTheorems
begin

text \<open>
  The expected records as a ledger: what moves between a wallet and the reserve, the liquidity as the
  sum of its parts, indexes that never decrease, debts that a full repayment clears, and a weighted
  average that mixes units.
\<close>

section \<open>Helpers\<close>

context bignumber_math
begin

lemma zero_vals [simp]: "val (str_bn M ''0'') = 0" "val (int_bn M 0) = 0"
proof -
  show "val (str_bn M ''0'') = 0"
    by (rule val_str) (simp add: decimal_value_def nat_of_dec_def char_digit_def)
  show "val (int_bn M 0) = 0" by (simp add: val_num)
qed

text \<open>The two ways an amount \<open>MAX_UINT_AMOUNT\<close> is replaced by a balance agree on integers.\<close>

lemma withdrawn_amount:
  assumes "val b = of_nat n"
  shows "val (str_bn M (bn_toFixed (api M) b)) = of_nat n" "val (str_bn M (toFixed0 M b)) = of_nat n"
  by (simp_all only: toFixed_nat [OF assms] toFixed0_nat [OF assms] val_dec_of_nat)

end

lemma borrow_records:
  assumes "(if st then borrow_stable M cfg x b t now e else borrow_variable M cfg x b t now e) = Inr e'"
  shows "r_availableLiquidity e' = r_availableLiquidity e \<and>
    r_utilizationRate e' = calcExpectedUtilizationRate M (r_totalStableDebt e') (r_totalVariableDebt e')
      (r_totalLiquidity e') \<and>
    r_totalLiquidity e' = (if st
      then plus_bn M (plus_bn M (r_availableLiquidity e') (r_totalVariableDebt e')) (r_totalStableDebt e')
      else plus_bn M (plus_bn M (r_availableLiquidity e') (r_totalStableDebt e')) (r_totalVariableDebt e'))"
  using assms
  by (auto simp: borrow_stable_def borrow_variable_def Let_def and_then_Inr_iff split: if_splits prod.splits)

lemma repay_records:
  "r_availableLiquidity (repay_stable M x b u t e) = r_availableLiquidity e"
  "r_availableLiquidity (repay_variable M x b e) = r_availableLiquidity e"
  by (simp_all add: repay_stable_def repay_variable_def Let_def split: prod.split)

text \<open>What a repayment pays, and what a withdrawal takes.\<close>

definition repaid_amount :: "'b bn_math \<Rightarrow> string \<Rightarrow> string \<Rightarrow> 'b ReserveData \<Rightarrow> 'b UserReserveData \<Rightarrow> 'b \<Rightarrow> 'b" where
  "repaid_amount M x rateMode b u t =
     (if eq_bn M (abs_bn M (str_bn M x)) (str_bn M MAX_UINT_AMOUNT)
      then if rateMode = rate_mode Rate_Stable then user_stable_debt M u t
           else calcExpectedVariableDebtTokenBalance M b u t
      else str_bn M x)"

lemma deposit_available:
  assumes "calcExpectedReserveDataAfterDeposit M cfg x b t = Inr e"
  shows "r_availableLiquidity e = plus_bn M (r_availableLiquidity b) (str_bn M x)
    \<and> r_totalLiquidity e = plus_bn M (r_totalLiquidity b) (str_bn M x)
    \<and> r_totalStableDebt e = stable_debt_until M b t
    \<and> r_totalVariableDebt e = rayMul M (r_scaledVariableDebt b) (calcExpectedVariableBorrowIndex M b t)"
  using finish_reserve_Inr [OF assms [unfolded calcExpectedReserveDataAfterDeposit_def Let_def]]
  by (simp add: start_reserve_def calcExpectedTotalVariableDebt_def)

lemma withdraw_available:
  assumes "calcExpectedReserveDataAfterWithdraw M cfg x b u t = Inr e"
  shows "r_availableLiquidity e = minus_bn M (r_availableLiquidity b) (str_bn M
      (if x = MAX_UINT_AMOUNT then bn_toFixed (api M) (calcExpectedATokenBalance M b u t) else x))
    \<and> r_totalLiquidity e = plus_bn M (plus_bn M (r_availableLiquidity e) (r_totalVariableDebt e)) (r_totalStableDebt e)"
  using finish_reserve_Inr [OF assms [unfolded calcExpectedReserveDataAfterWithdraw_def Let_def]]
  by simp

lemma borrow_available:
  assumes "calcExpectedReserveDataAfterBorrow M cfg x md b u t now = Inr e"
  shows "r_availableLiquidity e = minus_bn M (r_availableLiquidity b) (str_bn M x)"
  using borrow_records [OF assms [unfolded calcExpectedReserveDataAfterBorrow_def Let_def]]
  by simp

lemma repay_available:
  assumes "calcExpectedReserveDataAfterRepay M cfg x md b u t now = Inr e"
  shows "r_availableLiquidity e = plus_bn M (r_availableLiquidity b) (repaid_amount M x md b u t)
    \<and> r_totalLiquidity e = plus_bn M (plus_bn M (r_availableLiquidity e) (r_totalStableDebt e)) (r_totalVariableDebt e)"
  using assms unfolding calcExpectedReserveDataAfterRepay_def Let_def and_then_Inr_iff
  by (elim exE conjE) (drule finish_reserve_Inr, simp add: repaid_amount_def user_stable_debt_def)

lemma swap_liquidity:
  assumes "calcExpectedReserveDataAfterSwapRateMode M cfg b u md t = Inr e"
  shows "r_totalLiquidity e = plus_bn M (plus_bn M (r_availableLiquidity e) (r_totalStableDebt e)) (r_totalVariableDebt e)"
proof -
  from assms obtain e' where f: "finish_reserve M cfg b e' = Inr e"
    and l: "r_totalLiquidity e' = plus_bn M (plus_bn M (r_availableLiquidity e') (r_totalStableDebt e')) (r_totalVariableDebt e')"
    by (auto simp: calcExpectedReserveDataAfterSwapRateMode_def Let_def split: prod.splits)
  from finish_reserve_Inr [OF f] l show ?thesis by simp
qed

lemma rebalance_liquidity:
  assumes "calcExpectedReserveDataAfterStableRateRebalance M cfg b u t = Inr e"
  shows "r_totalLiquidity e = plus_bn M (plus_bn M (r_availableLiquidity e) (r_totalStableDebt e)) (r_totalVariableDebt e)"
  using finish_reserve_Inr [OF assms [unfolded calcExpectedReserveDataAfterStableRateRebalance_def Let_def]]
  by simp

section \<open>Properties\<close>

text \<open>
  C19. What an action takes from the user's wallet arrives in the reserve, and conversely: the expected
  wallet and the expected available liquidity change by opposite amounts for a deposit, a borrowing,
  a withdrawal (of everything too, when the balance is an integer) and a repayment on one's own
  behalf (of everything, when both expectations are taken at the same time), under every setting of
  bignumber.js.
\<close>

theorem wallet_and_reserve:
  assumes B: "bignumber_math M val dp md"
  shows "(\<forall>e. calcExpectedReserveDataAfterDeposit M cfg x b t = Inr e \<longrightarrow>
      val (r_availableLiquidity e) + val (u_walletBalance (calcExpectedUserDataAfterDeposit M x b e u t now cost))
      = val (r_availableLiquidity b) + val (u_walletBalance u)) \<and>
    (\<forall>e. calcExpectedReserveDataAfterWithdraw M cfg x b u t = Inr e \<longrightarrow>
      (x \<noteq> MAX_UINT_AMOUNT \<or> val (calcExpectedATokenBalance M b u t) = of_nat n) \<longrightarrow>
      val (r_availableLiquidity e) + val (u_walletBalance (calcExpectedUserDataAfterWithdraw M x b e u t now cost))
      = val (r_availableLiquidity b) + val (u_walletBalance u)) \<and>
    (\<forall>e. calcExpectedReserveDataAfterBorrow M cfg x mode b u t now = Inr e \<longrightarrow>
      val (r_availableLiquidity e) + val (u_walletBalance (calcExpectedUserDataAfterBorrow M x mode b e u t now))
      = val (r_availableLiquidity b) + val (u_walletBalance u)) \<and>
    (\<forall>e. calcExpectedReserveDataAfterRepay M cfg x mode b u t now = Inr e \<longrightarrow>
      (\<bar>val (str_bn M x)\<bar> \<noteq> val (str_bn M MAX_UINT_AMOUNT) \<or> now = t) \<longrightarrow>
      val (r_availableLiquidity e) + val (u_walletBalance (calcExpectedUserDataAfterRepay M x mode b e u me me t now))
      = val (r_availableLiquidity b) + val (u_walletBalance u))"
proof (intro conjI allI impI)
  note P = bignumber_math.val_plus [OF B] and N = bignumber_math.val_minus [OF B]
  fix e
  show "val (r_availableLiquidity e) + val (u_walletBalance (calcExpectedUserDataAfterDeposit M x b e u t now cost))
      = val (r_availableLiquidity b) + val (u_walletBalance u)"
    if "calcExpectedReserveDataAfterDeposit M cfg x b t = Inr e"
    using deposit_available [OF that] by (simp add: calcExpectedUserDataAfterDeposit_def Let_def P N)
  show "val (r_availableLiquidity e) + val (u_walletBalance (calcExpectedUserDataAfterWithdraw M x b e u t now cost))
      = val (r_availableLiquidity b) + val (u_walletBalance u)"
    if "calcExpectedReserveDataAfterWithdraw M cfg x b u t = Inr e"
      and "x \<noteq> MAX_UINT_AMOUNT \<or> val (calcExpectedATokenBalance M b u t) = of_nat n"
    using withdraw_available [OF that(1)] that(2) bignumber_math.withdrawn_amount [OF B, of _ n]
    by (auto simp: calcExpectedUserDataAfterWithdraw_def Let_def P N)
  show "val (r_availableLiquidity e) + val (u_walletBalance (calcExpectedUserDataAfterBorrow M x mode b e u t now))
      = val (r_availableLiquidity b) + val (u_walletBalance u)"
    if "calcExpectedReserveDataAfterBorrow M cfg x mode b u t now = Inr e"
    using borrow_available [OF that] by (simp add: calcExpectedUserDataAfterBorrow_def Let_def P N)
  show "val (r_availableLiquidity e) + val (u_walletBalance (calcExpectedUserDataAfterRepay M x mode b e u me me t now))
      = val (r_availableLiquidity b) + val (u_walletBalance u)"
    if "calcExpectedReserveDataAfterRepay M cfg x mode b u t now = Inr e"
      and "\<bar>val (str_bn M x)\<bar> \<noteq> val (str_bn M MAX_UINT_AMOUNT) \<or> now = t"
    using repay_available [OF that(1)] that(2)
    by (auto simp: calcExpectedUserDataAfterRepay_def Let_def P N repaid_amount_def
        bignumber_math.eq_iff [OF B] bignumber_math.val_abs [OF B] split: prod.splits)
qed

text \<open>An expected record exists as soon as the configuration has the symbol.\<close>

definition sample_reserve :: "rat ReserveData" where
  "sample_reserve = (empty_ReserveData (rat_math 0 ROUND_DOWN))\<lparr>r_symbol := Some ''CELO'',
     r_availableLiquidity := 1000, r_totalLiquidity := 1000\<rparr>"

lemma finish_reserve_total:
  assumes "reserve_configuration cfg (r_symbol b) = Inr P"
  shows "\<exists>e'. finish_reserve M cfg b e = Inr e'"
  using assms by (simp add: finish_reserve_def calcExpectedInterestRates_def Let_def split: prod.split)

lemma sample_configuration: "reserve_configuration [(''CELO'', sample_params)] (r_symbol sample_reserve) = Inr sample_params"
  by (simp add: reserve_configuration_def sample_reserve_def entry_at_def)

lemma wallet_and_reserve_witness:
  "\<exists>e. calcExpectedReserveDataAfterDeposit (rat_math 0 ROUND_DOWN) [(''CELO'', sample_params)] ''100'' sample_reserve 5 = Inr e \<and>
    r_availableLiquidity e + u_walletBalance (calcExpectedUserDataAfterDeposit (rat_math 0 ROUND_DOWN) ''100''
      sample_reserve e ((empty_UserReserveData (rat_math 0 ROUND_DOWN))\<lparr>u_walletBalance := 300\<rparr>) 5 5 0) = 1300"
proof -
  obtain e where e: "calcExpectedReserveDataAfterDeposit (rat_math 0 ROUND_DOWN) [(''CELO'', sample_params)] ''100'' sample_reserve 5 = Inr e"
    using finish_reserve_total [OF sample_configuration]
    unfolding calcExpectedReserveDataAfterDeposit_def Let_def by blast
  from wallet_and_reserve [OF rat_bignumber_math, THEN conjunct1, rule_format, OF e] e show ?thesis
    by (auto simp: sample_reserve_def)
qed



text \<open>
  C32. Expected indexes never decrease, and neither does a debt with its interest: over any time that
  has passed, the liquidity index, the variable borrow index and the total stable debt are at least
  what they were, and the utilization of a reserve that has lent no more than it holds is at most one
  ray.
\<close>

theorem indexes_never_decrease:
  assumes M: "suite_math M val" and t: "val t = of_nat now" and l: "val (r_lastUpdateTimestamp b) = of_nat since"
    and s: "since \<le> now" and lr: "val (r_liquidityRate b) = of_nat r1" and vr: "val (r_variableBorrowRate b) = of_nat r2"
    and li: "val (r_liquidityIndex b) = of_nat i1" and vi: "val (r_variableBorrowIndex b) = of_nat i2"
    and sd: "val (r_principalStableDebt b) = of_nat d" and ar: "val (r_averageStableBorrowRate b) = of_nat r3"
    and su: "val (r_totalStableDebtLastUpdated b) = of_nat since'" "since' \<le> now"
    and debts: "val x = of_nat m" "val y = of_nat n" "val z = of_nat k" "m + n \<le> k"
  shows "val (r_liquidityIndex b) \<le> val (calcExpectedLiquidityIndex M b t) \<and>
    val (r_variableBorrowIndex b) \<le> val (calcExpectedVariableBorrowIndex M b t) \<and>
    val (r_principalStableDebt b) \<le> val (stable_debt_until M b t) \<and>
    val (calcExpectedUtilizationRate M x y z) \<le> 10 ^ 27"
proof -
  have grow: "val i \<le> val (rayMul M c i)" "val i \<le> val (rayMul M i c)"
    if "val c = of_nat (10 ^ 27 + a)" "val i = of_nat j" for c i a j
  proof -
    have "nearest_div (j * 10 ^ 27) (10 ^ 27) \<le> nearest_div ((10 ^ 27 + a) * j) (10 ^ 27)"
      by (rule nearest_div_mono) (simp add: mult.commute)
    then have "j \<le> nearest_div ((10 ^ 27 + a) * j) (10 ^ 27)" by simp
    then show "val i \<le> val (rayMul M c i)" "val i \<le> val (rayMul M i c)"
      using suite_math.rayMul_nat [OF M that] suite_math.rayMul_nat [OF M that(2,1)]
      by (simp_all only: that(2) of_nat_le_iff mult.commute)
  qed
  have lin: "val (calcLinearInterest M (r_liquidityRate b) t (r_lastUpdateTimestamp b))
      = of_nat (10 ^ 27 + r1 * (now - since) div 31536000)"
    using suite_math.linear_interest_nat [OF M lr t l s] by (simp only: add.commute)
  have comp: "\<exists>a. compounded q n = 10 ^ 27 + a" for q n
    unfolding compounded_def Let_def by (intro exI) (simp only: add.assoc)
  obtain a where c: "val (calcCompoundedInterest M (r_variableBorrowRate b) t (r_lastUpdateTimestamp b)) = of_nat (10 ^ 27 + a)"
    using suite_math.compounded_interest_nat [OF M vr t l s] comp by metis
  obtain a' where c': "val (calcCompoundedInterest M (r_averageStableBorrowRate b) t (r_totalStableDebtLastUpdated b)) = of_nat (10 ^ 27 + a')"
    using suite_math.compounded_interest_nat [OF M ar t su] comp by metis
  have "nearest_div ((m + n) * 10 ^ 27) k \<le> 10 ^ 27" if "m + n \<noteq> 0"
    using nearest_div_mono [of "(m + n) * 10 ^ 27" "10 ^ 27 * k" k] debts(4) that by simp
  then have "val (calcExpectedUtilizationRate M x y z) \<le> of_nat (10 ^ 27)"
    using suite_math.utilization_nat [OF M debts(1-3)] debts(4) by (simp only: of_nat_le_iff) simp
  then show ?thesis
    using grow [OF lin li] grow [OF c vi] grow [OF c' sd]
    by (simp add: calcExpectedLiquidityIndex_def calcExpectedVariableBorrowIndex_def stable_debt_until_def
        calcExpectedTotalStableDebt_def)
qed

definition aged_reserve :: "rat ReserveData" where
  "aged_reserve = sample_reserve\<lparr>r_lastUpdateTimestamp := 10, r_liquidityRate := 10 ^ 26,
     r_variableBorrowRate := 10 ^ 26, r_liquidityIndex := 10 ^ 27, r_variableBorrowIndex := 10 ^ 27,
     r_principalStableDebt := 500, r_averageStableBorrowRate := 10 ^ 26, r_totalStableDebtLastUpdated := 7\<rparr>"

lemma indexes_never_decrease_witness:
  "10 ^ 27 \<le> calcExpectedLiquidityIndex (rat_math 0 ROUND_DOWN) aged_reserve 100"
proof -
  have "r_liquidityIndex aged_reserve \<le> calcExpectedLiquidityIndex (rat_math 0 ROUND_DOWN) aged_reserve 100"
    by (rule indexes_never_decrease [OF suite.suite_math_axioms, of 100 100 aged_reserve 10 "10 ^ 26" "10 ^ 26"
          "10 ^ 27" "10 ^ 27" 500 "10 ^ 26" 7 30 30 60 60 100 100, THEN conjunct1]) (simp_all add: aged_reserve_def)
  then show ?thesis by (simp add: aged_reserve_def)
qed

text \<open>
  Repaying \<open>MAX_UINT_AMOUNT\<close> clears the debt: in the stable mode the debt, its rate and the time
  of its update become zero; in the variable mode the scaled debt and the debt become zero whenever
  the index of the reserve is at least one ray and the index by which the debt is divided is the one
  it was multiplied by.
\<close>

theorem repaying_everything_clears:
  assumes M: "suite_math M val" and n: "val (u_scaledVariableDebt u) = of_nat n"
    and k: "val (calcExpectedReserveNormalizedDebt M (r_variableBorrowRate b) (r_variableBorrowIndex b)
        (r_lastUpdateTimestamp b) now) = of_nat k"
    and i: "val (r_variableBorrowIndex after) = of_nat k" and ray: "10 ^ 27 \<le> k" and mode: "mode \<noteq> rate_mode Rate_Stable"
  shows "(let e = calcExpectedUserDataAfterRepay M MAX_UINT_AMOUNT (rate_mode Rate_Stable) b after u me me t now in
      val (u_currentStableDebt e) = 0 \<and> val (u_principalStableDebt e) = 0 \<and> val (u_stableBorrowRate e) = 0
      \<and> val (u_stableRateLastUpdated e) = 0) \<and>
    (let e = calcExpectedUserDataAfterRepay M MAX_UINT_AMOUNT mode b after u me me t now in
      val (u_scaledVariableDebt e) = 0 \<and> val (u_currentVariableDebt e) = 0)"
proof -
  note B = suite_math.axioms [OF M]
  note N = bignumber_math.val_minus [OF B] and zero = bignumber_math.zero_vals [OF B]
  have "val (str_bn M MAX_UINT_AMOUNT) = of_nat (2 ^ 256 - 1)"
    by (rule bignumber.val_str [OF bignumber_math.axioms(1) [OF B]])
      (simp add: MAX_UINT_AMOUNT_def decimal_value_def nat_of_dec_def char_digit_def)
  then have mx: "val (abs_bn M (str_bn M MAX_UINT_AMOUNT)) = val (str_bn M MAX_UINT_AMOUNT)"
    by (simp add: bignumber_math.val_abs [OF B])
  have k0: "k \<noteq> 0" using ray by auto
  have undo: "nearest_div (nearest_div (n * k) (10 ^ 27) * 10 ^ 27) k = n"
  proof (cases "k = 10 ^ 27")
    case False
    then have "int (10 ^ 27) < int k" using ray by (simp only: of_nat_less_iff)
    with nearest_div_back [of "10 ^ 27" k n] k0 show ?thesis
      using small_diff [of "int k" _ "10 ^ 27"] by fastforce
  qed simp
  have "val (rayDiv M (calcExpectedVariableDebtTokenBalance M b u now) (r_variableBorrowIndex after)) = of_nat n"
    using suite_math.rayDiv_nat [OF M suite_math.rayMul_nat [OF M n k] i k0]
    by (simp only: calcExpectedVariableDebtTokenBalance_def Let_def undo)
  then have scaled: "val (minus_bn M (u_scaledVariableDebt u)
      (rayDiv M (calcExpectedVariableDebtTokenBalance M b u now) (r_variableBorrowIndex after))) = of_nat 0"
    by (simp add: N n)
  from suite_math.rayMul_nat [OF M this i] scaled mode show ?thesis
    by (simp add: calcExpectedUserDataAfterRepay_def Let_def mx N zero bignumber_math.eq_iff [OF B] del: rate_mode.simps)
qed

lemma repaying_everything_clears_witness:
  "u_scaledVariableDebt (calcExpectedUserDataAfterRepay (rat_math 0 ROUND_DOWN) MAX_UINT_AMOUNT
     (rate_mode Rate_Variable) (sample_reserve\<lparr>r_variableBorrowRate := 0, r_variableBorrowIndex := 2 * 10 ^ 27\<rparr>)
     (sample_reserve\<lparr>r_variableBorrowIndex := 2 * 10 ^ 27\<rparr>)
     ((empty_UserReserveData (rat_math 0 ROUND_DOWN))\<lparr>u_scaledVariableDebt := 700\<rparr>) ''0xuser'' ''0xuser'' 5 5) = 0"
proof -
  have "calcExpectedReserveNormalizedDebt (rat_math 0 ROUND_DOWN) 0 (2 * 10 ^ 27) l 5 = 2 * 10 ^ 27" for l
    using suite.zero_vals(1) by (simp add: calcExpectedReserveNormalizedDebt_def suite.eq_iff)
  with repaying_everything_clears [OF suite.suite_math_axioms,
      of "(empty_UserReserveData (rat_math 0 ROUND_DOWN))\<lparr>u_scaledVariableDebt := 700\<rparr>" 700
        "sample_reserve\<lparr>r_variableBorrowRate := 0, r_variableBorrowIndex := 2 * 10 ^ 27\<rparr>" 5 "2 * 10 ^ 27"
        "sample_reserve\<lparr>r_variableBorrowIndex := 2 * 10 ^ 27\<rparr>" "rate_mode Rate_Variable" "''0xuser''" 5]
  show ?thesis by (simp add: Let_def)
qed

text \<open>
  The average stable rate of a rebalancing adds a debt in wads to a debt in rays: with 1000 units
  at ten percent and 1000 more at twenty the result is within a billionth of twenty percent, where
  the average the other actions use is fifteen.
\<close>

theorem rebalance_average_mixes_units:
  assumes M: "suite_math M val" and v: "val avg = of_nat (10 ^ 26)" "val debt = of_nat (10 ^ 21)"
    "val amount = of_nat (10 ^ 21)" "val rate = of_nat (2 * 10 ^ 26)"
  shows "val (calcExpectedAverageStableBorrowRateRebalance M avg debt amount rate) = 199999999900000000100000000 \<and>
    val (calcExpectedAverageStableBorrowRate M avg debt amount rate) = 150000000000000000000000000"
proof -
  note B = suite_math.axioms [OF M]
  note w = suite_math.wadToRay_nat [OF M v(3)]
  note sum = bignumber_math.plus_nat [OF B v(2) w] and sum' = bignumber_math.plus_nat [OF B v(2,3)]
  note div = suite_math.rayDiv_nat [OF M bignumber_math.plus_nat [OF B suite_math.rayMul_nat [OF M v(1,2)]
      suite_math.rayMul_nat [OF M v(4) w]] sum]
  note div' = suite_math.down_div_nat [OF M bignumber_math.plus_nat [OF B bignumber_math.times_nat [OF B v(1,2)]
      bignumber_math.times_nat [OF B v(4,3)]] sum']
  show ?thesis
    using bignumber_math.decimalPlaces_nat [OF B div] div'
    by (simp add: calcExpectedAverageStableBorrowRateRebalance_def calcExpectedAverageStableBorrowRate_def Let_def
        bignumber_math.eq_iff [OF B] bignumber_math.zero_vals [OF B] sum sum' nearest_div_def)
qed

lemma rebalance_average_mixes_units_witness:
  "calcExpectedAverageStableBorrowRate (rat_math 0 ROUND_DOWN) (10 ^ 26) (10 ^ 21) (10 ^ 21) (2 * 10 ^ 26)
    = 150000000000000000000000000"
  using rebalance_average_mixes_units [OF suite.suite_math_axioms, of "10 ^ 26" "10 ^ 21" "10 ^ 21" "2 * 10 ^ 26"]
  by simp

end
