(* ===== verification/AutoRepayBot.thy ===== *)
theory AutoRepayBot
  imports MiscUtils WadRay
begin

text \<open>
  \<open>bots/auto-repay-bot.js\<close>: a process that watches the users who asked for automatic repayment and,
  when a health factor is low, repays their largest debt with their largest collateral through the
  contract \<open>AutoRepay\<close>. The node and the package \<open>events-collector\<close> are the \<open>runtime\<close>; amounts are
  bignumber.js values, and the integers that web3 returns are decimal strings.
\<close>

section \<open>Addresses and swap paths\<close>

definition lower_char :: "char \<Rightarrow> char" where
  "lower_char c = (let n = of_char c :: nat in if 65 \<le> n \<and> n \<le> 90 then char_of (n + 32) else c)"

definition toLowerCase :: "string \<Rightarrow> string" where
  "toLowerCase s = map lower_char s"

definition cEUR_address :: string where "cEUR_address = ''0xD8763CBa276a3738E6DE85b4b3bF5FDed6D6cA73''"
definition cUSD_address :: string where "cUSD_address = ''0x765DE816845861e75A25fCA122bb6898B8B1282a''"
definition cREAL_address :: string where "cREAL_address = ''0xe8537a3d056DA446677B9E9d6c5dB704EaAb4787''"
definition MOO_address :: string where "MOO_address = ''0x17700282592D6917F6A73D0bF8AcCf4D578c131e''"
definition CELO_address :: string where "CELO_address = ''0x471EcE3750Da237f93B8E339c536989b8978a438''"

definition mcusdAddress :: string where "mcusdAddress = ''0x918146359264c492bd6934071c6bd31c854edbc3''"
definition mceurAddress :: string where "mceurAddress = ''0xe273ad7ee11dcfaa87383ad5977ee1504ac07568''"
definition mceloAddress :: string where "mceloAddress = ''0x7d00cd74ff385c955ea3d79e47bf06bd7386387d''"

definition addressProvider_address :: string where
  "addressProvider_address = ''0xD1088091A174d33412a968Fa34Cb67131188B332''"
definition autoRepay_address :: string where
  "autoRepay_address = ''0xeb1549caebf24dd83e1b5e48abedd81be240e408''"
definition dataProvider_address :: string where
  "dataProvider_address = ''0x43d067ed784D9DD2ffEda73775e2CC4c560103A1''"
definition ubeswapRouter :: string where
  "ubeswapRouter = ''0xe3d8bd6aed4f159bc8000a9cd47cffdb95f96121''"

definition bot_tokens :: "string js_obj" where
  "bot_tokens = [(''celo'', CELO_address), (''cusd'', cUSD_address), (''ceur'', cEUR_address),
     (''creal'', cREAL_address), (''moo'', MOO_address)]"

definition celo_cusd :: "string list" where "celo_cusd = [CELO_address, mcusdAddress]"
definition celo_ceur :: "string list" where "celo_ceur = [CELO_address, mceurAddress]"
definition celo_creal :: "string list" where "celo_creal = [CELO_address, cUSD_address, cREAL_address]"
definition celo_moo :: "string list" where "celo_moo = [MOO_address, mceloAddress]"
definition cusd_ceur :: "string list" where "cusd_ceur = [mcusdAddress, mceurAddress]"
definition cusd_creal :: "string list" where "cusd_creal = [cUSD_address, cREAL_address]"
definition cusd_moo :: "string list" where "cusd_moo = [cUSD_address, CELO_address, MOO_address]"
definition ceur_creal :: "string list" where
  "ceur_creal = [cEUR_address, CELO_address, cUSD_address, cREAL_address]"
definition ceur_moo :: "string list" where "ceur_moo = [mceurAddress, CELO_address, MOO_address]"
definition creal_moo :: "string list" where
  "creal_moo = [cREAL_address, cUSD_address, CELO_address, MOO_address]"

record swap_route =
  route_path :: "string list"
  useATokenAsFrom :: bool
  useATokenAsTo :: bool

definition path_key :: "string \<Rightarrow> string \<Rightarrow> string" where
  "path_key a b = toLowerCase (a @ ''_'' @ b)"

text \<open>\<open>paths[key] = { path, useATokenAsFrom, useATokenAsTo }\<close>, one assignment for each pair.\<close>

definition bot_paths :: "swap_route js_obj" where
  "bot_paths = foldl (\<lambda>ps (a, b, p, f, t).
       obj_set ps (path_key a b) \<lparr> route_path = p, useATokenAsFrom = f, useATokenAsTo = t \<rparr>) []
     [(CELO_address, cUSD_address, celo_cusd, False, True),
      (CELO_address, cEUR_address, celo_ceur, False, True),
      (CELO_address, cREAL_address, celo_creal, False, False),
      (CELO_address, MOO_address, celo_moo, False, True),
      (cUSD_address, cEUR_address, cusd_ceur, True, True),
      (cUSD_address, cREAL_address, cusd_creal, False, False),
      (cUSD_address, MOO_address, cusd_moo, False, False),
      (cEUR_address, cREAL_address, ceur_creal, False, False),
      (cEUR_address, MOO_address, ceur_moo, True, True),
      (cREAL_address, MOO_address, creal_moo, False, True),
      (cUSD_address, CELO_address, rev celo_cusd, True, False),
      (cEUR_address, CELO_address, rev celo_ceur, True, False),
      (cREAL_address, CELO_address, rev celo_creal, False, False),
      (MOO_address, CELO_address, rev celo_moo, True, False),
      (cEUR_address, cUSD_address, rev cusd_ceur, True, True),
      (cREAL_address, cUSD_address, rev cusd_creal, False, False),
      (MOO_address, cUSD_address, rev cusd_moo, False, False),
      (cREAL_address, cEUR_address, rev celo_creal, False, False),
      (MOO_address, cEUR_address, rev ceur_moo, True, True),
      (MOO_address, cREAL_address, rev creal_moo, True, False)]"

section \<open>Retrying\<close>

text \<open>The delay between two tries is not modelled.\<close>

fun retry :: "'a io \<Rightarrow> nat \<Rightarrow> 'a io" where
  "retry fun_call tries = catch fun_call (\<lambda>err.
     case tries of 0 \<Rightarrow> throw err | Suc n \<Rightarrow> retry fun_call n)"

declare retry.simps [simp del]

section \<open>One repayment\<close>

text \<open>What the closures of one user's repayment share.\<close>

record repay_job =
  job_user :: string
  collateralAddress :: string
  borrowAddress :: string
  swapRoute :: swap_route
  rateMode :: int
  mToken_address :: string
  caller_address :: string

definition bot_contract :: "string \<Rightarrow> string \<Rightarrow> repay_job \<Rightarrow> contract" where
  "bot_contract a addr job = \<lparr> abi = a, address = addr, signer = Some (caller_address job), deployer = None \<rparr>"

definition DEFAULT_GAS :: int where "DEFAULT_GAS = 2000000"

definition amounts_in :: "runtime \<Rightarrow> repay_job \<Rightarrow> string \<Rightarrow> string io" where
  "amounts_in rt job amountOut =
     bind (call_view rt (bot_contract ''Uniswap'' ubeswapRouter job) ''getAmountsIn''
             [VStr amountOut, VList (map VStr (route_path (swapRoute job)))]) (\<lambda>amounts.
     case amounts of VList (a # _) \<Rightarrow> ret (val_str a)
     | _ \<Rightarrow> throw (JsTypeError ''Cannot read property 0 of undefined''))"

text \<open>The argument of \<open>increaseHealthFactor\<close> and the collateral that it needs, with the fee.\<close>

definition increaseHealthFactorMethod ::
    "runtime \<Rightarrow> 'b bn_math \<Rightarrow> repay_job \<Rightarrow> 'b \<Rightarrow> bool \<Rightarrow> (js_val list \<times> 'b) io" where
  "increaseHealthFactorMethod rt M job repAmount useFlashloan =
     (let amountOut = toFixed0 M (plus_bn M repAmount
            (div_bn M (times_bn M repAmount (int_bn M 9)) (int_bn M 10000))) in
      bind (amounts_in rt job amountOut) (\<lambda>a.
      let amount = str_bn M a;
          maxCollateralAmount = toFixed0 M (plus_bn M amount
            (div_bn M (times_bn M amount (int_bn M 1)) (int_bn M 1000)));
          feeAmount = div_bn M (times_bn M (str_bn M maxCollateralAmount) (int_bn M 10)) (int_bn M 10000);
          repayParams = VObj
            [(''user'', VStr (job_user job)),
             (''collateralAsset'', VStr (collateralAddress job)),
             (''debtAsset'', VStr (borrowAddress job)),
             (''collateralAmount'', VStr maxCollateralAmount),
             (''debtRepayAmount'', VStr (toFixed0 M repAmount)),
             (''rateMode'', VNum (rateMode job)),
             (''path'', VList (map VStr (route_path (swapRoute job)))),
             (''useATokenAsFrom'', VBool (useATokenAsFrom (swapRoute job))),
             (''useATokenAsTo'', VBool (useATokenAsTo (swapRoute job))),
             (''useFlashloan'', VBool useFlashloan)];
          permit = VObj [(''amount'', VNum 0), (''deadline'', VNum 0), (''v'', VNum 0),
             (''r'', VStr ''0x0000000000000000000000000000000000000000000000000000000000000000''),
             (''s'', VStr ''0x0000000000000000000000000000000000000000000000000000000000000000'')]
      in ret ([repayParams, permit], plus_bn M (str_bn M maxCollateralAmount) feeAmount)))"

text \<open>\<open>method.estimateGas({ from: caller, gas: DEFAULT_GAS })\<close>: a simulation on the node.\<close>

definition call_options :: "repay_job \<Rightarrow> js_val" where
  "call_options job = VObj [(''from'', VStr (caller_address job)), (''gas'', VNum DEFAULT_GAS)]"

definition estimateGas :: "runtime \<Rightarrow> repay_job \<Rightarrow> js_val list \<Rightarrow> js_val io" where
  "estimateGas rt job args = rpc_send rt ''eth_estimateGas''
     [VStr autoRepay_address, VStr ''increaseHealthFactor'', VList args, call_options job]"

text \<open>With a flash loan the simulation succeeded; without one it may succeed too, and is preferred.\<close>

definition prefer_no_flashloan ::
    "runtime \<Rightarrow> 'b bn_math \<Rightarrow> repay_job \<Rightarrow> 'b \<Rightarrow> js_val list \<Rightarrow> js_val list io" where
  "prefer_no_flashloan rt M job repAmount args = catch
     (bind (amounts_in rt job (toFixed0 M repAmount)) (\<lambda>_.
      bind (increaseHealthFactorMethod rt M job repAmount False) (\<lambda>(methodNoFlashloan, _).
      seq (retry (estimateGas rt job methodNoFlashloan) 5)
     (ret methodNoFlashloan))))
     (\<lambda>error. ret args)"

text \<open>The first \<open>try\<close>: the method to send, or nothing when the simulation failed.\<close>

definition simulate ::
    "runtime \<Rightarrow> 'b bn_math \<Rightarrow> repay_job \<Rightarrow> 'b \<Rightarrow> js_val list \<Rightarrow> js_val list option io" where
  "simulate rt M job repAmount args = catch
     (seq (retry (estimateGas rt job args) 5)
     (bind (prefer_no_flashloan rt M job repAmount args) (\<lambda>m. ret (Some m))))
     (\<lambda>err. ret None)"

definition send_repayment :: "runtime \<Rightarrow> repay_job \<Rightarrow> js_val list \<Rightarrow> unit io" where
  "send_repayment rt job args =
     bind (send_tx rt (bot_contract ''AutoRepay'' autoRepay_address job) ''increaseHealthFactor''
             (args @ [call_options job])) (\<lambda>tx.
     wait_tx rt tx)"

text \<open>
  The recursion of \<open>repaySimulation\<close> ends at the fourth attempt. The first argument bounds its depth;
  the result \<open>False\<close> says that the bound was reached.
\<close>

fun repaySimulation ::
    "nat \<Rightarrow> runtime \<Rightarrow> 'b bn_math \<Rightarrow> repay_job \<Rightarrow> 'b \<Rightarrow> nat \<Rightarrow> bool io" where
  "repaySimulation 0 rt M job repAmount attempt = ret False"
| "repaySimulation (Suc n) rt M job repAmount attempt =
     bind (increaseHealthFactorMethod rt M job repAmount True) (\<lambda>(args, total).
     bind (call_str rt (bot_contract ''MToken'' (mToken_address job) job) ''allowance''
             [VStr (job_user job), VStr autoRepay_address]) (\<lambda>allowance.
     if lt_bn M (str_bn M allowance) total then ret True
     else
       bind (simulate rt M job repAmount args) (\<lambda>found.
       case found of
         None \<Rightarrow>
           if attempt = 4 then ret True
           else repaySimulation n rt M job
                  (div_bn M (times_bn M repAmount (int_bn M (100 - int attempt * 25))) (int_bn M 100))
                  (attempt + 1)
       | Some args' \<Rightarrow> seq (send_repayment rt job args') (ret True))))"

section \<open>One user\<close>

text \<open>
  \<open>xs.sort((a, b) => value(b).comparedTo(value(a)))\<close>: the sort is stable, so that the first element
  is the first one of the largest value.
\<close>

fun insert_desc :: "'b bn_math \<Rightarrow> ('a \<Rightarrow> 'b) \<Rightarrow> 'a \<Rightarrow> 'a list \<Rightarrow> 'a list" where
  "insert_desc M f x [] = [x]"
| "insert_desc M f x (y # ys) = (if lt_bn M (f x) (f y) then y # insert_desc M f x ys else x # y # ys)"

definition sort_desc :: "'b bn_math \<Rightarrow> ('a \<Rightarrow> 'b) \<Rightarrow> 'a list \<Rightarrow> 'a list" where
  "sort_desc M f xs = foldr (insert_desc M f) xs []"

definition pos_str :: "js_val \<Rightarrow> string \<Rightarrow> string" where
  "pos_str data field = (case val_field data field of Inl _ \<Rightarrow> '''' | Inr v \<Rightarrow> val_str v)"

definition pos_flag :: "js_val \<Rightarrow> string \<Rightarrow> bool" where
  "pos_flag data field = (case val_field data field of Inl _ \<Rightarrow> False | Inr v \<Rightarrow> js_truthy v)"

definition ether :: string where "ether = ''1000000000000000000''"

definition rate_of :: "'b bn_math \<Rightarrow> string js_obj \<Rightarrow> string \<Rightarrow> 'b" where
  "rate_of M rates token = (case obj_get rates token of None \<Rightarrow> undefined_bn M | Some r \<Rightarrow> str_bn M r)"

definition debt_value :: "'b bn_math \<Rightarrow> string js_obj \<Rightarrow> string \<times> js_val \<Rightarrow> 'b" where
  "debt_value M rates pos = (case pos of (res, data) \<Rightarrow>
     div_bn M (times_bn M (plus_bn M (str_bn M (pos_str data ''currentStableDebt''))
                                     (str_bn M (pos_str data ''currentVariableDebt'')))
                 (rate_of M rates res)) (str_bn M ether))"

definition collateral_value :: "'b bn_math \<Rightarrow> string js_obj \<Rightarrow> string \<times> js_val \<Rightarrow> 'b" where
  "collateral_value M rates pos = (case pos of (res, data) \<Rightarrow>
     div_bn M (times_bn M (str_bn M (pos_str data ''currentATokenBalance'')) (rate_of M rates res))
       (str_bn M ether))"

text \<open>\<open>positions.sort(...)\<close> sorts in place: the collaterals are filtered from the sorted list.\<close>

definition biggest_positions ::
    "'b bn_math \<Rightarrow> string js_obj \<Rightarrow> (string \<times> js_val) list \<Rightarrow> (string \<times> js_val) list \<times> (string \<times> js_val) list" where
  "biggest_positions M rates positions =
     (let sorted_positions = sort_desc M (debt_value M rates) positions in
      (sorted_positions, sort_desc M (collateral_value M rates)
         (filter (\<lambda>(_, data). pos_flag data ''usageAsCollateralEnabled'') sorted_positions)))"

definition first_of :: "'a list \<Rightarrow> js_error + 'a" where
  "first_of xs = (case xs of [] \<Rightarrow> Inl (JsTypeError ''Cannot read property 0 of undefined'') | x # _ \<Rightarrow> Inr x)"

definition route_between :: "string \<Rightarrow> string \<Rightarrow> js_error + swap_route" where
  "route_between collateral borrowed = (case obj_get bot_paths (collateral @ ''_'' @ borrowed) of
       None \<Rightarrow> Inl (JsTypeError ''Cannot read property path of undefined'') | Some r \<Rightarrow> Inr r)"

text \<open>The rate mode with the larger debt, 1 for stable and 2 for variable, and that debt.\<close>

definition debt_to_repay :: "'b bn_math \<Rightarrow> js_val \<Rightarrow> int \<times> 'b" where
  "debt_to_repay M data =
     (let variable = str_bn M (pos_str data ''currentVariableDebt'');
          stable_debt = str_bn M (pos_str data ''currentStableDebt'') in
      if lt_bn M variable stable_debt then (1, stable_debt) else (2, variable))"

definition view_at :: "runtime \<Rightarrow> string \<Rightarrow> string \<Rightarrow> js_val list \<Rightarrow> js_val io" where
  "view_at rt addr m args = call_view rt \<lparr> abi = '''', address = addr, signer = None, deployer = None \<rparr> m args"

definition map_io :: "('a \<Rightarrow> 'c io) \<Rightarrow> 'a list \<Rightarrow> 'c list io" where
  "map_io f xs = fold_io (\<lambda>acc x. bind (f x) (\<lambda>y. ret (acc @ [y]))) [] xs"

definition repay_user :: "nat \<Rightarrow> runtime \<Rightarrow> 'b bn_math \<Rightarrow> string \<Rightarrow> string \<Rightarrow> string \<Rightarrow> unit io" where
  "repay_user fuel rt M caller priceOracle user =
     bind (map_io (\<lambda>(token, a). bind (view_at rt dataProvider_address ''getUserReserveData'' [VStr a, VStr user])
             (\<lambda>pos. ret (token, pos))) bot_tokens) (\<lambda>positions.
     bind (view_at rt priceOracle ''getAssetsPrices'' [VList (map (VStr \<circ> snd) bot_tokens)]) (\<lambda>tokenPrices.
     let prices = (case tokenPrices of VList ps \<Rightarrow> map val_str ps | _ \<Rightarrow> []);
         rates = zip (obj_keys bot_tokens) prices;
         (by_debt, by_collateral) = biggest_positions M rates positions in
     bind (lift_sum (first_of by_debt)) (\<lambda>biggestBorrow.
     bind (lift_sum (first_of by_collateral)) (\<lambda>biggestCollateral.
     bind (lift_sum (entry_at bot_tokens (fst biggestCollateral))) (\<lambda>collateral.
     bind (lift_sum (entry_at bot_tokens (fst biggestBorrow))) (\<lambda>borrowed.
     let collateralAddr = toLowerCase collateral; borrowAddr = toLowerCase borrowed in
     bind (lift_sum (route_between collateralAddr borrowAddr)) (\<lambda>route.
     let (mode, repayAmount) = debt_to_repay M (snd biggestBorrow) in
     bind (view_at rt dataProvider_address ''getReserveTokensAddresses'' [VStr collateralAddr])
       (\<lambda>reserveCollateralToken.
     bind (repaySimulation fuel rt M
             \<lparr> job_user = user, collateralAddress = collateralAddr, borrowAddress = borrowAddr,
               swapRoute = route, rateMode = mode,
               mToken_address = pos_str reserveCollateralToken ''aTokenAddress'', caller_address = caller \<rparr>
             repayAmount 1) (\<lambda>_.
     ret ())))))))))"

section \<open>The loop\<close>

record 'b bot_state =
  fromBlock :: int
  bot_users :: "('b \<times> 'b) js_obj"

definition bot_start :: "'b bot_state" where
  "bot_start = \<lparr> fromBlock = 12472487, bot_users = [] \<rparr>"

text \<open>\<open>users[event.args.user] = { min, max }\<close> for every new event.\<close>

definition note_event :: "'b bn_math \<Rightarrow> ('b \<times> 'b) js_obj \<Rightarrow> js_val \<Rightarrow> ('b \<times> 'b) js_obj" where
  "note_event M users args =
     obj_set users (pos_str args ''user'') (str_bn M (pos_str args ''min''), str_bn M (pos_str args ''max''))"

definition collect_events :: "runtime \<Rightarrow> 'b bn_math \<Rightarrow> 'b bot_state \<Rightarrow> 'b bot_state io" where
  "collect_events rt M st =
     bind (rpc_send rt ''eventsCollector'' [VStr ''HealthFactorSet'', VStr autoRepay_address, VNum (fromBlock st)])
       (\<lambda>result.
     case result of
       VList [VList newEvents, VNum parsedToBlock] \<Rightarrow>
         ret \<lparr> fromBlock = parsedToBlock, bot_users = foldl (note_event M) (bot_users st) newEvents \<rparr>
     | _ \<Rightarrow> throw (JsTypeError ''undefined is not iterable''))"

text \<open>A user is due with a debt and a health factor below the minimum that the user set.\<close>

definition due :: "'b bn_math \<Rightarrow> ('b \<times> 'b) js_obj \<Rightarrow> string \<times> js_val \<Rightarrow> bool" where
  "due M users entry = (case entry of (addr, data) \<Rightarrow>
     \<not> eq_bn M (str_bn M (pos_str data ''totalDebtETH'')) (int_bn M 0)
     \<and> (case obj_get users addr of None \<Rightarrow> False
        | Some (mn, _) \<Rightarrow> lt_bn M (str_bn M (pos_str data ''healthFactor'')) mn))"

definition repay_due_users ::
    "nat \<Rightarrow> runtime \<Rightarrow> 'b bn_math \<Rightarrow> string \<Rightarrow> string \<Rightarrow> string \<Rightarrow> ('b \<times> 'b) js_obj \<Rightarrow> unit io" where
  "repay_due_users fuel rt M caller lendingPool priceOracle users =
     bind (map_io (\<lambda>addr. bind (view_at rt lendingPool ''getUserAccountData'' [VStr addr])
             (\<lambda>data. ret (addr, data))) (obj_keys users)) (\<lambda>usersData.
     for_each (\<lambda>entry. repay_user fuel rt M caller priceOracle (fst entry)) (filter (due M users) usersData))"

text \<open>
  One pass of the endless loop. Whatever fails is logged and the next pass begins; the events that
  were read before are not forgotten.
\<close>

definition attempt :: "'a io \<Rightarrow> 'a option io" where
  "attempt m = catch (bind m (\<lambda>x. ret (Some x))) (\<lambda>err. ret None)"

definition bot_round ::
    "nat \<Rightarrow> runtime \<Rightarrow> 'b bn_math \<Rightarrow> string \<Rightarrow> string \<Rightarrow> string \<Rightarrow> 'b bot_state \<Rightarrow> 'b bot_state io" where
  "bot_round fuel rt M caller lendingPool priceOracle st =
     bind (attempt (collect_events rt M st)) (\<lambda>collected.
     case collected of None \<Rightarrow> ret st
     | Some st' \<Rightarrow>
         bind (attempt (repay_due_users fuel rt M caller lendingPool priceOracle (bot_users st'))) (\<lambda>_.
         ret st'))"

fun bot_rounds ::
    "nat \<Rightarrow> nat \<Rightarrow> runtime \<Rightarrow> 'b bn_math \<Rightarrow> string \<Rightarrow> string \<Rightarrow> string \<Rightarrow> 'b bot_state \<Rightarrow> 'b bot_state io" where
  "bot_rounds 0 fuel rt M caller lendingPool priceOracle st = ret st"
| "bot_rounds (Suc n) fuel rt M caller lendingPool priceOracle st =
     bind (bot_round fuel rt M caller lendingPool priceOracle st)
       (bot_rounds n fuel rt M caller lendingPool priceOracle)"

text \<open>\<open>execute\<close>, stopped after \<open>n\<close> passes.\<close>

definition bot_execute :: "nat \<Rightarrow> nat \<Rightarrow> runtime \<Rightarrow> 'b bn_math \<Rightarrow> string \<Rightarrow> 'b bot_state io" where
  "bot_execute n fuel rt M caller =
     bind (view_at rt addressProvider_address ''getLendingPool'' []) (\<lambda>lendingPool.
     bind (view_at rt addressProvider_address ''getPriceOracle'' []) (\<lambda>priceOracle.
     bot_rounds n fuel rt M caller (val_str lendingPool) (val_str priceOracle) bot_start))"

end
