(* ===== verification/Simulations.thy ===== *)
theory Simulations
  imports AutoRepayBot
begin

text \<open>
  Simulations of transactions, \<open>eth_estimateGas\<close>, and tries that are repeated: how many requests a run
  adds to an observation, and what a try that succeeded leaves in the history.
\<close>

section \<open>Bounded contributions\<close>

text \<open>Every run extends an observation by at most \<open>c\<close> elements.\<close>

definition adds :: "(history \<Rightarrow> 'o list) \<Rightarrow> nat \<Rightarrow> 'a io \<Rightarrow> bool" where
  "adds proj c m \<longleftrightarrow> (\<forall>h. \<exists>t. proj (snd (m h)) = proj h @ t \<and> length t \<le> c)"

lemma addsD: "adds proj c m \<Longrightarrow> m h = (r, h') \<Longrightarrow> \<exists>t. proj h' = proj h @ t \<and> length t \<le> c"
  unfolding adds_def by (metis snd_conv)

lemma adds_quiet: "quiet proj m \<Longrightarrow> adds proj c m"
  by (simp add: adds_def quiet_def)

lemma adds_mono: "adds proj c m \<Longrightarrow> c \<le> d \<Longrightarrow> adds proj d m"
  unfolding adds_def by (meson order_trans)

lemma quiet_adds: "quiet proj m \<longleftrightarrow> adds proj 0 m"
  by (simp add: quiet_def adds_def)

lemma adds_bind:
  assumes "adds proj c m" and "\<And>x. adds proj d (f x)"
  shows "adds proj (c + d) (bind m f)"
  unfolding adds_def
proof
  fix h
  obtain r h1 where m: "m h = (r, h1)" by fastforce
  obtain s where s: "proj h1 = proj h @ s" "length s \<le> c" using addsD [OF assms(1) m] by blast
  show "\<exists>t. proj (snd (bind m f h)) = proj h @ t \<and> length t \<le> c + d"
  proof (cases r)
    case (Inl e)
    then show ?thesis using s m by (intro exI [of _ s]) (simp add: bind_def)
  next
    case (Inr x)
    obtain t where "proj (snd (f x h1)) = proj h1 @ t" "length t \<le> d"
      using assms(2) by (auto simp: adds_def)
    then show ?thesis using s m Inr by (intro exI [of _ "s @ t"]) (simp add: bind_def)
  qed
qed

lemma adds_seq: "adds proj c m \<Longrightarrow> adds proj d n \<Longrightarrow> adds proj (c + d) (seq m n)"
  unfolding seq_def by (rule adds_bind)

lemma adds_catch:
  assumes "adds proj c m" and "\<And>e. adds proj d (k e)"
  shows "adds proj (c + d) (catch m k)"
  unfolding adds_def
proof
  fix h
  obtain r h1 where m: "m h = (r, h1)" by fastforce
  obtain s where s: "proj h1 = proj h @ s" "length s \<le> c" using addsD [OF assms(1) m] by blast
  have k: "\<exists>t. proj (snd (k e h1)) = proj h @ t \<and> length t \<le> c + d" for e
  proof -
    obtain t where "proj (snd (k e h1)) = proj h1 @ t" "length t \<le> d" using assms(2) by (auto simp: adds_def)
    then show ?thesis using s by (intro exI [of _ "s @ t"]) simp
  qed
  show "\<exists>t. proj (snd (catch m k h)) = proj h @ t \<and> length t \<le> c + d"
  proof (cases "\<exists>e. r = Inl e \<and> (\<forall>n. e \<noteq> JsExit n)")
    case True
    then obtain e where "r = Inl e" "\<And>n. e \<noteq> JsExit n" by blast
    then have "catch m k h = k e h1" using m by (simp add: catch_def split: js_error.split)
    then show ?thesis using k by simp
  next
    case False
    then have "snd (catch m k h) = h1" using m by (auto simp: catch_def split: sum.split js_error.split)
    then show ?thesis using s by (intro exI [of _ s]) simp
  qed
qed

section \<open>Simulations\<close>

fun simulation_ev :: "event \<Rightarrow> js_val list list" where
  "simulation_ev (EvOk (ReqRpc m args) r) = (if m = ''eth_estimateGas'' then [args] else [])"
| "simulation_ev (EvFail (ReqRpc m args) e) = (if m = ''eth_estimateGas'' then [args] else [])"
| "simulation_ev _ = []"

fun passed_ev :: "event \<Rightarrow> js_val list list" where
  "passed_ev (EvOk (ReqRpc m args) r) = (if m = ''eth_estimateGas'' then [args] else [])"
| "passed_ev _ = []"

definition simulations :: "history \<Rightarrow> js_val list list" where
  "simulations h = concat (map simulation_ev h)"

definition passed :: "history \<Rightarrow> js_val list list" where
  "passed h = concat (map passed_ev h)"

interpretation simulations: observation simulations
  by unfold_locales (simp add: simulations_def)

interpretation passed: observation passed
  by unfold_locales (simp add: passed_def)

lemma reads_not_simulated:
  "quiet simulations (call_view rt c m args)" "quiet passed (call_view rt c m args)"
  "quiet simulations (send_tx rt c m args)" "quiet simulations (wait_tx rt tx)"
  "quiet passed (send_tx rt c m args)" "quiet passed (wait_tx rt tx)"
  by (simp_all add: prim_defs simulations.quiet_perform passed.quiet_perform simulations_def passed_def)

section \<open>Retrying\<close>

lemma adds_retry: "adds proj c f \<Longrightarrow> adds proj (c * Suc n) (retry f n)"
proof (induction n)
  case 0
  have "adds proj (c + 0) (catch f throw)"
    by (rule adds_catch [OF 0]) (simp add: adds_def throw_def)
  then show ?case by (simp add: retry.simps [of f 0])
next
  case (Suc n)
  have "adds proj (c + c * Suc n) (catch f (\<lambda>err. retry f n))"
    by (rule adds_catch [OF Suc.prems Suc.IH [OF Suc.prems]])
  then show ?case by (simp add: retry.simps [of f "Suc n"])
qed

lemma retry_ok: "retry f n h = (Inr x, h') \<Longrightarrow> \<exists>h1. f h1 = (Inr x, h')"
proof (induction n arbitrary: h)
  case 0
  then show ?case by (cases "f h") (auto simp: retry.simps [of f 0] catch_def throw_def split: sum.splits js_error.splits)
next
  case (Suc n)
  then show ?case
    by (cases "f h") (auto simp: retry.simps [of f "Suc n"] catch_def split: sum.splits js_error.splits)
qed

lemma quiet_retried: "quiet proj f \<Longrightarrow> quiet proj (retry f n)"
  using adds_retry [of proj 0 f n] by (simp add: quiet_adds)

lemma catch_result:
  "catch m k h = (Inr x, h') \<Longrightarrow> m h = (Inr x, h') \<or> (\<exists>e h1. m h = (Inl e, h1) \<and> k e h1 = (Inr x, h'))"
  by (cases "m h") (auto simp: catch_def split: sum.splits js_error.splits)

end
