(* ===== verification/SwapRoutes.thy ===== *)
theory SwapRoutes
  imports AutoRepayBot
begin

text \<open>
  Swap paths between the five assets: which tokens a path has to begin and to end with, and the keys of
  the tables of paths.
\<close>

text \<open>
  The contract swaps along the path as it is given: it must begin at the collateral, or at its aToken
  when \<open>useATokenAsFrom\<close> keeps the aTokens, and end at the debt asset, or at its aToken when
  \<open>useATokenAsTo\<close> redeems them. The code knows three aTokens.
\<close>

definition bot_assets :: "string list" where
  "bot_assets = [CELO_address, cUSD_address, cEUR_address, cREAL_address, MOO_address]"

definition known_aToken :: "string \<Rightarrow> string option" where
  "known_aToken a = obj_get [(CELO_address, mceloAddress), (cUSD_address, mcusdAddress), (cEUR_address, mceurAddress)] a"

definition swap_end :: "bool \<Rightarrow> string \<Rightarrow> string option" where
  "swap_end aToken asset = (if aToken then known_aToken asset else Some asset)"

definition route_fits :: "swap_route \<Rightarrow> string \<Rightarrow> string \<Rightarrow> bool" where
  "route_fits r a b \<longleftrightarrow> route_path r \<noteq> [] \<and> swap_end (useATokenAsFrom r) a = Some (hd (route_path r))
     \<and> swap_end (useATokenAsTo r) b = Some (last (route_path r))"

lemma toLowerCase_idem [simp]: "toLowerCase (toLowerCase s) = toLowerCase s"
proof -
  have "lower_char (lower_char c) = lower_char c" for c
    by (simp add: lower_char_def Let_def of_char_of)
  then show ?thesis by (simp add: toLowerCase_def)
qed

lemma length_toLowerCase [simp]: "length (toLowerCase s) = length s"
  by (simp add: toLowerCase_def)

lemma toLowerCase_append [simp]: "toLowerCase (s @ t) = toLowerCase s @ toLowerCase t"
  by (simp add: toLowerCase_def)

lemma toLowerCase_addresses:
  "toLowerCase CELO_address = ''0x471ece3750da237f93b8e339c536989b8978a438''"
  "toLowerCase cUSD_address = ''0x765de816845861e75a25fca122bb6898b8b1282a''"
  "toLowerCase cEUR_address = ''0xd8763cba276a3738e6de85b4b3bf5fded6d6ca73''"
  "toLowerCase cREAL_address = ''0xe8537a3d056da446677b9e9d6c5db704eaab4787''"
  "toLowerCase MOO_address = ''0x17700282592d6917f6a73d0bf8accf4d578c131e''"
  by code_simp+

text \<open>The assets and the three aTokens are different addresses, and so are the keys of different pairs.\<close>

lemma distinct_addresses:
  "distinct [CELO_address, cUSD_address, cEUR_address, cREAL_address, MOO_address,
     mceloAddress, mcusdAddress, mceurAddress]"
  "distinct [mceurAddress, mcusdAddress, mceloAddress,
     MOO_address, cREAL_address, cEUR_address, cUSD_address, CELO_address]"
  by code_simp+

lemma toLowerCase_inj:
  assumes "a \<in> set bot_assets" "b \<in> set bot_assets"
  shows "toLowerCase a = toLowerCase b \<longleftrightarrow> a = b"
  using assms by (auto simp: bot_assets_def toLowerCase_addresses)

lemma path_key_split: "path_key a b = toLowerCase a @ ''_'' @ toLowerCase b"
proof -
  have "toLowerCase ''_'' = ''_''" by code_simp
  then show ?thesis by (simp add: path_key_def del: append_Cons)
qed

lemma bot_asset_length: "a \<in> set bot_assets \<Longrightarrow> length a = 42"
  by (auto simp: bot_assets_def CELO_address_def cUSD_address_def cEUR_address_def cREAL_address_def MOO_address_def)

lemma path_key_eq:
  assumes "a \<in> set bot_assets" "b \<in> set bot_assets" "c \<in> set bot_assets" "d \<in> set bot_assets"
  shows "path_key a b = path_key c d \<longleftrightarrow> a = c \<and> b = d"
proof -
  have "length (toLowerCase a) = length (toLowerCase c)"
    using assms by (simp add: bot_asset_length)
  then show ?thesis by (simp add: path_key_split toLowerCase_inj assms)
qed

lemma route_key: "toLowerCase a @ CHR ''_'' # toLowerCase b = path_key a b"
  by (simp add: path_key_split)

lemmas swap_path_defs = celo_cusd_def celo_ceur_def celo_creal_def celo_moo_def cusd_ceur_def cusd_creal_def
  cusd_moo_def ceur_creal_def ceur_moo_def creal_moo_def

end
