(* ===== verification/AutoRepayTheorems.thy ===== *)
theory AutoRepayTheorems
  imports Simulations SwapRoutes Demo
begin

text \<open>
  The bot: its repayment ends after four simulations, and sends at most one transaction, one that has
  been simulated; the swap paths that fit their flags and those that do not.
\<close>

section \<open>Simulations\<close>

definition simulation_of :: "repay_job \<Rightarrow> js_val list \<Rightarrow> js_val list" where
  "simulation_of job args =
     [VStr autoRepay_address, VStr ''increaseHealthFactor'', VList args, call_options job]"

lemma estimate_adds: "adds simulations 1 (estimateGas rt job args)"
  by (auto simp: adds_def estimateGas_def rpc_send_def perform_def simulations.proj_append simulations_def
      split: sum.split)

lemma estimate_adds_passed: "adds passed 1 (estimateGas rt job args)"
  by (auto simp: adds_def estimateGas_def rpc_send_def perform_def passed.proj_append passed_def
      split: sum.split)

lemma estimate_passed:
  "estimateGas rt job args h = (Inr x, h') \<Longrightarrow> simulation_of job args \<in> set (passed h')"
  by (auto simp: estimateGas_def rpc_send_def perform_ok passed.proj_append passed_def simulation_of_def)

lemma quiet_estimate: "quiet sent (estimateGas rt job args)"
  unfolding estimateGas_def by (intro quiet_intros)

section \<open>One repayment\<close>

lemma method_quiet:
  "quiet sent (increaseHealthFactorMethod rt M job x b)" "quiet simulations (increaseHealthFactorMethod rt M job x b)"
  "quiet passed (increaseHealthFactorMethod rt M job x b)"
  "quiet sent (amounts_in rt job s)" "quiet simulations (amounts_in rt job s)" "quiet passed (amounts_in rt job s)"
proof -
  show 1: "quiet sent (amounts_in rt job s)" for s
    unfolding amounts_in_def by (intro sent.quiet_bind quiet_sent) (auto intro!: quiet_intros split: js_val.split list.split)
  show 2: "quiet simulations (amounts_in rt job s)" for s
    unfolding amounts_in_def
    by (intro simulations.quiet_bind reads_not_simulated) (auto intro!: simulations.quiet_ret simulations.quiet_throw split: js_val.split list.split)
  show 3: "quiet passed (amounts_in rt job s)" for s
    unfolding amounts_in_def
    by (intro passed.quiet_bind reads_not_simulated) (auto intro!: passed.quiet_ret passed.quiet_throw split: js_val.split list.split)
  show "quiet sent (increaseHealthFactorMethod rt M job x b)"
    unfolding increaseHealthFactorMethod_def Let_def by (intro 1 quiet_intros)
  show "quiet simulations (increaseHealthFactorMethod rt M job x b)"
    unfolding increaseHealthFactorMethod_def Let_def by (intro 2 simulations.quiet_bind simulations.quiet_ret)
  show "quiet passed (increaseHealthFactorMethod rt M job x b)"
    unfolding increaseHealthFactorMethod_def Let_def by (intro 3 passed.quiet_bind passed.quiet_ret)
qed

lemma prefer_adds:
  "adds simulations 6 (prefer_no_flashloan rt M job x args)" "adds passed 6 (prefer_no_flashloan rt M job x args)"
proof -
  have ret: "adds proj c (ret y)" for proj :: "history \<Rightarrow> 'o list" and c and y :: 'c by (simp add: adds_def ret_def)
  have six: "adds simulations (0 + (0 + (6 + 0)) + 0) (prefer_no_flashloan rt M job x args)"
    unfolding prefer_no_flashloan_def case_prod_beta
    by (intro adds_catch adds_bind adds_seq ret adds_quiet [OF method_quiet(2)] adds_quiet [OF method_quiet(5)]
        adds_retry [OF estimate_adds, of 5, simplified])
  then show "adds simulations 6 (prefer_no_flashloan rt M job x args)" by simp
  have six: "adds passed (0 + (0 + (6 + 0)) + 0) (prefer_no_flashloan rt M job x args)"
    unfolding prefer_no_flashloan_def case_prod_beta
    by (intro adds_catch adds_bind adds_seq ret adds_quiet [OF method_quiet(3)] adds_quiet [OF method_quiet(6)]
        adds_retry [OF estimate_adds_passed, of 5, simplified])
  then show "adds passed 6 (prefer_no_flashloan rt M job x args)" by simp
qed

lemma simulate_adds: "adds simulations 12 (simulate rt M job x args)"
proof -
  have ret: "adds simulations 0 (ret y)" for y :: 'c by (simp add: adds_def ret_def)
  have "adds simulations (6 + (6 + 0) + 0) (simulate rt M job x args)"
    unfolding simulate_def
    by (intro adds_catch adds_seq adds_bind ret prefer_adds adds_retry [OF estimate_adds, of 5, simplified])
  then show ?thesis by simp
qed

lemma quiet_simulate: "quiet sent (simulate rt M job x args)"
  unfolding simulate_def prefer_no_flashloan_def case_prod_beta
  by (intro quiet_intros quiet_retried quiet_estimate method_quiet)

lemma retry_passed:
  "retry (estimateGas rt job args) n h = (Inr x, h') \<Longrightarrow> simulation_of job args \<in> set (passed h')"
  by (auto dest!: retry_ok dest: estimate_passed)

lemma passed_grows: "adds passed c m \<Longrightarrow> m h = (r, h') \<Longrightarrow> set (passed h) \<subseteq> set (passed h')"
  by (auto dest!: addsD)

text \<open>A method that the simulation yields has passed a simulation.\<close>

lemma simulate_passed:
  assumes "simulate rt M job x args h = (Inr (Some b), h')"
  shows "simulation_of job b \<in> set (passed h')"
proof -
  obtain u h1 where r: "retry (estimateGas rt job args) 5 h = (Inr u, h1)"
    and p: "prefer_no_flashloan rt M job x args h1 = (Inr b, h')"
    using assms by (auto simp: simulate_def ok_simps dest!: catch_result)
  have old: "simulation_of job args \<in> set (passed h')"
    using retry_passed [OF r] passed_grows [OF prefer_adds(2) p] by blast
  show ?thesis
    using p old unfolding prefer_no_flashloan_def
    by (auto simp: ok_simps dest!: catch_result dest: retry_passed)
qed

definition repayment_tx :: "repay_job \<Rightarrow> js_val list \<Rightarrow> tx_obs" where
  "repayment_tx job args =
     (Some (caller_address job), autoRepay_address, ''increaseHealthFactor'', args @ [call_options job])"

lemma send_repayment_follows: "follows sent (send_repayment rt job args) [repayment_tx job args]"
  using sent.follows_bind [OF follows_send_tx sent.follows_quiet [OF quiet_sent(2)],
      of rt "bot_contract ''AutoRepay'' autoRepay_address job" "''increaseHealthFactor''" "args @ [call_options job]"]
  by (simp add: send_repayment_def repayment_tx_def bot_contract_def)

text \<open>At most one transaction, after a simulation of it that passed.\<close>

definition sends_simulated :: "repay_job \<Rightarrow> history \<Rightarrow> history \<Rightarrow> bool" where
  "sends_simulated job h h' \<longleftrightarrow> sent h' = sent h
     \<or> (\<exists>args. sent h' = sent h @ [repayment_tx job args] \<and> simulation_of job args \<in> set (passed h'))"

lemma send_repayment_passed: "adds passed 0 (send_repayment rt job args)"
  unfolding send_repayment_def quiet_adds [symmetric] by (intro passed.quiet_bind reads_not_simulated)

declare repaySimulation.simps [simp del]

lemma repaySimulation_cases:
  assumes "repaySimulation (Suc n) rt M job x a h = (r, h')"
  shows "(sent h' = sent h \<and> r \<noteq> Inr False) \<or>
    (\<exists>h1 y. sent h1 = sent h \<and> a \<noteq> 4 \<and> repaySimulation n rt M job y (a + 1) h1 = (r, h')) \<or>
    (\<exists>h1 args. sent h1 = sent h \<and> simulation_of job args \<in> set (passed h1)
       \<and> seq (send_repayment rt job args) (ret True) h1 = (r, h'))"
proof -
  obtain q1 h1 where 1: "increaseHealthFactorMethod rt M job x True h = (q1, h1)" by fastforce
  have s1: "sent h1 = sent h" by (rule quietD [OF method_quiet(1) 1])
  show ?thesis
  proof (cases q1)
    case (Inl e)
    then show ?thesis using assms 1 s1 by (auto simp: repaySimulation.simps bind_def)
  next
    case (Inr m)
    obtain args total where m: "m = (args, total)" by fastforce
    obtain q2 h2 where 2: "call_str rt (bot_contract ''MToken'' (mToken_address job) job) ''allowance''
        [VStr (job_user job), VStr autoRepay_address] h1 = (q2, h2)" by fastforce
    have s2: "sent h2 = sent h" using quietD [OF quiet_call_str(1) 2] s1 by simp
    show ?thesis
    proof (cases q2)
      case (Inl e)
      then show ?thesis using assms 1 2 s2 Inr m by (auto simp: repaySimulation.simps bind_def)
    next
      case (Inr allowance)
      note run = assms [unfolded repaySimulation.simps bind_def 1 \<open>q1 = Inr m\<close> m prod.case sum.case 2 Inr]
      obtain q3 h3 where 3: "simulate rt M job x args h2 = (q3, h3)" by fastforce
      have s3: "sent h3 = sent h" using quietD [OF quiet_simulate 3] s2 by simp
      show ?thesis
        using run 3 s2 s3 simulate_passed
        by (cases q3) (fastforce simp: bind_def ret_def split: if_splits option.splits)+
    qed
  qed
qed

lemma repay_adds: "adds simulations (12 * n) (repaySimulation n rt M job x a)"
proof (induction n arbitrary: x a)
  case 0
  show ?case by (simp add: repaySimulation.simps adds_def ret_def)
next
  case (Suc n)
  have ret: "adds simulations c (ret y)" for c and y :: bool by (simp add: adds_def ret_def)
  have sends: "adds simulations 0 (seq (send_repayment rt job args) (ret True))" for args
    unfolding send_repayment_def quiet_adds [symmetric]
    by (intro simulations.quiet_seq simulations.quiet_bind simulations.quiet_ret reads_not_simulated)
  have branch: "adds simulations (12 * n) (case found of
       None \<Rightarrow> if a = 4 then ret True
         else repaySimulation n rt M job (div_bn M (times_bn M x (int_bn M (100 - int a * 25))) (int_bn M 100)) (a + 1)
     | Some args' \<Rightarrow> seq (send_repayment rt job args') (ret True))" for found
    using Suc.IH adds_mono [OF sends, of "12 * n"] by (auto simp: ret split: option.split)
  have calls: "adds simulations 0 (call_str rt c m args)" for c m args
    unfolding call_str_def quiet_adds [symmetric] by (intro simulations.quiet_bind simulations.quiet_ret reads_not_simulated)
  have inner: "adds simulations (12 + 12 * n) (if b then ret True else bind (simulate rt M job x args) (\<lambda>found.
      case found of
       None \<Rightarrow> if a = 4 then ret True
         else repaySimulation n rt M job (div_bn M (times_bn M x (int_bn M (100 - int a * 25))) (int_bn M 100)) (a + 1)
     | Some args' \<Rightarrow> seq (send_repayment rt job args') (ret True)))" for b args
    by (cases b) (simp_all only: if_True if_False ret adds_bind [OF simulate_adds branch])
  have "adds simulations (0 + (0 + (12 + 12 * n))) (repaySimulation (Suc n) rt M job x a)"
    unfolding repaySimulation.simps case_prod_beta
    by (intro adds_bind calls inner adds_quiet [OF method_quiet(2)])
  then show ?case by simp
qed

lemma repay_run:
  "repaySimulation n rt M job x a h = (r, h') \<Longrightarrow> a \<le> 4 \<Longrightarrow> 5 - a \<le> n \<Longrightarrow> r \<noteq> Inr False \<and> sends_simulated job h h'"
proof (induction n arbitrary: x a h)
  case 0
  then show ?case by simp
next
  case (Suc n)
  from repaySimulation_cases [OF Suc.prems(1)] show ?case
  proof (elim disjE exE conjE)
    assume "sent h' = sent h" "r \<noteq> Inr False"
    then show ?thesis by (simp add: sends_simulated_def)
  next
    fix h1 y assume same: "sent h1 = sent h" and "a \<noteq> 4" and run: "repaySimulation n rt M job y (a + 1) h1 = (r, h')"
    then have "a + 1 \<le> 4" "5 - (a + 1) \<le> n" using Suc.prems by auto
    from Suc.IH [OF run this] show ?thesis using same by (simp add: sends_simulated_def)
  next
    fix h1 args assume same: "sent h1 = sent h" and sim: "simulation_of job args \<in> set (passed h1)"
      and run: "seq (send_repayment rt job args) (ret True) h1 = (r, h')"
    obtain q where q: "send_repayment rt job args h1 = (q, h')" and r: "r \<noteq> Inr False"
      using run by (cases "send_repayment rt job args h1") (auto simp: seq_def bind_def ret_def split: sum.splits)
    have "simulation_of job args \<in> set (passed h')"
      using passed_grows [OF send_repayment_passed q] sim by blast
    moreover obtain t where "prefix t [repayment_tx job args]" "sent h' = sent h1 @ t"
      using sent.follows_any [OF send_repayment_follows q] by blast
    ultimately show ?thesis
      using r same by (auto simp: sends_simulated_def prefix_Cons)
  qed
qed

lemma repay_fuel:
  "a \<le> 4 \<Longrightarrow> 5 - a \<le> n \<Longrightarrow> 5 - a \<le> k \<Longrightarrow> repaySimulation n rt M job x a = repaySimulation k rt M job x a"
proof (induction n arbitrary: k x a)
  case 0
  then show ?case by simp
next
  case (Suc n)
  then obtain k' where k: "k = Suc k'" by (cases k) auto
  show ?case
  proof (cases "a = 4")
    case True
    then show ?thesis unfolding k repaySimulation.simps by simp
  next
    case False
    then have "repaySimulation n rt M job y (a + 1) = repaySimulation k' rt M job y (a + 1)" for y
      using Suc.prems k by (intro Suc.IH) auto
    then show ?thesis unfolding k repaySimulation.simps by (simp only:)
  qed
qed

text \<open>
  C20. The repayment of one user ends after at most four attempts: from the first attempt on, a
  recursion depth of four is enough, and more changes nothing. Whatever the node answers, it asks for
  at most 48 gas estimates, and it sends at most one transaction: from the bot's account to the
  contract \<open>AutoRepay\<close>, with arguments for which a gas estimate has succeeded before.
\<close>

theorem repaySimulation_ends:
  assumes "repaySimulation n rt M job amount 1 h = (r, h')" and "4 \<le> n"
  shows "r \<noteq> Inr False \<and> repaySimulation 4 rt M job amount 1 h = (r, h')
    \<and> (\<exists>t. simulations h' = simulations h @ t \<and> length t \<le> 48)
    \<and> (sent h' = sent h \<or> (\<exists>args. sent h' = sent h @ [repayment_tx job args]
         \<and> simulation_of job args \<in> set (passed h')))"
proof -
  have four: "repaySimulation 4 rt M job amount 1 h = (r, h')"
    using repay_fuel [of 1 n 4 rt M job amount] assms by simp
  have "\<exists>t. simulations h' = simulations h @ t \<and> length t \<le> 48"
    using addsD [OF repay_adds [of 4 rt M job amount 1] four] by simp
  then show ?thesis using four repay_run [OF four] by (simp add: sends_simulated_def)
qed

definition bot_rt :: runtime where
  "bot_rt = demo_rt\<lparr> ext_call := (\<lambda>h a m args. Inr (
     if m = ''getAmountsIn'' then VList [VStr ''1000'', VStr ''900''] else VStr ''1000000'')),
     ext_rpc := (\<lambda>h m args. Inl (JsRejected ''execution reverted'')) \<rparr>"

definition bot_job :: repay_job where
  "bot_job = \<lparr> job_user = ''0xuser'', collateralAddress = toLowerCase CELO_address,
     borrowAddress = toLowerCase cUSD_address,
     swapRoute = \<lparr> route_path = celo_cusd, useATokenAsFrom = False, useATokenAsTo = True \<rparr>,
     rateMode = 2, mToken_address = mceloAddress, caller_address = ''0xbot'' \<rparr>"

lemma repaySimulation_ends_witness:
  "fst (repaySimulation 7 bot_rt (rat_math 20 ROUND_HALF_UP) bot_job 900 1 []) \<noteq> Inr False
    \<and> repaySimulation 4 bot_rt (rat_math 20 ROUND_HALF_UP) bot_job 900 1 []
      = repaySimulation 7 bot_rt (rat_math 20 ROUND_HALF_UP) bot_job 900 1 []"
  using repaySimulation_ends [of 7 bot_rt "rat_math 20 ROUND_HALF_UP" bot_job 900 "[]",
      OF prod.collapse [symmetric]] by simp

section \<open>The swap paths\<close>

definition fits :: "string \<times> string \<Rightarrow> bool" where
  "fits pair = (case pair of (a, b) \<Rightarrow>
     (case route_between (toLowerCase a) (toLowerCase b) of Inl _ \<Rightarrow> False | Inr r \<Rightarrow> route_fits r a b))"

text \<open>
  C33. Of the pairs of collateral and debt, the bot has a path that begins and ends at the right tokens
  for all but the five with equal assets, for which it has none and fails with a TypeError (the
  contract would repay them without a swap), and seven others: CELO and MOO in both directions, MOO
  with cEUR in both, MOO with cREAL in both, and cREAL to cEUR, whose path leads to CELO.
\<close>

theorem misrouted_pairs:
  "filter (\<lambda>p. \<not> fits p) (List.product bot_assets bot_assets) =
    [(CELO_address, CELO_address), (CELO_address, MOO_address),
     (cUSD_address, cUSD_address),
     (cEUR_address, cEUR_address), (cEUR_address, MOO_address),
     (cREAL_address, cEUR_address), (cREAL_address, cREAL_address), (cREAL_address, MOO_address),
     (MOO_address, CELO_address), (MOO_address, cEUR_address), (MOO_address, cREAL_address), (MOO_address, MOO_address)]"
proof -
  have keys: "bot_assets = [CELO_address, cUSD_address, cEUR_address, cREAL_address, MOO_address]"
    by (simp add: bot_assets_def)
  show ?thesis
    by (simp add: keys fits_def route_fits_def route_between_def route_key bot_paths_def path_key_eq obj_get_def swap_end_def
        known_aToken_def swap_path_defs distinct_addresses [simplified])
qed

end
