(* ===== verification/ClientEnv.thy ===== *)
theory ClientEnv
  imports AutoRepayBot
begin

text \<open>
  The first part of \<open>cli.js\<close>, the command line client: its constants and checks of arguments, the
  contracts of the three kinds of network, the swap paths, and the choice between a token and its
  aToken for a swap. Contracts are called through web3: a call is a \<open>call_view\<close>, a simulation the
  request \<open>eth_estimateGas\<close>, a transaction a \<open>send_tx\<close> that is waited for.
\<close>

section \<open>Libraries\<close>

text \<open>
  What the client takes from its packages: bignumber.js with \<open>toFixed(n)\<close>, \<open>web3.utils.toWei\<close>, the
  checksum that \<open>new Contract(abi, address)\<close> applies to its address, \<open>toLocaleString\<close> of a date
  given in milliseconds, and the ABI encoder of ethers. An amount that is handed to a contract as a
  BigNumber is its decimal string.
\<close>

record 'b cli_lib =
  math :: "'b bn_math"
  toWei :: "string \<Rightarrow> js_error + string"
  checksum :: "string \<Rightarrow> string"
  fixed_places :: "nat \<Rightarrow> 'b \<Rightarrow> string"
  local_time :: "'b \<Rightarrow> string"
  abi_encode :: "js_val \<Rightarrow> string"

definition to_wei :: "'b cli_lib \<Rightarrow> string option \<Rightarrow> js_error + string" where
  "to_wei L s = (case s of
       None \<Rightarrow> Inl (JsError ''Please pass numbers as strings or BN objects to avoid precision errors.'')
     | Some x \<Rightarrow> toWei L x)"

section \<open>Numbers\<close>

definition one_ray :: string where "one_ray = ''1000000000000000000000000000''"
definition maxUint256 :: string where
  "maxUint256 = ''0xffffffffffffffffffffffffffffffffffffffffffffffffffffffffffffffff''"
definition zeroHash :: string where
  "zeroHash = ''0x0000000000000000000000000000000000000000000000000000000000000000''"

definition BN :: "'b cli_lib \<Rightarrow> string \<Rightarrow> 'b" where
  "BN L num = str_bn (math L) num"

definition ALLOWANCE_THRESHOLD :: "'b cli_lib \<Rightarrow> 'b" where
  "ALLOWANCE_THRESHOLD L = BN L ''1e+30''"

definition print_ether :: "'b cli_lib \<Rightarrow> 'b \<Rightarrow> string" where
  "print_ether L num = bn_toFixed (api (math L)) (div_bn (math L) num (BN L ether))"

definition printRay :: "'b cli_lib \<Rightarrow> 'b \<Rightarrow> string" where
  "printRay L num = bn_toFixed (api (math L)) (div_bn (math L) num (BN L one_ray))"

definition printRayRate :: "'b cli_lib \<Rightarrow> 'b \<Rightarrow> string" where
  "printRayRate L num =
     fixed_places L 2 (times_bn (math L) (div_bn (math L) num (BN L one_ray)) (int_bn (math L) 100)) @ ''%''"

section \<open>Checks of arguments\<close>

text \<open>The parameter at an index, \<open>undefined\<close> beyond the last one.\<close>

definition param :: "string list \<Rightarrow> nat \<Rightarrow> string option" where
  "param ps i = (if i < length ps then Some (ps ! i) else None)"

definition INTEREST_RATE :: "js_val js_obj" where
  "INTEREST_RATE = [(''NONE'', VNum 0), (''STABLE'', VNum 1), (''VARIABLE'', VNum 2),
     (''1'', VStr ''STABLE''), (''2'', VStr ''VARIABLE''), (''0'', VStr ''NONE'')]"

definition interest_rate :: "string \<Rightarrow> js_val" where
  "interest_rate s = (case obj_get INTEREST_RATE (to_upper s) of None \<Rightarrow> VUndef | Some v \<Rightarrow> v)"

definition isValidRateMode :: "string option \<Rightarrow> bool" where
  "isValidRateMode mode = (case mode of None \<Rightarrow> False | Some s \<Rightarrow> s \<noteq> '''' \<and> js_truthy (interest_rate s))"

definition getRateModeNumber :: "string option \<Rightarrow> js_error + js_val" where
  "getRateModeNumber mode = (case mode of
       None \<Rightarrow> Inl (JsTypeError ''Cannot read property toUpperCase of undefined'')
     | Some s \<Rightarrow> Inr (interest_rate s))"

text \<open>The field of the reserve's tokens for a rate, \<open>DEBT_TOKENS[rate]\<close>.\<close>

fun debt_token_field :: "js_val \<Rightarrow> string option" where
  "debt_token_field (VNum n) = (if n = 1 then Some ''stableDebtTokenAddress''
     else if n = 2 then Some ''variableDebtTokenAddress'' else None)"
| "debt_token_field _ = None"

text \<open>
  \<open>isNaN(s)\<close> converts a string to a number: blanks around it are dropped, an empty string is zero, and
  otherwise it is a decimal literal with an optional sign and exponent, a signed \<open>Infinity\<close>, or an
  unsigned literal in base 16, 8 or 2.
\<close>

definition is_blank :: "char \<Rightarrow> bool" where
  "is_blank c \<longleftrightarrow> (of_char c :: nat) \<in> {9, 10, 11, 12, 13, 32, 160}"

definition trim :: "string \<Rightarrow> string" where
  "trim s = rev (dropWhile is_blank (rev (dropWhile is_blank s)))"

definition is_digit :: "char \<Rightarrow> bool" where
  "is_digit c \<longleftrightarrow> char_digit c \<noteq> None"

definition without_sign :: "string \<Rightarrow> string" where
  "without_sign s = (case s of [] \<Rightarrow> [] | c # r \<Rightarrow> if c \<in> set ''+-'' then r else s)"

definition exponent_part :: "string \<Rightarrow> bool" where
  "exponent_part s = (case s of [] \<Rightarrow> True
     | c # r \<Rightarrow> c \<in> set ''eE'' \<and> without_sign r \<noteq> [] \<and> list_all is_digit (without_sign r))"

definition decimal_literal :: "string \<Rightarrow> bool" where
  "decimal_literal s =
     (let whole = takeWhile is_digit s; rest = dropWhile is_digit s in
      case rest of
        [] \<Rightarrow> whole \<noteq> []
      | c # r \<Rightarrow>
          if c = CHR ''.'' then (whole \<noteq> [] \<or> takeWhile is_digit r \<noteq> []) \<and> exponent_part (dropWhile is_digit r)
          else whole \<noteq> [] \<and> exponent_part rest)"

definition based_literal :: "string \<Rightarrow> bool" where
  "based_literal s = (case s of
       z # b # r \<Rightarrow> z = CHR ''0'' \<and> r \<noteq> [] \<and>
         (b \<in> set ''xX'' \<and> list_all (\<lambda>c. c \<in> set ''0123456789abcdefABCDEF'') r \<or>
          b \<in> set ''oO'' \<and> list_all (\<lambda>c. c \<in> set ''01234567'') r \<or>
          b \<in> set ''bB'' \<and> list_all (\<lambda>c. c \<in> set ''01'') r)
     | _ \<Rightarrow> False)"

definition isNumeric :: "string option \<Rightarrow> bool" where
  "isNumeric num = (case num of None \<Rightarrow> False
     | Some s \<Rightarrow> (let t = trim s in
         t = [] \<or> based_literal t \<or> without_sign t = ''Infinity'' \<or> decimal_literal (without_sign t)))"

definition isValidBoolean :: "string option \<Rightarrow> bool" where
  "isValidBoolean s \<longleftrightarrow> s = Some ''true'' \<or> s = Some ''false''"

section \<open>Networks\<close>

text \<open>
  The addresses a network has: \<open>options.address\<close> of the contracts, after the checksum. Two of the
  contracts are not assigned on every network. (\<open>liquiditySwapAdapter\<close> is assigned and never read.)
\<close>

record cli_net =
  at_addressProvider :: string
  at_cEUR :: string
  at_cUSD :: string
  at_cREAL :: string
  at_MOO :: string
  at_CELO :: string
  at_dataProvider :: string
  at_migrator :: string
  at_swapAdapter :: string
  at_repayAdapter :: string
  at_autoRepay :: string
  at_ubeswap :: string
  at_leverageBorrowAdapter :: "string option"
  at_repayDelegationHelper :: "string option"
  privateKeyRequired :: bool

definition test_net :: "'b cli_lib \<Rightarrow> cli_net" where
  "test_net L = \<lparr>
     at_addressProvider = checksum L ''0xb3072f5F0d5e8B9036aEC29F37baB70E86EA0018'',
     at_cEUR = checksum L ''0x10c892a6ec43a53e45d0b916b4b7d383b1b78c0f'',
     at_cUSD = checksum L ''0x874069Fa1Eb16D44d622F2e0Ca25eeA172369bC1'',
     at_cREAL = checksum L ''0xE4D517785D091D3c54818832dB6094bcc2744545'',
     at_MOO = checksum L ''0x17700282592D6917F6A73D0bF8AcCf4D578c131e'',
     at_CELO = checksum L ''0xF194afDf50B03e69Bd7D057c1Aa9e10c9954E4C9'',
     at_dataProvider = checksum L ''0x31ccB9dC068058672D96E92BAf96B1607855822E'',
     at_migrator = checksum L ''0x78660A4bbe5108c8258c39696209329B3bC214ba'',
     at_swapAdapter = checksum L ''0xa7174954cD0B7D2Fd3237D24bD874e74c53E5796'',
     at_repayAdapter = checksum L ''0x71b570D5f0Ec771A396F947E7E2870042dB9bA57'',
     at_autoRepay = checksum L ''0x19F8322CaC86623432e9142a349504DE6754f12A'',
     at_ubeswap = checksum L ''0xe3d8bd6aed4f159bc8000a9cd47cffdb95f96121'',
     at_leverageBorrowAdapter = None,
     at_repayDelegationHelper = Some (checksum L ''0xeEe3D107c387B04A8e07B7732f0ED0f6ED990882''),
     privateKeyRequired = True \<rparr>"

definition main_net :: "'b cli_lib \<Rightarrow> cli_net" where
  "main_net L = \<lparr>
     at_addressProvider = checksum L ''0xD1088091A174d33412a968Fa34Cb67131188B332'',
     at_cEUR = checksum L ''0xD8763CBa276a3738E6DE85b4b3bF5FDed6D6cA73'',
     at_cUSD = checksum L ''0x765DE816845861e75A25fCA122bb6898B8B1282a'',
     at_cREAL = checksum L ''0xe8537a3d056DA446677B9E9d6c5dB704EaAb4787'',
     at_MOO = checksum L ''0x17700282592D6917F6A73D0bF8AcCf4D578c131e'',
     at_CELO = checksum L ''0x471EcE3750Da237f93B8E339c536989b8978a438'',
     at_dataProvider = checksum L ''0x43d067ed784D9DD2ffEda73775e2CC4c560103A1'',
     at_migrator = checksum L ''0xB87ebF9CD90003B66CF77c937eb5628124fA0662'',
     at_swapAdapter = checksum L ''0x1C92B2eAea7c53Ac08A7B77151c2F0734b8e35b1'',
     at_repayAdapter = checksum L ''0xC96c78E46169cB854Dc793437A105F46F2435455'',
     at_autoRepay = checksum L ''0xeb1549caebf24dd83e1b5e48abedd81be240e408'',
     at_ubeswap = checksum L ''0xe3d8bd6aed4f159bc8000a9cd47cffdb95f96121'',
     at_leverageBorrowAdapter = Some (checksum L ''0x3dC0FCd3Aa6ca66a434086180e2604B9A9CFE781''),
     at_repayDelegationHelper = Some (checksum L ''0x480bB7669e15F96a85cf0CD4E766C368702b79Aa''),
     privateKeyRequired = True \<rparr>"

text \<open>A node of one's own: the contracts of the main network, without the delegation helper.\<close>

definition custom_net :: "'b cli_lib \<Rightarrow> cli_net" where
  "custom_net L = \<lparr>
     at_addressProvider = checksum L ''0xD1088091A174d33412a968Fa34Cb67131188B332'',
     at_cEUR = checksum L ''0xD8763CBa276a3738E6DE85b4b3bF5FDed6D6cA73'',
     at_cUSD = checksum L ''0x765DE816845861e75A25fCA122bb6898B8B1282a'',
     at_cREAL = checksum L ''0xe8537a3d056DA446677B9E9d6c5dB704EaAb4787'',
     at_MOO = checksum L ''0x17700282592D6917F6A73D0bF8AcCf4D578c131e'',
     at_CELO = checksum L ''0x471EcE3750Da237f93B8E339c536989b8978a438'',
     at_dataProvider = checksum L ''0x43d067ed784D9DD2ffEda73775e2CC4c560103A1'',
     at_migrator = checksum L ''0xB87ebF9CD90003B66CF77c937eb5628124fA0662'',
     at_swapAdapter = checksum L ''0x1C92B2eAea7c53Ac08A7B77151c2F0734b8e35b1'',
     at_repayAdapter = checksum L ''0xC96c78E46169cB854Dc793437A105F46F2435455'',
     at_autoRepay = checksum L ''0xeb1549caebf24dd83e1b5e48abedd81be240e408'',
     at_ubeswap = checksum L ''0xe3d8bd6aed4f159bc8000a9cd47cffdb95f96121'',
     at_leverageBorrowAdapter = Some (checksum L ''0x3dC0FCd3Aa6ca66a434086180e2604B9A9CFE781''),
     at_repayDelegationHelper = None,
     privateKeyRequired = False \<rparr>"

text \<open>With the addresses of the lending pool and of the price oracle, which the network is asked for.\<close>

record cli_env = cli_net +
  cli_network :: string
  cli_url :: string
  at_lendingPool :: string
  at_priceOracle :: string

definition tokens :: "cli_env \<Rightarrow> string js_obj" where
  "tokens E = [(''celo'', at_CELO E), (''cusd'', at_cUSD E), (''ceur'', at_cEUR E), (''creal'', at_cREAL E),
     (''moo'', at_MOO E)]"

text \<open>\<open>tokens[asset]\<close> and \<open>reserves[asset]\<close>, and the use of a token as an object.\<close>

definition token_at :: "cli_env \<Rightarrow> string option \<Rightarrow> string option" where
  "token_at E asset = (case asset of None \<Rightarrow> None | Some a \<Rightarrow> obj_get (tokens E) a)"

definition used :: "string option \<Rightarrow> js_error + string" where
  "used c = (case c of None \<Rightarrow> Inl (JsTypeError ''Cannot read property of undefined'') | Some a \<Rightarrow> Inr a)"

definition isValidAsset :: "cli_env \<Rightarrow> string option \<Rightarrow> bool" where
  "isValidAsset E asset \<longleftrightarrow> token_at E asset \<noteq> None"

section \<open>Contracts\<close>

record web3_method =
  m_target :: string
  m_name :: string
  m_args :: "js_val list"

definition web3_options :: "string option \<Rightarrow> int \<Rightarrow> js_val" where
  "web3_options from_addr gas = VObj [(''from'', opt_val from_addr), (''gas'', VNum gas)]"

text \<open>\<open>method.send({ from, gas })\<close> and \<open>method.estimateGas({ from, gas })\<close>\<close>

definition method_send :: "runtime \<Rightarrow> web3_method \<Rightarrow> string option \<Rightarrow> int \<Rightarrow> unit io" where
  "method_send rt m from_addr gas =
     bind (send_tx rt \<lparr> abi = '''', address = m_target m, signer = from_addr, deployer = None \<rparr> (m_name m)
             (m_args m @ [web3_options from_addr gas])) (\<lambda>tx.
     wait_tx rt tx)"

definition method_estimate :: "runtime \<Rightarrow> web3_method \<Rightarrow> string option \<Rightarrow> int \<Rightarrow> js_val io" where
  "method_estimate rt m from_addr gas = rpc_send rt ''eth_estimateGas''
     [VStr (m_target m), VStr (m_name m), VList (m_args m), web3_options from_addr gas]"

definition approve_method :: "string \<Rightarrow> string \<Rightarrow> js_val \<Rightarrow> web3_method" where
  "approve_method token spender amount =
     \<lparr> m_target = token, m_name = ''approve'', m_args = [VStr spender, amount] \<rparr>"

definition cli_retry :: "'a io \<Rightarrow> 'a io" where
  "cli_retry f = retry f 5"

text \<open>\<open>try { await retry(() => method.estimateGas(...)) }\<close>: whether the simulation passed.\<close>

definition simulated :: "runtime \<Rightarrow> web3_method \<Rightarrow> string option \<Rightarrow> int \<Rightarrow> bool io" where
  "simulated rt m from_addr gas =
     catch (seq (cli_retry (method_estimate rt m from_addr gas)) (ret True)) (\<lambda>err. ret False)"

text \<open>
  How the client ends when nothing is thrown: a message, a table, a simulation that failed, or the
  last step taken. \<open>CliRunning\<close> is the bot when the model stops watching it.
\<close>

datatype cli_result =
    CliUsage
  | CliUnknownNetwork
  | CliMissingKey
  | CliInvalid
  | CliText "string list"
  | CliTable "js_val js_obj"
  | CliCannot string
  | CliDone
  | CliRunning
  | CliUnknownAction

text \<open>\<open>if (privateKeyRequired) { pk = ...; if (!pk) return; kit.addAccount(pk); }\<close>\<close>

definition with_key :: "runtime \<Rightarrow> cli_env \<Rightarrow> string option \<Rightarrow> cli_result io \<Rightarrow> cli_result io" where
  "with_key rt E pk k =
     (if privateKeyRequired E
      then if truthy pk then seq (rpc_send rt ''addAccount'' [opt_val pk]) k else ret CliMissingKey
      else k)"

text \<open>\<open>if (!valid) return;\<close>\<close>

definition require :: "bool \<Rightarrow> cli_result io \<Rightarrow> cli_result io" where
  "require valid k = (if valid then k else ret CliInvalid)"

text \<open>The wallet key of the bot, \<open>process.env.CELO_BOT_PK || params[i]\<close>.\<close>

definition env_or :: "runtime \<Rightarrow> string \<Rightarrow> string option \<Rightarrow> string option" where
  "env_or rt name p = (if truthy (env_var rt name) then env_var rt name else p)"

definition reserve_tokens :: "runtime \<Rightarrow> cli_env \<Rightarrow> js_val \<Rightarrow> js_val io" where
  "reserve_tokens rt E reserve = view_at rt (at_dataProvider E) ''getReserveTokensAddresses'' [reserve]"

definition getMTokenAddress :: "runtime \<Rightarrow> cli_env \<Rightarrow> string \<Rightarrow> string io" where
  "getMTokenAddress rt E token =
     bind (reserve_tokens rt E (VStr token)) (\<lambda>d. ret (pos_str d ''aTokenAddress''))"

section \<open>A token or its aToken\<close>

record 'b best_quote =
  tokenFrom :: string
  tokenTo :: string
  amountOut :: 'b

text \<open>One step of \<open>Promise.reduce\<close>: a pair without a pool, whose call fails, is passed over.\<close>

definition better_quote ::
    "runtime \<Rightarrow> 'b cli_lib \<Rightarrow> cli_env \<Rightarrow> js_val \<Rightarrow> 'b best_quote \<Rightarrow> string \<times> string \<Rightarrow> 'b best_quote io" where
  "better_quote rt L E amount res pair = (case pair of (tFrom, tTo) \<Rightarrow>
     bind (attempt (view_at rt (at_ubeswap E) ''getAmountsOut'' [amount, VList [VStr tFrom, VStr tTo]])) (\<lambda>r.
     case r of
       Some (VList (_ # out # _)) \<Rightarrow>
         if lt_bn (math L) (amountOut res) (BN L (val_str out))
         then ret \<lparr> tokenFrom = tFrom, tokenTo = tTo, amountOut = BN L (val_str out) \<rparr>
         else ret res
     | _ \<Rightarrow> ret res))"

definition getUseMTokenFromTo ::
    "runtime \<Rightarrow> 'b cli_lib \<Rightarrow> cli_env \<Rightarrow> string \<Rightarrow> string \<Rightarrow> js_val \<Rightarrow> (bool \<times> bool \<times> 'b) io" where
  "getUseMTokenFromTo rt L E from_token to_token amount =
     bind (getMTokenAddress rt E from_token) (\<lambda>mFrom.
     bind (getMTokenAddress rt E to_token) (\<lambda>mTo.
     bind (fold_io (better_quote rt L E amount)
             \<lparr> tokenFrom = '''', tokenTo = '''', amountOut = int_bn (math L) 0 \<rparr>
             [(from_token, to_token), (from_token, mTo), (mFrom, mTo), (mFrom, to_token)]) (\<lambda>result.
     ret (mFrom = tokenFrom result, mTo = tokenTo result, amountOut result))))"

section \<open>Swap paths\<close>

text \<open>The table is not the bot's: the pairs with MOO differ, and cREAL to cEUR has its own path.\<close>

definition getSwapPath :: "cli_env \<Rightarrow> swap_route js_obj" where
  "getSwapPath E =
     (let celo_cusd = [at_CELO E, mcusdAddress];
          celo_ceur = [at_CELO E, mceurAddress];
          celo_creal = [at_CELO E, at_cUSD E, at_cREAL E];
          celo_moo = [mceloAddress, at_MOO E];
          cusd_ceur = [mcusdAddress, mceurAddress];
          cusd_creal = [at_cUSD E, at_cREAL E];
          cusd_moo = [at_cUSD E, at_CELO E, at_MOO E];
          ceur_creal = [at_cEUR E, at_CELO E, at_cUSD E, at_cREAL E];
          ceur_moo = [mceurAddress, at_CELO E, at_MOO E];
          creal_moo = [at_cREAL E, at_cUSD E, at_CELO E, at_MOO E]
      in foldl (\<lambda>ps (a, b, p, f, t).
           obj_set ps (path_key a b) \<lparr> route_path = p, useATokenAsFrom = f, useATokenAsTo = t \<rparr>) []
         [(at_CELO E, at_cUSD E, celo_cusd, False, True),
          (at_CELO E, at_cEUR E, celo_ceur, False, True),
          (at_CELO E, at_cREAL E, celo_creal, False, False),
          (at_CELO E, at_MOO E, celo_moo, True, False),
          (at_cUSD E, at_cEUR E, cusd_ceur, True, True),
          (at_cUSD E, at_cREAL E, cusd_creal, False, False),
          (at_cUSD E, at_MOO E, cusd_moo, False, False),
          (at_cEUR E, at_cREAL E, ceur_creal, False, False),
          (at_cEUR E, at_MOO E, ceur_moo, True, False),
          (at_cREAL E, at_MOO E, creal_moo, False, True),
          (at_cUSD E, at_CELO E, rev celo_cusd, True, False),
          (at_cEUR E, at_CELO E, rev celo_ceur, True, False),
          (at_cREAL E, at_CELO E, rev celo_creal, False, False),
          (at_MOO E, at_CELO E, rev celo_moo, True, False),
          (at_cEUR E, at_cUSD E, rev cusd_ceur, True, True),
          (at_cREAL E, at_cUSD E, rev cusd_creal, False, False),
          (at_MOO E, at_cUSD E, rev cusd_moo, False, False),
          (at_cREAL E, at_cEUR E, rev ceur_creal, False, False),
          (at_MOO E, at_cEUR E, rev ceur_moo, False, True),
          (at_MOO E, at_cREAL E, rev creal_moo, True, False)])"

text \<open>\<open>paths[key].path\<close> throws for a key that the table does not have.\<close>

definition path_at :: "cli_env \<Rightarrow> string \<Rightarrow> js_error + swap_route" where
  "path_at E key = (case obj_get (getSwapPath E) key of
       None \<Rightarrow> Inl (JsTypeError ''Cannot read property path of undefined'') | Some r \<Rightarrow> Inr r)"

end
