(* ===== verification/ClientQueries.thy ===== *)
theory ClientQueries
  imports ClientEnv
begin

text \<open>
  The actions of \<open>cli.js\<close> that only read: what they print, as text or as a table. A number in a table
  stands as its decimal string.
\<close>

definition cli_balanceOf :: "runtime \<Rightarrow> 'b cli_lib \<Rightarrow> cli_env \<Rightarrow> string list \<Rightarrow> cli_result io" where
  "cli_balanceOf rt L E ps =
     bind (lift_sum (used (token_at E (param ps 0)))) (\<lambda>token.
     bind (view_at rt token ''balanceOf'' [opt_val (param ps 1)]) (\<lambda>b.
     ret (CliText [print_ether L (BN L (val_str b))])))"

text \<open>A field of an answer as a BigNumber, in ether, in rays, and as a percentage.\<close>

definition field_bn :: "'b cli_lib \<Rightarrow> js_val \<Rightarrow> string \<Rightarrow> 'b" where
  "field_bn L data f = BN L (pos_str data f)"

definition ether_field :: "'b cli_lib \<Rightarrow> js_val \<Rightarrow> string \<Rightarrow> js_val" where
  "ether_field L data f = VStr (print_ether L (field_bn L data f))"

definition ray_field :: "'b cli_lib \<Rightarrow> js_val \<Rightarrow> string \<Rightarrow> js_val" where
  "ray_field L data f = VStr (printRay L (field_bn L data f))"

definition rate_field :: "'b cli_lib \<Rightarrow> js_val \<Rightarrow> string \<Rightarrow> js_val" where
  "rate_field L data f = VStr (printRayRate L (field_bn L data f))"

definition percent_string :: "'b cli_lib \<Rightarrow> 'b \<Rightarrow> js_val" where
  "percent_string L x = VStr (bn_toString (api (math L)) x @ ''%'')"

definition percent_field :: "'b cli_lib \<Rightarrow> js_val \<Rightarrow> string \<Rightarrow> js_val" where
  "percent_field L data f =
     percent_string L (div_bn (math L) (field_bn L data f) (int_bn (math L) 100))"

definition time_field :: "'b cli_lib \<Rightarrow> js_val \<Rightarrow> string \<Rightarrow> js_val" where
  "time_field L data f = VStr (local_time L (times_bn (math L) (field_bn L data f) (int_bn (math L) 1000)))"

definition raw_field :: "js_val \<Rightarrow> string \<Rightarrow> js_val" where
  "raw_field data f = (case val_field data f of Inl _ \<Rightarrow> VUndef | Inr v \<Rightarrow> v)"

definition userReserveData_table :: "'b cli_lib \<Rightarrow> js_val \<Rightarrow> js_val \<Rightarrow> js_val js_obj" where
  "userReserveData_table L data reserveData =
     [(''Deposited'', ether_field L data ''currentATokenBalance''),
      (''BorrowedStable'', ether_field L data ''principalStableDebt''),
      (''DebtStable'', ether_field L data ''currentStableDebt''),
      (''BorrowRateStable'', rate_field L data ''stableBorrowRate''),
      (''BorrowedVariable'', ether_field L data ''scaledVariableDebt''),
      (''DebtVariable'', ether_field L data ''currentVariableDebt''),
      (''VariableRate'', rate_field L reserveData ''variableBorrowRate''),
      (''LiquidityRate'', rate_field L data ''liquidityRate''),
      (''LastUpdateStable'', time_field L data ''stableRateLastUpdated''),
      (''IsCollateral'', raw_field data ''usageAsCollateralEnabled'')]"

definition cli_getUserReserveData :: "runtime \<Rightarrow> 'b cli_lib \<Rightarrow> cli_env \<Rightarrow> string list \<Rightarrow> cli_result io" where
  "cli_getUserReserveData rt L E ps =
     (let reserve = opt_val (token_at E (param ps 0)); user = opt_val (param ps 1) in
      bind (view_at rt (at_dataProvider E) ''getUserReserveData'' [reserve, user]) (\<lambda>data.
      bind (view_at rt (at_dataProvider E) ''getReserveData'' [reserve]) (\<lambda>reserveData.
      ret (CliTable (userReserveData_table L data reserveData)))))"

text \<open>A health factor of more than thirty digits is that of a user without debt.\<close>

definition userAccountData_table :: "'b cli_lib \<Rightarrow> js_val \<Rightarrow> js_val js_obj" where
  "userAccountData_table L data =
     [(''TotalCollateral'', ether_field L data ''totalCollateralETH''),
      (''TotalDebt'', ether_field L data ''totalDebtETH''),
      (''AvailableBorrow'', ether_field L data ''availableBorrowsETH''),
      (''LiquidationThreshold'', percent_field L data ''currentLiquidationThreshold''),
      (''LoanToValue'', percent_field L data ''ltv''),
      (''HealthFactor'', if 30 < length (pos_str data ''healthFactor'') then VStr ''SAFE''
         else ether_field L data ''healthFactor'')]"

definition cli_getUserAccountData :: "runtime \<Rightarrow> 'b cli_lib \<Rightarrow> cli_env \<Rightarrow> string list \<Rightarrow> cli_result io" where
  "cli_getUserAccountData rt L E ps =
     bind (view_at rt (at_lendingPool E) ''getUserAccountData'' [opt_val (param ps 0)]) (\<lambda>data.
     ret (CliTable (userAccountData_table L data)))"

definition reserveData_table :: "'b cli_lib \<Rightarrow> js_val \<Rightarrow> js_val \<Rightarrow> js_val js_obj" where
  "reserveData_table L data reserveTokens =
     [(''AvailableLiquidity'', ether_field L data ''availableLiquidity''),
      (''TotalBorrowsStable'', ether_field L data ''totalStableDebt''),
      (''TotalBorrowsVariable'', ether_field L data ''totalVariableDebt''),
      (''LiquidityRate'', rate_field L data ''liquidityRate''),
      (''VariableRate'', rate_field L data ''variableBorrowRate''),
      (''StableRate'', rate_field L data ''stableBorrowRate''),
      (''AverageStableRate'', rate_field L data ''averageStableBorrowRate''),
      (''LiquidityIndex'', ray_field L data ''liquidityIndex''),
      (''VariableBorrowIndex'', ray_field L data ''variableBorrowIndex''),
      (''MToken'', raw_field reserveTokens ''aTokenAddress''),
      (''VariableDebtToken'', raw_field reserveTokens ''variableDebtTokenAddress''),
      (''StableDebtToken'', raw_field reserveTokens ''stableDebtTokenAddress''),
      (''LastUpdate'', time_field L data ''lastUpdateTimestamp'')]"

definition cli_getReserveData :: "runtime \<Rightarrow> 'b cli_lib \<Rightarrow> cli_env \<Rightarrow> string list \<Rightarrow> cli_result io" where
  "cli_getReserveData rt L E ps =
     (let reserve = opt_val (token_at E (param ps 0)) in
      bind (view_at rt (at_dataProvider E) ''getReserveData'' [reserve]) (\<lambda>data.
      bind (reserve_tokens rt E reserve) (\<lambda>reserveTokens.
      ret (CliTable (reserveData_table L data reserveTokens)))))"

text \<open>The liquidation bonus is stored above one hundred percent.\<close>

definition reserveConfiguration_table :: "'b cli_lib \<Rightarrow> js_val \<Rightarrow> js_val js_obj" where
  "reserveConfiguration_table L data =
     [(''Decimals'', VStr (bn_toString (api (math L)) (field_bn L data ''decimals''))),
      (''LoanToValue'', percent_field L data ''ltv''),
      (''LiquidationThreshold'', percent_field L data ''liquidationThreshold''),
      (''LiquidationBonus'', percent_string L (minus_bn (math L)
         (div_bn (math L) (field_bn L data ''liquidationBonus'') (int_bn (math L) 100)) (int_bn (math L) 100))),
      (''ReserveFactor'', percent_field L data ''reserveFactor''),
      (''CollateralEnabled'', raw_field data ''usageAsCollateralEnabled''),
      (''BorrowingEnabled'', raw_field data ''borrowingEnabled''),
      (''StableEnabled'', raw_field data ''stableBorrowRateEnabled''),
      (''Active'', raw_field data ''isActive''),
      (''Frozen'', raw_field data ''isFrozen'')]"

definition cli_getReserveConfigurationData ::
    "runtime \<Rightarrow> 'b cli_lib \<Rightarrow> cli_env \<Rightarrow> string list \<Rightarrow> cli_result io" where
  "cli_getReserveConfigurationData rt L E ps =
     bind (view_at rt (at_dataProvider E) ''getReserveConfigurationData'' [opt_val (token_at E (param ps 0))])
       (\<lambda>data. ret (CliTable (reserveConfiguration_table L data)))"

definition cli_autoRepayUserInfo :: "runtime \<Rightarrow> 'b cli_lib \<Rightarrow> cli_env \<Rightarrow> string list \<Rightarrow> cli_result io" where
  "cli_autoRepayUserInfo rt L E ps =
     (let user = param ps 0 in
      bind (view_at rt (at_autoRepay E) ''userInfos'' [opt_val user]) (\<lambda>userInfo.
      bind (map_io (\<lambda>token.
              bind (reserve_tokens rt E (VStr token)) (\<lambda>reserveToken.
              let mToken = pos_str reserveToken ''aTokenAddress'' in
              bind (view_at rt mToken ''name'' []) (\<lambda>name.
              bind (view_at rt mToken ''allowance'' [opt_val user, VStr (at_autoRepay E)]) (\<lambda>allowance.
              ret (val_str name @ '': '' @ val_str allowance))))) (map snd (tokens E))) (\<lambda>allowances.
      ret (CliText ([pos_str userInfo ''minHealthFactor'', pos_str userInfo ''maxHealthFactor''] @ allowances)))))"

end
