(* ===== verification/ClientActions.thy ===== *)
theory ClientActions
  imports ClientEnv
begin

text \<open>
  The actions of \<open>cli.js\<close> that send transactions. Most of them simulate the operation first and send it
  only when a simulation passes; those that take tokens from the user approve them before and revoke
  the approval when the simulation fails.
\<close>

section \<open>Deposits, borrowings, repayments, withdrawals\<close>

definition approve_pool ::
    "runtime \<Rightarrow> cli_env \<Rightarrow> string \<Rightarrow> js_val \<Rightarrow> string option \<Rightarrow> unit io" where
  "approve_pool rt E token amount user =
     method_send rt (approve_method token (at_lendingPool E) amount) user DEFAULT_GAS"

definition pool_method :: "cli_env \<Rightarrow> string \<Rightarrow> js_val list \<Rightarrow> web3_method" where
  "pool_method E name args = \<lparr> m_target = at_lendingPool E, m_name = name, m_args = args \<rparr>"

definition cli_deposit :: "runtime \<Rightarrow> 'b cli_lib \<Rightarrow> cli_env \<Rightarrow> string list \<Rightarrow> cli_result io" where
  "cli_deposit rt L E ps =
     (let reserve = opt_val (token_at E (param ps 0)); user = param ps 1 in
      bind (lift_sum (to_wei L (param ps 2))) (\<lambda>amount.
      with_key rt E (param ps 3) (
      bind (lift_sum (used (token_at E (param ps 0)))) (\<lambda>token.
      let method = pool_method E ''deposit'' [reserve, VStr amount, opt_val user, VNum 0] in
      seq (approve_pool rt E token (VStr amount) user) (
      bind (simulated rt method user DEFAULT_GAS) (\<lambda>ok.
      if \<not> ok
      then seq (approve_pool rt E token (VNum 0) user) (ret (CliCannot ''Cannot deposit''))
      else seq (method_send rt method user DEFAULT_GAS) (ret CliDone)))))))"

definition cli_borrow :: "runtime \<Rightarrow> 'b cli_lib \<Rightarrow> cli_env \<Rightarrow> string list \<Rightarrow> cli_result io" where
  "cli_borrow rt L E ps =
     (let reserve = opt_val (token_at E (param ps 0)); user = param ps 1 in
      bind (lift_sum (to_wei L (param ps 2))) (\<lambda>amount.
      bind (lift_sum (getRateModeNumber (param ps 3))) (\<lambda>rate.
      with_key rt E (param ps 4) (
      let method = pool_method E ''borrow'' [reserve, VStr amount, rate, VNum 0, opt_val user] in
      bind (simulated rt method user DEFAULT_GAS) (\<lambda>ok.
      if \<not> ok then ret (CliCannot ''Cannot borrow'')
      else seq (method_send rt method user DEFAULT_GAS) (ret CliDone))))))"

text \<open>\<open>params[i] === 'all' ? maxUint256 : web3.utils.toWei(params[i])\<close>\<close>

definition amount_or_all :: "'b cli_lib \<Rightarrow> string option \<Rightarrow> js_error + string" where
  "amount_or_all L p = (if p = Some ''all'' then Inr maxUint256 else to_wei L p)"

text \<open>The approval is also revoked after the repayment: less than the approved amount may be owed.\<close>

definition repay_with_approval ::
    "runtime \<Rightarrow> cli_env \<Rightarrow> string \<Rightarrow> string \<Rightarrow> web3_method \<Rightarrow> string option \<Rightarrow> cli_result io" where
  "repay_with_approval rt E token amount method user =
     seq (approve_pool rt E token (VStr amount) user) (
     bind (simulated rt method user DEFAULT_GAS) (\<lambda>ok.
     if \<not> ok
     then seq (approve_pool rt E token (VNum 0) user) (ret (CliCannot ''Cannot repay''))
     else seq (method_send rt method user DEFAULT_GAS)
         (seq (approve_pool rt E token (VNum 0) user) (ret CliDone))))"

definition cli_repay :: "runtime \<Rightarrow> 'b cli_lib \<Rightarrow> cli_env \<Rightarrow> string list \<Rightarrow> cli_result io" where
  "cli_repay rt L E ps =
     (let reserve = opt_val (token_at E (param ps 0)); user = param ps 1 in
      bind (lift_sum (amount_or_all L (param ps 2))) (\<lambda>amount.
      bind (lift_sum (getRateModeNumber (param ps 3))) (\<lambda>rate.
      with_key rt E (param ps 4) (
      bind (lift_sum (used (token_at E (param ps 0)))) (\<lambda>token.
      repay_with_approval rt E token amount
        (pool_method E ''repay'' [reserve, VStr amount, rate, opt_val user]) user)))))"

definition cli_redeem :: "runtime \<Rightarrow> 'b cli_lib \<Rightarrow> cli_env \<Rightarrow> string list \<Rightarrow> cli_result io" where
  "cli_redeem rt L E ps =
     (let reserve = opt_val (token_at E (param ps 0)); user = param ps 1 in
      bind (lift_sum (amount_or_all L (param ps 2))) (\<lambda>amount.
      with_key rt E (param ps 3) (
      let method = pool_method E ''withdraw'' [reserve, VStr amount, opt_val user] in
      bind (simulated rt method user DEFAULT_GAS) (\<lambda>ok.
      if \<not> ok then ret (CliCannot ''Cannot redeem'')
      else seq (method_send rt method user DEFAULT_GAS) (ret CliDone)))))"

section \<open>Delegation\<close>

text \<open>A contract that was made without an address fails when its method is sent.\<close>

definition delegate_method :: "string option \<Rightarrow> js_val \<Rightarrow> js_val \<Rightarrow> js_error + web3_method" where
  "delegate_method debtToken to_addr amount = (case debtToken of
       None \<Rightarrow> Inl (JsError ''This contract object doesn't have address set yet, please set an address first.'')
     | Some a \<Rightarrow> Inr \<lparr> m_target = a, m_name = ''approveDelegation'', m_args = [to_addr, amount] \<rparr>)"

definition str_field :: "js_val \<Rightarrow> string \<Rightarrow> string option" where
  "str_field data f = (case val_field data f of Inr (VStr s) \<Rightarrow> Some s | _ \<Rightarrow> None)"

definition cli_delegate :: "runtime \<Rightarrow> 'b cli_lib \<Rightarrow> cli_env \<Rightarrow> string list \<Rightarrow> cli_result io" where
  "cli_delegate rt L E ps =
     (let reserve = opt_val (token_at E (param ps 0)); to_addr = opt_val (param ps 1); user = param ps 2 in
      bind (lift_sum (to_wei L (param ps 3))) (\<lambda>amount.
      bind (lift_sum (getRateModeNumber (param ps 4))) (\<lambda>rate.
      with_key rt E (param ps 5) (
      bind (reserve_tokens rt E reserve) (\<lambda>reserveTokens.
      let debtToken = (case debt_token_field rate of None \<Rightarrow> None | Some f \<Rightarrow> str_field reserveTokens f) in
      bind (lift_sum (delegate_method debtToken to_addr (VStr amount))) (\<lambda>method.
      seq (method_send rt method user DEFAULT_GAS) (ret CliDone)))))))"

definition cli_borrowFrom :: "runtime \<Rightarrow> 'b cli_lib \<Rightarrow> cli_env \<Rightarrow> string list \<Rightarrow> cli_result io" where
  "cli_borrowFrom rt L E ps =
     (let reserve = opt_val (token_at E (param ps 0)); owner = param ps 1; user = param ps 2 in
      bind (lift_sum (to_wei L (param ps 3))) (\<lambda>amount.
      bind (lift_sum (getRateModeNumber (param ps 4))) (\<lambda>rate.
      with_key rt E (param ps 5) (
      let method = pool_method E ''borrow'' [reserve, VStr amount, rate, VNum 0, opt_val owner] in
      bind (simulated rt method user DEFAULT_GAS) (\<lambda>ok.
      if \<not> ok then ret (CliCannot ''Cannot borrow'')
      else seq (method_send rt method user DEFAULT_GAS) (ret CliDone))))))"

definition cli_repayFor :: "runtime \<Rightarrow> 'b cli_lib \<Rightarrow> cli_env \<Rightarrow> string list \<Rightarrow> cli_result io" where
  "cli_repayFor rt L E ps =
     (let reserve = opt_val (token_at E (param ps 0)); owner = param ps 1; user = param ps 2 in
      bind (lift_sum (to_wei L (param ps 3))) (\<lambda>amount.
      bind (lift_sum (getRateModeNumber (param ps 4))) (\<lambda>rate.
      with_key rt E (param ps 5) (
      bind (lift_sum (used (token_at E (param ps 0)))) (\<lambda>token.
      repay_with_approval rt E token amount
        (pool_method E ''repay'' [reserve, VStr amount, rate, opt_val owner]) user)))))"

text \<open>The migrator may borrow on the user's behalf only while it migrates.\<close>

definition delegate_migrator ::
    "runtime \<Rightarrow> cli_env \<Rightarrow> string option \<Rightarrow> js_val \<Rightarrow> string option \<Rightarrow> unit io" where
  "delegate_migrator rt E debtToken amount user =
     bind (lift_sum (delegate_method debtToken (VStr (at_migrator E)) amount)) (\<lambda>method.
     method_send rt method user DEFAULT_GAS)"

definition cli_migrate :: "runtime \<Rightarrow> 'b cli_lib \<Rightarrow> cli_env \<Rightarrow> string list \<Rightarrow> cli_result io" where
  "cli_migrate rt L E ps =
     (let user = param ps 0; migrate = \<lparr> m_target = at_migrator E, m_name = ''migrate'', m_args = [] \<rparr> in
      with_key rt E (param ps 1) (
      bind (map_io (\<lambda>asset. bind (reserve_tokens rt E (VStr asset)) (\<lambda>d. ret (str_field d ''variableDebtTokenAddress'')))
             [at_cUSD E, at_cEUR E, at_CELO E]) (\<lambda>debtTokens.
      seq (for_each (\<lambda>debtToken. delegate_migrator rt E debtToken (VStr maxUint256) user) debtTokens) (
      bind (attempt (seq (cli_retry (method_estimate rt migrate user 4000000))
                         (method_send rt migrate user 4000000))) (\<lambda>_.
      seq (for_each (\<lambda>debtToken. delegate_migrator rt E debtToken (VNum 0) user) debtTokens)
     (ret CliDone))))))"

section \<open>Swaps of collateral and debt\<close>

definition main_only :: "cli_env \<Rightarrow> string \<Rightarrow> 'a io \<Rightarrow> 'a io" where
  "main_only E message k = (if cli_network E = ''test'' then throw (JsError message) else k)"

definition no_permit :: js_val where
  "no_permit = VObj [(''amount'', VNum 0), (''deadline'', VNum 0), (''v'', VNum 0),
     (''r'', VStr zeroHash), (''s'', VStr zeroHash)]"

text \<open>The element of an array that a contract returned; of an answer that is none, an error.\<close>

definition element :: "js_val \<Rightarrow> nat \<Rightarrow> js_error + string" where
  "element v i = (case v of
       VList vs \<Rightarrow> Inr (if i < length vs then val_str (vs ! i) else '''')
     | _ \<Rightarrow> Inl (JsTypeError ''undefined is not iterable''))"

definition simulate_and_send ::
    "runtime \<Rightarrow> web3_method \<Rightarrow> string option \<Rightarrow> string \<Rightarrow> cli_result io" where
  "simulate_and_send rt method user message =
     bind (simulated rt method user DEFAULT_GAS) (\<lambda>ok.
     if \<not> ok then ret (CliCannot message)
     else seq (method_send rt method user DEFAULT_GAS) (ret CliDone))"

definition cli_liquiditySwap :: "runtime \<Rightarrow> 'b cli_lib \<Rightarrow> cli_env \<Rightarrow> string list \<Rightarrow> cli_result io" where
  "cli_liquiditySwap rt L E ps =
     main_only E ''Liquidity swap only works on the mainnet due to low liquidity in pools'' (
     with_key rt E (param ps 4) (
     let M = math L; user = param ps 0 in
     bind (lift_sum (to_wei L (param ps 3))) (\<lambda>amount.
     bind (lift_sum (used (token_at E (param ps 1)))) (\<lambda>from_token.
     bind (lift_sum (used (token_at E (param ps 2)))) (\<lambda>to_token.
     bind (lift_sum (path_at E (path_key from_token to_token))) (\<lambda>route.
     bind (reserve_tokens rt E (VStr from_token)) (\<lambda>reserveTokens.
     let mToken = pos_str reserveTokens ''aTokenAddress'' in
     bind (view_at rt (at_priceOracle E) ''getAssetsPrices'' [VList [VStr from_token, VStr to_token]]) (\<lambda>prices.
     bind (lift_sum (element prices 0)) (\<lambda>fromPrice.
     bind (lift_sum (element prices 1)) (\<lambda>toPrice.
     let minimum = toFixed0 M (div_bn M (times_bn M
           (div_bn M (times_bn M (BN L amount) (BN L fromPrice)) (BN L toPrice))
           (int_bn M 995)) (int_bn M 1000)) in
     bind (view_at rt mToken ''allowance'' [opt_val user, VStr (at_swapAdapter E)]) (\<lambda>currentAllowance.
     seq (io_when (lt_bn M (BN L (val_str currentAllowance)) (ALLOWANCE_THRESHOLD L))
            (method_send rt (approve_method mToken (at_swapAdapter E) (VStr maxUint256)) user DEFAULT_GAS))
    (simulate_and_send rt
       \<lparr> m_target = at_swapAdapter E, m_name = ''liquiditySwap'', m_args =
         [VObj [(''user'', opt_val user), (''assetFrom'', VStr from_token), (''assetTo'', VStr to_token),
            (''path'', VList (map VStr (route_path route))), (''amountToSwap'', VStr amount),
            (''minAmountToReceive'', VStr minimum), (''swapAllBalance'', VNum 0),
            (''useATokenAsFrom'', VBool (useATokenAsFrom route)),
            (''useATokenAsTo'', VBool (useATokenAsTo route))], no_permit] \<rparr>
       user ''Cannot swap liquidity''))))))))))))"

text \<open>The collateral to swap for a repayment: what the pool asks for, and one thousandth.\<close>

definition max_collateral ::
    "runtime \<Rightarrow> 'b cli_lib \<Rightarrow> cli_env \<Rightarrow> bool \<Rightarrow> 'b \<Rightarrow> bool \<Rightarrow> string list \<Rightarrow> js_val io" where
  "max_collateral rt L E different repayAmount useFlashLoan path =
     (let M = math L in
      if different then
        let amountOut = (if useFlashLoan
              then plus_bn M repayAmount (div_bn M (times_bn M repayAmount (int_bn M 9)) (int_bn M 10000))
              else repayAmount) in
        bind (view_at rt (at_ubeswap E) ''getAmountsIn''
                [VStr (bn_toFixed (api M) amountOut), VList (map VStr path)]) (\<lambda>amounts.
        bind (lift_sum (element amounts 0)) (\<lambda>a.
        ret (VStr (toFixed0 M (plus_bn M (BN L a) (div_bn M (times_bn M (BN L a) (int_bn M 1)) (int_bn M 1000)))))))
      else ret (VNum 0))"

fun val_bn :: "'b cli_lib \<Rightarrow> js_val \<Rightarrow> 'b" where
  "val_bn L (VStr s) = BN L s"
| "val_bn L (VNum n) = int_bn (math L) n"
| "val_bn L _ = undefined_bn (math L)"

text \<open>\<open>x.toString(0)\<close>: a string ignores the radix, a number refuses it.\<close>

fun to_string_radix_0 :: "js_val \<Rightarrow> js_error + js_val" where
  "to_string_radix_0 (VNum n) = Inl (JsError ''toString() radix must be between 2 and 36'')"
| "to_string_radix_0 v = Inr v"

definition cli_repayFromCollateral ::
    "runtime \<Rightarrow> 'b cli_lib \<Rightarrow> cli_env \<Rightarrow> string list \<Rightarrow> cli_result io" where
  "cli_repayFromCollateral rt L E ps =
     main_only E ''repay from collateral only works on the mainnet due to low liquidity in pools'' (
     with_key rt E (param ps 6) (
     require (isValidAsset E (param ps 1)) (
     require (isValidAsset E (param ps 2)) (
     require (isValidRateMode (param ps 3)) (
     require (isNumeric (param ps 4)) (
     require (isValidBoolean (param ps 5)) (
     let M = math L; user = param ps 0; useFlashLoan = (param ps 5 = Some ''true'') in
     bind (lift_sum (used (token_at E (param ps 1)))) (\<lambda>collateral.
     bind (lift_sum (used (token_at E (param ps 2)))) (\<lambda>debt.
     bind (lift_sum (getRateModeNumber (param ps 3))) (\<lambda>rateMode.
     bind (lift_sum (to_wei L (param ps 4))) (\<lambda>wei.
     let repayAmount = BN L wei in
     bind (lift_sum (path_at E (path_key collateral debt))) (\<lambda>route.
     bind (getMTokenAddress rt E collateral) (\<lambda>mToken.
     bind (max_collateral rt L E (param ps 1 \<noteq> param ps 2) repayAmount useFlashLoan (route_path route))
       (\<lambda>maxCollateralAmount.
     bind (view_at rt mToken ''allowance'' [opt_val user, VStr (at_repayAdapter E)]) (\<lambda>allowance.
     seq (io_when (lt_bn M (BN L (val_str allowance)) (val_bn L maxCollateralAmount))
            (method_send rt (approve_method mToken (at_repayAdapter E) maxCollateralAmount) user DEFAULT_GAS))
    (simulate_and_send rt
       \<lparr> m_target = at_repayAdapter E, m_name = ''repayFromCollateral'', m_args =
         [VObj [(''user'', opt_val user), (''collateralAsset'', VStr collateral), (''debtAsset'', VStr debt),
            (''path'', VList (map VStr (route_path route))), (''collateralAmount'', maxCollateralAmount),
            (''debtRepayAmount'', VStr (toFixed0 M repayAmount)), (''rateMode'', rateMode),
            (''useATokenAsFrom'', VBool (useATokenAsFrom route)),
            (''useATokenAsTo'', VBool (useATokenAsTo route)),
            (''useFlashLoan'', VBool useFlashLoan)], no_permit] \<rparr>
       user ''Cannot repay from collateral: ''))))))))))))))))"

text \<open>Here the pair is looked up as it is, while the keys of the table are in lower case.\<close>

definition cli_autoRepay :: "runtime \<Rightarrow> 'b cli_lib \<Rightarrow> cli_env \<Rightarrow> string list \<Rightarrow> cli_result io" where
  "cli_autoRepay rt L E ps =
     main_only E ''auto repay only works on the mainnet due to low liquidity in pools'' (
     with_key rt E (param ps 7) (
     require (isValidAsset E (param ps 2)) (
     require (isValidAsset E (param ps 3)) (
     require (isValidRateMode (param ps 4)) (
     require (isNumeric (param ps 5)) (
     require (isValidBoolean (param ps 6)) (
     let M = math L; caller = param ps 0; user = param ps 1; useFlashloan = (param ps 6 = Some ''true'') in
     bind (lift_sum (used (token_at E (param ps 2)))) (\<lambda>collateral.
     bind (lift_sum (used (token_at E (param ps 3)))) (\<lambda>debt.
     bind (lift_sum (getRateModeNumber (param ps 4))) (\<lambda>rateMode.
     bind (lift_sum (to_wei L (param ps 5))) (\<lambda>wei.
     let repayAmount = BN L wei in
     bind (lift_sum (path_at E (collateral @ ''_'' @ debt))) (\<lambda>route.
     bind (getMTokenAddress rt E collateral) (\<lambda>mToken.
     bind (max_collateral rt L E (param ps 2 \<noteq> param ps 3) repayAmount useFlashloan (route_path route))
       (\<lambda>maxCollateralAmount.
     let feeAmount = div_bn M (times_bn M (val_bn L maxCollateralAmount) (int_bn M 10)) (int_bn M 10000) in
     bind (view_at rt mToken ''allowance'' [opt_val user, VStr (at_autoRepay E)]) (\<lambda>allowance.
     if lt_bn M (BN L (val_str allowance)) (plus_bn M (val_bn L maxCollateralAmount) feeAmount)
     then ret (CliCannot ''not approved autoRepay contract as much tokens as needed'')
     else bind (lift_sum (to_string_radix_0 maxCollateralAmount)) (\<lambda>collateralAmount.
     simulate_and_send rt
       \<lparr> m_target = at_autoRepay E, m_name = ''increaseHealthFactor'', m_args =
         [VObj [(''user'', opt_val user), (''collateralAsset'', VStr collateral), (''debtAsset'', VStr debt),
            (''collateralAmount'', collateralAmount), (''debtRepayAmount'', VStr (toFixed0 M repayAmount)),
            (''rateMode'', rateMode), (''path'', VList (map VStr (route_path route))),
            (''useATokenAsFrom'', VBool (useATokenAsFrom route)),
            (''useATokenAsTo'', VBool (useATokenAsTo route)),
            (''useFlashloan'', VBool useFlashloan)], no_permit] \<rparr>
       caller ''Cannot auto repay''))))))))))))))))"

definition cli_setAutoRepayParams :: "runtime \<Rightarrow> 'b cli_lib \<Rightarrow> cli_env \<Rightarrow> string list \<Rightarrow> cli_result io" where
  "cli_setAutoRepayParams rt L E ps =
     main_only E ''test network not supported'' (
     with_key rt E (param ps 3) (
     require (isNumeric (param ps 1)) (
     require (isNumeric (param ps 2)) (
     bind (lift_sum (to_wei L (param ps 1))) (\<lambda>minHealthFactor.
     bind (lift_sum (to_wei L (param ps 2))) (\<lambda>maxHealthFactor.
     simulate_and_send rt
       \<lparr> m_target = at_autoRepay E, m_name = ''setMinMaxHealthFactor'',
         m_args = [VStr minHealthFactor, VStr maxHealthFactor] \<rparr>
       (param ps 0) ''Cannot set''))))))"

section \<open>Liquidation, repayment for a delegator, leverage\<close>

definition lower_token :: "cli_env \<Rightarrow> string option \<Rightarrow> js_error + string" where
  "lower_token E p = (case p of
       None \<Rightarrow> Inl (JsTypeError ''Cannot read property toLowerCase of undefined'')
     | Some a \<Rightarrow> used (token_at E (Some (toLowerCase a))))"

definition cli_liquidationCall :: "runtime \<Rightarrow> 'b cli_lib \<Rightarrow> cli_env \<Rightarrow> string list \<Rightarrow> cli_result io" where
  "cli_liquidationCall rt L E ps =
     bind (lift_sum (lower_token E (param ps 0))) (\<lambda>collateral.
     bind (lift_sum (lower_token E (param ps 1))) (\<lambda>debt.
     bind (lift_sum (to_wei L (param ps 3))) (\<lambda>debtToCover.
     let user = param ps 5; receiveAToken = (param ps 4 = Some ''true'') in
     with_key rt E (env_or rt ''CELO_BOT_PK'' (param ps 6)) (
     bind (view_at rt debt ''allowance'' [opt_val user, VStr (at_lendingPool E)]) (\<lambda>currentAllowance.
     seq (io_when (lt_bn (math L) (BN L (val_str currentAllowance)) (ALLOWANCE_THRESHOLD L))
            (approve_pool rt E debt (VStr maxUint256) user))
    (bind (attempt (method_send rt (pool_method E ''liquidationCall''
              [VStr collateral, VStr debt, opt_val (param ps 2), VStr debtToCover, VBool receiveAToken])
              user DEFAULT_GAS)) (\<lambda>r.
     ret (if r = None then CliCannot ''Cannot liquidate user'' else CliDone))))))))"

definition cli_repayDelegation :: "runtime \<Rightarrow> 'b cli_lib \<Rightarrow> cli_env \<Rightarrow> string list \<Rightarrow> cli_result io" where
  "cli_repayDelegation rt L E ps =
     bind (lift_sum (lower_token E (param ps 1))) (\<lambda>asset.
     bind (lift_sum (to_wei L (param ps 2))) (\<lambda>amount.
     let user = param ps 4 in
     require (isValidRateMode (param ps 3)) (
     bind (lift_sum (getRateModeNumber (param ps 3))) (\<lambda>rateMode.
     with_key rt E (param ps 5) (
     bind (lift_sum (used (at_repayDelegationHelper E))) (\<lambda>helper.
     bind (attempt (
       bind (view_at rt asset ''allowance'' [opt_val user, VStr helper]) (\<lambda>currentAllowance.
       seq (io_when (lt_bn (math L) (BN L (val_str currentAllowance)) (BN L amount))
              (method_send rt (approve_method asset helper (VStr amount)) user DEFAULT_GAS))
      (method_send rt \<lparr> m_target = helper, m_name = ''repayDelegation'',
         m_args = [opt_val (param ps 0), VStr asset, VStr amount, rateMode] \<rparr> user DEFAULT_GAS)))) (\<lambda>r.
     case r of
       Some _ \<Rightarrow> ret CliDone
     | None \<Rightarrow> seq (method_send rt (approve_method asset helper (VNum 0)) user DEFAULT_GAS)
         (ret (CliCannot ''Error when calling repayDelegation: '')))))))))"

definition buildLeverageBorrowParams ::
    "'b cli_lib \<Rightarrow> bool \<Rightarrow> bool \<Rightarrow> bool \<Rightarrow> string \<Rightarrow> string \<Rightarrow> string" where
  "buildLeverageBorrowParams L useATokenFrom useATokenTo useEthPath toAsset minAmountOut =
     abi_encode L (VList [VStr
       ''tuple(bool useATokenAsFrom, bool useATokenAsTo, bool useEthPath, address toAsset, uint256 minAmountOut)[]'',
       VList [VObj [(''useATokenAsFrom'', VBool useATokenFrom), (''useATokenAsTo'', VBool useATokenTo),
         (''useEthPath'', VBool useEthPath), (''toAsset'', VStr toAsset), (''minAmountOut'', VStr minAmountOut)]]])"

text \<open>Every mode but the word \<open>stable\<close> is taken as variable.\<close>

definition cli_leverageBorrow :: "runtime \<Rightarrow> 'b cli_lib \<Rightarrow> cli_env \<Rightarrow> string list \<Rightarrow> cli_result io" where
  "cli_leverageBorrow rt L E ps =
     main_only E ''leverage-borrow only works on the mainnet due to low liquidity in pools'' (
     with_key rt E (param ps 5) (
     require (isValidAsset E (param ps 1)) (
     require (isValidAsset E (param ps 2)) (
     require (isValidRateMode (param ps 3)) (
     require (isNumeric (param ps 4)) (
     require (param ps 1 \<noteq> param ps 2) (
     let M = math L; user = param ps 0; rateMode = (if param ps 3 = Some ''stable'' then 1 else 2) in
     bind (lift_sum (used (token_at E (param ps 1)))) (\<lambda>collateral.
     bind (lift_sum (used (token_at E (param ps 2)))) (\<lambda>debt.
     bind (lift_sum (to_wei L (param ps 4))) (\<lambda>wei.
     let debtAmount = VStr (bn_toFixed (api M) (BN L wei)) in
     bind (getUseMTokenFromTo rt L E debt collateral debtAmount) (\<lambda>(useMTokenAsFrom, useMTokenAsTo, out).
     let callParams = buildLeverageBorrowParams L useMTokenAsFrom useMTokenAsTo False collateral
           (toFixed0 M (div_bn M (times_bn M out (int_bn M 999)) (int_bn M 1000))) in
     bind (lift_sum (used (at_leverageBorrowAdapter E))) (\<lambda>adapter.
     simulate_and_send rt
       (pool_method E ''flashLoan'' [VStr adapter, VList [VStr debt], VList [debtAmount], VList [VNum rateMode],
          opt_val user, VStr callParams, VNum 0])
       user ''Cannot do leverage borrow''))))))))))))"

end
