(* ===== verification/LiquidationBot.thy ===== *)
theory LiquidationBot
  imports ClientActions
begin

text \<open>
  The action \<open>liquidation-bot\<close> of \<open>cli.js\<close>: it approves the pool and the exchange once, then watches the
  borrowers for ever; it liquidates those whose health factor is below one with the largest debt and
  the largest collateral, and swaps the profit back. The callbacks of \<open>Promise.map\<close> run in the order of
  their list; web3 rejects a transaction that reverts, so that the status of a receipt is true.
\<close>

section \<open>Before the loop\<close>

definition sushiSwapRouter :: string where "sushiSwapRouter = ''0x1421bDe4B10e8dd459b3BCb598810B1337D56842''"
definition wrappedEth :: string where "wrappedEth = ''0xE919F65739c26a42616b7b8eedC6b5524d1e3aC4''"

definition exchange :: "'b cli_lib \<Rightarrow> string" where
  "exchange L = checksum L sushiSwapRouter"

definition approve_token ::
    "runtime \<Rightarrow> 'b cli_lib \<Rightarrow> cli_env \<Rightarrow> string option \<Rightarrow> string \<Rightarrow> unit io" where
  "approve_token rt L E user token =
     bind (view_at rt token ''allowance'' [opt_val user, VStr (at_lendingPool E)]) (\<lambda>poolAllowance.
     seq (io_when (length (val_str poolAllowance) < 30) (approve_pool rt E token (VStr maxUint256) user))
    (bind (view_at rt token ''allowance'' [opt_val user, VStr (exchange L)]) (\<lambda>currentAllowance.
     io_when (lt_bn (math L) (BN L (val_str currentAllowance)) (ALLOWANCE_THRESHOLD L))
       (method_send rt (approve_method token (exchange L) (VStr maxUint256)) user DEFAULT_GAS))))"

section \<open>One user\<close>

definition nowSeconds :: "runtime \<Rightarrow> int io" where
  "nowSeconds rt = bind (rpc_send rt ''Date.now'' []) (\<lambda>ms. ret (case ms of VNum n \<Rightarrow> n div 1000 | _ \<Rightarrow> 0))"

definition balance_of :: "runtime \<Rightarrow> string \<Rightarrow> string option \<Rightarrow> string io" where
  "balance_of rt token user = bind (view_at rt token ''balanceOf'' [opt_val user]) (\<lambda>v. ret (val_str v))"

definition token_rates :: "runtime \<Rightarrow> 'b cli_lib \<Rightarrow> cli_env \<Rightarrow> string js_obj io" where
  "token_rates rt L E =
     map_io (\<lambda>(token, a).
       if token = ''celo'' then ret (token, ether)
       else
         bind (view_at rt (exchange L) ''getAmountsOut''
                 [VStr ether, VList [VStr (at_CELO E), VStr wrappedEth, VStr a]]) (\<lambda>amounts.
         bind (lift_sum (element amounts 2)) (\<lambda>rate.
         ret (token, rate)))) (tokens E)"

definition liquidation_method :: "cli_env \<Rightarrow> string \<Rightarrow> string \<Rightarrow> string \<Rightarrow> string \<Rightarrow> web3_method" where
  "liquidation_method E collateral debt riskUser balance =
     pool_method E ''liquidationCall'' [VStr collateral, VStr debt, VStr riskUser, VStr balance, VBool False]"

text \<open>\<open>profit.isPositive()\<close> is true of zero.\<close>

definition isPositive :: "'b bn_math \<Rightarrow> 'b \<Rightarrow> bool" where
  "isPositive M x \<longleftrightarrow> \<not> lt_bn M x (int_bn M 0)"

definition swap_path_for :: "cli_env \<Rightarrow> string \<Rightarrow> string \<Rightarrow> string \<Rightarrow> string \<Rightarrow> string list" where
  "swap_path_for E collateralToken collateral borrowToken debt =
     (if borrowToken = ''celo'' \<or> collateralToken = ''celo'' then [collateral, wrappedEth, debt]
      else [collateral, debt])"

definition swap_method ::
    "'b cli_lib \<Rightarrow> 'b \<Rightarrow> string \<Rightarrow> string list \<Rightarrow> string option \<Rightarrow> int \<Rightarrow> web3_method" where
  "swap_method L profit out path user now =
     (let M = math L in
      \<lparr> m_target = exchange L, m_name = ''swapExactTokensForTokens'', m_args =
        [VStr (bn_toFixed (api M) profit),
         VStr (toFixed0 M (div_bn M (times_bn M (BN L out) (int_bn M 999)) (int_bn M 1000))),
         VList (map VStr path), opt_val user, VNum (now + 300)] \<rparr>)"

text \<open>One try of the swap, at the current quote; the minimum is one thousandth below it.\<close>

definition try_swap ::
    "runtime \<Rightarrow> 'b cli_lib \<Rightarrow> 'b \<Rightarrow> string list \<Rightarrow> string option \<Rightarrow> unit io" where
  "try_swap rt L profit path user =
     bind (view_at rt (exchange L) ''getAmountsOut''
             [VStr (bn_toFixed (api (math L)) profit), VList (map VStr path)]) (\<lambda>amounts.
     bind (lift_sum (element amounts (length path - 1))) (\<lambda>out.
     bind (nowSeconds rt) (\<lambda>now.
     seq (method_estimate rt (swap_method L profit out path user now) user DEFAULT_GAS)
    (bind (nowSeconds rt) (\<lambda>later.
     method_send rt (swap_method L profit out path user later) user DEFAULT_GAS)))))"

text \<open>The body of the inner \<open>try\<close>: simulate, liquidate, count the profit, swap it.\<close>

definition liquidate ::
    "runtime \<Rightarrow> 'b cli_lib \<Rightarrow> cli_env \<Rightarrow> string option \<Rightarrow> string \<Rightarrow> string \<times> string \<Rightarrow> string \<times> string \<Rightarrow> unit io" where
  "liquidate rt L E user riskUser collateral_entry debt_entry =
     (case collateral_entry of (collateralToken, collateral) \<Rightarrow> case debt_entry of (borrowToken, debt) \<Rightarrow>
      bind (balance_of rt debt user) (\<lambda>balance.
      seq (method_estimate rt (liquidation_method E collateral debt riskUser balance) user DEFAULT_GAS)
     (bind (balance_of rt collateral user) (\<lambda>collateralBefore.
      bind (balance_of rt debt user) (\<lambda>balance'.
      seq (method_send rt (liquidation_method E collateral debt riskUser balance') user DEFAULT_GAS)
     (bind (balance_of rt collateral user) (\<lambda>collateralAfter.
      let profit = minus_bn (math L) (BN L collateralAfter) (BN L collateralBefore) in
      if \<not> isPositive (math L) profit then throw (JsError ''No Profit'')
      else
        seq (io_when (collateralToken \<noteq> borrowToken)
               (cli_retry (try_swap rt L profit (swap_path_for E collateralToken collateral borrowToken debt) user)))
       (seq (balance_of rt collateral user) (ret ())))))))))"

definition liquidate_user ::
    "runtime \<Rightarrow> 'b cli_lib \<Rightarrow> cli_env \<Rightarrow> string option \<Rightarrow> string \<Rightarrow> unit io" where
  "liquidate_user rt L E user riskUser =
     bind (view_at rt (at_lendingPool E) ''getUserAccountData'' [VStr riskUser]) (\<lambda>riskData.
     bind (token_rates rt L E) (\<lambda>rates.
     bind (map_io (\<lambda>(token, a). bind (view_at rt (at_dataProvider E) ''getUserReserveData'' [VStr a, VStr riskUser])
             (\<lambda>pos. ret (token, pos))) (tokens E)) (\<lambda>positions.
     let (by_debt, by_collateral) = biggest_positions (math L) rates positions in
     bind (lift_sum (first_of by_debt)) (\<lambda>biggestBorrow.
     bind (lift_sum (first_of by_collateral)) (\<lambda>biggestCollateral.
     let collateralToken = toLowerCase (fst biggestCollateral); borrowToken = toLowerCase (fst biggestBorrow) in
     bind (attempt (
       bind (lift_sum (used (token_at E (Some collateralToken)))) (\<lambda>collateral.
       bind (lift_sum (used (token_at E (Some borrowToken)))) (\<lambda>debt.
       liquidate rt L E user riskUser (collateralToken, collateral) (borrowToken, debt))))) (\<lambda>_.
     ret ()))))))"

section \<open>The loop\<close>

record liquidation_state =
  nextBlock :: int
  borrowers :: "bool js_obj"

definition liquidation_start :: liquidation_state where
  "liquidation_start = \<lparr> nextBlock = 8955468, borrowers = [] \<rparr>"

text \<open>The arguments of a new event \<open>Borrow\<close>: the user who borrows and the one who owes.\<close>

definition note_borrower :: "bool js_obj \<Rightarrow> string \<Rightarrow> bool js_obj" where
  "note_borrower users who = (if who = '''' then users else obj_set users who True)"

definition note_borrow :: "bool js_obj \<Rightarrow> js_val \<Rightarrow> bool js_obj" where
  "note_borrow users args =
     note_borrower (note_borrower users (pos_str args ''user'')) (pos_str args ''onBehalfOf'')"

definition collect_borrows ::
    "runtime \<Rightarrow> cli_env \<Rightarrow> liquidation_state \<Rightarrow> liquidation_state io" where
  "collect_borrows rt E st =
     bind (rpc_send rt ''eventsCollector'' [opt_val (env_or rt ''CELO_BOT_NODE'' (Some (cli_url E))),
             VStr ''Borrow'', VStr (at_lendingPool E), VNum (nextBlock st)]) (\<lambda>result.
     case result of
       VList [VList newEvents, VNum parsedToBlock] \<Rightarrow>
         ret \<lparr> nextBlock = parsedToBlock, borrowers = foldl note_borrow (borrowers st) newEvents \<rparr>
     | _ \<Rightarrow> throw (JsTypeError ''undefined is not iterable''))"

text \<open>\<open>sort((a, b) => value(a).comparedTo(value(b)))\<close>, which is stable.\<close>

fun insert_asc :: "'b bn_math \<Rightarrow> ('a \<Rightarrow> 'b) \<Rightarrow> 'a \<Rightarrow> 'a list \<Rightarrow> 'a list" where
  "insert_asc M f x [] = [x]"
| "insert_asc M f x (y # ys) = (if lt_bn M (f y) (f x) then y # insert_asc M f x ys else x # y # ys)"

definition sort_asc :: "'b bn_math \<Rightarrow> ('a \<Rightarrow> 'b) \<Rightarrow> 'a list \<Rightarrow> 'a list" where
  "sort_asc M f xs = foldr (insert_asc M f) xs []"

definition health_factor :: "'b cli_lib \<Rightarrow> string \<times> js_val \<Rightarrow> 'b" where
  "health_factor L entry = BN L (pos_str (snd entry) ''healthFactor'')"

text \<open>Users with a debt, the riskiest first, whose health factor is below one.\<close>

definition risky_users :: "'b cli_lib \<Rightarrow> (string \<times> js_val) list \<Rightarrow> string list" where
  "risky_users L usersData =
     (let M = math L;
          indebted = filter (\<lambda>(addr, data). \<not> eq_bn M (BN L (pos_str data ''totalDebtETH'')) (int_bn M 0)) usersData;
          riskiest = sort_asc M (health_factor L) indebted
      in map fst (filter (\<lambda>entry. lt_bn M (div_bn M (health_factor L entry) (BN L ether)) (int_bn M 1)) riskiest))"

definition liquidate_risky ::
    "runtime \<Rightarrow> 'b cli_lib \<Rightarrow> cli_env \<Rightarrow> string option \<Rightarrow> bool js_obj \<Rightarrow> unit io" where
  "liquidate_risky rt L E user users =
     bind (map_io (\<lambda>addr. bind (view_at rt (at_lendingPool E) ''getUserAccountData'' [VStr addr])
             (\<lambda>data. ret (addr, data))) (obj_keys users)) (\<lambda>usersData.
     for_each (liquidate_user rt L E user) (risky_users L usersData))"

definition liquidation_round ::
    "runtime \<Rightarrow> 'b cli_lib \<Rightarrow> cli_env \<Rightarrow> string option \<Rightarrow> liquidation_state \<Rightarrow> liquidation_state io" where
  "liquidation_round rt L E user st =
     bind (attempt (collect_borrows rt E st)) (\<lambda>collected.
     case collected of None \<Rightarrow> ret st
     | Some st' \<Rightarrow>
         bind (attempt (liquidate_risky rt L E user (borrowers st'))) (\<lambda>_.
         ret st'))"

fun liquidation_rounds ::
    "nat \<Rightarrow> runtime \<Rightarrow> 'b cli_lib \<Rightarrow> cli_env \<Rightarrow> string option \<Rightarrow> liquidation_state \<Rightarrow> liquidation_state io" where
  "liquidation_rounds 0 rt L E user st = ret st"
| "liquidation_rounds (Suc n) rt L E user st =
     bind (liquidation_round rt L E user st) (liquidation_rounds n rt L E user)"

text \<open>The action, stopped after \<open>n\<close> passes of its endless loop.\<close>

definition cli_liquidationBot ::
    "nat \<Rightarrow> runtime \<Rightarrow> 'b cli_lib \<Rightarrow> cli_env \<Rightarrow> string list \<Rightarrow> cli_result io" where
  "cli_liquidationBot n rt L E ps =
     main_only E ''Liquidation bot only works on the mainnet.'' (
     let user = env_or rt ''CELO_BOT_ADDRESS'' (param ps 0) in
     with_key rt E (env_or rt ''CELO_BOT_PK'' (param ps 1)) (
     seq (for_each (approve_token rt L E user) (map snd (tokens E)))
    (seq (liquidation_rounds n rt L E user liquidation_start)
    (ret CliRunning))))"

end
