(* ===== verification/CommandLine.thy ===== *)
theory CommandLine
  imports ClientQueries LiquidationBot
begin

text \<open>\<open>execute\<close> of \<open>cli.js\<close>: the network, the two contracts that its provider names, and the action.\<close>

definition newKit :: "runtime \<Rightarrow> string \<Rightarrow> js_val io" where
  "newKit rt url = rpc_send rt ''newKit'' [VStr url]"

text \<open>Only for a node of one's own is a failure of \<open>newKit\<close> caught.\<close>

definition cli_connect :: "runtime \<Rightarrow> 'b cli_lib \<Rightarrow> string \<Rightarrow> (cli_net \<times> string) option io" where
  "cli_connect rt L network =
     (if network = ''test'' then
        let url = ''https://alfajores-forno.celo-testnet.org'' in
        seq (newKit rt url) (ret (Some (test_net L, url)))
      else if network = ''main'' then
        let url = ''https://forno.celo.org'' in
        seq (newKit rt url) (ret (Some (main_net L, url)))
      else
        catch (seq (newKit rt network) (ret (Some (custom_net L, network)))) (\<lambda>err. ret None))"

definition env_of :: "cli_net \<Rightarrow> string \<Rightarrow> string \<Rightarrow> string \<Rightarrow> string \<Rightarrow> cli_env" where
  "env_of net network url lendingPool priceOracle =
     cli_net.extend net \<lparr> cli_network = network, cli_url = url,
       at_lendingPool = lendingPool, at_priceOracle = priceOracle \<rparr>"

definition cli_environment ::
    "runtime \<Rightarrow> 'b cli_lib \<Rightarrow> cli_net \<Rightarrow> string \<Rightarrow> string \<Rightarrow> cli_env io" where
  "cli_environment rt L net network url =
     bind (view_at rt (at_addressProvider net) ''getLendingPool'' []) (\<lambda>lendingPool.
     bind (view_at rt (at_addressProvider net) ''getPriceOracle'' []) (\<lambda>priceOracle.
     ret (env_of net network url (checksum L (val_str lendingPool)) (checksum L (val_str priceOracle)))))"

text \<open>The chain of \<open>if (action === ...)\<close>.\<close>

definition cli_actions ::
    "nat \<Rightarrow> (string \<times> (runtime \<Rightarrow> 'b cli_lib \<Rightarrow> cli_env \<Rightarrow> string list \<Rightarrow> cli_result io)) list" where
  "cli_actions n =
     [(''balanceof'', cli_balanceOf),
      (''getuserreservedata'', cli_getUserReserveData),
      (''getuseraccountdata'', cli_getUserAccountData),
      (''getreservedata'', cli_getReserveData),
      (''getreserveconfigurationdata'', cli_getReserveConfigurationData),
      (''deposit'', cli_deposit), (''borrow'', cli_borrow), (''repay'', cli_repay), (''redeem'', cli_redeem),
      (''delegate'', cli_delegate), (''borrowfrom'', cli_borrowFrom), (''repayfor'', cli_repayFor),
      (''migrate-step-2'', cli_migrate),
      (''liquidation-bot'', cli_liquidationBot n),
      (''liquidity-swap'', cli_liquiditySwap),
      (''repay-from-collateral'', cli_repayFromCollateral),
      (''auto-repay'', cli_autoRepay),
      (''auto-repay-user-info'', cli_autoRepayUserInfo),
      (''set-auto-repay-params'', cli_setAutoRepayParams),
      (''liquidationcall'', cli_liquidationCall),
      (''repaydelegation'', cli_repayDelegation),
      (''leverage-borrow'', cli_leverageBorrow)]"

definition cli_action ::
    "nat \<Rightarrow> runtime \<Rightarrow> 'b cli_lib \<Rightarrow> cli_env \<Rightarrow> string option \<Rightarrow> string list \<Rightarrow> cli_result io" where
  "cli_action n rt L E act ps =
     (case act of None \<Rightarrow> ret CliUnknownAction
      | Some a \<Rightarrow>
         (case map_of (cli_actions n) a of None \<Rightarrow> ret CliUnknownAction
          | Some f \<Rightarrow> f rt L E ps))"

definition cli_execute :: "nat \<Rightarrow> runtime \<Rightarrow> 'b cli_lib \<Rightarrow> string list \<Rightarrow> cli_result io" where
  "cli_execute n rt L args =
     (case param args 0 of None \<Rightarrow> ret CliUsage
      | Some network \<Rightarrow>
         bind (cli_connect rt L network) (\<lambda>connected.
         case connected of None \<Rightarrow> ret CliUnknownNetwork
         | Some (net, url) \<Rightarrow>
             bind (cli_environment rt L net network url) (\<lambda>E.
             cli_action n rt L E (param args 1) (drop 2 args))))"

text \<open>\<open>execute(...process.argv.slice(2).map((arg) => arg.toLowerCase()))\<close>\<close>

definition cli_main :: "nat \<Rightarrow> runtime \<Rightarrow> 'b cli_lib \<Rightarrow> string list \<Rightarrow> cli_result io" where
  "cli_main n rt L argv = cli_execute n rt L (map toLowerCase (drop 2 argv))"

end
