(* ===== verification/ClientRules.thy ===== *)
theory ClientRules
  imports CommandLine Simulations Demo
begin

text \<open>
  Rules for the client: relations between the history before a run and the one after it, closed under
  the combinators once and for all in the locale \<open>run_relation\<close>, and what the client's own combinators
  (keys, checks of arguments, simulated transactions) do to a history.
\<close>

section \<open>Relations that every run satisfies\<close>

definition runs :: "(history \<Rightarrow> history \<Rightarrow> bool) \<Rightarrow> 'a io \<Rightarrow> bool" where
  "runs R m \<longleftrightarrow> (\<forall>h. R h (snd (m h)))"

named_theorems runs_intros "runs that satisfy a relation"

lemma runsD: "runs R m \<Longrightarrow> m h = (r, h') \<Longrightarrow> R h h'"
  by (metis runs_def snd_conv)

locale run_relation =
  fixes R :: "history \<Rightarrow> history \<Rightarrow> bool"
  assumes same: "R h h" and chain: "R h h1 \<Longrightarrow> R h1 h2 \<Longrightarrow> R h h2"
begin

lemma runs_ret: "runs R (ret x)"
  by (simp add: runs_def ret_def same)

lemma runs_throw: "runs R (throw e)"
  by (simp add: runs_def throw_def same)

lemma runs_lift: "runs R (lift_sum r)"
  by (simp add: runs_def lift_sum_def same)

lemma runs_bind_ok:
  assumes "runs R m" and "\<And>x h h1. m h = (Inr x, h1) \<Longrightarrow> R h1 (snd (f x h1))"
  shows "runs R (bind m f)"
  unfolding runs_def
proof
  fix h
  obtain r h1 where m: "m h = (r, h1)" by fastforce
  show "R h (snd (bind m f h))"
    using runsD [OF assms(1) m] assms(2) m by (cases r) (auto simp: bind_def intro: chain)
qed

lemma runs_bind: "runs R m \<Longrightarrow> (\<And>x. runs R (f x)) \<Longrightarrow> runs R (bind m f)"
  by (rule runs_bind_ok) (auto simp: runs_def)

lemma runs_seq: "runs R m \<Longrightarrow> runs R n \<Longrightarrow> runs R (seq m n)"
  by (simp add: seq_def runs_bind)

lemma runs_if: "runs R m \<Longrightarrow> runs R n \<Longrightarrow> runs R (if b then m else n)"
  by simp

lemma runs_io_when: "runs R m \<Longrightarrow> runs R (io_when b m)"
  by (simp add: io_when_def runs_ret)

lemma runs_catch:
  assumes "runs R m" and "\<And>e. runs R (k e)"
  shows "runs R (catch m k)"
  unfolding runs_def
proof
  fix h
  obtain r h1 where m: "m h = (r, h1)" by fastforce
  have "R h1 (snd (k e h1))" for e using assms(2) by (simp add: runs_def)
  then show "R h (snd (catch m k h))"
    using runsD [OF assms(1) m] m by (auto simp: catch_def intro: chain split: sum.split js_error.split)
qed

lemma runs_attempt: "runs R m \<Longrightarrow> runs R (attempt m)"
  unfolding attempt_def by (intro runs_catch runs_bind runs_ret)

lemma runs_fold: "(\<And>acc x. runs R (f acc x)) \<Longrightarrow> runs R (fold_io f acc xs)"
  by (induction xs arbitrary: acc) (simp_all add: runs_ret runs_bind)

lemma runs_for_each: "(\<And>x. runs R (f x)) \<Longrightarrow> runs R (for_each f xs)"
  unfolding for_each_def by (rule runs_fold)

lemma runs_map_io: "(\<And>x. runs R (f x)) \<Longrightarrow> runs R (map_io f xs)"
  unfolding map_io_def by (intro runs_fold runs_bind runs_ret)

lemma runs_retry: "runs R m \<Longrightarrow> runs R (retry m n)"
proof (induction n)
  case 0
  then show ?case by (subst retry.simps) (simp add: runs_catch runs_throw)
next
  case (Suc n)
  then show ?case by (subst retry.simps) (simp add: runs_catch)
qed

lemma runs_with_key: "(\<And>v. runs R (rpc_send rt ''addAccount'' v)) \<Longrightarrow> runs R k \<Longrightarrow> runs R (with_key rt E pk k)"
  unfolding with_key_def by (auto intro: runs_seq runs_ret)

lemma runs_require: "runs R k \<Longrightarrow> runs R (require b k)"
  by (simp add: require_def runs_ret)

lemma runs_main_only: "runs R k \<Longrightarrow> runs R (main_only E msg k)"
  by (simp add: main_only_def runs_throw)

end

section \<open>Nothing is sent that was not simulated\<close>

text \<open>Approvals and credit delegations are exempt.\<close>

fun simulated_before :: "js_val list list \<Rightarrow> tx_obs \<Rightarrow> bool" where
  "simulated_before P (s, a, m, args) \<longleftrightarrow> m \<in> {''approve'', ''approveDelegation''}
     \<or> [VStr a, VStr m, VList (butlast args), last args] \<in> set P"

definition only_simulated :: "history \<Rightarrow> history \<Rightarrow> bool" where
  "only_simulated h h' \<longleftrightarrow> (\<exists>t p. sent h' = sent h @ t \<and> passed h' = passed h @ p
     \<and> (\<forall>tx \<in> set t. simulated_before (passed h') tx))"

lemma simulated_before_mono: "simulated_before P tx \<Longrightarrow> set P \<subseteq> set Q \<Longrightarrow> simulated_before Q tx"
  by (cases tx) auto

interpretation only_simulated: run_relation only_simulated
proof
  show "only_simulated h h" for h by (simp add: only_simulated_def)
  fix h h1 h2 assume "only_simulated h h1" "only_simulated h1 h2"
  then obtain t p t' p' where "sent h1 = sent h @ t" "passed h1 = passed h @ p"
    "\<forall>tx \<in> set t. simulated_before (passed h1) tx" "sent h2 = sent h1 @ t'" "passed h2 = passed h1 @ p'"
    "\<forall>tx \<in> set t'. simulated_before (passed h2) tx"
    unfolding only_simulated_def by blast
  then show "only_simulated h h2"
    unfolding only_simulated_def
    by (intro exI [of _ "t @ t'"] exI [of _ "p @ p'"]) (auto intro: simulated_before_mono)
qed

lemma reads_only_simulated:
  "runs only_simulated (call_view rt c m args)" "runs only_simulated (view_at rt a m args)"
  "runs only_simulated (rpc_send rt m args)" "runs only_simulated (wait_tx rt tx)"
  by (auto simp: runs_def only_simulated_def prim_defs view_at_def perform_def sent.proj_append
      passed.proj_append passed_def sent_def split: sum.split)

lemma estimate_only_simulated: "runs only_simulated (method_estimate rt m u g)"
  by (simp add: method_estimate_def reads_only_simulated)

lemma simulated_only_simulated: "runs only_simulated (simulated rt m u g)"
  unfolding simulated_def cli_retry_def
  by (intro only_simulated.runs_catch only_simulated.runs_seq only_simulated.runs_retry
      only_simulated.runs_ret estimate_only_simulated)

definition request_of :: "web3_method \<Rightarrow> string option \<Rightarrow> int \<Rightarrow> js_val list" where
  "request_of m u g = [VStr (m_target m), VStr (m_name m), VList (m_args m), web3_options u g]"

lemma estimate_request: "method_estimate rt m u g h = (Inr x, h') \<Longrightarrow> request_of m u g \<in> set (passed h')"
  by (auto simp: method_estimate_def rpc_send_def perform_ok passed.proj_append passed_def request_of_def)

lemma retried_request: "cli_retry (method_estimate rt m u g) h = (Inr x, h') \<Longrightarrow> request_of m u g \<in> set (passed h')"
  unfolding cli_retry_def by (auto dest!: retry_ok intro: estimate_request)

lemma simulated_request: "simulated rt m u g h = (Inr True, h') \<Longrightarrow> request_of m u g \<in> set (passed h')"
  unfolding simulated_def by (auto simp: ok_simps dest!: catch_result intro: retried_request)

lemma method_send_cases:
  "(sent (snd (method_send rt m u g h)) = sent h @ [(u, m_target m, m_name m, m_args m @ [web3_options u g])]
     \<or> sent (snd (method_send rt m u g h)) = sent h) \<and> passed (snd (method_send rt m u g h)) = passed h"
  by (cases "ext_send rt h u (m_target m) (m_name m) (m_args m @ [web3_options u g])")
    (auto simp: method_send_def send_tx_def wait_tx_def bind_def perform_def sent.proj_append
      passed.proj_append passed_def split: sum.split)

lemma method_send_simulated:
  assumes "request_of m u g \<in> set (passed h) \<or> m_name m \<in> {''approve'', ''approveDelegation''}"
  shows "only_simulated h (snd (method_send rt m u g h))"
  using assms method_send_cases [of rt m u g h] by (auto simp: only_simulated_def request_of_def)

lemma approve_only_simulated:
  "runs only_simulated (method_send rt (approve_method token spender amount) u g)"
  "runs only_simulated (approve_pool rt E token amount u)"
  by (auto simp: runs_def approve_pool_def intro!: method_send_simulated) (simp_all add: approve_method_def)

text \<open>The pattern of the client: a simulation, then the same transaction or something else.\<close>

lemma guarded_only_simulated:
  assumes "runs only_simulated f" and "runs only_simulated k"
  shows "runs only_simulated (bind (simulated rt m u g) (\<lambda>ok. if \<not> ok then f else seq (method_send rt m u g) k))"
proof (rule only_simulated.runs_bind_ok [OF simulated_only_simulated])
  fix ok h h1 assume s: "simulated rt m u g h = (Inr ok, h1)"
  show "only_simulated h1 (snd ((if \<not> ok then f else seq (method_send rt m u g) k) h1))"
  proof (cases ok)
    case True
    then have "request_of m u g \<in> set (passed h1)" using s by (simp add: simulated_request)
    then have sent: "only_simulated h1 (snd (method_send rt m u g h1))" by (intro method_send_simulated disjI1)
    obtain r h2 where m: "method_send rt m u g h1 = (r, h2)" by fastforce
    have "only_simulated h2 (snd (k h2))" using assms(2) by (simp add: runs_def)
    then show ?thesis
      using True sent m by (cases r) (auto simp: seq_def bind_def intro: only_simulated.chain)
  qed (use assms(1) in \<open>simp add: runs_def\<close>)
qed

lemma retried_only_simulated:
  "runs only_simulated (seq (cli_retry (method_estimate rt m u g)) (method_send rt m u g))"
  unfolding seq_def
  by (rule only_simulated.runs_bind_ok)
    (auto simp: cli_retry_def [symmetric] intro: method_send_simulated retried_request
      only_simulated.runs_retry [OF estimate_only_simulated, of rt m u g 5, folded cli_retry_def])

lemma delegate_method_name: "delegate_method d a v = Inr m \<Longrightarrow> m_name m = ''approveDelegation''"
  by (auto simp: delegate_method_def split: option.splits)

lemma delegate_migrator_only_simulated: "runs only_simulated (delegate_migrator rt E d v u)"
  unfolding delegate_migrator_def
  by (rule only_simulated.runs_bind_ok [OF only_simulated.runs_lift])
    (auto simp: lift_sum_ok intro: method_send_simulated dest: delegate_method_name)

lemmas only_simulated_rules =
  only_simulated.runs_ret only_simulated.runs_throw only_simulated.runs_lift only_simulated.runs_bind
  only_simulated.runs_seq only_simulated.runs_io_when only_simulated.runs_attempt
  only_simulated.runs_fold only_simulated.runs_for_each only_simulated.runs_map_io
  only_simulated.runs_with_key only_simulated.runs_require only_simulated.runs_main_only
  reads_only_simulated approve_only_simulated guarded_only_simulated retried_only_simulated
  delegate_migrator_only_simulated

end
