(* ===== verification/CommandLineTheorems.thy ===== *)
theory CommandLineTheorems
  imports ClientRules SwapRoutes
begin

text \<open>
  The client: what its actions may send and what they leave approved, and which of them cannot work.
\<close>

section \<open>Simulated operations\<close>

lemma simulate_and_send_only: "runs only_simulated (simulate_and_send rt m u msg)"
  unfolding simulate_and_send_def by (intro only_simulated_rules)

lemma repay_with_approval_only: "runs only_simulated (repay_with_approval rt E token amount m u)"
  unfolding repay_with_approval_def by (intro only_simulated_rules)

lemma getMTokenAddress_only: "runs only_simulated (getMTokenAddress rt E token)"
  unfolding getMTokenAddress_def reserve_tokens_def by (intro only_simulated_rules)

lemma reserve_tokens_only: "runs only_simulated (reserve_tokens rt E v)"
  unfolding reserve_tokens_def by (intro only_simulated_rules)

lemma better_quote_only: "runs only_simulated (better_quote rt L E a res p)"
  unfolding better_quote_def
  by (auto intro!: only_simulated_rules split: prod.split option.split js_val.split list.split)

lemma getUseMTokenFromTo_only: "runs only_simulated (getUseMTokenFromTo rt L E a b c)"
  unfolding getUseMTokenFromTo_def by (intro only_simulated_rules getMTokenAddress_only better_quote_only)

lemma max_collateral_only: "runs only_simulated (max_collateral rt L E b x f path)"
  unfolding max_collateral_def Let_def by (auto intro!: only_simulated_rules)

lemmas client_rules = only_simulated_rules simulate_and_send_only repay_with_approval_only
  getMTokenAddress_only reserve_tokens_only getUseMTokenFromTo_only max_collateral_only

lemma actions_only_simulated:
  "runs only_simulated (cli_deposit rt L E ps)" "runs only_simulated (cli_borrow rt L E ps)"
  "runs only_simulated (cli_repay rt L E ps)" "runs only_simulated (cli_redeem rt L E ps)"
  "runs only_simulated (cli_borrowFrom rt L E ps)" "runs only_simulated (cli_repayFor rt L E ps)"
  "runs only_simulated (cli_migrate rt L E ps)" "runs only_simulated (cli_liquiditySwap rt L E ps)"
  "runs only_simulated (cli_repayFromCollateral rt L E ps)" "runs only_simulated (cli_setAutoRepayParams rt L E ps)"
  unfolding cli_deposit_def cli_borrow_def cli_repay_def cli_redeem_def cli_borrowFrom_def cli_repayFor_def
    cli_migrate_def cli_liquiditySwap_def cli_repayFromCollateral_def cli_setAutoRepayParams_def Let_def
  by (intro client_rules)+

lemma actions_only_simulated':
  "runs only_simulated (cli_autoRepay rt L E ps)" "runs only_simulated (cli_leverageBorrow rt L E ps)"
  unfolding cli_autoRepay_def cli_leverageBorrow_def Let_def case_prod_beta
  by (intro client_rules only_simulated.runs_if)+

lemma send_delegation_only:
  "runs only_simulated (bind (lift_sum (delegate_method d a v)) (\<lambda>m. seq (method_send rt m u DEFAULT_GAS) (ret x)))"
proof (rule only_simulated.runs_bind_ok [OF only_simulated.runs_lift])
  fix m h h1 assume "lift_sum (delegate_method d a v) h = (Inr m, h1)"
  then have "m_name m = ''approveDelegation''" by (auto simp: lift_sum_ok dest: delegate_method_name)
  then have "only_simulated h1 (snd (method_send rt m u DEFAULT_GAS h1))" by (intro method_send_simulated) simp
  then show "only_simulated h1 (snd (seq (method_send rt m u DEFAULT_GAS) (ret x) h1))"
    by (auto simp: seq_def bind_def ret_def split: prod.split sum.split)
qed

lemma delegate_only: "runs only_simulated (cli_delegate rt L E ps)"
  unfolding cli_delegate_def Let_def by (intro client_rules send_delegation_only)

lemma queries_only:
  "runs only_simulated (cli_balanceOf rt L E ps)" "runs only_simulated (cli_getUserReserveData rt L E ps)"
  "runs only_simulated (cli_getUserAccountData rt L E ps)" "runs only_simulated (cli_getReserveData rt L E ps)"
  "runs only_simulated (cli_getReserveConfigurationData rt L E ps)" "runs only_simulated (cli_autoRepayUserInfo rt L E ps)"
  unfolding cli_balanceOf_def cli_getUserReserveData_def cli_getUserAccountData_def cli_getReserveData_def
    cli_getReserveConfigurationData_def cli_autoRepayUserInfo_def Let_def
  by (intro client_rules)+

text \<open>The three actions that send an operation as it is.\<close>

definition unsimulated_actions :: "string list" where
  "unsimulated_actions = [''liquidation-bot'', ''liquidationcall'', ''repaydelegation'']"

lemma listed_actions_only:
  "\<forall>(a, f) \<in> set (cli_actions n). a \<notin> set unsimulated_actions \<longrightarrow> runs only_simulated (f rt L E ps)"
  by (simp add: cli_actions_def unsimulated_actions_def actions_only_simulated actions_only_simulated'
      delegate_only queries_only)

lemma cli_action_only:
  assumes "act \<notin> Some ` set unsimulated_actions"
  shows "runs only_simulated (cli_action n rt L E act ps)"
  using assms bspec [OF listed_actions_only, OF map_of_SomeD, of n _ _ rt L E ps]
  unfolding cli_action_def
  by (auto simp: only_simulated.runs_ret split: option.split)

lemma cli_connect_only: "runs only_simulated (cli_connect rt L net)"
  unfolding cli_connect_def newKit_def Let_def
  by (intro only_simulated.runs_if only_simulated.runs_catch client_rules)

lemma cli_environment_only: "runs only_simulated (cli_environment rt L net network url)"
  unfolding cli_environment_def by (intro client_rules)

section \<open>Properties\<close>

text \<open>
  C22. Whatever the client is asked to do, except to liquidate or to repay for a delegator, and whatever
  the node answers, it sends no transaction but approvals and credit delegations that has not passed a
  simulation before: one with the same contract, method, arguments, sender and gas.
\<close>

theorem operations_are_simulated:
  assumes "param args 1 \<notin> Some ` set unsimulated_actions" and run: "cli_execute n rt L args h = (r, h')"
  shows "\<exists>t. sent h' = sent h @ t \<and> (\<forall>tx \<in> set t. simulated_before (passed h') tx)"
proof -
  have "runs only_simulated (cli_execute n rt L args)"
    unfolding cli_execute_def using cli_action_only [OF assms(1)]
    by (auto intro!: only_simulated.runs_ret only_simulated.runs_bind cli_connect_only cli_environment_only
        split: option.split)
  from runsD [OF this run] show ?thesis unfolding only_simulated_def by blast
qed

definition sample_lib :: "rat cli_lib" where
  "sample_lib = \<lparr> math = rat_math 20 ROUND_HALF_UP, toWei = (\<lambda>s. Inr (s @ ''000000000000000000'')),
     checksum = (\<lambda>a. a), fixed_places = (\<lambda>n q. dec_of_nat (nat \<lfloor>q\<rfloor>)),
     local_time = (\<lambda>q. dec_of_nat (nat \<lfloor>q\<rfloor>)), abi_encode = (\<lambda>v. ''0x'') \<rparr>"

lemma operations_are_simulated_witness:
  "\<exists>t. sent (snd (cli_execute 1 demo_rt sample_lib [''main'', ''borrow'', ''celo'', ''0xuser'', ''5'', ''stable'', ''key''] []))
      = t \<and> (\<forall>tx \<in> set t. simulated_before (passed (snd (cli_execute 1 demo_rt sample_lib
          [''main'', ''borrow'', ''celo'', ''0xuser'', ''5'', ''stable'', ''key''] []))) tx)"
  using operations_are_simulated [of "[''main'', ''borrow'', ''celo'', ''0xuser'', ''5'', ''stable'', ''key'']" 1
      demo_rt sample_lib "[]", OF _ prod.collapse [symmetric]]
  by (simp add: param_def unsimulated_actions_def)

section \<open>Approvals\<close>

definition method_tx :: "web3_method \<Rightarrow> string option \<Rightarrow> int \<Rightarrow> tx_obs" where
  "method_tx m u g = (u, m_target m, m_name m, m_args m @ [web3_options u g])"

lemma method_send_ok: "method_send rt m u g h = (Inr x, h') \<Longrightarrow> sent h' = sent h @ [method_tx m u g]"
  by (auto simp: method_send_def send_tx_def wait_tx_def ok_simps sent.proj_append sent_def method_tx_def)

lemma quiet_simulated: "quiet sent (simulated rt m u g)"
  unfolding simulated_def cli_retry_def method_estimate_def by (intro quiet_intros quiet_retried)

lemma simulated_ok: "simulated rt m u g h = (r, h') \<Longrightarrow> sent h' = sent h"
  by (rule quietD [OF quiet_simulated])

lemma with_key_ok:
  assumes "with_key rt E pk k h = (Inr x, h')"
  shows "(x = CliMissingKey \<and> h' = h) \<or> (\<exists>h1. sent h1 = sent h \<and> k h1 = (Inr x, h'))"
  using assms
  by (auto simp: with_key_def ok_simps rpc_send_def sent.proj_append sent_def split: if_splits)

text \<open>The approval of the lending pool for an amount.\<close>

definition pool_approval :: "cli_env \<Rightarrow> string \<Rightarrow> js_val \<Rightarrow> string option \<Rightarrow> tx_obs" where
  "pool_approval E token v u = method_tx (approve_method token (at_lendingPool E) v) u DEFAULT_GAS"

lemma approve_pool_ok: "approve_pool rt E token v u h = (Inr x, h') \<Longrightarrow> sent h' = sent h @ [pool_approval E token v u]"
  unfolding approve_pool_def pool_approval_def by (rule method_send_ok)

text \<open>An approval, the operation if its simulation passed, and the revocation.\<close>

definition approved_and_revoked ::
    "cli_env \<Rightarrow> string option \<Rightarrow> string option \<Rightarrow> string \<Rightarrow> cli_result \<Rightarrow> tx_obs list \<Rightarrow> bool" where
  "approved_and_revoked E asset u operation res t \<longleftrightarrow>
     (\<exists>token v op. token_at E asset = Some token \<and> fst (snd (snd op)) = operation
        \<and> t = [pool_approval E token v u] @ (if res = CliDone then [op] else []) @ [pool_approval E token (VNum 0) u])"

lemma repay_with_approval_ok:
  assumes "repay_with_approval rt E token amount m u h = (Inr res, h')" and "token_at E asset = Some token"
  shows "\<exists>t. sent h' = sent h @ t \<and> approved_and_revoked E asset u (m_name m) res t"
  using assms
  by (auto simp: repay_with_approval_def approved_and_revoked_def ok_simps method_tx_def split: if_splits
      dest!: approve_pool_ok simulated_ok method_send_ok)

lemma used_ok: "used c = Inr a \<longleftrightarrow> c = Some a"
  by (auto simp: used_def split: option.splits)

text \<open>
  C34. After a repayment that returns, also one on somebody's behalf, the lending pool has no approval
  left: nothing was sent for want of a key, or the first transaction approves an amount of the asset and
  the last one revokes it, with the repayment between them exactly when its simulation passed.
\<close>

theorem repayments_leave_no_approval:
  assumes "f = cli_repay \<and> u = param ps 1 \<or> f = cli_repayFor \<and> u = param ps 2"
    and "f rt L E ps h = (Inr res, h')"
  shows "\<exists>t. sent h' = sent h @ t \<and> (res = CliMissingKey \<and> t = []
    \<or> approved_and_revoked E (param ps 0) u ''repay'' res t)"
proof -
  have "(res = CliMissingKey \<and> h' = h) \<or> (\<exists>h1 token amount m. sent h1 = sent h \<and> token_at E (param ps 0) = Some token
      \<and> m_name m = ''repay'' \<and> repay_with_approval rt E token amount m u h1 = (Inr res, h'))"
    using assms(1)
  proof (elim disjE conjE)
    assume "f = cli_repay" "u = param ps 1"
    with assms(2) show ?thesis
      by (fastforce simp: cli_repay_def Let_def ok_simps used_ok pool_method_def dest!: with_key_ok)
  next
    assume "f = cli_repayFor" "u = param ps 2"
    with assms(2) show ?thesis
      by (fastforce simp: cli_repayFor_def Let_def ok_simps used_ok pool_method_def dest!: with_key_ok)
  qed
  then show ?thesis by (auto dest: repay_with_approval_ok)
qed

definition sample_env :: cli_env where
  "sample_env = env_of (main_net sample_lib) ''main'' ''https://forno.celo.org'' ''0xpool'' ''0xoracle''"

lemma sample_repay_done:
  "fst (cli_repay demo_rt sample_lib sample_env [''celo'', ''0xuser'', ''5'', ''stable'', ''key''] []) = Inr CliDone"
  by code_simp

lemma repayments_leave_no_approval_witness:
  "\<exists>t. sent (snd (cli_repay demo_rt sample_lib sample_env [''celo'', ''0xuser'', ''5'', ''stable'', ''key''] [])) = t
     \<and> approved_and_revoked sample_env (Some ''celo'') (Some ''0xuser'') ''repay'' CliDone t"
proof -
  obtain h' where "cli_repay demo_rt sample_lib sample_env [''celo'', ''0xuser'', ''5'', ''stable'', ''key''] [] = (Inr CliDone, h')"
    using sample_repay_done by (metis prod.collapse)
  from repayments_leave_no_approval [where f = cli_repay, OF _ this, of "Some ''0xuser''"] this
  show ?thesis by (simp add: param_def)
qed

text \<open>The delegation of the user's credit in a debt token to the migrator.\<close>

definition migrator_delegation :: "cli_env \<Rightarrow> js_val \<Rightarrow> string option \<Rightarrow> string \<Rightarrow> tx_obs" where
  "migrator_delegation E v u debtToken =
     method_tx \<lparr> m_target = debtToken, m_name = ''approveDelegation'', m_args = [VStr (at_migrator E), v] \<rparr> u DEFAULT_GAS"

definition migrate_method :: "cli_env \<Rightarrow> web3_method" where
  "migrate_method E = \<lparr> m_target = at_migrator E, m_name = ''migrate'', m_args = [] \<rparr>"

lemma delegate_migrator_ok:
  "delegate_migrator rt E d v u h = (Inr x, h') \<Longrightarrow>
    \<exists>a. d = Some a \<and> sent h' = sent h @ [migrator_delegation E v u a]"
  by (auto simp: delegate_migrator_def delegate_method_def ok_simps migrator_delegation_def
      split: option.splits dest!: method_send_ok)

lemma delegations_ok:
  "for_each (\<lambda>d. delegate_migrator rt E d v u) ds h = (Inr x, h') \<Longrightarrow>
    \<exists>ts. ds = map Some ts \<and> sent h' = sent h @ map (migrator_delegation E v u) ts"
proof (induction ds arbitrary: h)
  case Nil
  then show ?case by (simp add: ret_ok)
next
  case (Cons d ds)
  then obtain y h1 where d: "delegate_migrator rt E d v u h = (Inr y, h1)"
    and rest: "for_each (\<lambda>d. delegate_migrator rt E d v u) ds h1 = (Inr x, h')"
    by (auto simp: for_each_Cons seq_ok)
  obtain a where "d = Some a" "sent h1 = sent h @ [migrator_delegation E v u a]"
    using delegate_migrator_ok [OF d] by blast
  moreover obtain ts where "ds = map Some ts" "sent h' = sent h1 @ map (migrator_delegation E v u) ts"
    using Cons.IH [OF rest] by blast
  ultimately show ?case by (intro exI [of _ "a # ts"]) simp
qed

lemma map_io_length: "map_io f xs h = (Inr ys, h') \<Longrightarrow> length ys = length xs"
proof -
  have "fold_io (\<lambda>acc x. bind (f x) (\<lambda>y. ret (acc @ [y]))) acc xs h = (Inr ys, h') \<Longrightarrow> length ys = length acc + length xs"
    for acc h
    by (induction xs arbitrary: acc h) (fastforce simp: ok_simps)+
  then show "map_io f xs h = (Inr ys, h') \<Longrightarrow> length ys = length xs" by (fastforce simp: map_io_def)
qed

lemma quiet_map_io: "(\<And>x. quiet sent (f x)) \<Longrightarrow> quiet sent (map_io f xs)"
  unfolding map_io_def by (intro quiet_intros)

lemma quiet_reserve_tokens: "quiet sent (reserve_tokens rt E v)" "quiet sent (view_at rt a m args)"
  unfolding reserve_tokens_def view_at_def by (intro quiet_intros)+

lemma quiet_retried_estimate: "quiet sent (cli_retry (method_estimate rt m u g))"
  unfolding cli_retry_def method_estimate_def by (intro quiet_retried quiet_intros)

lemma attempt_send:
  assumes "attempt (seq (cli_retry (method_estimate rt m u g)) (method_send rt m u g)) h = (r, h')"
  shows "sent h' = sent h \<or> sent h' = sent h @ [method_tx m u g] \<and> request_of m u g \<in> set (passed h')"
proof -
  have same: "snd (attempt f h) = snd (f h)" for f :: "unit io" and h
    by (cases "f h") (auto simp: attempt_def catch_def bind_def ret_def split: sum.split js_error.split)
  obtain q h1 where e: "cli_retry (method_estimate rt m u g) h = (q, h1)" by fastforce
  have s: "sent h1 = sent h"
    by (rule quietD [OF quiet_retried_estimate e])
  show ?thesis
  proof (cases q)
    case (Inl err)
    then show ?thesis using same [of "seq (cli_retry (method_estimate rt m u g)) (method_send rt m u g)" h] assms e s
      by (simp add: seq_def bind_def)
  next
    case (Inr x)
    then have "h' = snd (method_send rt m u g h1)"
      using same [of "seq (cli_retry (method_estimate rt m u g)) (method_send rt m u g)" h] assms e
      by (simp add: seq_def bind_def)
    then show ?thesis
      using method_send_cases [of rt m u g h1] s retried_request [OF e [unfolded Inr]] by (auto simp: method_tx_def)
  qed
qed

text \<open>
  C35. The migration leaves nothing delegated: a run that returns either had no key and sent nothing,
  or delegated the user's credit in three debt tokens to the migrator without limit, sent the
  migration at most once, after a simulation of it that passed, and revoked the three delegations,
  whether the migration succeeded or not.
\<close>

theorem migration_revokes_delegations:
  assumes "cli_migrate rt L E ps h = (Inr res, h')"
  shows "res = CliMissingKey \<and> h' = h \<or> (\<exists>ts op. length ts = 3
    \<and> sent h' = sent h @ map (migrator_delegation E (VStr maxUint256) (param ps 0)) ts @ op
        @ map (migrator_delegation E (VNum 0) (param ps 0)) ts
    \<and> (op = [] \<or> op = [method_tx (migrate_method E) (param ps 0) 4000000]
         \<and> request_of (migrate_method E) (param ps 0) 4000000 \<in> set (passed h')))"
proof -
  let ?u = "param ps 0" and ?d = "\<lambda>v ds. for_each (\<lambda>d. delegate_migrator rt E d v (param ps 0)) ds"
  let ?m = "attempt (seq (cli_retry (method_estimate rt (migrate_method E) ?u 4000000))
    (method_send rt (migrate_method E) ?u 4000000))"
  let ?r = "map_io (\<lambda>asset. bind (reserve_tokens rt E (VStr asset)) (\<lambda>d. ret (str_field d ''variableDebtTokenAddress'')))
    [at_cUSD E, at_cEUR E, at_CELO E]"
  show ?thesis
    using with_key_ok [OF assms [unfolded cli_migrate_def Let_def migrate_method_def [symmetric]]]
  proof (elim disjE exE conjE)
    fix h1 assume s1: "sent h1 = sent h"
      and "bind ?r (\<lambda>debtTokens. seq (?d (VStr maxUint256) debtTokens) (bind ?m (\<lambda>_.
        seq (?d (VNum 0) debtTokens) (ret CliDone)))) h1 = (Inr res, h')"
    then obtain ds h2 x h3 y h4 z where r: "?r h1 = (Inr ds, h2)" and a: "?d (VStr maxUint256) ds h2 = (Inr x, h3)"
      and m: "?m h3 = (Inr y, h4)" and b: "?d (VNum 0) ds h4 = (Inr z, h')"
      by (auto simp: ok_simps)
    have "quiet sent ?r" by (intro quiet_map_io quiet_intros quiet_reserve_tokens)
    note s2 = quietD [OF this r]
    obtain ts where ts: "ds = map Some ts" "sent h3 = sent h2 @ map (migrator_delegation E (VStr maxUint256) ?u) ts"
      using delegations_ok [OF a] by blast
    obtain ts' where "ds = map Some ts'" "sent h' = sent h4 @ map (migrator_delegation E (VNum 0) ?u) ts'"
      using delegations_ok [OF b] by blast
    then have "sent h' = sent h4 @ map (migrator_delegation E (VNum 0) ?u) ts"
      using ts(1) by (metis map_eq_imp_length_eq inj_map_eq_map inj_Some)
    moreover obtain op where "sent h4 = sent h3 @ op" "op = [] \<or> op = [method_tx (migrate_method E) ?u 4000000]
        \<and> request_of (migrate_method E) ?u 4000000 \<in> set (passed h4)"
      using attempt_send [OF m] by auto
    moreover have "length ts = 3" using map_io_length [OF r] ts(1) by simp
    moreover have "set (passed h4) \<subseteq> set (passed h')"
      using runsD [OF only_simulated.runs_for_each [OF delegate_migrator_only_simulated] b]
      by (auto simp: only_simulated_def)
    ultimately show ?thesis using s1 s2 ts(2) by (intro disjI2 exI [of _ ts] exI [of _ op]) auto
  qed simp
qed

definition debt_token_rt :: runtime where
  "debt_token_rt = demo_rt\<lparr> ext_call := (\<lambda>h a m args. Inr (VObj [(''variableDebtTokenAddress'', VStr ''0xdebt'')])) \<rparr>"

lemma sample_migration_returns:
  "fst (cli_migrate debt_token_rt sample_lib sample_env [''0xuser'', ''key''] []) = Inr CliDone"
  by code_simp

lemma migration_revokes_delegations_witness:
  "\<exists>ts op. length ts = 3 \<and> sent (snd (cli_migrate debt_token_rt sample_lib sample_env [''0xuser'', ''key''] []))
    = map (migrator_delegation sample_env (VStr maxUint256) (Some ''0xuser'')) ts @ op
      @ map (migrator_delegation sample_env (VNum 0) (Some ''0xuser'')) ts"
proof -
  obtain h' where "cli_migrate debt_token_rt sample_lib sample_env [''0xuser'', ''key''] [] = (Inr CliDone, h')"
    using sample_migration_returns by (metis prod.collapse)
  from migration_revokes_delegations [OF this] this show ?thesis by (auto simp: param_def)
qed

section \<open>The swap paths\<close>

text \<open>The keys of a table of paths are in lower case.\<close>

lemma path_table_keys:
  "set (obj_keys (foldl (\<lambda>ps (a, b, p, f, t). obj_set ps (path_key a b) (R p f t)) ob xs))
    \<subseteq> set (obj_keys ob) \<union> {k. toLowerCase k = k}"
proof (induction xs arbitrary: ob)
  case (Cons x xs)
  obtain a b p f t where x: "x = (a, b, p, f, t)" by (cases x)
  have "toLowerCase (path_key a b) = path_key a b" by (simp add: path_key_def)
  then show ?case
    using Cons [of "obj_set ob (path_key a b) (R p f t)"] by (auto simp: x obj_keys_set split: if_splits)
qed simp

lemma getSwapPath_keys: "obj_get (getSwapPath E) k = Some r \<Longrightarrow> toLowerCase k = k"
proof -
  have keys: "set (obj_keys (getSwapPath E)) \<subseteq> {k. toLowerCase k = k}"
    unfolding getSwapPath_def Let_def by (rule order_trans [OF path_table_keys]) simp
  assume "obj_get (getSwapPath E) k = Some r"
  then have "k \<in> set (obj_keys (getSwapPath E))" using obj_get_None_iff [of "getSwapPath E" k] by simp
  then show "toLowerCase k = k" using keys by blast
qed

text \<open>Runs that send nothing and return only to reject their arguments.\<close>

definition rejecting_only :: "cli_result io \<Rightarrow> bool" where
  "rejecting_only m \<longleftrightarrow> (\<forall>h. sent (snd (m h)) = sent h
     \<and> (\<forall>res. fst (m h) = Inr res \<longrightarrow> res = CliMissingKey \<or> res = CliInvalid))"

lemma rejecting_basic:
  "rejecting_only (throw e)" "rejecting_only m \<Longrightarrow> rejecting_only (require b m)"
  "rejecting_only m \<Longrightarrow> rejecting_only (main_only E msg m)"
  by (auto simp: rejecting_only_def require_def main_only_def throw_def ret_def)

lemma rejecting_lift: "(\<And>x. v = Inr x \<Longrightarrow> rejecting_only (f x)) \<Longrightarrow> rejecting_only (bind (lift_sum v) f)"
  by (cases v) (simp_all add: rejecting_basic)

lemma rejecting_with_key:
  assumes "rejecting_only k" shows "rejecting_only (with_key rt E p k)"
  unfolding rejecting_only_def
proof
  fix h
  obtain r h1 where a: "rpc_send rt ''addAccount'' [opt_val p] h = (r, h1)" by fastforce
  show "sent (snd (with_key rt E p k h)) = sent h
      \<and> (\<forall>res. fst (with_key rt E p k h) = Inr res \<longrightarrow> res = CliMissingKey \<or> res = CliInvalid)"
    using assms quietD [OF quiet_sent(6) a] a
    by (cases r) (auto simp: with_key_def seq_def bind_def ret_def rejecting_only_def)
qed

text \<open>
  C39. The action \<open>auto-repay\<close> cannot succeed on any network whose addresses have a capital letter, as
  those of the main network do after the checksum: it looks the pair up as it is in a table whose keys
  are in lower case. Every run sends nothing and fails, but for the runs that reject the arguments
  before.
\<close>

theorem auto_repay_never_works:
  assumes cap: "\<forall>(name, a) \<in> set (tokens E). toLowerCase a \<noteq> a"
    and run: "cli_autoRepay rt L E ps h = (r, h')"
  shows "sent h' = sent h \<and> (\<forall>res. r = Inr res \<longrightarrow> res = CliMissingKey \<or> res = CliInvalid)"
proof -
  have missing: "path_at E (a @ ''_'' @ b) = Inl (JsTypeError ''Cannot read property path of undefined'')"
    if "token_at E x = Some a" for a b x
  proof -
    have "toLowerCase a \<noteq> a"
      using that cap by (auto simp: token_at_def obj_get_def split: option.splits dest!: map_of_SomeD)
    then have "toLowerCase (a @ ''_'' @ b) \<noteq> a @ ''_'' @ b" by simp
    then show ?thesis using getSwapPath_keys by (fastforce simp: path_at_def split: option.split)
  qed
  have "rejecting_only (cli_autoRepay rt L E ps)"
    unfolding cli_autoRepay_def Let_def
    by (intro rejecting_basic rejecting_with_key rejecting_lift) (auto simp: missing [simplified] used_ok)
  from this [unfolded rejecting_only_def, rule_format, of h] run show ?thesis by simp
qed

lemma sample_tokens: "tokens sample_env = [(''celo'', CELO_address), (''cusd'', cUSD_address), (''ceur'', cEUR_address),
    (''creal'', cREAL_address), (''moo'', MOO_address)]"
  by (simp add: sample_env_def env_of_def main_net_def tokens_def sample_lib_def cli_net.defs
      CELO_address_def cUSD_address_def cEUR_address_def cREAL_address_def MOO_address_def)

text \<open>The addresses in \<open>cli.js\<close> are written with their checksums, which the sample library keeps.\<close>

lemma auto_repay_never_works_witness:
  "sent (snd (cli_autoRepay demo_rt sample_lib sample_env
     [''0xbot'', ''0xuser'', ''celo'', ''cusd'', ''variable'', ''5'', ''true'', ''key''] [])) = []"
  using auto_repay_never_works [of sample_env demo_rt sample_lib _ "[]", OF _ prod.collapse [symmetric]]
  by (simp add: sample_tokens toLowerCase_addresses)
    (simp add: CELO_address_def cUSD_address_def cEUR_address_def cREAL_address_def MOO_address_def)

text \<open>
  With the addresses of the main network the client has a path that begins and ends at the right
  tokens for every pair of assets but the five equal ones, for which it has none, and three others:
  from MOO to CELO, and between cREAL and MOO in both directions, whose flags announce an aToken of MOO
  while the path holds MOO.
\<close>

theorem client_misrouted_pairs:
  assumes "tokens E = [(''celo'', CELO_address), (''cusd'', cUSD_address), (''ceur'', cEUR_address),
    (''creal'', cREAL_address), (''moo'', MOO_address)]"
  shows "filter (\<lambda>(a, b). case path_at E (path_key a b) of Inl _ \<Rightarrow> True | Inr r \<Rightarrow> \<not> route_fits r a b)
      (List.product bot_assets bot_assets) =
    [(CELO_address, CELO_address), (cUSD_address, cUSD_address), (cEUR_address, cEUR_address),
     (cREAL_address, cREAL_address), (cREAL_address, MOO_address),
     (MOO_address, CELO_address), (MOO_address, cREAL_address), (MOO_address, MOO_address)]"
proof -
  have E: "at_CELO E = CELO_address" "at_cUSD E = cUSD_address" "at_cEUR E = cEUR_address"
    "at_cREAL E = cREAL_address" "at_MOO E = MOO_address"
    using assms by (simp_all add: tokens_def)
  have mem: "CELO_address \<in> set bot_assets" "cUSD_address \<in> set bot_assets" "cEUR_address \<in> set bot_assets"
    "cREAL_address \<in> set bot_assets" "MOO_address \<in> set bot_assets"
    by (simp_all add: bot_assets_def)
  let ?R = "\<lambda>p f t. \<lparr> route_path = p, useATokenAsFrom = f, useATokenAsTo = t \<rparr>"
  have table: "getSwapPath E =
    [(path_key CELO_address cUSD_address, ?R [CELO_address, mcusdAddress] False True),
     (path_key CELO_address cEUR_address, ?R [CELO_address, mceurAddress] False True),
     (path_key CELO_address cREAL_address, ?R [CELO_address, cUSD_address, cREAL_address] False False),
     (path_key CELO_address MOO_address, ?R [mceloAddress, MOO_address] True False),
     (path_key cUSD_address cEUR_address, ?R [mcusdAddress, mceurAddress] True True),
     (path_key cUSD_address cREAL_address, ?R [cUSD_address, cREAL_address] False False),
     (path_key cUSD_address MOO_address, ?R [cUSD_address, CELO_address, MOO_address] False False),
     (path_key cEUR_address cREAL_address, ?R [cEUR_address, CELO_address, cUSD_address, cREAL_address] False False),
     (path_key cEUR_address MOO_address, ?R [mceurAddress, CELO_address, MOO_address] True False),
     (path_key cREAL_address MOO_address, ?R [cREAL_address, cUSD_address, CELO_address, MOO_address] False True),
     (path_key cUSD_address CELO_address, ?R [mcusdAddress, CELO_address] True False),
     (path_key cEUR_address CELO_address, ?R [mceurAddress, CELO_address] True False),
     (path_key cREAL_address CELO_address, ?R [cREAL_address, cUSD_address, CELO_address] False False),
     (path_key MOO_address CELO_address, ?R [MOO_address, mceloAddress] True False),
     (path_key cEUR_address cUSD_address, ?R [mceurAddress, mcusdAddress] True True),
     (path_key cREAL_address cUSD_address, ?R [cREAL_address, cUSD_address] False False),
     (path_key MOO_address cUSD_address, ?R [MOO_address, CELO_address, cUSD_address] False False),
     (path_key cREAL_address cEUR_address, ?R [cREAL_address, cUSD_address, CELO_address, cEUR_address] False False),
     (path_key MOO_address cEUR_address, ?R [MOO_address, CELO_address, mceurAddress] False True),
     (path_key MOO_address cREAL_address, ?R [MOO_address, CELO_address, cUSD_address, cREAL_address] True False)]"
    by (simp add: getSwapPath_def E Let_def path_key_eq mem distinct_addresses [simplified])
  show ?thesis
    by (simp add: bot_assets_def path_at_def table path_key_eq mem obj_get_def route_fits_def swap_end_def
        known_aToken_def distinct_addresses [simplified])
qed

lemma client_misrouted_pairs_witness:
  "route_fits \<lparr> route_path = [MOO_address, mceloAddress], useATokenAsFrom = True, useATokenAsTo = False \<rparr>
     MOO_address CELO_address = False \<and>
   (MOO_address, CELO_address) \<in> set (filter (\<lambda>(a, b). case path_at sample_env (path_key a b) of
      Inl _ \<Rightarrow> True | Inr r \<Rightarrow> \<not> route_fits r a b) (List.product bot_assets bot_assets))"
  unfolding client_misrouted_pairs [OF sample_tokens]
  by (simp add: route_fits_def swap_end_def known_aToken_def obj_get_def distinct_addresses [simplified])

text \<open>
  The rate modes that the client accepts, in any case of the letters, are \<open>stable\<close>, \<open>variable\<close> and the
  digits 0, 1 and 2; only the two words yield the number that the contracts expect, the digits yield
  the name of the mode, with which no contract can be called. A borrowing or a delegation does not
  check the mode at all and takes \<open>none\<close> as 0 and any other word as undefined.
\<close>

theorem rate_modes:
  "(isValidRateMode mode \<longleftrightarrow> (\<exists>s. mode = Some s \<and> to_upper s \<in> {''STABLE'', ''VARIABLE'', ''0'', ''1'', ''2''}))
    \<and> getRateModeNumber (Some w) = Inr (
        if to_upper w = ''NONE'' then VNum 0 else if to_upper w = ''STABLE'' then VNum 1
        else if to_upper w = ''VARIABLE'' then VNum 2 else if to_upper w = ''1'' then VStr ''STABLE''
        else if to_upper w = ''2'' then VStr ''VARIABLE'' else if to_upper w = ''0'' then VStr ''NONE'' else VUndef)"
proof -
  have "to_upper s \<noteq> to_upper [] \<Longrightarrow> s \<noteq> []" for s by blast
  then show ?thesis
    by (auto simp: isValidRateMode_def getRateModeNumber_def interest_rate_def INTEREST_RATE_def obj_get_def
        to_upper_def split: option.splits if_splits)
qed

text \<open>The parameter at which an action that signs expects the private key.\<close>

definition key_index :: "nat js_obj" where
  "key_index = [(''deposit'', 3), (''borrow'', 4), (''repay'', 4), (''redeem'', 3), (''delegate'', 5),
     (''borrowfrom'', 5), (''repayfor'', 5), (''migrate-step-2'', 1), (''liquidation-bot'', 1),
     (''liquidity-swap'', 4), (''repay-from-collateral'', 6), (''auto-repay'', 7),
     (''set-auto-repay-params'', 3), (''liquidationcall'', 6), (''repaydelegation'', 5), (''leverage-borrow'', 5)]"

text \<open>With a required key that is missing, the rest of an action is not reached.\<close>

lemma with_key_missing: "privateKeyRequired E \<Longrightarrow> \<not> truthy p \<Longrightarrow> with_key rt E p k = ret CliMissingKey"
  by (simp add: with_key_def)

lemma quiet_checks:
  "quiet sent k \<Longrightarrow> quiet sent (require b k)" "quiet sent k \<Longrightarrow> quiet sent (main_only E msg k)"
  by (auto simp: require_def main_only_def intro: quiet_intros)

lemma keyed_actions_quiet:
  assumes "privateKeyRequired E" "env_var rt ''CELO_BOT_PK'' = None" "map_of key_index act = Some i" "\<not> truthy (param ps i)"
  shows "quiet sent (cli_action n rt L E (Some act) ps)"
proof -
  have "\<forall>(a, i) \<in> set key_index. \<not> truthy (param ps i) \<longrightarrow> quiet sent (cli_action n rt L E (Some a) ps)"
    using assms(1,2)
    by (simp add: key_index_def cli_action_def cli_actions_def cli_deposit_def cli_borrow_def cli_repay_def cli_redeem_def
        cli_delegate_def cli_borrowFrom_def cli_repayFor_def cli_migrate_def cli_liquidationBot_def cli_liquiditySwap_def
        cli_repayFromCollateral_def cli_autoRepay_def cli_setAutoRepayParams_def cli_liquidationCall_def
        cli_repayDelegation_def cli_leverageBorrow_def with_key_missing env_or_def quiet_intros quiet_checks Let_def)
  then show ?thesis using assms(3,4) by (auto dest: map_of_SomeD)
qed

text \<open>
  Without a private key the client signs nothing on the two public networks: an action that needs a
  key, given none and with no key in the environment, sends no transaction, whatever else its
  parameters are.
\<close>

theorem missing_key_signs_nothing:
  assumes "net = ''test'' \<or> net = ''main''" and "env_var rt ''CELO_BOT_PK'' = None"
    and "map_of key_index act = Some i" and "\<not> truthy (param ps i)"
  shows "sent (snd (cli_execute n rt L (net # act # ps) h)) = sent h"
proof -
  have "quiet sent (cli_action n rt L (env_of N net url a b) (Some act) ps)" if "privateKeyRequired N" for N url a b
    using that assms(2-4) by (intro keyed_actions_quiet) (simp_all add: env_of_def cli_net.defs)
  then have "quiet sent (cli_execute n rt L (net # act # ps))"
    using assms(1) unfolding cli_execute_def cli_connect_def cli_environment_def newKit_def view_at_def
    by (auto simp: param_def seq_def bind_assoc Let_def test_net_def main_net_def intro!: quiet_intros)
  then show ?thesis by (simp add: quiet_def)
qed

lemma missing_key_signs_nothing_witness:
  "sent (snd (cli_execute 1 demo_rt sample_lib [''main'', ''deposit'', ''celo'', ''0xuser'', ''5''] [])) = []"
  using missing_key_signs_nothing [of "''main''" demo_rt "''deposit''" 3 "[''celo'', ''0xuser'', ''5'']" 1 sample_lib "[]"]
  by (simp add: key_index_def param_def demo_rt_def)

end
