(* ===== verification/LiquidationTheorems.thy ===== *)
theory LiquidationTheorems
  imports CommandLineTheorems "HOL-Library.Multiset"
begin

text \<open>
  The client's choice of the best quote, and the liquidation bot: whom it picks and in which order,
  what it sends for one user, and that no error ends its loop.
\<close>

section \<open>The best quote\<close>

text \<open>What the exchange answers for a pair, when its answers do not change during the search.\<close>

definition quoted ::
    "'b cli_lib \<Rightarrow> (string \<Rightarrow> string \<Rightarrow> js_error + js_val) \<Rightarrow> string \<times> string \<Rightarrow> 'b option" where
  "quoted L Q p = (case Q (fst p) (snd p) of
       Inr (VList (_ # out # _)) \<Rightarrow> Some (BN L (val_str out)) | _ \<Rightarrow> None)"

definition pick ::
    "'b cli_lib \<Rightarrow> (string \<Rightarrow> string \<Rightarrow> js_error + js_val) \<Rightarrow> 'b best_quote \<Rightarrow> string \<times> string \<Rightarrow> 'b best_quote" where
  "pick L Q res p = (case quoted L Q p of None \<Rightarrow> res
     | Some out \<Rightarrow> if lt_bn (math L) (amountOut res) out
         then \<lparr> tokenFrom = fst p, tokenTo = snd p, amountOut = out \<rparr> else res)"

definition steady_quotes ::
    "runtime \<Rightarrow> cli_env \<Rightarrow> js_val \<Rightarrow> (string \<Rightarrow> string \<Rightarrow> js_error + js_val) \<Rightarrow> bool" where
  "steady_quotes rt E amount Q \<longleftrightarrow> (\<forall>f t. (\<forall>n. Q f t \<noteq> Inl (JsExit n)) \<and>
     (\<forall>h. ext_call rt h (at_ubeswap E) ''getAmountsOut'' [amount, VList [VStr f, VStr t]] = Q f t))"

lemma better_quote_result:
  assumes "steady_quotes rt E amount Q"
  shows "\<exists>h1. better_quote rt L E amount res p h = (Inr (pick L Q res p), h1)"
proof -
  obtain f t where p: "p = (f, t)" by fastforce
  have q: "ext_call rt h (at_ubeswap E) ''getAmountsOut'' [amount, VList [VStr f, VStr t]] = Q f t"
    and e: "\<And>n. Q f t \<noteq> Inl (JsExit n)" for h
    using assms by (simp_all add: steady_quotes_def)
  show ?thesis
  proof (cases "Q f t")
    case (Inl err)
    then show ?thesis using e
      by (cases err) (simp_all add: p better_quote_def attempt_def catch_def view_at_def call_view_def perform_def q
          bind_def ret_def pick_def quoted_def)
  next
    case (Inr v)
    then show ?thesis
      by (auto simp: p better_quote_def attempt_def catch_def view_at_def call_view_def perform_def q
          bind_def ret_def pick_def quoted_def split: js_val.split list.split)
  qed
qed

lemma fold_quotes:
  assumes "steady_quotes rt E amount Q"
  shows "\<exists>h1. fold_io (better_quote rt L E amount) res ps h = (Inr (foldl (pick L Q) res ps), h1)"
proof (induction ps arbitrary: res h)
  case (Cons p ps)
  obtain h1 where "better_quote rt L E amount res p h = (Inr (pick L Q res p), h1)"
    using better_quote_result [OF assms] by blast
  then show ?case using Cons.IH [of "pick L Q res p" h1] by (simp add: bind_def)
qed (simp add: ret_def)

lemma foldl_pick:
  assumes B: "bignumber_math (math L) val dp md"
  shows "val (amountOut res) \<le> val (amountOut (foldl (pick L Q) res ps))
    \<and> (\<forall>p \<in> set ps. \<forall>q. quoted L Q p = Some q \<longrightarrow> val q \<le> val (amountOut (foldl (pick L Q) res ps)))
    \<and> (foldl (pick L Q) res ps = res \<or> (\<exists>p \<in> set ps. quoted L Q p = Some (amountOut (foldl (pick L Q) res ps))
         \<and> tokenFrom (foldl (pick L Q) res ps) = fst p \<and> tokenTo (foldl (pick L Q) res ps) = snd p))"
proof (induction ps arbitrary: res)
  case (Cons p ps)
  have step: "val (amountOut res) \<le> val (amountOut (pick L Q res p))"
    "\<And>q. quoted L Q p = Some q \<Longrightarrow> val q \<le> val (amountOut (pick L Q res p))"
    "pick L Q res p = res \<or> (quoted L Q p = Some (amountOut (pick L Q res p))
       \<and> tokenFrom (pick L Q res p) = fst p \<and> tokenTo (pick L Q res p) = snd p)"
    by (auto simp: pick_def bignumber_math.lt_iff [OF B] split: option.split)
  show ?case
    using Cons.IH [of "pick L Q res p"] step by (auto intro: order_trans)
qed simp


definition sample_quotes :: "string \<Rightarrow> string \<Rightarrow> js_error + js_val" where
  "sample_quotes f t = (if f = ''0xdebt'' then Inr (VList [VStr ''5'', VStr ''7'']) else Inl (JsRejected ''no pool''))"

definition quoting_rt :: runtime where
  "quoting_rt = demo_rt\<lparr> ext_call := (\<lambda>h c m args. case args of
     [am, VList [VStr f, VStr t]] \<Rightarrow> sample_quotes f t
   | _ \<Rightarrow> Inr (VObj [(''aTokenAddress'', VStr ''0xm'')])) \<rparr>"


section \<open>Whom the bot picks\<close>

lemma mset_sort_asc: "mset (sort_asc M f xs) = mset xs"
proof -
  have "mset (insert_asc M f x ys) = add_mset x (mset ys)" for x ys
    by (induction ys) auto
  then show ?thesis unfolding sort_asc_def by (induction xs) simp_all
qed

lemma set_sort_asc: "set (sort_asc M f xs) = set xs"
  by (metis mset_sort_asc set_mset_mset)

lemma sorted_sort_asc:
  assumes B: "bignumber_math M val dp md"
  shows "sorted (map (\<lambda>x. val (f x)) (sort_asc M f xs))"
proof -
  note lt = bignumber_math.lt_iff [OF B]
  have set: "set (insert_asc M f x ys) = insert x (set ys)" for x ys
    by (induction ys) auto
  have "sorted (map (\<lambda>x. val (f x)) ys) \<Longrightarrow> sorted (map (\<lambda>x. val (f x)) (insert_asc M f x ys))" for x ys
    by (induction ys) (auto simp: lt set not_less intro: order_trans)
  then show ?thesis unfolding sort_asc_def by (induction xs) simp_all
qed

lemma sorted_filter_map: "sorted (map g xs) \<Longrightarrow> sorted (map g (filter p xs))"
  by (simp add: sorted_filter)

text \<open>A health factor is below one ether exactly when its rounded quotient is below one.\<close>

lemma below_one:
  assumes B: "bignumber_math (math L) val dp md" and dp: "18 \<le> dp" and hf: "val x = of_nat n"
  shows "lt_bn (math L) (div_bn (math L) x (BN L ether)) (int_bn (math L) 1) \<longleftrightarrow> n < 10 ^ 18"
proof -
  have e: "val (BN L ether) = of_nat (10 ^ 18)"
    unfolding BN_def
    by (rule bignumber.val_str [OF bignumber_math.axioms(1) [OF B]])
      (simp add: ether_def decimal_value_def nat_of_dec_def char_digit_def)
  obtain k where k: "dp = 18 + k" using dp le_Suc_ex by blast
  have "of_nat n / 10 ^ 18 * 10 ^ dp = (of_nat (n * 10 ^ k) :: rat)" by (simp add: k power_add)
  then have "round_places dp md (of_nat n / 10 ^ 18) = of_nat (n * 10 ^ k) / 10 ^ dp"
    by (simp only: round_places_def round_int_of_nat of_int_of_nat_eq)
  also have "\<dots> = of_nat n / 10 ^ 18" by (simp add: k power_add)
  finally have d: "val (div_bn (math L) x (BN L ether)) = of_nat n / 10 ^ 18"
    using bignumber_math.val_quotient [OF B, of "BN L ether" x] by (simp add: e hf)
  have one: "val (int_bn (math L) 1) = 1" using bignumber_math.val_literal [OF B, of 1] by simp
  have "(of_nat n / 10 ^ 18 < (1 :: rat)) \<longleftrightarrow> of_nat n < (of_nat (10 ^ 18) :: rat)" by simp
  then show ?thesis by (simp only: bignumber_math.lt_iff [OF B] d one of_nat_less_iff)
qed

text \<open>
  The bot runs the users who have a debt and a health factor below one, each as often as it is
  listed, and begins with the riskiest: it takes them from a permutation of these users that is sorted
  by the health factor.
\<close>

theorem risky_users_sorted:
  assumes B: "bignumber_math (math L) val dp md" and dp: "18 \<le> dp"
    and hf: "\<forall>entry \<in> set usersData. val (health_factor L entry) = of_nat (factor entry)"
  shows "\<exists>entries. risky_users L usersData = map fst entries
    \<and> mset entries = mset (filter (\<lambda>entry. val (BN L (pos_str (snd entry) ''totalDebtETH'')) \<noteq> 0
        \<and> factor entry < 10 ^ 18) usersData)
    \<and> sorted (map factor entries)"
proof -
  let ?M = "math L" and ?risky = "\<lambda>entry. lt_bn (math L) (div_bn (math L) (health_factor L entry) (BN L ether)) (int_bn (math L) 1)"
  let ?debt = "\<lambda>entry. \<not> eq_bn ?M (BN L (pos_str (snd entry) ''totalDebtETH'')) (int_bn ?M 0)"
  let ?entries = "filter ?risky (sort_asc ?M (health_factor L) (filter ?debt usersData))"
  have zero: "val (int_bn ?M 0) = 0" using bignumber_math.val_literal [OF B, of 0] by simp
  have risky: "?risky entry \<longleftrightarrow> factor entry < 10 ^ 18" if "entry \<in> set usersData" for entry
    using below_one [OF B dp] hf that by blast
  have m: "mset ?entries = mset (filter ?risky (filter ?debt usersData))"
    by (simp only: mset_filter mset_sort_asc)
  have eq: "filter ?risky (filter ?debt usersData) = filter (\<lambda>entry.
      val (BN L (pos_str (snd entry) ''totalDebtETH'')) \<noteq> 0 \<and> factor entry < 10 ^ 18) usersData"
    by (auto simp: filter_filter bignumber_math.eq_iff [OF B] zero risky intro!: filter_cong)
  have sub: "set ?entries \<subseteq> set usersData"
    by (auto simp: set_sort_asc)
  have "sorted (map (\<lambda>x. val (health_factor L x)) ?entries)"
    by (intro sorted_filter_map sorted_sort_asc [OF B])
  moreover have "map (\<lambda>x. val (health_factor L x)) ?entries = map (\<lambda>x. of_nat (factor x)) ?entries"
    using hf sub by (intro map_cong) auto
  ultimately have "sorted (map (\<lambda>x. of_nat (factor x) :: rat) ?entries)" by (simp only:)
  then have "sorted (map factor ?entries)" by (simp add: sorted_map)
  moreover have "risky_users L usersData = map fst ?entries"
    by (simp add: risky_users_def Let_def case_prod_unfold)
  ultimately show ?thesis using m [unfolded eq] by blast
qed

definition sample_accounts :: "(string \<times> js_val) list" where
  "sample_accounts = map (\<lambda>(a, d, f). (a, VObj [(''totalDebtETH'', VStr d), (''healthFactor'', VStr f)]))
     [(''0xa'', ''5'', ''900000000000000000''), (''0xb'', ''0'', ''1''), (''0xc'', ''7'', ''800000000000000000''),
      (''0xd'', ''7'', ''1000000000000000000'')]"

definition sample_factor :: "string \<times> js_val \<Rightarrow> nat" where
  "sample_factor entry = (case nat_of_dec (pos_str (snd entry) ''healthFactor'') of None \<Rightarrow> 0 | Some n \<Rightarrow> n)"

lemma risky_users_sorted_witness:
  "\<exists>entries. risky_users sample_lib sample_accounts = map fst entries \<and> sorted (map sample_factor entries)
     \<and> mset (map fst entries) = {#''0xa'', ''0xc''#}"
proof -
  have "bignumber_math (math sample_lib) (\<lambda>r. r) 20 ROUND_HALF_UP"
    by (simp add: sample_lib_def rat_bignumber_math)
  moreover have "\<forall>entry \<in> set sample_accounts. health_factor sample_lib entry = of_nat (sample_factor entry)"
    by (simp add: sample_accounts_def sample_factor_def health_factor_def BN_def sample_lib_def rat_math_def exact_bn_def
        decimal_value_def pos_str_def nat_of_dec_def char_digit_def)
  ultimately obtain entries where e: "risky_users sample_lib sample_accounts = map fst entries"
    "mset entries = mset (filter (\<lambda>entry. BN sample_lib (pos_str (snd entry) ''totalDebtETH'') \<noteq> 0
        \<and> sample_factor entry < 10 ^ 18) sample_accounts)" "sorted (map sample_factor entries)"
    using risky_users_sorted [of sample_lib "\<lambda>r. r" 20 ROUND_HALF_UP sample_accounts sample_factor] by auto
  have "mset (map fst entries) = image_mset fst (mset entries)" by simp
  also have "\<dots> = mset (map fst (filter (\<lambda>entry. BN sample_lib (pos_str (snd entry) ''totalDebtETH'') \<noteq> 0
        \<and> sample_factor entry < 10 ^ 18) sample_accounts))" by (simp only: e(2) mset_map)
  also have "map fst (filter (\<lambda>entry. BN sample_lib (pos_str (snd entry) ''totalDebtETH'') \<noteq> 0
        \<and> sample_factor entry < 10 ^ 18) sample_accounts) = [''0xa'', ''0xc'']"
    by (simp add: sample_accounts_def sample_factor_def BN_def sample_lib_def rat_math_def exact_bn_def
        decimal_value_def pos_str_def nat_of_dec_def char_digit_def)
  finally show ?thesis using e by auto
qed

section \<open>What the bot sends for one user\<close>

lemma quiet_bot_reads:
  "quiet sent (balance_of rt a u)" "quiet sent (method_estimate rt m u g)" "quiet sent (nowSeconds rt)"
  unfolding balance_of_def method_estimate_def nowSeconds_def view_at_def by (intro quiet_intros)+

text \<open>A run that adds to the transactions only swaps of the user, at most \<open>c\<close> of them.\<close>

definition is_swap :: "'b cli_lib \<Rightarrow> string option \<Rightarrow> tx_obs \<Rightarrow> bool" where
  "is_swap L user tx \<longleftrightarrow> (\<exists>args. tx = (user, exchange L, ''swapExactTokensForTokens'', args))"

definition swaps_within :: "'b cli_lib \<Rightarrow> string option \<Rightarrow> history \<Rightarrow> history \<Rightarrow> bool" where
  "swaps_within L user h h' \<longleftrightarrow> (\<exists>t. sent h' = sent h @ t \<and> (\<forall>tx \<in> set t. is_swap L user tx))"

interpretation swaps: run_relation "swaps_within L user" for L :: "'b cli_lib" and user
proof
  show "swaps_within L user h h" for h by (simp add: swaps_within_def)
  fix h h1 h2 assume "swaps_within L user h h1" "swaps_within L user h1 h2"
  then show "swaps_within L user h h2" by (fastforce simp: swaps_within_def)
qed

lemma quiet_swaps: "quiet sent m \<Longrightarrow> runs (swaps_within L user) m"
  by (simp add: runs_def quiet_def swaps_within_def)

lemma swap_sent: "runs (swaps_within L user) (method_send rt (swap_method L profit out path user n) user g)"
  unfolding runs_def
proof
  fix h
  let ?m = "swap_method L profit out path user n"
  have "is_swap L user (user, m_target ?m, m_name ?m, args)" for args
    by (simp add: is_swap_def swap_method_def Let_def)
  then show "swaps_within L user h (snd (method_send rt ?m user g h))"
    using method_send_cases [of rt ?m user g h] by (auto simp: swaps_within_def)
qed

lemma try_swap_runs: "runs (swaps_within L user) (try_swap rt L profit path user)"
  unfolding try_swap_def
  by (intro swaps.runs_bind swaps.runs_seq swap_sent quiet_swaps quiet_bot_reads quiet_intros quiet_reserve_tokens)

text \<open>What a run adds to the transactions satisfies \<open>G\<close>.\<close>

definition contributes :: "(tx_obs list \<Rightarrow> bool) \<Rightarrow> 'a io \<Rightarrow> bool" where
  "contributes G m \<longleftrightarrow> (\<forall>h. \<exists>t. sent (snd (m h)) = sent h @ t \<and> G t)"

lemma contributes_quiet: "quiet sent m \<Longrightarrow> G [] \<Longrightarrow> contributes G m"
  by (auto simp: contributes_def quiet_def)

lemma contributes_bind:
  assumes "quiet sent m" "G []" "\<And>x. contributes G (f x)"
  shows "contributes G (bind m f)"
  unfolding contributes_def
proof
  fix h
  obtain r h1 where m: "m h = (r, h1)" by fastforce
  have s: "sent h1 = sent h" by (rule quietD [OF assms(1) m])
  show "\<exists>t. sent (snd (bind m f h)) = sent h @ t \<and> G t"
  proof (cases r)
    case (Inl e)
    then show ?thesis using s m assms(2) by (simp add: bind_def)
  next
    case (Inr x)
    have "\<exists>t. sent (snd (f x h1)) = sent h1 @ t \<and> G t" using assms(3) [of x] unfolding contributes_def by blast
    then show ?thesis using s m Inr by (simp add: bind_def)
  qed
qed

lemma contributes_seq: "quiet sent m \<Longrightarrow> G [] \<Longrightarrow> contributes G k \<Longrightarrow> contributes G (seq m k)"
  unfolding seq_def by (rule contributes_bind)

lemma contributes_if: "contributes G m \<Longrightarrow> contributes G k \<Longrightarrow> contributes G (if b then m else k)"
  by simp

lemma contributes_send:
  assumes "G []" "G' []" and cons: "\<And>t. G' t \<Longrightarrow> G (method_tx m u g # t)" and k: "contributes G' k"
  shows "contributes G (seq (method_send rt m u g) k)"
  unfolding contributes_def
proof
  fix h
  obtain r h1 where m: "method_send rt m u g h = (r, h1)" by fastforce
  have s: "sent h1 = sent h @ [method_tx m u g] \<or> sent h1 = sent h"
    using method_send_cases [of rt m u g h] m by (auto simp: method_tx_def)
  show "\<exists>t. sent (snd (seq (method_send rt m u g) k h)) = sent h @ t \<and> G t"
  proof (cases r)
    case (Inl e)
    then show ?thesis using s m assms(1) cons [OF assms(2)] by (auto simp: seq_def bind_def)
  next
    case (Inr x)
    obtain t where t: "sent (snd (k h1)) = sent h1 @ t" "G' t" using k by (auto simp: contributes_def)
    have "sent h1 = sent h @ [method_tx m u g]" using method_send_ok m Inr by blast
    then show ?thesis using t m Inr cons [OF t(2)] by (simp add: seq_def bind_def)
  qed
qed

lemma swap_back_contributes:
  "contributes (\<lambda>t. (\<forall>tx \<in> set t. is_swap L user tx) \<and> (\<not> b \<longrightarrow> t = []))
     (seq (io_when b (cli_retry (try_swap rt L profit path user))) (seq (balance_of rt c user) (ret ())))"
proof (cases b)
  case True
  have "runs (swaps_within L user) (seq (io_when b (cli_retry (try_swap rt L profit path user)))
     (seq (balance_of rt c user) (ret ())))"
    unfolding cli_retry_def
    by (intro swaps.runs_seq swaps.runs_io_when swaps.runs_retry try_swap_runs swaps.runs_ret quiet_swaps quiet_bot_reads)
  then show ?thesis using True by (simp add: runs_def contributes_def swaps_within_def)
next
  case False
  then show ?thesis
    by (intro contributes_quiet) (auto simp: io_when_def intro!: quiet_intros quiet_bot_reads)
qed

text \<open>
  C36. For one user the bot sends nothing, or a liquidation first, at the user's expense and for the
  bot's whole balance of the debt asset, keeping no aToken, and after it only swaps on the exchange in its own
  name; the swaps come only when the balance of the collateral has not become smaller.
\<close>

theorem liquidation_then_swaps:
  assumes "liquidate rt L E user riskUser (cname, collateral) (dname, debt) h = (r, h')"
  shows "sent h' = sent h \<or> (\<exists>balance swaps. sent h' = sent h
      @ method_tx (liquidation_method E collateral debt riskUser balance) user DEFAULT_GAS # swaps
    \<and> (\<forall>tx \<in> set swaps. is_swap L user tx) \<and> (cname = dname \<longrightarrow> swaps = []))"
proof -
  let ?tx = "\<lambda>b. method_tx (liquidation_method E collateral debt riskUser b) user DEFAULT_GAS"
  let ?swaps = "\<lambda>t. (\<forall>tx \<in> set t. is_swap L user tx) \<and> (\<not> cname \<noteq> dname \<longrightarrow> t = [])"
  let ?G = "\<lambda>t. t = [] \<or> (\<exists>b swaps. t = ?tx b # swaps \<and> ?swaps swaps)"
  have "contributes ?G (liquidate rt L E user riskUser (cname, collateral) (dname, debt))"
    unfolding liquidate_def prod.case Let_def
    apply (rule contributes_bind [OF quiet_bot_reads(1)], simp)
    apply (rule contributes_seq [OF quiet_bot_reads(2)], simp)
    apply (rule contributes_bind [OF quiet_bot_reads(1)], simp)+
    apply (rule contributes_send [where G' = ?swaps], simp, simp, blast)
    apply (rule contributes_bind [OF quiet_bot_reads(1)], simp)
    apply (rule contributes_if)
     apply (rule contributes_quiet, intro quiet_intros, simp)
    apply (rule swap_back_contributes)
    done
  from this [unfolded contributes_def, rule_format, of h] obtain t where "sent h' = sent h @ t" "?G t"
    unfolding assms snd_conv by (elim exE conjE)
  then show ?thesis by auto
qed

lemma liquidation_then_swaps_witness:
  "sent (snd (liquidate demo_rt sample_lib sample_env (Some ''0xbot'') ''0xrisk'' (''celo'', CELO_address)
      (''celo'', CELO_address) [])) = [] \<or>
   (\<exists>balance. sent (snd (liquidate demo_rt sample_lib sample_env (Some ''0xbot'') ''0xrisk'' (''celo'', CELO_address)
      (''celo'', CELO_address) [])) = [method_tx (liquidation_method sample_env CELO_address CELO_address ''0xrisk'' balance)
        (Some ''0xbot'') DEFAULT_GAS])"
  using liquidation_then_swaps [of demo_rt sample_lib sample_env "Some ''0xbot''" "''0xrisk''" "''celo''" CELO_address
      "''celo''" CELO_address "[]", OF prod.collapse [symmetric]] by simp

section \<open>The loop\<close>

text \<open>An attempt never fails, but for an exit of the process.\<close>

lemma attempt_never_fails: "attempt m h = (Inl e, h') \<Longrightarrow> \<exists>n. e = JsExit n"
  by (cases "m h") (auto simp: attempt_def catch_def bind_def ret_def split: sum.splits js_error.splits)

lemma attempt_value: "attempt m h = (Inr (Some x), h') \<Longrightarrow> m h = (Inr x, h')"
  by (cases "m h") (auto simp: attempt_def catch_def bind_def ret_def split: sum.splits js_error.splits)

lemma note_borrow_keys: "set (obj_keys users) \<subseteq> set (obj_keys (note_borrow users args))"
  by (auto simp: note_borrow_def note_borrower_def obj_keys_set)

lemma note_borrows_keys: "set (obj_keys users) \<subseteq> set (obj_keys (foldl note_borrow users events))"
proof (induction events arbitrary: users)
  case (Cons e events)
  then show ?case using note_borrow_keys [of users e] by fastforce
qed simp

lemma note_borrow_distinct: "distinct (obj_keys users) \<Longrightarrow> distinct (obj_keys (foldl note_borrow users events))"
proof (induction events arbitrary: users)
  case (Cons e events)
  then show ?case by (simp add: note_borrow_def note_borrower_def distinct_obj_set)
qed simp

lemma collect_borrows_state:
  assumes "collect_borrows rt E st h = (Inr st', h')"
  shows "\<exists>events. borrowers st' = foldl note_borrow (borrowers st) events"
  using assms unfolding collect_borrows_def bind_ok
  by (elim exE conjE) (auto simp: ok_simps split: js_val.split_asm list.split_asm)

text \<open>What a pass of the bot keeps.\<close>

definition remembers :: "liquidation_state \<Rightarrow> liquidation_state \<Rightarrow> bool" where
  "remembers st st' \<longleftrightarrow> set (obj_keys (borrowers st)) \<subseteq> set (obj_keys (borrowers st'))
     \<and> (distinct (obj_keys (borrowers st)) \<longrightarrow> distinct (obj_keys (borrowers st')))"

lemma liquidation_round_persists:
  assumes "liquidation_round rt L E u st h = (r, h')"
  shows "(\<exists>n. r = Inl (JsExit n)) \<or> (\<exists>st'. r = Inr st' \<and> remembers st st')"
proof -
  obtain c h1 where c: "attempt (collect_borrows rt E st) h = (c, h1)" by fastforce
  have known: "remembers st st'" if "c = Inr (Some st')" for st'
  proof -
    have "attempt (collect_borrows rt E st) h = (Inr (Some st'), h1)" using c that by simp
    from collect_borrows_state [OF attempt_value [OF this]]
    obtain events where "borrowers st' = foldl note_borrow (borrowers st) events" ..
    then show ?thesis
      using note_borrows_keys [of "borrowers st" events] note_borrow_distinct [of "borrowers st" events]
      by (simp add: remembers_def)
  qed
  show ?thesis
  proof (cases "c = Inr None \<or> (\<exists>e. c = Inl e)")
    case True
    then show ?thesis
      using assms c attempt_never_fails [of "collect_borrows rt E st" h]
      by (auto simp: liquidation_round_def bind_def ret_def remembers_def)
  next
    case False
    then obtain st1 where st1: "c = Inr (Some st1)" by (cases c) auto
    obtain q h2 where q: "attempt (liquidate_risky rt L E u (borrowers st1)) h1 = (q, h2)" by fastforce
    show ?thesis
    proof (cases q)
      case (Inl e)
      then show ?thesis
        using assms c st1 q attempt_never_fails [of "liquidate_risky rt L E u (borrowers st1)" h1]
        by (auto simp: liquidation_round_def bind_def)
    next
      case (Inr x)
      then show ?thesis
        using assms c st1 q known [OF st1] by (auto simp: liquidation_round_def bind_def ret_def)
    qed
  qed
qed



end
