(* ===== verification/SuiteData.thy ===== *)
theory SuiteData
  imports ExpectedData ContractsHelpers AutoRepayBot
begin

text \<open>
  The data of the scenarios of \<open>test-suites/test-aave\<close>: what \<open>helpers/utils/helpers.ts\<close> reads of a reserve
  and of a user, and the comparison of what was read with what was expected (\<open>almost-equal.ts\<close> and the
  assertion of \<open>actions.ts\<close>). The calls that a \<open>Promise.all\<close> issues together run in the order of their list.
\<close>

section \<open>The environment of a suite\<close>

text \<open>
  What a scenario uses beside the runtime: bignumber.js with its conversions to a JavaScript number and
  to base 16, the reserve parameters of \<open>calculations.ts\<close>, \<open>parseUnits\<close> of ethers, the assertions
  \<open>reverted\<close> and \<open>revertedWith\<close> of waffle on the error of a rejected transaction, the two contracts and
  the users of \<open>TestEnv\<close> (a signer is its address), and \<open>configuration.skipIntegrityCheck\<close>.
\<close>

record 'b suite_env =
  s_math :: "'b bn_math"
  toNumber :: "'b \<Rightarrow> int"
  to_base_16 :: "'b \<Rightarrow> string"
  reservesParams :: "IReserveParams js_obj"
  parseUnits :: "string \<Rightarrow> string \<Rightarrow> js_error + int"
  is_revert :: "js_error \<Rightarrow> bool"
  reverted_with :: "string \<Rightarrow> js_error \<Rightarrow> bool"
  s_users :: "string list"
  s_pool :: contract
  s_helpersContract :: contract
  skipIntegrityCheck :: bool

section \<open>Reading\<close>

definition bn_field :: "'b bn_math \<Rightarrow> js_val \<Rightarrow> string \<Rightarrow> 'b" where
  "bn_field M data f = str_bn M (pos_str data f)"

definition getReserveAddressFromSymbol :: "runtime \<Rightarrow> string \<Rightarrow> string io" where
  "getReserveAddressFromSymbol rt symbol =
     bind (db_address rt symbol) (\<lambda>a.
     bind (getMintableERC20 rt (Some a)) (\<lambda>token.
     ret (address token)))"

text \<open>The first element of the tuple that \<open>getSupplyData\<close> returns.\<close>

definition first_component :: "js_val \<Rightarrow> string" where
  "first_component v = (case v of VList (x # _) \<Rightarrow> val_str x | _ \<Rightarrow> '''')"

definition utilization_of :: "'b bn_math \<Rightarrow> 'b \<Rightarrow> 'b \<Rightarrow> 'b \<Rightarrow> 'b" where
  "utilization_of M totalLiquidity totalStableDebt totalVariableDebt =
     (if eq_bn M totalLiquidity (int_bn M 0) then int_bn M 0
      else rayDiv M (plus_bn M totalStableDebt totalVariableDebt) totalLiquidity)"

definition getReserveData :: "runtime \<Rightarrow> 'b suite_env \<Rightarrow> string \<Rightarrow> 'b ReserveData io" where
  "getReserveData rt S reserve =
     (let M = s_math S in
      bind (call_view rt (s_helpersContract S) ''getReserveData'' [VStr reserve]) (\<lambda>reserveData.
      bind (call_view rt (s_helpersContract S) ''getReserveTokensAddresses'' [VStr reserve]) (\<lambda>tokenAddresses.
      bind (getLendingRateOracle rt None) (\<lambda>rateOracle.
      bind (getIErc20Detailed rt (Some reserve)) (\<lambda>token.
      bind (getStableDebtToken rt (Some (pos_str tokenAddresses ''stableDebtTokenAddress''))) (\<lambda>stableDebtToken.
      bind (getVariableDebtToken rt (Some (pos_str tokenAddresses ''variableDebtTokenAddress''))) (\<lambda>variableDebtToken.
      bind (call_view rt stableDebtToken ''getSupplyData'' []) (\<lambda>supplyData.
      bind (call_str rt stableDebtToken ''getTotalSupplyLastUpdated'' []) (\<lambda>totalStableDebtLastUpdated.
      bind (call_str rt variableDebtToken ''scaledTotalSupply'' []) (\<lambda>scaledVariableDebt.
      bind (call_str rt rateOracle ''getMarketBorrowRate'' [VStr reserve]) (\<lambda>rate.
      bind (call_str rt token ''symbol'' []) (\<lambda>symbol.
      bind (call_str rt token ''decimals'' []) (\<lambda>decimals.
      let available = bn_field M reserveData ''availableLiquidity'';
          totalStableDebt = bn_field M reserveData ''totalStableDebt'';
          totalVariableDebt = bn_field M reserveData ''totalVariableDebt'';
          totalLiquidity = plus_bn M (plus_bn M available totalStableDebt) totalVariableDebt
      in ret \<lparr> r_address = Some reserve, r_symbol = Some symbol, r_decimals = str_bn M decimals,
           r_totalLiquidity = totalLiquidity, r_availableLiquidity = available,
           r_totalStableDebt = totalStableDebt, r_totalVariableDebt = totalVariableDebt,
           r_principalStableDebt = str_bn M (first_component supplyData),
           r_scaledVariableDebt = str_bn M scaledVariableDebt,
           r_averageStableBorrowRate = bn_field M reserveData ''averageStableBorrowRate'',
           r_variableBorrowRate = bn_field M reserveData ''variableBorrowRate'',
           r_stableBorrowRate = bn_field M reserveData ''stableBorrowRate'',
           r_utilizationRate = utilization_of M totalLiquidity totalStableDebt totalVariableDebt,
           r_liquidityIndex = bn_field M reserveData ''liquidityIndex'',
           r_variableBorrowIndex = bn_field M reserveData ''variableBorrowIndex'',
           r_aTokenAddress = Some (pos_str tokenAddresses ''aTokenAddress''),
           r_marketStableRate = str_bn M rate,
           r_lastUpdateTimestamp = bn_field M reserveData ''lastUpdateTimestamp'',
           r_totalStableDebtLastUpdated = str_bn M totalStableDebtLastUpdated,
           r_liquidityRate = bn_field M reserveData ''liquidityRate'' \<rparr>)))))))))))))"

definition getATokenUserData :: "runtime \<Rightarrow> 'b suite_env \<Rightarrow> string \<Rightarrow> string \<Rightarrow> string io" where
  "getATokenUserData rt S reserve user =
     bind (call_view rt (s_helpersContract S) ''getReserveTokensAddresses'' [VStr reserve]) (\<lambda>addresses.
     bind (getAToken rt (Some (pos_str addresses ''aTokenAddress''))) (\<lambda>aToken.
     call_str rt aToken ''scaledBalanceOf'' [VStr user]))"

text \<open>The wallet is that of the sender, the data are those of the user.\<close>

definition getUserData :: "runtime \<Rightarrow> 'b suite_env \<Rightarrow> string \<Rightarrow> string \<Rightarrow> string option \<Rightarrow> 'b UserReserveData io" where
  "getUserData rt S reserve user sender =
     (let M = s_math S in
      bind (call_view rt (s_helpersContract S) ''getUserReserveData'' [VStr reserve, VStr user]) (\<lambda>userData.
      bind (getATokenUserData rt S reserve user) (\<lambda>scaledATokenBalance.
      bind (getMintableERC20 rt (Some reserve)) (\<lambda>token.
      bind (call_str rt token ''balanceOf'' [VStr (case sender of None \<Rightarrow> user | Some a \<Rightarrow> a)]) (\<lambda>balance.
      ret \<lparr> u_scaledATokenBalance = str_bn M scaledATokenBalance,
        u_currentATokenBalance = bn_field M userData ''currentATokenBalance'',
        u_currentStableDebt = bn_field M userData ''currentStableDebt'',
        u_currentVariableDebt = bn_field M userData ''currentVariableDebt'',
        u_principalStableDebt = bn_field M userData ''principalStableDebt'',
        u_scaledVariableDebt = bn_field M userData ''scaledVariableDebt'',
        u_liquidityRate = bn_field M userData ''liquidityRate'',
        u_stableBorrowRate = bn_field M userData ''stableBorrowRate'',
        u_stableRateLastUpdated = bn_field M userData ''stableRateLastUpdated'',
        u_usageAsCollateralEnabled = pos_flag userData ''usageAsCollateralEnabled'',
        u_walletBalance = str_bn M balance,
        u_variableBorrowIndex = undefined_bn M,
        u_principalVariableDebt = undefined_bn M \<rparr>)))))"

section \<open>Comparing\<close>

text \<open>
  A property of the compared objects. The objects that were read list their properties in the order of
  the literals in \<open>helpers.ts\<close>; an expected object is looked up by name.
\<close>

datatype 'b cell = CellNumber 'b | CellText "string option" | CellFlag bool

definition reserve_cells :: "'b ReserveData \<Rightarrow> 'b cell js_obj" where
  "reserve_cells d =
     [(''totalLiquidity'', CellNumber (r_totalLiquidity d)),
      (''utilizationRate'', CellNumber (r_utilizationRate d)),
      (''availableLiquidity'', CellNumber (r_availableLiquidity d)),
      (''totalStableDebt'', CellNumber (r_totalStableDebt d)),
      (''totalVariableDebt'', CellNumber (r_totalVariableDebt d)),
      (''liquidityRate'', CellNumber (r_liquidityRate d)),
      (''variableBorrowRate'', CellNumber (r_variableBorrowRate d)),
      (''stableBorrowRate'', CellNumber (r_stableBorrowRate d)),
      (''averageStableBorrowRate'', CellNumber (r_averageStableBorrowRate d)),
      (''liquidityIndex'', CellNumber (r_liquidityIndex d)),
      (''variableBorrowIndex'', CellNumber (r_variableBorrowIndex d)),
      (''lastUpdateTimestamp'', CellNumber (r_lastUpdateTimestamp d)),
      (''totalStableDebtLastUpdated'', CellNumber (r_totalStableDebtLastUpdated d)),
      (''principalStableDebt'', CellNumber (r_principalStableDebt d)),
      (''scaledVariableDebt'', CellNumber (r_scaledVariableDebt d)),
      (''address'', CellText (r_address d)),
      (''aTokenAddress'', CellText (r_aTokenAddress d)),
      (''symbol'', CellText (r_symbol d)),
      (''decimals'', CellNumber (r_decimals d)),
      (''marketStableRate'', CellNumber (r_marketStableRate d))]"

definition user_cells :: "'b UserReserveData \<Rightarrow> 'b cell js_obj" where
  "user_cells d =
     [(''scaledATokenBalance'', CellNumber (u_scaledATokenBalance d)),
      (''currentATokenBalance'', CellNumber (u_currentATokenBalance d)),
      (''currentStableDebt'', CellNumber (u_currentStableDebt d)),
      (''currentVariableDebt'', CellNumber (u_currentVariableDebt d)),
      (''principalStableDebt'', CellNumber (u_principalStableDebt d)),
      (''scaledVariableDebt'', CellNumber (u_scaledVariableDebt d)),
      (''stableBorrowRate'', CellNumber (u_stableBorrowRate d)),
      (''liquidityRate'', CellNumber (u_liquidityRate d)),
      (''usageAsCollateralEnabled'', CellFlag (u_usageAsCollateralEnabled d)),
      (''stableRateLastUpdated'', CellNumber (u_stableRateLastUpdated d)),
      (''walletBalance'', CellNumber (u_walletBalance d))]"

definition skipped_properties :: "string list" where
  "skipped_properties = [''lastUpdateTimestamp'', ''marketStableRate'', ''symbol'', ''aTokenAddress'', ''decimals'',
     ''totalStableDebtLastUpdated'']"

text \<open>Equal after truncation, or up to three apart.\<close>

definition within_three :: "'b bn_math \<Rightarrow> 'b \<Rightarrow> 'b \<Rightarrow> bool" where
  "within_three M actual expected =
     (let a = decimalPlaces_down M actual; e = decimalPlaces_down M expected in
      eq_bn M a e \<or>
      eq_bn M (plus_bn M a (int_bn M 1)) e \<or> eq_bn M a (plus_bn M e (int_bn M 1)) \<or>
      eq_bn M (plus_bn M a (int_bn M 2)) e \<or> eq_bn M a (plus_bn M e (int_bn M 2)) \<or>
      eq_bn M (plus_bn M a (int_bn M 3)) e \<or> eq_bn M a (plus_bn M e (int_bn M 3)))"

text \<open>
  A number that is not expected as a number has no \<open>decimalPlaces\<close>; anything else is compared as a
  string, for which \<open>undefined\<close> has no \<open>toString\<close>.
\<close>

fun cell_matches :: "'b bn_math \<Rightarrow> 'b cell \<Rightarrow> 'b cell option \<Rightarrow> bool" where
  "cell_matches M (CellNumber a) (Some (CellNumber e)) = within_three M a e"
| "cell_matches M (CellText (Some a)) (Some (CellText (Some e))) = (a = e)"
| "cell_matches M (CellFlag a) (Some (CellFlag e)) = (a = e)"
| "cell_matches M _ _ = False"

text \<open>\<open>keys.forEach(...)\<close>: the first property that differs throws.\<close>

fun compare_cells :: "'b bn_math \<Rightarrow> 'b cell js_obj \<Rightarrow> 'b cell js_obj \<Rightarrow> js_error + unit" where
  "compare_cells M [] expected = Inr ()"
| "compare_cells M ((key, a) # actual) expected =
     (if key \<in> set skipped_properties \<or> cell_matches M a (obj_get expected key)
      then compare_cells M actual expected
      else Inl (JsError (''not almost equal or equal for property '' @ key)))"

definition almostEqualOrEqual :: "'b bn_math \<Rightarrow> 'b cell js_obj \<Rightarrow> 'b cell js_obj \<Rightarrow> js_error + unit" where
  "almostEqualOrEqual M expected actual = compare_cells M actual expected"

definition expectEqual :: "'b suite_env \<Rightarrow> 'b cell js_obj \<Rightarrow> 'b cell js_obj \<Rightarrow> unit io" where
  "expectEqual S actual expected =
     (if skipIntegrityCheck S then ret ()
      else lift_sum (almostEqualOrEqual (s_math S) expected actual))"

text \<open>\<open>almost-equal.ts\<close>: the assertion of the specifications, with a tolerance of two and no truncation.\<close>

definition almostEqualAssertion :: "'b bn_math \<Rightarrow> 'b \<Rightarrow> 'b \<Rightarrow> bool" where
  "almostEqualAssertion M expected actual \<longleftrightarrow>
     eq_bn M (plus_bn M expected (int_bn M 1)) actual \<or> eq_bn M (plus_bn M expected (int_bn M 2)) actual \<or>
     eq_bn M (plus_bn M actual (int_bn M 1)) expected \<or> eq_bn M (plus_bn M actual (int_bn M 2)) expected \<or>
     eq_bn M expected actual"

end
