(* ===== verification/ScenarioActions.thy ===== *)
theory ScenarioActions
  imports SuiteData
begin

text \<open>
  \<open>test-suites/test-aave/helpers/actions.ts\<close>: what a scenario does to the lending pool, and how it checks
  the outcome against the reference calculations. Every action reads the state of the reserve and of the
  user, sends its transaction, reads the state again and compares it with the expected one; with
  \<open>revert\<close> as the expected result it only checks that the transaction is rejected. A user that a scenario
  names but the suite does not have is \<open>None\<close>; its fields raise a \<open>TypeError\<close> when they are read.
\<close>

section \<open>Signers, amounts, receipts\<close>

text \<open>\<open>user.address\<close> and \<open>user.signer\<close>.\<close>

definition account :: "string option \<Rightarrow> string io" where
  "account user = (case user of Some a \<Rightarrow> ret a | None \<Rightarrow> throw (JsTypeError ''Cannot read property address of undefined''))"

definition connect_as :: "contract \<Rightarrow> string option \<Rightarrow> contract io" where
  "connect_as c user = (case user of Some a \<Rightarrow> ret (c\<lparr>signer := Some a\<rparr>)
     | None \<Rightarrow> throw (JsTypeError ''Cannot read property signer of undefined''))"

text \<open>\<open>amount.toString()\<close> of a big number of ethers.\<close>

definition dec_of_int :: "int \<Rightarrow> string" where
  "dec_of_int n = (if n < 0 then ''-'' @ dec_of_nat (nat (- n)) else dec_of_nat (nat n))"

definition in_units :: "runtime \<Rightarrow> 'b suite_env \<Rightarrow> string \<Rightarrow> string \<Rightarrow> int io" where
  "in_units rt S reserve amount = convertToCurrencyDecimals rt (parseUnits S) reserve amount"

text \<open>The amount of a withdrawal or a repayment, \<open>-1\<close> standing for everything.\<close>

definition units_or_all :: "runtime \<Rightarrow> 'b suite_env \<Rightarrow> string \<Rightarrow> string \<Rightarrow> string io" where
  "units_or_all rt S reserve amount =
     (if amount \<noteq> ''-1'' then bind (in_units rt S reserve amount) (\<lambda>n. ret (dec_of_int n))
      else ret MAX_UINT_AMOUNT)"

definition hex_amount :: "'b suite_env \<Rightarrow> string \<Rightarrow> string" where
  "hex_amount S amount = ''0x'' @ to_base_16 S (str_bn (s_math S) amount)"

text \<open>
  \<open>await waitForTx(await contract.method(...))\<close> with the receipt it resolves to, which ethers obtains
  from the node when the transaction is mined.
\<close>

definition send_for_receipt :: "runtime \<Rightarrow> contract \<Rightarrow> string \<Rightarrow> js_val list \<Rightarrow> js_val io" where
  "send_for_receipt rt c m args =
     bind (send_tx rt c m args) (\<lambda>tx.
     seq (waitForTx rt tx) (rpc_send rt ''getTransactionReceipt'' [VStr tx]))"

text \<open>\<open>await expect(promise).to.be.reverted\<close>; a third text of \<open>expect\<close> is only the message of a failure.\<close>

definition expect_rejected :: "(js_error \<Rightarrow> bool) \<Rightarrow> 'a io \<Rightarrow> unit io" where
  "expect_rejected accepted m =
     bind (catch (seq m (ret None)) (\<lambda>e. ret (Some e))) (\<lambda>outcome.
     case outcome of
       None \<Rightarrow> throw (JsError ''Expected transaction to be reverted'')
     | Some e \<Rightarrow> if accepted e then ret () else throw (JsError ''Expected transaction to be reverted''))"

definition to_be_reverted :: "runtime \<Rightarrow> 'b suite_env \<Rightarrow> contract \<Rightarrow> string \<Rightarrow> js_val list \<Rightarrow> unit io" where
  "to_be_reverted rt S c m args = expect_rejected (is_revert S) (send_tx rt c m args)"

section \<open>The state around an action\<close>

text \<open>The cost and the time of a mined transaction.\<close>

definition getTxCostAndTimestamp :: "runtime \<Rightarrow> 'b suite_env \<Rightarrow> js_val \<Rightarrow> ('b \<times> 'b) io" where
  "getTxCostAndTimestamp rt S tx =
     (let M = s_math S in
      bind (lift_sum (val_field tx ''blockNumber'')) (\<lambda>blockNumber.
      bind (lift_sum (val_field tx ''transactionHash'')) (\<lambda>transactionHash.
      bind (lift_sum (val_field tx ''cumulativeGasUsed'')) (\<lambda>cumulativeGasUsed.
      if \<not> js_truthy blockNumber \<or> \<not> js_truthy transactionHash \<or> \<not> js_truthy cumulativeGasUsed
      then throw (JsError ''No tx blocknumber'')
      else
        bind (rpc_send rt ''getBlock'' [blockNumber]) (\<lambda>block.
        bind (lift_sum (block_timestamp block)) (\<lambda>timestamp.
        bind (rpc_send rt ''getTransaction'' [transactionHash]) (\<lambda>txInfo.
        bind (lift_sum (val_field txInfo ''gasPrice'')) (\<lambda>gasPrice.
        if gasPrice \<in> {VUndef, VNull} then throw (JsTypeError ''Cannot read property toString of undefined'')
        else ret (times_bn M (str_bn M (val_str cumulativeGasUsed)) (str_bn M (val_str gasPrice)),
               int_bn M timestamp)))))))))"

text \<open>\<open>{ reserveData, userData, timestamp }\<close>; the wallet is that of the sender, or else of the user.\<close>

definition getContractsData ::
    "runtime \<Rightarrow> 'b suite_env \<Rightarrow> string \<Rightarrow> string \<Rightarrow> string option \<Rightarrow> ('b ReserveData \<times> 'b UserReserveData \<times> 'b) io" where
  "getContractsData rt S reserve user sender =
     bind (getUserData rt S reserve user (Some (if truthy sender then the sender else user))) (\<lambda>userData.
     bind (getReserveData rt S reserve) (\<lambda>reserveData.
     bind (timeLatest rt) (\<lambda>timestamp.
     ret (reserveData, userData, int_bn (s_math S) timestamp))))"

definition getDataBeforeAction ::
    "runtime \<Rightarrow> 'b suite_env \<Rightarrow> string \<Rightarrow> string \<Rightarrow> (string \<times> 'b ReserveData \<times> 'b UserReserveData \<times> contract) io" where
  "getDataBeforeAction rt S reserveSymbol user =
     bind (getReserveAddressFromSymbol rt reserveSymbol) (\<lambda>reserve.
     bind (getContractsData rt S reserve user None) (\<lambda>(reserveData, userData, _).
     bind (getAToken rt (r_aTokenAddress reserveData)) (\<lambda>aTokenInstance.
     ret (reserve, reserveData, userData, aTokenInstance))))"

definition expect_reserve :: "'b suite_env \<Rightarrow> 'b ReserveData \<Rightarrow> 'b ReserveData \<Rightarrow> unit io" where
  "expect_reserve S actual expected = expectEqual S (reserve_cells actual) (reserve_cells expected)"

definition expect_user :: "'b suite_env \<Rightarrow> 'b UserReserveData \<Rightarrow> 'b UserReserveData \<Rightarrow> unit io" where
  "expect_user S actual expected = expectEqual S (user_cells actual) (user_cells expected)"

section \<open>Tokens\<close>

definition mint :: "runtime \<Rightarrow> 'b suite_env \<Rightarrow> string \<Rightarrow> string \<Rightarrow> string option \<Rightarrow> unit io" where
  "mint rt S reserveSymbol amount user =
     bind (getReserveAddressFromSymbol rt reserveSymbol) (\<lambda>reserve.
     bind (getMintableERC20 rt (Some reserve)) (\<lambda>token.
     bind (connect_as token user) (\<lambda>token.
     bind (in_units rt S reserve amount) (\<lambda>n.
     send_and_wait rt token ''mint'' [VNum n]))))"

definition approve :: "runtime \<Rightarrow> 'b suite_env \<Rightarrow> string \<Rightarrow> string option \<Rightarrow> unit io" where
  "approve rt S reserveSymbol user =
     bind (getReserveAddressFromSymbol rt reserveSymbol) (\<lambda>reserve.
     bind (getMintableERC20 rt (Some reserve)) (\<lambda>token.
     bind (connect_as token user) (\<lambda>token.
     send_and_wait rt token ''approve'' [VStr (address (s_pool S)), VStr ''100000000000000000000000000000''])))"


section \<open>The lending pool\<close>

text \<open>The options of a transaction: the value to send along, when there is one.\<close>

definition tx_options :: "runtime \<Rightarrow> 'b suite_env \<Rightarrow> string \<Rightarrow> string option \<Rightarrow> (int \<Rightarrow> js_val) \<Rightarrow> js_val io" where
  "tx_options rt S reserve sendValue encode =
     (if truthy sendValue
      then bind (in_units rt S reserve (the sendValue)) (\<lambda>n. ret (VObj [(''value'', encode n)]))
      else ret (VObj []))"

definition deposit ::
    "runtime \<Rightarrow> 'b suite_env \<Rightarrow> string \<Rightarrow> string \<Rightarrow> string option \<Rightarrow> string \<Rightarrow> string option \<Rightarrow> string \<Rightarrow> unit io" where
  "deposit rt S reserveSymbol amount sender onBehalfOf sendValue expectedResult =
     (let M = s_math S in
      bind (getReserveAddressFromSymbol rt reserveSymbol) (\<lambda>reserve.
      bind (in_units rt S reserve amount) (\<lambda>amountToDeposit.
      bind (account sender) (\<lambda>senderAddress.
      bind (getContractsData rt S reserve onBehalfOf (Some senderAddress)) (\<lambda>(reserveDataBefore, userDataBefore, _).
      bind (tx_options rt S reserve sendValue VNum) (\<lambda>txOptions.
      bind (connect_as (s_pool S) sender) (\<lambda>pool.
      let args = [VStr reserve, VNum amountToDeposit, VStr onBehalfOf, VStr ''0'', txOptions] in
      if expectedResult = ''success'' then
        bind (send_for_receipt rt pool ''deposit'' args) (\<lambda>txResult.
        bind (getContractsData rt S reserve onBehalfOf (Some senderAddress)) (\<lambda>(reserveDataAfter, userDataAfter, timestamp).
        bind (getTxCostAndTimestamp rt S txResult) (\<lambda>(txCost, txTimestamp).
        bind (lift_sum (calcExpectedReserveDataAfterDeposit M (reservesParams S) (dec_of_int amountToDeposit)
          reserveDataBefore txTimestamp)) (\<lambda>expectedReserveData.
        let expectedUserReserveData = calcExpectedUserDataAfterDeposit M (dec_of_int amountToDeposit)
          reserveDataBefore expectedReserveData userDataBefore txTimestamp timestamp txCost in
        seq (expect_reserve S reserveDataAfter expectedReserveData)
          (expect_user S userDataAfter expectedUserReserveData)))))
      else if expectedResult = ''revert'' then to_be_reverted rt S pool ''deposit'' args
      else ret ())))))))"

definition withdraw :: "runtime \<Rightarrow> 'b suite_env \<Rightarrow> string \<Rightarrow> string \<Rightarrow> string option \<Rightarrow> string \<Rightarrow> unit io" where
  "withdraw rt S reserveSymbol amount user expectedResult =
     (let M = s_math S in
      bind (account user) (\<lambda>userAddress.
      bind (getDataBeforeAction rt S reserveSymbol userAddress) (\<lambda>(reserve, reserveDataBefore, userDataBefore, _).
      bind (units_or_all rt S reserve amount) (\<lambda>amountToWithdraw.
      bind (connect_as (s_pool S) user) (\<lambda>pool.
      let args = [VStr reserve, VStr amountToWithdraw, VStr userAddress] in
      if expectedResult = ''success'' then
        bind (send_for_receipt rt pool ''withdraw'' args) (\<lambda>txResult.
        bind (getContractsData rt S reserve userAddress None) (\<lambda>(reserveDataAfter, userDataAfter, timestamp).
        bind (getTxCostAndTimestamp rt S txResult) (\<lambda>(txCost, txTimestamp).
        bind (lift_sum (calcExpectedReserveDataAfterWithdraw M (reservesParams S) amountToWithdraw
          reserveDataBefore userDataBefore txTimestamp)) (\<lambda>expectedReserveData.
        let expectedUserData = calcExpectedUserDataAfterWithdraw M amountToWithdraw reserveDataBefore
          expectedReserveData userDataBefore txTimestamp timestamp txCost in
        seq (expect_reserve S reserveDataAfter expectedReserveData)
          (expect_user S userDataAfter expectedUserData)))))
      else if expectedResult = ''revert'' then to_be_reverted rt S pool ''withdraw'' args
      else ret ())))))"

text \<open>
  A delegation compares the allowance instead of the data, and expects a rejection only when the
  scenario names the message; every other expected result counts as success.
\<close>

definition delegateBorrowAllowance ::
    "runtime \<Rightarrow> 'b suite_env \<Rightarrow> string \<Rightarrow> string \<Rightarrow> string \<Rightarrow> string option \<Rightarrow> string \<Rightarrow> string \<Rightarrow> string option \<Rightarrow> unit io" where
  "delegateBorrowAllowance rt S reserve amount interestRateMode user receiver expectedResult revertMessage =
     bind (getReserveAddressFromSymbol rt reserve) (\<lambda>reserveAddress.
     bind (in_units rt S reserveAddress amount) (\<lambda>n.
     bind (call_view rt (s_pool S) ''getReserveData'' [VStr reserveAddress]) (\<lambda>reserveData.
     bind (if interestRateMode = ''1''
           then getStableDebtToken rt (Some (pos_str reserveData ''stableDebtTokenAddress''))
           else getVariableDebtToken rt (Some (pos_str reserveData ''variableDebtTokenAddress''))) (\<lambda>debtToken.
     bind (connect_as debtToken user) (\<lambda>token.
     let amountToDelegate = dec_of_int n; args = [VStr receiver, VStr amountToDelegate] in
     if expectedResult = ''revert'' \<and> truthy revertMessage
     then expect_rejected (reverted_with S (the revertMessage)) (send_tx rt token ''approveDelegation'' args)
     else
       seq (send_and_wait rt token ''approveDelegation'' args)
      (bind (account user) (\<lambda>userAddress.
       bind (call_str rt debtToken ''borrowAllowance'' [VStr userAddress, VStr receiver]) (\<lambda>allowance.
       if allowance = amountToDelegate then ret ()
       else throw (JsError ''borrowAllowance is set incorrectly'')))))))))"

text \<open>The days that a scenario lets pass after a borrowing, in seconds.\<close>

definition secondsToTravel :: "'b suite_env \<Rightarrow> string \<Rightarrow> int" where
  "secondsToTravel S timeTravel = (let M = s_math S in
     toNumber S (div_bn M (times_bn M (str_bn M timeTravel) (str_bn M ONE_YEAR)) (int_bn M 365)))"

definition borrow ::
    "runtime \<Rightarrow> 'b suite_env \<Rightarrow> string \<Rightarrow> string \<Rightarrow> string \<Rightarrow> string option \<Rightarrow> string \<Rightarrow> string option \<Rightarrow> string \<Rightarrow> unit io" where
  "borrow rt S reserveSymbol amount interestRateMode user onBehalfOf timeTravel expectedResult =
     (let M = s_math S in
      bind (getReserveAddressFromSymbol rt reserveSymbol) (\<lambda>reserve.
      bind (account user) (\<lambda>userAddress.
      bind (getContractsData rt S reserve onBehalfOf (Some userAddress)) (\<lambda>(reserveDataBefore, userDataBefore, _).
      bind (in_units rt S reserve amount) (\<lambda>amountToBorrow.
      bind (connect_as (s_pool S) user) (\<lambda>pool.
      let args = [VStr reserve, VNum amountToBorrow, VStr interestRateMode, VStr ''0'', VStr onBehalfOf] in
      if expectedResult = ''success'' then
        bind (send_for_receipt rt pool ''borrow'' args) (\<lambda>txResult.
        bind (getTxCostAndTimestamp rt S txResult) (\<lambda>(txCost, txTimestamp).
        seq (io_when (truthy timeTravel) (advanceTimeAndBlock rt (secondsToTravel S (the timeTravel))))
       (bind (getContractsData rt S reserve onBehalfOf (Some userAddress)) (\<lambda>(reserveDataAfter, userDataAfter, timestamp).
        bind (lift_sum (calcExpectedReserveDataAfterBorrow M (reservesParams S) (dec_of_int amountToBorrow)
          interestRateMode reserveDataBefore userDataBefore txTimestamp timestamp)) (\<lambda>expectedReserveData.
        let expectedUserData = calcExpectedUserDataAfterBorrow M (dec_of_int amountToBorrow) interestRateMode
          reserveDataBefore expectedReserveData userDataBefore txTimestamp timestamp in
        seq (expect_reserve S reserveDataAfter expectedReserveData)
          (expect_user S userDataAfter expectedUserData))))))
      else if expectedResult = ''revert'' then to_be_reverted rt S pool ''borrow'' args
      else ret ()))))))"

definition repay ::
    "runtime \<Rightarrow> 'b suite_env \<Rightarrow> string \<Rightarrow> string \<Rightarrow> string \<Rightarrow> string option \<Rightarrow> string option \<Rightarrow> string option \<Rightarrow> string \<Rightarrow> unit io" where
  "repay rt S reserveSymbol amount mode user onBehalfOf sendValue expectedResult =
     (let M = s_math S in
      bind (getReserveAddressFromSymbol rt reserveSymbol) (\<lambda>reserve.
      bind (account onBehalfOf) (\<lambda>debtor.
      bind (getContractsData rt S reserve debtor None) (\<lambda>(reserveDataBefore, userDataBefore, _).
      bind (units_or_all rt S reserve amount) (\<lambda>n.
      let amountToRepay = hex_amount S n in
      bind (tx_options rt S reserve sendValue (\<lambda>v. VStr (hex_amount S (dec_of_int v)))) (\<lambda>txOptions.
      let args = [VStr reserve, VStr amountToRepay, VStr mode, VStr debtor, txOptions] in
      if expectedResult = ''success'' then
        bind (connect_as (s_pool S) user) (\<lambda>pool.
        bind (send_for_receipt rt pool ''repay'' args) (\<lambda>txResult.
        bind (getTxCostAndTimestamp rt S txResult) (\<lambda>(txCost, txTimestamp).
        bind (getContractsData rt S reserve debtor None) (\<lambda>(reserveDataAfter, userDataAfter, timestamp).
        bind (lift_sum (calcExpectedReserveDataAfterRepay M (reservesParams S) amountToRepay mode
          reserveDataBefore userDataBefore txTimestamp timestamp)) (\<lambda>expectedReserveData.
        bind (account user) (\<lambda>userAddress.
        let expectedUserData = calcExpectedUserDataAfterRepay M amountToRepay mode reserveDataBefore
          expectedReserveData userDataBefore userAddress debtor txTimestamp timestamp in
        seq (expect_reserve S reserveDataAfter expectedReserveData)
          (expect_user S userDataAfter expectedUserData)))))))
      else if expectedResult = ''revert'' then
        bind (connect_as (s_pool S) user) (\<lambda>pool. to_be_reverted rt S pool ''repay'' args)
      else ret ()))))))"

definition setUseAsCollateral ::
    "runtime \<Rightarrow> 'b suite_env \<Rightarrow> string \<Rightarrow> string option \<Rightarrow> string \<Rightarrow> string \<Rightarrow> unit io" where
  "setUseAsCollateral rt S reserveSymbol user useAsCollateral expectedResult =
     bind (getReserveAddressFromSymbol rt reserveSymbol) (\<lambda>reserve.
     bind (account user) (\<lambda>userAddress.
     bind (getContractsData rt S reserve userAddress None) (\<lambda>(reserveDataBefore, userDataBefore, _).
     let useAsCollateralBool = (toLowerCase useAsCollateral = ''true'');
         args = [VStr reserve, VBool useAsCollateralBool] in
     bind (connect_as (s_pool S) user) (\<lambda>pool.
     if expectedResult = ''success'' then
       bind (send_for_receipt rt pool ''setUserUseReserveAsCollateral'' args) (\<lambda>txResult.
       bind (getTxCostAndTimestamp rt S txResult) (\<lambda>(txCost, _).
       bind (getContractsData rt S reserve userAddress None) (\<lambda>(_, userDataAfter, _).
       expect_user S userDataAfter
         (calcExpectedUserDataAfterSetUseAsCollateral (toLowerCase useAsCollateral = ''true'')
           reserveDataBefore userDataBefore txCost))))
     else if expectedResult = ''revert'' then to_be_reverted rt S pool ''setUserUseReserveAsCollateral'' args
     else ret ()))))"

definition swapBorrowRateMode ::
    "runtime \<Rightarrow> 'b suite_env \<Rightarrow> string \<Rightarrow> string option \<Rightarrow> string \<Rightarrow> string \<Rightarrow> unit io" where
  "swapBorrowRateMode rt S reserveSymbol user mode expectedResult =
     (let M = s_math S in
      bind (getReserveAddressFromSymbol rt reserveSymbol) (\<lambda>reserve.
      bind (account user) (\<lambda>userAddress.
      bind (getContractsData rt S reserve userAddress None) (\<lambda>(reserveDataBefore, userDataBefore, _).
      bind (connect_as (s_pool S) user) (\<lambda>pool.
      let args = [VStr reserve, VStr mode] in
      if expectedResult = ''success'' then
        bind (send_for_receipt rt pool ''swapBorrowRateMode'' args) (\<lambda>txResult.
        bind (getTxCostAndTimestamp rt S txResult) (\<lambda>(txCost, txTimestamp).
        bind (getContractsData rt S reserve userAddress None) (\<lambda>(reserveDataAfter, userDataAfter, _).
        bind (lift_sum (calcExpectedReserveDataAfterSwapRateMode M (reservesParams S) reserveDataBefore
          userDataBefore mode txTimestamp)) (\<lambda>expectedReserveData.
        let expectedUserData = calcExpectedUserDataAfterSwapRateMode M reserveDataBefore expectedReserveData
          userDataBefore mode txCost txTimestamp in
        seq (expect_reserve S reserveDataAfter expectedReserveData)
          (expect_user S userDataAfter expectedUserData)))))
      else if expectedResult = ''revert'' then to_be_reverted rt S pool ''swapBorrowRateMode'' args
      else ret ())))))"

text \<open>The rate of the target is rebalanced by the user.\<close>

definition rebalanceStableBorrowRate ::
    "runtime \<Rightarrow> 'b suite_env \<Rightarrow> string \<Rightarrow> string option \<Rightarrow> string option \<Rightarrow> string \<Rightarrow> unit io" where
  "rebalanceStableBorrowRate rt S reserveSymbol user target expectedResult =
     (let M = s_math S in
      bind (getReserveAddressFromSymbol rt reserveSymbol) (\<lambda>reserve.
      bind (account target) (\<lambda>targetAddress.
      bind (getContractsData rt S reserve targetAddress None) (\<lambda>(reserveDataBefore, userDataBefore, _).
      let args = [VStr reserve, VStr targetAddress] in
      if expectedResult = ''success'' then
        bind (connect_as (s_pool S) user) (\<lambda>pool.
        bind (send_for_receipt rt pool ''rebalanceStableBorrowRate'' args) (\<lambda>txResult.
        bind (getTxCostAndTimestamp rt S txResult) (\<lambda>(txCost, txTimestamp).
        bind (getContractsData rt S reserve targetAddress None) (\<lambda>(reserveDataAfter, userDataAfter, _).
        bind (lift_sum (calcExpectedReserveDataAfterStableRateRebalance M (reservesParams S) reserveDataBefore
          userDataBefore txTimestamp)) (\<lambda>expectedReserveData.
        let expectedUserData = calcExpectedUserDataAfterStableRateRebalance M reserveDataBefore
          expectedReserveData userDataBefore txCost txTimestamp in
        seq (expect_reserve S reserveDataAfter expectedReserveData)
          (expect_user S userDataAfter expectedUserData))))))
      else if expectedResult = ''revert'' then
        bind (connect_as (s_pool S) user) (\<lambda>pool. to_be_reverted rt S pool ''rebalanceStableBorrowRate'' args)
      else ret ()))))"

end
