(* ===== verification/ScenarioEngine.thy ===== *)
theory ScenarioEngine
  imports ScenarioActions
begin

text \<open>
  \<open>test-suites/test-aave/helpers/scenario-engine.ts\<close>: the actions of a story, as the JSON files of
  \<open>scenarios\<close> hold them, are checked and dispatched one after the other.
\<close>

section \<open>Stories\<close>

text \<open>Every argument of an action is a string that may be missing.\<close>

record action_args =
  a_reserve :: "string option"
  a_user :: "string option"
  a_borrowRateMode :: "string option"
  a_amount :: "string option"
  a_sendValue :: "string option"
  a_onBehalfOf :: "string option"
  a_toUser :: "string option"
  a_timeTravel :: "string option"
  a_useAsCollateral :: "string option"
  a_target :: "string option"

record Action =
  a_name :: "string option"
  a_args :: "action_args option"
  a_expected :: "string option"
  a_revertMessage :: "string option"

record Story =
  s_description :: string
  s_actions :: "Action list"

record Scenario =
  title :: string
  c_description :: string
  stories :: "Story list"

section \<open>Users\<close>

text \<open>
  \<open>parseInt(s)\<close> and \<open>parseInt(s, 10)\<close>: white space and a sign are skipped, without a radix a prefix
  \<open>0x\<close> means base 16, and the digits up to the first other character count. The result is \<open>None\<close> for
  \<open>NaN\<close>.
\<close>

definition digit_in :: "nat \<Rightarrow> char \<Rightarrow> nat option" where
  "digit_in base c =
     (let n = of_char c :: nat;
          d = (if 48 \<le> n \<and> n \<le> 57 then n - 48 else if 97 \<le> n \<and> n \<le> 102 then n - 87
               else if 65 \<le> n \<and> n \<le> 70 then n - 55 else base)
      in if d < base then Some d else None)"

fun digits_prefix :: "nat \<Rightarrow> string \<Rightarrow> nat list" where
  "digits_prefix base [] = []"
| "digits_prefix base (c # s) = (case digit_in base c of None \<Rightarrow> [] | Some d \<Rightarrow> d # digits_prefix base s)"

definition js_space :: "char \<Rightarrow> bool" where
  "js_space c \<longleftrightarrow> (of_char c :: nat) \<in> {9, 10, 11, 12, 13, 32, 160}"

definition parseInt :: "nat option \<Rightarrow> string \<Rightarrow> int option" where
  "parseInt radix s =
     (let t = dropWhile js_space s;
          (sign, u) = (case t of [] \<Rightarrow> (1, t)
            | c # r \<Rightarrow> if c = CHR ''-'' then (- 1, r) else if c = CHR ''+'' then (1, r) else (1, t));
          (base, ds) = (case radix of Some b \<Rightarrow> (b, u)
            | None \<Rightarrow> if take 2 u \<in> {''0x'', ''0X''} then (16, drop 2 u) else (10, u));
          digits = digits_prefix base ds
      in if digits = [] then None else Some (sign * int (foldl (\<lambda>n d. n * base + d) 0 digits)))"

text \<open>\<open>users[i]\<close>: undefined outside the array, and for \<open>NaN\<close>.\<close>

definition user_at :: "string list \<Rightarrow> int option \<Rightarrow> string option" where
  "user_at users i = (case i of None \<Rightarrow> None
     | Some n \<Rightarrow> if 0 \<le> n \<and> nat n < length users then Some (users ! nat n) else None)"

text \<open>\<open>onBehalfOfIndex ? users[parseInt(onBehalfOfIndex)].address : user.address\<close>\<close>

definition on_behalf_of :: "string list \<Rightarrow> string option \<Rightarrow> string option \<Rightarrow> string io" where
  "on_behalf_of users user index =
     (if truthy index then account (user_at users (parseInt None (the index))) else account user)"

definition engine_rate_mode :: "string option \<Rightarrow> string" where
  "engine_rate_mode borrowRateMode =
     (if \<not> truthy borrowRateMode then rate_mode Rate_None
      else if borrowRateMode = Some ''none'' then rate_mode Rate_None
      else if borrowRateMode = Some ''stable'' then rate_mode Rate_Stable
      else if borrowRateMode = Some ''variable'' then rate_mode Rate_Variable
      else ''4'')"

section \<open>The dispatch\<close>

text \<open>\<open>if (!x || x === '') { throw ... }\<close> with the value for what follows.\<close>

definition demand :: "string option \<Rightarrow> string \<Rightarrow> (string \<Rightarrow> 'a io) \<Rightarrow> 'a io" where
  "demand x message k = (if truthy x then k (the x) else throw (JsThrown message))"

definition perform_action ::
    "runtime \<Rightarrow> 'b suite_env \<Rightarrow> string \<Rightarrow> string \<Rightarrow> action_args \<Rightarrow> string option \<Rightarrow> string \<Rightarrow> string option \<Rightarrow> unit io" where
  "perform_action rt S name reserve args user expected revertMessage =
     (let users = s_users S; mode = engine_rate_mode (a_borrowRateMode args) in
      if name = ''mint'' then
        demand (a_amount args) (''Invalid amount of '' @ reserve @ '' to mint'') (\<lambda>amount.
          mint rt S reserve amount user)
      else if name = ''approve'' then approve rt S reserve user
      else if name = ''deposit'' then
        bind (on_behalf_of users user (a_onBehalfOf args)) (\<lambda>onBehalfOf.
        demand (a_amount args) (''Invalid amount to deposit into the '' @ reserve @ '' reserve'') (\<lambda>amount.
          deposit rt S reserve amount user onBehalfOf (a_sendValue args) expected))
      else if name = ''delegateBorrowAllowance'' then
        bind (account (case a_toUser args of None \<Rightarrow> None | Some i \<Rightarrow> user_at users (parseInt (Some 10) i))) (\<lambda>toUser.
        demand (a_amount args) (''Invalid amount to deposit into the '' @ reserve @ '' reserve'') (\<lambda>amount.
          delegateBorrowAllowance rt S reserve amount mode user toUser expected revertMessage))
      else if name = ''withdraw'' then
        demand (a_amount args) (''Invalid amount to withdraw from the '' @ reserve @ '' reserve'') (\<lambda>amount.
          withdraw rt S reserve amount user expected)
      else if name = ''borrow'' then
        bind (on_behalf_of users user (a_onBehalfOf args)) (\<lambda>onBehalfOf.
        demand (a_amount args) (''Invalid amount to borrow from the '' @ reserve @ '' reserve'') (\<lambda>amount.
          borrow rt S reserve amount mode user onBehalfOf (a_timeTravel args) expected))
      else if name = ''repay'' then
        demand (a_amount args) (''Invalid amount to repay into the '' @ reserve @ '' reserve'') (\<lambda>amount.
          let userToRepayOnBehalf = (if truthy (a_onBehalfOf args)
            then user_at users (parseInt None (the (a_onBehalfOf args))) else user) in
          repay rt S reserve amount mode user userToRepayOnBehalf (a_sendValue args) expected)
      else if name = ''setUseAsCollateral'' then
        demand (a_useAsCollateral args) (''A valid value for useAsCollateral needs to be set when calling ''
            @ ''setUseReserveAsCollateral on reserve '' @ reserve) (\<lambda>useAsCollateral.
          setUseAsCollateral rt S reserve user useAsCollateral expected)
      else if name = ''swapBorrowRateMode'' then swapBorrowRateMode rt S reserve user mode expected
      else if name = ''rebalanceStableBorrowRate'' then
        demand (a_target args) ''A target must be selected when trying to rebalance a stable rate'' (\<lambda>target.
          rebalanceStableBorrowRate rt S reserve user (user_at users (parseInt None target)) expected)
      else throw (JsThrown (''Invalid action requested: '' @ name)))"

definition executeAction :: "runtime \<Rightarrow> 'b suite_env \<Rightarrow> Action \<Rightarrow> unit io" where
  "executeAction rt S action =
     (case a_args action of
        None \<Rightarrow> throw (JsTypeError ''Cannot destructure property reserve of undefined'')
      | Some args \<Rightarrow>
          demand (a_name action) ''Action name is missing'' (\<lambda>name.
          demand (a_reserve args) ''Invalid reserve selected for deposit'' (\<lambda>reserve.
          demand (a_user args) (''Invalid user selected to deposit into the '' @ reserve @ '' reserve'') (\<lambda>userIndex.
          demand (a_expected action) (''An expected resut for action '' @ name @ '' is required'') (\<lambda>expected.
          perform_action rt S name reserve args (user_at (s_users S) (parseInt None userIndex)) expected
            (a_revertMessage action))))))"

definition executeStory :: "runtime \<Rightarrow> 'b suite_env \<Rightarrow> Story \<Rightarrow> unit io" where
  "executeStory rt S story = for_each (executeAction rt S) (s_actions story)"

end
