(* ===== verification/MakeSuite.thy ===== *)
theory MakeSuite
  imports ScenarioEngine AaveMarket Etherscan
begin

text \<open>
  \<open>test-suites/test-aave/helpers/make-suite.ts\<close>: the environment that the suites share, and the suite
  that takes a snapshot of the chain before its tests and goes back to it after them; \<open>scenario.spec.ts\<close>,
  which runs the stories of a scenario in such a suite. Of mocha the model has what they rely on: a suite
  runs its hook \<open>after\<close> whether or not its tests pass, skips the tests when the hook \<open>before\<close> fails, and
  repeats a failing test as often as \<open>this.retries\<close> allows.
\<close>

section \<open>The environment\<close>

text \<open>A signer is its address; a field that is not assigned yet holds an empty object, \<open>None\<close>.\<close>

record TestEnv =
  t_deployer :: "string option"
  t_users :: "string list"
  t_pool :: "contract option"
  t_configurator :: "contract option"
  t_oracle :: "contract option"
  t_helpersContract :: "contract option"
  t_weth :: "contract option"
  t_aWETH :: "contract option"
  t_aAAVE :: "contract option"
  t_dai :: "contract option"
  t_aDai :: "contract option"
  t_usdc :: "contract option"
  t_aave :: "contract option"
  t_addressesProvider :: "contract option"
  t_uniswapLiquiditySwapAdapter :: "contract option"
  t_uniswapRepayAdapter :: "contract option"
  t_autoRepay :: "contract option"
  t_leverageBorrowAdapter :: "contract option"
  t_flashLiquidationAdapter :: "contract option"
  t_registry :: "contract option"
  t_wethGateway :: "contract option"

definition empty_testEnv :: TestEnv where
  "empty_testEnv = \<lparr> t_deployer = None, t_users = [], t_pool = None, t_configurator = None, t_oracle = None,
     t_helpersContract = None, t_weth = None, t_aWETH = None, t_aAAVE = None, t_dai = None, t_aDai = None,
     t_usdc = None, t_aave = None, t_addressesProvider = None, t_uniswapLiquiditySwapAdapter = None,
     t_uniswapRepayAdapter = None, t_autoRepay = None, t_leverageBorrowAdapter = None,
     t_flashLiquidationAdapter = None, t_registry = None, t_wethGateway = None \<rparr>"

text \<open>\<open>tokens.find((t) => t.symbol === symbol)?.tokenAddress\<close>\<close>

fun find_token :: "js_val \<Rightarrow> string \<Rightarrow> string option" where
  "find_token (VList (t # ts)) symbol =
     (if pos_str t ''symbol'' = symbol then Some (pos_str t ''tokenAddress'') else find_token (VList ts) symbol)"
| "find_token _ symbol = None"

text \<open>The deployer is the first signer, the users are the others; they are added to those of the environment.\<close>

definition suite_signers :: "runtime \<Rightarrow> TestEnv \<Rightarrow> TestEnv io" where
  "suite_signers rt env = (case signer_addresses rt of
       [] \<Rightarrow> throw (JsTypeError ''Cannot read property getAddress of undefined'')
     | firstSigner # restSigners \<Rightarrow>
         ret (env\<lparr>t_users := t_users env @ restSigners, t_deployer := Some firstSigner\<rparr>))"

definition suite_registry :: "runtime \<Rightarrow> TestEnv \<Rightarrow> TestEnv io" where
  "suite_registry rt env =
     (if env_is rt ''MAINNET_FORK'' ''true'' then
        bind (getLendingPoolAddressesProviderRegistry rt
          (case getParamPerNetwork rt aave_ProviderRegistry (eth_network Eth_main) of None \<Rightarrow> None | Some a \<Rightarrow> a)) (\<lambda>registry.
        ret (env\<lparr>t_registry := Some registry\<rparr>))
      else
        bind (getLendingPoolAddressesProviderRegistry rt None) (\<lambda>registry.
        bind (getPriceOracle rt None) (\<lambda>oracle.
        ret (env\<lparr>t_registry := Some registry, t_oracle := Some oracle\<rparr>))))"

definition suite_tokens :: "runtime \<Rightarrow> contract \<Rightarrow> TestEnv \<Rightarrow> TestEnv io" where
  "suite_tokens rt helpersContract env =
     bind (call_view rt helpersContract ''getAllATokens'' []) (\<lambda>allTokens.
     let aDaiAddress = find_token allTokens ''aDAI''; aWEthAddress = find_token allTokens ''aWETH'';
         aAAVEAddress = find_token allTokens ''aAAVE'' in
     bind (call_view rt helpersContract ''getAllReservesTokens'' []) (\<lambda>reservesTokens.
     let daiAddress = find_token reservesTokens ''DAI''; usdcAddress = find_token reservesTokens ''USDC'';
         aaveAddress = find_token reservesTokens ''AAVE''; wethAddress = find_token reservesTokens ''WETH'' in
     if \<not> truthy aDaiAddress \<or> \<not> truthy aWEthAddress then throw (JsExit 1)
     else if \<not> truthy daiAddress \<or> \<not> truthy usdcAddress \<or> \<not> truthy aaveAddress \<or> \<not> truthy wethAddress
       \<or> \<not> truthy aAAVEAddress then throw (JsExit 1)
     else
       bind (getAToken rt aDaiAddress) (\<lambda>aDai.
       bind (getAToken rt aWEthAddress) (\<lambda>aWETH.
       bind (getAToken rt aAAVEAddress) (\<lambda>aAAVE.
       bind (getMintableERC20 rt daiAddress) (\<lambda>dai.
       bind (getMintableERC20 rt usdcAddress) (\<lambda>usdc.
       bind (getMintableERC20 rt aaveAddress) (\<lambda>aave.
       bind (getWETHMocked rt wethAddress) (\<lambda>weth.
       ret (env\<lparr>t_aDai := Some aDai, t_aWETH := Some aWETH, t_aAAVE := Some aAAVE, t_dai := Some dai,
         t_usdc := Some usdc, t_aave := Some aave, t_weth := Some weth\<rparr>))))))))))"

definition initializeMakeSuite :: "runtime \<Rightarrow> TestEnv \<Rightarrow> TestEnv io" where
  "initializeMakeSuite rt testEnv =
     bind (suite_signers rt testEnv) (\<lambda>env.
     bind (getLendingPool rt None) (\<lambda>pool.
     bind (getLendingPoolConfiguratorProxy rt None) (\<lambda>configurator.
     bind (getLendingPoolAddressesProvider rt None) (\<lambda>addressesProvider.
     bind (suite_registry rt (env\<lparr>t_pool := Some pool, t_configurator := Some configurator,
       t_addressesProvider := Some addressesProvider\<rparr>)) (\<lambda>env.
     bind (getAaveProtocolDataProvider rt None) (\<lambda>helpersContract.
     bind (suite_tokens rt helpersContract (env\<lparr>t_helpersContract := Some helpersContract\<rparr>)) (\<lambda>env.
     bind (getWETHGateway rt None) (\<lambda>wethGateway.
     bind (getUniswapLiquiditySwapAdapter rt None) (\<lambda>liquiditySwapAdapter.
     bind (getUniswapRepayAdapter rt None) (\<lambda>repayAdapter.
     bind (getAutoRepay rt None) (\<lambda>autoRepay.
     bind (getLeverageBorrowAdapter rt None) (\<lambda>leverageBorrowAdapter.
     bind (getFlashLiquidationAdapter rt None) (\<lambda>flashLiquidationAdapter.
     ret (env\<lparr>t_wethGateway := Some wethGateway, t_uniswapLiquiditySwapAdapter := Some liquiditySwapAdapter,
       t_uniswapRepayAdapter := Some repayAdapter, t_autoRepay := Some autoRepay,
       t_leverageBorrowAdapter := Some leverageBorrowAdapter,
       t_flashLiquidationAdapter := Some flashLiquidationAdapter\<rparr>))))))))))))))"

section \<open>Snapshots\<close>

text \<open>The variable \<open>buidlerevmSnapshotId\<close> of the module is passed and returned.\<close>

definition initial_snapshot :: string where "initial_snapshot = ''0x1''"

definition setSnapshot :: "runtime \<Rightarrow> string io" where
  "setSnapshot rt =
     (if usingTenderly rt then
        bind (rpc_send rt ''tenderly getHead'' []) (\<lambda>head. ret (if js_truthy head then val_str head else ''0x1''))
      else bind (evmSnapshot rt) (\<lambda>snapshot. ret (val_str snapshot)))"

definition revertHead :: "runtime \<Rightarrow> string \<Rightarrow> unit io" where
  "revertHead rt snapshotId =
     (if usingTenderly rt then seq (rpc_send rt ''tenderly setHead'' [VStr snapshotId]) (ret ())
      else seq (evmRevert rt snapshotId) (ret ()))"

section \<open>Suites\<close>

definition settled :: "'a io \<Rightarrow> (js_error + 'a) io" where
  "settled m = catch (bind m (\<lambda>x. ret (Inr x))) (\<lambda>e. ret (Inl e))"

text \<open>The result is the snapshot that the next suite finds in the variable.\<close>

definition makeSuite :: "runtime \<Rightarrow> string \<Rightarrow> bool \<Rightarrow> unit io \<Rightarrow> string io" where
  "makeSuite rt snapshotId skip tests =
     (if skip then ret snapshotId
      else bind (settled (setSnapshot rt)) (\<lambda>before. case before of
          Inl e \<Rightarrow> seq (revertHead rt snapshotId) (ret snapshotId)
        | Inr snapshot \<Rightarrow> seq (settled tests) (seq (revertHead rt snapshot) (ret snapshot))))"

text \<open>\<open>this.retries(n)\<close>: a test that fails is run again, at most \<open>n\<close> times.\<close>

fun with_retries :: "nat \<Rightarrow> 'a io \<Rightarrow> 'a io" where
  "with_retries 0 m = m"
| "with_retries (Suc n) m = catch m (\<lambda>_. with_retries n m)"

text \<open>Each story of a scenario is a test of its own, run whether or not the ones before it pass.\<close>

definition scenario_tests :: "runtime \<Rightarrow> 'b suite_env \<Rightarrow> Scenario \<Rightarrow> unit io" where
  "scenario_tests rt S scenario =
     for_each (\<lambda>story. seq (settled (with_retries 4 (executeStory rt (S\<lparr>skipIntegrityCheck := False\<rparr>) story))) (ret ()))
       (stories scenario)"

definition run_scenarios :: "runtime \<Rightarrow> 'b suite_env \<Rightarrow> string \<Rightarrow> Scenario list \<Rightarrow> string io" where
  "run_scenarios rt S snapshotId scenarios =
     fold_io (\<lambda>snapshot scenario. makeSuite rt snapshot False (scenario_tests rt S scenario)) snapshotId scenarios"

end
