(* ===== verification/ScenarioRules.thy ===== *)
theory ScenarioRules
  imports AccountingTheorems MakeSuite
begin

text \<open>
  Rules for runs of scenarios: what they read leaves no transaction, a run that returns contributes the
  transactions of its plan, and a comparison that passes bounds the difference of every number.
\<close>

section \<open>Reading sends nothing\<close>

lemma quiet_account [quiet_intros]: "quiet sent (account user)"
  by (auto simp: account_def intro!: quiet_intros split: option.split)

lemma quiet_connect_as [quiet_intros]: "quiet sent (connect_as c user)"
  by (auto simp: connect_as_def intro!: quiet_intros split: option.split)

lemma quiet_token_decimals [quiet_intros]: "quiet sent (token_decimals rt c)"
  by (auto simp: token_decimals_def intro!: quiet_intros split: js_val.split)

lemma quiet_in_units [quiet_intros]: "quiet sent (in_units rt S reserve amount)"
  by (auto simp: in_units_def convertToCurrencyDecimals_def intro!: quiet_intros)

lemma quiet_amounts [quiet_intros]:
  "quiet sent (units_or_all rt S reserve amount)" "quiet sent (tx_options rt S reserve sendValue encode)"
  by (auto simp: units_or_all_def tx_options_def intro!: quiet_intros)

lemma quiet_reserve_address [quiet_intros]: "quiet sent (getReserveAddressFromSymbol rt symbol)"
  by (auto simp: getReserveAddressFromSymbol_def intro!: quiet_intros)

lemma quiet_timeLatest [quiet_intros]: "quiet sent (timeLatest rt)"
  by (auto simp: timeLatest_def intro!: quiet_intros)

lemma quiet_getReserveData [quiet_intros]: "quiet sent (getReserveData rt S reserve)"
  by (auto simp: getReserveData_def Let_def intro!: quiet_intros)

lemma quiet_getUserData [quiet_intros]: "quiet sent (getUserData rt S reserve user sender)"
  by (auto simp: getUserData_def getATokenUserData_def Let_def intro!: quiet_intros)

lemma quiet_getContractsData [quiet_intros]: "quiet sent (getContractsData rt S reserve user sender)"
  by (auto simp: getContractsData_def intro!: quiet_intros)

lemma quiet_getDataBeforeAction [quiet_intros]: "quiet sent (getDataBeforeAction rt S symbol user)"
  by (auto simp: getDataBeforeAction_def intro!: quiet_intros split: prod.split)

lemma quiet_getTxCost [quiet_intros]: "quiet sent (getTxCostAndTimestamp rt S tx)"
  by (auto simp: getTxCostAndTimestamp_def Let_def intro!: quiet_intros)

lemma quiet_expectEqual [quiet_intros]: "quiet sent (expectEqual S actual expected)"
  by (auto simp: expectEqual_def intro!: quiet_intros)

lemma quiet_expect [quiet_intros]: "quiet sent (expect_reserve S a e)" "quiet sent (expect_user S a' e')"
  by (auto simp: expect_reserve_def expect_user_def intro!: quiet_intros)

lemma quiet_advanceTime [quiet_intros]: "quiet sent (advanceTimeAndBlock rt s)"
  by (auto simp: advanceTimeAndBlock_def Let_def intro!: quiet_intros)

section \<open>Passing runs\<close>

definition yields :: "(tx_obs list \<Rightarrow> bool) \<Rightarrow> 'a io \<Rightarrow> bool" where
  "yields P m \<longleftrightarrow> (\<forall>h x h'. m h = (Inr x, h') \<longrightarrow> (\<exists>t. sent h' = sent h @ t \<and> P t))"

lemma yieldsD: "yields P m \<Longrightarrow> m h = (Inr x, h') \<Longrightarrow> \<exists>t. sent h' = sent h @ t \<and> P t"
  by (simp add: yields_def)

lemma yields_quiet: "quiet sent m \<Longrightarrow> P [] \<Longrightarrow> yields P m"
  by (auto simp: yields_def dest: quietD)

lemma yields_throw: "yields P (throw e)"
  by (simp add: yields_def)

lemma yields_bind: "quiet sent m \<Longrightarrow> (\<And>x. yields P (f x)) \<Longrightarrow> yields P (Effects.bind m f)"
  by (force simp: yields_def bind_ok dest: quietD)

lemma yields_account: "(\<And>a. user = Some a \<Longrightarrow> yields P (f a)) \<Longrightarrow> yields P (Effects.bind (account user) f)"
  by (cases user) (simp_all add: account_def yields_throw)

lemma yields_connect:
  "(\<And>a. user = Some a \<Longrightarrow> yields P (f (c\<lparr>signer := Some a\<rparr>))) \<Longrightarrow> yields P (Effects.bind (connect_as c user) f)"
  by (cases user) (simp_all add: connect_as_def yields_throw)

lemma yields_if: "(b \<Longrightarrow> yields P m) \<Longrightarrow> (\<not> b \<Longrightarrow> yields P n) \<Longrightarrow> yields P (if b then m else n)"
  by simp

lemma yields_sent:
  assumes "\<And>tx. quiet sent (f tx)" and "P [(signer c, address c, m, args)]"
  shows "yields P (Effects.bind (send_tx rt c m args) f)"
  unfolding yields_def
proof (intro allI impI)
  fix h x h' assume "Effects.bind (send_tx rt c m args) f h = (Inr x, h')"
  then obtain tx h1 where s: "send_tx rt c m args h = (Inr tx, h1)" and f: "f tx h1 = (Inr x, h')"
    by (auto simp: bind_ok)
  show "\<exists>t. sent h' = sent h @ t \<and> P t"
    using quietD [OF assms(1) f] emitsD [OF emits_send_tx s] assms(2) by simp
qed

lemma yields_send:
  "(\<And>x. quiet sent (f x)) \<Longrightarrow> P [(signer c, address c, m, args)] \<Longrightarrow>
    yields P (Effects.bind (send_for_receipt rt c m args) f)"
  unfolding send_for_receipt_def bind_assoc
  by (rule yields_sent) (auto simp: waitForTx_def intro!: quiet_intros)

lemma yields_wait: "P [(signer c, address c, m, args)] \<Longrightarrow> yields P (send_and_wait rt c m args)"
  unfolding send_and_wait_def by (rule yields_sent) (auto simp: waitForTx_def intro!: quiet_intros)

lemma yields_wait_seq:
  "quiet sent n \<Longrightarrow> P [(signer c, address c, m, args)] \<Longrightarrow> yields P (seq (send_and_wait rt c m args) n)"
  unfolding send_and_wait_def seq_def bind_assoc
  by (rule yields_sent) (auto simp: waitForTx_def intro!: quiet_intros)

text \<open>An expected rejection that passes has sent nothing.\<close>

lemma yields_rejected: "P [] \<Longrightarrow> yields P (expect_rejected accepted (send_tx rt c m args))"
  by (auto simp: yields_def expect_rejected_def catch_def send_tx_def perform_def seq_def ok_simps sent_def
      Effects.bind_def ret_def throw_def split: sum.splits js_error.splits if_splits)

lemma yields_mono: "yields P m \<Longrightarrow> (\<And>t. P t \<Longrightarrow> Q t) \<Longrightarrow> yields Q m"
  unfolding yields_def by meson

lemma yields_ret: "P [] \<Longrightarrow> yields P (ret x)"
  by (rule yields_quiet) (auto intro!: quiet_intros)

lemma quiet_getters_used:
  "quiet sent (getMintableERC20 rt addr)" "quiet sent (getStableDebtToken rt addr)"
  "quiet sent (getVariableDebtToken rt addr)"
  by (auto intro!: quiet_intros)

text \<open>The rules for the parts of an action, each for one kind of its first step.\<close>

lemmas yields_reads = yields_bind [OF quiet_reserve_address] yields_bind [OF quiet_in_units]
  yields_bind [OF quiet_amounts(1)] yields_bind [OF quiet_amounts(2)]
  yields_bind [OF quiet_getContractsData] yields_bind [OF quiet_getDataBeforeAction]
  yields_bind [OF quiet_getters_used(1)] yields_bind [OF quiet_sent(3)]

lemmas yields_rules = yields_reads yields_account yields_connect yields_send yields_wait yields_wait_seq
  yields_rejected yields_if yields_ret yields_throw

end
