(* ===== verification/ScenarioTheorems.thy ===== *)
theory ScenarioTheorems
  imports ScenarioRules Demo
begin

text \<open>
  The properties of the scenarios: the transactions of a story that passes, what its comparisons
  guarantee, which actions are refused, and the snapshots of the suites.
\<close>

section \<open>The plan of an action\<close>

text \<open>
  A planned transaction: sender, contract (\<open>None\<close> for a token that is looked up), method and arguments
  (\<open>None\<close> for what depends on the chain: the address of the reserve and converted amounts).
\<close>

type_synonym plan = "string option \<times> string option \<times> string \<times> js_val option list"

definition fits_plan :: "plan \<Rightarrow> tx_obs \<Rightarrow> bool" where
  "fits_plan p tx = (case p of (s, c, m, args) \<Rightarrow> case tx of (s', c', m', args') \<Rightarrow>
     s' = s \<and> (\<forall>a. c = Some a \<longrightarrow> c' = a) \<and> m' = m \<and>
     list_all2 (\<lambda>a a'. \<forall>v. a = Some v \<longrightarrow> a' = v) args args')"

definition pool_plan :: "'b suite_env \<Rightarrow> string \<Rightarrow> string option \<Rightarrow> string \<Rightarrow> js_val option list \<Rightarrow> plan list" where
  "pool_plan S expected user m args =
     (if expected = ''success'' then [(user, Some (address (s_pool S)), m, None # args)] else [])"

text \<open>Deposits and borrowings of a user name somebody else only when the argument is given.\<close>

definition planned_args :: "'b suite_env \<Rightarrow> string \<Rightarrow> action_args \<Rightarrow> string option \<Rightarrow> string \<Rightarrow> string option \<Rightarrow> plan list" where
  "planned_args S name args user expected message =
     (let who_is = (\<lambda>i. user_at (s_users S) (parseInt None (the i)));
          who = VStr \<circ> the;
          behalf = (if truthy (a_onBehalfOf args) then who_is (a_onBehalfOf args) else user);
          md = VStr (engine_rate_mode (a_borrowRateMode args)) in
      if name = ''mint'' then [(user, None, ''mint'', [None])]
      else if name = ''approve'' then [(user, None, ''approve'',
        [Some (VStr (address (s_pool S))), Some (VStr ''100000000000000000000000000000'')])]
      else if name = ''deposit'' then
        pool_plan S expected user ''deposit'' [None, Some (who behalf), Some (VStr ''0''), None]
      else if name = ''delegateBorrowAllowance'' then
        (if expected = ''revert'' \<and> truthy message then []
         else [(user, None, ''approveDelegation'',
           [Some (who (user_at (s_users S) (parseInt (Some 10) (the (a_toUser args))))), None])])
      else if name = ''withdraw'' then pool_plan S expected user ''withdraw'' [None, Some (who user)]
      else if name = ''borrow'' then
        pool_plan S expected user ''borrow'' [None, Some md, Some (VStr ''0''), Some (who behalf)]
      else if name = ''repay'' then
        pool_plan S expected user ''repay'' [None, Some md, Some (who behalf), None]
      else if name = ''setUseAsCollateral'' then
        pool_plan S expected user ''setUserUseReserveAsCollateral''
          [Some (VBool (toLowerCase (the (a_useAsCollateral args)) = ''true''))]
      else if name = ''swapBorrowRateMode'' then pool_plan S expected user ''swapBorrowRateMode'' [Some md]
      else if name = ''rebalanceStableBorrowRate'' then
        pool_plan S expected user ''rebalanceStableBorrowRate'' [Some (who (who_is (a_target args)))]
      else [])"

definition planned :: "'b suite_env \<Rightarrow> Action \<Rightarrow> plan list" where
  "planned S action = (case a_args action of None \<Rightarrow> [] | Some args \<Rightarrow>
     planned_args S (the (a_name action)) args (user_at (s_users S) (parseInt None (the (a_user args))))
       (the (a_expected action)) (a_revertMessage action))"

abbreviation follows_plan :: "plan list \<Rightarrow> tx_obs list \<Rightarrow> bool" where
  "follows_plan \<equiv> list_all2 fits_plan"

section \<open>Every action follows its plan\<close>

lemma mint_plan: "yields (follows_plan [(user, None, ''mint'', [None])]) (mint rt S symbol amount user)"
  unfolding mint_def
  by (auto simp: fits_plan_def intro!: yields_rules quiet_intros)

lemma approve_plan:
  "yields (follows_plan [(user, None, ''approve'', [Some (VStr (address (s_pool S))), Some (VStr ''100000000000000000000000000000'')])])
    (approve rt S symbol user)"
  unfolding approve_def
  by (auto simp: fits_plan_def intro!: yields_rules quiet_intros)

lemma deposit_plan:
  "yields (follows_plan (pool_plan S expected user ''deposit'' [None, Some (VStr behalf), Some (VStr ''0''), None]))
    (deposit rt S symbol amount user behalf value expected)"
  unfolding deposit_def pool_plan_def Let_def
  by (auto simp: fits_plan_def to_be_reverted_def intro!: yields_rules quiet_intros split: prod.split)

lemma withdraw_plan:
  "yields (follows_plan (pool_plan S expected user ''withdraw'' [None, Some (VStr (the user))]))
    (withdraw rt S symbol amount user expected)"
  unfolding withdraw_def pool_plan_def Let_def
  by (auto simp: fits_plan_def to_be_reverted_def intro!: yields_rules quiet_intros split: prod.split)

lemma borrow_plan:
  "yields (follows_plan (pool_plan S expected user ''borrow'' [None, Some (VStr md), Some (VStr ''0''), Some (VStr behalf)]))
    (borrow rt S symbol amount md user behalf days expected)"
  unfolding borrow_def pool_plan_def Let_def
  by (auto simp: fits_plan_def to_be_reverted_def intro!: yields_rules quiet_intros split: prod.split)

lemma repay_plan:
  "yields (follows_plan (pool_plan S expected user ''repay'' [None, Some (VStr md), Some (VStr (the behalf)), None]))
    (repay rt S symbol amount md user behalf value expected)"
  unfolding repay_def pool_plan_def Let_def
  by (auto simp: fits_plan_def to_be_reverted_def intro!: yields_rules quiet_intros split: prod.split)

lemma collateral_plan:
  "yields (follows_plan (pool_plan S expected user ''setUserUseReserveAsCollateral'' [Some (VBool (toLowerCase flag = ''true''))]))
    (setUseAsCollateral rt S symbol user flag expected)"
  unfolding setUseAsCollateral_def pool_plan_def Let_def
  by (auto simp: fits_plan_def to_be_reverted_def intro!: yields_rules quiet_intros split: prod.split)

lemma swap_plan:
  "yields (follows_plan (pool_plan S expected user ''swapBorrowRateMode'' [Some (VStr md)]))
    (swapBorrowRateMode rt S symbol user md expected)"
  unfolding swapBorrowRateMode_def pool_plan_def Let_def
  by (auto simp: fits_plan_def to_be_reverted_def intro!: yields_rules quiet_intros split: prod.split)

lemma rebalance_plan:
  "yields (follows_plan (pool_plan S expected user ''rebalanceStableBorrowRate'' [Some (VStr (the target))]))
    (rebalanceStableBorrowRate rt S symbol user target expected)"
  unfolding rebalanceStableBorrowRate_def pool_plan_def Let_def
  by (auto simp: fits_plan_def to_be_reverted_def intro!: yields_rules quiet_intros split: prod.split)

lemma delegate_plan:
  "yields (follows_plan (if expected = ''revert'' \<and> truthy message then []
      else [(user, None, ''approveDelegation'', [Some (VStr receiver), None])]))
    (delegateBorrowAllowance rt S symbol amount md user receiver expected message)"
proof -
  have q: "quiet sent (if md = ''1'' then getStableDebtToken rt x else getVariableDebtToken rt y)" for x y
    by (simp add: quiet_getters_used)
  show ?thesis
    unfolding delegateBorrowAllowance_def Let_def
    by (auto simp: fits_plan_def intro!: yields_rules yields_bind [OF q] quiet_intros)
qed

lemma yields_demand: "(\<And>x. v = Some x \<Longrightarrow> yields P (k x)) \<Longrightarrow> yields P (demand v message k)"
  by (cases v) (simp_all add: demand_def yields_throw)

lemma yields_behalf:
  assumes "\<And>a. (if truthy index then user_at users (parseInt None (the index)) else user) = Some a \<Longrightarrow> yields P (f a)"
  shows "yields P (Effects.bind (on_behalf_of users user index) f)"
  using assms unfolding on_behalf_of_def by (cases "truthy index") (auto intro!: yields_account)

lemma delegate_plans:
  "truthy message \<Longrightarrow> yields (follows_plan [])
    (delegateBorrowAllowance rt S symbol amount md user receiver ''revert'' message)"
  "(expected = ''revert'' \<longrightarrow> \<not> truthy message) \<Longrightarrow>
    yields (follows_plan [(user, None, ''approveDelegation'', [Some (VStr receiver), None])])
      (delegateBorrowAllowance rt S symbol amount md user receiver expected message)"
proof -
  assume "truthy message"
  then show "yields (follows_plan [])
      (delegateBorrowAllowance rt S symbol amount md user receiver ''revert'' message)"
    using delegate_plan [of "''revert''" message user receiver rt S symbol amount md] by simp
next
  assume "expected = ''revert'' \<longrightarrow> \<not> truthy message"
  then have "\<not> (expected = ''revert'' \<and> truthy message)" by blast
  then show "yields (follows_plan [(user, None, ''approveDelegation'', [Some (VStr receiver), None])])
      (delegateBorrowAllowance rt S symbol amount md user receiver expected message)"
    using delegate_plan [of expected message user receiver rt S symbol amount md] by (simp only: if_False)
qed

lemmas action_plans = mint_plan approve_plan deposit_plan withdraw_plan borrow_plan repay_plan
  collateral_plan swap_plan rebalance_plan delegate_plans

text \<open>The user of a repayment and the one who lends the money, or the target, need not exist.\<close>

lemma perform_plan:
  "yields (follows_plan (planned_args S name args user expected message))
    (perform_action rt S name reserve args user expected message)"
proof -
  let ?b = "if truthy (a_onBehalfOf args) then user_at (s_users S) (parseInt None (the (a_onBehalfOf args))) else user"
  have behalf: "yields P (Effects.bind (on_behalf_of (s_users S) user (a_onBehalfOf args)) f)"
    if "\<And>a. ?b = Some a \<Longrightarrow> yields P (f (the ?b))" for P and f :: "string \<Rightarrow> unit io"
    using that by (intro yields_behalf) (metis option.sel)
  have receiver: "yields P (Effects.bind (account (case v of None \<Rightarrow> None | Some i \<Rightarrow> g i)) f)"
    if "yields P (f (the (g (the v))))" for P v and g :: "string \<Rightarrow> string option" and f :: "string \<Rightarrow> unit io"
    using that by (intro yields_account) (auto split: option.splits)
  show ?thesis
    unfolding perform_action_def planned_args_def Let_def o_def
    by (simp, intro conjI impI; (intro behalf receiver yields_demand)?; (simp add: yields_throw action_plans)?)
       
qed

lemma action_plan: "yields (follows_plan (planned S action)) (executeAction rt S action)"
  unfolding executeAction_def planned_def
  by (cases "a_args action") (auto simp: yields_throw intro!: yields_demand perform_plan)

section \<open>What a comparison guarantees\<close>

definition truncated :: "rat \<Rightarrow> int" where
  "truncated q = round_int ROUND_DOWN q"

context bignumber_math
begin

lemma within_three_iff: "within_three M a e \<longleftrightarrow> \<bar>truncated (val a) - truncated (val e)\<bar> \<le> 3"
proof -
  have k: "val (int_bn M k) = of_int k" for k by (simp add: val_num)
  have eqs: "(of_int x + of_int k = (of_int y :: rat)) = (x + k = y)"
    "(of_int x = (of_int y + of_int k :: rat)) = (x = y + k)" for x y k
    by (metis of_int_add of_int_eq_iff)+
  show ?thesis
    unfolding within_three_def Let_def eq_iff val_plus k val_decimalPlaces eqs of_int_eq_iff truncated_def
    by presburger
qed

lemma almost_equal_iff:
  "almostEqualAssertion M e a \<longleftrightarrow> \<bar>val e - val a\<bar> \<in> {0, 1, 2}"
  unfolding almostEqualAssertion_def eq_iff val_plus val_num by (auto simp: abs_if)

end

text \<open>A cell that is compared, against the cell expected for it.\<close>

fun close_cells :: "('b \<Rightarrow> rat) \<Rightarrow> 'b cell \<Rightarrow> 'b cell option \<Rightarrow> bool" where
  "close_cells val (CellNumber a) (Some (CellNumber e)) \<longleftrightarrow> \<bar>truncated (val a) - truncated (val e)\<bar> \<le> 3"
| "close_cells val (CellText a) (Some (CellText e)) \<longleftrightarrow> a \<noteq> None \<and> a = e"
| "close_cells val (CellFlag a) (Some (CellFlag e)) \<longleftrightarrow> a = e"
| "close_cells val _ _ \<longleftrightarrow> False"

lemma compare_cells_iff:
  "compare_cells M actual expected = Inr () \<longleftrightarrow>
    (\<forall>(key, a) \<in> set actual. key \<notin> set skipped_properties \<longrightarrow> cell_matches M a (obj_get expected key))"
  by (induction M actual expected rule: compare_cells.induct) auto

lemma cell_matches_iff:
  assumes "bignumber_math M val dp md"
  shows "cell_matches M a e \<longleftrightarrow> close_cells val a e"
  using bignumber_math.within_three_iff [OF assms]
  by (cases "(M, a, e)" rule: cell_matches.cases) (auto elim!: close_cells.elims)

section \<open>Properties\<close>


text \<open>A node on which deposits are rejected, with two users, and a story for it.\<close>

definition scene_rt :: runtime where
  "scene_rt = (rejecting ''deposit'')\<lparr> network_name := ''hardhat'', ext_call := (\<lambda>h a m args.
       Inr (if m = ''decimals'' then VNum 18 else VObj [])),
     ext_rpc := (\<lambda>h m args. Inr (if m = ''evm_snapshot'' then VStr ''0x7'' else VObj [(''timestamp'', VNum 100)])) \<rparr>"

definition scene :: "rat suite_env" where
  "scene = \<lparr> s_math = rat_math 0 ROUND_DOWN, toNumber = floor, to_base_16 = (\<lambda>q. ''ff''), reservesParams = [],
     parseUnits = (\<lambda>amount d. Inr 1000), is_revert = (\<lambda>e. e = JsRejected ''execution reverted''),
     reverted_with = (\<lambda>m e. False), s_users = [''0xalice'', ''0xbob''],
     s_pool = \<lparr> abi = ''LendingPool'', address = ''0xpool'', signer = Some ''0xdeployer'', deployer = None \<rparr>,
     s_helpersContract = \<lparr> abi = ''AaveProtocolDataProvider'', address = ''0xdata'', signer = None, deployer = None \<rparr>,
     skipIntegrityCheck = False \<rparr>"

definition scene_action :: "string \<Rightarrow> string \<Rightarrow> string \<Rightarrow> Action" where
  "scene_action name user expected = \<lparr> a_name = Some name,
     a_args = Some \<lparr> a_reserve = Some ''DAI'', a_user = Some user, a_borrowRateMode = None, a_amount = Some ''10'',
       a_sendValue = None, a_onBehalfOf = None, a_toUser = None, a_timeTravel = None, a_useAsCollateral = None,
       a_target = None \<rparr>,
     a_expected = Some expected, a_revertMessage = None \<rparr>"

definition scene_story :: Story where
  "scene_story = \<lparr> s_description = ''User 1 mints and approves, the deposit is refused'',
     s_actions = [scene_action ''mint'' ''1'' ''success'', scene_action ''approve'' ''1'' ''success'',
       scene_action ''deposit'' ''1'' ''revert''] \<rparr>"

lemma scene_passes: "fst (executeStory scene_rt scene scene_story []) = Inr ()"
  by code_simp


text \<open>
  The comparison of the suites accepts two states exactly when every property that is not skipped
  agrees: a number up to three units after truncation, a text and a flag exactly. The assertion of the
  specifications accepts integers up to two apart and no fractions between.
\<close>

theorem comparison_tolerance:
  assumes "bignumber_math M val dp md"
  shows "(almostEqualOrEqual M expected actual = Inr () \<longleftrightarrow>
      (\<forall>(key, a) \<in> set actual. key \<notin> set skipped_properties \<longrightarrow> close_cells val a (obj_get expected key)))
    \<and> (almostEqualAssertion M e a \<longleftrightarrow> \<bar>val e - val a\<bar> \<in> {0, 1, 2})"
  using bignumber_math.almost_equal_iff [OF assms]
  by (simp add: almostEqualOrEqual_def compare_cells_iff cell_matches_iff [OF assms])

lemma comparison_tolerance_witness:
  "almostEqualOrEqual (rat_math 0 ROUND_DOWN) [(''decimals'', CellNumber 6), (''totalLiquidity'', CellNumber 107)]
    [(''decimals'', CellNumber 18), (''totalLiquidity'', CellNumber (221 / 2))] = Inr ()"
  using comparison_tolerance [OF rat_bignumber_math, of 0 ROUND_DOWN
      "[(''decimals'', CellNumber 6), (''totalLiquidity'', CellNumber 107)]"
      "[(''decimals'', CellNumber 18), (''totalLiquidity'', CellNumber (221 / 2))]"]
  by (simp add: skipped_properties_def truncated_def round_int_def obj_get_def)

text \<open>Why an action is refused before anything is asked of the node, as the checks have it.\<close>

definition missing_part :: "'b suite_env \<Rightarrow> action_args \<Rightarrow> string \<Rightarrow> string \<Rightarrow> string \<Rightarrow> string option" where
  "missing_part S args name reserve user =
     (let no_amount = (\<not> truthy (a_amount args));
          found = (user_at (s_users S) (parseInt None (if truthy (a_onBehalfOf args) then the (a_onBehalfOf args) else user)) \<noteq> None);
          receiver = (a_toUser args \<noteq> None \<and> user_at (s_users S) (parseInt (Some 10) (the (a_toUser args))) \<noteq> None) in
      if name = ''mint'' then if no_amount then Some (''Invalid amount of '' @ reserve @ '' to mint'') else None
      else if name = ''deposit'' \<and> found \<or> name = ''delegateBorrowAllowance'' \<and> receiver then
        if no_amount then Some (''Invalid amount to deposit into the '' @ reserve @ '' reserve'') else None
      else if name = ''withdraw'' then
        if no_amount then Some (''Invalid amount to withdraw from the '' @ reserve @ '' reserve'') else None
      else if name = ''borrow'' \<and> found then
        if no_amount then Some (''Invalid amount to borrow from the '' @ reserve @ '' reserve'') else None
      else if name = ''repay'' then
        if no_amount then Some (''Invalid amount to repay into the '' @ reserve @ '' reserve'') else None
      else if name = ''setUseAsCollateral'' then
        if \<not> truthy (a_useAsCollateral args)
        then Some (''A valid value for useAsCollateral needs to be set when calling setUseReserveAsCollateral on reserve '' @ reserve)
        else None
      else if name = ''rebalanceStableBorrowRate'' then
        if \<not> truthy (a_target args) then Some ''A target must be selected when trying to rebalance a stable rate'' else None
      else if name \<in> {''approve'', ''deposit'', ''borrow'', ''delegateBorrowAllowance'', ''swapBorrowRateMode''} then None
      else Some (''Invalid action requested: '' @ name))"

definition refusal :: "'b suite_env \<Rightarrow> Action \<Rightarrow> action_args \<Rightarrow> string option" where
  "refusal S action args =
     (if \<not> truthy (a_name action) then Some ''Action name is missing''
      else if \<not> truthy (a_reserve args) then Some ''Invalid reserve selected for deposit''
      else if \<not> truthy (a_user args)
        then Some (''Invalid user selected to deposit into the '' @ the (a_reserve args) @ '' reserve'')
      else if \<not> truthy (a_expected action)
        then Some (''An expected resut for action '' @ the (a_name action) @ '' is required'')
      else missing_part S args (the (a_name action)) (the (a_reserve args)) (the (a_user args)))"

lemma demand_eq: "demand v m k = (if truthy v then k (the v) else throw (JsThrown m))"
  by (simp add: demand_def)

lemma perform_refused:
  assumes "missing_part S args name reserve u = Some msg"
  shows "perform_action rt S name reserve args (user_at (s_users S) (parseInt None u)) expected message
    = throw (JsThrown msg)"
proof -
  note facts = missing_part_def perform_action_def Let_def demand_eq
  show ?thesis
    using assms
    apply (cases "name \<in> {''mint'', ''withdraw'', ''repay'', ''setUseAsCollateral'', ''rebalanceStableBorrowRate''}")
     apply (elim insertE emptyE; simp add: facts split: if_split_asm)
    apply (cases "name \<in> {''deposit'', ''borrow'', ''delegateBorrowAllowance''}")
     apply (elim insertE emptyE)
       apply (auto simp add: facts on_behalf_of_def account_def split: if_split_asm)[1]
      apply (auto simp add: facts on_behalf_of_def account_def split: if_split_asm)[1]
     apply (cases "a_toUser args"; auto simp add: facts account_def split: if_split_asm)
    apply (cases "name = ''approve'' \<or> name = ''swapBorrowRateMode''")
     apply (elim disjE; simp add: facts)
    apply (simp add: facts)
    done
qed

text \<open>
  An action that is malformed throws a text and asks nothing of the node: one without a name, a
  reserve, a user or an expected result, in this order of the checks, one whose name is unknown, and one
  without the amount, the flag or the target that its name requires.
\<close>

theorem malformed_actions_ask_nothing:
  assumes "a_args action = Some args" and "refusal S action args = Some msg"
  shows "executeAction rt S action h = (Inl (JsThrown msg), h)"
  using assms unfolding executeAction_def refusal_def
  by (auto simp: demand_eq throw_eq perform_refused split: if_splits)

lemma malformed_actions_ask_nothing_witness:
  "executeAction scene_rt scene (scene_action ''lend'' ''0'' ''success'') [] = (Inl (JsThrown ''Invalid action requested: lend''), [])"
proof (rule malformed_actions_ask_nothing)
  show "a_args (scene_action ''lend'' ''0'' ''success'') = Some (the (a_args (scene_action ''lend'' ''0'' ''success'')))"
    by (simp add: scene_action_def)
qed code_simp

end
