(* ===== verification/SuiteScene.thy ===== *)
theory SuiteScene
  imports ScenarioTheorems
begin

text \<open>
  A node with one empty reserve, on which a deposit of seven units by the only user succeeds: the
  concrete run behind the witness for passing deposits. The node answers by the transactions sent so far.
\<close>

definition settings :: "rat bn_math" where
  "settings = rat_math 0 ROUND_DOWN"

definition number :: "nat \<Rightarrow> js_val" where
  "number n = VStr (dec_of_nat n)"

text \<open>What a contract returns, before and after the deposit.\<close>

definition ledger_answer :: "bool \<Rightarrow> string \<Rightarrow> js_val" where
  "ledger_answer paid m =
     (if m = ''decimals'' then VNum 18
      else if m = ''getReserveData'' then VObj [(''availableLiquidity'', number (if paid then 7 else 0)), (''liquidityIndex'', number (10 ^ 27))]
      else if m = ''getUserReserveData'' then VObj [(''currentATokenBalance'', number (if paid then 7 else 0)), (''usageAsCollateralEnabled'', VBool paid)]
      else if m = ''balanceOf'' then number (if paid then 2 else 9)
      else if m = ''scaledBalanceOf'' then number (if paid then 7 else 0)
      else if m = ''getTotalSupplyLastUpdated'' then number 100
      else if m = ''symbol'' then VStr ''DAI''
      else VObj [])"

text \<open>One object that serves as block, receipt and transaction.\<close>

definition ledger_block :: js_val where
  "ledger_block = VObj [(''timestamp'', VNum 100), (''blockNumber'', VNum 5), (''transactionHash'', VStr ''tx''),
     (''cumulativeGasUsed'', number 2), (''gasPrice'', number 2)]"

definition ledger_rt :: runtime where
  "ledger_rt = demo_rt\<lparr> ext_call := (\<lambda>h a m args. Inr (ledger_answer (sent h \<noteq> []) m)),
     ext_db_get := (\<lambda>h p. Inr (demo_db p)), ext_rpc := (\<lambda>h m args. Inr ledger_block) \<rparr>"

definition ledger_suite :: "rat suite_env" where
  "ledger_suite = scene\<lparr> s_math := settings, reservesParams := [(''DAI'', sample_params)], parseUnits := (\<lambda>amount d. Inr 7) \<rparr>"

definition ledger_reserve :: "bool \<Rightarrow> string \<Rightarrow> rat ReserveData" where
  "ledger_reserve paid a = \<lparr> r_address = Some a, r_symbol = Some ''DAI'', r_decimals = 0,
     r_totalLiquidity = (if paid then 7 else 0), r_availableLiquidity = (if paid then 7 else 0),
     r_totalStableDebt = 0, r_totalVariableDebt = 0, r_principalStableDebt = 0, r_scaledVariableDebt = 0,
     r_averageStableBorrowRate = 0, r_variableBorrowRate = 0, r_stableBorrowRate = 0, r_utilizationRate = 0,
     r_liquidityIndex = 10 ^ 27, r_variableBorrowIndex = 0, r_aTokenAddress = Some [], r_marketStableRate = 0,
     r_lastUpdateTimestamp = 0, r_totalStableDebtLastUpdated = 100, r_liquidityRate = 0 \<rparr>"

definition ledger_user :: "bool \<Rightarrow> rat UserReserveData" where
  "ledger_user paid = (empty_UserReserveData settings)\<lparr>
     u_scaledATokenBalance := (if paid then 7 else 0), u_currentATokenBalance := (if paid then 7 else 0),
     u_usageAsCollateralEnabled := paid, u_walletBalance := (if paid then 2 else 9) \<rparr>"

section \<open>Arithmetic\<close>

interpretation settings: suite_math settings "\<lambda>r. r"
  unfolding settings_def by (rule suite.suite_math_axioms)

lemma settings_strings [simp]:
  "str_bn settings (dec_of_nat n) = of_nat n" "str_bn settings [] = 0" "int_bn settings k = of_int k"
  "str_bn settings ''0'' = 0" "undefined_bn settings = 0"
  using settings.val_dec_of_nat [of n] settings.zero_vals(1) settings.val_num [of k 0]
  by (simp_all add: settings_def rat_math_def exact_bn_def decimal_value_def nat_of_dec_def)

lemma settings_ops [simp]:
  "plus_bn settings a b = a + b" "minus_bn settings a b = a - b" "eq_bn settings a b \<longleftrightarrow> a = b"
  "lt_bn settings a b \<longleftrightarrow> a < b"
  by (simp_all add: settings_def rat_math_def)

lemma settings_rays [simp]:
  "rayMul settings 0 y = 0" "rayMul settings y 0 = 0" "percentMul_bn settings 0 y = 0"
  "rayDiv settings 7 1000000000000000000000000000 = 7" "rayDiv settings 0 1000000000000000000000000000 = 0" "rayDiv settings 0 7 = 0"
  "rayDiv settings 0 800000000000000000000000000 = 0" "str_bn settings (RAY (api settings)) = 1000000000000000000000000000"
proof -
  have "rayMul settings 0 y = rayMul settings 0 0" "rayMul settings y 0 = rayMul settings 0 0"
    "percentMul_bn settings 0 y = percentMul_bn settings 0 0"
    unfolding rayMul_def percentMul_bn_def settings.val_times by (simp_all only: mult_zero_left mult_zero_right)
  then show "rayMul settings 0 y = 0" "rayMul settings y 0 = 0" "percentMul_bn settings 0 y = 0"
    using settings.rayMul_nat [of 0 0 0 0] settings.percentMul_nat [of 0 0 0 0] by (simp_all add: nearest_div_def)
  show "rayDiv settings 7 1000000000000000000000000000 = 7" "rayDiv settings 0 1000000000000000000000000000 = 0" "rayDiv settings 0 7 = 0"
    "rayDiv settings 0 800000000000000000000000000 = 0"
    using settings.rayDiv_nat [of 7 7 "10 ^ 27" "10 ^ 27"] settings.rayDiv_nat [of 0 0 "10 ^ 27" "10 ^ 27"]
      settings.rayDiv_nat [of 0 0 7 7] settings.rayDiv_nat [of 0 0 800000000000000000000000000 800000000000000000000000000]
    by (simp_all add: nearest_div_def)
  show "str_bn settings (RAY (api settings)) = 1000000000000000000000000000" using settings.val_units(2) by simp
qed

section \<open>Runs\<close>

text \<open>Begun with or without a transaction sent, the script returns the value and ends with or without one.\<close>

definition goes :: "bool \<Rightarrow> bool \<Rightarrow> 'a io \<Rightarrow> 'a \<Rightarrow> bool" where
  "goes p q m x \<longleftrightarrow> (\<forall>h. (sent h \<noteq> []) = p \<longrightarrow> (\<exists>h'. m h = (Inr x, h') \<and> (sent h' \<noteq> []) = q))"

lemma goes_ret: "goes p p (ret x) x"
  by (simp add: goes_def ret_def)

lemma goes_bind: "goes p q m x \<Longrightarrow> goes q r (f x) y \<Longrightarrow> goes p r (Effects.bind m f) y"
  unfolding goes_def
proof (intro allI impI)
  fix h assume m: "\<forall>h. (sent h \<noteq> []) = p \<longrightarrow> (\<exists>h'. m h = (Inr x, h') \<and> (sent h' \<noteq> []) = q)"
    and f: "\<forall>h. (sent h \<noteq> []) = q \<longrightarrow> (\<exists>h'. f x h = (Inr y, h') \<and> (sent h' \<noteq> []) = r)" and h: "(sent h \<noteq> []) = p"
  from m h obtain h1 where "m h = (Inr x, h1)" "(sent h1 \<noteq> []) = q" by blast
  moreover with f obtain h2 where "f x h1 = (Inr y, h2)" "(sent h2 \<noteq> []) = r" by blast
  ultimately show "\<exists>h'. Effects.bind m f h = (Inr y, h') \<and> (sent h' \<noteq> []) = r" by (simp add: bind_Inr)
qed

lemma goes_seq: "goes p q m x \<Longrightarrow> goes q r n y \<Longrightarrow> goes p r (seq m n) y"
  unfolding seq_def by (rule goes_bind)

lemma goes_requests:
  "goes p p (call_view ledger_rt c m args) (ledger_answer p m)"
  "goes p p (rpc_send ledger_rt m args) ledger_block"
  "goes p p (wait_tx ledger_rt tx) ()"
  "goes p p (db_get ledger_rt path) (demo_db path)"
  "goes p True (send_tx ledger_rt c m args) ''tx''"
  by (simp_all add: goes_def prim_defs perform_def ledger_rt_def demo_rt_def sent.proj_append)

lemma goes_value: "goes p q m x \<Longrightarrow> x = y \<Longrightarrow> goes p q m y"
  by simp

lemma goes_lift: "r = Inr x \<Longrightarrow> goes p p (lift_sum r) x"
  by (simp add: goes_ret)

lemma goes_call_str: "goes p p (call_str ledger_rt c m args) (val_str (ledger_answer p m))"
  unfolding call_str_def by (rule goes_bind [OF goes_requests(1) goes_ret])

lemma goes_map: "goes p q m x \<Longrightarrow> goes p q (Effects.bind m (\<lambda>d. ret (g d))) (g x)"
  by (rule goes_bind [OF _ goes_ret])

lemma goes_db_address: "goes p p (db_address ledger_rt cid) (''0x'' @ db_path ledger_rt cid)"
  unfolding db_address_def by (rule goes_bind [OF goes_requests(4)]) (simp add: demo_db_def goes_ret)

lemma goes_connect:
  "goes p p (connect_or_db ledger_rt f cid addr)
    (connect_at ledger_rt f (if truthy addr then the addr else ''0x'' @ db_path ledger_rt (contract_id cid)))"
proof (cases "truthy addr")
  case True
  then show ?thesis by (cases addr) (simp_all add: goes_ret)
next
  case False
  then show ?thesis unfolding connect_or_db_falsy [OF False] if_not_P [OF False] by (intro goes_map goes_db_address)
qed

lemma ledger_latest: "goes p p (timeLatest ledger_rt) 100"
  unfolding timeLatest_def
  by (rule goes_bind [OF goes_requests(2) goes_lift]) (simp add: ledger_block_def)

lemma ledger_user_data: "goes p p (getUserData ledger_rt ledger_suite reserve user sender) (ledger_user p)"
  unfolding getUserData_def getATokenUserData_def Let_def getMintableERC20_def getAToken_def
  by (rule goes_bind, rule goes_requests, rule goes_bind, rule goes_bind, rule goes_requests, rule goes_bind, rule goes_connect,
      rule goes_call_str, rule goes_bind, rule goes_connect, rule goes_bind, rule goes_call_str, rule goes_value, rule goes_ret)
     (simp add: ledger_user_def ledger_answer_def bn_field_def pos_str_def pos_flag_def number_def ledger_suite_def empty_UserReserveData_def)

lemma ledger_reserve_data: "goes p p (getReserveData ledger_rt ledger_suite reserve) (ledger_reserve p reserve)"
  unfolding getReserveData_def Let_def getLendingRateOracle_def getIErc20Detailed_def getStableDebtToken_def getVariableDebtToken_def
  by (rule goes_bind, rule goes_requests, rule goes_bind, rule goes_requests, (rule goes_bind, rule goes_connect)+, rule goes_bind,
      rule goes_requests, (rule goes_bind, rule goes_call_str)+, rule goes_value, rule goes_ret)
     (simp add: ledger_reserve_def ledger_answer_def bn_field_def pos_str_def pos_flag_def number_def ledger_suite_def
       first_component_def utilization_of_def)

lemma ledger_contracts:
  "goes p p (getContractsData ledger_rt ledger_suite reserve user sender) (ledger_reserve p reserve, ledger_user p, 100)"
  unfolding getContractsData_def
  by (rule goes_bind, rule ledger_user_data, rule goes_bind, rule ledger_reserve_data, rule goes_bind, rule ledger_latest,
      rule goes_value, rule goes_ret) (simp add: ledger_suite_def)

lemma ledger_address: "\<exists>a. goes p p (getReserveAddressFromSymbol ledger_rt symbol) a"
  unfolding getReserveAddressFromSymbol_def getMintableERC20_def
  by (rule exI, rule goes_bind, rule goes_db_address, rule goes_bind, rule goes_connect, rule goes_ret)

lemma ledger_units: "goes p p (in_units ledger_rt ledger_suite reserve amount) 7"
  unfolding in_units_def convertToCurrencyDecimals_def token_decimals_def getIErc20Detailed_def
  by (rule goes_bind, rule goes_connect, rule goes_bind, rule goes_bind, rule goes_requests)
     (simp add: ledger_answer_def, rule goes_ret, simp add: ledger_suite_def goes_ret)

lemma ledger_cost: "goes p p (getTxCostAndTimestamp ledger_rt ledger_suite ledger_block) (4, 100)"
proof -
  have f: "val_field ledger_block ''blockNumber'' = Inr (VNum 5)" "val_field ledger_block ''transactionHash'' = Inr (VStr ''tx'')"
    "val_field ledger_block ''cumulativeGasUsed'' = Inr (number 2)" "val_field ledger_block ''gasPrice'' = Inr (number 2)"
    "block_timestamp ledger_block = Inr 100"
    by (simp_all add: ledger_block_def)
  have n: "js_truthy (VNum 5)" "js_truthy (VStr ''tx'')" "js_truthy (number 2)" "number 2 \<noteq> VUndef" "number 2 \<noteq> VNull" by (simp_all add: number_def)
  have S: "s_math ledger_suite = settings" by (simp add: ledger_suite_def)
  have v: "str_bn settings (val_str (number 2)) = 2" by (simp add: number_def)
  have m: "times_bn settings 2 2 = 4" using settings.val_times [of 2 2] by simp
  show ?thesis
    unfolding getTxCostAndTimestamp_def Let_def f lift_sum_cases bind_ret S
    by (simp only: n simp_thms if_False, rule goes_bind, rule goes_requests, simp only: f lift_sum_cases bind_ret,
        rule goes_bind, rule goes_requests, simp add: f n v m goes_ret)
qed

section \<open>The deposit\<close>

lemma settings_within [simp]: "within_three settings x x"
  by (simp add: settings.within_three_iff)

lemma ledger_expected:
  "\<exists>e. calcExpectedReserveDataAfterDeposit settings [(''DAI'', sample_params)] (dec_of_int 7) (ledger_reserve False a) 100 = Inr e
    \<and> almostEqualOrEqual settings (reserve_cells e) (reserve_cells (ledger_reserve True a)) = Inr ()
    \<and> almostEqualOrEqual settings (user_cells (calcExpectedUserDataAfterDeposit settings (dec_of_int 7)
        (ledger_reserve False a) e (ledger_user False) 100 100 cost)) (user_cells (ledger_user True)) = Inr ()"
proof -
  have seven: "dec_of_int 7 = dec_of_nat 7" by (simp add: dec_of_int_def)
  have cfg: "entry_at [(''DAI'', P)] ''DAI'' = Inr P" for P :: IReserveParams by (simp add: entry_at_def)
  note calc = calcExpectedReserveDataAfterDeposit_def finish_reserve_def start_reserve_def stable_debt_until_def
    calcExpectedTotalStableDebt_def calcCompoundedInterest_def calcExpectedTotalVariableDebt_def calcExpectedVariableBorrowIndex_def
    calcExpectedLiquidityIndex_def calcExpectedUtilizationRate_def calcExpectedInterestRates_def reserve_configuration_def
    strategy_rates_def calcExpectedOverallBorrowRate_def
  let ?e = "(ledger_reserve True a)\<lparr>r_symbol := None, r_decimals := 0, r_aTokenAddress := None, r_totalStableDebtLastUpdated := 0\<rparr>"
  have e: "calcExpectedReserveDataAfterDeposit settings [(''DAI'', sample_params)] (dec_of_int 7) (ledger_reserve False a) 100 = Inr ?e"
    by (simp add: calc seven cfg Let_def ledger_reserve_def sample_params_def empty_ReserveData_def)
  note cells = almostEqualOrEqual_def compare_cells_iff cell_matches_iff [OF settings.bignumber_math_axioms]
    truncated_def skipped_properties_def obj_get_def
  have "almostEqualOrEqual settings (reserve_cells ?e) (reserve_cells (ledger_reserve True a)) = Inr ()"
    by (simp add: cells reserve_cells_def ledger_reserve_def)
  moreover have "almostEqualOrEqual settings (user_cells (calcExpectedUserDataAfterDeposit settings (dec_of_int 7)
        (ledger_reserve False a) ?e (ledger_user False) 100 100 cost)) (user_cells (ledger_user True)) = Inr ()"
    by (simp add: cells user_cells_def seven ledger_user_def calcExpectedUserDataAfterDeposit_def empty_UserReserveData_def
      calcExpectedScaledATokenBalance_def calcExpectedATokenBalance_def calcExpectedVariableDebtTokenBalance_def
      user_stable_debt_def calcExpectedStableDebtTokenBalance_def ledger_reserve_def Let_def)
  ultimately show ?thesis using e by blast
qed

lemma goes_expect:
  assumes "s_math S = settings"
  shows "almostEqualOrEqual settings expected actual = Inr () \<Longrightarrow> goes p p (expectEqual S actual expected) ()"
  using assms by (simp add: expectEqual_def goes_ret)

lemma ledger_deposit:
  "goes False True (deposit ledger_rt ledger_suite ''DAI'' ''7'' (Some ''0xbob'') ''0xbob'' None ''success'') ()"
proof -
  obtain reserve where r: "goes False False (getReserveAddressFromSymbol ledger_rt ''DAI'') reserve"
    using ledger_address by blast
  obtain e where e: "calcExpectedReserveDataAfterDeposit settings [(''DAI'', sample_params)] (dec_of_int 7) (ledger_reserve False reserve) 100 = Inr e"
    and checks: "almostEqualOrEqual settings (reserve_cells e) (reserve_cells (ledger_reserve True reserve)) = Inr ()"
      "almostEqualOrEqual settings (user_cells (calcExpectedUserDataAfterDeposit settings (dec_of_int 7)
        (ledger_reserve False reserve) e (ledger_user False) 100 100 4)) (user_cells (ledger_user True)) = Inr ()"
    using ledger_expected [of reserve 4] by blast
  have S: "s_math ledger_suite = settings" "reservesParams ledger_suite = [(''DAI'', sample_params)]"
    by (simp_all add: ledger_suite_def)
  have sent: "goes False True (send_for_receipt ledger_rt c m args) ledger_block" for c m args
    unfolding send_for_receipt_def waitForTx_def
    by (rule goes_bind, rule goes_requests, rule goes_seq, rule goes_requests, rule goes_requests)
  show ?thesis
    unfolding deposit_def Let_def S account_def connect_as_def tx_options_def
    apply (simp only: option.case truthy_simps if_False bind_ret simp_thms if_True)
    apply (rule goes_bind, rule r, rule goes_bind, rule ledger_units, rule goes_bind, rule ledger_contracts)
    apply (simp only: prod.case)
    apply (rule goes_bind, rule sent, rule goes_bind, rule ledger_contracts)
    apply (simp only: prod.case)
    apply (rule goes_bind, rule ledger_cost)
    apply (simp only: prod.case e lift_sum_cases bind_ret)
    apply (rule goes_seq)
     apply (unfold expect_reserve_def expect_user_def)
     apply (rule goes_expect [OF S(1) checks(1)])
    apply (rule goes_expect [OF S(1) checks(2)])
    done
qed

end
