(* ===== verification/AmmSuite.thy ===== *)
theory AmmSuite
  imports MakeSuite AmmMarket
begin

text \<open>
  \<open>test-suites/test-amm/helpers/make-suite.ts\<close>: the environment of the suites of the AMM market. It reads
  the registry of that market and looks for its own token symbols; it has neither \<open>aAAVE\<close> nor the
  auto-repay and leverage adapters. The rest of the file is that of \<open>test-aave\<close>.
\<close>

definition amm_suite_registry :: "runtime \<Rightarrow> TestEnv \<Rightarrow> TestEnv io" where
  "amm_suite_registry rt env =
     (if env_is rt ''MAINNET_FORK'' ''true'' then
        bind (getLendingPoolAddressesProviderRegistry rt
          (case getParamPerNetwork rt amm_ProviderRegistry (eth_network Eth_main) of None \<Rightarrow> None | Some a \<Rightarrow> a)) (\<lambda>registry.
        ret (env\<lparr>t_registry := Some registry\<rparr>))
      else
        bind (getLendingPoolAddressesProviderRegistry rt None) (\<lambda>registry.
        bind (getPriceOracle rt None) (\<lambda>oracle.
        ret (env\<lparr>t_registry := Some registry, t_oracle := Some oracle\<rparr>))))"

definition amm_suite_tokens :: "runtime \<Rightarrow> contract \<Rightarrow> TestEnv \<Rightarrow> TestEnv io" where
  "amm_suite_tokens rt helpersContract env =
     bind (call_view rt helpersContract ''getAllATokens'' []) (\<lambda>allTokens.
     let aDaiAddress = find_token allTokens ''aAmmDAI''; aWEthAddress = find_token allTokens ''aAmmWETH'' in
     bind (call_view rt helpersContract ''getAllReservesTokens'' []) (\<lambda>reservesTokens.
     let daiAddress = find_token reservesTokens ''DAI''; usdcAddress = find_token reservesTokens ''USDC'';
         aaveAddress = find_token reservesTokens ''UniAAVEWETH''; wethAddress = find_token reservesTokens ''WETH'' in
     if \<not> truthy aDaiAddress \<or> \<not> truthy aWEthAddress then throw (JsExit 1)
     else if \<not> truthy daiAddress \<or> \<not> truthy usdcAddress \<or> \<not> truthy aaveAddress \<or> \<not> truthy wethAddress
     then throw (JsExit 1)
     else
       bind (getAToken rt aDaiAddress) (\<lambda>aDai.
       bind (getAToken rt aWEthAddress) (\<lambda>aWETH.
       bind (getMintableERC20 rt daiAddress) (\<lambda>dai.
       bind (getMintableERC20 rt usdcAddress) (\<lambda>usdc.
       bind (getMintableERC20 rt aaveAddress) (\<lambda>aave.
       bind (getWETHMocked rt wethAddress) (\<lambda>weth.
       ret (env\<lparr>t_aDai := Some aDai, t_aWETH := Some aWETH, t_dai := Some dai, t_usdc := Some usdc,
         t_aave := Some aave, t_weth := Some weth\<rparr>)))))))))"

definition amm_initializeMakeSuite :: "runtime \<Rightarrow> TestEnv \<Rightarrow> TestEnv io" where
  "amm_initializeMakeSuite rt testEnv =
     bind (suite_signers rt testEnv) (\<lambda>env.
     bind (getLendingPool rt None) (\<lambda>pool.
     bind (getLendingPoolConfiguratorProxy rt None) (\<lambda>configurator.
     bind (getLendingPoolAddressesProvider rt None) (\<lambda>addressesProvider.
     bind (amm_suite_registry rt (env\<lparr>t_pool := Some pool, t_configurator := Some configurator,
       t_addressesProvider := Some addressesProvider\<rparr>)) (\<lambda>env.
     bind (getAaveProtocolDataProvider rt None) (\<lambda>helpersContract.
     bind (amm_suite_tokens rt helpersContract (env\<lparr>t_helpersContract := Some helpersContract\<rparr>)) (\<lambda>env.
     bind (getWETHGateway rt None) (\<lambda>wethGateway.
     bind (getUniswapLiquiditySwapAdapter rt None) (\<lambda>liquiditySwapAdapter.
     bind (getUniswapRepayAdapter rt None) (\<lambda>repayAdapter.
     bind (getFlashLiquidationAdapter rt None) (\<lambda>flashLiquidationAdapter.
     ret (env\<lparr>t_wethGateway := Some wethGateway, t_uniswapLiquiditySwapAdapter := Some liquiditySwapAdapter,
       t_uniswapRepayAdapter := Some repayAdapter, t_flashLiquidationAdapter := Some flashLiquidationAdapter\<rparr>))))))))))))"

end
