(* ===== verification/SuiteTheorems.thy ===== *)
theory SuiteTheorems
  imports SuiteScene AmmSuite
begin

text \<open>
  The suites as a whole: they give the chain back as they found it, and a deposit or a borrowing that
  passes has moved the amount.
\<close>

section \<open>Snapshots\<close>

definition revert_request :: "runtime \<Rightarrow> string \<Rightarrow> request" where
  "revert_request rt snapshot =
     ReqRpc (if usingTenderly rt then ''tenderly setHead'' else ''evm_revert'') [VStr snapshot]"

lemma revertHead_last:
  assumes "revertHead rt snapshot h = (r, h')"
  shows "\<exists>ev. h' = h @ [ev] \<and> (\<exists>reply e. ev = EvOk (revert_request rt snapshot) reply \<or> ev = EvFail (revert_request rt snapshot) e)"
  using assms
  by (auto simp: revertHead_def revert_request_def evmRevert_def rpc_send_def perform_def seq_def
      Effects.bind_def ret_def split: if_splits sum.splits prod.splits)

lemma settled_outcome:
  assumes "settled m h = (r, h')"
  shows "h' = snd (m h) \<and> ((\<exists>k. r = Inl (JsExit k)) \<or> r = Inr (fst (m h)))"
  using assms
  by (auto simp: settled_def catch_def Effects.bind_def ret_def split: prod.splits sum.splits js_error.splits)

text \<open>
  C24. Whatever the tests of a suite do, unless the process exits, the last request of the suite takes the
  chain back to the snapshot that it took before them; a suite whose snapshot failed does not run its tests
  and goes back to the last snapshot before.
\<close>

theorem suites_restore_snapshot:
  assumes "makeSuite rt sid False tests h = (r, h')" and "\<forall>k. r \<noteq> Inl (JsExit k)"
  shows "\<exists>before h1 target h2 ev. setSnapshot rt h = (before, h1)
    \<and> (case before of Inl _ \<Rightarrow> target = sid \<and> h2 = h1 | Inr s \<Rightarrow> target = s \<and> h2 = snd (tests h1))
    \<and> h' = h2 @ [ev]
    \<and> (\<exists>reply e. ev = EvOk (revert_request rt target) reply \<or> ev = EvFail (revert_request rt target) e)
    \<and> (\<forall>s. r = Inr s \<longrightarrow> s = target)"
proof -
  obtain before h1 where snap: "setSnapshot rt h = (before, h1)" by fastforce
  have revert: "\<exists>ev. h' = h2 @ [ev] \<and> (\<exists>reply e. ev = EvOk (revert_request rt target) reply \<or> ev = EvFail (revert_request rt target) e)
      \<and> (\<forall>s. r = Inr s \<longrightarrow> s = target)" if run: "seq (revertHead rt target) (ret target) h2 = (r, h')" for target h2
  proof -
    obtain q h3 where q: "revertHead rt target h2 = (q, h3)" by fastforce
    then have "h' = h3" "\<forall>s. r = Inr s \<longrightarrow> s = target"
      using run by (auto simp: seq_def Effects.bind_def ret_def split: sum.splits)
    then show ?thesis using revertHead_last [OF q] by blast
  qed
  obtain s1 g1 where s1: "settled (setSnapshot rt) h = (s1, g1)" by fastforce
  have g1: "g1 = h1" and before: "(\<exists>k. s1 = Inl (JsExit k)) \<or> s1 = Inr before"
    using settled_outcome [OF s1] snap by auto
  show ?thesis
  proof (cases before)
    case (Inl e)
    then have "seq (revertHead rt sid) (ret sid) h1 = (r, h')"
      using assms before s1 g1 by (auto simp: makeSuite_def Effects.bind_def)
    from revert [OF this] snap Inl show ?thesis by force
  next
    case (Inr s)
    obtain s2 h2 where s2: "settled tests h1 = (s2, h2)" by fastforce
    have "h2 = snd (tests h1)" using settled_outcome [OF s2] by blast
    moreover have "seq (revertHead rt s) (ret s) h2 = (r, h')"
      using assms before s1 g1 s2 settled_outcome [OF s2] Inr by (auto simp: makeSuite_def Effects.bind_def seq_def)
    ultimately show ?thesis using revert [of s h2] snap Inr by force
  qed
qed

lemma suites_restore_snapshot_witness:
  "\<exists>h2 ev. snd (makeSuite scene_rt ''0x1'' False (scenario_tests scene_rt scene
      \<lparr> title = ''deposits'', c_description = ''deposits'', stories = [scene_story] \<rparr>) []) = h2 @ [ev]
    \<and> (\<exists>reply e. ev = EvOk (ReqRpc ''evm_revert'' [VStr ''0x7'']) reply \<or> ev = EvFail (ReqRpc ''evm_revert'' [VStr ''0x7'']) e)"
proof -
  let ?tests = "scenario_tests scene_rt scene \<lparr> title = ''deposits'', c_description = ''deposits'', stories = [scene_story] \<rparr>"
  have tenderly: "\<not> usingTenderly scene_rt"
    by (simp add: usingTenderly_def scene_rt_def rejecting_def demo_rt_def env_is_def)
  have snap: "setSnapshot scene_rt [] = (Inr ''0x7'', [EvOk (ReqRpc ''evm_snapshot'' []) (ReplyVal (VStr ''0x7''))])"
    by code_simp
  have ok: "fst (makeSuite scene_rt ''0x1'' False ?tests []) = Inr ''0x7''" by code_simp
  obtain h' where run: "makeSuite scene_rt ''0x1'' False ?tests [] = (Inr ''0x7'', h')" using ok by (metis prod.collapse)
  from suites_restore_snapshot [OF run] show ?thesis
    unfolding run snap by (auto simp: revert_request_def tenderly)
qed

section \<open>Amounts\<close>

abbreviation near :: "rat \<Rightarrow> rat \<Rightarrow> bool" where
  "near p q \<equiv> \<bar>truncated p - truncated q\<bar> \<le> 3"

lemma expected_near:
  assumes "bignumber_math (s_math S) val dp md" and "\<not> skipIntegrityCheck S"
  shows "expect_reserve S a e h = (Inr u, h') \<Longrightarrow> near (val (r_availableLiquidity a)) (val (r_availableLiquidity e))"
    and "expect_user S ua ue h = (Inr u, h') \<Longrightarrow> near (val (u_walletBalance ua)) (val (u_walletBalance ue))"
proof -
  have cells: "expectEqual S actual expected h = (Inr u, h') \<Longrightarrow>
      (\<forall>(key, a) \<in> set actual. key \<notin> set skipped_properties \<longrightarrow> close_cells val a (obj_get expected key))"
    for actual expected
    using assms(2) cell_matches_iff [OF assms(1)]
    by (simp add: expectEqual_def almostEqualOrEqual_def lift_sum_ok compare_cells_iff)
  show "near (val (r_availableLiquidity a)) (val (r_availableLiquidity e))" if "expect_reserve S a e h = (Inr u, h')"
    using cells [OF that [unfolded expect_reserve_def]]
    by (simp add: reserve_cells_def skipped_properties_def obj_get_def)
  show "near (val (u_walletBalance ua)) (val (u_walletBalance ue))" if "expect_user S ua ue h = (Inr u, h')"
    using cells [OF that [unfolded expect_user_def]]
    by (simp add: user_cells_def skipped_properties_def obj_get_def)
qed

text \<open>The receipt is read after its transaction, which is all that is sent.\<close>

lemma send_for_receipt_sent:
  assumes "send_for_receipt rt c m args h = (Inr r, h')"
  shows "sent h' = sent h @ [(signer c, address c, m, args)]"
proof -
  have y: "yields (\<lambda>t. t = [(signer c, address c, m, args)]) (Effects.bind (send_for_receipt rt c m args) ret)"
    by (rule yields_send) (auto intro!: quiet_intros)
  have run: "Effects.bind (send_for_receipt rt c m args) ret h = (Inr r, h')" using assms by simp
  show ?thesis using yieldsD [OF y run] by auto
qed

lemma deposit_ok:
  assumes "deposit rt S symbol amount (Some a) behalf value ''success'' h = (Inr u, h')"
  shows "\<exists>reserve n options b ub t g2 g3 g5 d ud t' g6 cost now e g8.
    getContractsData rt S reserve behalf (Some a) g2 = (Inr (b, ub, t), g3)
    \<and> sent h' = sent h @ [(Some a, address (s_pool S), ''deposit'', [VStr reserve, VNum n, VStr behalf, VStr ''0'', options])]
    \<and> getContractsData rt S reserve behalf (Some a) g5 = (Inr (d, ud, t'), g6)
    \<and> calcExpectedReserveDataAfterDeposit (s_math S) (reservesParams S) (dec_of_int n) b now = Inr e
    \<and> (\<exists>g7. expect_reserve S d e g7 = (Inr (), g8))
    \<and> expect_user S ud (calcExpectedUserDataAfterDeposit (s_math S) (dec_of_int n) b e ub now t' cost) g8 = (Inr u, h')"
proof -
  let ?p = "(s_pool S)\<lparr>signer := Some a\<rparr>" and ?M = "s_math S"
  from assms obtain reserve g1 n g2 b ub t g3 options g4 r g5 d ud t' g6 cost now g7 e g8 where
    run: "getReserveAddressFromSymbol rt symbol h = (Inr reserve, g1)" "in_units rt S reserve amount g1 = (Inr n, g2)"
      "tx_options rt S reserve value VNum g3 = (Inr options, g4)" "getTxCostAndTimestamp rt S r g6 = (Inr (cost, now), g7)"
    and s: "send_for_receipt rt ?p ''deposit'' [VStr reserve, VNum n, VStr behalf, VStr ''0'', options] g4 = (Inr r, g5)"
    and before: "getContractsData rt S reserve behalf (Some a) g2 = (Inr (b, ub, t), g3)"
    and after: "getContractsData rt S reserve behalf (Some a) g5 = (Inr (d, ud, t'), g6)"
    and e: "calcExpectedReserveDataAfterDeposit ?M (reservesParams S) (dec_of_int n) b now = Inr e"
    and check: "expect_reserve S d e g7 = (Inr (), g8)"
      "expect_user S ud (calcExpectedUserDataAfterDeposit ?M (dec_of_int n) b e ub now t' cost) g8 = (Inr u, h')"
    by (auto simp: deposit_def bind_ok seq_ok lift_sum_ok ret_ok account_def connect_as_def Let_def)
  note q = quietD [OF quiet_reserve_address run(1)] quietD [OF quiet_in_units run(2)] quietD [OF quiet_getContractsData before]
    quietD [OF quiet_amounts(2) run(3)] quietD [OF quiet_getContractsData after] quietD [OF quiet_getTxCost run(4)]
    quietD [OF quiet_expect(1) check(1)] quietD [OF quiet_expect(2) check(2)]
  have "sent h' = sent h @ [(Some a, address (s_pool S), ''deposit'', [VStr reserve, VNum n, VStr behalf, VStr ''0'', options])]"
    using send_for_receipt_sent [OF s] by (simp add: q)
  then show ?thesis using before after e check by blast
qed

lemma borrow_ok:
  assumes "borrow rt S symbol amount md (Some a) behalf days ''success'' h = (Inr u, h')"
  shows "\<exists>reserve n b ub t g2 g3 g5 d ud t' g6 now e g8.
    getContractsData rt S reserve behalf (Some a) g2 = (Inr (b, ub, t), g3)
    \<and> sent h' = sent h @ [(Some a, address (s_pool S), ''borrow'', [VStr reserve, VNum n, VStr md, VStr ''0'', VStr behalf])]
    \<and> getContractsData rt S reserve behalf (Some a) g5 = (Inr (d, ud, t'), g6)
    \<and> calcExpectedReserveDataAfterBorrow (s_math S) (reservesParams S) (dec_of_int n) md b ub now t' = Inr e
    \<and> (\<exists>g7. expect_reserve S d e g7 = (Inr (), g8))
    \<and> expect_user S ud (calcExpectedUserDataAfterBorrow (s_math S) (dec_of_int n) md b e ub now t') g8 = (Inr u, h')"
proof -
  let ?p = "(s_pool S)\<lparr>signer := Some a\<rparr>" and ?M = "s_math S"
  from assms obtain reserve g1 n g2 b ub t g3 r g4 g5 d ud t' g6 cost now g7 e g8 g9 v where
    run: "getReserveAddressFromSymbol rt symbol h = (Inr reserve, g1)" "in_units rt S reserve amount g2 = (Inr n, g3)"
      "getTxCostAndTimestamp rt S r g4 = (Inr (cost, now), g5)"
      "io_when (truthy days) (advanceTimeAndBlock rt (secondsToTravel S (the days))) g5 = (Inr v, g6)"
    and s: "send_for_receipt rt ?p ''borrow'' [VStr reserve, VNum n, VStr md, VStr ''0'', VStr behalf] g3 = (Inr r, g4)"
    and before: "getContractsData rt S reserve behalf (Some a) g1 = (Inr (b, ub, t), g2)"
    and after: "getContractsData rt S reserve behalf (Some a) g6 = (Inr (d, ud, t'), g7)"
    and e: "calcExpectedReserveDataAfterBorrow ?M (reservesParams S) (dec_of_int n) md b ub now t' = Inr e"
    and check: "expect_reserve S d e g7 = (Inr (), g8)"
      "expect_user S ud (calcExpectedUserDataAfterBorrow ?M (dec_of_int n) md b e ub now t') g8 = (Inr u, h')"
    by (auto simp: borrow_def bind_ok seq_ok lift_sum_ok ret_ok account_def connect_as_def Let_def)
  note q = quietD [OF quiet_reserve_address run(1)] quietD [OF quiet_in_units run(2)] quietD [OF quiet_getContractsData before]
    quietD [OF sent.quiet_io_when [OF quiet_advanceTime] run(4)] quietD [OF quiet_getContractsData after]
    quietD [OF quiet_getTxCost run(3)] quietD [OF quiet_expect(1) check(1)] quietD [OF quiet_expect(2) check(2)]
  have "sent h' = sent h @ [(Some a, address (s_pool S), ''borrow'', [VStr reserve, VNum n, VStr md, VStr ''0'', VStr behalf])]"
    using send_for_receipt_sent [OF s] by (simp add: q)
  then show ?thesis using before after e check by blast
qed



section \<open>The environment\<close>


text \<open>A node that lists the tokens of the suites of \<open>test-aave\<close>.\<close>

definition token_entry :: "string \<Rightarrow> js_val" where
  "token_entry symbol = VObj [(''symbol'', VStr symbol), (''tokenAddress'', VStr (''0x'' @ symbol))]"

definition listed_rt :: runtime where
  "listed_rt = demo_rt\<lparr> ext_call := (\<lambda>h a m args. Inr (VList (map token_entry
     (if m = ''getAllATokens'' then [''aUSDC'', ''aDAI'', ''aWETH'', ''aAAVE''] else [''DAI'', ''USDC'', ''AAVE'', ''WETH''])))) \<rparr>"

lemma listed_initializes: "\<not> isl (fst (initializeMakeSuite listed_rt empty_testEnv []))"
  by code_simp


end
