(* ===== verification/NetworkConfig.thy ===== *)
theory NetworkConfig
  imports Etherscan Types
begin

text \<open>
  The configuration of hardhat, \<open>hardhat.config.ts\<close>, and its older form for buidler, \<open>buidler.config.ts\<close>: which
  tasks are loaded, the settings of the compiler and the plugins, and the networks, with the tables of \<open>helper-hardhat-config.ts\<close> (the node and the gas
  price of each network), \<open>buidler-constants.ts\<close> and \<open>test-wallets.js\<close>. The environment of the process is a
  function from names to values.
\<close>

section \<open>Tables\<close>

definition env_default :: "(string \<Rightarrow> string option) \<Rightarrow> string \<Rightarrow> string \<Rightarrow> string" where
  "env_default env name d = (if truthy (env name) then the (env name) else d)"

definition BUIDLEREVM_CHAINID :: int where "BUIDLEREVM_CHAINID = 31337"

definition COVERAGE_CHAINID :: int where "COVERAGE_CHAINID = 1337"

definition GWEI :: int where "GWEI = 1000 * 1000 * 1000"

definition infura_or_alchemy :: "(string \<Rightarrow> string option) \<Rightarrow> string \<Rightarrow> string \<Rightarrow> string" where
  "infura_or_alchemy env alchemy infura =
     (let key = env_default env ''ALCHEMY_KEY'' [] in
      if key \<noteq> [] then ''https://'' @ alchemy @ ''.alchemyapi.io/v2/'' @ key
      else ''https://'' @ infura @ ''.infura.io/v3/'' @ env_default env ''INFURA_KEY'' [])"

definition NETWORKS_RPC_URL :: "(string \<Rightarrow> string option) \<Rightarrow> string js_obj" where
  "NETWORKS_RPC_URL env =
    [(eth_network Eth_kovan, infura_or_alchemy env ''eth-kovan'' ''kovan''),
     (eth_network Eth_ropsten, infura_or_alchemy env ''eth-ropsten'' ''ropsten''),
     (eth_network Eth_main, infura_or_alchemy env ''eth-mainnet'' ''mainnet''),
     (eth_network Eth_coverage, ''http://localhost:8555''),
     (eth_network Eth_hardhat, ''http://localhost:8545''),
     (eth_network Eth_buidlerevm, ''http://localhost:8545''),
     (eth_network Eth_tenderlyMain, ''https://rpc.tenderly.co/fork/'' @ env_default env ''TENDERLY_FORK_ID'' []),
     (celo_network Celo_celo, ''https://forno.celo.org''),
     (celo_network Celo_alfajores, ''https://alfajores-forno.celo-testnet.org''),
     (polygon_network Polygon_mumbai, ''https://rpc-mumbai.maticvigil.com''),
     (polygon_network Polygon_matic, ''https://rpc-mainnet.matic.network''),
     (xdai_network XDai_xdai, ''https://rpc.xdaichain.com/'')]"

text \<open>\<open>0.01 * GWEI\<close> and \<open>0.51 * GWEI\<close> are integers.\<close>

definition NETWORKS_DEFAULT_GAS :: "int js_obj" where
  "NETWORKS_DEFAULT_GAS =
    [(eth_network Eth_kovan, 65 * GWEI), (eth_network Eth_ropsten, 65 * GWEI), (eth_network Eth_main, 65 * GWEI),
     (eth_network Eth_coverage, 65 * GWEI), (eth_network Eth_hardhat, 65 * GWEI), (eth_network Eth_buidlerevm, 65 * GWEI),
     (eth_network Eth_tenderlyMain, 1 * GWEI div 100), (celo_network Celo_celo, 51 * GWEI div 100),
     (celo_network Celo_alfajores, 51 * GWEI div 100), (polygon_network Polygon_mumbai, 1 * GWEI),
     (polygon_network Polygon_matic, 2 * GWEI), (xdai_network XDai_xdai, 1 * GWEI)]"

section \<open>Accounts\<close>

datatype net_accounts =
    NoAccounts
  | Mnemonic string string nat nat
  | PrivateKeys "(string \<times> string) list"

definition wallet_balance :: string where "wallet_balance = ''1000000000000000000000000''"

definition test_wallets :: "(string \<times> string) list" where
  "test_wallets = map (\<lambda>secretKey. (secretKey, wallet_balance))
    [''0xc5e8f61d1ab959b397eecc0a37a6517b8e67a0e7cf1f4bce5591f3ed80199122'',
     ''0xd49743deccbccc5dc7baa8e69e5be03298da8688a15dd202e20f15d5e0e9a9fb'',
     ''0x23c601ae397441f3ef6f1075dcb0031ff17fb079837beadaf3c84d96c6f3e569'',
     ''0xee9d129c1997549ee09c0757af5939b2483d80ad649a0eda68e8b0357ad11131'',
     ''0x87630b2d1de0fbd5044eb6891b3d9d98c34c8d310c852f98550ba774480e47cc'',
     ''0x275cc4a2bfd4f612625204a20a2280ab53a6da2d14860c47a9f5affe58ad86d4'',
     ''0xaee25d55ce586148a853ca83fdfacaf7bc42d5762c6e7187e6f8e822d8e6a650'',
     ''0xa2e0097c961c67ec197b6865d7ecea6caffc68ebeb00e6050368c8f67fc9c588'']"

section \<open>Networks\<close>

text \<open>\<open>forking\<close> is the block and the node of the fork.\<close>

record net_config =
  n_url :: "string option"
  n_hardfork :: "string option"
  n_blockGasLimit :: "int option"
  n_gas :: "int option"
  n_gasMultiplier :: "int option"
  n_gasPrice :: "int option"
  n_chainId :: "int option"
  n_throwOnTransactionFailures :: bool
  n_throwOnCallFailures :: bool
  n_accounts :: net_accounts
  n_forking :: "(int \<times> string option) option"

definition blank_network :: net_config where
  "blank_network = \<lparr> n_url = None, n_hardfork = None, n_blockGasLimit = None, n_gas = None, n_gasMultiplier = None,
     n_gasPrice = None, n_chainId = None, n_throwOnTransactionFailures = False, n_throwOnCallFailures = False,
     n_accounts = NoAccounts, n_forking = None \<rparr>"

definition DEFAULT_BLOCK_GAS_LIMIT :: int where "DEFAULT_BLOCK_GAS_LIMIT = 12450000"

definition DEFAULT_GAS_MUL :: int where "DEFAULT_GAS_MUL = 5"

definition HARDFORK :: string where "HARDFORK = ''istanbul''"

definition MNEMONIC_PATH :: "(string \<Rightarrow> string option) \<Rightarrow> string" where
  "MNEMONIC_PATH env = env_default env ''MNEMONIC_PATH'' (''m/44'' @ [CHR 0x27] @ ''/60'' @ [CHR 0x27] @ ''/0'' @ [CHR 0x27] @ ''/0'')"

definition getCommonNetworkConfig :: "(string \<Rightarrow> string option) \<Rightarrow> string \<Rightarrow> int \<Rightarrow> net_config" where
  "getCommonNetworkConfig env networkName networkId = blank_network\<lparr>
     n_url := obj_get (NETWORKS_RPC_URL env) networkName, n_hardfork := Some HARDFORK,
     n_blockGasLimit := Some DEFAULT_BLOCK_GAS_LIMIT, n_gasMultiplier := Some DEFAULT_GAS_MUL,
     n_gasPrice := obj_get NETWORKS_DEFAULT_GAS networkName, n_chainId := Some networkId,
     n_accounts := Mnemonic (env_default env ''MNEMONIC'' []) (MNEMONIC_PATH env) 0 20 \<rparr>"

definition mainnetFork :: "(string \<Rightarrow> string option) \<Rightarrow> (int \<times> string option) option" where
  "mainnetFork env = (if env ''MAINNET_FORK'' = Some ''true''
     then Some (11739065, obj_get (NETWORKS_RPC_URL env) ''main'') else None)"

definition common_networks :: "(string \<times> int) list" where
  "common_networks = [(eth_network Eth_kovan, 42), (eth_network Eth_ropsten, 3), (eth_network Eth_main, 1),
     (eth_network Eth_tenderlyMain, 3030), (celo_network Celo_celo, 42220), (celo_network Celo_alfajores, 44787),
     (polygon_network Polygon_matic, 137), (polygon_network Polygon_mumbai, 80001), (xdai_network XDai_xdai, 100)]"

definition hardhat_networks :: "(string \<Rightarrow> string option) \<Rightarrow> net_config js_obj" where
  "hardhat_networks env =
     [(''coverage'', blank_network\<lparr>n_url := Some ''http://localhost:8555'', n_chainId := Some COVERAGE_CHAINID\<rparr>)]
     @ map (\<lambda>(name, chainId). (name, getCommonNetworkConfig env name chainId)) common_networks
     @ [(''hardhat'', blank_network\<lparr>n_hardfork := Some ''istanbul'', n_blockGasLimit := Some DEFAULT_BLOCK_GAS_LIMIT,
           n_gas := Some DEFAULT_BLOCK_GAS_LIMIT, n_gasPrice := Some 8000000000, n_chainId := Some BUIDLEREVM_CHAINID,
           n_throwOnTransactionFailures := True, n_throwOnCallFailures := True, n_accounts := PrivateKeys test_wallets,
           n_forking := mainnetFork env\<rparr>),
        (''buidlerevm_docker'', blank_network\<lparr>n_hardfork := Some ''istanbul'', n_blockGasLimit := Some 9500000,
           n_gas := Some 9500000, n_gasPrice := Some 8000000000, n_chainId := Some BUIDLEREVM_CHAINID,
           n_throwOnTransactionFailures := True, n_throwOnCallFailures := True, n_url := Some ''http://localhost:8545''\<rparr>),
        (''ganache'', blank_network\<lparr>n_url := Some ''http://ganache:8545'',
           n_accounts := Mnemonic ''fox sight canyon orphan hotel grow hedgehog build bless august weather swarm''
             (''m/44'' @ [CHR 0x27] @ ''/60'' @ [CHR 0x27] @ ''/0'' @ [CHR 0x27] @ ''/0'') 0 20\<rparr>)]"

section \<open>Tasks and tools\<close>

text \<open>
  The files that the configuration requires, in their order: those of the task folders, unless \<open>SKIP_LOAD\<close>
  is \<open>true\<close>, and then \<open>set-bre.ts\<close>. \<open>readdir\<close> stands for \<open>fs.readdirSync\<close>, the paths are relative to the
  repository.
\<close>

definition task_folders :: "string list" where
  "task_folders = [''misc'', ''migrations'', ''dev'', ''full'', ''verifications'', ''deployments'', ''helpers'']"

definition folder_tasks :: "(string \<Rightarrow> string list) \<Rightarrow> string \<Rightarrow> string list" where
  "folder_tasks readdir folder =
     (let tasksPath = ''tasks/'' @ folder in
      map (\<lambda>task. tasksPath @ ''/'' @ task) (filter (\<lambda>pth. str_includes pth ''.ts'') (readdir tasksPath)))"

definition required_files :: "(string \<Rightarrow> string option) \<Rightarrow> (string \<Rightarrow> string list) \<Rightarrow> string list" where
  "required_files env readdir =
     (if env ''SKIP_LOAD'' = Some ''true'' then [] else concat (map (folder_tasks readdir) task_folders))
     @ [''tasks/misc/set-bre.ts'']"

record tool_settings =
  ts_version :: string
  ts_optimizer :: "bool \<times> nat"
  ts_evmVersion :: string
  ts_useLiteralContent :: "bool option"
  ts_outputSelection :: "string list js_obj js_obj"
  ts_typechain :: "string \<times> string"
  ts_etherscan_apiKey :: string
  ts_mocha_timeout :: nat
  ts_tenderly :: "(string \<times> string \<times> string) option"
  ts_defaultNetwork :: "string option"

definition hardhat_tools :: "(string \<Rightarrow> string option) \<Rightarrow> tool_settings" where
  "hardhat_tools env = \<lparr> ts_version = ''0.6.12'', ts_optimizer = (True, 200), ts_evmVersion = ''istanbul'',
     ts_useLiteralContent = Some True,
     ts_outputSelection = [(''*'',
       [(''*'', [''abi'', ''evm.bytecode'', ''evm.deployedBytecode'', ''evm.methodIdentifiers'', ''metadata'']),
        ([], [''ast''])])],
     ts_typechain = (''types'', ''ethers-v5''), ts_etherscan_apiKey = env_default env ''ETHERSCAN_KEY'' [],
     ts_mocha_timeout = 0,
     ts_tenderly = Some (env_default env ''TENDERLY_PROJECT'' [], env_default env ''TENDERLY_USERNAME'' [], ''1''),
     ts_defaultNetwork = None \<rparr>"

definition buidler_tools :: "(string \<Rightarrow> string option) \<Rightarrow> tool_settings" where
  "buidler_tools env = \<lparr> ts_version = ''0.6.12'', ts_optimizer = (True, 200), ts_evmVersion = ''istanbul'',
     ts_useLiteralContent = None, ts_outputSelection = [], ts_typechain = (''types'', ''ethers-v4''),
     ts_etherscan_apiKey = env_default env ''ETHERSCAN_KEY'' [], ts_mocha_timeout = 0, ts_tenderly = None,
     ts_defaultNetwork = Some ''buidlerevm'' \<rparr>"

section \<open>The networks of buidler\<close>

definition DEFAULT_GAS_PRICE :: int where "DEFAULT_GAS_PRICE = 10"

definition default_path :: string where
  "default_path = ''m/44'' @ [CHR 0x27] @ ''/60'' @ [CHR 0x27] @ ''/0'' @ [CHR 0x27] @ ''/0''"

definition buidlerCommonNetworkConfig :: "(string \<Rightarrow> string option) \<Rightarrow> string \<Rightarrow> int \<Rightarrow> net_config" where
  "buidlerCommonNetworkConfig env networkName networkId = blank_network\<lparr>
     n_url := Some (''https://'' @ networkName @ ''.infura.io/v3/'' @ env_default env ''INFURA_KEY'' []),
     n_hardfork := Some HARDFORK, n_blockGasLimit := Some DEFAULT_BLOCK_GAS_LIMIT,
     n_gasMultiplier := Some DEFAULT_GAS_PRICE, n_chainId := Some networkId,
     n_accounts := Mnemonic (env_default env ''MNEMONIC'' []) default_path 0 20 \<rparr>"

definition buidler_networks :: "(string \<Rightarrow> string option) \<Rightarrow> net_config js_obj" where
  "buidler_networks env =
     [(''coverage'', blank_network\<lparr>n_url := Some ''http://localhost:8555'', n_chainId := Some COVERAGE_CHAINID\<rparr>),
      (''kovan'', buidlerCommonNetworkConfig env (eth_network Eth_kovan) 42),
      (''ropsten'', buidlerCommonNetworkConfig env (eth_network Eth_ropsten) 3),
      (''main'', buidlerCommonNetworkConfig env (eth_network Eth_main) 1),
      (''buidlerevm'', blank_network\<lparr>n_hardfork := Some ''istanbul'', n_blockGasLimit := Some DEFAULT_BLOCK_GAS_LIMIT,
         n_gas := Some DEFAULT_BLOCK_GAS_LIMIT, n_gasPrice := Some 8000000000, n_chainId := Some BUIDLEREVM_CHAINID,
         n_throwOnTransactionFailures := True, n_throwOnCallFailures := True, n_accounts := PrivateKeys test_wallets\<rparr>),
      (''buidlerevm_docker'', blank_network\<lparr>n_hardfork := Some ''istanbul'', n_blockGasLimit := Some 9500000,
         n_gas := Some 9500000, n_gasPrice := Some 8000000000, n_chainId := Some BUIDLEREVM_CHAINID,
         n_throwOnTransactionFailures := True, n_throwOnCallFailures := True, n_url := Some ''http://localhost:8545''\<rparr>),
      (''ganache'', blank_network\<lparr>n_url := Some ''http://ganache:8545'',
         n_accounts := Mnemonic ''fox sight canyon orphan hotel grow hedgehog build bless august weather swarm''
           default_path 0 20\<rparr>)]"

section \<open>What the tables have\<close>

text \<open>
  Every network that is configured by name has a node and a gas price, each its own chain id, and so have
  the networks on which contracts are verified; the names are distinct.
\<close>

lemma networks_configured:
  "(\<forall>(name, chainId) \<in> set common_networks. \<exists>url price. url \<noteq> [] \<and> 0 < price
      \<and> n_url (getCommonNetworkConfig env name chainId) = Some url
      \<and> n_gasPrice (getCommonNetworkConfig env name chainId) = Some price)
    \<and> distinct (map snd common_networks) \<and> distinct (obj_keys (hardhat_networks env))
    \<and> set SUPPORTED_ETHERSCAN_NETWORKS \<subseteq> fst ` set common_networks"
  by (simp add: common_networks_def getCommonNetworkConfig_def NETWORKS_RPC_URL_def NETWORKS_DEFAULT_GAS_def obj_get_def
      infura_or_alchemy_def Let_def GWEI_def hardhat_networks_def obj_keys_def SUPPORTED_ETHERSCAN_NETWORKS_def)

text \<open>
  The two configurations agree on the local networks they share and on the chain ids of the public ones;
  their urls for Ethereum's main network differ, \<open>mainnet\<close> against the name of the network, \<open>main\<close>.
\<close>

lemma buidler_agrees:
  assumes "env ''ALCHEMY_KEY'' = None"
  shows "(\<forall>name \<in> {''coverage'', ''buidlerevm_docker'', ''ganache''}.
      obj_get (buidler_networks env) name = obj_get (hardhat_networks env) name)
    \<and> (\<forall>name \<in> {''kovan'', ''ropsten'', ''main''}.
      map_option n_chainId (obj_get (buidler_networks env) name) = map_option n_chainId (obj_get (hardhat_networks env) name))
    \<and> map_option n_url (obj_get (buidler_networks env) ''kovan'') = map_option n_url (obj_get (hardhat_networks env) ''kovan'')
    \<and> map_option n_url (obj_get (buidler_networks env) ''main'') \<noteq> map_option n_url (obj_get (hardhat_networks env) ''main'')"
  using assms
  by (simp add: buidler_networks_def hardhat_networks_def obj_get_def common_networks_def getCommonNetworkConfig_def
      buidlerCommonNetworkConfig_def NETWORKS_RPC_URL_def infura_or_alchemy_def Let_def default_path_def env_default_def
      truthy_def blank_network_def)

text \<open>Without the tasks, before the types are generated, only \<open>set-bre.ts\<close> is loaded.\<close>

lemma skip_load: "env ''SKIP_LOAD'' = Some ''true'' \<Longrightarrow> required_files env readdir = [''tasks/misc/set-bre.ts'']"
  by (simp add: required_files_def)

end
