(* ===== verification/Reverts.thy ===== *)
theory Reverts
  imports InterestContracts Types
begin

text \<open>
  Calls of the contracts: a result, or a revert with its reason. The reasons are the names of the constants
  in \<open>Errors.sol\<close>; a revert of the
  arithmetic libraries and a failed conversion or index are \<open>Arithmetic\<close>. A reverted call
  leaves the state as it was, so that it has none in its result.
\<close>

section \<open>The monad\<close>

datatype revert = Reason string | Arithmetic

type_synonym 'a call = "revert + 'a"

definition sol_do :: "'a call \<Rightarrow> ('a \<Rightarrow> 'b call) \<Rightarrow> 'b call" where
  "sol_do m f = (case m of Inl e \<Rightarrow> Inl e | Inr x \<Rightarrow> f x)"

definition sol_require :: "bool \<Rightarrow> string \<Rightarrow> 'a call \<Rightarrow> 'a call" where
  "sol_require c reason m = (if c then m else Inl (Reason reason))"

definition safe :: "'a option \<Rightarrow> 'a call" where
  "safe r = (case r of None \<Rightarrow> Inl Arithmetic | Some x \<Rightarrow> Inr x)"

lemma sol_do_simps [simp]: "sol_do (Inl e) f = Inl e" "sol_do (Inr x) f = f x"
  by (simp_all add: sol_do_def)

lemma safe_simps [simp]: "safe None = Inl Arithmetic" "safe (Some x) = Inr x"
  by (simp_all add: safe_def)

lemma sol_require_simps [simp]:
  "c \<Longrightarrow> sol_require c reason m = m" "\<not> c \<Longrightarrow> sol_require c reason m = Inl (Reason reason)"
  by (simp_all add: sol_require_def)

named_theorems call_simps "when a call succeeds"

lemma sol_do_Inr [call_simps]: "sol_do m f = Inr y \<longleftrightarrow> (\<exists>x. m = Inr x \<and> f x = Inr y)"
  by (cases m) simp_all

lemma sol_require_Inr [call_simps]: "sol_require c reason m = Inr y \<longleftrightarrow> c \<and> m = Inr y"
  by (simp add: sol_require_def)

lemma safe_Inr [call_simps]: "safe r = Inr x \<longleftrightarrow> r = Some x"
  by (cases r) simp_all

text \<open>The condition and the two branches of a conditional call.\<close>

lemma if_Inr [call_simps]: "(if c then m else n) = Inr y \<longleftrightarrow> (c \<and> m = Inr y) \<or> (\<not> c \<and> n = Inr y)"
  by simp

section \<open>Reasons\<close>

definition sol_Errors :: "string js_obj" where
  "sol_Errors =
    [(''CALLER_NOT_POOL_ADMIN'', ''33''),
     (''BORROW_ALLOWANCE_NOT_ENOUGH'', ''59''),
     (''VL_INVALID_AMOUNT'', ''1''),
     (''VL_NO_ACTIVE_RESERVE'', ''2''),
     (''VL_RESERVE_FROZEN'', ''3''),
     (''VL_CURRENT_AVAILABLE_LIQUIDITY_NOT_ENOUGH'', ''4''),
     (''VL_NOT_ENOUGH_AVAILABLE_USER_BALANCE'', ''5''),
     (''VL_TRANSFER_NOT_ALLOWED'', ''6''),
     (''VL_BORROWING_NOT_ENABLED'', ''7''),
     (''VL_INVALID_INTEREST_RATE_MODE_SELECTED'', ''8''),
     (''VL_COLLATERAL_BALANCE_IS_0'', ''9''),
     (''VL_HEALTH_FACTOR_LOWER_THAN_LIQUIDATION_THRESHOLD'', ''10''),
     (''VL_COLLATERAL_CANNOT_COVER_NEW_BORROW'', ''11''),
     (''VL_STABLE_BORROWING_NOT_ENABLED'', ''12''),
     (''VL_COLLATERAL_SAME_AS_BORROWING_CURRENCY'', ''13''),
     (''VL_AMOUNT_BIGGER_THAN_MAX_LOAN_SIZE_STABLE'', ''14''),
     (''VL_NO_DEBT_OF_SELECTED_TYPE'', ''15''),
     (''VL_NO_EXPLICIT_AMOUNT_TO_REPAY_ON_BEHALF'', ''16''),
     (''VL_NO_STABLE_RATE_LOAN_IN_RESERVE'', ''17''),
     (''VL_NO_VARIABLE_RATE_LOAN_IN_RESERVE'', ''18''),
     (''VL_UNDERLYING_BALANCE_NOT_GREATER_THAN_0'', ''19''),
     (''VL_DEPOSIT_ALREADY_IN_USE'', ''20''),
     (''LP_NOT_ENOUGH_STABLE_BORROW_BALANCE'', ''21''),
     (''LP_INTEREST_RATE_REBALANCE_CONDITIONS_NOT_MET'', ''22''),
     (''LP_LIQUIDATION_CALL_FAILED'', ''23''),
     (''LP_NOT_ENOUGH_LIQUIDITY_TO_BORROW'', ''24''),
     (''LP_REQUESTED_AMOUNT_TOO_SMALL'', ''25''),
     (''LP_INCONSISTENT_PROTOCOL_ACTUAL_BALANCE'', ''26''),
     (''LP_CALLER_NOT_LENDING_POOL_CONFIGURATOR'', ''27''),
     (''LP_INCONSISTENT_FLASHLOAN_PARAMS'', ''28''),
     (''CT_CALLER_MUST_BE_LENDING_POOL'', ''29''),
     (''CT_CANNOT_GIVE_ALLOWANCE_TO_HIMSELF'', ''30''),
     (''CT_TRANSFER_AMOUNT_NOT_GT_0'', ''31''),
     (''RL_RESERVE_ALREADY_INITIALIZED'', ''32''),
     (''LPC_RESERVE_LIQUIDITY_NOT_0'', ''34''),
     (''LPC_INVALID_ATOKEN_POOL_ADDRESS'', ''35''),
     (''LPC_INVALID_STABLE_DEBT_TOKEN_POOL_ADDRESS'', ''36''),
     (''LPC_INVALID_VARIABLE_DEBT_TOKEN_POOL_ADDRESS'', ''37''),
     (''LPC_INVALID_STABLE_DEBT_TOKEN_UNDERLYING_ADDRESS'', ''38''),
     (''LPC_INVALID_VARIABLE_DEBT_TOKEN_UNDERLYING_ADDRESS'', ''39''),
     (''LPC_INVALID_ADDRESSES_PROVIDER_ID'', ''40''),
     (''LPC_INVALID_CONFIGURATION'', ''75''),
     (''LPC_CALLER_NOT_EMERGENCY_ADMIN'', ''76''),
     (''LPAPR_PROVIDER_NOT_REGISTERED'', ''41''),
     (''LPCM_HEALTH_FACTOR_NOT_BELOW_THRESHOLD'', ''42''),
     (''LPCM_COLLATERAL_CANNOT_BE_LIQUIDATED'', ''43''),
     (''LPCM_SPECIFIED_CURRENCY_NOT_BORROWED_BY_USER'', ''44''),
     (''LPCM_NOT_ENOUGH_LIQUIDITY_TO_LIQUIDATE'', ''45''),
     (''LPCM_NO_ERRORS'', ''46''),
     (''LP_INVALID_FLASHLOAN_MODE'', ''47''),
     (''MATH_MULTIPLICATION_OVERFLOW'', ''48''),
     (''MATH_ADDITION_OVERFLOW'', ''49''),
     (''MATH_DIVISION_BY_ZERO'', ''50''),
     (''RL_LIQUIDITY_INDEX_OVERFLOW'', ''51''),
     (''RL_VARIABLE_BORROW_INDEX_OVERFLOW'', ''52''),
     (''RL_LIQUIDITY_RATE_OVERFLOW'', ''53''),
     (''RL_VARIABLE_BORROW_RATE_OVERFLOW'', ''54''),
     (''RL_STABLE_BORROW_RATE_OVERFLOW'', ''55''),
     (''CT_INVALID_MINT_AMOUNT'', ''56''),
     (''LP_FAILED_REPAY_WITH_COLLATERAL'', ''57''),
     (''CT_INVALID_BURN_AMOUNT'', ''58''),
     (''LP_FAILED_COLLATERAL_SWAP'', ''60''),
     (''LP_INVALID_EQUAL_ASSETS_TO_SWAP'', ''61''),
     (''LP_REENTRANCY_NOT_ALLOWED'', ''62''),
     (''LP_CALLER_MUST_BE_AN_ATOKEN'', ''63''),
     (''LP_IS_PAUSED'', ''64''),
     (''LP_NO_MORE_RESERVES_ALLOWED'', ''65''),
     (''LP_INVALID_FLASH_LOAN_EXECUTOR_RETURN'', ''66''),
     (''RC_INVALID_LTV'', ''67''),
     (''RC_INVALID_LIQ_THRESHOLD'', ''68''),
     (''RC_INVALID_LIQ_BONUS'', ''69''),
     (''RC_INVALID_DECIMALS'', ''70''),
     (''RC_INVALID_RESERVE_FACTOR'', ''71''),
     (''LPAPR_INVALID_ADDRESSES_PROVIDER_ID'', ''72''),
     (''VL_INCONSISTENT_FLASHLOAN_PARAMS'', ''73''),
     (''LP_INCONSISTENT_PARAMS_LENGTH'', ''74''),
     (''UL_INVALID_INDEX'', ''77''),
     (''LP_NOT_CONTRACT'', ''78''),
     (''SDT_STABLE_DEBT_OVERFLOW'', ''79''),
     (''SDT_BURN_EXCEEDS_BALANCE'', ''80'')]"

text \<open>Every reason has a code of its own.\<close>

lemma error_codes_distinct: "distinct (map snd sol_Errors)"
  by (simp add: sol_Errors_def)

end
