(* ===== verification/Bitmaps.thy ===== *)
theory Bitmaps
  imports Reverts
begin

unbundle bit_operations_syntax

text \<open>
  The packed words of the pool: \<open>ReserveConfiguration.sol\<close>, the parameters of a reserve in one word, and
  \<open>UserConfiguration.sol\<close>, two bits per reserve for every user. The setters return the new word.
\<close>

section \<open>Fields of a word\<close>

definition put_field :: "u256 \<Rightarrow> nat \<Rightarrow> u256 \<Rightarrow> u256 \<Rightarrow> u256" where
  "put_field hole pos v d = d AND hole OR push_bit pos v"

definition get_field :: "u256 \<Rightarrow> nat \<Rightarrow> u256 \<Rightarrow> u256" where
  "get_field hole pos d = drop_bit pos (d AND NOT hole)"

text \<open>A field of \<open>width\<close> bits from \<open>pos\<close>; its mask has zeros where the field is.\<close>

locale bit_field =
  fixes hole :: u256 and pos width :: nat
  assumes hole_bits: "bit hole n \<longleftrightarrow> n < 256 \<and> \<not> (pos \<le> n \<and> n < pos + width)"
    and fits: "pos + width \<le> 256"
begin

lemma get_put:
  assumes "take_bit width v = v"
  shows "get_field hole pos (put_field hole pos v d) = v"
proof (rule bit_word_eqI)
  fix n :: nat assume "n < LENGTH(256)"
  have "bit v n \<longleftrightarrow> n < width \<and> bit v n" by (subst assms [symmetric]) (simp add: bit_simps)
  then show "bit (get_field hole pos (put_field hole pos v d)) n = bit v n"
    using fits by (auto simp: get_field_def put_field_def bit_simps hole_bits)
qed

lemma get_put_other:
  assumes "take_bit width v = v" and "\<And>n. pos \<le> n \<Longrightarrow> n < pos + width \<Longrightarrow> bit other n"
  shows "get_field other p (put_field hole pos v d) = get_field other p d"
proof -
  have "bit v k \<Longrightarrow> k < width" for k using assms(1) by (metis bit_take_bit_iff)
  then have "bit (put_field hole pos v d AND NOT other) n = bit (d AND NOT other) n" for n
    using assms(2) [of n] by (auto simp: put_field_def bit_simps hole_bits)
      (metis add.commute le_add_diff_inverse nat_add_left_cancel_less)
  then have "put_field hole pos v d AND NOT other = d AND NOT other" by (rule bit_eqI)
  then show ?thesis by (simp only: get_field_def)
qed

lemma field_bound: "take_bit width (get_field hole pos d) = get_field hole pos d"
  by (rule bit_word_eqI) (auto simp: get_field_def bit_simps hole_bits)

lemma field_zero: "d AND NOT hole = 0 \<longleftrightarrow> get_field hole pos d = 0"
proof
  assume z: "get_field hole pos d = 0"
  have "\<not> bit (d AND NOT hole) n" for n
    using arg_cong [OF z, of "\<lambda>w. bit w (n - pos)"] by (auto simp: get_field_def bit_simps hole_bits)
  then show "d AND NOT hole = 0" by (simp add: bit_eq_iff)
qed (simp add: get_field_def)

end

lemma bit_hole:
  "p + w \<le> 256 \<Longrightarrow> bit (NOT (push_bit p (mask w)) :: u256) n \<longleftrightarrow> n < 256 \<and> \<not> (p \<le> n \<and> n < p + w)"
  by (auto simp: bit_simps)

section \<open>The masks of a reserve\<close>

definition LTV_MASK :: u256 where
  "LTV_MASK = 0xFFFFFFFFFFFFFFFFFFFFFFFFFFFFFFFFFFFFFFFFFFFFFFFFFFFFFFFFFFFF0000"

definition LIQUIDATION_THRESHOLD_MASK :: u256 where
  "LIQUIDATION_THRESHOLD_MASK = 0xFFFFFFFFFFFFFFFFFFFFFFFFFFFFFFFFFFFFFFFFFFFFFFFFFFFFFFFF0000FFFF"

definition LIQUIDATION_BONUS_MASK :: u256 where
  "LIQUIDATION_BONUS_MASK = 0xFFFFFFFFFFFFFFFFFFFFFFFFFFFFFFFFFFFFFFFFFFFFFFFFFFFF0000FFFFFFFF"

definition DECIMALS_MASK :: u256 where
  "DECIMALS_MASK = 0xFFFFFFFFFFFFFFFFFFFFFFFFFFFFFFFFFFFFFFFFFFFFFFFFFF00FFFFFFFFFFFF"

definition ACTIVE_MASK :: u256 where
  "ACTIVE_MASK = 0xFFFFFFFFFFFFFFFFFFFFFFFFFFFFFFFFFFFFFFFFFFFFFFFFFEFFFFFFFFFFFFFF"

definition FROZEN_MASK :: u256 where
  "FROZEN_MASK = 0xFFFFFFFFFFFFFFFFFFFFFFFFFFFFFFFFFFFFFFFFFFFFFFFFFDFFFFFFFFFFFFFF"

definition BORROWING_MASK :: u256 where
  "BORROWING_MASK = 0xFFFFFFFFFFFFFFFFFFFFFFFFFFFFFFFFFFFFFFFFFFFFFFFFFBFFFFFFFFFFFFFF"

definition STABLE_BORROWING_MASK :: u256 where
  "STABLE_BORROWING_MASK = 0xFFFFFFFFFFFFFFFFFFFFFFFFFFFFFFFFFFFFFFFFFFFFFFFFF7FFFFFFFFFFFFFF"

definition RESERVE_FACTOR_MASK :: u256 where
  "RESERVE_FACTOR_MASK = 0xFFFFFFFFFFFFFFFFFFFFFFFFFFFFFFFFFFFFFFFFFFFF0000FFFFFFFFFFFFFFFF"

lemmas mask_defs = LTV_MASK_def LIQUIDATION_THRESHOLD_MASK_def LIQUIDATION_BONUS_MASK_def DECIMALS_MASK_def ACTIVE_MASK_def FROZEN_MASK_def BORROWING_MASK_def STABLE_BORROWING_MASK_def RESERVE_FACTOR_MASK_def

lemma mask_eqs:
"LTV_MASK = NOT (push_bit 0 (mask 16))"
  "LIQUIDATION_THRESHOLD_MASK = NOT (push_bit 16 (mask 16))"
  "LIQUIDATION_BONUS_MASK = NOT (push_bit 32 (mask 16))"
  "DECIMALS_MASK = NOT (push_bit 48 (mask 8))"
  "ACTIVE_MASK = NOT (push_bit 56 (mask 1))"
  "FROZEN_MASK = NOT (push_bit 57 (mask 1))"
  "BORROWING_MASK = NOT (push_bit 58 (mask 1))"
  "STABLE_BORROWING_MASK = NOT (push_bit 59 (mask 1))"
  "RESERVE_FACTOR_MASK = NOT (push_bit 64 (mask 16))"
  by (simp_all add: mask_defs mask_eq_exp_minus_1)

section \<open>Setters and getters\<close>

definition setLtv :: "u256 \<Rightarrow> u256 \<Rightarrow> u256 call" where
  "setLtv d v = sol_require (v \<le> 65535) ''RC_INVALID_LTV'' (Inr (d AND LTV_MASK OR v))"

definition getLtv :: "u256 \<Rightarrow> u256" where
  "getLtv d = d AND NOT LTV_MASK"

definition setLiquidationThreshold :: "u256 \<Rightarrow> u256 \<Rightarrow> u256 call" where
  "setLiquidationThreshold d v = sol_require (v \<le> 65535) ''RC_INVALID_LIQ_THRESHOLD'' (Inr (d AND LIQUIDATION_THRESHOLD_MASK OR push_bit 16 v))"

definition getLiquidationThreshold :: "u256 \<Rightarrow> u256" where
  "getLiquidationThreshold d = drop_bit 16 (d AND NOT LIQUIDATION_THRESHOLD_MASK)"

definition setLiquidationBonus :: "u256 \<Rightarrow> u256 \<Rightarrow> u256 call" where
  "setLiquidationBonus d v = sol_require (v \<le> 65535) ''RC_INVALID_LIQ_BONUS'' (Inr (d AND LIQUIDATION_BONUS_MASK OR push_bit 32 v))"

definition getLiquidationBonus :: "u256 \<Rightarrow> u256" where
  "getLiquidationBonus d = drop_bit 32 (d AND NOT LIQUIDATION_BONUS_MASK)"

definition setDecimals :: "u256 \<Rightarrow> u256 \<Rightarrow> u256 call" where
  "setDecimals d v = sol_require (v \<le> 255) ''RC_INVALID_DECIMALS'' (Inr (d AND DECIMALS_MASK OR push_bit 48 v))"

definition getDecimals :: "u256 \<Rightarrow> u256" where
  "getDecimals d = drop_bit 48 (d AND NOT DECIMALS_MASK)"

definition setReserveFactor :: "u256 \<Rightarrow> u256 \<Rightarrow> u256 call" where
  "setReserveFactor d v = sol_require (v \<le> 65535) ''RC_INVALID_RESERVE_FACTOR'' (Inr (d AND RESERVE_FACTOR_MASK OR push_bit 64 v))"

definition getReserveFactor :: "u256 \<Rightarrow> u256" where
  "getReserveFactor d = drop_bit 64 (d AND NOT RESERVE_FACTOR_MASK)"

definition setActive :: "u256 \<Rightarrow> bool \<Rightarrow> u256" where
  "setActive d b = d AND ACTIVE_MASK OR push_bit 56 (if b then 1 else 0)"

definition getActive :: "u256 \<Rightarrow> bool" where
  "getActive d \<longleftrightarrow> d AND NOT ACTIVE_MASK \<noteq> 0"

definition setFrozen :: "u256 \<Rightarrow> bool \<Rightarrow> u256" where
  "setFrozen d b = d AND FROZEN_MASK OR push_bit 57 (if b then 1 else 0)"

definition getFrozen :: "u256 \<Rightarrow> bool" where
  "getFrozen d \<longleftrightarrow> d AND NOT FROZEN_MASK \<noteq> 0"

definition setBorrowingEnabled :: "u256 \<Rightarrow> bool \<Rightarrow> u256" where
  "setBorrowingEnabled d b = d AND BORROWING_MASK OR push_bit 58 (if b then 1 else 0)"

definition getBorrowingEnabled :: "u256 \<Rightarrow> bool" where
  "getBorrowingEnabled d \<longleftrightarrow> d AND NOT BORROWING_MASK \<noteq> 0"

definition setStableRateBorrowingEnabled :: "u256 \<Rightarrow> bool \<Rightarrow> u256" where
  "setStableRateBorrowingEnabled d b = d AND STABLE_BORROWING_MASK OR push_bit 59 (if b then 1 else 0)"

definition getStableRateBorrowingEnabled :: "u256 \<Rightarrow> bool" where
  "getStableRateBorrowingEnabled d \<longleftrightarrow> d AND NOT STABLE_BORROWING_MASK \<noteq> 0"

text \<open>\<open>getFlags\<close> and \<open>getParams\<close>, also in their versions for memory.\<close>

definition getFlags :: "u256 \<Rightarrow> bool \<times> bool \<times> bool \<times> bool" where
  "getFlags d = (getActive d, getFrozen d, getBorrowingEnabled d, getStableRateBorrowingEnabled d)"

definition getParams :: "u256 \<Rightarrow> u256 \<times> u256 \<times> u256 \<times> u256 \<times> u256" where
  "getParams d = (getLtv d, getLiquidationThreshold d, getLiquidationBonus d, getDecimals d, getReserveFactor d)"

section \<open>The word as a record\<close>

record reserve_params =
  p_ltv :: u256
  p_threshold :: u256
  p_bonus :: u256
  p_decimals :: u256
  p_factor :: u256
  p_active :: bool
  p_frozen :: bool
  p_borrowing :: bool
  p_stable :: bool

definition decode :: "u256 \<Rightarrow> reserve_params" where
  "decode d = \<lparr> p_ltv = getLtv d, p_threshold = getLiquidationThreshold d, p_bonus = getLiquidationBonus d, p_decimals = getDecimals d, p_factor = getReserveFactor d,
     p_active = getActive d, p_frozen = getFrozen d, p_borrowing = getBorrowingEnabled d, p_stable = getStableRateBorrowingEnabled d \<rparr>"

interpretation ltv_field: bit_field LTV_MASK 0 16
  unfolding mask_eqs by unfold_locales ((rule bit_hole, simp) | simp)+

interpretation threshold_field: bit_field LIQUIDATION_THRESHOLD_MASK 16 16
  unfolding mask_eqs by unfold_locales ((rule bit_hole, simp) | simp)+

interpretation bonus_field: bit_field LIQUIDATION_BONUS_MASK 32 16
  unfolding mask_eqs by unfold_locales ((rule bit_hole, simp) | simp)+

interpretation decimals_field: bit_field DECIMALS_MASK 48 8
  unfolding mask_eqs by unfold_locales ((rule bit_hole, simp) | simp)+

interpretation factor_field: bit_field RESERVE_FACTOR_MASK 64 16
  unfolding mask_eqs by unfold_locales ((rule bit_hole, simp) | simp)+

interpretation active_field: bit_field ACTIVE_MASK 56 1
  unfolding mask_eqs by unfold_locales ((rule bit_hole, simp) | simp)+

interpretation frozen_field: bit_field FROZEN_MASK 57 1
  unfolding mask_eqs by unfold_locales ((rule bit_hole, simp) | simp)+

interpretation borrowing_field: bit_field BORROWING_MASK 58 1
  unfolding mask_eqs by unfold_locales ((rule bit_hole, simp) | simp)+

interpretation stable_field: bit_field STABLE_BORROWING_MASK 59 1
  unfolding mask_eqs by unfold_locales ((rule bit_hole, simp) | simp)+

lemmas field_bits = ltv_field.hole_bits threshold_field.hole_bits bonus_field.hole_bits decimals_field.hole_bits factor_field.hole_bits active_field.hole_bits frozen_field.hole_bits borrowing_field.hole_bits stable_field.hole_bits

lemmas field_puts = ltv_field.get_put ltv_field.get_put_other
  threshold_field.get_put threshold_field.get_put_other
  bonus_field.get_put bonus_field.get_put_other
  decimals_field.get_put decimals_field.get_put_other
  factor_field.get_put factor_field.get_put_other
  active_field.get_put active_field.get_put_other
  frozen_field.get_put frozen_field.get_put_other
  borrowing_field.get_put borrowing_field.get_put_other
  stable_field.get_put stable_field.get_put_other

lemma getters:
  "getLtv d = get_field LTV_MASK 0 d"
  "getLiquidationThreshold d = get_field LIQUIDATION_THRESHOLD_MASK 16 d"
  "getLiquidationBonus d = get_field LIQUIDATION_BONUS_MASK 32 d"
  "getDecimals d = get_field DECIMALS_MASK 48 d"
  "getReserveFactor d = get_field RESERVE_FACTOR_MASK 64 d"
  "getActive d \<longleftrightarrow> get_field ACTIVE_MASK 56 d \<noteq> 0"
  "getFrozen d \<longleftrightarrow> get_field FROZEN_MASK 57 d \<noteq> 0"
  "getBorrowingEnabled d \<longleftrightarrow> get_field BORROWING_MASK 58 d \<noteq> 0"
  "getStableRateBorrowingEnabled d \<longleftrightarrow> get_field STABLE_BORROWING_MASK 59 d \<noteq> 0"
  by (simp_all only: getLtv_def getLiquidationThreshold_def getLiquidationBonus_def getDecimals_def getReserveFactor_def getActive_def getFrozen_def getBorrowingEnabled_def getStableRateBorrowingEnabled_def
      active_field.field_zero frozen_field.field_zero borrowing_field.field_zero stable_field.field_zero)
    (simp_all add: get_field_def)

lemma setters:
  "setLtv d v = Inr d' \<longleftrightarrow> v \<le> 65535 \<and> d' = put_field LTV_MASK 0 v d"
  "setLiquidationThreshold d v = Inr d' \<longleftrightarrow> v \<le> 65535 \<and> d' = put_field LIQUIDATION_THRESHOLD_MASK 16 v d"
  "setLiquidationBonus d v = Inr d' \<longleftrightarrow> v \<le> 65535 \<and> d' = put_field LIQUIDATION_BONUS_MASK 32 v d"
  "setDecimals d v = Inr d' \<longleftrightarrow> v \<le> 255 \<and> d' = put_field DECIMALS_MASK 48 v d"
  "setReserveFactor d v = Inr d' \<longleftrightarrow> v \<le> 65535 \<and> d' = put_field RESERVE_FACTOR_MASK 64 v d"
  "setActive d b = put_field ACTIVE_MASK 56 (if b then 1 else 0) d"
  "setFrozen d b = put_field FROZEN_MASK 57 (if b then 1 else 0) d"
  "setBorrowingEnabled d b = put_field BORROWING_MASK 58 (if b then 1 else 0) d"
  "setStableRateBorrowingEnabled d b = put_field STABLE_BORROWING_MASK 59 (if b then 1 else 0) d"
  by (auto simp: setLtv_def setLiquidationThreshold_def setLiquidationBonus_def setDecimals_def setReserveFactor_def setActive_def setFrozen_def setBorrowingEnabled_def setStableRateBorrowingEnabled_def call_simps put_field_def)

lemma small_word: "v \<le> 65535 \<Longrightarrow> take_bit 16 v = v" "v \<le> 255 \<Longrightarrow> take_bit 8 v = v"
  "take_bit 1 (if b then 1 else 0) = (if b then 1 else 0)" for v :: u256
  by (simp_all add: u256_eq_iff unsigned_take_bit_eq take_bit_nat_eq_self_iff word_le_nat_alt)

section \<open>Setting is updating the record\<close>

lemma decode_setLtv: "setLtv d v = Inr d' \<Longrightarrow> decode d' = (decode d)\<lparr>p_ltv := v\<rparr>"
  by (clarsimp simp: setters decode_def getters field_puts field_bits small_word)

lemma decode_setLiquidationThreshold: "setLiquidationThreshold d v = Inr d' \<Longrightarrow> decode d' = (decode d)\<lparr>p_threshold := v\<rparr>"
  by (clarsimp simp: setters decode_def getters field_puts field_bits small_word)

lemma decode_setLiquidationBonus: "setLiquidationBonus d v = Inr d' \<Longrightarrow> decode d' = (decode d)\<lparr>p_bonus := v\<rparr>"
  by (clarsimp simp: setters decode_def getters field_puts field_bits small_word)

lemma decode_setDecimals: "setDecimals d v = Inr d' \<Longrightarrow> decode d' = (decode d)\<lparr>p_decimals := v\<rparr>"
  by (clarsimp simp: setters decode_def getters field_puts field_bits small_word)

lemma decode_setReserveFactor: "setReserveFactor d v = Inr d' \<Longrightarrow> decode d' = (decode d)\<lparr>p_factor := v\<rparr>"
  by (clarsimp simp: setters decode_def getters field_puts field_bits small_word)

lemma decode_setActive: "decode (setActive d b) = (decode d)\<lparr>p_active := b\<rparr>"
  by (simp add: setters decode_def getters field_puts field_bits small_word)

lemma decode_setFrozen: "decode (setFrozen d b) = (decode d)\<lparr>p_frozen := b\<rparr>"
  by (simp add: setters decode_def getters field_puts field_bits small_word)

lemma decode_setBorrowingEnabled: "decode (setBorrowingEnabled d b) = (decode d)\<lparr>p_borrowing := b\<rparr>"
  by (simp add: setters decode_def getters field_puts field_bits small_word)

lemma decode_setStableRateBorrowingEnabled: "decode (setStableRateBorrowingEnabled d b) = (decode d)\<lparr>p_stable := b\<rparr>"
  by (simp add: setters decode_def getters field_puts field_bits small_word)

section \<open>The bits of a user\<close>

text \<open>Bit \<open>2 i\<close> tells whether the user borrows from the reserve \<open>i\<close>, bit \<open>2 i + 1\<close> whether it is collateral.\<close>

definition USER_BORROWING_MASK :: u256 where
  "USER_BORROWING_MASK = 0x5555555555555555555555555555555555555555555555555555555555555555"

definition setBorrowing :: "u256 \<Rightarrow> nat \<Rightarrow> bool \<Rightarrow> u256 call" where
  "setBorrowing d reserveIndex borrowing = sol_require (reserveIndex < 128) ''UL_INVALID_INDEX''
     (Inr (d AND NOT (push_bit (reserveIndex * 2) 1) OR push_bit (reserveIndex * 2) (if borrowing then 1 else 0)))"

definition setUsingAsCollateral :: "u256 \<Rightarrow> nat \<Rightarrow> bool \<Rightarrow> u256 call" where
  "setUsingAsCollateral d reserveIndex usingAsCollateral = sol_require (reserveIndex < 128) ''UL_INVALID_INDEX''
     (Inr (d AND NOT (push_bit (reserveIndex * 2 + 1) 1)
       OR push_bit (reserveIndex * 2 + 1) (if usingAsCollateral then 1 else 0)))"

definition isUsingAsCollateralOrBorrowing :: "u256 \<Rightarrow> nat \<Rightarrow> bool call" where
  "isUsingAsCollateralOrBorrowing d reserveIndex = sol_require (reserveIndex < 128) ''UL_INVALID_INDEX''
     (Inr (drop_bit (reserveIndex * 2) d AND 3 \<noteq> 0))"

definition isBorrowing :: "u256 \<Rightarrow> nat \<Rightarrow> bool call" where
  "isBorrowing d reserveIndex = sol_require (reserveIndex < 128) ''UL_INVALID_INDEX''
     (Inr (drop_bit (reserveIndex * 2) d AND 1 \<noteq> 0))"

definition isUsingAsCollateral :: "u256 \<Rightarrow> nat \<Rightarrow> bool call" where
  "isUsingAsCollateral d reserveIndex = sol_require (reserveIndex < 128) ''UL_INVALID_INDEX''
     (Inr (drop_bit (reserveIndex * 2 + 1) d AND 1 \<noteq> 0))"

definition isBorrowingAny :: "u256 \<Rightarrow> bool" where
  "isBorrowingAny d \<longleftrightarrow> d AND USER_BORROWING_MASK \<noteq> 0"

definition isEmpty :: "u256 \<Rightarrow> bool" where
  "isEmpty d \<longleftrightarrow> d = 0"

text \<open>What they compute, bit by bit.\<close>

lemma word_and_one: "w AND 1 \<noteq> 0 \<longleftrightarrow> bit w 0" for w :: u256
  by (simp add: and_one_eq odd_iff_mod_2_eq_one [symmetric] bit_0)

lemma word_and_three: "w AND 3 \<noteq> 0 \<longleftrightarrow> bit w 0 \<or> bit w 1" for w :: u256
proof -
  have "(3 :: u256) = mask 2" by (simp add: mask_eq_exp_minus_1)
  then have b: "bit (3 :: u256) n \<longleftrightarrow> n = 0 \<or> n = 1" for n :: nat by (simp only: bit_mask_iff) auto
  show ?thesis unfolding bit_eq_iff [of "w AND 3" 0] bit_and_iff b by (auto simp only: bit_0_eq bot_apply bot_bool_def possible_bit_word dest: bit_imp_le_length)
qed

lemma user_bits:
  "isBorrowing d i = (if i < 128 then Inr (bit d (2 * i)) else Inl (Reason ''UL_INVALID_INDEX''))"
  "isUsingAsCollateral d i = (if i < 128 then Inr (bit d (2 * i + 1)) else Inl (Reason ''UL_INVALID_INDEX''))"
  "isUsingAsCollateralOrBorrowing d i =
    (if i < 128 then Inr (bit d (2 * i) \<or> bit d (2 * i + 1)) else Inl (Reason ''UL_INVALID_INDEX''))"
  by (simp_all add: isBorrowing_def isUsingAsCollateral_def isUsingAsCollateralOrBorrowing_def sol_require_def
      word_and_one word_and_three bit_drop_bit_eq mult.commute)

lemma bit_assigned:
  fixes d :: u256
  assumes "k < 256"
  shows "bit (d AND NOT (push_bit k 1) OR push_bit k (if b then 1 else 0)) n \<longleftrightarrow> (if n = k then b else bit d n)"
  using assms bit_imp_le_length [of d n] by (cases b) (auto simp: bit_simps)

lemma set_user_bits:
  "setBorrowing d i b = Inr d' \<Longrightarrow> bit d' n \<longleftrightarrow> (if n = 2 * i then b else bit d n)"
  "setUsingAsCollateral d i b = Inr d' \<Longrightarrow> bit d' n \<longleftrightarrow> (if n = 2 * i + 1 then b else bit d n)"
proof -
  assume "setBorrowing d i b = Inr d'"
  then have "i * 2 < 256" "d' = d AND NOT (push_bit (i * 2) 1) OR push_bit (i * 2) (if b then 1 else 0)"
    by (simp_all only: setBorrowing_def sol_require_Inr sum.inject) simp
  then show "bit d' n \<longleftrightarrow> (if n = 2 * i then b else bit d n)" by (simp only: bit_assigned mult.commute)
next
  assume "setUsingAsCollateral d i b = Inr d'"
  then have "i * 2 + 1 < 256" "d' = d AND NOT (push_bit (i * 2 + 1) 1) OR push_bit (i * 2 + 1) (if b then 1 else 0)"
    by (simp_all only: setUsingAsCollateral_def sol_require_Inr sum.inject) simp
  then show "bit d' n \<longleftrightarrow> (if n = 2 * i + 1 then b else bit d n)" by (simp only: bit_assigned mult.commute)
qed

text \<open>Of the two bits of a reserve the mask has the lower one.\<close>

lemma borrowing_mask_bits: "n < 256 \<Longrightarrow> bit USER_BORROWING_MASK n \<longleftrightarrow> even n"
proof (induction n)
  case (Suc n)
  have "push_bit 1 USER_BORROWING_MASK = NOT USER_BORROWING_MASK" by (simp add: USER_BORROWING_MASK_def)
  then have "bit (push_bit 1 USER_BORROWING_MASK) (Suc n) \<longleftrightarrow> \<not> bit USER_BORROWING_MASK (Suc n)"
    using Suc.prems by (simp only: bit_not_iff) simp
  moreover have "bit (push_bit 1 USER_BORROWING_MASK) (Suc n) \<longleftrightarrow> bit USER_BORROWING_MASK n"
    using Suc.prems by (simp only: bit_push_bit_iff) simp
  ultimately show ?case using Suc by auto
qed (simp add: USER_BORROWING_MASK_def bit_0)

lemma isBorrowingAny_iff: "isBorrowingAny d \<longleftrightarrow> (\<exists>i < 128. bit d (2 * i))"
proof
  assume "isBorrowingAny d"
  then obtain n where "bit (d AND USER_BORROWING_MASK) n" by (auto simp: isBorrowingAny_def bit_eq_iff)
  then have n: "bit d n" "bit USER_BORROWING_MASK n" by (simp_all add: bit_and_iff)
  moreover from n(1) have "n < 256" by (auto dest: bit_imp_le_length)
  ultimately obtain i where "n = 2 * i" using borrowing_mask_bits by auto
  with n \<open>n < 256\<close> show "\<exists>i < 128. bit d (2 * i)" by auto
next
  assume "\<exists>i < 128. bit d (2 * i)"
  then obtain i where "i < 128" "bit (d AND USER_BORROWING_MASK) (2 * i)"
    by (auto simp: bit_and_iff borrowing_mask_bits)
  then show "isBorrowingAny d" by (auto simp: isBorrowingAny_def)
qed

lemma isEmpty_iff: "isEmpty d \<longleftrightarrow> (\<forall>i < 128. \<not> bit d (2 * i) \<and> \<not> bit d (2 * i + 1))"
proof
  assume n: "\<forall>i < 128. \<not> bit d (2 * i) \<and> \<not> bit d (2 * i + 1)"
  have "\<not> bit d n" for n
  proof (cases "n < 256")
    case True
    then have "n div 2 < 128" by simp
    with n have "\<not> bit d (2 * (n div 2))" "\<not> bit d (2 * (n div 2) + 1)" by blast+
    then show ?thesis by (cases "even n") (simp_all add: odd_two_times_div_two_succ)
  qed (auto dest: bit_imp_le_length)
  then show "isEmpty d" by (simp add: isEmpty_def bit_eq_iff)
qed (simp add: isEmpty_def)

section \<open>The word refines the record\<close>

lemma map_call:
  assumes "\<And>d'. m = Inr d' \<Longrightarrow> f d' = y" and "m = sol_require c r (Inr x)"
  shows "map_sum id f m = (if c then Inr y else Inl (Reason r))"
  using assms by (auto simp: sol_require_def)

text \<open>
  C21. The packed word of a reserve is a record. Read through its getters, the word after a setter is the record before with exactly this
  field replaced: no setter touches another field, and those of the numeric fields reject, with their own reason, exactly the
  values that do not fit.
\<close>

theorem configuration_word_is_a_record:
  "map_sum id decode (setLtv d v) = (if v \<le> 65535 then Inr ((decode d)\<lparr>p_ltv := v\<rparr>) else Inl (Reason ''RC_INVALID_LTV''))
    \<and> map_sum id decode (setLiquidationThreshold d v)
        = (if v \<le> 65535 then Inr ((decode d)\<lparr>p_threshold := v\<rparr>) else Inl (Reason ''RC_INVALID_LIQ_THRESHOLD''))
    \<and> map_sum id decode (setLiquidationBonus d v)
        = (if v \<le> 65535 then Inr ((decode d)\<lparr>p_bonus := v\<rparr>) else Inl (Reason ''RC_INVALID_LIQ_BONUS''))
    \<and> map_sum id decode (setDecimals d v)
        = (if v \<le> 255 then Inr ((decode d)\<lparr>p_decimals := v\<rparr>) else Inl (Reason ''RC_INVALID_DECIMALS''))
    \<and> map_sum id decode (setReserveFactor d v)
        = (if v \<le> 65535 then Inr ((decode d)\<lparr>p_factor := v\<rparr>) else Inl (Reason ''RC_INVALID_RESERVE_FACTOR''))
    \<and> decode (setActive d b) = (decode d)\<lparr>p_active := b\<rparr>
    \<and> decode (setFrozen d b) = (decode d)\<lparr>p_frozen := b\<rparr>
    \<and> decode (setBorrowingEnabled d b) = (decode d)\<lparr>p_borrowing := b\<rparr>
    \<and> decode (setStableRateBorrowingEnabled d b) = (decode d)\<lparr>p_stable := b\<rparr>"
  by (intro conjI map_call [OF decode_setLtv setLtv_def] map_call [OF decode_setLiquidationThreshold setLiquidationThreshold_def]
      map_call [OF decode_setLiquidationBonus setLiquidationBonus_def] map_call [OF decode_setDecimals setDecimals_def]
      map_call [OF decode_setReserveFactor setReserveFactor_def] decode_setActive decode_setFrozen decode_setBorrowingEnabled
      decode_setStableRateBorrowingEnabled)

end
