(* ===== verification/Tokens.thy ===== *)
theory Tokens
  imports Bitmaps
begin

text \<open>
  The tokens of a reserve: the ERC20 base that they share with the tokens of the suites, the aToken, the
  variable and the stable debt token. The incentives controller is absent: \<open>initReservesByHelper\<close> passes the
  zero address for it. Only the pool calls the operations of the tokens that are modelled here.
\<close>

type_synonym addr = "160 word"

section \<open>ERC20\<close>

record erc20 =
  e_balances :: "addr \<Rightarrow> u256"
  e_totalSupply :: u256
  e_allowances :: "addr \<Rightarrow> addr \<Rightarrow> u256"

text \<open>\<open>SafeMath.sub\<close> with a message.\<close>

definition sol_sub_or :: "string \<Rightarrow> u256 \<Rightarrow> u256 \<Rightarrow> u256 call" where
  "sol_sub_or reason a b = sol_require (b \<le> a) reason (Inr (a - b))"

definition e_transfer :: "addr \<Rightarrow> addr \<Rightarrow> u256 \<Rightarrow> 'a erc20_scheme \<Rightarrow> 'a erc20_scheme call" where
  "e_transfer from to amount t =
     sol_require (from \<noteq> 0) ''ERC20: transfer from the zero address'' (
     sol_require (to \<noteq> 0) ''ERC20: transfer to the zero address'' (
     sol_do (sol_sub_or ''ERC20: transfer amount exceeds balance'' (e_balances t from) amount) (\<lambda>less.
     let t = t\<lparr>e_balances := (e_balances t)(from := less)\<rparr> in
     sol_do (safe (sol_add (e_balances t to) amount)) (\<lambda>more.
     Inr (t\<lparr>e_balances := (e_balances t)(to := more)\<rparr>)))))"

definition e_approve :: "addr \<Rightarrow> addr \<Rightarrow> u256 \<Rightarrow> 'a erc20_scheme \<Rightarrow> 'a erc20_scheme call" where
  "e_approve owner spender amount t =
     sol_require (owner \<noteq> 0) ''ERC20: approve from the zero address'' (
     sol_require (spender \<noteq> 0) ''ERC20: approve to the zero address'' (
     Inr (t\<lparr>e_allowances := (e_allowances t)(owner := (e_allowances t owner)(spender := amount))\<rparr>)))"

definition e_transferFrom :: "addr \<Rightarrow> addr \<Rightarrow> addr \<Rightarrow> u256 \<Rightarrow> 'a erc20_scheme \<Rightarrow> 'a erc20_scheme call" where
  "e_transferFrom caller from to amount t =
     sol_do (e_transfer from to amount t) (\<lambda>t.
     sol_do (sol_sub_or ''ERC20: transfer amount exceeds allowance'' (e_allowances t from caller) amount) (\<lambda>left.
     e_approve from caller left t))"

text \<open>\<open>SafeERC20\<close> replaces the reason.\<close>

definition safely :: "'a call \<Rightarrow> 'a call" where
  "safely m = (case m of Inl _ \<Rightarrow> Inl (Reason ''SafeERC20: low-level call failed'') | Inr x \<Rightarrow> Inr x)"

lemma safely_Inr [call_simps]: "safely m = Inr x \<longleftrightarrow> m = Inr x"
  by (simp add: safely_def split: sum.split)

definition e_mint :: "addr \<Rightarrow> u256 \<Rightarrow> 'a erc20_scheme \<Rightarrow> 'a erc20_scheme call" where
  "e_mint account amount t =
     sol_require (account \<noteq> 0) ''ERC20: mint to the zero address'' (
     sol_do (safe (sol_add (e_totalSupply t) amount)) (\<lambda>supply.
     sol_do (safe (sol_add (e_balances t account) amount)) (\<lambda>balance.
     Inr (t\<lparr>e_totalSupply := supply, e_balances := (e_balances t)(account := balance)\<rparr>))))"

definition e_burn :: "addr \<Rightarrow> u256 \<Rightarrow> 'a erc20_scheme \<Rightarrow> 'a erc20_scheme call" where
  "e_burn account amount t =
     sol_require (account \<noteq> 0) ''ERC20: burn from the zero address'' (
     sol_do (safe (sol_sub (e_totalSupply t) amount)) (\<lambda>supply.
     sol_do (sol_sub_or ''ERC20: burn amount exceeds balance'' (e_balances t account) amount) (\<lambda>balance.
     Inr (t\<lparr>e_totalSupply := supply, e_balances := (e_balances t)(account := balance)\<rparr>))))"

section \<open>The aToken\<close>

record a_token = erc20 +
  a_treasury :: addr

text \<open>\<open>mint\<close> tells whether the balance was empty. \<open>burn\<close> also sends the underlying asset.\<close>

definition AToken_mint :: "addr \<Rightarrow> u256 \<Rightarrow> u256 \<Rightarrow> a_token \<Rightarrow> (bool \<times> a_token) call" where
  "AToken_mint user amount index t =
     (let previousBalance = e_balances t user in
      sol_do (safe (sol_rayDiv amount index)) (\<lambda>amountScaled.
      sol_require (amountScaled \<noteq> 0) ''CT_INVALID_MINT_AMOUNT'' (
      sol_do (e_mint user amountScaled t) (\<lambda>t.
      Inr (previousBalance = 0, t)))))"

definition AToken_mintToTreasury :: "u256 \<Rightarrow> u256 \<Rightarrow> a_token \<Rightarrow> a_token call" where
  "AToken_mintToTreasury amount index t =
     (if amount = 0 then Inr t
      else sol_do (safe (sol_rayDiv amount index)) (\<lambda>amountScaled. e_mint (a_treasury t) amountScaled t))"

definition AToken_burn ::
    "addr \<Rightarrow> addr \<Rightarrow> addr \<Rightarrow> u256 \<Rightarrow> u256 \<Rightarrow> a_token \<Rightarrow> erc20 \<Rightarrow> (a_token \<times> erc20) call" where
  "AToken_burn self user receiverOfUnderlying amount index t asset =
     sol_do (safe (sol_rayDiv amount index)) (\<lambda>amountScaled.
     sol_require (amountScaled \<noteq> 0) ''CT_INVALID_BURN_AMOUNT'' (
     sol_do (e_burn user amountScaled t) (\<lambda>t.
     sol_do (safely (e_transfer self receiverOfUnderlying amount asset)) (\<lambda>asset.
     Inr (t, asset)))))"

definition AToken_transferUnderlyingTo :: "addr \<Rightarrow> addr \<Rightarrow> u256 \<Rightarrow> erc20 \<Rightarrow> erc20 call" where
  "AToken_transferUnderlyingTo self target amount asset = safely (e_transfer self target amount asset)"

section \<open>The variable debt token\<close>

record variable_debt = erc20 +
  v_borrowAllowances :: "addr \<Rightarrow> addr \<Rightarrow> u256"

definition decreaseBorrowAllowance ::
    "addr \<Rightarrow> addr \<Rightarrow> u256 \<Rightarrow> (addr \<Rightarrow> addr \<Rightarrow> u256) \<Rightarrow> (addr \<Rightarrow> addr \<Rightarrow> u256) call" where
  "decreaseBorrowAllowance delegator delegatee amount allowances =
     sol_do (sol_sub_or ''BORROW_ALLOWANCE_NOT_ENOUGH'' (allowances delegator delegatee) amount) (\<lambda>newAllowance.
     Inr (allowances(delegator := (allowances delegator)(delegatee := newAllowance))))"

text \<open>\<open>if (user != onBehalfOf) _decreaseBorrowAllowance(onBehalfOf, user, amount)\<close>\<close>

definition spend_delegation ::
    "addr \<Rightarrow> addr \<Rightarrow> u256 \<Rightarrow> (addr \<Rightarrow> addr \<Rightarrow> u256) \<Rightarrow> (addr \<Rightarrow> addr \<Rightarrow> u256) call" where
  "spend_delegation user onBehalfOf amount allowances =
     (if user \<noteq> onBehalfOf then decreaseBorrowAllowance onBehalfOf user amount allowances else Inr allowances)"

definition Variable_mint :: "addr \<Rightarrow> addr \<Rightarrow> u256 \<Rightarrow> u256 \<Rightarrow> variable_debt \<Rightarrow> (bool \<times> variable_debt) call" where
  "Variable_mint user onBehalfOf amount index t =
     sol_do (spend_delegation user onBehalfOf amount (v_borrowAllowances t)) (\<lambda>allowances.
     let t = t\<lparr>v_borrowAllowances := allowances\<rparr>; previousBalance = e_balances t onBehalfOf in
     sol_do (safe (sol_rayDiv amount index)) (\<lambda>amountScaled.
     sol_require (amountScaled \<noteq> 0) ''CT_INVALID_MINT_AMOUNT'' (
     sol_do (e_mint onBehalfOf amountScaled t) (\<lambda>t.
     Inr (previousBalance = 0, t)))))"

definition Variable_burn :: "addr \<Rightarrow> u256 \<Rightarrow> u256 \<Rightarrow> variable_debt \<Rightarrow> variable_debt call" where
  "Variable_burn user amount index t =
     sol_do (safe (sol_rayDiv amount index)) (\<lambda>amountScaled.
     sol_require (amountScaled \<noteq> 0) ''CT_INVALID_BURN_AMOUNT'' (
     e_burn user amountScaled t))"

section \<open>The stable debt token\<close>

text \<open>Its balances are the principals; \<open>e_totalSupply\<close> is the total principal.\<close>

record stable_debt = erc20 +
  s_borrowAllowances :: "addr \<Rightarrow> addr \<Rightarrow> u256"
  s_avgStableRate :: u256
  s_timestamps :: "addr \<Rightarrow> 40 word"
  s_usersStableRate :: "addr \<Rightarrow> u256"
  s_totalSupplyTimestamp :: "40 word"

definition Stable_balanceOf :: "u256 \<Rightarrow> stable_debt \<Rightarrow> addr \<Rightarrow> u256 call" where
  "Stable_balanceOf now t account =
     (if e_balances t account = 0 then Inr 0
      else sol_do (safe (sol_calculateCompoundedInterest (s_usersStableRate t account) (s_timestamps t account) now))
        (\<lambda>cumulatedInterest. safe (sol_rayMul (e_balances t account) cumulatedInterest)))"

definition Stable_calcTotalSupply :: "u256 \<Rightarrow> stable_debt \<Rightarrow> u256 call" where
  "Stable_calcTotalSupply now t =
     (if e_totalSupply t = 0 then Inr 0
      else sol_do (safe (sol_calculateCompoundedInterest (s_avgStableRate t) (s_totalSupplyTimestamp t) now))
        (\<lambda>cumulatedInterest. safe (sol_rayMul (e_totalSupply t) cumulatedInterest)))"

text \<open>The principal, the balance and the interest since the last change.\<close>

definition calculateBalanceIncrease :: "u256 \<Rightarrow> stable_debt \<Rightarrow> addr \<Rightarrow> (u256 \<times> u256 \<times> u256) call" where
  "calculateBalanceIncrease now t user =
     (let previousPrincipalBalance = e_balances t user in
      if previousPrincipalBalance = 0 then Inr (0, 0, 0)
      else sol_do (Stable_balanceOf now t user) (\<lambda>balance.
        sol_do (safe (sol_sub balance previousPrincipalBalance)) (\<lambda>balanceIncrease.
        sol_do (safe (sol_add previousPrincipalBalance balanceIncrease)) (\<lambda>currentBalance.
        Inr (previousPrincipalBalance, currentBalance, balanceIncrease)))))"

definition max_uint128 :: u256 where "max_uint128 = 2 ^ 128 - 1"

text \<open>The mean of two rates weighted with two amounts, over the given whole; \<open>rayMul\<close> commutes, reverts included.\<close>

definition weighted_rate :: "u256 \<Rightarrow> u256 \<Rightarrow> u256 \<Rightarrow> u256 \<Rightarrow> u256 \<Rightarrow> u256 option" where
  "weighted_rate rate1 amount1 rate2 amountInRay2 whole = do {
     a \<leftarrow> sol_wadToRay amount1;
     x \<leftarrow> sol_rayMul rate1 a;
     y \<leftarrow> sol_rayMul rate2 amountInRay2;
     s \<leftarrow> sol_add x y;
     t \<leftarrow> sol_wadToRay whole;
     sol_rayDiv s t }"

definition Stable_mint ::
    "u256 \<Rightarrow> addr \<Rightarrow> addr \<Rightarrow> u256 \<Rightarrow> u256 \<Rightarrow> stable_debt \<Rightarrow> (bool \<times> stable_debt) call" where
  "Stable_mint now user onBehalfOf amount rate t =
     sol_do (spend_delegation user onBehalfOf amount (s_borrowAllowances t)) (\<lambda>allowances.
     let t = t\<lparr>s_borrowAllowances := allowances\<rparr> in
     sol_do (calculateBalanceIncrease now t onBehalfOf) (\<lambda>(_, currentBalance, balanceIncrease).
     sol_do (Stable_calcTotalSupply now t) (\<lambda>previousSupply.
     sol_do (safe (sol_add previousSupply amount)) (\<lambda>nextSupply.
     sol_do (safe (sol_wadToRay amount)) (\<lambda>amountInRay.
     sol_do (safe (sol_add currentBalance amount)) (\<lambda>newBalance.
     sol_do (safe (weighted_rate (s_usersStableRate t onBehalfOf) currentBalance rate amountInRay newBalance))
       (\<lambda>newStableRate.
     sol_require (newStableRate \<le> max_uint128) ''SDT_STABLE_DEBT_OVERFLOW'' (
     sol_do (safe (weighted_rate (s_avgStableRate t) previousSupply rate amountInRay nextSupply)) (\<lambda>avgStableRate.
     sol_do (safe (sol_add amount balanceIncrease)) (\<lambda>minted.
     sol_do (safe (sol_add (e_balances t onBehalfOf) minted)) (\<lambda>balance.
     Inr (currentBalance = 0,
       t\<lparr>e_totalSupply := nextSupply, s_avgStableRate := avgStableRate,
         s_usersStableRate := (s_usersStableRate t)(onBehalfOf := newStableRate),
         s_timestamps := (s_timestamps t)(onBehalfOf := ucast now), s_totalSupplyTimestamp := ucast now,
         e_balances := (e_balances t)(onBehalfOf := balance)\<rparr>))))))))))))"

text \<open>
  Burning: the total, from which the debt and its part of the weighted rates are taken, then the user's rate
  and time, then the balance, which grows when more interest has accrued than is burnt.
\<close>

definition Stable_burn_supply :: "u256 \<Rightarrow> u256 \<Rightarrow> u256 \<Rightarrow> stable_debt \<Rightarrow> (u256 \<times> u256) call" where
  "Stable_burn_supply previousSupply amount userStableRate t =
     (if previousSupply \<le> amount then Inr (0, 0)
      else
        sol_do (safe (sol_sub previousSupply amount)) (\<lambda>nextSupply.
        sol_do (safe (sol_wadToRay previousSupply)) (\<lambda>supplyInRay.
        sol_do (safe (sol_rayMul (s_avgStableRate t) supplyInRay)) (\<lambda>firstTerm.
        sol_do (safe (sol_wadToRay amount)) (\<lambda>amountInRay.
        sol_do (safe (sol_rayMul userStableRate amountInRay)) (\<lambda>secondTerm.
        if firstTerm \<le> secondTerm then Inr (0, 0)
        else
          sol_do (safe (sol_sub firstTerm secondTerm)) (\<lambda>rest.
          sol_do (safe (sol_wadToRay nextSupply)) (\<lambda>nextInRay.
          sol_do (safe (sol_rayDiv rest nextInRay)) (\<lambda>newAvgStableRate.
          Inr (newAvgStableRate, nextSupply))))))))))"

definition Stable_burn :: "u256 \<Rightarrow> addr \<Rightarrow> u256 \<Rightarrow> stable_debt \<Rightarrow> stable_debt call" where
  "Stable_burn now user amount t =
     sol_do (calculateBalanceIncrease now t user) (\<lambda>(_, currentBalance, balanceIncrease).
     sol_do (Stable_calcTotalSupply now t) (\<lambda>previousSupply.
     let userStableRate = s_usersStableRate t user in
     sol_do (Stable_burn_supply previousSupply amount userStableRate t) (\<lambda>(newAvgStableRate, nextSupply).
     let t = t\<lparr>s_avgStableRate := newAvgStableRate, e_totalSupply := nextSupply\<rparr>;
         t = (if amount = currentBalance
              then t\<lparr>s_usersStableRate := (s_usersStableRate t)(user := 0),
                     s_timestamps := (s_timestamps t)(user := 0)\<rparr>
              else t\<lparr>s_timestamps := (s_timestamps t)(user := ucast now)\<rparr>);
         t = t\<lparr>s_totalSupplyTimestamp := ucast now\<rparr> in
     if amount < balanceIncrease
     then
       sol_do (safe (sol_sub balanceIncrease amount)) (\<lambda>amountToMint.
       sol_do (safe (sol_add (e_balances t user) amountToMint)) (\<lambda>balance.
       Inr (t\<lparr>e_balances := (e_balances t)(user := balance)\<rparr>)))
     else
       sol_do (safe (sol_sub amount balanceIncrease)) (\<lambda>amountToBurn.
       sol_do (sol_sub_or ''SDT_BURN_EXCEEDS_BALANCE'' (e_balances t user) amountToBurn) (\<lambda>balance.
       Inr (t\<lparr>e_balances := (e_balances t)(user := balance)\<rparr>))))))"

end
