(* ===== verification/PoolReserves.thy ===== *)
theory PoolReserves
  imports Tokens
begin

text \<open>
  The state of the pool and of the contracts around it, and \<open>ReserveLogic.sol\<close>: the interest indexes, the rates
  and the part of the interest that goes to the treasury. A call to an address without a contract reverts.
\<close>

section \<open>State\<close>

record sol_reserve =
  d_configuration :: u256
  d_liquidityIndex :: "128 word"
  d_variableBorrowIndex :: "128 word"
  d_currentLiquidityRate :: "128 word"
  d_currentVariableBorrowRate :: "128 word"
  d_currentStableBorrowRate :: "128 word"
  d_lastUpdateTimestamp :: "40 word"
  d_aTokenAddress :: addr
  d_stableDebtTokenAddress :: addr
  d_variableDebtTokenAddress :: addr
  d_interestRateStrategyAddress :: addr
  d_id :: "8 word"

text \<open>
  The storage of the pool (\<open>LendingPoolStorage.sol\<close>) and of the contracts that it calls, by their addresses: the
  underlying assets, the tokens, the rate strategies; the answers of the price oracle and of the rate oracle;
  \<open>block.timestamp\<close>; the admins of the addresses provider. The underlying asset of the tokens of a reserve is the asset of this reserve.
\<close>

record world =
  w_reserves :: "addr \<Rightarrow> sol_reserve"
  w_usersConfig :: "addr \<Rightarrow> u256"
  w_reservesList :: "nat \<Rightarrow> addr"
  w_reservesCount :: nat
  w_paused :: bool
  w_maxStableRateBorrowSizePercent :: u256
  w_flashLoanPremiumTotal :: u256
  w_maxNumberOfReserves :: nat
  w_assets :: "addr \<rightharpoonup> erc20"
  w_aTokens :: "addr \<rightharpoonup> a_token"
  w_stableDebts :: "addr \<rightharpoonup> stable_debt"
  w_variableDebts :: "addr \<rightharpoonup> variable_debt"
  w_strategies :: "addr \<rightharpoonup> sol_strategy"
  w_assetPrice :: "addr \<Rightarrow> u256"
  w_marketBorrowRate :: "addr \<Rightarrow> u256"
  w_timestamp :: u256
  w_pool :: addr
  w_poolAdmin :: addr
  w_emergencyAdmin :: addr

definition contract_at :: "(addr \<rightharpoonup> 'c) \<Rightarrow> addr \<Rightarrow> 'c call" where
  "contract_at contracts a = (case contracts a of None \<Rightarrow> Inl (Reason ''call to non-contract'') | Some c \<Rightarrow> Inr c)"

lemma contract_at_Inr [call_simps]: "contract_at contracts a = Inr c \<longleftrightarrow> contracts a = Some c"
  by (simp add: contract_at_def split: option.split)

text \<open>The tokens of a reserve.\<close>

definition aToken_of :: "world \<Rightarrow> addr \<Rightarrow> a_token call" where
  "aToken_of w asset = contract_at (w_aTokens w) (d_aTokenAddress (w_reserves w asset))"

definition stable_of :: "world \<Rightarrow> addr \<Rightarrow> stable_debt call" where
  "stable_of w asset = contract_at (w_stableDebts w) (d_stableDebtTokenAddress (w_reserves w asset))"

definition variable_of :: "world \<Rightarrow> addr \<Rightarrow> variable_debt call" where
  "variable_of w asset = contract_at (w_variableDebts w) (d_variableDebtTokenAddress (w_reserves w asset))"

definition put_reserve :: "world \<Rightarrow> addr \<Rightarrow> sol_reserve \<Rightarrow> world" where
  "put_reserve w asset r = w\<lparr>w_reserves := (w_reserves w)(asset := r)\<rparr>"

definition put_aToken :: "world \<Rightarrow> addr \<Rightarrow> a_token \<Rightarrow> world" where
  "put_aToken w asset t = w\<lparr>w_aTokens := (w_aTokens w)(d_aTokenAddress (w_reserves w asset) \<mapsto> t)\<rparr>"

definition put_stable :: "world \<Rightarrow> addr \<Rightarrow> stable_debt \<Rightarrow> world" where
  "put_stable w asset t = w\<lparr>w_stableDebts := (w_stableDebts w)(d_stableDebtTokenAddress (w_reserves w asset) \<mapsto> t)\<rparr>"

definition put_variable :: "world \<Rightarrow> addr \<Rightarrow> variable_debt \<Rightarrow> world" where
  "put_variable w asset t =
     w\<lparr>w_variableDebts := (w_variableDebts w)(d_variableDebtTokenAddress (w_reserves w asset) \<mapsto> t)\<rparr>"

definition put_asset :: "world \<Rightarrow> addr \<Rightarrow> erc20 \<Rightarrow> world" where
  "put_asset w asset t = w\<lparr>w_assets := (w_assets w)(asset \<mapsto> t)\<rparr>"

section \<open>Indexes\<close>

definition getNormalizedIncome :: "u256 \<Rightarrow> sol_reserve \<Rightarrow> u256 option" where
  "getNormalizedIncome now r =
     (if d_lastUpdateTimestamp r = ucast now then Some (ucast (d_liquidityIndex r))
      else do {
        interest \<leftarrow> sol_calculateLinearInterest now (ucast (d_currentLiquidityRate r)) (d_lastUpdateTimestamp r);
        sol_rayMul interest (ucast (d_liquidityIndex r)) })"

definition getNormalizedDebt :: "u256 \<Rightarrow> sol_reserve \<Rightarrow> u256 option" where
  "getNormalizedDebt now r =
     (if d_lastUpdateTimestamp r = ucast now then Some (ucast (d_variableBorrowIndex r))
      else do {
        interest \<leftarrow> sol_calculateCompoundedInterest (ucast (d_currentVariableBorrowRate r)) (d_lastUpdateTimestamp r) now;
        sol_rayMul interest (ucast (d_variableBorrowIndex r)) })"

text \<open>The new indexes, and the reserve with them and the time of the update.\<close>

definition updateIndexes :: "u256 \<Rightarrow> u256 \<Rightarrow> sol_reserve \<Rightarrow> (u256 \<times> u256 \<times> sol_reserve) call" where
  "updateIndexes now scaledVariableDebt r =
     (let liquidityIndex = ucast (d_liquidityIndex r); variableBorrowIndex = ucast (d_variableBorrowIndex r);
          timestamp = d_lastUpdateTimestamp r; stamp = (\<lambda>r. r\<lparr>d_lastUpdateTimestamp := ucast now\<rparr>) in
      if 0 < d_currentLiquidityRate r
      then
        sol_do (safe (sol_calculateLinearInterest now (ucast (d_currentLiquidityRate r)) timestamp))
          (\<lambda>cumulatedLiquidityInterest.
        sol_do (safe (sol_rayMul cumulatedLiquidityInterest liquidityIndex)) (\<lambda>newLiquidityIndex.
        sol_require (newLiquidityIndex \<le> max_uint128) ''RL_LIQUIDITY_INDEX_OVERFLOW'' (
        let r = r\<lparr>d_liquidityIndex := ucast newLiquidityIndex\<rparr> in
        if scaledVariableDebt \<noteq> 0
        then
          sol_do (safe (sol_calculateCompoundedInterest (ucast (d_currentVariableBorrowRate r)) timestamp now))
            (\<lambda>cumulatedVariableBorrowInterest.
          sol_do (safe (sol_rayMul cumulatedVariableBorrowInterest variableBorrowIndex)) (\<lambda>newVariableBorrowIndex.
          sol_require (newVariableBorrowIndex \<le> max_uint128) ''RL_VARIABLE_BORROW_INDEX_OVERFLOW'' (
          Inr (newLiquidityIndex, newVariableBorrowIndex,
            stamp (r\<lparr>d_variableBorrowIndex := ucast newVariableBorrowIndex\<rparr>)))))
        else Inr (newLiquidityIndex, variableBorrowIndex, stamp r))))
      else Inr (liquidityIndex, variableBorrowIndex, stamp r))"

text \<open>The part of the debt accrued since the last update that is minted to the treasury.\<close>

definition treasury_amount ::
    "u256 \<Rightarrow> u256 \<Rightarrow> stable_debt \<Rightarrow> u256 \<Rightarrow> u256 \<Rightarrow> u256 \<Rightarrow> 40 word \<Rightarrow> u256 call" where
  "treasury_amount now factor debtToken scaledVariableDebt previousVariableBorrowIndex newVariableBorrowIndex timestamp =
     sol_do (Stable_calcTotalSupply now debtToken) (\<lambda>currentStableDebt.
     sol_do (safe (sol_rayMul scaledVariableDebt previousVariableBorrowIndex)) (\<lambda>previousVariableDebt.
     sol_do (safe (sol_rayMul scaledVariableDebt newVariableBorrowIndex)) (\<lambda>currentVariableDebt.
     sol_do (safe (sol_calculateCompoundedInterest (s_avgStableRate debtToken) (s_totalSupplyTimestamp debtToken)
       (ucast timestamp))) (\<lambda>cumulatedStableInterest.
     sol_do (safe (sol_rayMul (e_totalSupply debtToken) cumulatedStableInterest)) (\<lambda>previousStableDebt.
     sol_do (safe (sol_add currentVariableDebt currentStableDebt)) (\<lambda>currentDebt.
     sol_do (safe (sol_sub currentDebt previousVariableDebt)) (\<lambda>accrued.
     sol_do (safe (sol_sub accrued previousStableDebt)) (\<lambda>totalDebtAccrued.
     safe (percentMul totalDebtAccrued factor)))))))))"

definition mintToTreasury :: "world \<Rightarrow> addr \<Rightarrow> u256 \<Rightarrow> u256 \<Rightarrow> u256 \<Rightarrow> u256 \<Rightarrow> 40 word \<Rightarrow> world call" where
  "mintToTreasury w asset scaledVariableDebt previousVariableBorrowIndex newLiquidityIndex newVariableBorrowIndex
     timestamp =
     (let factor = getReserveFactor (d_configuration (w_reserves w asset)) in
      if factor = 0 then Inr w
      else
        sol_do (stable_of w asset) (\<lambda>stable.
        sol_do (treasury_amount (w_timestamp w) factor stable scaledVariableDebt previousVariableBorrowIndex
          newVariableBorrowIndex timestamp) (\<lambda>amountToMint.
        if amountToMint \<noteq> 0
        then
          sol_do (aToken_of w asset) (\<lambda>aToken.
          sol_do (AToken_mintToTreasury amountToMint newLiquidityIndex aToken) (\<lambda>aToken.
          Inr (put_aToken w asset aToken)))
        else Inr w)))"

definition updateState :: "world \<Rightarrow> addr \<Rightarrow> world call" where
  "updateState w asset =
     (let r = w_reserves w asset in
      sol_do (variable_of w asset) (\<lambda>variable.
      let scaledVariableDebt = e_totalSupply variable; previousVariableBorrowIndex = ucast (d_variableBorrowIndex r);
          lastUpdatedTimestamp = d_lastUpdateTimestamp r in
      sol_do (updateIndexes (w_timestamp w) scaledVariableDebt r) (\<lambda>(newLiquidityIndex, newVariableBorrowIndex, r).
      mintToTreasury (put_reserve w asset r) asset scaledVariableDebt previousVariableBorrowIndex newLiquidityIndex
        newVariableBorrowIndex lastUpdatedTimestamp)))"

definition cumulateToLiquidityIndex :: "u256 \<Rightarrow> u256 \<Rightarrow> sol_reserve \<Rightarrow> sol_reserve call" where
  "cumulateToLiquidityIndex totalLiquidity amount r =
     sol_do (safe (do { a \<leftarrow> sol_wadToRay amount; t \<leftarrow> sol_wadToRay totalLiquidity; ratio \<leftarrow> sol_rayDiv a t;
        s \<leftarrow> sol_add ratio sol_RAY; sol_rayMul s (ucast (d_liquidityIndex r)) })) (\<lambda>result.
     sol_require (result \<le> max_uint128) ''RL_LIQUIDITY_INDEX_OVERFLOW'' (
     Inr (r\<lparr>d_liquidityIndex := ucast result\<rparr>)))"

section \<open>Rates\<close>

text \<open>\<open>calculateInterestRates\<close> with the liquidity that an action adds or takes.\<close>

definition rates_after ::
    "world \<Rightarrow> addr \<Rightarrow> addr \<Rightarrow> u256 \<Rightarrow> u256 \<Rightarrow> u256 \<Rightarrow> u256 \<Rightarrow> u256 \<Rightarrow> (u256 \<times> u256 \<times> u256) call" where
  "rates_after w asset aTokenAddress liquidityAdded liquidityTaken totalStableDebt totalVariableDebt avgStableRate =
     (let r = w_reserves w asset in
      sol_do (contract_at (w_strategies w) (d_interestRateStrategyAddress r)) (\<lambda>strat.
      sol_do (contract_at (w_assets w) asset) (\<lambda>underlying.
      sol_do (safe (sol_add (e_balances underlying aTokenAddress) liquidityAdded)) (\<lambda>more.
      sol_do (safe (sol_sub more liquidityTaken)) (\<lambda>availableLiquidity.
      safe (sol_calculateInterestRates strat (w_marketBorrowRate w asset) availableLiquidity totalStableDebt
        totalVariableDebt avgStableRate (getReserveFactor (d_configuration r))))))))"

definition updateInterestRates :: "world \<Rightarrow> addr \<Rightarrow> addr \<Rightarrow> u256 \<Rightarrow> u256 \<Rightarrow> world call" where
  "updateInterestRates w asset aTokenAddress liquidityAdded liquidityTaken =
     (let r = w_reserves w asset in
      sol_do (stable_of w asset) (\<lambda>stable.
      sol_do (Stable_calcTotalSupply (w_timestamp w) stable) (\<lambda>totalStableDebt.
      sol_do (variable_of w asset) (\<lambda>variable.
      sol_do (safe (sol_rayMul (e_totalSupply variable) (ucast (d_variableBorrowIndex r)))) (\<lambda>totalVariableDebt.
      sol_do (rates_after w asset aTokenAddress liquidityAdded liquidityTaken totalStableDebt totalVariableDebt
        (s_avgStableRate stable)) (\<lambda>(newLiquidityRate, newStableRate, newVariableRate).
      sol_require (newLiquidityRate \<le> max_uint128) ''RL_LIQUIDITY_RATE_OVERFLOW'' (
      sol_require (newStableRate \<le> max_uint128) ''RL_STABLE_BORROW_RATE_OVERFLOW'' (
      sol_require (newVariableRate \<le> max_uint128) ''RL_VARIABLE_BORROW_RATE_OVERFLOW'' (
      Inr (put_reserve w asset (r\<lparr>d_currentLiquidityRate := ucast newLiquidityRate,
        d_currentStableBorrowRate := ucast newStableRate,
        d_currentVariableBorrowRate := ucast newVariableRate\<rparr>)))))))))))"

section \<open>Initialization\<close>

definition sol_init_reserve :: "addr \<Rightarrow> addr \<Rightarrow> addr \<Rightarrow> addr \<Rightarrow> sol_reserve \<Rightarrow> sol_reserve call" where
  "sol_init_reserve aTokenAddress stableDebtTokenAddress variableDebtTokenAddress interestRateStrategyAddress r =
     sol_require (d_aTokenAddress r = 0) ''RL_RESERVE_ALREADY_INITIALIZED'' (
     Inr (r\<lparr>d_liquidityIndex := ucast sol_RAY, d_variableBorrowIndex := ucast sol_RAY,
       d_aTokenAddress := aTokenAddress, d_stableDebtTokenAddress := stableDebtTokenAddress,
       d_variableDebtTokenAddress := variableDebtTokenAddress,
       d_interestRateStrategyAddress := interestRateStrategyAddress\<rparr>))"

end
