(* ===== verification/PoolAccounts.thy ===== *)
theory PoolAccounts
  imports PoolReserves
begin

text \<open>
  What a user has in the pool, \<open>GenericLogic.sol\<close>, and the conditions of the actions, \<open>ValidationLogic.sol\<close>.
\<close>

section \<open>Balances\<close>

definition AToken_balanceOf :: "world \<Rightarrow> addr \<Rightarrow> addr \<Rightarrow> u256 call" where
  "AToken_balanceOf w asset user =
     sol_do (aToken_of w asset) (\<lambda>t.
     sol_do (safe (getNormalizedIncome (w_timestamp w) (w_reserves w asset))) (\<lambda>income.
     safe (sol_rayMul (e_balances t user) income)))"

definition Variable_balanceOf :: "world \<Rightarrow> addr \<Rightarrow> addr \<Rightarrow> u256 call" where
  "Variable_balanceOf w asset user =
     sol_do (variable_of w asset) (\<lambda>t.
     if e_balances t user = 0 then Inr 0
     else sol_do (safe (getNormalizedDebt (w_timestamp w) (w_reserves w asset))) (\<lambda>debt.
       safe (sol_rayMul (e_balances t user) debt)))"

definition getUserCurrentDebt :: "world \<Rightarrow> addr \<Rightarrow> addr \<Rightarrow> (u256 \<times> u256) call" where
  "getUserCurrentDebt w asset user =
     sol_do (stable_of w asset) (\<lambda>t.
     sol_do (Stable_balanceOf (w_timestamp w) t user) (\<lambda>stableDebt.
     sol_do (Variable_balanceOf w asset user) (\<lambda>variableDebt.
     Inr (stableDebt, variableDebt))))"

section \<open>The account of a user\<close>

definition sol_divide :: "u256 \<Rightarrow> u256 \<Rightarrow> u256 option" where
  "sol_divide a b = (if b = 0 then None else Some (a div b))"

definition HEALTH_FACTOR_LIQUIDATION_THRESHOLD :: u256 where
  "HEALTH_FACTOR_LIQUIDATION_THRESHOLD = 10 ^ 18"

text \<open>An amount of an asset at the price of the oracle; \<open>10 ** decimals\<close> is unchecked.\<close>

definition value_in_eth :: "world \<Rightarrow> addr \<Rightarrow> u256 \<Rightarrow> u256 option" where
  "value_in_eth w asset amount = do {
     p \<leftarrow> sol_mul (w_assetPrice w asset) amount;
     sol_divide p (10 ^ unat (getDecimals (d_configuration (w_reserves w asset)))) }"

definition calculateHealthFactorFromBalances :: "u256 \<Rightarrow> u256 \<Rightarrow> u256 \<Rightarrow> u256 option" where
  "calculateHealthFactorFromBalances totalCollateralInETH totalDebtInETH threshold =
     (if totalDebtInETH = 0 then Some (- 1)
      else do { c \<leftarrow> percentMul totalCollateralInETH threshold; sol_wadDiv c totalDebtInETH })"

definition calculateAvailableBorrowsETH :: "u256 \<Rightarrow> u256 \<Rightarrow> u256 \<Rightarrow> u256 option" where
  "calculateAvailableBorrowsETH totalCollateralInETH totalDebtInETH ltv = do {
     available \<leftarrow> percentMul totalCollateralInETH ltv;
     if available < totalDebtInETH then Some 0 else sol_sub available totalDebtInETH }"

text \<open>Collateral, debt, and the sums of the collateral weighted with its loan to value and its threshold.\<close>

record account_sums =
  c_collateral :: u256
  c_debt :: u256
  c_ltv :: u256
  c_threshold :: u256

definition add_collateral :: "world \<Rightarrow> addr \<Rightarrow> addr \<Rightarrow> account_sums \<Rightarrow> account_sums call" where
  "add_collateral w user asset acc =
     (let conf = d_configuration (w_reserves w asset) in
      sol_do (AToken_balanceOf w asset user) (\<lambda>balance.
      safe (do {
        liquidityBalanceETH \<leftarrow> value_in_eth w asset balance;
        collateral \<leftarrow> sol_add (c_collateral acc) liquidityBalanceETH;
        l \<leftarrow> sol_mul liquidityBalanceETH (getLtv conf);
        ltv \<leftarrow> sol_add (c_ltv acc) l;
        t \<leftarrow> sol_mul liquidityBalanceETH (getLiquidationThreshold conf);
        threshold \<leftarrow> sol_add (c_threshold acc) t;
        Some (acc\<lparr>c_collateral := collateral, c_ltv := ltv, c_threshold := threshold\<rparr>) })))"

definition add_debt :: "world \<Rightarrow> addr \<Rightarrow> addr \<Rightarrow> account_sums \<Rightarrow> account_sums call" where
  "add_debt w user asset acc =
     sol_do (getUserCurrentDebt w asset user) (\<lambda>(stableDebt, variableDebt).
     safe (do {
       balance \<leftarrow> sol_add stableDebt variableDebt;
       debtETH \<leftarrow> value_in_eth w asset balance;
       debt \<leftarrow> sol_add (c_debt acc) debtETH;
       Some (acc\<lparr>c_debt := debt\<rparr>) }))"

text \<open>One round of the loop over the reserves, and the loop.\<close>

definition account_step :: "world \<Rightarrow> addr \<Rightarrow> u256 \<Rightarrow> nat \<Rightarrow> account_sums \<Rightarrow> account_sums call" where
  "account_step w user userConfig i acc =
     sol_do (isUsingAsCollateralOrBorrowing userConfig i) (\<lambda>uses.
     if \<not> uses then Inr acc
     else
       let asset = w_reservesList w i in
       sol_do (isUsingAsCollateral userConfig i) (\<lambda>collateral.
       sol_do (if getLiquidationThreshold (d_configuration (w_reserves w asset)) \<noteq> 0 \<and> collateral
               then add_collateral w user asset acc else Inr acc) (\<lambda>acc.
       sol_do (isBorrowing userConfig i) (\<lambda>borrowing.
       if borrowing then add_debt w user asset acc else Inr acc))))"

fun account_loop :: "world \<Rightarrow> addr \<Rightarrow> u256 \<Rightarrow> nat list \<Rightarrow> account_sums \<Rightarrow> account_sums call" where
  "account_loop w user userConfig [] acc = Inr acc"
| "account_loop w user userConfig (i # is) acc =
     sol_do (account_step w user userConfig i acc) (account_loop w user userConfig is)"

record account_data =
  ad_collateral :: u256
  ad_debt :: u256
  ad_ltv :: u256
  ad_threshold :: u256
  ad_health :: u256

definition calculateUserAccountData :: "world \<Rightarrow> addr \<Rightarrow> u256 \<Rightarrow> account_data call" where
  "calculateUserAccountData w user userConfig =
     (if isEmpty userConfig
      then Inr \<lparr> ad_collateral = 0, ad_debt = 0, ad_ltv = 0, ad_threshold = 0, ad_health = - 1 \<rparr>
      else
        sol_do (account_loop w user userConfig [0..<w_reservesCount w]
          \<lparr> c_collateral = 0, c_debt = 0, c_ltv = 0, c_threshold = 0 \<rparr>) (\<lambda>acc.
        let mean = (\<lambda>s. if 0 < c_collateral acc then sol_divide s (c_collateral acc) else Some 0) in
        safe (do {
          ltv \<leftarrow> mean (c_ltv acc);
          threshold \<leftarrow> mean (c_threshold acc);
          health \<leftarrow> calculateHealthFactorFromBalances (c_collateral acc) (c_debt acc) threshold;
          Some \<lparr> ad_collateral = c_collateral acc, ad_debt = c_debt acc, ad_ltv = ltv, ad_threshold = threshold,
            ad_health = health \<rparr> })))"

definition balanceDecreaseAllowed :: "world \<Rightarrow> addr \<Rightarrow> addr \<Rightarrow> u256 \<Rightarrow> u256 \<Rightarrow> bool call" where
  "balanceDecreaseAllowed w asset user amount userConfig =
     (let conf = d_configuration (w_reserves w asset) in
      if \<not> isBorrowingAny userConfig then Inr True
      else
        sol_do (isUsingAsCollateral userConfig (unat (d_id (w_reserves w asset)))) (\<lambda>collateral.
        if \<not> collateral \<or> getLiquidationThreshold conf = 0 then Inr True
        else
          sol_do (calculateUserAccountData w user userConfig) (\<lambda>d.
          if ad_debt d = 0 then Inr True
          else
            sol_do (safe (value_in_eth w asset amount)) (\<lambda>amountETH.
            sol_do (safe (sol_sub (ad_collateral d) amountETH)) (\<lambda>collateralAfter.
            if collateralAfter = 0 then Inr False
            else
              sol_do (safe (do {
                a \<leftarrow> sol_mul (ad_collateral d) (ad_threshold d);
                b \<leftarrow> sol_mul amountETH (getLiquidationThreshold conf);
                c \<leftarrow> sol_sub a b;
                sol_divide c collateralAfter })) (\<lambda>thresholdAfter.
              sol_do (safe (calculateHealthFactorFromBalances collateralAfter (ad_debt d) thresholdAfter))
                (\<lambda>health. Inr (HEALTH_FACTOR_LIQUIDATION_THRESHOLD \<le> health))))))))"

section \<open>Conditions of the actions\<close>

definition STABLE_MODE :: u256 where "STABLE_MODE = 1"

definition VARIABLE_MODE :: u256 where "VARIABLE_MODE = 2"

definition validateDeposit :: "world \<Rightarrow> addr \<Rightarrow> u256 \<Rightarrow> unit call" where
  "validateDeposit w asset amount =
     (let (isActive, isFrozen, _, _) = getFlags (d_configuration (w_reserves w asset)) in
      sol_require (amount \<noteq> 0) ''VL_INVALID_AMOUNT'' (
      sol_require isActive ''VL_NO_ACTIVE_RESERVE'' (
      sol_require (\<not> isFrozen) ''VL_RESERVE_FROZEN'' (Inr ()))))"

definition validateWithdraw :: "world \<Rightarrow> addr \<Rightarrow> addr \<Rightarrow> u256 \<Rightarrow> u256 \<Rightarrow> unit call" where
  "validateWithdraw w sender asset amount userBalance =
     (let (isActive, _, _, _) = getFlags (d_configuration (w_reserves w asset)) in
      sol_require (amount \<noteq> 0) ''VL_INVALID_AMOUNT'' (
      sol_require (amount \<le> userBalance) ''VL_NOT_ENOUGH_AVAILABLE_USER_BALANCE'' (
      sol_require isActive ''VL_NO_ACTIVE_RESERVE'' (
      sol_do (balanceDecreaseAllowed w asset sender amount (w_usersConfig w sender)) (\<lambda>allowed.
      sol_require allowed ''VL_TRANSFER_NOT_ALLOWED'' (Inr ()))))))"

text \<open>The condition on the collateral that borrowing at the stable rate and swapping to it share.\<close>

definition stable_collateral_ok :: "world \<Rightarrow> addr \<Rightarrow> addr \<Rightarrow> u256 \<Rightarrow> bool call" where
  "stable_collateral_ok w asset user amount =
     (let r = w_reserves w asset in
      sol_do (isUsingAsCollateral (w_usersConfig w user) (unat (d_id r))) (\<lambda>collateral.
      if \<not> collateral \<or> getLtv (d_configuration r) = 0 then Inr True
      else sol_do (AToken_balanceOf w asset user) (\<lambda>balance. Inr (balance < amount))))"

definition validateBorrow :: "world \<Rightarrow> addr \<Rightarrow> addr \<Rightarrow> u256 \<Rightarrow> u256 \<Rightarrow> u256 \<Rightarrow> unit call" where
  "validateBorrow w asset userAddress amount amountInETH interestRateMode =
     (let r = w_reserves w asset;
          (isActive, isFrozen, borrowingIsEnabled, stableIsEnabled) = getFlags (d_configuration r) in
      sol_require isActive ''VL_NO_ACTIVE_RESERVE'' (
      sol_require (\<not> isFrozen) ''VL_RESERVE_FROZEN'' (
      sol_require (amount \<noteq> 0) ''VL_INVALID_AMOUNT'' (
      sol_require borrowingIsEnabled ''VL_BORROWING_NOT_ENABLED'' (
      sol_require (interestRateMode = VARIABLE_MODE \<or> interestRateMode = STABLE_MODE)
        ''VL_INVALID_INTEREST_RATE_MODE_SELECTED'' (
      sol_do (calculateUserAccountData w userAddress (w_usersConfig w userAddress)) (\<lambda>d.
      sol_require (0 < ad_collateral d) ''VL_COLLATERAL_BALANCE_IS_0'' (
      sol_require (HEALTH_FACTOR_LIQUIDATION_THRESHOLD < ad_health d)
        ''VL_HEALTH_FACTOR_LOWER_THAN_LIQUIDATION_THRESHOLD'' (
      sol_do (safe (do { s \<leftarrow> sol_add (ad_debt d) amountInETH; sol_percentDiv s (ad_ltv d) })) (\<lambda>needed.
      sol_require (needed \<le> ad_collateral d) ''VL_COLLATERAL_CANNOT_COVER_NEW_BORROW'' (
      if interestRateMode = STABLE_MODE
      then
        sol_require stableIsEnabled ''VL_STABLE_BORROWING_NOT_ENABLED'' (
        sol_do (stable_collateral_ok w asset userAddress amount) (\<lambda>ok.
        sol_require ok ''VL_COLLATERAL_SAME_AS_BORROWING_CURRENCY'' (
        sol_do (contract_at (w_assets w) asset) (\<lambda>underlying.
        sol_do (safe (percentMul (e_balances underlying (d_aTokenAddress r)) (w_maxStableRateBorrowSizePercent w)))
          (\<lambda>maxLoanSizeStable.
        sol_require (amount \<le> maxLoanSizeStable) ''VL_AMOUNT_BIGGER_THAN_MAX_LOAN_SIZE_STABLE'' (Inr ()))))))
      else Inr ())))))))))))"

definition validateRepay :: "world \<Rightarrow> addr \<Rightarrow> addr \<Rightarrow> u256 \<Rightarrow> u256 \<Rightarrow> addr \<Rightarrow> u256 \<Rightarrow> u256 \<Rightarrow> unit call" where
  "validateRepay w sender asset amountSent rateMode onBehalfOf stableDebt variableDebt =
     sol_require (getActive (d_configuration (w_reserves w asset))) ''VL_NO_ACTIVE_RESERVE'' (
     sol_require (0 < amountSent) ''VL_INVALID_AMOUNT'' (
     sol_require (0 < stableDebt \<and> rateMode = STABLE_MODE \<or> 0 < variableDebt \<and> rateMode = VARIABLE_MODE)
       ''VL_NO_DEBT_OF_SELECTED_TYPE'' (
     sol_require (amountSent \<noteq> - 1 \<or> sender = onBehalfOf) ''VL_NO_EXPLICIT_AMOUNT_TO_REPAY_ON_BEHALF'' (Inr ()))))"

definition validateSwapRateMode :: "world \<Rightarrow> addr \<Rightarrow> addr \<Rightarrow> u256 \<Rightarrow> u256 \<Rightarrow> u256 \<Rightarrow> unit call" where
  "validateSwapRateMode w sender asset stableDebt variableDebt currentRateMode =
     (let (isActive, isFrozen, _, stableIsEnabled) = getFlags (d_configuration (w_reserves w asset)) in
      sol_require isActive ''VL_NO_ACTIVE_RESERVE'' (
      sol_require (\<not> isFrozen) ''VL_RESERVE_FROZEN'' (
      if currentRateMode = STABLE_MODE
      then sol_require (0 < stableDebt) ''VL_NO_STABLE_RATE_LOAN_IN_RESERVE'' (Inr ())
      else if currentRateMode = VARIABLE_MODE
      then
        sol_require (0 < variableDebt) ''VL_NO_VARIABLE_RATE_LOAN_IN_RESERVE'' (
        sol_require stableIsEnabled ''VL_STABLE_BORROWING_NOT_ENABLED'' (
        sol_do (safe (sol_add stableDebt variableDebt)) (\<lambda>debt.
        sol_do (stable_collateral_ok w asset sender debt) (\<lambda>ok.
        sol_require ok ''VL_COLLATERAL_SAME_AS_BORROWING_CURRENCY'' (Inr ())))))
      else Inl (Reason ''VL_INVALID_INTEREST_RATE_MODE_SELECTED''))))"

text \<open>\<open>totalSupply\<close> of the variable debt, with the debt of the current time.\<close>

definition Variable_totalSupply :: "world \<Rightarrow> addr \<Rightarrow> u256 call" where
  "Variable_totalSupply w asset =
     sol_do (variable_of w asset) (\<lambda>t.
     sol_do (safe (getNormalizedDebt (w_timestamp w) (w_reserves w asset))) (\<lambda>debt.
     safe (sol_rayMul (e_totalSupply t) debt)))"

definition getMaxVariableBorrowRate :: "sol_strategy \<Rightarrow> u256 option" where
  "getMaxVariableBorrowRate strat = do {
     s \<leftarrow> sol_add (sol_baseVariableBorrowRate strat) (sol_variableRateSlope1 strat);
     sol_add s (sol_variableRateSlope2 strat) }"

definition validateRebalanceStableBorrowRate :: "world \<Rightarrow> addr \<Rightarrow> unit call" where
  "validateRebalanceStableBorrowRate w asset =
     (let r = w_reserves w asset in
      sol_require (getActive (d_configuration r)) ''VL_NO_ACTIVE_RESERVE'' (
      sol_do (stable_of w asset) (\<lambda>t.
      sol_do (Stable_calcTotalSupply (w_timestamp w) t) (\<lambda>totalStable.
      sol_do (Variable_totalSupply w asset) (\<lambda>totalVariable.
      sol_do (contract_at (w_assets w) asset) (\<lambda>underlying.
      sol_do (safe (do {
        s \<leftarrow> sol_add totalStable totalVariable;
        totalDebt \<leftarrow> sol_wadToRay s;
        availableLiquidity \<leftarrow> sol_wadToRay (e_balances underlying (d_aTokenAddress r));
        if totalDebt = 0 then Some 0
        else do { l \<leftarrow> sol_add availableLiquidity totalDebt; sol_rayDiv totalDebt l } })) (\<lambda>usageRatio.
      sol_do (contract_at (w_strategies w) (d_interestRateStrategyAddress r)) (\<lambda>strat.
      sol_do (safe (getMaxVariableBorrowRate strat)) (\<lambda>maxVariableBorrowRate.
      sol_do (if 95 * 10 ^ 25 \<le> usageRatio
              then sol_do (safe (percentMul maxVariableBorrowRate 4000))
                (\<lambda>m. Inr (ucast (d_currentLiquidityRate r) \<le> m))
              else Inr False) (\<lambda>met.
      sol_require met ''LP_INTEREST_RATE_REBALANCE_CONDITIONS_NOT_MET'' (Inr ())))))))))))"

definition validateSetUseReserveAsCollateral :: "world \<Rightarrow> addr \<Rightarrow> addr \<Rightarrow> bool \<Rightarrow> unit call" where
  "validateSetUseReserveAsCollateral w sender asset useAsCollateral =
     sol_do (AToken_balanceOf w asset sender) (\<lambda>underlyingBalance.
     sol_require (0 < underlyingBalance) ''VL_UNDERLYING_BALANCE_NOT_GREATER_THAN_0'' (
     sol_do (if useAsCollateral then Inr True
             else balanceDecreaseAllowed w asset sender underlyingBalance (w_usersConfig w sender)) (\<lambda>ok.
     sol_require ok ''VL_DEPOSIT_ALREADY_IN_USE'' (Inr ()))))"

definition validateTransfer :: "world \<Rightarrow> addr \<Rightarrow> unit call" where
  "validateTransfer w from =
     sol_do (calculateUserAccountData w from (w_usersConfig w from)) (\<lambda>d.
     sol_require (HEALTH_FACTOR_LIQUIDATION_THRESHOLD \<le> ad_health d) ''VL_TRANSFER_NOT_ALLOWED'' (Inr ()))"

end
