(* ===== verification/LendingPoolContract.thy ===== *)
theory LendingPoolContract
  imports PoolAccounts
begin

text \<open>
  The actions of \<open>LendingPool.sol\<close>, each with its guard, its validation and its changes in the order of the code,
  the transfer of aTokens (\<open>AToken.sol\<close>), which the pool validates, and what only the configurator may do.
  Events are not modelled.
\<close>

section \<open>Parts of the actions\<close>

definition when_not_paused :: "world \<Rightarrow> 'a call \<Rightarrow> 'a call" where
  "when_not_paused w m = sol_require (\<not> w_paused w) ''LP_IS_PAUSED'' m"

text \<open>The conversion to the enumeration of rate modes.\<close>

definition to_rate_mode :: "u256 \<Rightarrow> u256 call" where
  "to_rate_mode m = (if m \<le> 2 then Inr m else Inl Arithmetic)"

definition reserve_index :: "world \<Rightarrow> addr \<Rightarrow> nat" where
  "reserve_index w asset = unat (d_id (w_reserves w asset))"

definition use_as_collateral :: "world \<Rightarrow> addr \<Rightarrow> addr \<Rightarrow> bool \<Rightarrow> world call" where
  "use_as_collateral w asset user b =
     sol_do (setUsingAsCollateral (w_usersConfig w user) (reserve_index w asset) b) (\<lambda>conf.
     Inr (w\<lparr>w_usersConfig := (w_usersConfig w)(user := conf)\<rparr>))"

definition mark_borrowing :: "world \<Rightarrow> addr \<Rightarrow> addr \<Rightarrow> bool \<Rightarrow> world call" where
  "mark_borrowing w asset user b =
     sol_do (setBorrowing (w_usersConfig w user) (reserve_index w asset) b) (\<lambda>conf.
     Inr (w\<lparr>w_usersConfig := (w_usersConfig w)(user := conf)\<rparr>))"

text \<open>\<open>IERC20(asset).safeTransferFrom\<close>, called by the pool.\<close>

definition pull_asset :: "world \<Rightarrow> addr \<Rightarrow> addr \<Rightarrow> addr \<Rightarrow> u256 \<Rightarrow> world call" where
  "pull_asset w asset from to amount =
     sol_do (contract_at (w_assets w) asset) (\<lambda>t.
     sol_do (safely (e_transferFrom (w_pool w) from to amount t)) (\<lambda>t. Inr (put_asset w asset t)))"

text \<open>The operations of the tokens on the state.\<close>

definition mint_aTokens :: "world \<Rightarrow> addr \<Rightarrow> addr \<Rightarrow> u256 \<Rightarrow> (bool \<times> world) call" where
  "mint_aTokens w asset user amount =
     sol_do (aToken_of w asset) (\<lambda>t.
     sol_do (AToken_mint user amount (ucast (d_liquidityIndex (w_reserves w asset))) t) (\<lambda>(first, t).
     Inr (first, put_aToken w asset t)))"

definition burn_aTokens :: "world \<Rightarrow> addr \<Rightarrow> addr \<Rightarrow> addr \<Rightarrow> u256 \<Rightarrow> world call" where
  "burn_aTokens w asset user to amount =
     sol_do (aToken_of w asset) (\<lambda>t.
     sol_do (contract_at (w_assets w) asset) (\<lambda>underlying.
     sol_do (AToken_burn (d_aTokenAddress (w_reserves w asset)) user to amount
       (ucast (d_liquidityIndex (w_reserves w asset))) t underlying) (\<lambda>(t, underlying).
     Inr (put_asset (put_aToken w asset t) asset underlying))))"

definition mint_debt :: "world \<Rightarrow> addr \<Rightarrow> addr \<Rightarrow> addr \<Rightarrow> u256 \<Rightarrow> bool \<Rightarrow> (bool \<times> world) call" where
  "mint_debt w asset user onBehalfOf amount atStableRate =
     (if atStableRate
      then
        sol_do (stable_of w asset) (\<lambda>t.
        sol_do (Stable_mint (w_timestamp w) user onBehalfOf amount (ucast (d_currentStableBorrowRate (w_reserves w asset))) t)
          (\<lambda>(first, t). Inr (first, put_stable w asset t)))
      else
        sol_do (variable_of w asset) (\<lambda>t.
        sol_do (Variable_mint user onBehalfOf amount (ucast (d_variableBorrowIndex (w_reserves w asset))) t)
          (\<lambda>(first, t). Inr (first, put_variable w asset t))))"

definition burn_debt :: "world \<Rightarrow> addr \<Rightarrow> addr \<Rightarrow> u256 \<Rightarrow> bool \<Rightarrow> world call" where
  "burn_debt w asset user amount atStableRate =
     (if atStableRate
      then
        sol_do (stable_of w asset) (\<lambda>t.
        sol_do (Stable_burn (w_timestamp w) user amount t) (\<lambda>t. Inr (put_stable w asset t)))
      else
        sol_do (variable_of w asset) (\<lambda>t.
        sol_do (Variable_burn user amount (ucast (d_variableBorrowIndex (w_reserves w asset))) t)
          (\<lambda>t. Inr (put_variable w asset t))))"

definition send_underlying :: "world \<Rightarrow> addr \<Rightarrow> addr \<Rightarrow> addr \<Rightarrow> u256 \<Rightarrow> world call" where
  "send_underlying w asset aTokenAddress target amount =
     sol_do (contract_at (w_assets w) asset) (\<lambda>t.
     sol_do (AToken_transferUnderlyingTo aTokenAddress target amount t) (\<lambda>t. Inr (put_asset w asset t)))"

section \<open>The actions\<close>

definition pool_deposit :: "world \<Rightarrow> addr \<Rightarrow> addr \<Rightarrow> u256 \<Rightarrow> addr \<Rightarrow> world call" where
  "pool_deposit w sender asset amount onBehalfOf =
     when_not_paused w (
     sol_do (validateDeposit w asset amount) (\<lambda>_.
     let aToken = d_aTokenAddress (w_reserves w asset) in
     sol_do (updateState w asset) (\<lambda>w.
     sol_do (updateInterestRates w asset aToken amount 0) (\<lambda>w.
     sol_do (pull_asset w asset sender aToken amount) (\<lambda>w.
     sol_do (mint_aTokens w asset onBehalfOf amount) (\<lambda>(isFirstDeposit, w).
     if isFirstDeposit then use_as_collateral w asset onBehalfOf True else Inr w))))))"

definition pool_withdraw :: "world \<Rightarrow> addr \<Rightarrow> addr \<Rightarrow> u256 \<Rightarrow> addr \<Rightarrow> (u256 \<times> world) call" where
  "pool_withdraw w sender asset amount to =
     when_not_paused w (
     let aToken = d_aTokenAddress (w_reserves w asset) in
     sol_do (AToken_balanceOf w asset sender) (\<lambda>userBalance.
     let amountToWithdraw = (if amount = - 1 then userBalance else amount) in
     sol_do (validateWithdraw w sender asset amountToWithdraw userBalance) (\<lambda>_.
     sol_do (updateState w asset) (\<lambda>w.
     sol_do (updateInterestRates w asset aToken 0 amountToWithdraw) (\<lambda>w.
     sol_do (if amountToWithdraw = userBalance then use_as_collateral w asset sender False else Inr w) (\<lambda>w.
     sol_do (burn_aTokens w asset sender to amountToWithdraw) (\<lambda>w.
     Inr (amountToWithdraw, w))))))))"

definition executeBorrow :: "world \<Rightarrow> addr \<Rightarrow> addr \<Rightarrow> addr \<Rightarrow> u256 \<Rightarrow> u256 \<Rightarrow> addr \<Rightarrow> bool \<Rightarrow> world call" where
  "executeBorrow w asset user onBehalfOf amount interestRateMode aTokenAddress releaseUnderlying =
     sol_do (safe (value_in_eth w asset amount)) (\<lambda>amountInETH.
     sol_do (validateBorrow w asset onBehalfOf amount amountInETH interestRateMode) (\<lambda>_.
     sol_do (updateState w asset) (\<lambda>w.
     sol_do (to_rate_mode interestRateMode) (\<lambda>mode.
     sol_do (mint_debt w asset user onBehalfOf amount (mode = STABLE_MODE)) (\<lambda>(isFirstBorrowing, w).
     sol_do (if isFirstBorrowing then mark_borrowing w asset onBehalfOf True else Inr w) (\<lambda>w.
     sol_do (updateInterestRates w asset aTokenAddress 0 (if releaseUnderlying then amount else 0)) (\<lambda>w.
     if releaseUnderlying then send_underlying w asset aTokenAddress user amount else Inr w)))))))"

definition pool_borrow :: "world \<Rightarrow> addr \<Rightarrow> addr \<Rightarrow> u256 \<Rightarrow> u256 \<Rightarrow> addr \<Rightarrow> world call" where
  "pool_borrow w sender asset amount interestRateMode onBehalfOf =
     when_not_paused w (
     executeBorrow w asset sender onBehalfOf amount interestRateMode (d_aTokenAddress (w_reserves w asset)) True)"

definition pool_repay :: "world \<Rightarrow> addr \<Rightarrow> addr \<Rightarrow> u256 \<Rightarrow> u256 \<Rightarrow> addr \<Rightarrow> (u256 \<times> world) call" where
  "pool_repay w sender asset amount rateMode onBehalfOf =
     when_not_paused w (
     sol_do (getUserCurrentDebt w asset onBehalfOf) (\<lambda>(stableDebt, variableDebt).
     sol_do (to_rate_mode rateMode) (\<lambda>mode.
     sol_do (validateRepay w sender asset amount mode onBehalfOf stableDebt variableDebt) (\<lambda>_.
     let paybackAmount = (if mode = STABLE_MODE then stableDebt else variableDebt);
         paybackAmount = (if amount < paybackAmount then amount else paybackAmount) in
     sol_do (updateState w asset) (\<lambda>w.
     sol_do (burn_debt w asset onBehalfOf paybackAmount (mode = STABLE_MODE)) (\<lambda>w.
     let aToken = d_aTokenAddress (w_reserves w asset) in
     sol_do (updateInterestRates w asset aToken paybackAmount 0) (\<lambda>w.
     sol_do (safe (do { debt \<leftarrow> sol_add stableDebt variableDebt; sol_sub debt paybackAmount })) (\<lambda>debtLeft.
     sol_do (if debtLeft = 0 then mark_borrowing w asset onBehalfOf False else Inr w) (\<lambda>w.
     sol_do (pull_asset w asset sender aToken paybackAmount) (\<lambda>w.
     Inr (paybackAmount, w)))))))))))"

definition pool_swapBorrowRateMode :: "world \<Rightarrow> addr \<Rightarrow> addr \<Rightarrow> u256 \<Rightarrow> world call" where
  "pool_swapBorrowRateMode w sender asset rateMode =
     when_not_paused w (
     sol_do (getUserCurrentDebt w asset sender) (\<lambda>(stableDebt, variableDebt).
     sol_do (to_rate_mode rateMode) (\<lambda>mode.
     sol_do (validateSwapRateMode w sender asset stableDebt variableDebt mode) (\<lambda>_.
     sol_do (updateState w asset) (\<lambda>w.
     let stable = (mode = STABLE_MODE); debt = (if stable then stableDebt else variableDebt) in
     sol_do (burn_debt w asset sender debt stable) (\<lambda>w.
     sol_do (mint_debt w asset sender sender debt (\<not> stable)) (\<lambda>(_, w).
     updateInterestRates w asset (d_aTokenAddress (w_reserves w asset)) 0 0)))))))"

definition pool_rebalanceStableBorrowRate :: "world \<Rightarrow> addr \<Rightarrow> addr \<Rightarrow> world call" where
  "pool_rebalanceStableBorrowRate w asset user =
     when_not_paused w (
     sol_do (stable_of w asset) (\<lambda>t.
     sol_do (Stable_balanceOf (w_timestamp w) t user) (\<lambda>stableDebt.
     sol_do (validateRebalanceStableBorrowRate w asset) (\<lambda>_.
     sol_do (updateState w asset) (\<lambda>w.
     sol_do (burn_debt w asset user stableDebt True) (\<lambda>w.
     sol_do (mint_debt w asset user user stableDebt True) (\<lambda>(_, w).
     updateInterestRates w asset (d_aTokenAddress (w_reserves w asset)) 0 0)))))))"

definition pool_setUserUseReserveAsCollateral :: "world \<Rightarrow> addr \<Rightarrow> addr \<Rightarrow> bool \<Rightarrow> world call" where
  "pool_setUserUseReserveAsCollateral w sender asset useAsCollateral =
     when_not_paused w (
     sol_do (validateSetUseReserveAsCollateral w sender asset useAsCollateral) (\<lambda>_.
     use_as_collateral w asset sender useAsCollateral))"

section \<open>Transfers of aTokens\<close>

definition finalizeTransfer :: "world \<Rightarrow> addr \<Rightarrow> addr \<Rightarrow> addr \<Rightarrow> u256 \<Rightarrow> u256 \<Rightarrow> u256 \<Rightarrow> world call" where
  "finalizeTransfer w asset from to amount balanceFromBefore balanceToBefore =
     when_not_paused w (
     sol_do (validateTransfer w from) (\<lambda>_.
     if from \<noteq> to
     then
       sol_do (safe (sol_sub balanceFromBefore amount)) (\<lambda>left.
       sol_do (if left = 0 then use_as_collateral w asset from False else Inr w) (\<lambda>w.
       if balanceToBefore = 0 \<and> amount \<noteq> 0 then use_as_collateral w asset to True else Inr w))
     else Inr w))"

definition aToken_move :: "world \<Rightarrow> addr \<Rightarrow> addr \<Rightarrow> addr \<Rightarrow> u256 \<Rightarrow> bool \<Rightarrow> world call" where
  "aToken_move w asset from to amount validate =
     sol_do (aToken_of w asset) (\<lambda>t.
     sol_do (safe (getNormalizedIncome (w_timestamp w) (w_reserves w asset))) (\<lambda>index.
     sol_do (safe (sol_rayMul (e_balances t from) index)) (\<lambda>fromBalanceBefore.
     sol_do (safe (sol_rayMul (e_balances t to) index)) (\<lambda>toBalanceBefore.
     sol_do (safe (sol_rayDiv amount index)) (\<lambda>amountScaled.
     sol_do (e_transfer from to amountScaled t) (\<lambda>t.
     let w = put_aToken w asset t in
     if validate then finalizeTransfer w asset from to amount fromBalanceBefore toBalanceBefore else Inr w))))))"

text \<open>\<open>transfer\<close> and \<open>transferFrom\<close>.\<close>

definition aToken_transfer :: "world \<Rightarrow> addr \<Rightarrow> addr \<Rightarrow> addr \<Rightarrow> u256 \<Rightarrow> world call" where
  "aToken_transfer w sender asset recipient amount = aToken_move w asset sender recipient amount True"

definition aToken_transferFrom :: "world \<Rightarrow> addr \<Rightarrow> addr \<Rightarrow> addr \<Rightarrow> addr \<Rightarrow> u256 \<Rightarrow> world call" where
  "aToken_transferFrom w sender asset from to amount =
     sol_do (aToken_move w asset from to amount True) (\<lambda>w.
     sol_do (aToken_of w asset) (\<lambda>t.
     sol_do (sol_sub_or ''ERC20: transfer amount exceeds allowance'' (e_allowances t from sender) amount) (\<lambda>left.
     sol_do (e_approve from sender left t) (\<lambda>t.
     Inr (put_aToken w asset t)))))"

section \<open>Flash loans\<close>

definition array_at :: "'a list \<Rightarrow> nat \<Rightarrow> 'a call" where
  "array_at xs i = (if i < length xs then Inr (xs ! i) else Inl Arithmetic)"

text \<open>The first loop sends the amounts and computes the premiums.\<close>

fun flash_send :: "addr \<Rightarrow> addr list \<Rightarrow> u256 list \<Rightarrow> world \<Rightarrow> (u256 list \<times> world) call" where
  "flash_send receiver (asset # assets) (amount # amounts) w =
     sol_do (safe (do { m \<leftarrow> sol_mul amount (w_flashLoanPremiumTotal w); sol_divide m 10000 })) (\<lambda>premium.
     sol_do (send_underlying w asset (d_aTokenAddress (w_reserves w asset)) receiver amount) (\<lambda>w.
     sol_do (flash_send receiver assets amounts w) (\<lambda>(premiums, w). Inr (premium # premiums, w))))"
| "flash_send receiver _ _ w = Inr ([], w)"

text \<open>The second one takes them back, with the premiums for the treasury, or opens debts.\<close>

definition flash_settle ::
    "addr \<Rightarrow> addr \<Rightarrow> addr \<Rightarrow> addr \<Rightarrow> addr \<Rightarrow> u256 \<Rightarrow> u256 \<Rightarrow> u256 \<Rightarrow> world \<Rightarrow> world call" where
  "flash_settle sender receiver onBehalfOf aTokenAddress asset amount premium mode w =
     sol_do (safe (sol_add amount premium)) (\<lambda>_.
     sol_do (to_rate_mode mode) (\<lambda>mode.
     if mode = 0
     then
       sol_do (updateState w asset) (\<lambda>w.
       sol_do (contract_at (w_aTokens w) aTokenAddress) (\<lambda>t.
       sol_do (pull_asset w asset receiver (a_treasury t) premium) (\<lambda>w.
       sol_do (updateInterestRates w asset aTokenAddress amount 0) (\<lambda>w.
       pull_asset w asset receiver aTokenAddress amount))))
     else executeBorrow w asset sender onBehalfOf amount mode aTokenAddress False))"

fun flash_settle_all ::
    "addr \<Rightarrow> addr \<Rightarrow> addr \<Rightarrow> addr list \<Rightarrow> addr list \<Rightarrow> u256 list \<Rightarrow> u256 list \<Rightarrow> u256 list \<Rightarrow> nat list \<Rightarrow> world \<Rightarrow> world call"
where
  "flash_settle_all sender receiver onBehalfOf aTokenAddresses assets amounts premiums modes [] w = Inr w"
| "flash_settle_all sender receiver onBehalfOf aTokenAddresses assets amounts premiums modes (i # is) w =
     sol_do (array_at modes i) (\<lambda>mode.
     sol_do (flash_settle sender receiver onBehalfOf (aTokenAddresses ! i) (assets ! i) (amounts ! i) (premiums ! i) mode w)
       (flash_settle_all sender receiver onBehalfOf aTokenAddresses assets amounts premiums modes is))"

text \<open>\<open>executeOperation\<close> is the code of the receiver.\<close>

definition pool_flashLoan ::
    "(u256 list \<Rightarrow> world \<Rightarrow> (bool \<times> world) call) \<Rightarrow> world \<Rightarrow> addr \<Rightarrow> addr \<Rightarrow> addr list \<Rightarrow> u256 list \<Rightarrow> u256 list \<Rightarrow> addr
     \<Rightarrow> world call" where
  "pool_flashLoan executeOperation w sender receiver assets amounts modes onBehalfOf =
     when_not_paused w (
     sol_require (length assets = length amounts) ''VL_INCONSISTENT_FLASHLOAN_PARAMS'' (
     let aTokenAddresses = map (\<lambda>asset. d_aTokenAddress (w_reserves w asset)) assets in
     sol_do (flash_send receiver assets amounts w) (\<lambda>(premiums, w).
     sol_do (executeOperation premiums w) (\<lambda>(ok, w).
     sol_require ok ''LP_INVALID_FLASH_LOAN_EXECUTOR_RETURN'' (
     flash_settle_all sender receiver onBehalfOf aTokenAddresses assets amounts premiums modes [0..<length assets] w)))))"

section \<open>Delegation of credit\<close>

text \<open>\<open>approveDelegation\<close> of the two debt tokens (\<open>DebtTokenBase.sol\<close>).\<close>

definition Stable_approveDelegation :: "addr \<Rightarrow> addr \<Rightarrow> u256 \<Rightarrow> stable_debt \<Rightarrow> stable_debt" where
  "Stable_approveDelegation sender delegatee amount t = t\<lparr>s_borrowAllowances :=
     (s_borrowAllowances t)(sender := (s_borrowAllowances t sender)(delegatee := amount))\<rparr>"

definition Variable_approveDelegation :: "addr \<Rightarrow> addr \<Rightarrow> u256 \<Rightarrow> variable_debt \<Rightarrow> variable_debt" where
  "Variable_approveDelegation sender delegatee amount t = t\<lparr>v_borrowAllowances :=
     (v_borrowAllowances t)(sender := (v_borrowAllowances t sender)(delegatee := amount))\<rparr>"

section \<open>Initialization and the configurator\<close>

text \<open>\<open>initialize\<close>, with the constants of the deployment.\<close>

definition pool_initialize :: "world \<Rightarrow> world" where
  "pool_initialize w = w\<lparr>w_maxStableRateBorrowSizePercent := 2500, w_flashLoanPremiumTotal := 1,
     w_maxNumberOfReserves := 128\<rparr>"

definition addReserveToList :: "world \<Rightarrow> addr \<Rightarrow> world call" where
  "addReserveToList w asset =
     (let count = w_reservesCount w; r = w_reserves w asset in
      sol_require (count < w_maxNumberOfReserves w) ''LP_NO_MORE_RESERVES_ALLOWED'' (
      if d_id r \<noteq> 0 \<or> w_reservesList w 0 = asset then Inr w
      else Inr ((put_reserve w asset (r\<lparr>d_id := of_nat count\<rparr>))
        \<lparr>w_reservesList := (w_reservesList w)(count := asset), w_reservesCount := count + 1\<rparr>)))"

definition pool_initReserve :: "world \<Rightarrow> addr \<Rightarrow> addr \<Rightarrow> addr \<Rightarrow> addr \<Rightarrow> addr \<Rightarrow> world call" where
  "pool_initReserve w asset aTokenAddress stableDebtAddress variableDebtAddress interestRateStrategyAddress =
     sol_require (w_assets w asset \<noteq> None) ''LP_NOT_CONTRACT'' (
     sol_do (sol_init_reserve aTokenAddress stableDebtAddress variableDebtAddress interestRateStrategyAddress
       (w_reserves w asset)) (\<lambda>r.
     addReserveToList (put_reserve w asset r) asset))"

definition pool_setReserveInterestRateStrategyAddress :: "world \<Rightarrow> addr \<Rightarrow> addr \<Rightarrow> world" where
  "pool_setReserveInterestRateStrategyAddress w asset rateStrategyAddress =
     put_reserve w asset ((w_reserves w asset)\<lparr>d_interestRateStrategyAddress := rateStrategyAddress\<rparr>)"

definition pool_setConfiguration :: "world \<Rightarrow> addr \<Rightarrow> u256 \<Rightarrow> world" where
  "pool_setConfiguration w asset conf = put_reserve w asset ((w_reserves w asset)\<lparr>d_configuration := conf\<rparr>)"

definition pool_setPause :: "world \<Rightarrow> bool \<Rightarrow> world" where
  "pool_setPause w val = w\<lparr>w_paused := val\<rparr>"

section \<open>The collateral manager\<close>

text \<open>
  The liquidation: \<open>LendingPoolCollateralManager.sol\<close>, which the pool runs by a delegate call.
\<close>

section \<open>Validation\<close>

text \<open>The message of \<open>validateLiquidationCall\<close>, none for \<open>NO_ERROR\<close>.\<close>

definition validateLiquidationCall :: "world \<Rightarrow> addr \<Rightarrow> addr \<Rightarrow> u256 \<Rightarrow> u256 \<Rightarrow> u256 \<Rightarrow> u256 \<Rightarrow> string option call" where
  "validateLiquidationCall w collateralAsset principalAsset userConfig userHealthFactor userStableDebt userVariableDebt =
     (let collateralReserve = w_reserves w collateralAsset; principalReserve = w_reserves w principalAsset in
      if \<not> getActive (d_configuration collateralReserve) \<or> \<not> getActive (d_configuration principalReserve)
      then Inr (Some ''VL_NO_ACTIVE_RESERVE'')
      else if HEALTH_FACTOR_LIQUIDATION_THRESHOLD \<le> userHealthFactor
      then Inr (Some ''LPCM_HEALTH_FACTOR_NOT_BELOW_THRESHOLD'')
      else
        sol_do (if 0 < getLiquidationThreshold (d_configuration collateralReserve)
                then isUsingAsCollateral userConfig (reserve_index w collateralAsset) else Inr False)
          (\<lambda>isCollateralEnabled.
        Inr (if \<not> isCollateralEnabled then Some ''LPCM_COLLATERAL_CANNOT_BE_LIQUIDATED''
             else if userStableDebt = 0 \<and> userVariableDebt = 0
             then Some ''LPCM_SPECIFIED_CURRENCY_NOT_BORROWED_BY_USER'' else None)))"

section \<open>Amounts\<close>

definition LIQUIDATION_CLOSE_FACTOR_PERCENT :: u256 where "LIQUIDATION_CLOSE_FACTOR_PERCENT = 5000"

text \<open>The collateral to take and the debt that it pays.\<close>

definition calculateAvailableCollateralToLiquidate ::
    "world \<Rightarrow> addr \<Rightarrow> addr \<Rightarrow> u256 \<Rightarrow> u256 \<Rightarrow> (u256 \<times> u256) option" where
  "calculateAvailableCollateralToLiquidate w collateralAsset debtAsset debtToCover userCollateralBalance =
     (let collateralPrice = w_assetPrice w collateralAsset; debtAssetPrice = w_assetPrice w debtAsset;
          conf = d_configuration (w_reserves w collateralAsset); bonus = getLiquidationBonus conf;
          collateralUnit = 10 ^ unat (getDecimals conf);
          debtUnit = 10 ^ unat (getDecimals (d_configuration (w_reserves w debtAsset))) in
      do {
        a \<leftarrow> sol_mul debtAssetPrice debtToCover;
        b \<leftarrow> sol_mul a collateralUnit;
        c \<leftarrow> percentMul b bonus;
        d \<leftarrow> sol_mul collateralPrice debtUnit;
        maxAmountCollateralToLiquidate \<leftarrow> sol_divide c d;
        if userCollateralBalance < maxAmountCollateralToLiquidate
        then do {
          e \<leftarrow> sol_mul collateralPrice userCollateralBalance;
          f \<leftarrow> sol_mul e debtUnit;
          g \<leftarrow> sol_mul debtAssetPrice collateralUnit;
          h \<leftarrow> sol_divide f g;
          debtAmountNeeded \<leftarrow> sol_percentDiv h bonus;
          Some (userCollateralBalance, debtAmountNeeded) }
        else Some (maxAmountCollateralToLiquidate, debtToCover) })"

text \<open>What is repaid and what is taken for it.\<close>

definition liquidation_amounts ::
    "world \<Rightarrow> addr \<Rightarrow> addr \<Rightarrow> u256 \<Rightarrow> u256 \<Rightarrow> u256 \<Rightarrow> u256 \<Rightarrow> (u256 \<times> u256) option" where
  "liquidation_amounts w collateralAsset debtAsset debtToCover userStableDebt userVariableDebt userCollateralBalance =
     do {
       debt \<leftarrow> sol_add userStableDebt userVariableDebt;
       maxLiquidatableDebt \<leftarrow> percentMul debt LIQUIDATION_CLOSE_FACTOR_PERCENT;
       let actualDebtToLiquidate = (if maxLiquidatableDebt < debtToCover then maxLiquidatableDebt else debtToCover);
       (maxCollateralToLiquidate, debtAmountNeeded) \<leftarrow> calculateAvailableCollateralToLiquidate w collateralAsset
         debtAsset actualDebtToLiquidate userCollateralBalance;
       Some (if debtAmountNeeded < actualDebtToLiquidate then debtAmountNeeded else actualDebtToLiquidate,
         maxCollateralToLiquidate) }"

section \<open>The call\<close>

definition burn_liquidated :: "world \<Rightarrow> addr \<Rightarrow> addr \<Rightarrow> u256 \<Rightarrow> u256 \<Rightarrow> world call" where
  "burn_liquidated w debtAsset user actualDebtToLiquidate userVariableDebt =
     (if actualDebtToLiquidate \<le> userVariableDebt
      then burn_debt w debtAsset user actualDebtToLiquidate False
      else
        sol_do (if 0 < userVariableDebt then burn_debt w debtAsset user userVariableDebt False else Inr w) (\<lambda>w.
        sol_do (safe (sol_sub actualDebtToLiquidate userVariableDebt)) (\<lambda>stablePart.
        burn_debt w debtAsset user stablePart True)))"

definition take_collateral :: "world \<Rightarrow> addr \<Rightarrow> addr \<Rightarrow> addr \<Rightarrow> u256 \<Rightarrow> bool \<Rightarrow> world call" where
  "take_collateral w sender collateralAsset user amount receiveAToken =
     (let aTokenAddress = d_aTokenAddress (w_reserves w collateralAsset) in
      if receiveAToken
      then
        sol_do (AToken_balanceOf w collateralAsset sender) (\<lambda>previous.
        sol_do (aToken_move w collateralAsset user sender amount False) (\<lambda>w.
        if previous = 0 then use_as_collateral w collateralAsset sender True else Inr w))
      else
        sol_do (updateState w collateralAsset) (\<lambda>w.
        sol_do (updateInterestRates w collateralAsset aTokenAddress 0 amount) (\<lambda>w.
        burn_aTokens w collateralAsset user sender amount)))"

definition manager_liquidationCall ::
    "world \<Rightarrow> addr \<Rightarrow> addr \<Rightarrow> addr \<Rightarrow> addr \<Rightarrow> u256 \<Rightarrow> bool \<Rightarrow> (string option \<times> world) call" where
  "manager_liquidationCall w sender collateralAsset debtAsset user debtToCover receiveAToken =
     sol_do (calculateUserAccountData w user (w_usersConfig w user)) (\<lambda>d.
     sol_do (getUserCurrentDebt w debtAsset user) (\<lambda>(userStableDebt, userVariableDebt).
     sol_do (validateLiquidationCall w collateralAsset debtAsset (w_usersConfig w user) (ad_health d) userStableDebt
       userVariableDebt) (\<lambda>errorMsg.
     if errorMsg \<noteq> None then Inr (errorMsg, w)
     else
       sol_do (AToken_balanceOf w collateralAsset user) (\<lambda>userCollateralBalance.
       sol_do (safe (liquidation_amounts w collateralAsset debtAsset debtToCover userStableDebt userVariableDebt
         userCollateralBalance)) (\<lambda>(actualDebtToLiquidate, maxCollateralToLiquidate).
       sol_do (if receiveAToken then Inr True
               else sol_do (contract_at (w_assets w) collateralAsset) (\<lambda>t.
                 Inr (maxCollateralToLiquidate \<le> e_balances t (d_aTokenAddress (w_reserves w collateralAsset)))))
         (\<lambda>enough.
       if \<not> enough then Inr (Some ''LPCM_NOT_ENOUGH_LIQUIDITY_TO_LIQUIDATE'', w)
       else
         sol_do (updateState w debtAsset) (\<lambda>w.
         sol_do (burn_liquidated w debtAsset user actualDebtToLiquidate userVariableDebt) (\<lambda>w.
         sol_do (updateInterestRates w debtAsset (d_aTokenAddress (w_reserves w debtAsset)) actualDebtToLiquidate 0)
           (\<lambda>w.
         sol_do (take_collateral w sender collateralAsset user maxCollateralToLiquidate receiveAToken) (\<lambda>w.
         sol_do (if maxCollateralToLiquidate = userCollateralBalance
                 then use_as_collateral w collateralAsset user False else Inr w) (\<lambda>w.
         sol_do (pull_asset w debtAsset sender (d_aTokenAddress (w_reserves w debtAsset)) actualDebtToLiquidate) (\<lambda>w.
         Inr (None, w)))))))))))))"

definition pool_liquidationCall :: "world \<Rightarrow> addr \<Rightarrow> addr \<Rightarrow> addr \<Rightarrow> addr \<Rightarrow> u256 \<Rightarrow> bool \<Rightarrow> world call" where
  "pool_liquidationCall w sender collateralAsset debtAsset user debtToCover receiveAToken =
     when_not_paused w (
     case manager_liquidationCall w sender collateralAsset debtAsset user debtToCover receiveAToken of
       Inl _ \<Rightarrow> Inl (Reason ''LP_LIQUIDATION_CALL_FAILED'')
     | Inr (Some returnMessage, _) \<Rightarrow> Inl (Reason returnMessage)
     | Inr (None, w) \<Rightarrow> Inr w)"

end
