(* ===== verification/PoolRules.thy ===== *)
theory PoolRules
  imports LendingPoolContract CalculationRules
begin

text \<open>
  What the operations of the tokens keep, and the locale \<open>pool_relation\<close>: a relation between the states before
  and after that the parts of the actions keep, the actions keep.
\<close>

section \<open>Tokens\<close>

text \<open>What all holders have together.\<close>

definition sum_held :: "(addr \<Rightarrow> u256) \<Rightarrow> nat" where
  "sum_held f = (\<Sum>a \<in> UNIV. unat (f a))"

abbreviation held :: "'a erc20_scheme \<Rightarrow> nat" where
  "held t \<equiv> sum_held (e_balances t)"

lemma sum_held_upd: "sum_held (f(x := v)) + unat (f x) = sum_held f + unat v"
  by (simp add: sum_held_def sum.remove [of UNIV x])

lemma sum_held_le: "unat (f x) \<le> sum_held f"
  by (simp add: sum_held_def sum.remove [of UNIV x])

lemma sol_sub_orD: "sol_sub_or reason a b = Inr r \<Longrightarrow> unat b \<le> unat a \<and> unat r = unat a - unat b"
  by (auto simp: sol_sub_or_def call_simps word_le_nat_alt unat_sub)

text \<open>Tokens that differ in balances and supply only.\<close>

lemma e_mint_held:
  assumes "e_mint a x t = Inr t'"
  shows "held t' = held t + unat x \<and> unat (e_totalSupply t') = unat (e_totalSupply t) + unat x
    \<and> unat (e_balances t' a) = unat (e_balances t a) + unat x
    \<and> t' = t\<lparr>e_totalSupply := e_totalSupply t', e_balances := (e_balances t)(a := e_balances t' a)\<rparr>"
proof -
  from assms obtain s b where s: "sol_add (e_totalSupply t) x = Some s" and b: "sol_add (e_balances t a) x = Some b"
    and t': "t' = t\<lparr>e_totalSupply := s, e_balances := (e_balances t)(a := b)\<rparr>"
    by (auto simp: e_mint_def call_simps)
  show ?thesis using sol_addD [OF s] sol_addD [OF b] sum_held_upd [of "e_balances t" a b] by (simp add: t')
qed

lemma e_burn_held:
  assumes "e_burn a x t = Inr t'"
  shows "held t' + unat x = held t \<and> unat (e_totalSupply t') + unat x = unat (e_totalSupply t)
    \<and> unat (e_balances t' a) + unat x = unat (e_balances t a)
    \<and> t' = t\<lparr>e_totalSupply := e_totalSupply t', e_balances := (e_balances t)(a := e_balances t' a)\<rparr>"
proof -
  from assms obtain s b where s: "sol_sub (e_totalSupply t) x = Some s"
    and b: "sol_sub_or ''ERC20: burn amount exceeds balance'' (e_balances t a) x = Inr b"
    and t': "t' = t\<lparr>e_totalSupply := s, e_balances := (e_balances t)(a := b)\<rparr>"
    by (auto simp: e_burn_def call_simps)
  show ?thesis using sol_subD [OF s] sol_sub_orD [OF b] sum_held_upd [of "e_balances t" a b]
    by (auto simp: t')
qed

lemma e_transfer_held:
  assumes "e_transfer a b x t = Inr t'"
  shows "held t' = held t \<and> t' = t\<lparr>e_balances := e_balances t'\<rparr>"
proof -
  from assms obtain less more where l: "sol_sub_or ''ERC20: transfer amount exceeds balance'' (e_balances t a) x = Inr less"
    and m: "sol_add (((e_balances t)(a := less)) b) x = Some more"
    and t': "t' = t\<lparr>e_balances := ((e_balances t)(a := less))(b := more)\<rparr>"
    by (auto simp: e_transfer_def call_simps Let_def)
  show ?thesis
    using sol_sub_orD [OF l] sol_addD [OF m] sum_held_upd [of "e_balances t" a less]
      sum_held_upd [of "(e_balances t)(a := less)" b more]
    by (auto simp: t' simp del: fun_upd_apply)
qed

lemma e_approve_held: "e_approve a b x t = Inr t' \<Longrightarrow> t' = t\<lparr>e_allowances := e_allowances t'\<rparr>"
  by (auto simp: e_approve_def call_simps)

lemma e_transferFrom_held:
  assumes "e_transferFrom c a b x t = Inr t'"
  shows "held t' = held t"
proof -
  from assms obtain t1 l where "e_transfer a b x t = Inr t1" "e_approve a c l t1 = Inr t'"
    by (auto simp: e_transferFrom_def call_simps)
  then show ?thesis using e_transfer_held [of a b x t t1] e_approve_held [of a c l t1 t'] by (metis erc20.select_convs(1) erc20.surjective erc20.update_convs(3))
qed

section \<open>Relations that the actions keep\<close>

text \<open>
  The interface of the parts of the actions: a relation of the state before and after that they keep, the
  opening of debts and the bits for borrowing apart. The actions that open no debt keep it.
\<close>

locale passive_relation =
  fixes R :: "world \<Rightarrow> world \<Rightarrow> bool"
  assumes refl: "R w w"
    and trans: "R u v \<Longrightarrow> R v w \<Longrightarrow> R u w"
    and state: "updateState w asset = Inr w' \<Longrightarrow> R w w'"
    and rates: "updateInterestRates w asset a x y = Inr w' \<Longrightarrow> R w w'"
    and pull: "pull_asset w asset from to x = Inr w' \<Longrightarrow> R w w'"
    and send: "send_underlying w asset a to x = Inr w' \<Longrightarrow> R w w'"
    and mint: "mint_aTokens w asset user x = Inr (b, w') \<Longrightarrow> R w w'"
    and burn: "burn_aTokens w asset user to x = Inr w' \<Longrightarrow> R w w'"
    and burn_debt: "burn_debt w asset user x st = Inr w' \<Longrightarrow> R w w'"
    and collateral: "use_as_collateral w asset user b = Inr w' \<Longrightarrow> R w w'"
    and move: "aToken_of w asset = Inr t \<Longrightarrow> e_transfer from to x t = Inr t' \<Longrightarrow> R w (put_aToken w asset t')"
    and approve: "aToken_of w asset = Inr t \<Longrightarrow> e_approve from to x t = Inr t' \<Longrightarrow> R w (put_aToken w asset t')"
begin

lemmas parts = state rates pull send mint burn burn_debt collateral

lemma deposit: "pool_deposit w sender asset amount user = Inr w' \<Longrightarrow> R w w'"
  by (auto simp: pool_deposit_def when_not_paused_def call_simps Let_def dest!: parts) (metis trans)+

lemma withdraw: "pool_withdraw w sender asset amount to = Inr (x, w') \<Longrightarrow> R w w'"
  by (auto simp: pool_withdraw_def when_not_paused_def call_simps Let_def dest!: parts) (metis trans)+

lemma set_collateral: "pool_setUserUseReserveAsCollateral w sender asset b = Inr w' \<Longrightarrow> R w w'"
  by (auto simp: pool_setUserUseReserveAsCollateral_def when_not_paused_def call_simps dest!: collateral)

lemma finalize: "finalizeTransfer w asset from to amount x y = Inr w' \<Longrightarrow> R w w'"
  by (auto simp: finalizeTransfer_def when_not_paused_def call_simps refl dest!: collateral) (metis trans)+

lemma aToken_moved: "aToken_move w asset from to amount validate = Inr w' \<Longrightarrow> R w w'"
  by (auto simp: aToken_move_def call_simps Let_def dest!: move finalize) (metis trans)+

lemma transferFrom: "aToken_transferFrom w sender asset from to amount = Inr w' \<Longrightarrow> R w w'"
  by (auto simp: aToken_transferFrom_def call_simps dest!: aToken_moved approve) (metis trans)+

lemma burn_liquidated: "burn_liquidated w asset user x y = Inr w' \<Longrightarrow> R w w'"
  by (auto simp: burn_liquidated_def call_simps dest!: burn_debt) (metis trans)+

lemma take_collateral: "take_collateral w sender asset user x receive = Inr w' \<Longrightarrow> R w w'"
  by (auto simp: take_collateral_def call_simps Let_def dest!: aToken_moved parts) (metis trans)+

lemma manager: "manager_liquidationCall w sender ca da user x receive = Inr (msg, w') \<Longrightarrow> R w w'"
  by (auto simp: manager_liquidationCall_def call_simps refl dest!: burn_liquidated take_collateral parts)
    (metis trans)+

lemma liquidation: "pool_liquidationCall w sender ca da user x receive = Inr w' \<Longrightarrow> R w w'"
  by (auto simp: pool_liquidationCall_def when_not_paused_def call_simps split: sum.splits option.splits
      dest!: manager)

lemma flash_sent: "flash_send receiver as xs w = Inr (ps, w') \<Longrightarrow> R w w'"
proof (induction receiver as xs w arbitrary: ps w' rule: flash_send.induct)
  case (1 receiver asset as amount xs w)
  then show ?case by (auto simp: call_simps dest!: send) (metis trans)
qed (simp_all add: refl)

end

text \<open>With the actions that change debts: every action keeps it.\<close>

locale action_relation = passive_relation +
  assumes execute: "executeBorrow w asset user user' amount mode a release = Inr w' \<Longrightarrow> R w w'"
    and repay: "pool_repay w sender asset amount mode user = Inr (y, w') \<Longrightarrow> R w w'"
    and swap: "pool_swapBorrowRateMode w sender asset mode = Inr w' \<Longrightarrow> R w w'"
    and rebalance: "pool_rebalanceStableBorrowRate w asset user = Inr w' \<Longrightarrow> R w w'"
begin

lemma borrow: "pool_borrow w sender asset amount mode user = Inr w' \<Longrightarrow> R w w'"
  by (auto simp: pool_borrow_def when_not_paused_def call_simps dest!: execute)

lemma flash_settled: "flash_settle sender receiver user a asset x p mode w = Inr w' \<Longrightarrow> R w w'"
  by (auto simp: flash_settle_def call_simps dest!: execute parts) (metis trans)+

lemma flash_settled_all: "flash_settle_all sender receiver user as assets xs ps modes is w = Inr w' \<Longrightarrow> R w w'"
proof (induction "is" arbitrary: w)
  case (Cons i js)
  then show ?case by (auto simp: call_simps dest!: flash_settled) (metis trans)
qed (simp add: refl)

lemma flash_lent:
  assumes "pool_flashLoan ex w sender receiver assets amounts modes user = Inr w'"
    and "\<And>ps u ok v. ex ps u = Inr (ok, v) \<Longrightarrow> R u v"
  shows "R w w'"
  using assms(1) by (auto simp: pool_flashLoan_def when_not_paused_def call_simps Let_def
      dest!: flash_sent flash_settled_all assms(2)) (metis trans)+

end

text \<open>When the opening of debts and the bits for borrowing keep it too, the actions that change debts do.\<close>

locale pool_relation = passive_relation +
  assumes mint_debt: "mint_debt w asset user user' x st = Inr (b, w') \<Longrightarrow> R w w'"
    and borrowing: "mark_borrowing w asset user b = Inr w' \<Longrightarrow> R w w'"
begin

lemma execute_kept: "executeBorrow w asset user user' amount mode a release = Inr w' \<Longrightarrow> R w w'"
  by (auto simp: executeBorrow_def call_simps Let_def dest!: parts mint_debt borrowing) (metis trans)+

lemma repay_kept: "pool_repay w sender asset amount mode user = Inr (x, w') \<Longrightarrow> R w w'"
  by (auto simp: pool_repay_def when_not_paused_def call_simps Let_def dest!: parts mint_debt borrowing) (metis trans)+

lemma swap_kept: "pool_swapBorrowRateMode w sender asset mode = Inr w' \<Longrightarrow> R w w'"
  by (auto simp: pool_swapBorrowRateMode_def when_not_paused_def call_simps Let_def dest!: parts mint_debt borrowing) (metis trans)+

lemma rebalance_kept: "pool_rebalanceStableBorrowRate w asset user = Inr w' \<Longrightarrow> R w w'"
  by (auto simp: pool_rebalanceStableBorrowRate_def when_not_paused_def call_simps Let_def dest!: parts mint_debt borrowing) (metis trans)+

end

sublocale pool_relation \<subseteq> action_relation
  by unfold_locales (auto dest: execute_kept repay_kept swap_kept rebalance_kept)

end
