(* ===== verification/PoolConfigurator.thy ===== *)
theory PoolConfigurator
  imports LendingPoolContract
begin

text \<open>
  \<open>LendingPoolConfigurator.sol\<close>, the contract through which the pool admin initializes and configures reserves,
  and the loop of \<open>ATokensAndRatesHelper.sol\<close> to which \<open>configureReservesByHelper\<close> sends its batches. The upgrades
  of the tokens' implementations are not modelled.
\<close>

section \<open>Admins\<close>

definition only_pool_admin :: "world \<Rightarrow> addr \<Rightarrow> 'a call \<Rightarrow> 'a call" where
  "only_pool_admin w sender m = sol_require (w_poolAdmin w = sender) ''CALLER_NOT_POOL_ADMIN'' m"

definition only_emergency_admin :: "world \<Rightarrow> addr \<Rightarrow> 'a call \<Rightarrow> 'a call" where
  "only_emergency_admin w sender m = sol_require (w_emergencyAdmin w = sender) ''LPC_CALLER_NOT_EMERGENCY_ADMIN'' m"

definition configuration_of :: "world \<Rightarrow> addr \<Rightarrow> u256" where
  "configuration_of w asset = d_configuration (w_reserves w asset)"

section \<open>Initialization\<close>

text \<open>
  New proxies have no balances; \<open>a\<close>, \<open>s\<close> and \<open>v\<close> are their addresses.
\<close>

definition fresh_aToken :: "addr \<Rightarrow> a_token" where
  "fresh_aToken treasury = \<lparr> e_balances = (\<lambda>_. 0), e_totalSupply = 0, e_allowances = (\<lambda>_ _. 0), a_treasury = treasury \<rparr>"

definition fresh_stable :: stable_debt where
  "fresh_stable = \<lparr> e_balances = (\<lambda>_. 0), e_totalSupply = 0, e_allowances = (\<lambda>_ _. 0), s_borrowAllowances = (\<lambda>_ _. 0),
     s_avgStableRate = 0, s_timestamps = (\<lambda>_. 0), s_usersStableRate = (\<lambda>_. 0), s_totalSupplyTimestamp = 0 \<rparr>"

definition fresh_variable :: variable_debt where
  "fresh_variable = \<lparr> e_balances = (\<lambda>_. 0), e_totalSupply = 0, e_allowances = (\<lambda>_ _. 0),
     v_borrowAllowances = (\<lambda>_ _. 0) \<rparr>"

definition create_tokens :: "world \<Rightarrow> addr \<Rightarrow> addr \<Rightarrow> addr \<Rightarrow> addr \<Rightarrow> world" where
  "create_tokens w treasury a s v = w\<lparr>w_aTokens := (w_aTokens w)(a \<mapsto> fresh_aToken treasury),
     w_stableDebts := (w_stableDebts w)(s \<mapsto> fresh_stable), w_variableDebts := (w_variableDebts w)(v \<mapsto> fresh_variable)\<rparr>"

definition conf_initReserve ::
    "world \<Rightarrow> addr \<Rightarrow> addr \<Rightarrow> u256 \<Rightarrow> addr \<Rightarrow> addr \<Rightarrow> addr \<Rightarrow> addr \<Rightarrow> addr \<Rightarrow> world call" where
  "conf_initReserve w sender underlyingAsset underlyingAssetDecimals interestRateStrategyAddress treasury a s v =
     only_pool_admin w sender (
     sol_do (pool_initReserve (create_tokens w treasury a s v) underlyingAsset a s v interestRateStrategyAddress) (\<lambda>w.
     sol_do (setDecimals (configuration_of w underlyingAsset) underlyingAssetDecimals) (\<lambda>currentConfig.
     Inr (pool_setConfiguration w underlyingAsset (setFrozen (setActive currentConfig True) False)))))"

section \<open>Configuration\<close>

definition checkNoLiquidity :: "world \<Rightarrow> addr \<Rightarrow> unit call" where
  "checkNoLiquidity w asset =
     (let r = w_reserves w asset in
      sol_do (contract_at (w_assets w) asset) (\<lambda>t.
      sol_require (e_balances t (d_aTokenAddress r) = 0 \<and> d_currentLiquidityRate r = 0) ''LPC_RESERVE_LIQUIDITY_NOT_0''
        (Inr ())))"

definition conf_enableBorrowingOnReserve :: "world \<Rightarrow> addr \<Rightarrow> addr \<Rightarrow> bool \<Rightarrow> world call" where
  "conf_enableBorrowingOnReserve w sender asset stableIsEnabled =
     only_pool_admin w sender (Inr (pool_setConfiguration w asset
       (setStableRateBorrowingEnabled (setBorrowingEnabled (configuration_of w asset) True) stableIsEnabled)))"

definition conf_disableBorrowingOnReserve :: "world \<Rightarrow> addr \<Rightarrow> addr \<Rightarrow> world call" where
  "conf_disableBorrowingOnReserve w sender asset =
     only_pool_admin w sender (Inr (pool_setConfiguration w asset (setBorrowingEnabled (configuration_of w asset) False)))"

definition conf_configureReserveAsCollateral :: "world \<Rightarrow> addr \<Rightarrow> addr \<Rightarrow> u256 \<Rightarrow> u256 \<Rightarrow> u256 \<Rightarrow> world call" where
  "conf_configureReserveAsCollateral w sender asset ltv threshold bonus =
     only_pool_admin w sender (
     let currentConfig = configuration_of w asset in
     sol_require (ltv \<le> threshold) ''LPC_INVALID_CONFIGURATION'' (
     sol_do (if threshold \<noteq> 0
             then
               sol_require (10000 < bonus) ''LPC_INVALID_CONFIGURATION'' (
               sol_do (safe (percentMul threshold bonus)) (\<lambda>m.
               sol_require (m \<le> 10000) ''LPC_INVALID_CONFIGURATION'' (Inr ())))
             else sol_require (bonus = 0) ''LPC_INVALID_CONFIGURATION'' (checkNoLiquidity w asset)) (\<lambda>_.
     sol_do (setLtv currentConfig ltv) (\<lambda>currentConfig.
     sol_do (setLiquidationThreshold currentConfig threshold) (\<lambda>currentConfig.
     sol_do (setLiquidationBonus currentConfig bonus) (\<lambda>currentConfig.
     Inr (pool_setConfiguration w asset currentConfig)))))))"

definition conf_setStableRate :: "world \<Rightarrow> addr \<Rightarrow> addr \<Rightarrow> bool \<Rightarrow> world call" where
  "conf_setStableRate w sender asset b =
     only_pool_admin w sender (Inr (pool_setConfiguration w asset
       (setStableRateBorrowingEnabled (configuration_of w asset) b)))"

definition conf_activateReserve :: "world \<Rightarrow> addr \<Rightarrow> addr \<Rightarrow> world call" where
  "conf_activateReserve w sender asset =
     only_pool_admin w sender (Inr (pool_setConfiguration w asset (setActive (configuration_of w asset) True)))"

definition conf_deactivateReserve :: "world \<Rightarrow> addr \<Rightarrow> addr \<Rightarrow> world call" where
  "conf_deactivateReserve w sender asset =
     only_pool_admin w sender (
     sol_do (checkNoLiquidity w asset) (\<lambda>_.
     Inr (pool_setConfiguration w asset (setActive (configuration_of w asset) False))))"

definition conf_setFrozen :: "world \<Rightarrow> addr \<Rightarrow> addr \<Rightarrow> bool \<Rightarrow> world call" where
  "conf_setFrozen w sender asset b =
     only_pool_admin w sender (Inr (pool_setConfiguration w asset (setFrozen (configuration_of w asset) b)))"

definition conf_setReserveFactor :: "world \<Rightarrow> addr \<Rightarrow> addr \<Rightarrow> u256 \<Rightarrow> world call" where
  "conf_setReserveFactor w sender asset factor =
     only_pool_admin w sender (
     sol_do (setReserveFactor (configuration_of w asset) factor) (\<lambda>currentConfig.
     Inr (pool_setConfiguration w asset currentConfig)))"

definition conf_setReserveInterestRateStrategyAddress :: "world \<Rightarrow> addr \<Rightarrow> addr \<Rightarrow> addr \<Rightarrow> world call" where
  "conf_setReserveInterestRateStrategyAddress w sender asset rateStrategyAddress =
     only_pool_admin w sender (Inr (pool_setReserveInterestRateStrategyAddress w asset rateStrategyAddress))"

definition conf_setPoolPause :: "world \<Rightarrow> addr \<Rightarrow> bool \<Rightarrow> world call" where
  "conf_setPoolPause w sender val = only_emergency_admin w sender (Inr (pool_setPause w val))"

section \<open>The helper\<close>

record configure_reserve_input =
  ci_asset :: addr
  ci_baseLTV :: u256
  ci_liquidationThreshold :: u256
  ci_liquidationBonus :: u256
  ci_reserveFactor :: u256
  ci_stableBorrowingEnabled :: bool

text \<open>\<open>helper\<close> is the address of the helper contract, the pool admin while it runs.\<close>

definition configure_one :: "addr \<Rightarrow> configure_reserve_input \<Rightarrow> world \<Rightarrow> world call" where
  "configure_one helper input w =
     sol_do (conf_configureReserveAsCollateral w helper (ci_asset input) (ci_baseLTV input)
       (ci_liquidationThreshold input) (ci_liquidationBonus input)) (\<lambda>w.
     sol_do (conf_enableBorrowingOnReserve w helper (ci_asset input) (ci_stableBorrowingEnabled input)) (\<lambda>w.
     conf_setReserveFactor w helper (ci_asset input) (ci_reserveFactor input)))"

fun helper_configureReserves :: "addr \<Rightarrow> configure_reserve_input list \<Rightarrow> world \<Rightarrow> world call" where
  "helper_configureReserves helper [] w = Inr w"
| "helper_configureReserves helper (input # inputs) w =
     sol_do (configure_one helper input w) (helper_configureReserves helper inputs)"

end
