(* ===== verification/PoolInvariants.thy ===== *)
theory PoolInvariants
  imports PoolRules PoolConfigurator
begin

text \<open>
  The histories of the pool, its actions, those of its admins, flash loans and what happens outside of it, with the locale
  \<open>history_relation\<close>: what every step keeps, a history keeps. Then what the actions keep: the identity of the reserves and the
  growth of their indexes, and the books of the tokens, instances of \<open>pool_relation\<close> and \<open>history_relation\<close>.
\<close>

section \<open>Steps\<close>

text \<open>The actions of users, with arbitrary senders and arguments, those that succeed.\<close>

inductive pool_action :: "world \<Rightarrow> world \<Rightarrow> bool" where
  deposit: "pool_deposit w sender asset amount user = Inr w' \<Longrightarrow> pool_action w w'"
| withdraw: "pool_withdraw w sender asset amount to = Inr (x, w') \<Longrightarrow> pool_action w w'"
| borrow: "pool_borrow w sender asset amount mode user = Inr w' \<Longrightarrow> pool_action w w'"
| repay: "pool_repay w sender asset amount mode user = Inr (x, w') \<Longrightarrow> pool_action w w'"
| swap: "pool_swapBorrowRateMode w sender asset mode = Inr w' \<Longrightarrow> pool_action w w'"
| rebalance: "pool_rebalanceStableBorrowRate w asset user = Inr w' \<Longrightarrow> pool_action w w'"
| collateral: "pool_setUserUseReserveAsCollateral w sender asset b = Inr w' \<Longrightarrow> pool_action w w'"
| liquidation: "pool_liquidationCall w sender ca da user x receive = Inr w' \<Longrightarrow> pool_action w w'"
| transfer: "aToken_transfer w sender asset to amount = Inr w' \<Longrightarrow> pool_action w w'"
| transferFrom: "aToken_transferFrom w sender asset from to amount = Inr w' \<Longrightarrow> pool_action w w'"

text \<open>What admins do through the configurator.\<close>

inductive admin_step :: "world \<Rightarrow> world \<Rightarrow> bool" where
  init: "w_aTokens w a = None \<Longrightarrow> w_stableDebts w s = None \<Longrightarrow> w_variableDebts w v = None \<Longrightarrow>
    a \<noteq> 0 \<Longrightarrow> s \<noteq> 0 \<Longrightarrow> v \<noteq> 0 \<Longrightarrow> conf_initReserve w sender asset decimals strat treasury a s v = Inr w' \<Longrightarrow> admin_step w w'"
| enable: "conf_enableBorrowingOnReserve w sender asset b = Inr w' \<Longrightarrow> admin_step w w'"
| disable: "conf_disableBorrowingOnReserve w sender asset = Inr w' \<Longrightarrow> admin_step w w'"
| configure: "conf_configureReserveAsCollateral w sender asset l t b = Inr w' \<Longrightarrow> admin_step w w'"
| stable_rate: "conf_setStableRate w sender asset b = Inr w' \<Longrightarrow> admin_step w w'"
| activate: "conf_activateReserve w sender asset = Inr w' \<Longrightarrow> admin_step w w'"
| deactivate: "conf_deactivateReserve w sender asset = Inr w' \<Longrightarrow> admin_step w w'"
| freeze: "conf_setFrozen w sender asset b = Inr w' \<Longrightarrow> admin_step w w'"
| reserve_factor: "conf_setReserveFactor w sender asset f = Inr w' \<Longrightarrow> admin_step w w'"
| strategy: "conf_setReserveInterestRateStrategyAddress w sender asset strat = Inr w' \<Longrightarrow> admin_step w w'"
| pause: "conf_setPoolPause w sender b = Inr w' \<Longrightarrow> admin_step w w'"

text \<open>
  What happens besides: time passes, the oracles answer otherwise, strategies are deployed, the underlying assets
  move, are approved, minted and burnt, aTokens are approved, credit is delegated. Times have 40 bits, as the timestamps of the reserves have.
\<close>

inductive outside_step :: "world \<Rightarrow> world \<Rightarrow> bool" where
  clock: "w_timestamp w \<le> now \<Longrightarrow> now < 2 ^ 40 \<Longrightarrow> outside_step w (w\<lparr>w_timestamp := now\<rparr>)"
| oracles: "outside_step w (w\<lparr>w_assetPrice := p, w_marketBorrowRate := m\<rparr>)"
| strategies: "outside_step w (w\<lparr>w_strategies := (w_strategies w)(a \<mapsto> st)\<rparr>)"
| asset_moved: "w_assets w asset = Some t \<Longrightarrow> e_transfer from to x t = Inr t' \<Longrightarrow> outside_step w (put_asset w asset t')"
| asset_approved: "w_assets w asset = Some t \<Longrightarrow> e_approve from to x t = Inr t' \<Longrightarrow> outside_step w (put_asset w asset t')"
| asset_minted: "w_assets w asset = Some t \<Longrightarrow> e_mint to x t = Inr t' \<Longrightarrow> outside_step w (put_asset w asset t')"
| asset_burnt: "w_assets w asset = Some t \<Longrightarrow> e_burn from x t = Inr t' \<Longrightarrow> outside_step w (put_asset w asset t')"
| aToken_approved: "aToken_of w asset = Inr t \<Longrightarrow> e_approve from to x t = Inr t' \<Longrightarrow> outside_step w (put_aToken w asset t')"
| stable_delegated: "stable_of w asset = Inr t \<Longrightarrow>
    outside_step w (put_stable w asset (Stable_approveDelegation sender to x t))"
| variable_delegated: "variable_of w asset = Inr t \<Longrightarrow>
    outside_step w (put_variable w asset (Variable_approveDelegation sender to x t))"

section \<open>Histories\<close>

text \<open>The receiver of a flash loan runs a history of its own before it returns.\<close>

inductive pool_history :: "world \<Rightarrow> world \<Rightarrow> bool" where
  begin_history: "pool_history w w"
| action: "pool_history u v \<Longrightarrow> pool_action v w \<Longrightarrow> pool_history u w"
| admin: "pool_history u v \<Longrightarrow> admin_step v w \<Longrightarrow> pool_history u w"
| outside: "pool_history u v \<Longrightarrow> outside_step v w \<Longrightarrow> pool_history u w"
| flashLoan: "pool_history u v \<Longrightarrow> (\<And>ps a ok b. receive ps a = Inr (ok, b) \<Longrightarrow> pool_history a b) \<Longrightarrow>
    pool_flashLoan receive v sender receiver assets amounts modes user = Inr w \<Longrightarrow> pool_history u w"

locale history_relation = action_relation +
  assumes admin_kept: "admin_step w w' \<Longrightarrow> R w w'"
    and outside_kept: "outside_step w w' \<Longrightarrow> R w w'"
begin

lemma action_kept: "pool_action w w' \<Longrightarrow> R w w'"
  by (induction rule: pool_action.induct)
    (auto simp: aToken_transfer_def dest: deposit withdraw borrow repay swap rebalance set_collateral liquidation
      transferFrom aToken_moved)

lemma kept_by_history: "pool_history u w \<Longrightarrow> R u w"
proof (induction rule: pool_history.induct)
  case (flashLoan u v receive sender receiver assets amounts modes user w)
  from flashLoan.hyps flashLoan.IH show ?case by (meson flash_lent trans)
qed (metis refl trans action_kept admin_kept outside_kept)+

end

section \<open>Words of 128 and 256 bits\<close>

lemma unat_u128 [simp]: "unat (ucast i :: u256) = unat i" for i :: "128 word"
  by transfer simp

lemma unat_max_uint128: "unat max_uint128 = 2 ^ 128 - 1"
  by (simp add: max_uint128_def)

lemma unat_to_u128: "x \<le> max_uint128 \<Longrightarrow> unat (ucast x :: 128 word) = unat x" for x :: u256
  by (simp add: word_le_nat_alt unat_max_uint128 unsigned_ucast_eq unsigned_take_bit_eq take_bit_nat_eq_self_iff)

section \<open>Interest is never negative\<close>

lemma linear_at_least_ray: "sol_calculateLinearInterest now rate since = Some c \<Longrightarrow> 10 ^ 27 \<le> unat c"
  by (auto dest!: sol_linear_interest)

lemma compounded_at_least_ray: "sol_calculateCompoundedInterest rate since now = Some c \<Longrightarrow> 10 ^ 27 \<le> unat c"
  by (auto dest!: sol_compounded_interest simp: compounded_def Let_def)

lemma rayMul_grows:
  assumes "sol_rayMul a b = Some r"
  shows "10 ^ 27 \<le> unat a \<Longrightarrow> unat b \<le> unat r" and "10 ^ 27 \<le> unat b \<Longrightarrow> unat a \<le> unat r"
proof -
  have r: "unat r = nearest_div (unat a * unat b) (10 ^ 27)" by (rule sol_fixed_pointD(1) [OF assms])
  have n: "x \<le> nearest_div (y * x) (10 ^ 27)" if "10 ^ 27 \<le> y" for x y
  proof -
    have "x * 10 ^ 27 \<le> y * x" using that by (simp add: mult.commute)
    from nearest_div_mono [OF this, of "10 ^ 27"] show ?thesis by simp
  qed
  show "10 ^ 27 \<le> unat a \<Longrightarrow> unat b \<le> unat r" unfolding r by (rule n)
  show "10 ^ 27 \<le> unat b \<Longrightarrow> unat a \<le> unat r" unfolding r mult.commute [of "unat a"] by (rule n)
qed

section \<open>Identity and growth of the reserves\<close>

definition same_reserve :: "sol_reserve \<Rightarrow> sol_reserve \<Rightarrow> bool" where
  "same_reserve r r' \<longleftrightarrow> r' = r\<lparr>d_liquidityIndex := d_liquidityIndex r', d_variableBorrowIndex := d_variableBorrowIndex r',
     d_currentLiquidityRate := d_currentLiquidityRate r', d_currentVariableBorrowRate := d_currentVariableBorrowRate r',
     d_currentStableBorrowRate := d_currentStableBorrowRate r', d_lastUpdateTimestamp := d_lastUpdateTimestamp r'\<rparr>
   \<and> unat (d_liquidityIndex r) \<le> unat (d_liquidityIndex r')
   \<and> unat (d_variableBorrowIndex r) \<le> unat (d_variableBorrowIndex r')"

lemma same_reserve_refl [simp]: "same_reserve r r"
  by (simp add: same_reserve_def)

lemma same_reserve_trans: "same_reserve r s \<Longrightarrow> same_reserve s t \<Longrightarrow> same_reserve r t"
  by (cases r, cases s, cases t) (auto simp: same_reserve_def)

lemma same_reserveD:
  "same_reserve r r' \<Longrightarrow> d_configuration r' = d_configuration r \<and> d_aTokenAddress r' = d_aTokenAddress r
    \<and> d_stableDebtTokenAddress r' = d_stableDebtTokenAddress r \<and> d_variableDebtTokenAddress r' = d_variableDebtTokenAddress r
    \<and> d_interestRateStrategyAddress r' = d_interestRateStrategyAddress r \<and> d_id r' = d_id r"
  by (cases r, cases r') (auto simp: same_reserve_def)

lemma updateIndexesD:
  assumes "updateIndexes now scaled r = Inr (li, vi, r')"
  shows "same_reserve r r' \<and> li = ucast (d_liquidityIndex r') \<and> vi = ucast (d_variableBorrowIndex r')
    \<and> d_lastUpdateTimestamp r' = ucast now
    \<and> d_currentLiquidityRate r' = d_currentLiquidityRate r \<and> d_currentVariableBorrowRate r' = d_currentVariableBorrowRate r
    \<and> d_currentStableBorrowRate r' = d_currentStableBorrowRate r"
proof -
  have fits: "ucast (ucast x :: 128 word) = x \<and> unat (ucast x :: 128 word) = unat x" if "x \<le> max_uint128" for x :: u256
    using unat_to_u128 [OF that] by (simp add: u256_eq_iff)
  show ?thesis
    using assms
    by (auto simp: updateIndexes_def Let_def call_simps same_reserve_def fits
        dest!: linear_at_least_ray compounded_at_least_ray dest: rayMul_grows)
qed


lemma updateInterestRatesD:
  assumes "updateInterestRates w asset a x y = Inr w'"
  shows "\<exists>r. w' = put_reserve w asset r \<and> same_reserve (w_reserves w asset) r"
  using assms by (auto simp: updateInterestRates_def Let_def call_simps same_reserve_def split: prod.splits)

section \<open>Steady states\<close>

text \<open>What every action keeps: contracts, registry and parameters, and the reserves up to interest.\<close>

definition steady :: "world \<Rightarrow> world \<Rightarrow> bool" where
  "steady w w' \<longleftrightarrow> (\<forall>asset. same_reserve (w_reserves w asset) (w_reserves w' asset))
   \<and> dom (w_assets w') = dom (w_assets w) \<and> dom (w_aTokens w') = dom (w_aTokens w)
   \<and> dom (w_stableDebts w') = dom (w_stableDebts w) \<and> dom (w_variableDebts w') = dom (w_variableDebts w)
   \<and> w' = w\<lparr>w_reserves := w_reserves w', w_usersConfig := w_usersConfig w', w_assets := w_assets w',
        w_aTokens := w_aTokens w', w_stableDebts := w_stableDebts w', w_variableDebts := w_variableDebts w'\<rparr>"

lemma steady_refl [simp]: "steady w w"
  by (simp add: steady_def)

lemma steady_trans: "steady u v \<Longrightarrow> steady v w \<Longrightarrow> steady u w"
  by (cases u, cases v, cases w) (auto simp: steady_def intro: same_reserve_trans)

lemma steady_reserve: "same_reserve (w_reserves w asset) r \<Longrightarrow> steady w (put_reserve w asset r)"
  by (simp add: steady_def put_reserve_def)

lemma steady_user: "steady w (w\<lparr>w_usersConfig := c\<rparr>)"
  by (simp add: steady_def)

lemma steady_asset: "w_assets w asset = Some t \<Longrightarrow> steady w (put_asset w asset t')"
  by (auto simp: steady_def put_asset_def)

lemma steady_aToken: "aToken_of w asset = Inr t \<Longrightarrow> steady w (put_aToken w asset t')"
  by (auto simp: steady_def put_aToken_def aToken_of_def call_simps)

lemma steady_stable: "stable_of w asset = Inr t \<Longrightarrow> steady w (put_stable w asset t')"
  by (auto simp: steady_def put_stable_def stable_of_def call_simps)

lemma steady_variable: "variable_of w asset = Inr t \<Longrightarrow> steady w (put_variable w asset t')"
  by (auto simp: steady_def put_variable_def variable_of_def call_simps)

lemma steady_asset_aToken:
  "aToken_of w asset = Inr t \<Longrightarrow> w_assets w asset = Some u \<Longrightarrow> steady w (put_asset (put_aToken w asset t') asset u')"
  by (auto simp: steady_def put_aToken_def put_asset_def aToken_of_def call_simps)

lemmas steady_puts = steady_asset_aToken steady_reserve steady_user steady_asset steady_aToken steady_stable steady_variable

text \<open>The update of a reserve: new indexes, then perhaps aTokens for the treasury.\<close>

lemma updateStateD:
  assumes "updateState w asset = Inr w'"
  shows "\<exists>v li vi r. variable_of w asset = Inr v
    \<and> updateIndexes (w_timestamp w) (e_totalSupply v) (w_reserves w asset) = Inr (li, vi, r)
    \<and> (w' = put_reserve w asset r
       \<or> (\<exists>x t t'. aToken_of (put_reserve w asset r) asset = Inr t \<and> AToken_mintToTreasury x li t = Inr t'
            \<and> w' = put_aToken (put_reserve w asset r) asset t'))"
  using assms by (auto simp: updateState_def mintToTreasury_def Let_def call_simps) metis

lemma updateState_steady: "updateState w asset = Inr w' \<Longrightarrow> steady w w'"
  by (auto dest!: updateStateD updateIndexesD) (metis steady_reserve steady_aToken steady_trans)+

interpretation steady_pool: pool_relation steady
  by unfold_locales
    (auto simp: pull_asset_def send_underlying_def mint_aTokens_def burn_aTokens_def mint_debt_def burn_debt_def
      use_as_collateral_def mark_borrowing_def call_simps
      intro: steady_puts steady_trans
      dest: updateState_steady updateInterestRatesD)

section \<open>The books\<close>

text \<open>Nothing is held that was not minted, and all that was minted is held, scaled for the tokens of the pool.\<close>

definition balanced :: "'a erc20_scheme \<Rightarrow> bool" where
  "balanced t \<longleftrightarrow> held t = unat (e_totalSupply t)"

definition books :: "world \<Rightarrow> bool" where
  "books w \<longleftrightarrow> (\<forall>t \<in> ran (w_assets w). balanced t) \<and> (\<forall>t \<in> ran (w_aTokens w). balanced t)
     \<and> (\<forall>t \<in> ran (w_variableDebts w). balanced t)"

lemma balanced_mint: "e_mint a x t = Inr t' \<Longrightarrow> balanced t \<Longrightarrow> balanced t'"
  by (drule e_mint_held) (simp add: balanced_def)

lemma balanced_burn: "e_burn a x t = Inr t' \<Longrightarrow> balanced t \<Longrightarrow> balanced t'"
  by (drule e_burn_held) (simp add: balanced_def)

lemma balanced_transfer: "e_transfer a b x t = Inr t' \<Longrightarrow> balanced t \<Longrightarrow> balanced t'"
  by (drule e_transfer_held) (metis balanced_def erc20.select_convs(2) erc20.surjective erc20.update_convs(1))

lemma balanced_approve: "e_approve a b x t = Inr t' \<Longrightarrow> balanced t \<Longrightarrow> balanced t'"
  by (auto simp: e_approve_def call_simps balanced_def)

lemma balanced_transferFrom: "e_transferFrom c a b x t = Inr t' \<Longrightarrow> balanced t \<Longrightarrow> balanced t'"
  by (auto simp: e_transferFrom_def call_simps dest: balanced_transfer balanced_approve)

lemmas balanced_moves = balanced_mint balanced_burn balanced_transfer balanced_approve balanced_transferFrom

lemma balanced_tokens:
  "AToken_mint user x i a = Inr (b, a') \<Longrightarrow> balanced a \<Longrightarrow> balanced a'"
  "AToken_mintToTreasury x i a = Inr a' \<Longrightarrow> balanced a \<Longrightarrow> balanced a'"
  "AToken_burn self user to x i a t = Inr (a', t') \<Longrightarrow> balanced a \<Longrightarrow> balanced t \<Longrightarrow> balanced a' \<and> balanced t'"
  "Variable_mint user user' x i v = Inr (b, v') \<Longrightarrow> balanced v \<Longrightarrow> balanced v'"
  "Variable_burn user x i v = Inr v' \<Longrightarrow> balanced v \<Longrightarrow> balanced v'"
proof -
  show "AToken_mint user x i a = Inr (b, a') \<Longrightarrow> balanced a \<Longrightarrow> balanced a'"
    by (auto simp: AToken_mint_def Let_def call_simps dest: balanced_moves)
  show "AToken_mintToTreasury x i a = Inr a' \<Longrightarrow> balanced a \<Longrightarrow> balanced a'"
    by (auto simp: AToken_mintToTreasury_def call_simps dest: balanced_moves)
  show "AToken_burn self user to x i a t = Inr (a', t') \<Longrightarrow> balanced a \<Longrightarrow> balanced t \<Longrightarrow> balanced a' \<and> balanced t'"
    by (auto simp: AToken_burn_def call_simps dest: balanced_moves)
  show "Variable_burn user x i v = Inr v' \<Longrightarrow> balanced v \<Longrightarrow> balanced v'"
    by (auto simp: Variable_burn_def call_simps dest: balanced_moves)
  assume m: "Variable_mint user user' x i v = Inr (b, v')" and "balanced v"
  then have "balanced (v\<lparr>v_borrowAllowances := al\<rparr>)" for al by (simp add: balanced_def)
  with m show "balanced v'" by (auto simp: Variable_mint_def Let_def call_simps dest: balanced_mint)
qed

lemma books_puts:
  "books w \<Longrightarrow> balanced t \<Longrightarrow> books (put_asset w asset t)"
  "books w \<Longrightarrow> balanced a \<Longrightarrow> books (put_aToken w asset a)"
  "books w \<Longrightarrow> balanced v \<Longrightarrow> books (put_variable w asset v)"
  "books w \<Longrightarrow> books (put_stable w asset s)"
  "books w \<Longrightarrow> books (put_reserve w asset r)"
  "books w \<Longrightarrow> books (w\<lparr>w_usersConfig := c\<rparr>)"
  by (auto simp: books_def put_asset_def put_aToken_def put_variable_def put_stable_def put_reserve_def ran_def)

lemma books_tokens:
  "books w \<Longrightarrow> w_assets w asset = Some t \<Longrightarrow> balanced t"
  "books w \<Longrightarrow> aToken_of w asset = Inr a \<Longrightarrow> balanced a"
  "books w \<Longrightarrow> variable_of w asset = Inr v \<Longrightarrow> balanced v"
  by (auto simp: books_def aToken_of_def variable_of_def call_simps ran_def)

lemma updateState_books: "updateState w asset = Inr w' \<Longrightarrow> books w \<Longrightarrow> books w'"
  by (auto dest!: updateStateD intro: books_puts balanced_tokens(2) dest: books_tokens(2) [rotated])

interpretation books_pool: pool_relation "\<lambda>w w'. books w \<longrightarrow> books w'"
  by unfold_locales
    (auto simp: pull_asset_def send_underlying_def mint_aTokens_def burn_aTokens_def mint_debt_def burn_debt_def
      use_as_collateral_def mark_borrowing_def AToken_transferUnderlyingTo_def call_simps
      intro!: books_puts intro: updateState_books balanced_tokens balanced_moves books_tokens
      dest!: updateInterestRatesD dest: balanced_tokens(3) [OF _ books_tokens(2,1)])

section \<open>Admins\<close>

text \<open>Besides the initialization of a reserve an admin changes one word, one strategy or the pause.\<close>

lemma admin_stepD:
  assumes "admin_step w w'"
  shows "(\<exists>asset conf. w' = pool_setConfiguration w asset conf)
    \<or> (\<exists>asset strat. w' = pool_setReserveInterestRateStrategyAddress w asset strat) \<or> (\<exists>b. w' = pool_setPause w b)
    \<or> (\<exists>a s v sender asset decimals strat treasury. w_aTokens w a = None \<and> w_stableDebts w s = None
         \<and> w_variableDebts w v = None \<and> a \<noteq> 0 \<and> s \<noteq> 0 \<and> v \<noteq> 0
         \<and> conf_initReserve w sender asset decimals strat treasury a s v = Inr w')"
  using assms
proof cases
  case (init a s v sender asset decimals strat treasury)
  then show ?thesis by blast
qed (auto simp: conf_enableBorrowingOnReserve_def conf_disableBorrowingOnReserve_def conf_setStableRate_def
      conf_configureReserveAsCollateral_def conf_activateReserve_def conf_deactivateReserve_def conf_setFrozen_def
      conf_setReserveFactor_def conf_setReserveInterestRateStrategyAddress_def conf_setPoolPause_def
      only_pool_admin_def only_emergency_admin_def Let_def call_simps)

text \<open>The new reserve: registered with the next index, unless it is registered already.\<close>

definition new_reserve :: "world \<Rightarrow> addr \<Rightarrow> addr \<Rightarrow> addr \<Rightarrow> addr \<Rightarrow> addr \<Rightarrow> sol_reserve" where
  "new_reserve w asset a s v strat = (w_reserves w asset)\<lparr>d_liquidityIndex := ucast sol_RAY,
     d_variableBorrowIndex := ucast sol_RAY, d_aTokenAddress := a, d_stableDebtTokenAddress := s,
     d_variableDebtTokenAddress := v, d_interestRateStrategyAddress := strat\<rparr>"

lemma conf_initReserveD:
  assumes "conf_initReserve w sender asset decimals strat treasury a s v = Inr w'"
  shows "w_assets w asset \<noteq> None \<and> d_aTokenAddress (w_reserves w asset) = 0 \<and> w_reservesCount w < w_maxNumberOfReserves w
    \<and> (\<exists>u conf. w' = pool_setConfiguration u asset conf
      \<and> (let w1 = put_reserve (create_tokens w treasury a s v) asset (new_reserve w asset a s v strat) in
         if d_id (w_reserves w asset) \<noteq> 0 \<or> w_reservesList w 0 = asset then u = w1
         else u = (put_reserve w1 asset ((w_reserves w1 asset)\<lparr>d_id := of_nat (w_reservesCount w)\<rparr>))
           \<lparr>w_reservesList := (w_reservesList w)(w_reservesCount w := asset), w_reservesCount := w_reservesCount w + 1\<rparr>))"
  using assms
  by (auto simp: conf_initReserve_def pool_initReserve_def sol_init_reserve_def addReserveToList_def only_pool_admin_def
      Let_def call_simps new_reserve_def create_tokens_def put_reserve_def)

section \<open>Growth\<close>

definition initialized :: "world \<Rightarrow> addr \<Rightarrow> bool" where
  "initialized w asset \<longleftrightarrow> d_aTokenAddress (w_reserves w asset) \<noteq> 0"

text \<open>Time does not run back; initialized reserves stay, and their indexes never decrease.\<close>

definition grown_reserve :: "sol_reserve \<Rightarrow> sol_reserve \<Rightarrow> bool" where
  "grown_reserve r r' \<longleftrightarrow> d_aTokenAddress r' = d_aTokenAddress r
    \<and> d_stableDebtTokenAddress r' = d_stableDebtTokenAddress r \<and> d_variableDebtTokenAddress r' = d_variableDebtTokenAddress r
    \<and> d_id r' = d_id r \<and> d_liquidityIndex r \<le> d_liquidityIndex r' \<and> d_variableBorrowIndex r \<le> d_variableBorrowIndex r'"

definition grown :: "world \<Rightarrow> world \<Rightarrow> bool" where
  "grown w w' \<longleftrightarrow> w_timestamp w \<le> w_timestamp w'
     \<and> (\<forall>asset. initialized w asset \<longrightarrow> grown_reserve (w_reserves w asset) (w_reserves w' asset))"

lemma same_reserve_grown: "same_reserve r r' \<Longrightarrow> grown_reserve r r'"
  by (cases r, cases r') (auto simp: same_reserve_def grown_reserve_def word_le_nat_alt)

lemma steady_grown: "steady w w' \<Longrightarrow> grown w w'"
  by (cases w, cases w') (auto simp: steady_def grown_def same_reserve_grown)

lemma grown_reserve_refl [simp]: "grown_reserve r r"
  by (simp add: grown_reserve_def)

lemma grown_reserve_trans: "grown_reserve r s \<Longrightarrow> grown_reserve s t \<Longrightarrow> grown_reserve r t"
  by (auto simp: grown_reserve_def)

lemma grown_trans:
  assumes "grown u v" "grown v w"
  shows "grown u w"
proof -
  have "grown_reserve (w_reserves u x) (w_reserves w x)" if "initialized u x" for x
  proof (rule grown_reserve_trans)
    show uv: "grown_reserve (w_reserves u x) (w_reserves v x)" using assms(1) that by (simp add: grown_def)
    then have "initialized v x" using that by (simp add: grown_reserve_def initialized_def)
    then show "grown_reserve (w_reserves v x) (w_reserves w x)" using assms(2) by (simp add: grown_def)
  qed
  then show ?thesis using assms by (auto simp: grown_def)
qed

lemma grown_configured:
  "grown w (pool_setConfiguration w asset conf)" "grown w (pool_setPause w b)"
  "grown w (pool_setReserveInterestRateStrategyAddress w asset strat)"
  by (simp_all add: grown_def grown_reserve_def pool_setConfiguration_def pool_setPause_def put_reserve_def
      pool_setReserveInterestRateStrategyAddress_def)

lemma conf_initReserve_others:
  assumes "conf_initReserve w sender asset decimals strat treasury a s v = Inr w'"
  shows "w_timestamp w' = w_timestamp w" and "other \<noteq> asset \<Longrightarrow> w_reserves w' other = w_reserves w other"
  using conf_initReserveD [OF assms]
  by (auto simp: Let_def put_reserve_def create_tokens_def pool_setConfiguration_def split: if_splits)

lemma initReserve_grown:
  assumes "conf_initReserve w sender asset decimals strat treasury a s v = Inr w'"
  shows "grown w w'"
proof -
  have "grown_reserve (w_reserves w x) (w_reserves w' x)" if "initialized w x" for x
    using that conf_initReserveD [OF assms] conf_initReserve_others(2) [OF assms, of x]
    by (cases "x = asset") (auto simp: initialized_def)
  then show ?thesis using conf_initReserve_others(1) [OF assms] by (simp add: grown_def)
qed

lemma admin_grown: "admin_step w w' \<Longrightarrow> grown w w'"
  by (drule admin_stepD) (elim disjE exE conjE; simp add: grown_configured initReserve_grown)

lemma outside_grown: "outside_step w w' \<Longrightarrow> grown w w'"
  by (cases rule: outside_step.cases)
    (auto simp: grown_def grown_reserve_def put_asset_def put_aToken_def put_stable_def put_variable_def)

interpretation grown_pool: history_relation grown
  by unfold_locales (auto intro: steady_grown grown_trans admin_grown outside_grown steady_pool.state steady_pool.rates steady_pool.pull
    steady_pool.send steady_pool.mint steady_pool.burn steady_pool.burn_debt steady_pool.collateral steady_pool.move steady_pool.approve
    dest: steady_pool.execute steady_pool.repay steady_pool.swap steady_pool.rebalance)

section \<open>The books of histories\<close>

lemma books_elsewhere [simp]:
  "books (w\<lparr>w_timestamp := n\<rparr>) = books w" "books (w\<lparr>w_strategies := st\<rparr>) = books w"
  "books (w\<lparr>w_assetPrice := p, w_marketBorrowRate := m\<rparr>) = books w"
  "books (pool_setConfiguration w asset conf) = books w" "books (pool_setPause w b) = books w"
  "books (pool_setReserveInterestRateStrategyAddress w asset strat) = books w"
  "books (put_reserve w asset r) = books w" "books (w\<lparr>w_reservesList := l, w_reservesCount := c\<rparr>) = books w"
  by (simp_all add: books_def pool_setConfiguration_def pool_setPause_def put_reserve_def
      pool_setReserveInterestRateStrategyAddress_def)

lemma books_create_tokens: "books w \<Longrightarrow> books (create_tokens w treasury a s v)"
  by (auto simp: books_def create_tokens_def fresh_aToken_def fresh_variable_def balanced_def sum_held_def ran_def)

lemma admin_books: "admin_step w w' \<Longrightarrow> books w \<Longrightarrow> books w'"
  by (auto simp: Let_def books_create_tokens dest!: admin_stepD conf_initReserveD split: if_splits)

lemma balanced_delegation: "balanced t \<Longrightarrow> balanced (Variable_approveDelegation a b x t)"
  by (simp add: balanced_def Variable_approveDelegation_def)

lemma outside_books: "outside_step w w' \<Longrightarrow> books w \<Longrightarrow> books w'"
  by (cases rule: outside_step.cases)
    (auto intro!: books_puts intro: balanced_moves balanced_delegation books_tokens)

interpretation books_history: history_relation "\<lambda>w w'. books w \<longrightarrow> books w'"
  by unfold_locales (auto dest: admin_books outside_books)

end
