(* ===== verification/DebtRules.thy ===== *)
theory DebtRules
  imports PoolInvariants
begin

text \<open>
  Debts and the bits of the users: what each part of the actions does to the debts, in three relations that
  compose: parts that open no debt, the opening of one, and the repayment of all.
\<close>

section \<open>Repaying everything\<close>

text \<open>Rounded up by an index and down by one that is not greater, a debt does not shrink.\<close>

lemma scaled_debt_covered:
  assumes "10 ^ 27 \<le> i" "i \<le> n"
  shows "s \<le> nearest_div (nearest_div (s * n) (10 ^ 27) * 10 ^ 27) i"
proof -
  define m where "m = nearest_div (s * n) (10 ^ 27)"
  have "2 * (s * n) \<le> 2 * m * 10 ^ 27 + 10 ^ 27" unfolding m_def by (rule nearest_div_bounds(2)) simp
  moreover have "s * i \<le> s * n" using assms(2) by (rule mult_le_mono2)
  ultimately have "s * i \<le> m * 10 ^ 27 + i div 2" using assms(1) by linarith
  then have "(s * i) div i \<le> nearest_div (m * 10 ^ 27) i" by (simp only: nearest_div_def div_le_mono)
  then show ?thesis using assms(1) by (simp add: m_def)
qed

lemma compounded_now:
  "sol_calculateCompoundedInterest rate since now = Some c \<Longrightarrow> unat since = unat now \<Longrightarrow> unat c = 10 ^ 27"
  by (auto dest!: sol_compounded_interest simp: compounded_def Let_def)

lemma nearest_ray: "nearest_div (1000000000000000000000000000 * m) 1000000000000000000000000000 = m"
  using nearest_div_mult [of "10 ^ 27" m] by (simp add: mult.commute)

text \<open>The index that an update stores is at most the one of which the balances are computed before.\<close>

lemma updated_index_at_most_normalized:
  assumes "updateIndexes now scaled r = Inr (li, vi, r')" and "getNormalizedDebt now r = Some n" and "now < 2 ^ 40"
  shows "unat vi \<le> unat n"
proof -
  have now: "unat (ucast now :: 40 word) = unat now"
    using assms(3) by (simp add: word_less_nat_alt unsigned_ucast_eq unsigned_take_bit_eq take_bit_nat_eq_self_iff)
  show ?thesis
  proof (cases "d_lastUpdateTimestamp r = ucast now")
    case True
    with assms(2) have "n = ucast (d_variableBorrowIndex r)" by (simp add: getNormalizedDebt_def)
    moreover have "unat vi = unat (d_variableBorrowIndex r)"
      using assms(1) True now
      by (auto simp: updateIndexes_def Let_def call_simps nearest_ray dest!: compounded_now sol_fixed_pointD(1))
    ultimately show ?thesis by simp
  next
    case False
    with assms(2) obtain c where c: "sol_calculateCompoundedInterest (ucast (d_currentVariableBorrowRate r))
        (d_lastUpdateTimestamp r) now = Some c" "sol_rayMul c (ucast (d_variableBorrowIndex r)) = Some n"
      by (auto simp: getNormalizedDebt_def Option.bind_eq_Some_conv)
    then have "unat (d_variableBorrowIndex r) \<le> unat n"
      using rayMul_grows(1) [OF c(2) compounded_at_least_ray [OF c(1)]] by simp
    with c show ?thesis using assms(1) by (auto simp: updateIndexes_def Let_def call_simps)
  qed
qed

lemma Variable_burn_all:
  assumes "sol_rayMul (e_balances t user) n = Some debt" and "Variable_burn user debt i t = Inr t'"
    and "10 ^ 27 \<le> unat i" and "unat i \<le> unat n"
  shows "e_balances t' user = 0"
proof -
  from assms(2) obtain x where x: "sol_rayDiv debt i = Some x" and b: "e_burn user x t = Inr t'"
    by (auto simp: Variable_burn_def call_simps)
  have "unat (e_balances t user) \<le> unat x"
    using scaled_debt_covered [OF assms(3,4), of "unat (e_balances t user)"]
      sol_fixed_pointD(1) [OF assms(1)] sol_fixed_pointD(2) [OF x] by simp
  with e_burn_held [OF b] have "unat (e_balances t' user) = 0" by linarith
  then show ?thesis by (simp add: unat_eq_zero)
qed

lemma Stable_balanceOfD:
  assumes "Stable_balanceOf now t user = Inr b"
  shows "unat (e_balances t user) \<le> unat b" and "e_balances t user = 0 \<Longrightarrow> b = 0"
  using assms by (auto simp: Stable_balanceOf_def call_simps split: if_splits dest: rayMul_grows(2) compounded_at_least_ray)

lemma balance_increaseD:
  assumes "calculateBalanceIncrease now t user = Inr (p, c, i)"
  shows "p = e_balances t user \<and> unat c = unat p + unat i \<and> Stable_balanceOf now t user = Inr c"
  using assms by (auto simp: calculateBalanceIncrease_def Stable_balanceOf_def Let_def call_simps u256_eq_iff
      split: if_splits dest!: sol_addD sol_subD)

text \<open>Burning changes the balance of one user, by what it takes more than the interest.\<close>

lemma Stable_burnD:
  assumes "Stable_burn now user x t = Inr t'"
  shows "\<exists>c. Stable_balanceOf now t user = Inr c \<and> unat x \<le> unat c
    \<and> unat (e_balances t' user) + unat x = unat c \<and> (\<forall>u. u \<noteq> user \<longrightarrow> e_balances t' u = e_balances t u)"
proof -
  from assms obtain p c i where inc: "calculateBalanceIncrease now t user = Inr (p, c, i)"
    by (auto simp: Stable_burn_def Let_def call_simps)
  note d = balance_increaseD [OF inc]
  have "unat (e_balances t' user) + unat x = unat c \<and> (\<forall>u. u \<noteq> user \<longrightarrow> e_balances t' u = e_balances t u)"
    using assms d
    by (auto simp: Stable_burn_def Let_def call_simps inc split: prod.splits if_splits
        dest!: sol_addD sol_subD sol_sub_orD simp: word_less_nat_alt)
  with d show ?thesis by auto
qed

section \<open>Who owes what\<close>

definition owes :: "world \<Rightarrow> addr \<Rightarrow> addr \<Rightarrow> bool" where
  "owes w asset user \<longleftrightarrow> (\<exists>t. stable_of w asset = Inr t \<and> e_balances t user \<noteq> 0)
     \<or> (\<exists>t. variable_of w asset = Inr t \<and> e_balances t user \<noteq> 0)"

definition marked :: "world \<Rightarrow> addr \<Rightarrow> addr \<Rightarrow> bool" where
  "marked w asset user \<longleftrightarrow> bit (w_usersConfig w user) (2 * reserve_index w asset)"

lemma positive_debt_owed:
  assumes "getUserCurrentDebt w asset user = Inr (sd, vd)"
  shows "sd \<noteq> 0 \<or> vd \<noteq> 0 \<Longrightarrow> owes w asset user"
  using assms
  by (auto simp: getUserCurrentDebt_def Variable_balanceOf_def owes_def call_simps dest: Stable_balanceOfD(2))

section \<open>Parts that open no debt\<close>

definition no_new :: "(addr \<rightharpoonup> 'a erc20_scheme) \<Rightarrow> (addr \<rightharpoonup> 'a erc20_scheme) \<Rightarrow> bool" where
  "no_new D D' \<longleftrightarrow> (\<forall>a t'. D' a = Some t' \<longrightarrow> (\<exists>t. D a = Some t \<and> (\<forall>u. e_balances t u = 0 \<longrightarrow> e_balances t' u = 0)))"

lemma no_new_refl [simp]: "no_new D D"
  by (auto simp: no_new_def)

lemma no_new_trans: "no_new D E \<Longrightarrow> no_new E F \<Longrightarrow> no_new D F"
  unfolding no_new_def by metis

lemma no_new_upd: "D a = Some t \<Longrightarrow> (\<And>u. e_balances t u = 0 \<Longrightarrow> e_balances t' u = 0) \<Longrightarrow> no_new D (D(a \<mapsto> t'))"
  by (auto simp: no_new_def)

definition calm :: "world \<Rightarrow> world \<Rightarrow> bool" where
  "calm w w' \<longleftrightarrow> steady w w' \<and> no_new (w_stableDebts w) (w_stableDebts w')
     \<and> no_new (w_variableDebts w) (w_variableDebts w')
     \<and> (\<forall>u i. bit (w_usersConfig w' u) (2 * i) = bit (w_usersConfig w u) (2 * i))"

lemma calm_refl [simp]: "calm w w"
  by (simp add: calm_def)

lemma calm_trans: "calm u v \<Longrightarrow> calm v w \<Longrightarrow> calm u w"
  by (auto simp: calm_def intro: steady_trans no_new_trans)

lemma calm_reserve: "same_reserve (w_reserves w asset) r \<Longrightarrow> calm w (put_reserve w asset r)"
  using steady_reserve [of w asset r] by (simp add: calm_def put_reserve_def)

lemma calm_asset: "w_assets w asset = Some t \<Longrightarrow> calm w (put_asset w asset t')"
  using steady_asset [of w asset t t'] by (simp add: calm_def put_asset_def)

lemma calm_aToken: "aToken_of w asset = Inr t \<Longrightarrow> calm w (put_aToken w asset t')"
  using steady_aToken [of w asset t t'] by (simp add: calm_def put_aToken_def)

lemma calm_asset_aToken:
  "aToken_of w asset = Inr t \<Longrightarrow> w_assets w asset = Some u \<Longrightarrow> calm w (put_asset (put_aToken w asset t') asset u')"
  using steady_asset_aToken [of w asset t u t' u'] by (simp add: calm_def put_aToken_def put_asset_def)

lemma calm_collateral:
  assumes "use_as_collateral w asset user b = Inr w'"
  shows "calm w w'"
proof -
  from assms obtain x where x: "setUsingAsCollateral (w_usersConfig w user) (reserve_index w asset) b = Inr x"
    and w': "w' = w\<lparr>w_usersConfig := (w_usersConfig w)(user := x)\<rparr>"
    by (auto simp: use_as_collateral_def call_simps)
  have "2 * i \<noteq> 2 * reserve_index w asset + 1" for i by presburger
  then have "bit x (2 * i) = bit (w_usersConfig w user) (2 * i)" for i using set_user_bits(2) [OF x, of "2 * i"] by simp
  then show ?thesis using steady_user [of w] by (simp add: calm_def w')
qed

lemma calm_stable:
  "stable_of w asset = Inr t \<Longrightarrow> (\<And>u. e_balances t u = 0 \<Longrightarrow> e_balances t' u = 0) \<Longrightarrow> calm w (put_stable w asset t')"
  using steady_stable [of w asset t t'] by (auto simp: calm_def put_stable_def stable_of_def call_simps intro: no_new_upd)

lemma calm_variable:
  "variable_of w asset = Inr t \<Longrightarrow> (\<And>u. e_balances t u = 0 \<Longrightarrow> e_balances t' u = 0) \<Longrightarrow> calm w (put_variable w asset t')"
  using steady_variable [of w asset t t'] by (auto simp: calm_def put_variable_def variable_of_def call_simps intro: no_new_upd)

lemma calm_burn_debt: "burn_debt w asset user x st = Inr w' \<Longrightarrow> calm w w'"
proof -
  have S: "e_balances t' u = 0" if "Stable_burn now user x t = Inr t'" "e_balances t u = 0" for now t t' u
    using Stable_burnD [OF that(1)] Stable_balanceOfD(2) [of now t user] that(2) by (cases "u = user") (auto simp: unat_eq_zero)
  have V: "e_balances t' u = 0" if "Variable_burn user x i t = Inr t'" "e_balances t u = 0" for i t t' u
    using that by (auto simp: Variable_burn_def e_burn_def call_simps dest!: sol_sub_orD simp: unat_eq_zero)
  assume "burn_debt w asset user x st = Inr w'"
  then show ?thesis by (auto simp: burn_debt_def call_simps intro: S V calm_stable calm_variable)
qed

lemma calm_state: "updateState w asset = Inr w' \<Longrightarrow> calm w w'"
  by (auto dest!: updateStateD updateIndexesD) (metis calm_reserve calm_aToken calm_trans)+

lemma calm_rates: "updateInterestRates w asset a x y = Inr w' \<Longrightarrow> calm w w'"
  by (auto dest!: updateInterestRatesD intro: calm_reserve)

interpretation calm_pool: passive_relation calm
  by unfold_locales
    (auto simp: pull_asset_def send_underlying_def mint_aTokens_def burn_aTokens_def call_simps
      intro: calm_refl calm_asset calm_aToken calm_asset_aToken calm_trans
      dest: calm_state calm_rates calm_burn_debt calm_collateral)

lemma same_tokens:
  assumes "steady w w'"
  shows "initialized w' asset = initialized w asset" "reserve_index w' asset = reserve_index w asset"
    "d_stableDebtTokenAddress (w_reserves w' asset) = d_stableDebtTokenAddress (w_reserves w asset)"
    "d_variableDebtTokenAddress (w_reserves w' asset) = d_variableDebtTokenAddress (w_reserves w asset)"
  using assms same_reserveD [of "w_reserves w asset" "w_reserves w' asset"]
  by (simp_all add: steady_def initialized_def reserve_index_def)

lemma calm_owes: "calm w w' \<Longrightarrow> owes w' asset user \<Longrightarrow> owes w asset user"
  using same_tokens(3,4) [of w w' asset]
  by (auto simp: calm_def owes_def stable_of_def variable_of_def call_simps no_new_def) metis+

lemma calm_marked: "calm w w' \<Longrightarrow> marked w' asset user = marked w asset user"
  using same_tokens(2) [of w w' asset] by (simp add: calm_def marked_def)

section \<open>The registry of the reserves\<close>

text \<open>An initialized reserve is listed at its index, has an index of at least one ray and debt tokens of its own.\<close>

definition listed :: "world \<Rightarrow> addr \<Rightarrow> bool" where
  "listed w x \<longleftrightarrow> 10 ^ 27 \<le> unat (d_variableBorrowIndex (w_reserves w x))
     \<and> reserve_index w x < w_reservesCount w \<and> w_reservesList w (reserve_index w x) = x
     \<and> d_stableDebtTokenAddress (w_reserves w x) \<in> dom (w_stableDebts w)
     \<and> d_variableDebtTokenAddress (w_reserves w x) \<in> dom (w_variableDebts w)"

definition unlisted :: "world \<Rightarrow> addr \<Rightarrow> bool" where
  "unlisted w x \<longleftrightarrow> d_id (w_reserves w x) = 0 \<and> d_stableDebtTokenAddress (w_reserves w x) = 0
     \<and> d_variableDebtTokenAddress (w_reserves w x) = 0"

definition own_tokens :: "world \<Rightarrow> bool" where
  "own_tokens w \<longleftrightarrow> (\<forall>x y. initialized w x \<longrightarrow> initialized w y \<longrightarrow> x \<noteq> y
     \<longrightarrow> d_stableDebtTokenAddress (w_reserves w x) \<noteq> d_stableDebtTokenAddress (w_reserves w y)
       \<and> d_variableDebtTokenAddress (w_reserves w x) \<noteq> d_variableDebtTokenAddress (w_reserves w y))"

definition list_entries :: "world \<Rightarrow> bool" where
  "list_entries w \<longleftrightarrow> (\<forall>i. if i < w_reservesCount w then initialized w (w_reservesList w i) else w_reservesList w i = 0)"

definition within_limits :: "world \<Rightarrow> bool" where
  "within_limits w \<longleftrightarrow> w_reservesCount w \<le> 128 \<and> w_maxNumberOfReserves w \<le> 128
     \<and> 0 \<notin> dom (w_assets w) \<and> 0 \<notin> dom (w_stableDebts w) \<and> 0 \<notin> dom (w_variableDebts w)"

definition registry :: "world \<Rightarrow> bool" where
  "registry w \<longleftrightarrow> (\<forall>x. if initialized w x then listed w x else unlisted w x) \<and> own_tokens w \<and> list_entries w
     \<and> within_limits w"

lemma registryD:
  assumes "registry w"
  shows "initialized w x \<Longrightarrow> listed w x" "\<not> initialized w x \<Longrightarrow> unlisted w x"
    "stable_of w x = Inr s \<Longrightarrow> initialized w x" "variable_of w x = Inr v \<Longrightarrow> initialized w x"
    "initialized w x \<Longrightarrow> initialized w y \<Longrightarrow> x \<noteq> y \<Longrightarrow>
      d_stableDebtTokenAddress (w_reserves w x) \<noteq> d_stableDebtTokenAddress (w_reserves w y)
      \<and> d_variableDebtTokenAddress (w_reserves w x) \<noteq> d_variableDebtTokenAddress (w_reserves w y)"
proof -
  show "initialized w x \<Longrightarrow> listed w x" and u: "\<not> initialized w x \<Longrightarrow> unlisted w x"
    using assms by (simp_all add: registry_def split: if_splits)
  show "stable_of w x = Inr s \<Longrightarrow> initialized w x" "variable_of w x = Inr v \<Longrightarrow> initialized w x"
    using u assms by (auto simp: registry_def within_limits_def stable_of_def variable_of_def call_simps unlisted_def)
qed (use assms in \<open>simp add: registry_def own_tokens_def\<close>)

lemma registry_index_inj:
  assumes "registry w" "initialized w x" "initialized w y" "reserve_index w x = reserve_index w y"
  shows "x = y"
proof -
  have "listed w x" "listed w y" using assms registryD(1) by blast+
  with assms(4) show ?thesis unfolding listed_def by metis
qed

lemma steady_registry:
  assumes s: "steady w w'" and r: "registry w"
  shows "registry w'"
proof -
  have same: "w_reservesList w' = w_reservesList w" "w_reservesCount w' = w_reservesCount w"
      "w_maxNumberOfReserves w' = w_maxNumberOfReserves w" "dom (w_assets w') = dom (w_assets w)"
      "dom (w_stableDebts w') = dom (w_stableDebts w)" "dom (w_variableDebts w') = dom (w_variableDebts w)"
    using s by (cases w, cases w', simp add: steady_def)+
  have "unat (d_variableBorrowIndex (w_reserves w x)) \<le> unat (d_variableBorrowIndex (w_reserves w' x))
      \<and> d_id (w_reserves w' x) = d_id (w_reserves w x)" for x
    using s same_reserveD [of "w_reserves w x" "w_reserves w' x"] by (simp add: steady_def same_reserve_def)
  then have "if initialized w' x then listed w' x else unlisted w' x" for x
    using registryD(1,2) [OF r, of x] by (auto simp: listed_def unlisted_def same same_tokens [OF s] intro: order_trans)
  moreover have "own_tokens w'" "list_entries w'" "within_limits w'"
    using r by (simp_all add: registry_def own_tokens_def list_entries_def within_limits_def same same_tokens [OF s])
  ultimately show ?thesis by (simp add: registry_def)
qed

text \<open>The invariant: whoever owes a reserve has its bit for borrowing.\<close>

definition ledger :: "world \<Rightarrow> bool" where
  "ledger w \<longleftrightarrow> registry w \<and> w_timestamp w < 2 ^ 40 \<and> (\<forall>asset user. owes w asset user \<longrightarrow> marked w asset user)"

lemma steady_timestamp: "steady w w' \<Longrightarrow> w_timestamp w' = w_timestamp w"
  by (cases w, cases w') (simp add: steady_def)

lemma calm_ledger:
  assumes q: "calm w w'" and l: "ledger w"
  shows "ledger w'"
proof -
  have s: "steady w w'" using q by (simp add: calm_def)
  have "marked w' asset user" if "owes w' asset user" for asset user
    using calm_owes [OF q that] l by (simp add: calm_marked [OF q] ledger_def)
  then show ?thesis using l steady_registry [OF s] steady_timestamp [OF s] by (simp add: ledger_def)
qed

section \<open>Opening a debt\<close>

lemma Stable_mintD:
  assumes "Stable_mint now user user' x rate t = Inr (b, t')"
  shows "u \<noteq> user' \<Longrightarrow> e_balances t' u = e_balances t u" and "\<not> b \<Longrightarrow> e_balances t user' \<noteq> 0"
    and "x = 0 \<Longrightarrow> e_balances t user' = 0 \<Longrightarrow> e_balances t' user' = 0"
proof -
  from assms obtain al p c i where m: "calculateBalanceIncrease now (t\<lparr>s_borrowAllowances := al\<rparr>) user' = Inr (p, c, i)"
    and b: "b = (c = 0)" and others: "\<And>u. u \<noteq> user' \<Longrightarrow> e_balances t' u = e_balances t u"
    and mine: "\<exists>minted. sol_add x i = Some minted \<and> sol_add (e_balances t user') minted = Some (e_balances t' user')"
    by (auto simp: Stable_mint_def Let_def call_simps)
  note d = balance_increaseD [OF m]
  show "u \<noteq> user' \<Longrightarrow> e_balances t' u = e_balances t u" by (rule others)
  show "\<not> b \<Longrightarrow> e_balances t user' \<noteq> 0" using d Stable_balanceOfD(2) [of now "t\<lparr>s_borrowAllowances := al\<rparr>" user' c] b by auto
  assume z: "x = 0" "e_balances t user' = 0"
  then have "unat i = 0" using d Stable_balanceOfD(2) [of now "t\<lparr>s_borrowAllowances := al\<rparr>" user' c] by auto
  with z mine have "unat (e_balances t' user') = 0" by (auto dest!: sol_addD)
  then show "e_balances t' user' = 0" by (simp add: unat_eq_zero)
qed

lemma Variable_mintD:
  assumes "Variable_mint user user' x i t = Inr (b, t')"
  shows "u \<noteq> user' \<Longrightarrow> e_balances t' u = e_balances t u" and "\<not> b \<Longrightarrow> e_balances t user' \<noteq> 0"
  using assms by (auto simp: Variable_mint_def Let_def e_mint_def call_simps)

text \<open>The state after it: one more may owe, unless nothing is borrowed, and the flag tells whether the debt is the first.\<close>

lemma mint_debtD:
  assumes m: "mint_debt w asset user user' x st = Inr (b, w')" and r: "registry w"
  shows "owes w' y u \<Longrightarrow> owes w y u \<or> (y = asset \<and> u = user')" and "\<not> b \<Longrightarrow> owes w asset user'"
    and "st \<Longrightarrow> x = 0 \<Longrightarrow> owes w' y u \<Longrightarrow> owes w y u" and "w_usersConfig w' = w_usersConfig w"
proof -
  have step: "(y = asset \<and> u = user' \<and> \<not> (st \<and> x = 0)) \<or> owes w y u" if o: "owes w' y u" for y u
  proof (cases "initialized w y")
    case True
    show ?thesis
    proof (cases st)
      case st: True
      with m obtain t t' where t: "stable_of w asset = Inr t" and w': "w' = put_stable w asset t'"
        and sm: "\<exists>rate. Stable_mint (w_timestamp w) user user' x rate t = Inr (b, t')"
        by (auto simp: mint_debt_def call_simps)
      note init = registryD(3) [OF r t]
      have "stable_of w' y = (if y = asset then Inr t' else stable_of w y)" "variable_of w' y = variable_of w y"
        using registryD(5) [OF r init True] t
        by (auto simp: w' put_stable_def stable_of_def variable_of_def contract_at_def)
      with o t sm st show ?thesis
        by (cases "u = user'") (auto simp: owes_def split: if_splits dest: Stable_mintD(1,3))
    next
      case st: False
      with m obtain t t' where t: "variable_of w asset = Inr t" and w': "w' = put_variable w asset t'"
        and sm: "\<exists>i. Variable_mint user user' x i t = Inr (b, t')"
        by (auto simp: mint_debt_def call_simps)
      note init = registryD(4) [OF r t]
      have "variable_of w' y = (if y = asset then Inr t' else variable_of w y)" "stable_of w' y = stable_of w y"
        using registryD(5) [OF r init True] t
        by (auto simp: w' put_variable_def stable_of_def variable_of_def contract_at_def)
      with o t sm st show ?thesis by (auto simp: owes_def split: if_splits dest: Variable_mintD)
    qed
  next
    case False
    moreover have "steady w w'" by (rule steady_pool.mint_debt [OF m])
    ultimately have "\<not> initialized w' y" "registry w'" using steady_registry r by (simp_all add: same_tokens)
    then have "\<not> owes w' y u" using registryD(3,4) [of w' y] by (auto simp: owes_def)
    with o show ?thesis by simp
  qed
  then show "owes w' y u \<Longrightarrow> owes w y u \<or> (y = asset \<and> u = user')"
    and "st \<Longrightarrow> x = 0 \<Longrightarrow> owes w' y u \<Longrightarrow> owes w y u" by blast+
  show "\<not> b \<Longrightarrow> owes w asset user'" "w_usersConfig w' = w_usersConfig w"
    using m by (auto simp: mint_debt_def owes_def call_simps put_stable_def put_variable_def
        split: if_splits dest: Stable_mintD(2) Variable_mintD(2))
qed

text \<open>Opened by a user who has the bit, or who gets it.\<close>

lemma mint_debt_ledger:
  assumes m: "mint_debt w asset user user' x st = Inr (b, w')" and l: "ledger w"
    and "owes w asset user' \<or> marked w asset user' \<or> (st \<and> x = 0)"
  shows "ledger w'"
proof -
  have s: "steady w w'" by (rule steady_pool.mint_debt [OF m])
  have r: "registry w" using l by (simp add: ledger_def)
  have same: "marked w' y u = marked w y u" for y u
    by (simp add: marked_def mint_debtD(4) [OF m r] same_tokens(2) [OF s])
  have "marked w y u" if "owes w' y u" for y u
    using mint_debtD(1) [OF m r that] mint_debtD(3) [OF m r _ _ that] l assms(3) by (auto simp: ledger_def)
  then show ?thesis using l steady_registry [OF s r] steady_timestamp [OF s] by (simp add: ledger_def same)
qed

lemma mark_borrowingD:
  assumes "mark_borrowing w asset user c = Inr w'" and r: "registry w" and "initialized w asset" "initialized w y"
  shows "marked w' y u = (if y = asset \<and> u = user then c else marked w y u)" "owes w' y u = owes w y u"
proof -
  from assms(1) obtain x where x: "setBorrowing (w_usersConfig w user) (reserve_index w asset) c = Inr x"
    and w': "w' = w\<lparr>w_usersConfig := (w_usersConfig w)(user := x)\<rparr>"
    by (auto simp: mark_borrowing_def call_simps)
  show "owes w' y u = owes w y u" by (simp add: w' owes_def stable_of_def variable_of_def)
  show "marked w' y u = (if y = asset \<and> u = user then c else marked w y u)"
    using registry_index_inj [OF r assms(3,4)] set_user_bits(1) [OF x, of "2 * reserve_index w y"]
    by (auto simp: w' marked_def reserve_index_def)
qed

lemma owes_initialized: "registry w \<Longrightarrow> owes w y u \<Longrightarrow> initialized w y"
  by (auto simp: owes_def dest: registryD(3,4))

lemma marked_borrower_ledger:
  assumes m: "mint_debt w asset user user' x st = Inr (b, v)" and l: "ledger w"
    and k: "mark_borrowing v asset user' True = Inr w'"
  shows "ledger w'"
proof -
  have s: "steady w v" and s': "steady v w'" by (rule steady_pool.mint_debt [OF m] steady_pool.borrowing [OF k])+
  have r: "registry w" using l by (simp add: ledger_def)
  then have r': "registry v" by (rule steady_registry [OF s])
  have "initialized w asset"
    using m registryD(3,4) [OF r] by (auto simp: mint_debt_def call_simps split: if_splits)
  then have i: "initialized v asset" by (simp add: same_tokens [OF s])
  have "marked w' y u" if "owes w' y u" for y u
  proof -
    have y: "initialized v y"
      using owes_initialized [OF steady_registry [OF s' r'] that] by (simp add: same_tokens [OF s'])
    then have "owes v y u" using mark_borrowingD(2) [OF k r' i] that by simp
    then have "marked w y u \<or> (y = asset \<and> u = user')" using mint_debtD(1) [OF m r] l by (auto simp: ledger_def)
    moreover have "marked v y u = marked w y u" by (simp add: marked_def mint_debtD(4) [OF m r] same_tokens(2) [OF s])
    ultimately show ?thesis using mark_borrowingD(1) [OF k r' i y] by auto
  qed
  then show ?thesis
    using l steady_registry [OF s' r'] by (simp add: ledger_def steady_timestamp [OF s] steady_timestamp [OF s'])
qed

lemma opened_ledger:
  assumes "mint_debt w asset user user' x st = Inr (b, v)" and "ledger w"
    and "(if b then mark_borrowing v asset user' True else Inr v) = Inr w'"
  shows "ledger w'"
proof (cases b)
  case True
  with assms marked_borrower_ledger show ?thesis by (metis (full_types))
next
  case False
  moreover have "registry w" using assms(2) by (simp add: ledger_def)
  ultimately show ?thesis using assms mint_debtD(2) mint_debt_ledger by (metis sum.inject(2))
qed

lemma execute_ledger:
  assumes "executeBorrow w asset user user' amount mode a release = Inr w'" and "ledger w"
  shows "ledger w'"
proof -
  from assms(1) obtain w1 m b w2 w3 w4 where u: "updateState w asset = Inr w1"
    and o: "mint_debt w1 asset user user' amount m = Inr (b, w2)"
    and k: "(if b then mark_borrowing w2 asset user' True else Inr w2) = Inr w3"
    and q: "updateInterestRates w3 asset a 0 (if release then amount else 0) = Inr w4"
    and s: "(if release then send_underlying w4 asset a user amount else Inr w4) = Inr w'"
    by (auto simp: executeBorrow_def sol_do_Inr sol_require_Inr)
  have "ledger w1" by (rule calm_ledger [OF calm_state [OF u] assms(2)])
  then have "ledger w3" using opened_ledger [OF o _ k] by simp
  then have "ledger w4" by (rule calm_ledger [OF calm_rates [OF q]])
  moreover have "calm w4 w'" using s by (cases release) (auto intro: calm_pool.send)
  ultimately show ?thesis by (rule calm_ledger [rotated])
qed

lemma swap_ledger:
  assumes "pool_swapBorrowRateMode w sender asset rateMode = Inr w'" and "ledger w"
  shows "ledger w'"
proof -
  from assms(1) obtain sd vd mode debt w1 w2 b w3 where d: "getUserCurrentDebt w asset sender = Inr (sd, vd)"
    and v: "validateSwapRateMode w sender asset sd vd mode = Inr ()"
    and u: "updateState w asset = Inr w1" and r: "burn_debt w1 asset sender debt (mode = STABLE_MODE) = Inr w2"
    and o: "mint_debt w2 asset sender sender debt (mode \<noteq> STABLE_MODE) = Inr (b, w3)"
    and q: "updateInterestRates w3 asset (d_aTokenAddress (w_reserves w3 asset)) 0 0 = Inr w'"
    by (auto simp: pool_swapBorrowRateMode_def when_not_paused_def Let_def sol_do_Inr sol_require_Inr)
  have "sd \<noteq> 0 \<or> vd \<noteq> 0" using v by (auto simp: validateSwapRateMode_def getFlags_def Let_def call_simps)
  then have "marked w asset sender" using positive_debt_owed [OF d] assms(2) by (simp add: ledger_def)
  moreover have q2: "calm w w2" using calm_trans [OF calm_state [OF u] calm_burn_debt [OF r]] .
  ultimately have "marked w2 asset sender" by (simp add: calm_marked)
  then have "ledger w3" using mint_debt_ledger [OF o calm_ledger [OF q2 assms(2)]] by simp
  then show ?thesis by (rule calm_ledger [OF calm_rates [OF q]])
qed

lemma rebalance_ledger:
  assumes "pool_rebalanceStableBorrowRate w asset user = Inr w'" and "ledger w"
  shows "ledger w'"
proof -
  from assms(1) obtain t debt w1 w2 b w3 where t: "stable_of w asset = Inr t"
    and d: "Stable_balanceOf (w_timestamp w) t user = Inr debt"
    and u: "updateState w asset = Inr w1" and r: "burn_debt w1 asset user debt True = Inr w2"
    and o: "mint_debt w2 asset user user debt True = Inr (b, w3)"
    and q: "updateInterestRates w3 asset (d_aTokenAddress (w_reserves w3 asset)) 0 0 = Inr w'"
    by (auto simp: pool_rebalanceStableBorrowRate_def when_not_paused_def sol_do_Inr sol_require_Inr)
  have q2: "calm w w2" using calm_trans [OF calm_state [OF u] calm_burn_debt [OF r]] .
  have "owes w asset user" if "debt \<noteq> 0" using Stable_balanceOfD(2) [OF d] t that by (auto simp: owes_def)
  then have "marked w2 asset user \<or> debt = 0" using assms(2) by (auto simp: ledger_def calm_marked [OF q2])
  then have "ledger w3" using mint_debt_ledger [OF o calm_ledger [OF q2 assms(2)]] by auto
  then show ?thesis by (rule calm_ledger [OF calm_rates [OF q]])
qed

end
