(* ===== verification/DebtHistory.thy ===== *)
theory DebtHistory
  imports DebtRules
begin

text \<open>
  Repayments, and the invariant of the debts over the histories of the pool: nobody owes a reserve without the
  bit by which the accounts count its debt.
\<close>

section \<open>Repayments\<close>

lemma normalized_at_least_index:
  "getNormalizedDebt now r = Some n \<Longrightarrow> unat (d_variableBorrowIndex r) \<le> unat n"
  by (auto simp: getNormalizedDebt_def Option.bind_eq_Some_conv split: if_splits
      dest: rayMul_grows(1) compounded_at_least_ray)

text \<open>What the balances before an action tell of the tokens.\<close>

lemma current_debtD:
  assumes "getUserCurrentDebt w asset user = Inr (sd, vd)"
  shows "\<exists>s v. stable_of w asset = Inr s \<and> variable_of w asset = Inr v \<and> Stable_balanceOf (w_timestamp w) s user = Inr sd
    \<and> (e_balances v user = 0 \<and> vd = 0 \<or> (\<exists>n. getNormalizedDebt (w_timestamp w) (w_reserves w asset) = Some n
         \<and> sol_rayMul (e_balances v user) n = Some vd))"
  using assms by (auto simp: getUserCurrentDebt_def Variable_balanceOf_def call_simps split: if_splits)

lemma zero_debts:
  assumes d: "getUserCurrentDebt w asset user = Inr (sd, vd)" and r: "registry w"
    and "stable_of w asset = Inr s" "variable_of w asset = Inr v"
  shows "sd = 0 \<Longrightarrow> e_balances s user = 0" and "vd = 0 \<Longrightarrow> e_balances v user = 0"
proof -
  show "sd = 0 \<Longrightarrow> e_balances s user = 0"
    using current_debtD [OF d] assms(3) by (auto dest: Stable_balanceOfD(1) simp: unat_eq_zero)
  assume z: "vd = 0"
  show "e_balances v user = 0"
  proof (rule ccontr)
    assume n0: "e_balances v user \<noteq> 0"
    then obtain n where n: "getNormalizedDebt (w_timestamp w) (w_reserves w asset) = Some n"
      and m: "sol_rayMul (e_balances v user) n = Some 0"
      using current_debtD [OF d] assms(4) z by auto
    have "listed w asset" using registryD(1,4) [OF r] assms(4) by blast
    then have "10 ^ 27 \<le> unat n" using normalized_at_least_index [OF n] by (simp add: listed_def)
    from rayMul_grows(2) [OF m this] n0 show False by (simp add: unat_eq_zero)
  qed
qed

text \<open>The update changes no debt token, and stores an index that the debts read before it cover.\<close>

lemma updateState_debts:
  assumes u: "updateState w asset = Inr w1" and r: "registry w" and t: "w_timestamp w < 2 ^ 40"
  shows "stable_of w1 y = stable_of w y" "variable_of w1 y = variable_of w y" "w_timestamp w1 = w_timestamp w"
    and "10 ^ 27 \<le> unat (d_variableBorrowIndex (w_reserves w1 asset))"
    and "getNormalizedDebt (w_timestamp w) (w_reserves w asset) = Some n \<Longrightarrow>
      unat (d_variableBorrowIndex (w_reserves w1 asset)) \<le> unat n"
proof -
  from updateStateD [OF u] obtain v li vi r' where v: "variable_of w asset = Inr v"
    and i: "updateIndexes (w_timestamp w) (e_totalSupply v) (w_reserves w asset) = Inr (li, vi, r')"
    and w1: "w_reserves w1 asset = r'" "w_stableDebts w1 = w_stableDebts w" "w_variableDebts w1 = w_variableDebts w"
    by (auto simp: put_reserve_def put_aToken_def)
  note s = updateState_steady [OF u]
  show "stable_of w1 y = stable_of w y" "variable_of w1 y = variable_of w y"
    by (simp_all add: stable_of_def variable_of_def w1 same_tokens [OF s])
  show "w_timestamp w1 = w_timestamp w" by (rule steady_timestamp [OF s])
  have "initialized w1 asset" using registryD(4) [OF r v] by (simp add: same_tokens [OF s])
  then show "10 ^ 27 \<le> unat (d_variableBorrowIndex (w_reserves w1 asset))"
    using registryD(1) [OF steady_registry [OF s r]] by (simp add: listed_def)
  show "unat (d_variableBorrowIndex (w_reserves w1 asset)) \<le> unat n"
    if "getNormalizedDebt (w_timestamp w) (w_reserves w asset) = Some n"
    using updated_index_at_most_normalized [OF i that t] updateIndexesD [OF i] by (simp add: w1)
qed

lemma put_debts:
  "stable_of w asset = Inr s \<Longrightarrow> stable_of (put_stable w asset s') asset = Inr s'"
  "variable_of (put_stable w asset s') asset = variable_of w asset"
  "variable_of w asset = Inr v \<Longrightarrow> variable_of (put_variable w asset v') asset = Inr v'"
  "stable_of (put_variable w asset v') asset = stable_of w asset"
  by (simp_all add: stable_of_def variable_of_def put_stable_def put_variable_def contract_at_def)

text \<open>The debt read before the update is all of what is burnt after it, when nothing is left.\<close>

lemma burn_all:
  assumes d: "getUserCurrentDebt w asset user = Inr (sd, vd)" and r: "registry w" and t: "w_timestamp w < 2 ^ 40"
    and u: "updateState w asset = Inr w1"
    and b: "burn_debt w1 asset user (if st then sd else vd) st = Inr w2" and z: "if st then vd = 0 else sd = 0"
  shows "\<not> owes w2 asset user"
proof -
  from current_debtD [OF d] obtain s v where s: "stable_of w asset = Inr s" and v: "variable_of w asset = Inr v"
    and sd: "Stable_balanceOf (w_timestamp w) s user = Inr sd"
    and vd: "e_balances v user = 0 \<and> vd = 0 \<or> (\<exists>n. getNormalizedDebt (w_timestamp w) (w_reserves w asset) = Some n
         \<and> sol_rayMul (e_balances v user) n = Some vd)" by auto
  note u1 = updateState_debts [OF u r t]
  show ?thesis
  proof (cases st)
    case True
    with b s u1 obtain s' where s': "Stable_burn (w_timestamp w) user sd s = Inr s'" and w2: "w2 = put_stable w1 asset s'"
      by (auto simp: burn_debt_def call_simps)
    have "e_balances s' user = 0" using Stable_burnD [OF s'] sd by (auto simp: unat_eq_zero)
    then show ?thesis using zero_debts(2) [OF d r s v] z True s v u1 by (simp add: owes_def w2 put_debts)
  next
    case False
    with b v u1 obtain v' where v': "Variable_burn user vd (ucast (d_variableBorrowIndex (w_reserves w1 asset))) v = Inr v'"
      and w2: "w2 = put_variable w1 asset v'"
      by (auto simp: burn_debt_def call_simps)
    have "e_balances v' user = 0"
    proof (cases "e_balances v user = 0")
      case True
      then show ?thesis using v' by (auto simp: Variable_burn_def call_simps unat_eq_zero dest!: e_burn_held)
    next
      case False
      with vd obtain n where n: "getNormalizedDebt (w_timestamp w) (w_reserves w asset) = Some n"
         "sol_rayMul (e_balances v user) n = Some vd" by auto
      show ?thesis using Variable_burn_all [OF n(2) v'] u1(4) u1(5) [OF n(1)] by simp
    qed
    then show ?thesis using zero_debts(1) [OF d r s v] z False s v u1 by (simp add: owes_def w2 put_debts)
  qed
qed

lemma unmarked_ledger:
  assumes l: "ledger w" and m: "mark_borrowing w asset user False = Inr w'" and o: "\<not> owes w asset user"
    and i: "initialized w asset"
  shows "ledger w'"
proof -
  have r: "registry w" using l by (simp add: ledger_def)
  have s: "steady w w'" by (rule steady_pool.borrowing [OF m])
  have "marked w' y u" if "owes w' y u" for y u
  proof -
    have y: "initialized w y" using owes_initialized [OF steady_registry [OF s r] that] by (simp add: same_tokens [OF s])
    have "owes w y u" using that mark_borrowingD(2) [OF m r i y] by simp
    then show ?thesis using mark_borrowingD(1) [OF m r i y] l o by (auto simp: ledger_def)
  qed
  then show ?thesis using l steady_registry [OF s r] by (simp add: ledger_def steady_timestamp [OF s])
qed

lemma repay_parts:
  assumes "pool_repay w sender asset amount rateMode user = Inr (x, w')"
  obtains sd vd st w1 w2 w3 w4 left where "getUserCurrentDebt w asset user = Inr (sd, vd)"
    and "updateState w asset = Inr w1" and "unat x \<le> unat (if st then sd else vd)" and "burn_debt w1 asset user x st = Inr w2"
    and "updateInterestRates w2 asset (d_aTokenAddress (w_reserves w2 asset)) x 0 = Inr w3"
    and "unat (left :: u256) = unat sd + unat vd - unat x"
    and "(if left = 0 then mark_borrowing w3 asset user False else Inr w3) = Inr w4"
    and "pull_asset w4 asset sender (d_aTokenAddress (w_reserves w2 asset)) x = Inr w'"
proof -
  from assms obtain sd vd mode y w1 w2 w3 left w4 where p: "getUserCurrentDebt w asset user = Inr (sd, vd)"
      "updateState w asset = Inr w1" and y: "y = (if mode = STABLE_MODE then sd else vd)" "x = (if amount < y then amount else y)"
    and b: "burn_debt w1 asset user x (mode = STABLE_MODE) = Inr w2"
      "updateInterestRates w2 asset (d_aTokenAddress (w_reserves w2 asset)) x 0 = Inr w3"
    and l: "(do { debt \<leftarrow> sol_add sd vd; sol_sub debt x }) = Some left"
    and k: "(if left = 0 then mark_borrowing w3 asset user False else Inr w3) = Inr w4"
      "pull_asset w4 asset sender (d_aTokenAddress (w_reserves w2 asset)) x = Inr w'"
    by (auto simp: pool_repay_def when_not_paused_def Let_def sol_do_Inr sol_require_Inr safe_Inr)
  have left: "unat left = unat sd + unat vd - unat x"
    using l by (auto simp: Option.bind_eq_Some_conv dest!: sol_addD sol_subD)
  have "unat x \<le> unat (if mode = STABLE_MODE then sd else vd)"
    using y by (auto simp: word_less_nat_alt)
  then show ?thesis using that [of sd vd w1 "mode = STABLE_MODE" w2 w3 left w4] p b left k by simp
qed

text \<open>When nothing is left, nothing is owed before the bit is cleared.\<close>

lemma nothing_left:
  assumes l: "ledger w" and d: "getUserCurrentDebt w asset user = Inr (sd, vd)" and u: "updateState w asset = Inr w1"
    and x: "unat x \<le> unat (if st then sd else vd)" and b: "burn_debt w1 asset user x st = Inr w2"
    and q: "updateInterestRates w2 asset a y z = Inr w3" and left: "unat sd + unat vd \<le> unat x"
  shows "\<not> owes w3 asset user" and "initialized w3 asset"
proof -
  have r: "registry w" "w_timestamp w < 2 ^ 40" using l by (simp_all add: ledger_def)
  have c: "calm w w3" by (rule calm_trans [OF calm_state [OF u] calm_trans [OF calm_burn_debt [OF b] calm_rates [OF q]]])
  from left x have z: "if st then vd = 0 else sd = 0" "x = (if st then sd else vd)"
    by (auto simp: u256_eq_iff split: if_splits)
  have "\<not> owes w2 asset user" using burn_all [OF d r u _ z(1)] b z(2) by simp
  then show "\<not> owes w3 asset user" using calm_owes [OF calm_rates [OF q]] by blast
  have "initialized w asset" using current_debtD [OF d] registryD(3) [OF r(1)] by blast
  then show "initialized w3 asset" using c same_tokens(1) [of w w3] by (simp add: calm_def)
qed

lemma repay_ledger:
  assumes p: "pool_repay w sender asset amount rateMode user = Inr (x, w')" and l: "ledger w"
  shows "ledger w'"
proof -
  obtain sd vd st w1 w2 w3 w4 left where d: "getUserCurrentDebt w asset user = Inr (sd, vd)"
    and u: "updateState w asset = Inr w1" and x: "unat x \<le> unat (if st then sd else vd)" and b: "burn_debt w1 asset user x st = Inr w2"
    and q: "updateInterestRates w2 asset (d_aTokenAddress (w_reserves w2 asset)) x 0 = Inr w3"
    and left: "unat (left :: u256) = unat sd + unat vd - unat x"
    and k: "(if left = 0 then mark_borrowing w3 asset user False else Inr w3) = Inr w4"
    and f: "pull_asset w4 asset sender (d_aTokenAddress (w_reserves w2 asset)) x = Inr w'" by (rule repay_parts [OF p])
  have l3: "ledger w3"
    by (rule calm_ledger [OF calm_trans [OF calm_state [OF u] calm_trans [OF calm_burn_debt [OF b] calm_rates [OF q]]] l])
  have "ledger w4"
  proof (cases "left = 0")
    case True
    with left have "unat sd + unat vd \<le> unat x" by simp
    from unmarked_ledger [OF l3 _ nothing_left [OF l d u x b q this]] show ?thesis using k True by simp
  qed (use k l3 in simp)
  then show ?thesis by (rule calm_ledger [OF calm_pool.pull [OF f]])
qed

lemma repay_clears:
  assumes p: "pool_repay w sender asset amount rateMode user = Inr (x, w')" and l: "ledger w"
    and all: "getUserCurrentDebt w asset user = Inr (stableDebt, variableDebt)" "unat x = unat stableDebt + unat variableDebt"
  shows "\<not> owes w' asset user" and "\<not> marked w' asset user" and "initialized w' asset"
proof -
  obtain sd vd st w1 w2 w3 w4 left where d: "getUserCurrentDebt w asset user = Inr (sd, vd)"
    and u: "updateState w asset = Inr w1" and x: "unat x \<le> unat (if st then sd else vd)" and b: "burn_debt w1 asset user x st = Inr w2"
    and q: "updateInterestRates w2 asset (d_aTokenAddress (w_reserves w2 asset)) x 0 = Inr w3"
    and left: "unat (left :: u256) = unat sd + unat vd - unat x"
    and k: "(if left = 0 then mark_borrowing w3 asset user False else Inr w3) = Inr w4"
    and f: "pull_asset w4 asset sender (d_aTokenAddress (w_reserves w2 asset)) x = Inr w'" by (rule repay_parts [OF p])
  have xs: "unat sd + unat vd \<le> unat x" using d all by simp
  note n = nothing_left [OF l d u x b q xs]
  have "left = 0" using left xs by (simp add: u256_eq_iff)
  with k have m: "mark_borrowing w3 asset user False = Inr w4" by simp
  have c: "calm w w3" by (rule calm_trans [OF calm_state [OF u] calm_trans [OF calm_burn_debt [OF b] calm_rates [OF q]]])
  have "registry w3" using calm_ledger [OF c l] by (simp add: ledger_def)
  note m' = mark_borrowingD [OF m this n(2) n(2), of user]
  have f': "calm w4 w'" by (rule calm_pool.pull [OF f])
  show "\<not> owes w' asset user" using calm_owes [OF f'] m'(2) n(1) by blast
  show "\<not> marked w' asset user" using calm_marked [OF f'] m'(1) by simp
  have "steady w3 w4" by (rule steady_pool.borrowing [OF m])
  then show "initialized w' asset" using n(2) f' same_tokens(1) [of w3 w4] same_tokens(1) [of w4 w'] by (simp add: calm_def)
qed

interpretation ledger_pool: action_relation "\<lambda>w w'. ledger w \<longrightarrow> ledger w'"
  by unfold_locales (auto dest: calm_ledger [OF calm_pool.state] calm_ledger [OF calm_pool.rates] calm_ledger [OF calm_pool.pull]
    calm_ledger [OF calm_pool.send] calm_ledger [OF calm_pool.mint] calm_ledger [OF calm_pool.burn] calm_ledger [OF calm_pool.burn_debt]
    calm_ledger [OF calm_pool.collateral] calm_ledger [OF calm_pool.move] calm_ledger [OF calm_pool.approve]
    execute_ledger repay_ledger swap_ledger rebalance_ledger)

section \<open>What happens besides\<close>

lemma ledger_cong:
  assumes "\<And>x. d_aTokenAddress (w_reserves w' x) = d_aTokenAddress (w_reserves w x)
      \<and> d_stableDebtTokenAddress (w_reserves w' x) = d_stableDebtTokenAddress (w_reserves w x)
      \<and> d_variableDebtTokenAddress (w_reserves w' x) = d_variableDebtTokenAddress (w_reserves w x)
      \<and> d_id (w_reserves w' x) = d_id (w_reserves w x)
      \<and> d_variableBorrowIndex (w_reserves w' x) = d_variableBorrowIndex (w_reserves w x)"
    and "w_reservesList w' = w_reservesList w" "w_reservesCount w' = w_reservesCount w"
      "w_maxNumberOfReserves w' = w_maxNumberOfReserves w" "dom (w_assets w') = dom (w_assets w)"
      "w_stableDebts w' = w_stableDebts w" "w_variableDebts w' = w_variableDebts w"
      "w_usersConfig w' = w_usersConfig w" "w_timestamp w' < 2 ^ 40"
    and "ledger w"
  shows "ledger w'"
  using assms(9,10)
  by (simp add: ledger_def registry_def initialized_def listed_def unlisted_def own_tokens_def list_entries_def
      within_limits_def owes_def marked_def stable_of_def variable_of_def reserve_index_def assms(1-8) cong: if_cong)

lemma outside_ledger: "outside_step w w' \<Longrightarrow> ledger w \<Longrightarrow> ledger w'"
proof (induction rule: outside_step.induct)
  case (clock w now)
  then show ?case by (auto intro: ledger_cong)
next
  case (oracles w p m)
  then have "w_timestamp w < 2 ^ 40" by (simp add: ledger_def)
  with oracles show ?case by (auto intro: ledger_cong)
next
  case (strategies w a st)
  then have "w_timestamp w < 2 ^ 40" by (simp add: ledger_def)
  with strategies show ?case by (auto intro: ledger_cong)
next
  case (stable_delegated w asset t sender to x)
  show ?case by (rule calm_ledger [OF calm_stable [OF stable_delegated(1)] stable_delegated(2)])
      (simp add: Stable_approveDelegation_def)
next
  case (variable_delegated w asset t sender to x)
  show ?case by (rule calm_ledger [OF calm_variable [OF variable_delegated(1)] variable_delegated(2)])
      (simp add: Variable_approveDelegation_def)
qed (blast intro: calm_ledger calm_asset calm_aToken)+

lemma configured_ledger:
  assumes "ledger w"
  shows "ledger (pool_setConfiguration w asset conf)" "ledger (pool_setPause w b)"
    "ledger (pool_setReserveInterestRateStrategyAddress w asset strat)"
proof -
  have t: "w_timestamp w < 2 ^ 40" using assms by (simp add: ledger_def)
  show "ledger (pool_setConfiguration w asset conf)" "ledger (pool_setPause w b)"
    "ledger (pool_setReserveInterestRateStrategyAddress w asset strat)"
    by (rule ledger_cong [OF _ _ _ _ _ _ _ _ _ assms];
        use t in \<open>simp add: pool_setConfiguration_def pool_setPause_def put_reserve_def
          pool_setReserveInterestRateStrategyAddress_def\<close>)+
qed

section \<open>New reserves\<close>

lemma registered_reserve:
  assumes i: "conf_initReserve w sender asset decimals strat treasury a s v = Inr w'" and r: "registry w"
  shows "\<not> initialized w asset" "w_reservesCount w < 128" "w_reservesCount w' = w_reservesCount w + 1"
    "w_reservesList w' = (w_reservesList w)(w_reservesCount w := asset)"
    "w_maxNumberOfReserves w' = w_maxNumberOfReserves w" "w_assets w' = w_assets w"
    "w_stableDebts w' = (w_stableDebts w)(s \<mapsto> fresh_stable)" "w_variableDebts w' = (w_variableDebts w)(v \<mapsto> fresh_variable)"
    "w_usersConfig w' = w_usersConfig w" "w_timestamp w' = w_timestamp w"
    "y \<noteq> asset \<Longrightarrow> w_reserves w' y = w_reserves w y"
    "d_aTokenAddress (w_reserves w' asset) = a" "d_stableDebtTokenAddress (w_reserves w' asset) = s"
    "d_variableDebtTokenAddress (w_reserves w' asset) = v" "reserve_index w' asset = w_reservesCount w"
    "unat (d_variableBorrowIndex (w_reserves w' asset)) = 10 ^ 27"
proof -
  note d = conf_initReserveD [OF i]
  show ni: "\<not> initialized w asset" using d by (simp add: initialized_def)
  show c: "w_reservesCount w < 128" using d r by (simp add: registry_def within_limits_def)
  have "d_id (w_reserves w asset) = 0" using registryD(2) [OF r ni] by (simp add: unlisted_def)
  moreover have "w_reservesList w 0 \<noteq> asset"
  proof (cases "w_reservesCount w")
    case 0
    then have "w_reservesList w 0 = 0" using r unfolding registry_def list_entries_def by (metis less_nat_zero_code)
    then show ?thesis using d r by (auto simp: registry_def within_limits_def)
  next
    case (Suc n)
    then have "initialized w (w_reservesList w 0)" using r unfolding registry_def list_entries_def by (metis zero_less_Suc)
    then show ?thesis using ni by auto
  qed
  ultimately obtain u conf where w': "w' = pool_setConfiguration u asset conf"
    and u: "u = (let w1 = put_reserve (create_tokens w treasury a s v) asset (new_reserve w asset a s v strat) in
      (put_reserve w1 asset ((w_reserves w1 asset)\<lparr>d_id := of_nat (w_reservesCount w)\<rparr>))
        \<lparr>w_reservesList := (w_reservesList w)(w_reservesCount w := asset), w_reservesCount := w_reservesCount w + 1\<rparr>)"
    using d by (auto simp: Let_def)
  note defs = w' u Let_def pool_setConfiguration_def put_reserve_def create_tokens_def new_reserve_def
  show "w_reservesCount w' = w_reservesCount w + 1" "w_reservesList w' = (w_reservesList w)(w_reservesCount w := asset)"
    "w_maxNumberOfReserves w' = w_maxNumberOfReserves w" "w_assets w' = w_assets w"
    "w_stableDebts w' = (w_stableDebts w)(s \<mapsto> fresh_stable)" "w_variableDebts w' = (w_variableDebts w)(v \<mapsto> fresh_variable)"
    "w_usersConfig w' = w_usersConfig w" "w_timestamp w' = w_timestamp w"
    "y \<noteq> asset \<Longrightarrow> w_reserves w' y = w_reserves w y"
    "d_aTokenAddress (w_reserves w' asset) = a" "d_stableDebtTokenAddress (w_reserves w' asset) = s"
    "d_variableDebtTokenAddress (w_reserves w' asset) = v"
    by (simp_all add: defs)
  show "reserve_index w' asset = w_reservesCount w" using c by (simp add: defs reserve_index_def unat_of_nat)
  show "unat (d_variableBorrowIndex (w_reserves w' asset)) = 10 ^ 27"
    by (simp add: defs sol_RAY_def unsigned_ucast_eq unsigned_take_bit_eq take_bit_nat_eq_self_iff)
qed

lemma initReserve_ledger:
  assumes i: "conf_initReserve w sender asset decimals strat treasury a s v = Inr w'" and l: "ledger w"
    and fresh: "w_stableDebts w s = None" "w_variableDebts w v = None" "a \<noteq> 0" "s \<noteq> 0" "v \<noteq> 0"
  shows "ledger w'"
proof -
  have r: "registry w" using l by (simp add: ledger_def)
  note f = registered_reserve [OF i r]
  have init: "initialized w' x \<longleftrightarrow> x = asset \<or> initialized w x" for x
    using f(1,11,12) fresh(3) by (cases "x = asset") (auto simp: initialized_def)
  have old: "listed w x \<and> d_stableDebtTokenAddress (w_reserves w x) \<noteq> s \<and> d_variableDebtTokenAddress (w_reserves w x) \<noteq> v"
    if "initialized w x" for x
    using registryD(1) [OF r that] fresh by (auto simp: listed_def)
  have same: "w_reserves w' x = w_reserves w x" if "initialized w x" for x
    using f(1) f(11) [of x] that by metis
  have "if initialized w' x then listed w' x else unlisted w' x" for x
  proof (cases "x = asset")
    case True
    then show ?thesis by (simp add: init) (simp add: listed_def f)
  next
    case False
    then show ?thesis using registryD(1,2) [OF r, of x]
      by (auto simp: init listed_def unlisted_def f reserve_index_def)
  qed
  moreover have "own_tokens w'"
    using registryD(5) [OF r] old by (auto simp: own_tokens_def init f same)
  moreover have "list_entries w'"
    using r f(2) unfolding registry_def list_entries_def f(3,4) init by (auto split: if_splits)
  moreover have "within_limits w'"
    using r f(2) fresh by (auto simp: registry_def within_limits_def f(3-8))
  ultimately have "registry w'" by (simp add: registry_def)
  moreover have "marked w' y u" if "owes w' y u" for y u
  proof -
    have "y \<noteq> asset"
      using that by (auto simp: owes_def stable_of_def variable_of_def contract_at_def f fresh_stable_def fresh_variable_def)
    moreover from this have "initialized w y" using owes_initialized [OF \<open>registry w'\<close> that] by (simp add: init)
    ultimately have "owes w y u"
      using that old by (auto simp: owes_def stable_of_def variable_of_def contract_at_def f)
    then show ?thesis using l \<open>y \<noteq> asset\<close> by (simp add: ledger_def marked_def reserve_index_def f)
  qed
  ultimately show ?thesis using l by (simp add: ledger_def f)
qed

lemma admin_ledger: "admin_step w w' \<Longrightarrow> ledger w \<Longrightarrow> ledger w'"
  by (drule admin_stepD) (elim disjE exE conjE; simp add: configured_ledger initReserve_ledger)

interpretation ledger_history: history_relation "\<lambda>w w'. ledger w \<longrightarrow> ledger w'"
  by unfold_locales (auto dest: admin_ledger outside_ledger)

end
