(* ===== verification/PoolScene.thy ===== *)
theory PoolScene
  imports DebtHistory
begin

text \<open>
  A pool in use, for the witnesses: one reserve is initialized and configured, a user deposits, borrows part of
  it at the variable rate, and time passes.
\<close>

definition blank_reserve :: sol_reserve where
  "blank_reserve = \<lparr> d_configuration = 0, d_liquidityIndex = 0, d_variableBorrowIndex = 0,
     d_currentLiquidityRate = 0, d_currentVariableBorrowRate = 0, d_currentStableBorrowRate = 0,
     d_lastUpdateTimestamp = 0, d_aTokenAddress = 0, d_stableDebtTokenAddress = 0, d_variableDebtTokenAddress = 0,
     d_interestRateStrategyAddress = 0, d_id = 0 \<rparr>"

definition new_pool :: "world \<Rightarrow> bool" where
  "new_pool w \<longleftrightarrow> (\<forall>x. w_reserves w x = blank_reserve)
     \<and> (\<forall>u. w_usersConfig w u = 0) \<and> (\<forall>i. w_reservesList w i = 0) \<and> w_reservesCount w = 0
     \<and> w_aTokens w = Map.empty \<and> w_stableDebts w = Map.empty \<and> w_variableDebts w = Map.empty
     \<and> w_assets w 0 = None \<and> w_timestamp w < 2 ^ 40"

definition scene_asset :: erc20 where
  "scene_asset = \<lparr> e_balances = (\<lambda>_. 0)(7 := 10 ^ 21), e_totalSupply = 10 ^ 21,
     e_allowances = (\<lambda>_ _. 0)(7 := (\<lambda>_. 0)(99 := 10 ^ 21)) \<rparr>"

definition scene_strategy :: sol_strategy where
  "scene_strategy = \<lparr> sol_OPTIMAL_UTILIZATION_RATE = 8 * 10 ^ 26, sol_EXCESS_UTILIZATION_RATE = 2 * 10 ^ 26,
     sol_baseVariableBorrowRate = 0, sol_variableRateSlope1 = 4 * 10 ^ 25, sol_variableRateSlope2 = 75 * 10 ^ 25,
     sol_stableRateSlope1 = 2 * 10 ^ 25, sol_stableRateSlope2 = 75 * 10 ^ 25 \<rparr>"

definition scene_new :: world where
  "scene_new = \<lparr> w_reserves = (\<lambda>_. blank_reserve), w_usersConfig = (\<lambda>_. 0), w_reservesList = (\<lambda>_. 0), w_reservesCount = 0,
     w_paused = False, w_maxStableRateBorrowSizePercent = 0, w_flashLoanPremiumTotal = 0, w_maxNumberOfReserves = 0,
     w_assets = [1 \<mapsto> scene_asset], w_aTokens = Map.empty, w_stableDebts = Map.empty, w_variableDebts = Map.empty,
     w_strategies = [5 \<mapsto> scene_strategy], w_assetPrice = (\<lambda>_. 10 ^ 18), w_marketBorrowRate = (\<lambda>_. 3 * 10 ^ 25),
     w_timestamp = 1600000000, w_pool = 99, w_poolAdmin = 9, w_emergencyAdmin = 9 \<rparr>"

text \<open>The states of the scene, with what changes after the configuration as arguments.\<close>

definition scene_at :: "sol_reserve \<Rightarrow> (addr \<Rightarrow> u256) \<Rightarrow> erc20 \<Rightarrow> a_token \<Rightarrow> variable_debt \<Rightarrow> u256 \<Rightarrow> world" where
  "scene_at r users asset aToken variable now = \<lparr> w_reserves = (\<lambda>_. blank_reserve)(1 := r), w_usersConfig = users,
     w_reservesList = (\<lambda>_. 0)(0 := 1), w_reservesCount = 1, w_paused = False, w_maxStableRateBorrowSizePercent = 2500,
     w_flashLoanPremiumTotal = 1, w_maxNumberOfReserves = 128, w_assets = [1 \<mapsto> asset], w_aTokens = [2 \<mapsto> aToken],
     w_stableDebts = [3 \<mapsto> fresh_stable], w_variableDebts = [4 \<mapsto> variable],
     w_strategies = [5 \<mapsto> scene_strategy], w_assetPrice = (\<lambda>_. 10 ^ 18), w_marketBorrowRate = (\<lambda>_. 3 * 10 ^ 25),
     w_timestamp = now, w_pool = 99, w_poolAdmin = 9, w_emergencyAdmin = 9 \<rparr>"

definition scene_reserve :: sol_reserve where
  "scene_reserve = \<lparr> d_configuration = 18447685934079339142976, d_liquidityIndex = 10 ^ 27, d_variableBorrowIndex = 10 ^ 27,
     d_currentLiquidityRate = 0, d_currentVariableBorrowRate = 0, d_currentStableBorrowRate = 0,
     d_lastUpdateTimestamp = 0, d_aTokenAddress = 2, d_stableDebtTokenAddress = 3, d_variableDebtTokenAddress = 4,
     d_interestRateStrategyAddress = 5, d_id = 0 \<rparr>"

definition scene_configured :: "world call" where
  "scene_configured =
     sol_do (conf_initReserve (pool_initialize scene_new) 9 1 18 5 8 2 3 4) (\<lambda>w.
     sol_do (conf_configureReserveAsCollateral w 9 1 8000 8500 10500) (\<lambda>w.
     sol_do (conf_enableBorrowingOnReserve w 9 1 True) (\<lambda>w.
     conf_setReserveFactor w 9 1 1000)))"

lemmas configuration_rules = conf_initReserve_def pool_initialize_def only_pool_admin_def pool_initReserve_def create_tokens_def
  sol_init_reserve_def addReserveToList_def put_reserve_def Let_def fresh_aToken_def
  fresh_variable_def fresh_stable_def pool_setConfiguration_def configuration_of_def
  conf_configureReserveAsCollateral_def conf_enableBorrowingOnReserve_def conf_setReserveFactor_def
  setDecimals_def setActive_def setFrozen_def setLtv_def setLiquidationThreshold_def setLiquidationBonus_def
  setReserveFactor_def setBorrowingEnabled_def setStableRateBorrowingEnabled_def mask_defs
  percentMul_def sol_RAY_def HALF_PERCENT_def PERCENTAGE_FACTOR_def

lemma scene_configured:
  "scene_configured = Inr (scene_at scene_reserve (\<lambda>_. 0) scene_asset (fresh_aToken 8) fresh_variable 1600000000)"
  by (simp add: scene_configured_def scene_new_def scene_at_def blank_reserve_def scene_reserve_def configuration_rules)

text \<open>Calls are evaluated in their order, what follows only then.\<close>

lemma sol_do_first: "m = m' \<Longrightarrow> sol_do m f = sol_do m' f"
  by simp

lemma bind_first: "m = m' \<Longrightarrow> Option.bind m f = Option.bind m' f"
  by simp

lemma require_first: "c = c' \<Longrightarrow> sol_require c reason m = sol_require c' reason m"
  by simp

lemmas call_order = sol_do_first bind_first require_first

lemmas action_rules = Let_def when_not_paused_def safely_def contract_at_def aToken_of_def stable_of_def variable_of_def
  put_reserve_def put_aToken_def put_stable_def put_variable_def put_asset_def reserve_index_def
  pool_deposit_def validateDeposit_def getFlags_def getActive_def getFrozen_def getBorrowingEnabled_def
  getStableRateBorrowingEnabled_def mask_defs updateState_def updateIndexes_def mintToTreasury_def treasury_amount_def getReserveFactor_def
  updateInterestRates_def rates_after_def Stable_calcTotalSupply_def pull_asset_def mint_aTokens_def AToken_mint_def
  AToken_mintToTreasury_def
  use_as_collateral_def setUsingAsCollateral_def e_transferFrom_def e_transfer_def e_approve_def e_mint_def sol_sub_or_def
  sol_calculateInterestRates_def sol_utilizationRate_def sol_branch_rates_def sol_getOverallBorrowRate_def
  sol_calculateLinearInterest_def sol_calculateCompoundedInterest_def sol_SECONDS_PER_YEAR_def
  sol_add_def sol_sub_def sol_mul_def sol_rayMul_def sol_rayDiv_def sol_wadToRay_def sol_RAY_def sol_halfRAY_def sol_WAD_RAY_RATIO_def
  percentMul_def HALF_PERCENT_def PERCENTAGE_FACTOR_def max_uint128_def
  pool_borrow_def executeBorrow_def value_in_eth_def sol_divide_def getDecimals_def validateBorrow_def calculateUserAccountData_def
  account_step_def isUsingAsCollateralOrBorrowing_def isUsingAsCollateral_def isBorrowing_def add_collateral_def add_debt_def
  AToken_balanceOf_def getNormalizedIncome_def getLtv_def getLiquidationThreshold_def
  calculateHealthFactorFromBalances_def sol_percentDiv_def sol_wadDiv_def sol_halfWAD_def sol_WAD_def
  STABLE_MODE_def VARIABLE_MODE_def HEALTH_FACTOR_LIQUIDATION_THRESHOLD_def to_rate_mode_def isEmpty_def
  mint_debt_def Variable_mint_def spend_delegation_def mark_borrowing_def setBorrowing_def send_underlying_def
  AToken_transferUnderlyingTo_def getUserCurrentDebt_def Variable_balanceOf_def Stable_balanceOf_def getNormalizedDebt_def

lemmas scene_defs = scene_at_def scene_reserve_def scene_asset_def scene_strategy_def blank_reserve_def fresh_aToken_def
  fresh_stable_def fresh_variable_def

text \<open>After the deposit, and after the borrowing.\<close>

definition deposited_reserve :: sol_reserve where
  "deposited_reserve = scene_reserve\<lparr>d_currentStableBorrowRate := 30000000000000000000000000,
     d_lastUpdateTimestamp := 1600000000\<rparr>"

definition deposited_asset :: erc20 where
  "deposited_asset = \<lparr> e_balances = (\<lambda>_. 0)(7 := 900000000000000000000, 2 := 100000000000000000000), e_totalSupply = 10 ^ 21,
     e_allowances = (\<lambda>_ _. 0)(7 := (\<lambda>_. 0)(99 := 900000000000000000000)) \<rparr>"

definition deposited_aToken :: a_token where
  "deposited_aToken = \<lparr> e_balances = (\<lambda>_. 0)(7 := 100000000000000000000), e_totalSupply = 100000000000000000000,
     e_allowances = (\<lambda>_ _. 0), a_treasury = 8 \<rparr>"

definition scene_deposited :: world where
  "scene_deposited = scene_at deposited_reserve ((\<lambda>_. 0)(7 := 2)) deposited_asset deposited_aToken fresh_variable 1600000000"

definition borrowed_variable :: variable_debt where
  "borrowed_variable = \<lparr> e_balances = (\<lambda>_. 0)(7 := 1000000000000000000), e_totalSupply = 1000000000000000000,
     e_allowances = (\<lambda>_ _. 0), v_borrowAllowances = (\<lambda>_ _. 0) \<rparr>"

lemmas deposited_defs = deposited_reserve_def deposited_asset_def deposited_aToken_def scene_deposited_def borrowed_variable_def

lemma scene_deposit:
  "pool_deposit (scene_at scene_reserve (\<lambda>_. 0) scene_asset (fresh_aToken 8) fresh_variable 1600000000) 7 1 (10 ^ 20) 7
    = Inr scene_deposited"
  by (simp add: deposited_defs scene_defs action_rules cong: call_order)

lemma deposited_account:
  "calculateUserAccountData scene_deposited 7 2 = Inr \<lparr> ad_collateral = 10 ^ 20, ad_debt = 0, ad_ltv = 8000,
     ad_threshold = 8500, ad_health = - 1 \<rparr>"
proof -
  have l: "account_loop scene_deposited 7 2 [0..<w_reservesCount scene_deposited]
      \<lparr> c_collateral = 0, c_debt = 0, c_ltv = 0, c_threshold = 0 \<rparr>
    = Inr \<lparr> c_collateral = 100000000000000000000, c_debt = 0, c_ltv = 800000000000000000000000,
      c_threshold = 850000000000000000000000 \<rparr>"
    by (simp add: deposited_defs scene_defs action_rules cong: call_order)
  show ?thesis by (simp add: calculateUserAccountData_def isEmpty_def l Let_def sol_divide_def calculateHealthFactorFromBalances_def)
qed

lemma deposited_may_borrow: "validateBorrow scene_deposited 1 7 (10 ^ 18) (10 ^ 18) 2 = Inr ()"
proof -
  have f: "w_usersConfig scene_deposited 7 = 2" "d_configuration (w_reserves scene_deposited 1) = 18447685934079339142976"
    by (simp_all add: deposited_defs scene_defs)
  show ?thesis by (simp add: validateBorrow_def f deposited_account Let_def getFlags_def getActive_def getFrozen_def getBorrowingEnabled_def
  getStableRateBorrowingEnabled_def mask_defs VARIABLE_MODE_def STABLE_MODE_def HEALTH_FACTOR_LIQUIDATION_THRESHOLD_def sol_add_def sol_percentDiv_def PERCENTAGE_FACTOR_def cong: call_order)
qed

text \<open>Rounded quotients are checked by multiplication.\<close>

lemma nearest_value: "0 < n \<Longrightarrow> q = nearest_div m n \<longleftrightarrow> q * n \<le> m + n div 2 \<and> m + n div 2 < q * n + n"
  by (simp add: nearest_div_def div_nat_eqI [THEN sym] less_eq_div_iff_mult_less_eq order_antisym_conv)
    (metis add.commute div_nat_eqI dividend_less_times_div mult.commute mult_Suc_right times_div_less_eq_dividend)

lemma strategy_rates:
  "sol_calculateInterestRates scene_strategy 30000000000000000000000000 99000000000000000000 0 1000000000000000000 0 1000
    = Some (4500000000000000000000, 30250000000000000000000000, 500000000000000000000000)"
proof -
  have u: "sol_rayDiv 1000000000000000000 100000000000000000000 = Some 10000000000000000000000000"
    and "sol_rayDiv 10000000000000000000000000 800000000000000000000000000 = Some 12500000000000000000000000"
    and "sol_rayMul 20000000000000000000000000 12500000000000000000000000 = Some 250000000000000000000000"
    and "sol_rayMul 10000000000000000000000000 40000000000000000000000000 = Some 400000000000000000000000"
    and "sol_rayDiv 400000000000000000000000 800000000000000000000000000 = Some 500000000000000000000000"
    and "sol_wadToRay 1000000000000000000 = Some 1000000000000000000000000000" "sol_wadToRay 0 = Some 0"
    and "sol_rayMul 1000000000000000000000000000 500000000000000000000000 = Some 500000000000000000000000" "sol_rayMul 0 0 = Some 0"
    and "sol_rayDiv 500000000000000000000000 1000000000000000000000000000 = Some 500000000000000000000000"
    and "sol_rayMul 500000000000000000000000 10000000000000000000000000 = Some 5000000000000000000000"
    and "percentMul 5000000000000000000000 9000 = Some 4500000000000000000000"
    by (simp_all add: sol_rayDiv_iff sol_rayMul_iff sol_wadToRay_iff percentMul_iff nearest_value)
  then show ?thesis
    by (simp add: scene_strategy_def sol_calculateInterestRates_def sol_utilizationRate_def sol_branch_rates_def
        sol_getOverallBorrowRate_def sol_add_def sol_sub_def cong: call_order)
qed

lemma deposited_updated: "updateState scene_deposited 1 = Inr scene_deposited"
  by (simp add: deposited_defs scene_defs action_rules cong: call_order)

lemma deposited_value: "value_in_eth scene_deposited 1 1000000000000000000 = Some 1000000000000000000"
  by (simp add: deposited_defs scene_defs action_rules cong: call_order)

definition scene_marked :: world where
  "scene_marked = scene_at deposited_reserve ((\<lambda>_. 0)(7 := 3)) deposited_asset deposited_aToken borrowed_variable 1600000000"

lemma deposited_mint: "mint_debt scene_deposited 1 7 7 1000000000000000000 False
  = Inr (True, scene_at deposited_reserve ((\<lambda>_. 0)(7 := 2)) deposited_asset deposited_aToken borrowed_variable 1600000000)"
  by (simp add: deposited_defs scene_defs action_rules cong: call_order)

lemma deposited_mark: "mark_borrowing (scene_at deposited_reserve ((\<lambda>_. 0)(7 := 2)) deposited_asset deposited_aToken borrowed_variable 1600000000) 1 7 True
  = Inr scene_marked"
  by (simp add: mark_borrowing_def scene_marked_def scene_at_def deposited_reserve_def scene_reserve_def reserve_index_def setBorrowing_def)

definition borrowed_reserve :: sol_reserve where
  "borrowed_reserve = deposited_reserve\<lparr>d_currentLiquidityRate := 4500000000000000000000,
     d_currentStableBorrowRate := 30250000000000000000000000, d_currentVariableBorrowRate := 500000000000000000000000\<rparr>"

lemma marked_rates: "updateInterestRates scene_marked 1 2 0 1000000000000000000
  = Inr (scene_at borrowed_reserve ((\<lambda>_. 0)(7 := 3)) deposited_asset deposited_aToken borrowed_variable 1600000000)"
proof -
  have r: "rates_after scene_marked 1 2 0 1000000000000000000 0 1000000000000000000 0
      = Inr (4500000000000000000000, 30250000000000000000000000, 500000000000000000000000)"
  proof -
    have f: "w_strategies scene_marked 5 = Some scene_strategy" "w_assets scene_marked 1 = Some deposited_asset"
        "w_reserves scene_marked 1 = deposited_reserve" "w_marketBorrowRate scene_marked 1 = 30000000000000000000000000"
        "d_interestRateStrategyAddress deposited_reserve = 5" "getReserveFactor (d_configuration deposited_reserve) = 1000"
        "e_balances deposited_asset 2 = 100000000000000000000"
      by (simp_all add: scene_marked_def scene_at_def deposited_reserve_def scene_reserve_def getReserveFactor_def mask_defs
          deposited_asset_def)
    show ?thesis by (simp add: rates_after_def f strategy_rates contract_at_def sol_add_def sol_sub_def)
  qed
  have s: "stable_of scene_marked 1 = Inr fresh_stable" "variable_of scene_marked 1 = Inr borrowed_variable"
      "w_timestamp scene_marked = 1600000000" "w_reserves scene_marked 1 = deposited_reserve"
      "d_variableBorrowIndex deposited_reserve = 1000000000000000000000000000"
    by (simp_all add: scene_marked_def scene_at_def stable_of_def variable_of_def contract_at_def deposited_reserve_def scene_reserve_def)
  have t: "Stable_calcTotalSupply 1600000000 fresh_stable = Inr 0" "s_avgStableRate fresh_stable = 0"
      "sol_rayMul (e_totalSupply borrowed_variable) 1000000000000000000000000000 = Some 1000000000000000000"
    by (simp_all add: Stable_calcTotalSupply_def fresh_stable_def borrowed_variable_def sol_rayMul_def sol_halfRAY_def sol_RAY_def)
  show ?thesis
    by (simp add: updateInterestRates_def Let_def s t r cong: call_order)
      (simp add: max_uint128_def put_reserve_def scene_marked_def scene_at_def borrowed_reserve_def)
qed

definition scene_borrowed :: world where
  "scene_borrowed = scene_at borrowed_reserve ((\<lambda>_. 0)(7 := 3))
     (deposited_asset\<lparr>e_balances := (\<lambda>_. 0)(2 := 99000000000000000000, 7 := 901000000000000000000)\<rparr>)
     deposited_aToken borrowed_variable 1600000000"

lemma marked_send:
  "send_underlying (scene_at borrowed_reserve ((\<lambda>_. 0)(7 := 3)) deposited_asset deposited_aToken borrowed_variable 1600000000)
     1 2 7 1000000000000000000 = Inr scene_borrowed"
  by (simp add: send_underlying_def scene_at_def scene_borrowed_def contract_at_def AToken_transferUnderlyingTo_def e_transfer_def
      deposited_asset_def sol_sub_or_def sol_add_def safely_def put_asset_def fun_upd_twist)

lemma scene_borrow: "pool_borrow scene_deposited 7 1 (10 ^ 18) 2 7 = Inr scene_borrowed"
proof -
  have "\<not> w_paused scene_deposited" "d_aTokenAddress (w_reserves scene_deposited 1) = 2"
    by (simp_all add: deposited_defs scene_defs)
  then show ?thesis
    using deposited_may_borrow
    by (simp add: pool_borrow_def when_not_paused_def executeBorrow_def deposited_value deposited_updated to_rate_mode_def
        STABLE_MODE_def deposited_mint deposited_mark marked_rates marked_send cong: call_order)
qed

text \<open>The history up to the borrowing, and the debt at its end.\<close>

lemma scene_is_new: "new_pool scene_new"
  by (simp add: new_pool_def scene_new_def)

lemma scene_history: "pool_history (pool_initialize scene_new) scene_borrowed"
proof -
  let ?w = "pool_initialize scene_new"
  from scene_configured obtain w1 w2 w3 where w: "conf_initReserve ?w 9 1 18 5 8 2 3 4 = Inr w1"
      "conf_configureReserveAsCollateral w1 9 1 8000 8500 10500 = Inr w2" "conf_enableBorrowingOnReserve w2 9 1 True = Inr w3"
      "conf_setReserveFactor w3 9 1 1000
        = Inr (scene_at scene_reserve (\<lambda>_. 0) scene_asset (fresh_aToken 8) fresh_variable 1600000000)"
    by (auto simp: scene_configured_def sol_do_Inr)
  have "admin_step ?w w1" by (rule admin_step.init [OF _ _ _ _ _ _ w(1)]) (simp_all add: pool_initialize_def scene_new_def)
  then have "pool_history ?w w1" by (blast intro: pool_history.intros)
  then have "pool_history ?w w2" by (rule pool_history.admin [OF _ admin_step.configure [OF w(2)]])
  then have "pool_history ?w w3" by (rule pool_history.admin [OF _ admin_step.enable [OF w(3)]])
  note this [THEN pool_history.admin, OF admin_step.reserve_factor [OF w(4)]]
  note this [THEN pool_history.action, OF pool_action.deposit [OF scene_deposit]]
  then show ?thesis by (rule pool_history.action [OF _ pool_action.borrow [OF scene_borrow]])
qed

lemma scene_debt: "getUserCurrentDebt scene_borrowed 1 7 = Inr (0, 1000000000000000000)"
proof -
  have "sol_rayMul 1000000000000000000 1000000000000000000000000000 = Some 1000000000000000000"
    by (simp add: sol_rayMul_iff nearest_value)
  then show ?thesis
    by (simp add: getUserCurrentDebt_def stable_of_def Stable_balanceOf_def Variable_balanceOf_def variable_of_def contract_at_def
        getNormalizedDebt_def scene_borrowed_def scene_at_def borrowed_reserve_def deposited_reserve_def scene_reserve_def
        fresh_stable_def borrowed_variable_def cong: call_order)
qed

text \<open>The repayment of the debt.\<close>

text \<open>An update at the time of the last one changes nothing.\<close>

lemma updated_at_once:
  assumes r: "d_liquidityIndex r = 1000000000000000000000000000" "d_variableBorrowIndex r = 1000000000000000000000000000"
      "d_lastUpdateTimestamp r = 1600000000" "d_currentLiquidityRate r = 4500000000000000000000"
      "d_currentVariableBorrowRate r = 500000000000000000000000" "getReserveFactor (d_configuration r) = 1000"
      "d_stableDebtTokenAddress r = 3" "d_variableDebtTokenAddress r = 4"
  shows "updateState (scene_at r users asset aToken borrowed_variable 1600000000) 1
    = Inr (scene_at r users asset aToken borrowed_variable 1600000000)" (is "updateState ?w 1 = _")
proof -
  have s: "variable_of ?w 1 = Inr borrowed_variable" "stable_of ?w 1 = Inr fresh_stable"
      "w_timestamp ?w = 1600000000" "w_reserves ?w 1 = r" "put_reserve ?w 1 r = ?w"
    by (simp_all add: scene_at_def stable_of_def variable_of_def contract_at_def r put_reserve_def)
  have t: "e_totalSupply borrowed_variable = 1000000000000000000" "e_totalSupply fresh_stable = 0"
      "s_avgStableRate fresh_stable = 0" "s_totalSupplyTimestamp fresh_stable = 0"
    by (simp_all add: borrowed_variable_def fresh_stable_def)
  have n: "sol_calculateLinearInterest 1600000000 4500000000000000000000 1600000000 = Some 1000000000000000000000000000"
      "sol_calculateCompoundedInterest 500000000000000000000000 1600000000 1600000000 = Some 1000000000000000000000000000"
      "sol_calculateCompoundedInterest 0 0 1600000000 = Some 1000000000000000000000000000"
    by (simp_all add: sol_calculateLinearInterest_def sol_calculateCompoundedInterest_def sol_sub_def sol_mul_def sol_add_def
        sol_RAY_def sol_SECONDS_PER_YEAR_def sol_rayMul_def Let_def cong: call_order)
  have m: "sol_rayMul 1000000000000000000000000000 1000000000000000000000000000 = Some 1000000000000000000000000000"
      "sol_rayMul 1000000000000000000 1000000000000000000000000000 = Some 1000000000000000000"
      "percentMul 0 1000 = Some 0" "sol_rayMul 0 1000000000000000000000000000 = Some 0"
    by (simp_all add: sol_rayMul_iff percentMul_iff nearest_value)
  have r': "r\<lparr>d_liquidityIndex := 1000000000000000000000000000, d_variableBorrowIndex := 1000000000000000000000000000,
      d_lastUpdateTimestamp := 1600000000\<rparr> = r" using r by (cases r) simp
  have u: "updateIndexes 1600000000 1000000000000000000 r
      = Inr (1000000000000000000000000000, 1000000000000000000000000000, r)"
    by (simp add: updateIndexes_def Let_def r r' n m max_uint128_def cong: call_order)
  have a: "treasury_amount 1600000000 1000 fresh_stable 1000000000000000000 1000000000000000000000000000
      1000000000000000000000000000 1600000000 = Inr 0"
    by (simp add: treasury_amount_def Stable_calcTotalSupply_def t m n sol_add_def sol_sub_def cong: call_order)
  show ?thesis
    by (simp add: updateState_def mintToTreasury_def Let_def s t u r a cong: call_order)
qed

lemma borrowed_updated: "updateState scene_borrowed 1 = Inr scene_borrowed"
  unfolding scene_borrowed_def
  by (rule updated_at_once) (simp_all add: borrowed_reserve_def deposited_reserve_def scene_reserve_def getReserveFactor_def mask_defs)

definition repaid_variable :: variable_debt where
  "repaid_variable = \<lparr> e_balances = (\<lambda>_. 0)(7 := 0), e_totalSupply = 0,
     e_allowances = (\<lambda>_ _. 0), v_borrowAllowances = (\<lambda>_ _. 0) \<rparr>"

definition borrowed_asset :: erc20 where
  "borrowed_asset = deposited_asset\<lparr>e_balances := (\<lambda>_. 0)(2 := 99000000000000000000, 7 := 901000000000000000000)\<rparr>"

definition scene_burnt :: world where
  "scene_burnt = scene_at borrowed_reserve ((\<lambda>_. 0)(7 := 3)) borrowed_asset deposited_aToken repaid_variable 1600000000"

lemma borrowed_burn: "burn_debt scene_borrowed 1 7 1000000000000000000 False = Inr scene_burnt"
proof -
  have "sol_rayDiv 1000000000000000000 1000000000000000000000000000 = Some 1000000000000000000"
    by (simp add: sol_rayDiv_iff nearest_value)
  then show ?thesis
    by (simp add: burn_debt_def variable_of_def contract_at_def scene_borrowed_def scene_burnt_def scene_at_def borrowed_reserve_def
        deposited_reserve_def scene_reserve_def Variable_burn_def e_burn_def borrowed_variable_def sol_sub_def sol_sub_or_def
        put_variable_def repaid_variable_def borrowed_asset_def cong: call_order)
qed

definition repaid_reserve :: sol_reserve where
  "repaid_reserve = borrowed_reserve\<lparr>d_currentLiquidityRate := 0,
     d_currentStableBorrowRate := 30000000000000000000000000, d_currentVariableBorrowRate := 0\<rparr>"

lemma burnt_rates: "updateInterestRates scene_burnt 1 2 1000000000000000000 0
  = Inr (scene_at repaid_reserve ((\<lambda>_. 0)(7 := 3)) borrowed_asset deposited_aToken repaid_variable 1600000000)"
proof -
  have f: "w_strategies scene_burnt 5 = Some scene_strategy" "w_assets scene_burnt 1 = Some borrowed_asset"
      "w_reserves scene_burnt 1 = borrowed_reserve" "w_marketBorrowRate scene_burnt 1 = 30000000000000000000000000"
      "d_interestRateStrategyAddress borrowed_reserve = 5" "getReserveFactor (d_configuration borrowed_reserve) = 1000"
      "e_balances borrowed_asset 2 = 99000000000000000000" "stable_of scene_burnt 1 = Inr fresh_stable"
      "variable_of scene_burnt 1 = Inr repaid_variable" "w_timestamp scene_burnt = 1600000000"
      "s_avgStableRate fresh_stable = 0" "e_totalSupply repaid_variable = 0" "e_totalSupply fresh_stable = 0"
    by (simp_all add: scene_burnt_def scene_at_def borrowed_reserve_def deposited_reserve_def scene_reserve_def getReserveFactor_def
        mask_defs borrowed_asset_def stable_of_def variable_of_def contract_at_def fresh_stable_def repaid_variable_def)
  have z: "sol_rayMul 0 x = Some 0" "sol_rayMul x 0 = Some 0" "sol_rayDiv 0 800000000000000000000000000 = Some 0" "percentMul 0 9000 = Some 0" for x
    by (simp_all add: sol_rayMul_iff sol_rayDiv_iff percentMul_iff nearest_value)
  have r: "sol_calculateInterestRates scene_strategy 30000000000000000000000000 100000000000000000000 0 0 0 1000
      = Some (0, 30000000000000000000000000, 0)"
    by (simp add: scene_strategy_def sol_calculateInterestRates_def sol_utilizationRate_def sol_branch_rates_def
        sol_getOverallBorrowRate_def sol_add_def sol_sub_def z cong: call_order)
  show ?thesis
    by (simp add: updateInterestRates_def rates_after_def Let_def f r z Stable_calcTotalSupply_def contract_at_def sol_add_def sol_sub_def
        cong: call_order)
      (simp add: max_uint128_def put_reserve_def scene_burnt_def scene_at_def repaid_reserve_def)
qed

definition scene_repaid :: world where
  "scene_repaid = scene_at repaid_reserve ((\<lambda>_. 0)(7 := 2))
     (borrowed_asset\<lparr>e_balances := (\<lambda>_. 0)(2 := 100000000000000000000, 7 := 900000000000000000000),
       e_allowances := (\<lambda>_ _. 0)(7 := (\<lambda>_. 0)(99 := 899000000000000000000))\<rparr>)
     deposited_aToken repaid_variable 1600000000"

lemma scene_repay: "pool_repay scene_borrowed 7 1 (10 ^ 18) 2 7 = Inr (1000000000000000000, scene_repaid)"
proof -
  have f: "\<not> w_paused scene_borrowed" "d_aTokenAddress (w_reserves scene_burnt 1) = 2"
      "getActive (d_configuration (w_reserves scene_borrowed 1))"
    by (simp_all add: scene_borrowed_def scene_burnt_def scene_at_def borrowed_reserve_def deposited_reserve_def scene_reserve_def
        getActive_def mask_defs)
  have m: "mark_borrowing (scene_at repaid_reserve ((\<lambda>_. 0)(7 := 3)) borrowed_asset deposited_aToken repaid_variable 1600000000) 1 7 False
      = Inr (scene_at repaid_reserve ((\<lambda>_. 0)(7 := 2)) borrowed_asset deposited_aToken repaid_variable 1600000000)"
    by (simp add: mark_borrowing_def scene_at_def repaid_reserve_def borrowed_reserve_def deposited_reserve_def scene_reserve_def
        reserve_index_def setBorrowing_def)
  have p: "pull_asset (scene_at repaid_reserve ((\<lambda>_. 0)(7 := 2)) borrowed_asset deposited_aToken repaid_variable 1600000000) 1 7 2
      1000000000000000000 = Inr scene_repaid"
    by (simp add: pull_asset_def scene_at_def scene_repaid_def contract_at_def e_transferFrom_def e_transfer_def e_approve_def
        borrowed_asset_def deposited_asset_def sol_sub_or_def sol_add_def safely_def put_asset_def fun_upd_twist cong: call_order)
  show ?thesis
    by (simp add: pool_repay_def when_not_paused_def f scene_debt to_rate_mode_def validateRepay_def VARIABLE_MODE_def STABLE_MODE_def
        borrowed_updated borrowed_burn burnt_rates sol_add_def sol_sub_def m p Let_def cong: call_order)
qed

section \<open>A liquidation in the scene\<close>

text \<open>
  The scene goes on: the admin lowers the liquidation threshold, with which the borrower can be liquidated, and is.
\<close>

definition low_reserve :: sol_reserve where
  "low_reserve = borrowed_reserve\<lparr>d_configuration := 18447685934078785355826\<rparr>"

definition scene_low :: world where
  "scene_low = scene_at low_reserve ((\<lambda>_. 0)(7 := 3)) borrowed_asset deposited_aToken borrowed_variable 1600000000"

lemma scene_lowered: "conf_configureReserveAsCollateral scene_borrowed 9 1 50 50 10500 = Inr scene_low"
  by (simp add: configuration_rules scene_borrowed_def scene_low_def scene_at_def low_reserve_def borrowed_reserve_def
      deposited_reserve_def scene_reserve_def borrowed_asset_def cong: call_order)

lemma low_fields:
  "w_reserves scene_low 1 = low_reserve" "w_usersConfig scene_low 7 = 3" "w_reservesList scene_low 0 = 1"
  "w_reservesCount scene_low = 1" "w_timestamp scene_low = 1600000000" "\<not> w_paused scene_low"
  "w_assetPrice scene_low 1 = 1000000000000000000"
  "aToken_of scene_low 1 = Inr deposited_aToken" "stable_of scene_low 1 = Inr fresh_stable"
  "variable_of scene_low 1 = Inr borrowed_variable" "reserve_index scene_low 1 = 0"
  "d_liquidityIndex low_reserve = 1000000000000000000000000000" "d_variableBorrowIndex low_reserve = 1000000000000000000000000000"
  "d_lastUpdateTimestamp low_reserve = 1600000000" "d_aTokenAddress low_reserve = 2"
  "getActive (d_configuration low_reserve)" "getDecimals (d_configuration low_reserve) = 18"
  "getLtv (d_configuration low_reserve) = 50" "getLiquidationThreshold (d_configuration low_reserve) = 50"
  "getLiquidationBonus (d_configuration low_reserve) = 10500"
  "e_balances deposited_aToken 7 = 100000000000000000000" "e_balances fresh_stable 7 = 0"
  "e_balances borrowed_variable 7 = 1000000000000000000"
  by (simp_all add: scene_low_def scene_at_def low_reserve_def borrowed_reserve_def deposited_reserve_def scene_reserve_def
      aToken_of_def stable_of_def variable_of_def contract_at_def reserve_index_def getActive_def getDecimals_def getLtv_def
      getLiquidationThreshold_def getLiquidationBonus_def mask_defs deposited_aToken_def fresh_stable_def borrowed_variable_def)

lemma ray_values:
  "sol_rayMul 100000000000000000000 1000000000000000000000000000 = Some 100000000000000000000"
  "sol_rayMul 1000000000000000000 1000000000000000000000000000 = Some 1000000000000000000"
  "sol_rayDiv 105000000000000000 1000000000000000000000000000 = Some 105000000000000000"
  "sol_rayDiv 100000000000000000 1000000000000000000000000000 = Some 100000000000000000"
  "percentMul 100000000000000000000 50 = Some 500000000000000000"
  "sol_wadDiv 500000000000000000 1000000000000000000 = Some 500000000000000000"
  "percentMul 1000000000000000000 5000 = Some 500000000000000000"
  by (simp_all add: sol_rayMul_iff sol_rayDiv_iff sol_wadDiv_iff percentMul_iff nearest_value)

lemma low_balances:
  "AToken_balanceOf scene_low 1 7 = Inr 100000000000000000000"
  "getUserCurrentDebt scene_low 1 7 = Inr (0, 1000000000000000000)"
  by (simp_all add: AToken_balanceOf_def getNormalizedIncome_def getUserCurrentDebt_def Stable_balanceOf_def Variable_balanceOf_def
      getNormalizedDebt_def low_fields ray_values cong: call_order)

lemma low_values:
  "value_in_eth scene_low 1 100000000000000000000 = Some 100000000000000000000"
  "value_in_eth scene_low 1 1000000000000000000 = Some 1000000000000000000"
  by (simp_all add: value_in_eth_def low_fields sol_mul_def sol_divide_def Let_def cong: call_order)

lemma low_account:
  "calculateUserAccountData scene_low 7 3 = Inr \<lparr> ad_collateral = 100000000000000000000, ad_debt = 1000000000000000000,
     ad_ltv = 50, ad_threshold = 50, ad_health = 500000000000000000 \<rparr>"
  by (simp add: calculateUserAccountData_def isEmpty_def low_fields account_step_def isUsingAsCollateralOrBorrowing_def
      isUsingAsCollateral_def isBorrowing_def add_collateral_def add_debt_def low_balances low_values sol_add_def sol_mul_def
      sol_divide_def calculateHealthFactorFromBalances_def ray_values Let_def cong: call_order)

lemma low_amounts:
  "liquidation_amounts scene_low 1 1 100000000000000000 0 1000000000000000000 100000000000000000000
    = Some (100000000000000000, 105000000000000000)"
proof -
  have "percentMul 100000000000000000000000000000000000000000000000000000 10500 = Some 105000000000000000000000000000000000000000000000000000"
    by (simp add: percentMul_iff nearest_value)
  then show ?thesis
    by (simp add: liquidation_amounts_def calculateAvailableCollateralToLiquidate_def low_fields sol_add_def sol_mul_def sol_divide_def
        LIQUIDATION_CLOSE_FACTOR_PERCENT_def ray_values Let_def cong: call_order)
qed

lemma low_updated: "updateState scene_low 1 = Inr scene_low"
  unfolding scene_low_def
  by (rule updated_at_once)
    (simp_all add: low_reserve_def borrowed_reserve_def deposited_reserve_def scene_reserve_def getReserveFactor_def mask_defs)

definition liquidated_variable :: variable_debt where
  "liquidated_variable = \<lparr> e_balances = (\<lambda>_. 0)(7 := 900000000000000000), e_totalSupply = 900000000000000000,
     e_allowances = (\<lambda>_ _. 0), v_borrowAllowances = (\<lambda>_ _. 0) \<rparr>"

definition scene_cut :: world where
  "scene_cut = scene_at low_reserve ((\<lambda>_. 0)(7 := 3)) borrowed_asset deposited_aToken liquidated_variable 1600000000"

lemma low_burn: "burn_debt scene_low 1 7 100000000000000000 False = Inr scene_cut"
  by (simp add: burn_debt_def low_fields ray_values Variable_burn_def e_burn_def sol_sub_def sol_sub_or_def put_variable_def cong: call_order)
    (simp add: scene_low_def scene_cut_def scene_at_def low_reserve_def borrowed_reserve_def deposited_reserve_def scene_reserve_def
      borrowed_variable_def liquidated_variable_def sol_sub_def sol_sub_or_def)

definition liquidated_reserve :: sol_reserve where
  "liquidated_reserve = low_reserve\<lparr>d_currentLiquidityRate := 3645000000000000000000,
     d_currentStableBorrowRate := 30225000000000000000000000, d_currentVariableBorrowRate := 450000000000000000000000\<rparr>"

definition scene_settled :: world where
  "scene_settled = scene_at liquidated_reserve ((\<lambda>_. 0)(7 := 3)) borrowed_asset deposited_aToken liquidated_variable 1600000000"

lemma cut_rates: "updateInterestRates scene_cut 1 2 100000000000000000 0 = Inr scene_settled"
proof -
  have f: "w_strategies scene_cut 5 = Some scene_strategy" "w_assets scene_cut 1 = Some borrowed_asset"
      "w_reserves scene_cut 1 = low_reserve" "w_marketBorrowRate scene_cut 1 = 30000000000000000000000000"
      "d_interestRateStrategyAddress low_reserve = 5" "getReserveFactor (d_configuration low_reserve) = 1000"
      "e_balances borrowed_asset 2 = 99000000000000000000" "stable_of scene_cut 1 = Inr fresh_stable"
      "variable_of scene_cut 1 = Inr liquidated_variable" "w_timestamp scene_cut = 1600000000"
      "s_avgStableRate fresh_stable = 0" "e_totalSupply liquidated_variable = 900000000000000000" "e_totalSupply fresh_stable = 0"
    by (simp_all add: scene_cut_def scene_at_def low_reserve_def borrowed_reserve_def deposited_reserve_def scene_reserve_def
        getReserveFactor_def mask_defs borrowed_asset_def stable_of_def variable_of_def contract_at_def fresh_stable_def
        liquidated_variable_def)
  have v: "sol_rayDiv 900000000000000000 100000000000000000000 = Some 9000000000000000000000000"
    and "sol_rayDiv 9000000000000000000000000 800000000000000000000000000 = Some 11250000000000000000000000"
    and "sol_rayMul 20000000000000000000000000 11250000000000000000000000 = Some 225000000000000000000000"
    and "sol_rayMul 9000000000000000000000000 40000000000000000000000000 = Some 360000000000000000000000"
    and "sol_rayDiv 360000000000000000000000 800000000000000000000000000 = Some 450000000000000000000000"
    and "sol_wadToRay 900000000000000000 = Some 900000000000000000000000000" "sol_wadToRay 0 = Some 0"
    and "sol_rayMul 900000000000000000000000000 450000000000000000000000 = Some 405000000000000000000000" "sol_rayMul 0 0 = Some 0"
    and "sol_rayDiv 405000000000000000000000 900000000000000000000000000 = Some 450000000000000000000000"
    and "sol_rayMul 450000000000000000000000 9000000000000000000000000 = Some 4050000000000000000000"
    and "percentMul 4050000000000000000000 9000 = Some 3645000000000000000000"
    and "sol_rayMul 900000000000000000 1000000000000000000000000000 = Some 900000000000000000"
    by (simp_all add: sol_rayDiv_iff sol_rayMul_iff sol_wadToRay_iff percentMul_iff nearest_value)
  then have r: "sol_calculateInterestRates scene_strategy 30000000000000000000000000 99100000000000000000 0 900000000000000000 0 1000
      = Some (3645000000000000000000, 30225000000000000000000000, 450000000000000000000000)"
    by (simp add: scene_strategy_def sol_calculateInterestRates_def sol_utilizationRate_def sol_branch_rates_def
        sol_getOverallBorrowRate_def sol_add_def sol_sub_def cong: call_order)
  show ?thesis
    by (simp add: updateInterestRates_def rates_after_def Let_def f low_fields r v Stable_calcTotalSupply_def contract_at_def
        sol_add_def sol_sub_def \<open>sol_rayMul 900000000000000000 1000000000000000000000000000 = _\<close> cong: call_order)
      (simp add: max_uint128_def put_reserve_def scene_cut_def scene_settled_def scene_at_def liquidated_reserve_def)
qed

lemma settled_move: "take_collateral scene_settled 7 1 7 105000000000000000 True = Inr scene_settled"
proof -
  have f: "w_reserves scene_settled 1 = liquidated_reserve" "d_liquidityIndex liquidated_reserve = 1000000000000000000000000000"
      "d_lastUpdateTimestamp liquidated_reserve = 1600000000" "w_timestamp scene_settled = 1600000000"
      "d_aTokenAddress liquidated_reserve = 2" "aToken_of scene_settled 1 = Inr deposited_aToken"
    by (simp_all add: scene_settled_def scene_at_def liquidated_reserve_def low_reserve_def borrowed_reserve_def deposited_reserve_def
        scene_reserve_def aToken_of_def contract_at_def)
  have t: "e_transfer 7 7 105000000000000000 deposited_aToken = Inr deposited_aToken"
    by (simp add: e_transfer_def deposited_aToken_def sol_sub_or_def sol_add_def)
  have p: "put_aToken scene_settled 1 deposited_aToken = scene_settled"
    by (simp add: put_aToken_def f) (simp add: scene_settled_def scene_at_def)
  show ?thesis
    by (simp add: take_collateral_def AToken_balanceOf_def aToken_move_def getNormalizedIncome_def f low_fields ray_values t p Let_def
        cong: call_order)
qed

definition scene_liquidated :: world where
  "scene_liquidated = scene_at liquidated_reserve ((\<lambda>_. 0)(7 := 3))
     (borrowed_asset\<lparr>e_balances := (\<lambda>_. 0)(2 := 99100000000000000000, 7 := 900900000000000000000),
       e_allowances := (\<lambda>_ _. 0)(7 := (\<lambda>_. 0)(99 := 899900000000000000000))\<rparr>)
     deposited_aToken liquidated_variable 1600000000"

lemma scene_liquidation: "pool_liquidationCall scene_low 7 1 1 7 (10 ^ 17) True = Inr scene_liquidated"
proof -
  have a: "d_aTokenAddress (w_reserves scene_cut 1) = 2" "d_aTokenAddress (w_reserves scene_settled 1) = 2"
    by (simp_all add: scene_cut_def scene_settled_def scene_at_def liquidated_reserve_def low_fields)
  have p: "pull_asset scene_settled 1 7 2 100000000000000000 = Inr scene_liquidated"
    by (simp add: pull_asset_def scene_settled_def scene_at_def scene_liquidated_def contract_at_def e_transferFrom_def e_transfer_def
        e_approve_def borrowed_asset_def deposited_asset_def sol_sub_or_def sol_add_def safely_def put_asset_def fun_upd_twist
        cong: call_order)
  show ?thesis
    by (simp add: pool_liquidationCall_def manager_liquidationCall_def when_not_paused_def low_fields low_account low_balances
        validateLiquidationCall_def HEALTH_FACTOR_LIQUIDATION_THRESHOLD_def isUsingAsCollateral_def low_amounts low_updated
        burn_liquidated_def low_burn a cut_rates settled_move p Let_def cong: call_order)
qed

end
