(* ===== verification/PoolTheorems.thy ===== *)
theory PoolTheorems
  imports PoolScene
begin

text \<open>
  The properties of the contracts of the pool, each with its witness in the scene of \<open>PoolScene\<close>.
\<close>

section \<open>Initial states\<close>

lemma new_pool_ledger: "new_pool w \<Longrightarrow> ledger (pool_initialize w)"
  by (simp add: new_pool_def ledger_def registry_def initialized_def unlisted_def own_tokens_def list_entries_def
      within_limits_def owes_def stable_of_def variable_of_def contract_at_def pool_initialize_def blank_reserve_def domIff)

lemma new_pool_books:
  "new_pool w \<Longrightarrow> \<forall>t \<in> ran (w_assets w). held t = unat (e_totalSupply t) \<Longrightarrow> books (pool_initialize w)"
  by (simp add: new_pool_def books_def balanced_def pool_initialize_def)

section \<open>Properties\<close>

text \<open>
  C2. Debts cannot hide. In every state that a new pool can come to, by the actions of users, the steps of admins, flash loans and
  whatever happens outside in any order, a user with a debt in a reserve has the bit for borrowing at the place where this
  reserve stands in the list of the pool, so that the loop of \<open>calculateUserAccountData\<close> counts this debt.
\<close>

theorem no_hidden_debt:
  assumes "new_pool w0" and "pool_history (pool_initialize w0) w"
    and "getUserCurrentDebt w asset user = Inr (stableDebt, variableDebt)" and "stableDebt \<noteq> 0 \<or> variableDebt \<noteq> 0"
  shows "\<exists>i < w_reservesCount w. w_reservesList w i = asset \<and> isBorrowing (w_usersConfig w user) i = Inr True
    \<and> isUsingAsCollateralOrBorrowing (w_usersConfig w user) i = Inr True"
proof -
  have l: "ledger w" using ledger_history.kept_by_history [OF assms(2)] new_pool_ledger [OF assms(1)] by simp
  have o: "owes w asset user" by (rule positive_debt_owed [OF assms(3,4)])
  have r: "registry w" using l by (simp add: ledger_def)
  have "listed w asset" by (rule registryD(1) [OF r owes_initialized [OF r o]])
  moreover have "marked w asset user" using l o by (simp add: ledger_def)
  moreover have "w_reservesCount w \<le> 128" using r by (simp add: registry_def within_limits_def)
  ultimately show ?thesis
    by (intro exI [of _ "reserve_index w asset"]) (simp add: listed_def marked_def user_bits)
qed

lemma no_hidden_debt_witness:
  "\<exists>i < w_reservesCount scene_borrowed. w_reservesList scene_borrowed i = 1
    \<and> isBorrowing (w_usersConfig scene_borrowed 7) i = Inr True
    \<and> isUsingAsCollateralOrBorrowing (w_usersConfig scene_borrowed 7) i = Inr True"
  by (rule no_hidden_debt [OF scene_is_new scene_history scene_debt]) simp

text \<open>
  C6. The books of the pool. In every state that a new pool can come to, the scaled balances of every aToken and of every variable debt
  token add up to its supply, and the balances of every underlying asset to what exists of it: no action creates, loses or counts twice
  a unit of any of them.
\<close>

theorem books_balance:
  assumes "new_pool w0" and "\<forall>t \<in> ran (w_assets w0). (\<Sum>u \<in> UNIV. unat (e_balances t u)) = unat (e_totalSupply t)"
    and "pool_history (pool_initialize w0) w"
  shows "(\<forall>a t. w_aTokens w a = Some t \<longrightarrow> (\<Sum>u \<in> UNIV. unat (e_balances t u)) = unat (e_totalSupply t))
    \<and> (\<forall>a t. w_variableDebts w a = Some t \<longrightarrow> (\<Sum>u \<in> UNIV. unat (e_balances t u)) = unat (e_totalSupply t))
    \<and> (\<forall>a t. w_assets w a = Some t \<longrightarrow> (\<Sum>u \<in> UNIV. unat (e_balances t u)) = unat (e_totalSupply t))"
proof -
  have "books w"
    using books_history.kept_by_history [OF assms(3)] new_pool_books [OF assms(1)] assms(2) by (simp add: sum_held_def)
  then show ?thesis by (auto simp: books_def balanced_def sum_held_def ran_def)
qed

lemma books_balance_witness:
  "(\<Sum>u \<in> UNIV. unat (e_balances deposited_aToken u)) = unat (e_totalSupply deposited_aToken)"
proof -
  have "sum_held (e_balances scene_asset) = 10 ^ 21"
    using sum_held_upd [of "\<lambda>_. 0" 7 "10 ^ 21"] by (simp add: scene_asset_def sum_held_def)
  then have "\<forall>t \<in> ran (w_assets scene_new). (\<Sum>u \<in> UNIV. unat (e_balances t u)) = unat (e_totalSupply t)"
    by (simp add: scene_new_def scene_asset_def sum_held_def)
  from books_balance [OF scene_is_new this scene_history] show ?thesis
    by (simp add: scene_borrowed_def scene_at_def)
qed

text \<open>
  C18. Interest only accrues. From any state of the pool on, whatever happens, time does not run back, an initialized reserve keeps its
  tokens and its index in the list, and neither of its two interest indexes ever decreases.
\<close>

theorem contract_indexes_never_decrease:
  assumes "pool_history u w" and "d_aTokenAddress (w_reserves u asset) \<noteq> 0"
  shows "w_timestamp u \<le> w_timestamp w
    \<and> d_liquidityIndex (w_reserves u asset) \<le> d_liquidityIndex (w_reserves w asset)
    \<and> d_variableBorrowIndex (w_reserves u asset) \<le> d_variableBorrowIndex (w_reserves w asset)
    \<and> d_aTokenAddress (w_reserves w asset) = d_aTokenAddress (w_reserves u asset)
    \<and> d_stableDebtTokenAddress (w_reserves w asset) = d_stableDebtTokenAddress (w_reserves u asset)
    \<and> d_variableDebtTokenAddress (w_reserves w asset) = d_variableDebtTokenAddress (w_reserves u asset)
    \<and> d_id (w_reserves w asset) = d_id (w_reserves u asset)"
  using grown_pool.kept_by_history [OF assms(1)] assms(2) by (simp add: grown_def grown_reserve_def initialized_def)

lemma contract_indexes_never_decrease_witness:
  "d_liquidityIndex (w_reserves scene_deposited 1) \<le> d_liquidityIndex (w_reserves scene_borrowed 1)"
proof -
  have "pool_history scene_deposited scene_borrowed"
    by (rule pool_history.action [OF pool_history.begin_history pool_action.borrow [OF scene_borrow]])
  from contract_indexes_never_decrease [OF this, of 1] show ?thesis by (simp add: deposited_defs scene_defs)
qed

text \<open>
  C10. A repayment of everything clears the debt. In a state that a new pool can come to, when the amount a repayment returns is all that the
  user owes of both kinds, the user owes nothing afterwards, down to the last unit in spite of the rounding of scaled amounts, and has
  no longer the bit for borrowing from the reserve.
\<close>

theorem full_repayment_clears_debt:
  assumes "new_pool w0" and "pool_history (pool_initialize w0) w"
    and "getUserCurrentDebt w asset user = Inr (stableDebt, variableDebt)"
    and "pool_repay w sender asset amount rateMode user = Inr (repaid, w')"
    and "unat repaid = unat stableDebt + unat variableDebt"
  shows "getUserCurrentDebt w' asset user = Inr (0, 0)
    \<and> isBorrowing (w_usersConfig w' user) (reserve_index w' asset) = Inr False"
proof -
  have l: "ledger w" using ledger_history.kept_by_history [OF assms(2)] new_pool_ledger [OF assms(1)] by simp
  note c = repay_clears [OF assms(4) l assms(3,5)]
  have r: "registry w'" using repay_ledger [OF assms(4) l] by (simp add: ledger_def)
  have "listed w' asset" by (rule registryD(1) [OF r c(3)])
  moreover have "w_reservesCount w' \<le> 128" using r by (simp add: registry_def within_limits_def)
  ultimately have i: "reserve_index w' asset < 128" and "\<exists>s. stable_of w' asset = Inr s" "\<exists>v. variable_of w' asset = Inr v"
    by (auto simp: listed_def stable_of_def variable_of_def contract_at_def)
  then show ?thesis
    using c(1,2) by (auto simp: user_bits marked_def owes_def getUserCurrentDebt_def Stable_balanceOf_def Variable_balanceOf_def)
qed

text \<open>
  C14. Borrowing is covered. A borrowing that succeeds finds the pool running, the reserve active, not frozen and enabled for borrowing,
  a positive amount, and an account with collateral whose health factor is above one and whose collateral, weighted with its mean loan
  to value, covers the old debt and the new one at the prices of the oracle (up to the rounding of the division).
\<close>

theorem borrowing_is_covered:
  assumes "pool_borrow w sender asset amount interestRateMode user = Inr w'"
  shows "\<not> w_paused w \<and> amount \<noteq> 0
    \<and> (let conf = d_configuration (w_reserves w asset) in getActive conf \<and> \<not> getFrozen conf \<and> getBorrowingEnabled conf)
    \<and> (\<exists>d amountInETH. calculateUserAccountData w user (w_usersConfig w user) = Inr d
         \<and> value_in_eth w asset amount = Some amountInETH \<and> 10 ^ 18 < unat (ad_health d)
         \<and> 2 * 10000 * (unat (ad_debt d) + unat amountInETH) \<le> (2 * unat (ad_collateral d) + 1) * unat (ad_ltv d))"
proof -
  from assms obtain amountInETH where p: "\<not> w_paused w" and e: "value_in_eth w asset amount = Some amountInETH"
    and v: "validateBorrow w asset user amount amountInETH interestRateMode = Inr ()"
    by (auto simp: pool_borrow_def when_not_paused_def executeBorrow_def call_simps)
  from v obtain d s needed where d: "calculateUserAccountData w user (w_usersConfig w user) = Inr d"
    and h: "10 ^ 18 < ad_health d" and s: "sol_add (ad_debt d) amountInETH = Some s" "sol_percentDiv s (ad_ltv d) = Some needed"
    and n: "needed \<le> ad_collateral d"
    and g: "amount \<noteq> 0" "getActive (d_configuration (w_reserves w asset))" "\<not> getFrozen (d_configuration (w_reserves w asset))"
      "getBorrowingEnabled (d_configuration (w_reserves w asset))"
    by (auto simp: validateBorrow_def getFlags_def Let_def call_simps HEALTH_FACTOR_LIQUIDATION_THRESHOLD_def
        Option.bind_eq_Some_conv simp del: if_Inr)
  from s(2) have q: "0 < unat (ad_ltv d)" "unat needed = nearest_div (unat s * 10000) (unat (ad_ltv d))"
    by (auto simp: sol_percentDiv_iff unat_gt_0)
  have doubled: "2 * (a * 10000 + b * 10000) \<le> 2 * p + l \<Longrightarrow> p \<le> c \<Longrightarrow> 2 * (10000 * (a + b)) \<le> 2 * c + 1 * l"
    for a b p l c :: nat by simp
  have "2 * (unat s * 10000) \<le> 2 * unat needed * unat (ad_ltv d) + unat (ad_ltv d)"
    using nearest_div_bounds(2) [OF q(1)] q(2) by metis
  moreover have "unat needed * unat (ad_ltv d) \<le> unat (ad_collateral d) * unat (ad_ltv d)"
    using n by (intro mult_le_mono1) (simp add: word_le_nat_alt)
  ultimately have "2 * 10000 * (unat (ad_debt d) + unat amountInETH) \<le> (2 * unat (ad_collateral d) + 1) * unat (ad_ltv d)"
    unfolding sol_addD [OF s(1)] add_mult_distrib mult.assoc by (rule doubled)
  moreover have "10 ^ 18 < unat (ad_health d)" using h by (simp add: word_less_nat_alt)
  ultimately show ?thesis using p g d e by (auto simp: Let_def)
qed

lemma borrowing_is_covered_witness:
  "\<exists>d. calculateUserAccountData scene_deposited 7 (w_usersConfig scene_deposited 7) = Inr d \<and> 10 ^ 18 < unat (ad_health d)"
  using borrowing_is_covered [OF scene_borrow] by auto

lemma full_repayment_clears_debt_witness:
  "getUserCurrentDebt scene_repaid 1 7 = Inr (0, 0)
    \<and> isBorrowing (w_usersConfig scene_repaid 7) (reserve_index scene_repaid 1) = Inr False"
  by (rule full_repayment_clears_debt [OF scene_is_new scene_history scene_debt scene_repay]) simp

text \<open>
  C13. Liquidations are limited. One that succeeds finds the pool running, the user's health factor below one, both reserves active
  and the collateral in use; it repays at most what the liquidator offers and at most half of the user's debt in the asset (rounded),
  takes at most what the user has of the collateral, and ends with the transfer of what it repays to the reserve.
\<close>

theorem liquidation_is_limited:
  assumes "pool_liquidationCall w sender collateralAsset debtAsset user debtToCover receiveAToken = Inr w'"
  shows "\<not> w_paused w
    \<and> getActive (d_configuration (w_reserves w collateralAsset)) \<and> getActive (d_configuration (w_reserves w debtAsset))
    \<and> isUsingAsCollateral (w_usersConfig w user) (reserve_index w collateralAsset) = Inr True
    \<and> (\<exists>d stableDebt variableDebt balance paid taken v.
         calculateUserAccountData w user (w_usersConfig w user) = Inr d \<and> unat (ad_health d) < 10 ^ 18
         \<and> getUserCurrentDebt w debtAsset user = Inr (stableDebt, variableDebt)
         \<and> AToken_balanceOf w collateralAsset user = Inr balance
         \<and> paid \<le> debtToCover \<and> 2 * unat paid \<le> unat stableDebt + unat variableDebt + 1 \<and> taken \<le> balance
         \<and> liquidation_amounts w collateralAsset debtAsset debtToCover stableDebt variableDebt balance = Some (paid, taken)
         \<and> pull_asset v debtAsset sender (d_aTokenAddress (w_reserves v debtAsset)) paid = Inr w')"
proof -
  from assms have p: "\<not> w_paused w"
    and m: "manager_liquidationCall w sender collateralAsset debtAsset user debtToCover receiveAToken = Inr (None, w')"
    by (auto simp: pool_liquidationCall_def when_not_paused_def call_simps split: sum.splits option.splits)
  from m obtain d sd vd b paid taken v where d: "calculateUserAccountData w user (w_usersConfig w user) = Inr d"
    and g: "getUserCurrentDebt w debtAsset user = Inr (sd, vd)"
    and val: "validateLiquidationCall w collateralAsset debtAsset (w_usersConfig w user) (ad_health d) sd vd = Inr None"
    and b: "AToken_balanceOf w collateralAsset user = Inr b"
    and l: "liquidation_amounts w collateralAsset debtAsset debtToCover sd vd b = Some (paid, taken)"
    and v: "pull_asset v debtAsset sender (d_aTokenAddress (w_reserves v debtAsset)) paid = Inr w'"
    by (auto simp: manager_liquidationCall_def sol_do_Inr safe_Inr split: if_splits)
  from val have c: "getActive (d_configuration (w_reserves w collateralAsset))" "getActive (d_configuration (w_reserves w debtAsset))"
      "unat (ad_health d) < 10 ^ 18" "isUsingAsCollateral (w_usersConfig w user) (reserve_index w collateralAsset) = Inr True"
    by (auto simp: validateLiquidationCall_def Let_def sol_do_Inr HEALTH_FACTOR_LIQUIDATION_THRESHOLD_def word_le_nat_alt not_le
        split: if_splits)
  from l obtain debt most actual t needed where s: "sol_add sd vd = Some debt" "percentMul debt LIQUIDATION_CLOSE_FACTOR_PERCENT = Some most"
    and a: "actual = (if most < debtToCover then most else debtToCover)"
    and k: "calculateAvailableCollateralToLiquidate w collateralAsset debtAsset actual b = Some (taken, needed)"
    and paid: "paid = (if needed < actual then needed else actual)"
    by (auto simp: liquidation_amounts_def Let_def Option.bind_eq_Some_conv split: prod.splits)
  have "taken \<le> b"
    using k by (auto simp: calculateAvailableCollateralToLiquidate_def Let_def Option.bind_eq_Some_conv split: if_splits)
  moreover have "paid \<le> debtToCover" "unat paid \<le> unat most"
    using a paid by (auto simp: word_le_nat_alt word_less_nat_alt split: if_splits)
  moreover have "2 * unat most \<le> unat debt + 1"
    using nearest_div_bounds(1) [of 10000 "unat debt * 5000"] sol_fixed_pointD(4) [OF s(2)]
    by (simp add: LIQUIDATION_CLOSE_FACTOR_PERCENT_def)
  ultimately show ?thesis using p c d g b l v sol_addD [OF s(1)] by auto
qed

lemma liquidation_is_limited_witness:
  "\<exists>d. calculateUserAccountData scene_low 7 (w_usersConfig scene_low 7) = Inr d \<and> unat (ad_health d) < 10 ^ 18"
  using liquidation_is_limited [OF scene_liquidation] by auto

text \<open>
  C26. A paused pool does nothing: every action reverts, those of the pool with the reason \<open>LP_IS_PAUSED\<close> and before anything else,
  the transfers of aTokens at the latest when the pool validates them.
\<close>

theorem paused_pool_reverts:
  assumes "w_paused w"
  shows "pool_deposit w sender asset amount user = Inl (Reason ''LP_IS_PAUSED'')
    \<and> pool_withdraw w sender asset amount user = Inl (Reason ''LP_IS_PAUSED'')
    \<and> pool_borrow w sender asset amount mode user = Inl (Reason ''LP_IS_PAUSED'')
    \<and> pool_repay w sender asset amount mode user = Inl (Reason ''LP_IS_PAUSED'')
    \<and> pool_swapBorrowRateMode w sender asset mode = Inl (Reason ''LP_IS_PAUSED'')
    \<and> pool_rebalanceStableBorrowRate w asset user = Inl (Reason ''LP_IS_PAUSED'')
    \<and> pool_setUserUseReserveAsCollateral w sender asset b = Inl (Reason ''LP_IS_PAUSED'')
    \<and> pool_liquidationCall w sender asset asset' user amount b = Inl (Reason ''LP_IS_PAUSED'')
    \<and> pool_flashLoan receive w sender receiver assets amounts modes user = Inl (Reason ''LP_IS_PAUSED'')
    \<and> (\<exists>e. aToken_transfer w sender asset user amount = Inl e)
    \<and> (\<exists>e. aToken_transferFrom w sender asset from user amount = Inl e)"
proof -
  have "aToken_move w asset x y amount True \<noteq> Inr w'" for x y w'
    using assms by (auto simp: aToken_move_def Let_def finalizeTransfer_def when_not_paused_def call_simps put_aToken_def)
  then have move: "\<exists>e. aToken_move w asset x y amount True = Inl e" for x y
    by (cases "aToken_move w asset x y amount True") auto
  then obtain e where "aToken_move w asset from user amount True = Inl e" by blast
  then show ?thesis
    using assms move
    by (simp add: pool_deposit_def pool_withdraw_def pool_borrow_def pool_repay_def pool_swapBorrowRateMode_def
        pool_rebalanceStableBorrowRate_def pool_setUserUseReserveAsCollateral_def pool_liquidationCall_def pool_flashLoan_def
        when_not_paused_def aToken_transfer_def aToken_transferFrom_def)
qed

lemma paused_pool_reverts_witness:
  "pool_repay (pool_setPause scene_borrowed True) 7 1 (10 ^ 18) 2 7 = Inl (Reason ''LP_IS_PAUSED'')
    \<and> pool_repay scene_borrowed 7 1 (10 ^ 18) 2 7 \<noteq> Inl (Reason ''LP_IS_PAUSED'')"
  using paused_pool_reverts [of "pool_setPause scene_borrowed True" 7 1 "10 ^ 18" 7 2] by (simp add: pool_setPause_def scene_repay [simplified])

end
