(* ===== verification/MarketPool.thy ===== *)
theory MarketPool
  imports PoolScene MarketTheorems InitHelpers
begin

text \<open>
  The configuration of the markets in the pool: the batches of \<open>configureReservesByHelper\<close>, encoded as arguments of
  \<open>ATokensAndRatesHelper\<close>, and what the pool stores of them.
\<close>

section \<open>The encoding\<close>

text \<open>The decimal strings as words; \<open>address_of\<close> reads an address.\<close>

definition abi_input :: "(string \<Rightarrow> addr) \<Rightarrow> configure_input \<Rightarrow> configure_reserve_input option" where
  "abi_input address_of p = do {
     ltv \<leftarrow> u256_of_dec (cfg_baseLTV p);
     threshold \<leftarrow> u256_of_dec (cfg_liquidationThreshold p);
     bonus \<leftarrow> u256_of_dec (cfg_liquidationBonus p);
     factor \<leftarrow> u256_of_dec (cfg_reserveFactor p);
     Some \<lparr> ci_asset = address_of (cfg_asset p), ci_baseLTV = ltv, ci_liquidationThreshold = threshold,
       ci_liquidationBonus = bonus, ci_reserveFactor = factor, ci_stableBorrowingEnabled = cfg_stableBorrowingEnabled p \<rparr> }"

lemma u256_of_decD: "u256_of_dec s = Some x \<Longrightarrow> nat_of_dec s = Some (unat x)"
  by (auto simp: u256_of_dec_def unat_of_nat split: option.splits if_splits)

section \<open>One reserve\<close>

definition accepted_input :: "configure_reserve_input \<Rightarrow> bool" where
  "accepted_input i \<longleftrightarrow> configureReserveAsCollateral_accepts True (ci_baseLTV i) (ci_liquidationThreshold i) (ci_liquidationBonus i)
     \<and> setReserveFactor_accepts (ci_reserveFactor i)"

text \<open>What the pool stores for an input, over the word that it had.\<close>

definition configured :: "configure_reserve_input \<Rightarrow> reserve_params \<Rightarrow> reserve_params" where
  "configured i r = r\<lparr>p_ltv := ci_baseLTV i, p_threshold := ci_liquidationThreshold i, p_bonus := ci_liquidationBonus i,
     p_borrowing := True, p_stable := ci_stableBorrowingEnabled i, p_factor := ci_reserveFactor i\<rparr>"

lemma checkNoLiquidity_configured [simp]:
  "checkNoLiquidity (pool_setConfiguration w asset conf) other = checkNoLiquidity w other"
  by (simp add: checkNoLiquidity_def pool_setConfiguration_def put_reserve_def Let_def)

lemma configured_elsewhere [simp]:
  "w_poolAdmin (pool_setConfiguration w asset conf) = w_poolAdmin w"
  "configuration_of (pool_setConfiguration w asset conf) other = (if other = asset then conf else configuration_of w other)"
  by (simp_all add: pool_setConfiguration_def put_reserve_def configuration_of_def)

lemma pool_setConfiguration_twice [simp]:
  "pool_setConfiguration (pool_setConfiguration w asset c) asset c' = pool_setConfiguration w asset c'"
  by (simp add: pool_setConfiguration_def put_reserve_def)

lemma configure_one_stores:
  assumes "w_poolAdmin w = helper" and "checkNoLiquidity w (ci_asset i) = Inr ()" and a: "accepted_input i"
  shows "\<exists>conf. configure_one helper i w = Inr (pool_setConfiguration w (ci_asset i) conf)
    \<and> decode conf = configured i (decode (configuration_of w (ci_asset i)))"
proof -
  let ?d = "configuration_of w (ci_asset i)"
  have small: "ci_baseLTV i \<le> 65535" "ci_liquidationThreshold i \<le> 65535" "ci_liquidationBonus i \<le> 65535" "ci_reserveFactor i \<le> 65535"
    using a by (simp_all add: accepted_input_def configureReserveAsCollateral_accepts_def setReserveFactor_accepts_def)
  obtain d1 where d1: "setLtv ?d (ci_baseLTV i) = Inr d1" using small by (simp add: setters)
  obtain d2 where d2: "setLiquidationThreshold d1 (ci_liquidationThreshold i) = Inr d2" using small by (simp add: setters)
  obtain d3 where d3: "setLiquidationBonus d2 (ci_liquidationBonus i) = Inr d3" using small by (simp add: setters)
  let ?d4 = "setStableRateBorrowingEnabled (setBorrowingEnabled d3 True) (ci_stableBorrowingEnabled i)"
  obtain d5 where d5: "setReserveFactor ?d4 (ci_reserveFactor i) = Inr d5" using small by (simp add: setters)
  have c: "conf_configureReserveAsCollateral w helper (ci_asset i) (ci_baseLTV i) (ci_liquidationThreshold i) (ci_liquidationBonus i)
      = Inr (pool_setConfiguration w (ci_asset i) d3)"
    using a assms(1,2) d1 d2 d3
    by (auto simp: accepted_input_def configureReserveAsCollateral_accepts_def conf_configureReserveAsCollateral_def
        only_pool_admin_def Let_def split: option.splits if_splits)
  have "decode d5 = configured i (decode ?d)"
    using decode_setReserveFactor [OF d5] decode_setLiquidationBonus [OF d3] decode_setLiquidationThreshold [OF d2] decode_setLtv [OF d1]
    by (simp add: decode_setStableRateBorrowingEnabled decode_setBorrowingEnabled configured_def)
  moreover have "configure_one helper i w = Inr (pool_setConfiguration w (ci_asset i) d5)"
    using c d5 assms(1)
    by (simp add: configure_one_def conf_enableBorrowingOnReserve_def conf_setReserveFactor_def only_pool_admin_def)
  ultimately show ?thesis by blast
qed

section \<open>A batch\<close>

lemma configure_batch:
  assumes "w_poolAdmin w = helper" and "\<forall>i \<in> set inputs. accepted_input i \<and> checkNoLiquidity w (ci_asset i) = Inr ()"
    and "distinct (map ci_asset inputs)"
  shows "\<exists>w'. helper_configureReserves helper inputs w = Inr w'
    \<and> (\<forall>i \<in> set inputs. decode (configuration_of w' (ci_asset i)) = configured i (decode (configuration_of w (ci_asset i))))
    \<and> (\<forall>a. a \<notin> ci_asset ` set inputs \<longrightarrow> configuration_of w' a = configuration_of w a)"
  using assms
proof (induction inputs arbitrary: w)
  case (Cons i inputs)
  obtain conf where one: "configure_one helper i w = Inr (pool_setConfiguration w (ci_asset i) conf)"
    and d: "decode conf = configured i (decode (configuration_of w (ci_asset i)))"
    using configure_one_stores [of w helper i] Cons.prems by auto
  let ?v = "pool_setConfiguration w (ci_asset i) conf"
  obtain w' where w': "helper_configureReserves helper inputs ?v = Inr w'"
    and s: "\<forall>j \<in> set inputs. decode (configuration_of w' (ci_asset j)) = configured j (decode (configuration_of ?v (ci_asset j)))"
    and e: "\<forall>a. a \<notin> ci_asset ` set inputs \<longrightarrow> configuration_of w' a = configuration_of ?v a"
    using Cons.IH [of ?v] Cons.prems by auto
  have "ci_asset j \<noteq> ci_asset i" if "j \<in> set inputs" for j using Cons.prems(3) that
    by (metis distinct.simps(2) image_eqI list.set_map list.simps(9))
  then show ?case using w' one s e d Cons.prems(3) by (auto simp: image_iff)
qed simp

section \<open>The markets\<close>

lemma market_entry_accepted:
  assumes "cfg \<in> set (all_markets B)" and "(s, p) \<in> set (ReservesConfig cfg)"
  shows "reserve_accepted p"
  using market_reserves_accepted [of B] assms by (auto simp: list_all_iff)

lemma abi_of_market:
  assumes "reserve_accepted p" and "baseLTVAsCollateral p \<noteq> ''-1''"
  shows "\<exists>i. abi_input address_of (configure_of token p) = Some i \<and> accepted_input i \<and> ci_asset i = address_of token
    \<and> nat_of_dec (baseLTVAsCollateral p) = Some (unat (ci_baseLTV i))
    \<and> nat_of_dec (liquidationThreshold p) = Some (unat (ci_liquidationThreshold i))
    \<and> nat_of_dec (liquidationBonus p) = Some (unat (ci_liquidationBonus i))
    \<and> nat_of_dec (reserveFactor p) = Some (unat (ci_reserveFactor i))
    \<and> ci_stableBorrowingEnabled i = stableBorrowRateEnabled p"
  using assms
  by (auto simp: reserve_accepted_def abi_input_def configure_of_def accepted_input_def split: option.splits
      dest!: u256_of_decD)

text \<open>
  C3. From the market files to the storage of the pool. For any choice of reserves of a market that are configured (whose loan to value is
  not -1), the inputs that \<open>configureReservesByHelper\<close> builds can be encoded, and the helper contract, while it is pool admin and nothing is
  deposited, accepts the batch; the pool then has in the packed word of every one of them exactly the loan to value, threshold, bonus, reserve
  factor and stable flag of the file. It has borrowing enabled for all of them, whatever \<open>borrowingEnabled\<close> says, and the other fields
  as before.
\<close>

theorem market_batches_configure_the_pool:
  assumes "cfg \<in> set (all_markets B)"
    and "\<forall>(token, p) \<in> set entries. (\<exists>s. (s, p) \<in> set (ReservesConfig cfg)) \<and> baseLTVAsCollateral p \<noteq> ''-1''
      \<and> checkNoLiquidity w (address_of token) = Inr ()"
    and "distinct (map (\<lambda>(token, p). address_of token) entries)" and "w_poolAdmin w = helper"
  shows "\<exists>inputs w'. those (map (\<lambda>(token, p). abi_input address_of (configure_of token p)) entries) = Some inputs
    \<and> helper_configureReserves helper inputs w = Inr w'
    \<and> (\<forall>(token, p) \<in> set entries.
         let r = decode (configuration_of w' (address_of token)); r0 = decode (configuration_of w (address_of token)) in
         nat_of_dec (baseLTVAsCollateral p) = Some (unat (p_ltv r))
         \<and> nat_of_dec (liquidationThreshold p) = Some (unat (p_threshold r))
         \<and> nat_of_dec (liquidationBonus p) = Some (unat (p_bonus r))
         \<and> nat_of_dec (reserveFactor p) = Some (unat (p_factor r))
         \<and> p_stable r = stableBorrowRateEnabled p \<and> p_borrowing r
         \<and> p_decimals r = p_decimals r0 \<and> p_active r = p_active r0 \<and> p_frozen r = p_frozen r0)"
proof -
  have each: "\<exists>i. abi_input address_of (configure_of token p) = Some i \<and> accepted_input i \<and> ci_asset i = address_of token
    \<and> nat_of_dec (baseLTVAsCollateral p) = Some (unat (ci_baseLTV i))
    \<and> nat_of_dec (liquidationThreshold p) = Some (unat (ci_liquidationThreshold i))
    \<and> nat_of_dec (liquidationBonus p) = Some (unat (ci_liquidationBonus i))
    \<and> nat_of_dec (reserveFactor p) = Some (unat (ci_reserveFactor i))
    \<and> ci_stableBorrowingEnabled i = stableBorrowRateEnabled p" if "(token, p) \<in> set entries" for token p
  proof -
    from assms(2) that obtain s where "(s, p) \<in> set (ReservesConfig cfg)" "baseLTVAsCollateral p \<noteq> ''-1''" by blast
    then show ?thesis using abi_of_market market_entry_accepted [OF assms(1)] by blast
  qed
  define input where "input = (\<lambda>(token, p). the (abi_input address_of (configure_of token p)))"
  let ?inputs = "map input entries"
  have those: "those (map f xs) = Some (map (the \<circ> f) xs)" if "\<forall>x \<in> set xs. f x \<noteq> None" for f :: "'x \<Rightarrow> 'y option" and xs
    using that by (induction xs) auto
  have t: "those (map (\<lambda>(token, p). abi_input address_of (configure_of token p)) entries) = Some ?inputs"
    by (subst those) (use each in \<open>force simp: input_def split_def\<close>)+
  have asset: "ci_asset (input e) = (case e of (token, p) \<Rightarrow> address_of token)" and ok: "accepted_input (input e)" if "e \<in> set entries" for e
    using each that by (force simp: input_def split: prod.splits)+
  have "distinct (map ci_asset ?inputs)"
    using assms(3) by (simp add: o_def asset cong: map_cong)
  moreover have "\<forall>i \<in> set ?inputs. accepted_input i \<and> checkNoLiquidity w (ci_asset i) = Inr ()"
    using assms(2) by (auto simp: ok asset split: prod.splits)
  ultimately obtain w' where h: "helper_configureReserves helper ?inputs w = Inr w'"
    and d: "\<forall>i \<in> set ?inputs. decode (configuration_of w' (ci_asset i)) = configured i (decode (configuration_of w (ci_asset i)))"
    using configure_batch [OF assms(4)] by blast
  have "let r = decode (configuration_of w' (address_of token)); r0 = decode (configuration_of w (address_of token)) in
         nat_of_dec (baseLTVAsCollateral p) = Some (unat (p_ltv r))
         \<and> nat_of_dec (liquidationThreshold p) = Some (unat (p_threshold r))
         \<and> nat_of_dec (liquidationBonus p) = Some (unat (p_bonus r))
         \<and> nat_of_dec (reserveFactor p) = Some (unat (p_factor r))
         \<and> p_stable r = stableBorrowRateEnabled p \<and> p_borrowing r
         \<and> p_decimals r = p_decimals r0 \<and> p_active r = p_active r0 \<and> p_frozen r = p_frozen r0"
    if e: "(token, p) \<in> set entries" for token p
  proof -
    have "decode (configuration_of w' (address_of token)) = configured (input (token, p)) (decode (configuration_of w (address_of token)))"
      using d e asset [OF e] by force
    then show ?thesis using each [OF e] by (auto simp: input_def configured_def Let_def)
  qed
  then show ?thesis using t h by blast
qed

lemma market_batches_configure_the_pool_witness:
  "\<exists>inputs w'. helper_configureReserves 9 inputs (scene_at scene_reserve (\<lambda>_. 0) scene_asset (fresh_aToken 8) fresh_variable 1600000000)
      = Inr w' \<and> unat (p_ltv (decode (configuration_of w' 1))) = 5000
      \<and> p_borrowing (decode (configuration_of w' 1)) \<and> \<not> borrowingEnabled (aave_strategyAAVE exact_bn)"
proof -
  let ?w = "scene_at scene_reserve (\<lambda>_. 0) scene_asset (fresh_aToken 8) fresh_variable 1600000000"
  have w: "checkNoLiquidity ?w 1 = Inr ()" "w_poolAdmin ?w = 9"
    by (simp_all add: checkNoLiquidity_def contract_at_def scene_defs)
  have p: "AaveConfig exact_bn \<in> set (all_markets exact_bn)"
      "(''AAVE'', aave_strategyAAVE exact_bn) \<in> set (ReservesConfig (AaveConfig exact_bn))"
    by (simp_all add: all_markets_def aave_ReservesConfig_def)
  have n: "nat_of_dec ''5000'' = Some 5000" by code_simp
  show ?thesis
    using market_batches_configure_the_pool [OF p(1), of "[(''t'', aave_strategyAAVE exact_bn)]" ?w "\<lambda>_. 1" 9] p(2) w n
    by (auto simp: Let_def aave_strategyAAVE_def)
qed

end
