(* ===== verification/ReferenceTheorems.thy ===== *)
theory ReferenceTheorems
  imports PoolScene AccountingTheorems
begin

text \<open>
  The reference calculations of the suites against the contracts of the pool: what the suites expect of the indexes of
  a reserve after an action, and what the action leaves in the state.
\<close>

section \<open>Where the indexes change\<close>

text \<open>Only the update of the state changes indexes.\<close>

definition same_indexes :: "world \<Rightarrow> world \<Rightarrow> bool" where
  "same_indexes w w' \<longleftrightarrow> (\<forall>x. d_liquidityIndex (w_reserves w' x) = d_liquidityIndex (w_reserves w x)
     \<and> d_variableBorrowIndex (w_reserves w' x) = d_variableBorrowIndex (w_reserves w x))"

lemma same_indexes_refl [simp]: "same_indexes w w"
  by (simp add: same_indexes_def)

lemma same_indexes_trans: "same_indexes u v \<Longrightarrow> same_indexes v w \<Longrightarrow> same_indexes u w"
  by (simp add: same_indexes_def)

lemma indexes_kept:
  "updateInterestRates w asset a x y = Inr w' \<Longrightarrow> same_indexes w w'"
  "pull_asset w asset from to x = Inr w' \<Longrightarrow> same_indexes w w'"
  "send_underlying w asset a to x = Inr w' \<Longrightarrow> same_indexes w w'"
  "mint_aTokens w asset user x = Inr (b, w') \<Longrightarrow> same_indexes w w'"
  "burn_aTokens w asset user to x = Inr w' \<Longrightarrow> same_indexes w w'"
  "mint_debt w asset user user' x st = Inr (b, w') \<Longrightarrow> same_indexes w w'"
  "burn_debt w asset user x st = Inr w' \<Longrightarrow> same_indexes w w'"
  "use_as_collateral w asset user c = Inr w' \<Longrightarrow> same_indexes w w'"
  "mark_borrowing w asset user c = Inr w' \<Longrightarrow> same_indexes w w'"
  by (auto simp: same_indexes_def updateInterestRates_def pull_asset_def send_underlying_def mint_aTokens_def burn_aTokens_def
      mint_debt_def burn_debt_def use_as_collateral_def mark_borrowing_def put_reserve_def put_asset_def put_aToken_def
      put_stable_def put_variable_def Let_def call_simps split: prod.splits)

definition accrued :: "world \<Rightarrow> addr \<Rightarrow> world \<Rightarrow> bool" where
  "accrued w asset w' \<longleftrightarrow> (\<exists>v. updateState w asset = Inr v \<and> same_indexes v w')"

lemma actions_accrue:
  "pool_deposit w sender asset amount user = Inr w' \<Longrightarrow> accrued w asset w'"
  "pool_withdraw w sender asset amount user = Inr (y, w') \<Longrightarrow> accrued w asset w'"
  "pool_borrow w sender asset amount mode user = Inr w' \<Longrightarrow> accrued w asset w'"
  "pool_repay w sender asset amount mode user = Inr (y, w') \<Longrightarrow> accrued w asset w'"
  "pool_swapBorrowRateMode w sender asset mode = Inr w' \<Longrightarrow> accrued w asset w'"
  "pool_rebalanceStableBorrowRate w asset user = Inr w' \<Longrightarrow> accrued w asset w'"
proof -
  note rules = accrued_def when_not_paused_def call_simps Let_def
  show "pool_deposit w sender asset amount user = Inr w' \<Longrightarrow> accrued w asset w'"
    by (auto simp: pool_deposit_def rules dest!: indexes_kept) (metis same_indexes_trans)+
  show "pool_withdraw w sender asset amount user = Inr (y, w') \<Longrightarrow> accrued w asset w'"
    by (auto simp: pool_withdraw_def rules dest!: indexes_kept) (metis same_indexes_trans)+
  show "pool_borrow w sender asset amount mode user = Inr w' \<Longrightarrow> accrued w asset w'"
    by (auto simp: pool_borrow_def executeBorrow_def rules dest!: indexes_kept) (metis same_indexes_trans)+
  show "pool_repay w sender asset amount mode user = Inr (y, w') \<Longrightarrow> accrued w asset w'"
    by (auto simp: pool_repay_def rules dest!: indexes_kept) (metis same_indexes_trans)+
  show "pool_swapBorrowRateMode w sender asset mode = Inr w' \<Longrightarrow> accrued w asset w'"
    by (auto simp: pool_swapBorrowRateMode_def rules dest!: indexes_kept) (metis same_indexes_trans)+
  show "pool_rebalanceStableBorrowRate w asset user = Inr w' \<Longrightarrow> accrued w asset w'"
    by (auto simp: pool_rebalanceStableBorrowRate_def rules dest!: indexes_kept) (metis same_indexes_trans)+
qed

section \<open>What the suites read\<close>

text \<open>The data of the reserve as the suites read them from the chain.\<close>

definition read_from :: "('b \<Rightarrow> rat) \<Rightarrow> world \<Rightarrow> addr \<Rightarrow> 'b ReserveData \<Rightarrow> bool" where
  "read_from val w asset b \<longleftrightarrow> (let r = w_reserves w asset in
     val (r_liquidityIndex b) = of_nat (unat (d_liquidityIndex r))
     \<and> val (r_variableBorrowIndex b) = of_nat (unat (d_variableBorrowIndex r))
     \<and> val (r_liquidityRate b) = of_nat (unat (d_currentLiquidityRate r))
     \<and> val (r_variableBorrowRate b) = of_nat (unat (d_currentVariableBorrowRate r))
     \<and> val (r_lastUpdateTimestamp b) = of_nat (unat (d_lastUpdateTimestamp r))
     \<and> (\<exists>v. variable_of w asset = Inr v \<and> val (r_scaledVariableDebt b) = of_nat (unat (e_totalSupply v)))
     \<and> (\<exists>y. Variable_totalSupply w asset = Inr y \<and> val (r_totalVariableDebt b) = of_nat (unat y)))"

text \<open>With an index of at least one ray the total debt is zero only when the scaled debt is.\<close>

lemma total_debt_zero:
  assumes "Variable_totalSupply w asset = Inr y" and "variable_of w asset = Inr v"
    and "10 ^ 27 \<le> unat (d_variableBorrowIndex (w_reserves w asset))"
  shows "y = 0 \<longleftrightarrow> e_totalSupply v = 0"
proof -
  from assms(1,2) obtain n where n: "getNormalizedDebt (w_timestamp w) (w_reserves w asset) = Some n"
    and y: "sol_rayMul (e_totalSupply v) n = Some y"
    by (auto simp: Variable_totalSupply_def call_simps)
  have "unat (e_totalSupply v) \<le> unat y"
    using rayMul_grows(2) [OF y] normalized_at_least_index [OF n] assms(3) by simp
  moreover have "e_totalSupply v = 0 \<Longrightarrow> y = 0" using y by (simp add: sol_rayMul_iff unat_eq_zero)
  ultimately show ?thesis by (auto simp: unat_eq_zero)
qed

section \<open>Expected and stored indexes\<close>

context suite_math
begin

lemma interest_values:
  assumes "val x = of_nat (unat rate)" "val t = of_nat (unat now)" "val l = of_nat (unat since)"
  shows "sol_calculateLinearInterest now rate since = Some c \<Longrightarrow> val (calcLinearInterest M x t l) = of_nat (unat c)"
    and "sol_calculateCompoundedInterest rate since now = Some c \<Longrightarrow> val (calcCompoundedInterest M x t l) = of_nat (unat c)"
  using linear_interest_nat [OF assms] compounded_interest_nat [OF assms] sol_linear_interest [of now rate since c]
    sol_compounded_interest [of rate since now c] by auto

lemma ray_value:
  "val x = of_nat (unat a) \<Longrightarrow> val y = of_nat (unat b) \<Longrightarrow> sol_rayMul a b = Some c \<Longrightarrow> val (rayMul M x y) = of_nat (unat c)"
  using rayMul_nat [of x "unat a" y "unat b"] sol_fixed_pointD(1) [of a b c] by simp

lemma liquidity_index_matches:
  assumes u: "updateIndexes now scaled r = Inr (li, vi, r')"
    and b: "val (r_liquidityIndex b) = of_nat (unat (d_liquidityIndex r))"
      "val (r_liquidityRate b) = of_nat (unat (d_currentLiquidityRate r))"
      "val (r_lastUpdateTimestamp b) = of_nat (unat (d_lastUpdateTimestamp r))" and t: "val t = of_nat (unat now)"
    and past: "unat (d_lastUpdateTimestamp r) \<le> unat now"
    and util: "val (r_utilizationRate b) = 0 \<Longrightarrow> d_currentLiquidityRate r = 0"
  shows "val (calcExpectedLiquidityIndex M b t) = of_nat (unat li)"
proof (cases "d_currentLiquidityRate r = 0")
  case True
  then have li: "unat li = unat (d_liquidityIndex r)" using u by (auto simp: updateIndexes_def Let_def)
  have "val (calcLinearInterest M (r_liquidityRate b) t (r_lastUpdateTimestamp b)) = of_nat (10 ^ 27)"
    using linear_interest_nat [OF b(2) t b(3) past] True by simp
  from rayMul_nat [OF this b(1)] have "val (rayMul M (calcLinearInterest M (r_liquidityRate b) t (r_lastUpdateTimestamp b)) (r_liquidityIndex b))
      = of_nat (unat (d_liquidityIndex r))" using nearest_ray by simp
  then show ?thesis by (simp add: calcExpectedLiquidityIndex_def b(1) li)
next
  case False
  then have "0 < d_currentLiquidityRate r" by (simp add: word_gt_0)
  with u obtain c where c: "sol_calculateLinearInterest now (ucast (d_currentLiquidityRate r)) (d_lastUpdateTimestamp r) = Some c"
      "sol_rayMul c (ucast (d_liquidityIndex r)) = Some li"
    by (auto simp: updateIndexes_def Let_def call_simps)
  have "val (calcLinearInterest M (r_liquidityRate b) t (r_lastUpdateTimestamp b)) = of_nat (unat c)"
    by (rule interest_values(1) [OF _ t b(3) c(1)]) (simp add: b(2))
  from ray_value [OF this _ c(2)] b(1) False util show ?thesis
    by (auto simp: calcExpectedLiquidityIndex_def eq_iff)
qed

lemma variable_index_matches:
  assumes u: "updateIndexes now scaled r = Inr (li, vi, r')"
    and b: "val (r_variableBorrowIndex b) = of_nat (unat (d_variableBorrowIndex r))"
      "val (r_variableBorrowRate b) = of_nat (unat (d_currentVariableBorrowRate r))"
      "val (r_lastUpdateTimestamp b) = of_nat (unat (d_lastUpdateTimestamp r))" and t: "val t = of_nat (unat now)"
    and z: "val (r_totalVariableDebt b) = 0 \<longleftrightarrow> scaled = 0"
    and rate: "scaled \<noteq> 0 \<Longrightarrow> d_currentLiquidityRate r \<noteq> 0"
  shows "val (calcExpectedVariableBorrowIndex M b t) = of_nat (unat vi)"
proof (cases "scaled = 0")
  case True
  then have "unat vi = unat (d_variableBorrowIndex r)" using u by (auto simp: updateIndexes_def Let_def call_simps split: if_splits)
  with True z b(1) show ?thesis by (simp add: calcExpectedVariableBorrowIndex_def eq_iff)
next
  case False
  then have "0 < d_currentLiquidityRate r" using rate by (simp add: word_gt_0)
  with u False obtain c where c: "sol_calculateCompoundedInterest (ucast (d_currentVariableBorrowRate r)) (d_lastUpdateTimestamp r) now = Some c"
      "sol_rayMul c (ucast (d_variableBorrowIndex r)) = Some vi"
    by (auto simp: updateIndexes_def Let_def call_simps)
  have "val (calcCompoundedInterest M (r_variableBorrowRate b) t (r_lastUpdateTimestamp b)) = of_nat (unat c)"
    by (rule interest_values(2) [OF _ t b(3) c(1)]) (simp add: b(2))
  from ray_value [OF this _ c(2)] b(1) False z show ?thesis
    by (auto simp: calcExpectedVariableBorrowIndex_def eq_iff)
qed

end

section \<open>The parts of a deposit\<close>

text \<open>The update leaves the aTokens of all but the treasury, the underlying assets and the supply of the debt.\<close>

lemma updateState_tokens:
  assumes "updateState w asset = Inr w1" and "aToken_of w asset = Inr t" and "user \<noteq> a_treasury t"
  shows "\<exists>t1. aToken_of w1 asset = Inr t1 \<and> e_balances t1 user = e_balances t user" and "w_assets w1 = w_assets w"
    and "w_variableDebts w1 = w_variableDebts w" and "w_pool w1 = w_pool w"
    and "d_aTokenAddress (w_reserves w1 asset) = d_aTokenAddress (w_reserves w asset)"
proof -
  have minted: "e_balances t' user = e_balances t user"
    if "AToken_mintToTreasury x li t = Inr t'" for x li t'
    using that assms(3) by (auto simp: AToken_mintToTreasury_def e_mint_def call_simps)
  from updateStateD [OF assms(1)] obtain li vi r v where i: "updateIndexes (w_timestamp w) (e_totalSupply (v :: variable_debt)) (w_reserves w asset) = Inr (li, vi, r)"
    and w1: "w1 = put_reserve w asset r \<or> (\<exists>x t t'. aToken_of (put_reserve w asset r) asset = Inr t
      \<and> AToken_mintToTreasury x li t = Inr t' \<and> w1 = put_aToken (put_reserve w asset r) asset t')" by blast
  have a: "d_aTokenAddress r = d_aTokenAddress (w_reserves w asset)" using updateIndexesD [OF i] same_reserveD by blast
  then show "\<exists>t1. aToken_of w1 asset = Inr t1 \<and> e_balances t1 user = e_balances t user"
    using w1 assms(2) by (auto simp: aToken_of_def put_reserve_def put_aToken_def contract_at_Inr minted)
  show "w_assets w1 = w_assets w" "w_variableDebts w1 = w_variableDebts w" "w_pool w1 = w_pool w"
    "d_aTokenAddress (w_reserves w1 asset) = d_aTokenAddress (w_reserves w asset)"
    using w1 a by (auto simp: put_reserve_def put_aToken_def)
qed

lemma e_transferFrom_balances:
  assumes "e_transferFrom c a b x t = Inr t'" and "a \<noteq> b"
  shows "unat (e_balances t' a) + unat x = unat (e_balances t a)" and "unat (e_balances t' b) = unat (e_balances t b) + unat x"
  using assms
  by (auto simp: e_transferFrom_def e_transfer_def e_approve_def call_simps Let_def dest!: sol_sub_orD sol_addD)

text \<open>A deposit, part by part.\<close>

lemma deposit_parts:
  assumes "pool_deposit w sender asset amount user = Inr w'" and t: "aToken_of w asset = Inr t" "user \<noteq> a_treasury t"
    and a: "w_assets w asset = Some u"
  obtains v t' u' where "updateState w asset = Inr v" "same_indexes v w'" "w_variableDebts w' = w_variableDebts w"
    and "aToken_of w' asset = Inr t'" "w_assets w' asset = Some u'"
    and "e_transferFrom (w_pool w) sender (d_aTokenAddress (w_reserves w asset)) amount u = Inr u'"
    and "\<exists>s. sol_rayDiv amount (ucast (d_liquidityIndex (w_reserves w' asset))) = Some s
      \<and> unat (e_balances t' user) = unat (e_balances t user) + unat s"
proof -
  from assms(1) obtain v w2 w3 first w4 where v: "updateState w asset = Inr v"
    and w2: "updateInterestRates v asset (d_aTokenAddress (w_reserves w asset)) amount 0 = Inr w2"
    and w3: "pull_asset w2 asset sender (d_aTokenAddress (w_reserves w asset)) amount = Inr w3"
    and w4: "mint_aTokens w3 asset user amount = Inr (first, w4)"
    and w': "w' = w4 \<or> (\<exists>b. use_as_collateral w4 asset user b = Inr w')"
    by (auto simp: pool_deposit_def when_not_paused_def Let_def call_simps) blast+
  note s = updateState_tokens [OF v t]
  obtain t1 where t1: "aToken_of v asset = Inr t1" "e_balances t1 user = e_balances t user" using s(1) by blast
  obtain r where r: "w2 = put_reserve v asset r" "same_reserve (w_reserves v asset) r" using updateInterestRatesD [OF w2] by blast
  obtain u' where u': "w3 = put_asset w2 asset u'" "e_transferFrom (w_pool w) sender (d_aTokenAddress (w_reserves w asset)) amount u = Inr u'"
    using w3 a s by (auto simp: pull_asset_def r put_reserve_def call_simps)
  have t3: "aToken_of w3 asset = Inr t1"
    using t1 r by (simp add: u' aToken_of_def put_reserve_def put_asset_def same_reserveD)
  obtain t' where t': "AToken_mint user amount (ucast (d_liquidityIndex (w_reserves w3 asset))) t1 = Inr (first, t')" "w4 = put_aToken w3 asset t'"
    using w4 t3 by (auto simp: mint_aTokens_def call_simps)
  have same: "w_assets w' = w_assets w4" "w_variableDebts w' = w_variableDebts w4" "w_aTokens w' = w_aTokens w4" "w_reserves w' = w_reserves w4"
    using w' by (auto simp: use_as_collateral_def call_simps)
  have i: "same_indexes v w'"
    using w' indexes_kept(1) [OF w2] indexes_kept(2) [OF w3] indexes_kept(4) [OF w4] indexes_kept(8) by (metis same_indexes_trans)
  have "d_liquidityIndex (w_reserves w3 asset) = d_liquidityIndex (w_reserves w' asset)"
    using same by (simp add: t'(2) put_aToken_def)
  then have "\<exists>s. sol_rayDiv amount (ucast (d_liquidityIndex (w_reserves w' asset))) = Some s
      \<and> unat (e_balances t' user) = unat (e_balances t user) + unat s"
    using t'(1) t1(2) by (auto simp: AToken_mint_def Let_def call_simps dest!: e_mint_held)
  moreover have "aToken_of w' asset = Inr t'" "w_assets w' asset = Some u'" "w_variableDebts w' = w_variableDebts w"
    using t3 s r by (auto simp: aToken_of_def same t'(2) put_aToken_def u'(1) put_asset_def r(1) put_reserve_def contract_at_def)
  ultimately show ?thesis using that v i u'(2) by blast
qed

lemma accrued_indexes_match:
  assumes M: "suite_math M val" and b: "read_from val w asset b" and t: "val t = of_nat (unat (w_timestamp w))"
    and action: "accrued w asset w'"
    and past: "unat (d_lastUpdateTimestamp (w_reserves w asset)) \<le> unat (w_timestamp w)"
    and ray: "10 ^ 27 \<le> unat (d_variableBorrowIndex (w_reserves w asset))"
    and util: "val (r_utilizationRate b) = 0 \<Longrightarrow> d_currentLiquidityRate (w_reserves w asset) = 0"
    and rate: "val (r_totalVariableDebt b) \<noteq> 0 \<Longrightarrow> d_currentLiquidityRate (w_reserves w asset) \<noteq> 0"
  shows "val (r_liquidityIndex (start_reserve M b t)) = of_nat (unat (d_liquidityIndex (w_reserves w' asset)))
    \<and> val (r_variableBorrowIndex (start_reserve M b t)) = of_nat (unat (d_variableBorrowIndex (w_reserves w' asset)))"
proof -
  let ?r = "w_reserves w asset"
  obtain v w1 y where v: "variable_of w asset = Inr v" and y: "Variable_totalSupply w asset = Inr y"
      and yv: "val (r_totalVariableDebt b) = of_nat (unat y)" and u: "updateState w asset = Inr w1" and s: "same_indexes w1 w'"
    using b action by (auto simp: read_from_def Let_def accrued_def)
  have z: "val (r_totalVariableDebt b) = 0 \<longleftrightarrow> e_totalSupply v = 0"
    unfolding yv of_nat_eq_0_iff unat_eq_zero by (rule total_debt_zero [OF y v ray])
  from updateStateD [OF u] v obtain li vi r where i: "updateIndexes (w_timestamp w) (e_totalSupply v) ?r = Inr (li, vi, r)"
    and r: "w_reserves w1 asset = r"
    by (auto simp: put_reserve_def put_aToken_def)
  have stored: "unat (d_liquidityIndex (w_reserves w' asset)) = unat li" "unat (d_variableBorrowIndex (w_reserves w' asset)) = unat vi"
    using updateIndexesD [OF i] s r by (simp_all add: same_indexes_def)
  have "val (calcExpectedLiquidityIndex M b t) = of_nat (unat li)"
    by (rule suite_math.liquidity_index_matches [OF M i _ _ _ t past util]) (use b in \<open>simp_all add: read_from_def Let_def\<close>)
  moreover have "val (calcExpectedVariableBorrowIndex M b t) = of_nat (unat vi)"
    by (rule suite_math.variable_index_matches [OF M i _ _ _ t z]) (use b z rate in \<open>simp_all add: read_from_def Let_def\<close>)
  ultimately show ?thesis by (simp add: start_reserve_def stored)
qed


section \<open>Properties\<close>


definition read_borrowed :: "rat ReserveData" where
  "read_borrowed = sample_reserve\<lparr>r_liquidityIndex := 1000000000000000000000000000, r_variableBorrowIndex := 1000000000000000000000000000,
     r_liquidityRate := 4500000000000000000000, r_variableBorrowRate := 500000000000000000000000,
     r_lastUpdateTimestamp := 1600000000, r_scaledVariableDebt := 1000000000000000000,
     r_totalVariableDebt := 1000000000000000000, r_utilizationRate := 10000000000000000000000000\<rparr>"

lemma borrowed_read: "read_from (\<lambda>x. x) scene_borrowed 1 read_borrowed"
proof -
  have f: "w_reserves scene_borrowed 1 = borrowed_reserve" "variable_of scene_borrowed 1 = Inr borrowed_variable"
      "w_timestamp scene_borrowed = 1600000000" "e_totalSupply borrowed_variable = 1000000000000000000"
    by (simp_all add: scene_borrowed_def scene_at_def variable_of_def contract_at_def borrowed_reserve_def deposited_reserve_def
        scene_reserve_def borrowed_variable_def)
  have r: "d_liquidityIndex borrowed_reserve = 1000000000000000000000000000" "d_variableBorrowIndex borrowed_reserve = 1000000000000000000000000000"
      "d_currentLiquidityRate borrowed_reserve = 4500000000000000000000" "d_currentVariableBorrowRate borrowed_reserve = 500000000000000000000000"
      "d_lastUpdateTimestamp borrowed_reserve = 1600000000"
    by (simp_all add: borrowed_reserve_def deposited_reserve_def scene_reserve_def)
  have "Variable_totalSupply scene_borrowed 1 = Inr 1000000000000000000"
    by (simp add: Variable_totalSupply_def f r getNormalizedDebt_def ray_values)
  then show ?thesis by (simp add: read_from_def f r read_borrowed_def)
qed



definition read_new :: "rat ReserveData" where
  "read_new = sample_reserve\<lparr>r_liquidityIndex := 1000000000000000000000000000, r_variableBorrowIndex := 1000000000000000000000000000,
     r_availableLiquidity := 0, r_totalLiquidity := 0\<rparr>"

definition read_user :: "rat UserReserveData" where
  "read_user = (empty_UserReserveData (rat_math 0 ROUND_DOWN))\<lparr>u_walletBalance := 1000000000000000000000\<rparr>"

lemma new_read:
  "read_from (\<lambda>x. x) (scene_at scene_reserve (\<lambda>_. 0) scene_asset (fresh_aToken 8) fresh_variable 1600000000) 1 read_new"
    (is "read_from _ ?w 1 _")
proof -
  have f: "w_reserves ?w 1 = scene_reserve" "variable_of ?w 1 = Inr fresh_variable"
      "w_timestamp ?w = 1600000000" "e_totalSupply fresh_variable = 0"
    by (simp_all add: scene_at_def variable_of_def contract_at_def scene_reserve_def fresh_variable_def)
  have r: "d_liquidityIndex scene_reserve = 1000000000000000000000000000" "d_variableBorrowIndex scene_reserve = 1000000000000000000000000000"
      "d_currentLiquidityRate scene_reserve = 0" "d_currentVariableBorrowRate scene_reserve = 0" "d_lastUpdateTimestamp scene_reserve = 0"
    by (simp_all add: scene_reserve_def)
  have c: "sol_calculateCompoundedInterest 0 0 1600000000 = Some 1000000000000000000000000000"
    by (simp add: sol_calculateCompoundedInterest_def sol_sub_def sol_mul_def sol_add_def
        sol_RAY_def sol_SECONDS_PER_YEAR_def sol_rayMul_def Let_def cong: call_order)
  have m: "sol_rayMul 1000000000000000000000000000 1000000000000000000000000000 = Some 1000000000000000000000000000"
      "sol_rayMul 0 1000000000000000000000000000 = Some 0"
    by (simp_all add: sol_rayMul_iff nearest_value)
  have "Variable_totalSupply ?w 1 = Inr 0"
    by (simp add: Variable_totalSupply_def f r getNormalizedDebt_def c m cong: call_order)
  then show ?thesis by (simp add: read_from_def f r read_new_def sample_reserve_def empty_ReserveData_def rat_math_def)
qed


end
