(* ===== verification/Spec2Isabelle.thy ===== *)
theory Spec2Isabelle
  imports HelperTheorems MigrationTheorems WadRayTheorems CalculationTheorems AccountingTheorems
    AutoRepayTheorems LiquidationTheorems SuiteTheorems NetworkConfig PoolTheorems MarketPool ReferenceTheorems
begin

text \<open>
  Moola v2: the TypeScript that deploys and configures the lending market, its clients and test suites, and the contracts of the pool.

  The program. \<open>helpers/\<close> holds the deployment library, \<open>markets/\<close> the configuration of the five
  markets, \<open>tasks/\<close> the hardhat tasks that use both. A task loads a market's configuration, deploys
  contracts through ethers factories, registers their addresses in the JSON file
  \<open>deployed-contracts.json\<close>, and sends the transactions that connect and configure them. Later tasks
  find the contracts of earlier ones through the getters, which read the JSON file.

  The theories, in the order of their dependencies.
  \<^item> \<open>Prelude\<close>: JavaScript errors and values, objects as ordered association lists.
  \<^item> \<open>Effects\<close>: scripts as functions from the history of requests to a result and a longer history; the
    node, ethers, hardhat, lowdb and the Etherscan plugin are fields of the record \<open>runtime\<close>.
  \<^item> \<open>Traces\<close>: projections of histories (transactions sent, contracts deployed, registry writes) and the
    locale \<open>observation\<close> with the rules by which they compose; \<open>follows\<close> and \<open>issues\<close> say that every
    run contributes a prefix of a trace, and all of it when it succeeds.
  \<^item> \<open>Types\<close>, \<open>BigNum\<close>, \<open>Constants\<close>: \<open>helpers/types.ts\<close>, the operations of bignumber.js as a record with
    its documented laws as the locale \<open>bignumber\<close> (rational arithmetic is an instance), and
    \<open>helpers/constants.ts\<close>.
  \<^item> \<open>MiscUtils\<close>, \<open>Etherscan\<close>, \<open>Getters\<close>, \<open>ContractsHelpers\<close>: the files of \<open>helpers/\<close> of these names.
  \<^item> \<open>Registry\<close>: the JSON file as its clients see it, the locale \<open>json_registry\<close>.
  \<^item> \<open>MoolaMarket\<close>, \<open>AaveMarket\<close>, \<open>AmmMarket\<close>, \<open>MaticMarket\<close>, \<open>XDaiMarket\<close>: the markets as data;
    \<open>MarketConfigs\<close> and \<open>Configuration\<close>: \<open>helpers/configuration.ts\<close>, with the symbols and networks that \<open>types.ts\<close> declares.
  \<^item> \<open>Deployments\<close>, \<open>Oracles\<close>, \<open>InitHelpers\<close>: \<open>contracts-deployments.ts\<close>, \<open>oracles-helpers.ts\<close> with
    \<open>mock-helpers.ts\<close>, and \<open>init-helpers.ts\<close>.
  \<^item> \<open>FullTasks\<close>: the tasks of \<open>tasks/full\<close> and \<open>set-DRE\<close>; \<open>TokenReserves\<close>: the older
    \<open>initTokenReservesByHelper\<close> with the tasks of \<open>tasks/misc\<close> around it; \<open>DevTasks\<close>: \<open>tasks/dev\<close> and
    \<open>tasks/verifications\<close>; \<open>Migrations\<close>: \<open>tasks/migrations\<close>, \<open>tasks/deployments\<close>, \<open>tasks/helpers\<close>.
  \<^item> \<open>MarketRules\<close>: what the contracts require of the configured parameters.
  \<^item> \<open>WadRay\<close>: \<open>math.ts\<close> of the test suites, with bignumber.js as a record whose laws are the locales
    \<open>bignumber_math\<close>, \<open>suite_math\<close> and \<open>default_math\<close> (rational arithmetic with rounding interprets them),
    and \<open>WadRayMath\<close> on 256-bit words. \<open>Calculations\<close>, \<open>ExpectedData\<close>: \<open>calculations.ts\<close>, the reference
    calculations of the suites. \<open>InterestContracts\<close>: the contracts they stand for, \<open>MathUtils\<close> and the rate
    strategy. \<open>CalculationRules\<close>: the lemmas on both.
  \<^item> \<open>AutoRepayBot\<close>: \<open>bots/auto-repay-bot.js\<close>. \<open>ClientEnv\<close>, \<open>ClientQueries\<close>, \<open>ClientActions\<close>, \<open>LiquidationBot\<close>,
    \<open>CommandLine\<close>: \<open>cli.js\<close>, the command line client: its connection and parameters, what it prints, what it
    sends, the bot that it can run, and the choice of the action.
  \<^item> \<open>Simulations\<close> and \<open>SwapRoutes\<close>: the rules for scripts that estimate before they send, and for the
    tables of swap paths, shared by the bot and the client; \<open>ClientRules\<close>: the locale \<open>run_relation\<close>, a
    relation between the histories before and after a run that all combinators keep.
  \<^item> \<open>SuiteData\<close>, \<open>ScenarioActions\<close>, \<open>ScenarioEngine\<close>, \<open>MakeSuite\<close>, \<open>AmmSuite\<close>: the helpers of the test suites:
    reading and comparing the state, the actions (\<open>actions.ts\<close>), the engine that checks and dispatches
    them (\<open>scenario-engine.ts\<close>), the environment and the snapshots (\<open>make-suite.ts\<close>), and the suite of the
    scenarios (\<open>scenario.spec.ts\<close>). \<open>ScenarioRules\<close>: which runs send nothing, and what a passing run has sent.
  \<^item> \<open>NetworkConfig\<close>: \<open>hardhat.config.ts\<close>, \<open>helper-hardhat-config.ts\<close> and the older \<open>buidler.config.ts\<close>.
  \<^item> The contracts under \<open>contracts/protocol\<close>. \<open>Reverts\<close>: calls that revert with a reason of \<open>Errors.sol\<close>. \<open>Bitmaps\<close>: the packed words
    of reserves and users (\<open>ReserveConfiguration.sol\<close>, \<open>UserConfiguration.sol\<close>), with the locale \<open>bit_field\<close>. \<open>Tokens\<close>:
    the aToken and the two debt tokens (\<open>tokenization\<close>). \<open>PoolReserves\<close>: the state and \<open>ReserveLogic.sol\<close>.
    \<open>PoolAccounts\<close>: \<open>GenericLogic.sol\<close> and \<open>ValidationLogic.sol\<close>. \<open>LendingPoolContract\<close>: the actions of \<open>LendingPool.sol\<close> and the
    liquidation of \<open>LendingPoolCollateralManager.sol\<close>. \<open>PoolConfigurator\<close>: \<open>LendingPoolConfigurator.sol\<close> and the batches of
    \<open>ATokensAndRatesHelper.sol\<close>.
  \<^item> \<open>PoolRules\<close>: relations between the states before and after that the parts of the actions keep, the locales
    \<open>passive_relation\<close>, \<open>action_relation\<close> and \<open>pool_relation\<close>. \<open>PoolInvariants\<close>: histories of the pool, the inductive relation
    \<open>pool_history\<close> and the locale \<open>history_relation\<close>, with the identity of the reserves, the growth of the indexes and the books of the
    tokens as interpretations. \<open>DebtRules\<close>, \<open>DebtHistory\<close>: the ledger, which ties debts to the bits of the users, as another one.
    \<open>PoolScene\<close>: a pool that is configured, used and liquidated, for the witnesses. \<open>PoolTheorems\<close>, \<open>MarketPool\<close>,
    \<open>ReferenceTheorems\<close>: the properties of the contracts, of the market files in the pool, and of the suites' expectations against the
    contracts.
  \<^item> \<open>InitTheorems\<close>, \<open>MarketTheorems\<close>, \<open>HelperTheorems\<close>, \<open>FullTheorems\<close>, \<open>MarketSetup\<close>,
    \<open>MigrationTheorems\<close>, \<open>WadRayTheorems\<close>, \<open>CalculationTheorems\<close>, \<open>AccountingTheorems\<close>,
    \<open>AutoRepayTheorems\<close>, \<open>CommandLineTheorems\<close>, \<open>LiquidationTheorems\<close>, \<open>ScenarioTheorems\<close>,
    \<open>SuiteTheorems\<close>: the properties. \<open>KnownProvider\<close>: the rules for tasks that start when the registry
    names an addresses provider.
  \<^item> \<open>Demo\<close>: a concrete runtime for the witnesses; \<open>SuiteScene\<close>: a node on which a deposit passes its checks.

  What the lemmas show. The helpers compute what their names say (batches, selections, linking,
  parameters per network, retries). The configured markets satisfy the checks of the contracts, name
  their rate strategies unambiguously and list exactly the symbols of their pool. The tasks send their
  transactions in a fixed order, on every run and not only on successful ones; after the lending pool
  task the registry names the proxies; initializing a market gives every reserve its own parameters
  and rates; a whole migration acts on one addresses provider, the one that it deploys. The error
  theorems show what a rejected batch leaves behind. The reference arithmetic and the reference rates
  agree with the contracts on 256-bit words, with the exceptions that the theorems state; the expected
  states account for every token. The bot stops after four simulations and sends nothing that it has
  not simulated; some of its swap paths lead elsewhere. The client sends nothing but approvals and
  delegations before a simulation of it has passed, revokes what it approved, signs nothing without a
  key, and takes the best quote; its liquidation bot survives every error and swaps only after a liquidation. A
  scenario that passes has sent the transactions of its plan and no others, its checks bound how far the
  chain may be from the reference calculations, and its suite restores the snapshot. After any history of the pool no debt is
  hidden from the account of its user, the balances of the tokens add up, and the indexes have not decreased; borrowing is covered,
  liquidation limited, a full repayment clears the debt, and a paused pool does nothing. The batches that the helpers build from the
  market files put exactly their values into the words of the reserves, and what the suites expect of the indexes, and of a deposit
  as a whole, is what the contracts compute.

  Bounds. Every loop of the code is over a finite list or a decreasing counter, so that the model
  needs no fuel, with three exceptions: in \<open>AutoRepayBot\<close> the recursion of \<open>repaySimulation\<close> has a depth
  bound, and four is shown to be enough; the endless loops of \<open>execute\<close> there and of the action
  \<open>liquidation-bot\<close> in \<open>LiquidationBot\<close> are stopped after a number of passes, and the theorems hold for every
  number. Requests that the code issues together (\<open>Promise.all\<close>, \<open>Promise.map\<close>) are made in the order of
  their list. Integers of JavaScript that the code only counts with are naturals or integers; values of
  \<open>uint256\<close> in \<open>MarketRules\<close>, \<open>WadRay\<close> and \<open>InterestContracts\<close> are 256-bit words, and the reverts of
  \<open>SafeMath\<close> are the value \<open>None\<close>. The contracts keep their widths: indexes and rates of 128 bits, timestamps of 40, the place of a reserve of 8;
  a pool has at most 128 reserves, and a history lets the time pass up to 40 bits. Reverted calls leave no state. Flash
  loans take the code of the receiver as a parameter, which may run a history of its own.

  Not modelled. Console output and delays. Of the contracts: events, signed permits, changes of allowances by a difference, the
  upgrades of proxies and implementations, the adapters, gateways, oracles, data providers and mocks, the addresses provider (its admins are
  fields of the state, the answers of its oracles functions), and the incentives controller, for which \<open>initReservesByHelper\<close> passes the zero
  address. The other specifications of the test suites are lists of assertions about deployed contracts. The files
  \<open>calculations.ts\<close>, \<open>actions.ts\<close>, \<open>scenario-engine.ts\<close> and \<open>helpers.ts\<close> of \<open>test-amm\<close> are those of \<open>test-aave\<close> but for an import,
  a comment and white space.
\<close>

end
